(* ===== verification/GoBase.thy ===== *)
theory GoBase
  imports Main
begin

text \<open>
  The prelude: the parts of the Go language and standard library that the components use, and
  the lemmas they share.

  A Go string is a list of bytes, so it is a \<^typ>\<open>string\<close> here (a \<^typ>\<open>char\<close> is a byte).
  UTF-8 decoding follows the Go specification: a byte that does not start a valid encoding is
  one rune of width 1 (the replacement character). \<open>TrimSpace\<close>, \<open>RuneCount\<close> and \<open>TakeRunes\<close>
  are \<open>strings.TrimSpace\<close>, \<open>utf8.RuneCountInString\<close> and the slice \<open>string([]rune(s)[:n])\<close>.
  A \<open>time.Time\<close> is an integer, the nanoseconds since Go's zero time (so the zero value is 0).
  A Go map with string keys is a partial function. Go iterates over a map in an unspecified
  order: an operation that iterates takes the order as an argument, an enumeration of the keys.
  A fallible operation returns \<open>Inl\<close> of an error or \<open>Inr\<close> of its result.
\<close>

named_theorems go_defs \<open>unfolding of the Go library functions\<close>

section \<open>Time, maps, results\<close>

type_synonym gotime = int
type_synonym duration = int
type_synonym 'v gomap = "string \<Rightarrow> 'v option"

definition IsZero :: "gotime \<Rightarrow> bool" where
  "IsZero t \<longleftrightarrow> t = 0"

text \<open>An enumeration of the keys of a map, as one run of a Go \<open>range\<close> over it.\<close>

definition map_order :: "'v gomap \<Rightarrow> string list \<Rightarrow> bool" where
  "map_order m ks \<longleftrightarrow> distinct ks \<and> set ks = dom m"

definition map_items :: "'v gomap \<Rightarrow> string list \<Rightarrow> 'v list" where
  "map_items m ks = List.map_filter m ks"

lemma map_items_Nil [simp]: "map_items m [] = []"
  by (simp add: map_items_def)

lemma map_items_Cons [simp]:
  "map_items m (k # ks) = (case m k of None \<Rightarrow> map_items m ks | Some v \<Rightarrow> v # map_items m ks)"
  by (simp add: map_items_def List.map_filter_simps split: option.split)

lemma set_map_items: "set (map_items m ks) = {v. \<exists>k \<in> set ks. m k = Some v}"
  by (induction ks) (auto split: option.splits)

lemma set_map_items_order: "map_order m ks \<Longrightarrow> set (map_items m ks) = ran m"
  by (auto simp: set_map_items map_order_def ran_def)

text \<open>A non-positive limit means no limit, as the list operations of the code have it.\<close>

definition limit_list :: "int \<Rightarrow> 'a list \<Rightarrow> 'a list" where
  "limit_list n xs = (if 0 < n \<and> n < int (length xs) then take (nat n) xs else xs)"

lemma set_limit_list: "set (limit_list n xs) \<subseteq> set xs"
  by (auto simp: limit_list_def dest: in_set_takeD)

lemma length_limit_list: "0 < n \<Longrightarrow> int (length (limit_list n xs)) \<le> n"
  by (auto simp: limit_list_def)

section \<open>UTF-8\<close>

definition byte :: "char \<Rightarrow> nat" where
  "byte c = of_char c"

definition byte_in :: "nat \<Rightarrow> nat \<Rightarrow> char \<Rightarrow> bool" where
  "byte_in lo hi c \<longleftrightarrow> lo \<le> byte c \<and> byte c \<le> hi"

definition cont_byte :: "char \<Rightarrow> bool" where
  "cont_byte c \<longleftrightarrow> byte_in 128 191 c"

text \<open>The second byte of a three- or four-byte encoding: no overlong form, no surrogate.\<close>

definition second_ok :: "char \<Rightarrow> char \<Rightarrow> bool" where
  "second_ok b0 b1 \<longleftrightarrow>
     (if byte b0 = 224 then byte_in 160 191 b1
      else if byte b0 = 237 then byte_in 128 159 b1
      else if byte b0 = 240 then byte_in 144 191 b1
      else if byte b0 = 244 then byte_in 128 143 b1
      else cont_byte b1)"

fun rune_width :: "string \<Rightarrow> nat" where
  "rune_width [] = 0"
| "rune_width [b0] = 1"
| "rune_width [b0, b1] =
     (if byte_in 194 223 b0 \<and> cont_byte b1 then 2 else 1)"
| "rune_width [b0, b1, b2] =
     (if byte_in 194 223 b0 \<and> cont_byte b1 then 2
      else if byte_in 224 239 b0 \<and> second_ok b0 b1 \<and> cont_byte b2 then 3 else 1)"
| "rune_width (b0 # b1 # b2 # b3 # bs) =
     (if byte_in 194 223 b0 \<and> cont_byte b1 then 2
      else if byte_in 224 239 b0 \<and> second_ok b0 b1 \<and> cont_byte b2 then 3
      else if byte_in 240 244 b0 \<and> second_ok b0 b1 \<and> cont_byte b2 \<and> cont_byte b3 then 4
      else 1)"

lemma rune_width_pos: "s \<noteq> [] \<Longrightarrow> 1 \<le> rune_width s"
  by (cases s rule: rune_width.cases) auto

lemma rune_width_le: "rune_width s \<le> length s"
  by (cases s rule: rune_width.cases) auto

text \<open>An encoding is recognised from its own bytes alone.\<close>

lemma rune_width_take:
  assumes "rune_width s \<le> n"
  shows "rune_width (take n s) = rune_width s"
proof (cases s rule: rune_width.cases)
  case (5 b0 b1 b2 b3 bs)
  have "n = 0 \<or> n = 1 \<or> n = 2 \<or> n = 3 \<or> (\<exists>k. n = Suc (Suc (Suc (Suc k))))"
    by presburger
  with assms 5 show ?thesis
    by (auto simp: numeral_2_eq_2 numeral_3_eq_3 byte_in_def split: if_splits)
next
  case (4 b0 b1 b2)
  have "n = 0 \<or> n = 1 \<or> n = 2 \<or> (\<exists>k. n = Suc (Suc (Suc k)))" by presburger
  with assms 4 show ?thesis
    by (auto simp: numeral_2_eq_2 numeral_3_eq_3 byte_in_def split: if_splits)
next
  case (3 b0 b1)
  have "n = 0 \<or> n = 1 \<or> (\<exists>k. n = Suc (Suc k))" by presburger
  with assms 3 show ?thesis by (auto simp: numeral_2_eq_2 split: if_splits)
next
  case (2 b0)
  with assms show ?thesis by (cases n) auto
qed simp

text \<open>The runes of a string, each as the bytes that encode it.\<close>

function runes :: "string \<Rightarrow> string list" where
  "runes s = (if s = [] then [] else take (rune_width s) s # runes (drop (rune_width s) s))"
  by pat_completeness auto
termination
proof (relation "measure length")
  fix s :: string
  assume "s \<noteq> []"
  with rune_width_pos [of s] show "(drop (rune_width s) s, s) \<in> measure length"
    by simp
qed simp

declare runes.simps [simp del]

lemma runes_Nil [simp]: "runes [] = []"
  by (simp add: runes.simps)

lemma runes_step:
  "s \<noteq> [] \<Longrightarrow> runes s = take (rune_width s) s # runes (drop (rune_width s) s)"
  by (simp add: runes.simps)

lemma runes_eq_Nil [simp]: "runes s = [] \<longleftrightarrow> s = []"
  by (subst runes.simps) auto

lemma concat_runes [simp]: "concat (runes s) = s"
  by (induction s rule: runes.induct) (metis append_take_drop_id concat.simps(1,2) runes.simps)

lemma runes_nonempty: "r \<in> set (runes s) \<Longrightarrow> r \<noteq> []"
proof (induction s rule: runes.induct)
  case (1 s)
  show ?case
  proof (cases "s = []")
    case True
    with "1.prems" show ?thesis by simp
  next
    case False
    with "1.prems" runes_step have "r = take (rune_width s) s \<or> r \<in> set (runes (drop (rune_width s) s))"
      by simp
    moreover from False rune_width_pos have "take (rune_width s) s \<noteq> []"
      by (metis One_nat_def not_one_le_zero take_eq_Nil)
    ultimately show ?thesis using "1.IH" False by auto
  qed
qed

text \<open>Decoding a concatenation of runes of a string gives these runes back.\<close>

lemma runes_prefix: "runes (concat (take n (runes s))) = take n (runes s)"
proof (induction s arbitrary: n rule: runes.induct)
  case (1 s)
  show ?case
  proof (cases "s = [] \<or> n = 0")
    case True
    then show ?thesis by auto
  next
    case False
    then obtain m where n: "n = Suc m" and s: "s \<noteq> []" by (cases n) auto
    let ?w = "rune_width s"
    let ?rest = "concat (take m (runes (drop ?w s)))"
    let ?t = "take ?w s @ ?rest"
    have t: "concat (take n (runes s)) = ?t" using n s by (simp add: runes_step)
    have pre: "?t = take (length ?t) s"
    proof -
      have "concat (runes (drop ?w s)) = ?rest @ concat (drop m (runes (drop ?w s)))"
        by (metis append_take_drop_id concat_append)
      then have "s = ?t @ concat (drop m (runes (drop ?w s)))"
        by (metis append.assoc append_take_drop_id concat_runes)
      then show ?thesis by (metis append_eq_conv_conj)
    qed
    have len: "?w \<le> length ?t" using rune_width_le [of s] by simp
    have w: "rune_width ?t = ?w"
      using rune_width_take [OF len] pre by simp
    have ne: "?t \<noteq> []" using s rune_width_pos [OF s] by auto
    have tk: "take ?w ?t = take ?w s" and dr: "drop ?w ?t = ?rest"
      using rune_width_le [of s] by simp_all
    have "runes ?t = take ?w s # runes ?rest"
      using runes_step [OF ne] w tk dr by simp
    also have "runes ?rest = take m (runes (drop ?w s))"
      using "1.IH" [OF s] .
    finally show ?thesis using t n s by (simp add: runes_step)
  qed
qed

lemma runes_suffix: "runes (concat (drop n (runes s))) = drop n (runes s)"
proof (induction s arbitrary: n rule: runes.induct)
  case (1 s)
  show ?case
  proof (cases "s = [] \<or> n = 0")
    case True
    then show ?thesis by auto
  next
    case False
    then obtain m where "n = Suc m" and s: "s \<noteq> []" by (cases n) auto
    then show ?thesis using "1.IH" [OF s] by (simp add: runes_step)
  qed
qed

lemma runes_concat_infix: "runes (concat (take m (drop n (runes s)))) = take m (drop n (runes s))"
  by (metis runes_prefix runes_suffix)

definition RuneCount :: "string \<Rightarrow> nat" where
  "RuneCount s = length (runes s)"

lemma RuneCount_Nil [simp]: "RuneCount [] = 0"
  by (simp add: RuneCount_def)

lemma RuneCount_eq_0 [simp]: "RuneCount s = 0 \<longleftrightarrow> s = []"
  by (simp add: RuneCount_def)

text \<open>
  A slice of runes turned back into a string: \<open>string(rs)\<close> encodes each rune, so a byte that
  was no encoding comes out as the replacement character.
\<close>

definition encode_rune :: "string \<Rightarrow> string" where
  "encode_rune r =
     (case r of [b] \<Rightarrow> if byte b < 128 then r else [CHR 0xEF, CHR 0xBF, CHR 0xBD] | _ \<Rightarrow> r)"

definition from_runes :: "string list \<Rightarrow> string" where
  "from_runes rs = concat (map encode_rune rs)"

definition TakeRunes :: "nat \<Rightarrow> string \<Rightarrow> string" where
  "TakeRunes n s = from_runes (take n (runes s))"

text \<open>A whole encoding is decoded first, whatever follows it.\<close>

definition encoding :: "string \<Rightarrow> bool" where
  "encoding r \<longleftrightarrow> r \<noteq> [] \<and> rune_width r = length r \<and> (length r = 1 \<longrightarrow> byte (hd r) < 128)"

lemma rune_width_encoding:
  assumes "encoding r"
  shows "rune_width (r @ s) = length r"
proof -
  have "rune_width [b0, b1] = 2 \<Longrightarrow> rune_width (b0 # b1 # s) = 2" for b0 b1
    by (cases "b0 # b1 # s" rule: rune_width.cases) (auto split: if_splits)
  moreover have "rune_width [b0, b1, b2] = 3 \<Longrightarrow> rune_width (b0 # b1 # b2 # s) = 3" for b0 b1 b2
    by (cases "b0 # b1 # b2 # s" rule: rune_width.cases) (auto split: if_splits)
  moreover have "byte b0 < 128 \<Longrightarrow> rune_width (b0 # s) = 1" for b0
    by (cases "b0 # s" rule: rune_width.cases) (auto simp: byte_in_def)
  ultimately show ?thesis
    using assms
    by (cases r rule: rune_width.cases) (auto simp: encoding_def split: if_splits)
qed

lemma runes_encodings: "list_all encoding rs \<Longrightarrow> runes (concat rs) = rs"
proof (induction rs)
  case (Cons r rs)
  then have "r @ concat rs \<noteq> []" by (simp add: encoding_def)
  with Cons show ?case by (simp add: runes_step rune_width_encoding)
qed simp

lemma rune_width_bounds: "rune_width s \<le> 4"
  by (cases s rule: rune_width.cases) auto

lemma encoding_encode_rune: "r \<in> set (runes s) \<Longrightarrow> encoding (encode_rune r)"
proof (induction s rule: runes.induct)
  case (1 s)
  then have s: "s \<noteq> []" by auto
  define r where "r = take (rune_width s) s"
  have w: "rune_width r = length r" "r \<noteq> []"
    using rune_width_take [of s "rune_width s"] rune_width_le [of s] rune_width_pos [OF s] s
    by (auto simp: r_def)
  have "encoding (encode_rune r)"
  proof (cases "length r = 1")
    case True
    then obtain b where "r = [b]" by (metis length_0_conv length_Suc_conv One_nat_def)
    then show ?thesis
      by (simp add: encode_rune_def encoding_def byte_in_def byte_def second_ok_def cont_byte_def)
  next
    case False
    then have "encode_rune r = r" by (auto simp: encode_rune_def split: list.split)
    with False w show ?thesis by (simp add: encoding_def)
  qed
  with 1 s show ?case by (auto simp: runes_step r_def)
qed

lemma runes_from_runes:
  "set rs \<subseteq> set (runes s) \<Longrightarrow> runes (from_runes rs) = map encode_rune rs"
  unfolding from_runes_def
  by (rule runes_encodings) (auto simp: list_all_iff encoding_encode_rune)

lemma RuneCount_TakeRunes: "RuneCount (TakeRunes n s) = min n (RuneCount s)"
  using runes_from_runes [OF set_take_subset, of n s]
  by (simp add: RuneCount_def TakeRunes_def min.commute)

end
