(* ===== verification/GoStrings.thy ===== *)
theory GoStrings
  imports GoBase
begin

text \<open>
  The functions of Go's \<open>strings\<close> and \<open>unicode\<close> packages that the components call, over the
  UTF-8 decoding of \<open>GoBase\<close>, and the laws the component proofs use: trimming is idempotent,
  never lengthens a string, and a trimmed non-empty string is not blank.
  The lower-case table of non-ASCII letters is a parameter (\<open>low\<close>, from the bytes of one rune
  to the bytes of its lower case): no property depends on its values.
\<close>

section \<open>Trimming\<close>

definition rune_value :: "string \<Rightarrow> nat" where
  "rune_value r =
     (case r of
        [b0] \<Rightarrow> (if byte b0 < 128 then byte b0 else 65533)
      | [b0, b1] \<Rightarrow> (byte b0 mod 32) * 64 + byte b1 mod 64
      | [b0, b1, b2] \<Rightarrow> (byte b0 mod 16) * 4096 + (byte b1 mod 64) * 64 + byte b2 mod 64
      | [b0, b1, b2, b3] \<Rightarrow>
          (byte b0 mod 8) * 262144 + (byte b1 mod 64) * 4096 + (byte b2 mod 64) * 64 + byte b3 mod 64
      | _ \<Rightarrow> 65533)"

definition IsSpace :: "string \<Rightarrow> bool" where
  "IsSpace r \<longleftrightarrow>
     (let v = rune_value r
      in 9 \<le> v \<and> v \<le> 13 \<or> v = 32 \<or> v = 133 \<or> v = 160 \<or> v = 5760 \<or> 8192 \<le> v \<and> v \<le> 8202
         \<or> v = 8232 \<or> v = 8233 \<or> v = 8239 \<or> v = 8287 \<or> v = 12288)"

definition trim_list :: "('a \<Rightarrow> bool) \<Rightarrow> 'a list \<Rightarrow> 'a list" where
  "trim_list P xs = rev (dropWhile P (rev (dropWhile P xs)))"

definition TrimSpace :: "string \<Rightarrow> string" where
  "TrimSpace s = concat (trim_list IsSpace (runes s))"

text \<open>\<open>strings.Trim\<close> with a cut set of ASCII characters, which works on single bytes.\<close>

definition TrimASCII :: "string \<Rightarrow> string \<Rightarrow> string" where
  "TrimASCII cutset s = trim_list (\<lambda>c. c \<in> set cutset) s"

abbreviation blank :: "string \<Rightarrow> bool" where
  "blank s \<equiv> TrimSpace s = []"

lemma trim_list_Nil [simp]: "trim_list P [] = []"
  by (simp add: trim_list_def)

lemma trim_list_infix: "\<exists>m n. trim_list P xs = take m (drop n xs)"
proof -
  let ?d = "dropWhile P xs"
  obtain n where n: "?d = drop n xs"
    by (metis dropWhile_eq_drop)
  have "rev (dropWhile P (rev ?d)) = take (length ?d - length (takeWhile P (rev ?d))) ?d"
    by (metis dropWhile_eq_drop rev_rev_ident rev_drop length_rev)
  then show ?thesis unfolding trim_list_def using n by metis
qed

lemma dropWhile_rev_idem:
  "xs = [] \<or> \<not> P (hd xs) \<Longrightarrow> dropWhile P (rev (dropWhile P (rev xs))) = rev (dropWhile P (rev xs))"
proof (induction xs rule: rev_induct)
  case Nil
  then show ?case by simp
next
  case (snoc x xs)
  show ?case
  proof (cases "P x")
    case True
    with snoc.prems have "xs = [] \<or> \<not> P (hd xs)" by (cases xs) auto
    with snoc.IH True show ?thesis by simp
  next
    case False
    with snoc.prems show ?thesis by (cases xs) auto
  qed
qed

lemma trim_list_idem [simp]: "trim_list P (trim_list P xs) = trim_list P xs"
proof -
  let ?d = "dropWhile P xs"
  have "?d = [] \<or> \<not> P (hd ?d)" by (metis hd_dropWhile)
  then have "dropWhile P (trim_list P xs) = trim_list P xs"
    unfolding trim_list_def by (rule dropWhile_rev_idem)
  moreover have "dropWhile P (rev (trim_list P xs)) = rev (trim_list P xs)"
    by (simp add: trim_list_def)
  ultimately show ?thesis unfolding trim_list_def [of P "trim_list P xs"] by simp
qed

lemma length_trim_list: "length (trim_list P xs) \<le> length xs"
  by (metis length_drop length_take min.cobounded1 min.coboundedI1 trim_list_infix diff_le_self le_trans)

lemma runes_TrimSpace: "runes (TrimSpace s) = trim_list IsSpace (runes s)"
proof -
  obtain m n where "trim_list IsSpace (runes s) = take m (drop n (runes s))"
    using trim_list_infix by blast
  then show ?thesis by (simp add: TrimSpace_def runes_concat_infix)
qed

lemma TrimSpace_idem [simp]: "TrimSpace (TrimSpace s) = TrimSpace s"
  by (simp add: TrimSpace_def [of "TrimSpace s"] runes_TrimSpace) (simp add: TrimSpace_def)

lemma TrimSpace_Nil [simp]: "TrimSpace [] = []"
  by (simp add: TrimSpace_def)

lemma RuneCount_TrimSpace: "RuneCount (TrimSpace s) \<le> RuneCount s"
  by (simp add: RuneCount_def runes_TrimSpace length_trim_list)

lemma not_blank_nonempty: "\<not> blank s \<Longrightarrow> s \<noteq> []"
  by auto

lemma TrimASCII_idem [simp]: "TrimASCII cs (TrimASCII cs s) = TrimASCII cs s"
  by (simp add: TrimASCII_def)

text \<open>Strings of visible ASCII characters, such as most identifiers, are their own trimming.\<close>

definition visible :: "char \<Rightarrow> bool" where
  "visible c \<longleftrightarrow> byte_in 33 126 c"

lemma rune_width_ascii: "byte c < 128 \<Longrightarrow> rune_width (c # s) = 1"
  by (cases "c # s" rule: rune_width.cases) (auto simp: byte_in_def)

lemma runes_ascii: "list_all (\<lambda>c. byte c < 128) s \<Longrightarrow> runes s = map (\<lambda>c. [c]) s"
  by (induction s) (auto simp: runes_step rune_width_ascii)

lemma trim_list_none: "list_all (\<lambda>x. \<not> P x) xs \<Longrightarrow> trim_list P xs = xs"
proof -
  assume "list_all (\<lambda>x. \<not> P x) xs"
  then have "dropWhile P xs = xs" "dropWhile P (rev xs) = rev xs"
    by (auto simp: list_all_iff dropWhile_eq_self_iff) (metis hd_in_set rev_is_Nil_conv set_rev)
  then show ?thesis by (simp add: trim_list_def)
qed

lemma IsSpace_visible: "visible c \<Longrightarrow> \<not> IsSpace [c]"
  by (auto simp: visible_def byte_in_def IsSpace_def rune_value_def)

lemma visible_ascii: "list_all visible s \<Longrightarrow> list_all (\<lambda>c. byte c < 128) s"
  by (auto simp: list_all_iff visible_def byte_in_def)

lemma TrimSpace_visible: "list_all visible s \<Longrightarrow> TrimSpace s = s"
  using visible_ascii [of s]
  by (simp add: TrimSpace_def runes_ascii trim_list_none list_all_iff IsSpace_visible)

lemma RuneCount_visible: "list_all visible s \<Longrightarrow> RuneCount s = length s"
  using visible_ascii [of s] by (simp add: RuneCount_def runes_ascii)

lemma not_blank_Cons: "visible c \<Longrightarrow> \<not> blank (c # s)"
proof -
  assume c: "visible c"
  then have "byte c < 128" by (simp add: visible_def byte_in_def)
  then have "runes (c # s) = [c] # runes s" by (simp add: runes_step rune_width_ascii)
  moreover have "[c] \<in> set (trim_list IsSpace ([c] # xs))" for xs
    using IsSpace_visible [OF c] by (auto simp: trim_list_def dropWhile_append)
  ultimately show "\<not> blank (c # s)" by (force simp: TrimSpace_def)
qed

lemma RuneCount_le_length: "RuneCount s \<le> length s"
proof (induction s rule: runes.induct)
  case (1 s)
  show ?case
  proof (cases "s = []")
    case False
    then show ?thesis
      using 1 rune_width_pos [of s] rune_width_le [of s] by (simp add: RuneCount_def runes_step)
  qed simp
qed

lemma RuneCount_short: "length s \<le> n \<Longrightarrow> \<not> n < RuneCount s"
  using RuneCount_le_length [of s] by simp

lemmas visible_eval = TrimSpace_visible RuneCount_visible visible_def byte_in_def byte_def

section \<open>Searching and splitting\<close>

definition HasPrefix :: "string \<Rightarrow> string \<Rightarrow> bool" where
  "HasPrefix s p \<longleftrightarrow> take (length p) s = p"

fun Contains :: "string \<Rightarrow> string \<Rightarrow> bool" where
  "Contains [] p \<longleftrightarrow> p = []"
| "Contains (c # s) p \<longleftrightarrow> HasPrefix (c # s) p \<or> Contains s p"

definition ContainsAny :: "string \<Rightarrow> string \<Rightarrow> bool" where
  "ContainsAny s cs \<longleftrightarrow> list_ex (\<lambda>c. c \<in> set cs) s"

text \<open>\<open>strings.Split\<close> at a one-byte separator.\<close>

fun split_at :: "char \<Rightarrow> string \<Rightarrow> string list" where
  "split_at c [] = [[]]"
| "split_at c (x # xs) =
     (if x = c then [] # split_at c xs
      else (case split_at c xs of [] \<Rightarrow> [[x]] | f # fs \<Rightarrow> (x # f) # fs))"

text \<open>\<open>strings.FieldsFunc\<close>: the maximal runs of runes that do not satisfy the predicate.\<close>

fun fields_from :: "(string \<Rightarrow> bool) \<Rightarrow> string list \<Rightarrow> string \<Rightarrow> string list" where
  "fields_from P [] cur = (if cur = [] then [] else [cur])"
| "fields_from P (r # rs) cur =
     (if P r then (if cur = [] then fields_from P rs [] else cur # fields_from P rs [])
      else fields_from P rs (cur @ r))"

definition FieldsFunc :: "(string \<Rightarrow> bool) \<Rightarrow> string \<Rightarrow> string list" where
  "FieldsFunc P s = fields_from P (runes s) []"

fun join :: "string \<Rightarrow> string list \<Rightarrow> string" where
  "join sep [] = []"
| "join sep [x] = x"
| "join sep (x # y # ys) = x @ sep @ join sep (y # ys)"

lemma split_at_nonempty: "split_at c s \<noteq> []"
  by (induction s) (auto split: list.splits)

lemma join_Cons: "ys \<noteq> [] \<Longrightarrow> join sep (x # ys) = x @ sep @ join sep ys"
  by (cases ys) auto

lemma split_at_join: "join [c] (split_at c s) = s"
proof (induction s)
  case (Cons x xs)
  obtain f fs where "split_at c xs = f # fs"
    using split_at_nonempty by (meson list.exhaust)
  with Cons show ?case by (cases fs) (auto simp: join_Cons)
qed simp

lemma fields_from_nonempty:
  "[] \<notin> set (fields_from P rs cur)"
  by (induction P rs cur rule: fields_from.induct) auto

section \<open>Letter case\<close>

definition lower_byte :: "char \<Rightarrow> char" where
  "lower_byte c =
     (if byte_in 65 90 c
      then (case c of Char b0 b1 b2 b3 b4 b5 b6 b7 \<Rightarrow> Char b0 b1 b2 b3 b4 True b6 b7)
      else c)"

text \<open>An upper-case letter differs from its lower case in the bit of value 32.\<close>

lemma byte_lower_byte: "byte_in 65 90 c \<Longrightarrow> byte (lower_byte c) = byte c + 32"
  by (cases c) (auto simp: lower_byte_def byte_def byte_in_def of_char_def of_bool_def split: if_splits)

text \<open>
  The lower case of one rune: ASCII by arithmetic; U+0130 and U+212A, the only other letters
  whose lower case is ASCII, by their entries; any other rune by the parameter.
\<close>

definition lower_rune :: "(string \<Rightarrow> string) \<Rightarrow> string \<Rightarrow> string" where
  "lower_rune low r =
     (case r of
        [c] \<Rightarrow> (if byte c < 128 then [lower_byte c] else low r)
      | _ \<Rightarrow> (if rune_value r = 304 then ''i'' else if rune_value r = 8490 then ''k'' else low r))"

definition ToLower :: "(string \<Rightarrow> string) \<Rightarrow> string \<Rightarrow> string" where
  "ToLower low s = concat (map (lower_rune low) (runes s))"

text \<open>
  \<open>strings.EqualFold\<close> against a word of lower-case ASCII letters: simple case folding adds
  U+212A to the forms of k and U+017F to those of s.
\<close>

definition fold_matches :: "string \<Rightarrow> char \<Rightarrow> bool" where
  "fold_matches r c \<longleftrightarrow>
     (case r of [b] \<Rightarrow> lower_byte b = c | _ \<Rightarrow> False)
     \<or> c = CHR ''k'' \<and> rune_value r = 8490 \<or> c = CHR ''s'' \<and> rune_value r = 383"

definition EqualFoldWord :: "string \<Rightarrow> string \<Rightarrow> bool" where
  "EqualFoldWord s w \<longleftrightarrow> list_all2 fold_matches (runes s) w"

lemmas go_string_defs [go_defs] =
  TrimSpace_def TrimASCII_def HasPrefix_def ContainsAny_def FieldsFunc_def ToLower_def
  lower_rune_def lower_byte_def EqualFoldWord_def fold_matches_def rune_value_def IsSpace_def
  byte_def byte_in_def cont_byte_def second_ok_def trim_list_def RuneCount_def TakeRunes_def

end
