(* ===== verification/Workspace.thy ===== *)
theory Workspace
  imports GoStrings
begin

text \<open>
  \<open>core/domain/workspace\<close>: isolation modes, workspace references and change sets, and
  \<open>core/port/model/token_usage.go\<close>: token counters with their sum. A pointer to a time is an
  optional time; the \<open>Clone\<close> functions copy pointers and slices, so on values they are the
  identity.
\<close>

datatype IsolationMode =
    IsolationModeDirect
  | IsolationModeSnapshot
  | IsolationModeGitWorktree
  | IsolationModeOpenSandbox
  | IsolationModeOther string

definition IsolationMode_text :: "IsolationMode \<Rightarrow> string" where
  "IsolationMode_text m =
     (case m of IsolationModeDirect \<Rightarrow> ''direct'' | IsolationModeSnapshot \<Rightarrow> ''snapshot''
      | IsolationModeGitWorktree \<Rightarrow> ''git_worktree'' | IsolationModeOpenSandbox \<Rightarrow> ''opensandbox''
      | IsolationModeOther s \<Rightarrow> s)"

definition NormalizeIsolationMode :: "IsolationMode \<Rightarrow> IsolationMode" where
  "NormalizeIsolationMode mode =
     (case mode of IsolationModeOther _ \<Rightarrow> IsolationModeSnapshot | _ \<Rightarrow> mode)"

text \<open>\<open>True\<close> when the code returns no error.\<close>

definition ValidateIsolationMode :: "IsolationMode \<Rightarrow> bool" where
  "ValidateIsolationMode mode =
     (if blank (IsolationMode_text mode) then True
      else (case mode of IsolationModeOther _ \<Rightarrow> False | _ \<Rightarrow> True))"

record Reference =
  ref_ID :: string
  ref_Mode :: IsolationMode
  ref_Root :: string
  ref_SourceRoot :: string
  ref_SandboxID :: string

datatype ChangeSetStatus =
    ChangeSetStatusNone
  | ChangeSetStatusPending
  | ChangeSetStatusApplied
  | ChangeSetStatusDiscarded
  | ChangeSetStatusConflict
  | ChangeSetStatusOther string

datatype FileChangeType =
    FileChangeAdded
  | FileChangeModified
  | FileChangeDeleted
  | FileChangeOther string

record FileChange =
  fc_Path :: string
  fc_ChangeType :: FileChangeType
  fc_BeforeHash :: string
  fc_AfterHash :: string
  fc_BeforeSize :: int
  fc_AfterSize :: int

record ChangeSet =
  cs_WorkspaceID :: string
  cs_Status :: ChangeSetStatus
  cs_Files :: "FileChange list"
  cs_CheckpointID :: string
  cs_Message :: string
  cs_CreatedAt :: gotime
  cs_AppliedAt :: "gotime option"
  cs_DiscardedAt :: "gotime option"

lemma NormalizeIsolationMode_idem [simp]:
  "NormalizeIsolationMode (NormalizeIsolationMode m) = NormalizeIsolationMode m"
  by (simp add: NormalizeIsolationMode_def split: IsolationMode.splits)

lemma ValidateIsolationMode_normalized [simp]: "ValidateIsolationMode (NormalizeIsolationMode m)"
  by (simp add: ValidateIsolationMode_def NormalizeIsolationMode_def split: IsolationMode.splits)

section \<open>Token usage\<close>

datatype TokenUsage =
  TokenUsage (PromptTokens: int) (CompletionTokens: int) (TotalTokens: int)
    (ReasoningTokens: int) (UsageAvailable: bool) (PromptCachedTokens: int)

definition TokenUsage_Add :: "TokenUsage \<Rightarrow> TokenUsage \<Rightarrow> TokenUsage" where
  "TokenUsage_Add u next =
     TokenUsage (PromptTokens u + PromptTokens next)
       (CompletionTokens u + CompletionTokens next)
       (TotalTokens u + TotalTokens next)
       (ReasoningTokens u + ReasoningTokens next)
       (UsageAvailable u \<or> UsageAvailable next)
       (PromptCachedTokens u + PromptCachedTokens next)"

text \<open>
  With the Go zero value as zero, usage counters form a commutative monoid, so the library's
  sums (\<^const>\<open>sum_list\<close>) apply to the usage of a run over its rounds.
\<close>

instantiation TokenUsage :: comm_monoid_add
begin

definition zero_TokenUsage :: TokenUsage where
  "zero_TokenUsage = TokenUsage 0 0 0 0 False 0"

definition plus_TokenUsage :: "TokenUsage \<Rightarrow> TokenUsage \<Rightarrow> TokenUsage" where
  "plus_TokenUsage = TokenUsage_Add"

instance
proof
  fix a b c :: TokenUsage
  show "a + b + c = a + (b + c)"
    by (simp add: plus_TokenUsage_def TokenUsage_Add_def ac_simps)
  show "a + b = b + a"
    by (auto simp: plus_TokenUsage_def TokenUsage_Add_def ac_simps)
  show "0 + a = a"
    by (simp add: plus_TokenUsage_def zero_TokenUsage_def TokenUsage_Add_def)
qed

end

lemma usage_selectors_add [simp]:
  "PromptTokens (a + b) = PromptTokens a + PromptTokens b"
  "CompletionTokens (a + b) = CompletionTokens a + CompletionTokens b"
  "TotalTokens (a + b) = TotalTokens a + TotalTokens b"
  "UsageAvailable (a + b) \<longleftrightarrow> UsageAvailable a \<or> UsageAvailable b"
  by (simp_all add: plus_TokenUsage_def TokenUsage_Add_def)

end
