(* ===== verification/SubagentDefinition.thy ===== *)
theory SubagentDefinition
  imports Workspace
begin

text \<open>
  \<open>core/domain/subagent/definition.go\<close>: subagent definitions, their validation, their
  normalisation and the snapshot a task carries. Validation returns the first failing check, as
  the early returns of the code do. Slices are lists (a nil slice is the empty list).
\<close>

definition MaxDefinitionNameRunes :: nat where "MaxDefinitionNameRunes = 100"
definition MaxDefinitionDescriptionRunes :: nat where "MaxDefinitionDescriptionRunes = 1000"
definition MaxSystemPromptRunes :: nat where "MaxSystemPromptRunes = 12000"
definition MaxAllowedTools :: nat where "MaxAllowedTools = 128"
definition DefaultMaxTurns :: int where "DefaultMaxTurns = 12"
definition DefaultTimeoutSeconds :: int where "DefaultTimeoutSeconds = 300"
definition MaxTimeoutSeconds :: int where "MaxTimeoutSeconds = 3600"

lemmas definition_limits =
  MaxDefinitionNameRunes_def MaxDefinitionDescriptionRunes_def MaxSystemPromptRunes_def
  MaxAllowedTools_def DefaultMaxTurns_def DefaultTimeoutSeconds_def MaxTimeoutSeconds_def

datatype DefinitionSource =
    DefinitionSourceBuiltin
  | DefinitionSourceUser
  | DefinitionSourceUnset
  | DefinitionSourceOther string

datatype CapabilityMode =
    CapabilityModeReadOnly
  | CapabilityModeReadWrite
  | CapabilityModeExecute
  | CapabilityModeAll
  | CapabilityModeUnset
  | CapabilityModeOther string

record Definition =
  def_ID :: string
  def_Name :: string
  def_Description :: string
  def_SystemPrompt :: string
  def_ModelID :: string
  def_AllowedTools :: "string list"
  def_CapabilityMode :: CapabilityMode
  def_IsolationMode :: IsolationMode
  def_MaxTurns :: int
  def_TimeoutSeconds :: int
  def_Enabled :: bool
  def_Version :: int
  def_Source :: DefinitionSource
  def_Deleted :: bool
  def_DeletedAt :: "gotime option"
  def_CreatedAt :: gotime
  def_UpdatedAt :: gotime

record DefinitionSnapshot =
  snap_ID :: string
  snap_Name :: string
  snap_SystemPrompt :: string
  snap_ModelID :: string
  snap_AllowedTools :: "string list"
  snap_CapabilityMode :: CapabilityMode
  snap_IsolationMode :: IsolationMode
  snap_MaxTurns :: int
  snap_TimeoutSeconds :: int
  snap_Version :: int

datatype definition_error =
    DefIDRequired
  | DefNameRequired
  | DefNameTooLong
  | DefDescriptionTooLong
  | DefPromptRequired
  | DefPromptTooLong
  | DefTooManyTools
  | DefBadCapability CapabilityMode
  | DefBadIsolation IsolationMode
  | DefBadMaxTurns
  | DefBadTimeout
  | DefToolNameRequired
  | DefDuplicateTool string

definition validateCapabilityMode :: "CapabilityMode \<Rightarrow> definition_error option" where
  "validateCapabilityMode mode =
     (case mode of CapabilityModeOther _ \<Rightarrow> Some (DefBadCapability mode) | _ \<Rightarrow> None)"

text \<open>The loop of \<open>validateToolNames\<close>, with the trimmed names seen so far.\<close>

fun validateToolNames_from :: "string list \<Rightarrow> string list \<Rightarrow> definition_error option" where
  "validateToolNames_from seen [] = None"
| "validateToolNames_from seen (name # names) =
     (let n = TrimSpace name
      in if n = [] then Some DefToolNameRequired
         else if n \<in> set seen then Some (DefDuplicateTool n)
         else validateToolNames_from (n # seen) names)"

definition validateToolNames :: "string list \<Rightarrow> definition_error option" where
  "validateToolNames names = validateToolNames_from [] names"

fun normalizeToolNames_from :: "string list \<Rightarrow> string list \<Rightarrow> string list" where
  "normalizeToolNames_from seen [] = []"
| "normalizeToolNames_from seen (name # names) =
     (let n = TrimSpace name
      in if n = [] then normalizeToolNames_from seen names
         else if n \<in> set seen then normalizeToolNames_from seen names
         else n # normalizeToolNames_from (n # seen) names)"

definition normalizeToolNames :: "string list \<Rightarrow> string list" where
  "normalizeToolNames names = normalizeToolNames_from [] names"

definition Definition_Validate :: "Definition \<Rightarrow> definition_error option" where
  "Definition_Validate d =
     (let maxTurns = (if def_MaxTurns d = 0 then DefaultMaxTurns else def_MaxTurns d);
          timeout = (if def_TimeoutSeconds d = 0 then DefaultTimeoutSeconds
                     else def_TimeoutSeconds d)
      in if blank (def_ID d) then Some DefIDRequired
         else if blank (def_Name d) then Some DefNameRequired
         else if RuneCount (def_Name d) > MaxDefinitionNameRunes then Some DefNameTooLong
         else if RuneCount (def_Description d) > MaxDefinitionDescriptionRunes
           then Some DefDescriptionTooLong
         else if blank (def_SystemPrompt d) then Some DefPromptRequired
         else if RuneCount (def_SystemPrompt d) > MaxSystemPromptRunes then Some DefPromptTooLong
         else if length (def_AllowedTools d) > MaxAllowedTools then Some DefTooManyTools
         else case validateCapabilityMode (def_CapabilityMode d) of
           Some e \<Rightarrow> Some e
         | None \<Rightarrow>
             if \<not> ValidateIsolationMode (def_IsolationMode d)
               then Some (DefBadIsolation (def_IsolationMode d))
             else if maxTurns < 1 \<or> maxTurns > 64 then Some DefBadMaxTurns
             else if timeout < 1 \<or> timeout > MaxTimeoutSeconds then Some DefBadTimeout
             else validateToolNames (def_AllowedTools d))"

definition Definition_Normalized :: "Definition \<Rightarrow> Definition" where
  "Definition_Normalized d =
     d\<lparr>def_ID := TrimSpace (def_ID d),
       def_Name := TrimSpace (def_Name d),
       def_Description := TrimSpace (def_Description d),
       def_SystemPrompt := TrimSpace (def_SystemPrompt d),
       def_ModelID := TrimSpace (def_ModelID d),
       def_AllowedTools := normalizeToolNames (def_AllowedTools d),
       def_CapabilityMode :=
         (case def_CapabilityMode d of CapabilityModeUnset \<Rightarrow> CapabilityModeReadOnly | m \<Rightarrow> m),
       def_IsolationMode := NormalizeIsolationMode (def_IsolationMode d),
       def_MaxTurns := (if def_MaxTurns d = 0 then DefaultMaxTurns else def_MaxTurns d),
       def_TimeoutSeconds :=
         (if def_TimeoutSeconds d = 0 then DefaultTimeoutSeconds else def_TimeoutSeconds d),
       def_Version := (if def_Version d < 1 then 1 else def_Version d),
       def_Source :=
         (case def_Source d of DefinitionSourceUnset \<Rightarrow> DefinitionSourceUser | s \<Rightarrow> s)\<rparr>"

definition Definition_Snapshot :: "Definition \<Rightarrow> DefinitionSnapshot" where
  "Definition_Snapshot d0 =
     (let d = Definition_Normalized d0
      in \<lparr>snap_ID = def_ID d, snap_Name = def_Name d, snap_SystemPrompt = def_SystemPrompt d,
          snap_ModelID = def_ModelID d, snap_AllowedTools = def_AllowedTools d,
          snap_CapabilityMode = def_CapabilityMode d, snap_IsolationMode = def_IsolationMode d,
          snap_MaxTurns = def_MaxTurns d, snap_TimeoutSeconds = def_TimeoutSeconds d,
          snap_Version = def_Version d\<rparr>)"

section \<open>Tool names\<close>

lemma normalizeToolNames_from_props:
  "set (normalizeToolNames_from seen names) = TrimSpace ` set names - {[]} - set seen"
  "distinct (normalizeToolNames_from seen names)"
  "length (normalizeToolNames_from seen names) \<le> length names"
  "list_all (\<lambda>n. TrimSpace n = n \<and> n \<noteq> []) (normalizeToolNames_from seen names)"
  by (induction names arbitrary: seen) (auto simp: Let_def le_SucI)

lemma validateToolNames_from_None:
  "validateToolNames_from seen names = None \<longleftrightarrow>
     list_all (\<lambda>n. \<not> blank n) names \<and> distinct (map TrimSpace names)
     \<and> set (map TrimSpace names) \<inter> set seen = {}"
  by (induction seen names rule: validateToolNames_from.induct) (auto simp: Let_def)

lemma normalizeToolNames_from_fixed:
  "\<lbrakk>list_all (\<lambda>n. TrimSpace n = n \<and> n \<noteq> []) names; distinct names; set names \<inter> set seen = {}\<rbrakk>
    \<Longrightarrow> normalizeToolNames_from seen names = names"
  by (induction names arbitrary: seen) (auto simp: Let_def)

lemma set_normalizeToolNames: "set (normalizeToolNames names) = TrimSpace ` set names - {[]}"
  by (simp add: normalizeToolNames_def normalizeToolNames_from_props)

lemma normalizeToolNames_idem [simp]:
  "normalizeToolNames (normalizeToolNames names) = normalizeToolNames names"
  by (simp add: normalizeToolNames_def normalizeToolNames_from_fixed normalizeToolNames_from_props)

lemma validate_normalizeToolNames [simp]: "validateToolNames (normalizeToolNames names) = None"
  using normalizeToolNames_from_props(2,4) [of "[]" names]
  by (auto simp: validateToolNames_def normalizeToolNames_def validateToolNames_from_None
      list_all_iff distinct_map inj_on_def)

section \<open>Definitions\<close>

lemma Definition_Normalized_idem [simp]:
  "Definition_Normalized (Definition_Normalized d) = Definition_Normalized d"
  by (simp add: Definition_Normalized_def definition_limits
      split: CapabilityMode.splits DefinitionSource.splits)

lemma Validate_NormalizedI:
  assumes "Definition_Validate d = None"
  shows "Definition_Validate (Definition_Normalized d) = None"
proof -
  have "RuneCount (TrimSpace s) \<le> n" if "RuneCount s \<le> n" for s n
    using RuneCount_TrimSpace [of s] that by simp
  moreover have "length (normalizeToolNames ts) \<le> n" if "length ts \<le> n" for ts n
    using normalizeToolNames_from_props(3) [of "[]" ts] that by (simp add: normalizeToolNames_def)
  ultimately show ?thesis
    using assms
    by (simp add: Definition_Validate_def Definition_Normalized_def Let_def not_less
          validateCapabilityMode_def definition_limits
        split: if_splits CapabilityMode.splits DefinitionSource.splits option.splits)
qed

lemma normal_capability:
  "validateCapabilityMode m = None \<Longrightarrow>
     (case m of CapabilityModeUnset \<Rightarrow> CapabilityModeReadOnly | m \<Rightarrow> m) \<noteq> CapabilityModeUnset
     \<and> validateCapabilityMode (case m of CapabilityModeUnset \<Rightarrow> CapabilityModeReadOnly | m \<Rightarrow> m) = None"
  by (cases m) (simp_all add: validateCapabilityMode_def)

lemma Snapshot_fields:
  "snap_ID (Definition_Snapshot d) = TrimSpace (def_ID d)"
  "snap_SystemPrompt (Definition_Snapshot d) = TrimSpace (def_SystemPrompt d)"
  "snap_AllowedTools (Definition_Snapshot d) = normalizeToolNames (def_AllowedTools d)"
  "snap_CapabilityMode (Definition_Snapshot d) =
     (case def_CapabilityMode d of CapabilityModeUnset \<Rightarrow> CapabilityModeReadOnly | m \<Rightarrow> m)"
  "snap_IsolationMode (Definition_Snapshot d) = NormalizeIsolationMode (def_IsolationMode d)"
  "snap_MaxTurns (Definition_Snapshot d) =
     (if def_MaxTurns d = 0 then DefaultMaxTurns else def_MaxTurns d)"
  "snap_TimeoutSeconds (Definition_Snapshot d) =
     (if def_TimeoutSeconds d = 0 then DefaultTimeoutSeconds else def_TimeoutSeconds d)"
  "snap_Version (Definition_Snapshot d) = (if def_Version d < 1 then 1 else def_Version d)"
  by (simp_all add: Definition_Snapshot_def Definition_Normalized_def Let_def)

section \<open>Properties\<close>

text \<open>
  A definition that validation accepts is still accepted after normalisation, normalisation
  is idempotent, and the snapshot a task keeps of it has trimmed identifiers, distinct non-empty
  tool names (the trimmed names of the definition, at most 128), a concrete capability and
  isolation mode, between 1 and 64 turns, a timeout of 1 to 3600 seconds and a positive version.
\<close>

theorem accepted_definition_snapshot:
  assumes "Definition_Validate d = None"
  shows "Definition_Validate (Definition_Normalized d) = None
    \<and> Definition_Normalized (Definition_Normalized d) = Definition_Normalized d
    \<and> snap_ID (Definition_Snapshot d) = TrimSpace (def_ID d)
    \<and> snap_ID (Definition_Snapshot d) \<noteq> []
    \<and> snap_SystemPrompt (Definition_Snapshot d) \<noteq> []
    \<and> set (snap_AllowedTools (Definition_Snapshot d)) = TrimSpace ` set (def_AllowedTools d)
    \<and> distinct (snap_AllowedTools (Definition_Snapshot d))
    \<and> length (snap_AllowedTools (Definition_Snapshot d)) \<le> 128
    \<and> snap_CapabilityMode (Definition_Snapshot d) \<noteq> CapabilityModeUnset
    \<and> validateCapabilityMode (snap_CapabilityMode (Definition_Snapshot d)) = None
    \<and> ValidateIsolationMode (snap_IsolationMode (Definition_Snapshot d))
    \<and> snap_MaxTurns (Definition_Snapshot d) \<in> {1..64}
    \<and> snap_TimeoutSeconds (Definition_Snapshot d) \<in> {1..3600}
    \<and> 1 \<le> snap_Version (Definition_Snapshot d)"
proof -
  have tools: "list_all (\<lambda>n. \<not> blank n) (def_AllowedTools d)" "length (def_AllowedTools d) \<le> 128"
    and rest: "\<not> blank (def_ID d)" "\<not> blank (def_SystemPrompt d)"
      "validateCapabilityMode (def_CapabilityMode d) = None"
    using assms
    by (auto simp: Definition_Validate_def Let_def validateToolNames_def definition_limits
        validateToolNames_from_None split: if_splits option.splits)
  have turns: "(if def_MaxTurns d = 0 then DefaultMaxTurns else def_MaxTurns d) \<in> {1..64}"
    "(if def_TimeoutSeconds d = 0 then DefaultTimeoutSeconds else def_TimeoutSeconds d) \<in> {1..3600}"
    using assms
    by (simp_all add: Definition_Validate_def Let_def definition_limits split: if_splits option.splits)
  have "length (normalizeToolNames (def_AllowedTools d)) \<le> 128"
    "distinct (normalizeToolNames (def_AllowedTools d))"
    using normalizeToolNames_from_props(2,3) [of "[]" "def_AllowedTools d"] tools
    by (simp_all add: normalizeToolNames_def)
  moreover have "set (normalizeToolNames (def_AllowedTools d)) = TrimSpace ` set (def_AllowedTools d)"
    using tools(1) by (auto simp: set_normalizeToolNames list_all_iff)
  ultimately show ?thesis
    using rest turns
    by (simp add: Validate_NormalizedI [OF assms] Snapshot_fields normal_capability del: atLeastAtMost_iff)
qed

definition sample_definition :: Definition where
  "sample_definition = \<lparr>def_ID = ''d'', def_Name = ''n'', def_Description = [],
     def_SystemPrompt = ''p'', def_ModelID = [], def_AllowedTools = [''read_file'', ''grep''],
     def_CapabilityMode = CapabilityModeUnset, def_IsolationMode = IsolationModeDirect,
     def_MaxTurns = 0, def_TimeoutSeconds = 0, def_Enabled = True, def_Version = 0,
     def_Source = DefinitionSourceUser, def_Deleted = False, def_DeletedAt = None,
     def_CreatedAt = 1, def_UpdatedAt = 1\<rparr>"

theorem accepted_definition_snapshot_witness:
  "Definition_Validate sample_definition = None
   \<and> snap_MaxTurns (Definition_Snapshot sample_definition) \<in> {1..64}"
proof -
  have "Definition_Validate sample_definition = None"
    by (simp add: Definition_Validate_def Let_def sample_definition_def definition_limits
        validateCapabilityMode_def ValidateIsolationMode_def IsolationMode_text_def
        validateToolNames_def visible_eval)
  with accepted_definition_snapshot [OF this] show ?thesis by simp
qed

end
