(* ===== verification/Machine.thy ===== *)
theory Machine
  imports Main
begin

text \<open>
  The contract that the stateful components share, as locales: an operation machine applies
  operations one after the other (the components guard their state with a mutex, so an execution
  is a sequence of whole operations), and its invariant is kept by each of them. The client
  lemma lifts it to every execution. The extension adds a frame: a value of the state that no
  operation takes back, such as a sequence counter, and so no execution does. A machine refines a
  specification if an abstraction of its state commutes with every operation; then it commutes
  with every execution.
\<close>

definition run_ops :: "('s \<Rightarrow> 'op \<Rightarrow> 's) \<Rightarrow> 's \<Rightarrow> 'op list \<Rightarrow> 's" where
  "run_ops step s ops = foldl step s ops"

lemma run_ops_Nil [simp]: "run_ops step s [] = s"
  by (simp add: run_ops_def)

lemma run_ops_Cons [simp]: "run_ops step s (a # ops) = run_ops step (step s a) ops"
  by (simp add: run_ops_def)

lemma run_ops_append: "run_ops step s (xs @ ys) = run_ops step (run_ops step s xs) ys"
  by (simp add: run_ops_def)

locale op_machine =
  fixes step :: "'s \<Rightarrow> 'op \<Rightarrow> 's"
    and inv :: "'s \<Rightarrow> bool"
  assumes step_inv: "inv s \<Longrightarrow> inv (step s a)"
begin

lemma run_inv: "inv s \<Longrightarrow> inv (run_ops step s ops)"
  by (induction ops arbitrary: s) (simp_all add: step_inv)

end

locale monotone_machine = op_machine step inv
  for step :: "'s \<Rightarrow> 'op \<Rightarrow> 's" and inv :: "'s \<Rightarrow> bool" +
  fixes level :: "'s \<Rightarrow> 'l::preorder"
  assumes step_level: "inv s \<Longrightarrow> level s \<le> level (step s a)"
begin

lemma run_level: "inv s \<Longrightarrow> level s \<le> level (run_ops step s ops)"
proof (induction ops arbitrary: s)
  case (Cons a ops)
  then have "level s \<le> level (step s a)" "level (step s a) \<le> level (run_ops step (step s a) ops)"
    by (simp_all add: step_level step_inv)
  then show ?case by (simp add: order_trans)
qed simp

end

locale refining_machine = op_machine step inv
  for step :: "'s \<Rightarrow> 'op \<Rightarrow> 's" and inv :: "'s \<Rightarrow> bool" +
  fixes abs :: "'s \<Rightarrow> 'a" and spec :: "'a \<Rightarrow> 'op \<Rightarrow> 'a"
  assumes step_abs: "inv s \<Longrightarrow> abs (step s a) = spec (abs s) a"
begin

lemma run_abs: "inv s \<Longrightarrow> abs (run_ops step s ops) = run_ops spec (abs s) ops"
  by (induction ops arbitrary: s) (simp_all add: step_abs step_inv)

end

end
