(* ===== verification/SubagentTask.thy ===== *)
theory SubagentTask
  imports SubagentDefinition Machine
begin

text \<open>
  \<open>core/domain/subagent/task.go\<close>: the task of a child agent, its lifecycle and its mailbox of
  durable follow-up messages. A method on a task pointer takes the task and returns it updated;
  the clock is an argument. The methods' guard against a nil receiver has no counterpart: a
  model task is never nil. \<open>CloneTask\<close> and \<open>CloneRun\<close> copy slices and pointers, which on
  values is the identity, so the model passes the value itself.
\<close>

definition MaxInstructionRunes :: nat where "MaxInstructionRunes = 20000"
definition MaxMailboxMessageRunes :: nat where "MaxMailboxMessageRunes = 20000"
definition MaxMailboxMessages :: nat where "MaxMailboxMessages = 64"
definition MaxMailboxRunes :: nat where "MaxMailboxRunes = 100000"

datatype TaskStatus =
    TaskStatusQueued
  | TaskStatusRunning
  | TaskStatusWaitingSubagents
  | TaskStatusWaitingPermission
  | TaskStatusSucceeded
  | TaskStatusFailed
  | TaskStatusCanceled
  | TaskStatusOther string

datatype RunStatus =
    RunStatusQueued
  | RunStatusRunning
  | RunStatusSucceeded
  | RunStatusFailed
  | RunStatusCanceled
  | RunStatusOther string

datatype MessageStatus =
    MessageStatusUnset
  | MessageStatusPending
  | MessageStatusDelivering
  | MessageStatusOther string

datatype AgentMessageTrigger =
    AgentMessageTriggerUnset
  | AgentMessageTriggerQueue
  | AgentMessageTriggerTurn
  | AgentMessageTriggerSteer
  | AgentMessageTriggerOther string

record Message =
  msg_ID :: string
  msg_Content :: string
  msg_Trigger :: AgentMessageTrigger
  msg_Status :: MessageStatus
  msg_DeliveryAttempts :: int
  msg_LastError :: string
  msg_CreatedAt :: gotime
  msg_ClaimedAt :: "gotime option"

record Task =
  task_ID :: string
  task_ParentSessionID :: string
  task_ParentTaskID :: string
  task_ParentRunID :: string
  task_ParentToolCallID :: string
  task_PlanID :: string
  task_StepID :: string
  task_ChildSessionID :: string
  task_AgentPath :: string
  task_AgentNickname :: string
  task_CreatedRequestID :: string
  task_DefinitionID :: string
  task_DefinitionVersion :: int
  task_Definition :: DefinitionSnapshot
  task_Instruction :: string
  task_Title :: string
  task_Status :: TaskStatus
  task_CurrentRunID :: string
  task_Workspace :: Reference
  task_ChangeSet :: ChangeSet
  task_Result :: string
  task_Reasoning :: string
  task_Usage :: TokenUsage
  task_ErrorMessage :: string
  task_Unread :: bool
  task_Mailbox :: "Message list"
  task_CreatedAt :: gotime
  task_UpdatedAt :: gotime
  task_StartedAt :: "gotime option"
  task_CompletedAt :: "gotime option"

record Run =
  run_ID :: string
  run_TaskID :: string
  run_Sequence :: int
  run_RequestID :: string
  run_RequestContentHash :: string
  run_Instruction :: string
  run_Status :: RunStatus
  run_Result :: string
  run_Usage :: TokenUsage
  run_ErrorMessage :: string
  run_CreatedAt :: gotime
  run_StartedAt :: "gotime option"
  run_CompletedAt :: "gotime option"

datatype task_error =
    TaskIDRequired
  | TaskParentSessionRequired
  | TaskDefinitionRequired
  | TaskInstructionRequired
  | TaskInstructionTooLong
  | TaskCannotSendToTerminal
  | TaskCannotSendInStatus TaskStatus
  | MailboxMessageEmpty
  | MailboxIDReused
  | MailboxMessageTooLong
  | MailboxTooManyMessages
  | MailboxTooManyRunes
  | MailboxBadTrigger AgentMessageTrigger
  | TaskCannotStart TaskStatus
  | TaskAlreadyTerminal
  | TaskHasMailboxMessages

section \<open>Lifecycle\<close>

definition Terminal :: "Task \<Rightarrow> bool" where
  "Terminal t =
     (case task_Status t of
        TaskStatusSucceeded \<Rightarrow> True | TaskStatusFailed \<Rightarrow> True | TaskStatusCanceled \<Rightarrow> True
      | _ \<Rightarrow> False)"

definition CanFollowup :: "Task \<Rightarrow> bool" where
  "CanFollowup t \<longleftrightarrow> task_Status t = TaskStatusSucceeded \<or> task_Status t = TaskStatusFailed"

definition HasMailboxMessages :: "Task \<Rightarrow> bool" where
  "HasMailboxMessages t \<longleftrightarrow> 0 < length (task_Mailbox t)"

definition Task_ValidateNew :: "Task \<Rightarrow> task_error option" where
  "Task_ValidateNew t =
     (if blank (task_ID t) then Some TaskIDRequired
      else if blank (task_ParentSessionID t) then Some TaskParentSessionRequired
      else if blank (task_DefinitionID t) then Some TaskDefinitionRequired
      else if blank (task_Instruction t) then Some TaskInstructionRequired
      else if RuneCount (task_Instruction t) > MaxInstructionRunes then Some TaskInstructionTooLong
      else None)"

definition MarkRunning :: "gotime \<Rightarrow> Task \<Rightarrow> task_error + Task" where
  "MarkRunning now t =
     (if task_Status t \<noteq> TaskStatusQueued then Inl (TaskCannotStart (task_Status t))
      else Inr (t\<lparr>task_Status := TaskStatusRunning, task_StartedAt := Some now,
                  task_UpdatedAt := now\<rparr>))"

definition MarkSucceeded :: "string \<Rightarrow> string \<Rightarrow> gotime \<Rightarrow> Task \<Rightarrow> task_error + Task" where
  "MarkSucceeded result reasoning now t =
     (if Terminal t then Inl TaskAlreadyTerminal
      else if HasMailboxMessages t then Inl TaskHasMailboxMessages
      else Inr (t\<lparr>task_Status := TaskStatusSucceeded, task_Result := TrimSpace result,
                  task_Reasoning := TrimSpace reasoning, task_ErrorMessage := [],
                  task_Unread := True, task_CompletedAt := Some now, task_UpdatedAt := now\<rparr>))"

definition MarkFailed :: "string \<Rightarrow> gotime \<Rightarrow> Task \<Rightarrow> task_error + Task" where
  "MarkFailed message now t =
     (if Terminal t then Inl TaskAlreadyTerminal
      else Inr (t\<lparr>task_Status := TaskStatusFailed, task_ErrorMessage := TrimSpace message,
                  task_Unread := True, task_CompletedAt := Some now, task_UpdatedAt := now\<rparr>))"

definition MarkCanceled :: "string \<Rightarrow> gotime \<Rightarrow> Task \<Rightarrow> task_error + Task" where
  "MarkCanceled message now t =
     (if Terminal t then Inl TaskAlreadyTerminal
      else Inr (t\<lparr>task_Status := TaskStatusCanceled, task_ErrorMessage := TrimSpace message,
                  task_Unread := False, task_CompletedAt := Some now, task_UpdatedAt := now\<rparr>))"

section \<open>Mailbox\<close>

definition mailboxRunes :: "Task \<Rightarrow> nat" where
  "mailboxRunes t = sum_list (map (\<lambda>m. RuneCount (msg_Content m)) (task_Mailbox t))"

definition default_trigger :: "AgentMessageTrigger \<Rightarrow> AgentMessageTrigger" where
  "default_trigger tr = (if tr = AgentMessageTriggerUnset then AgentMessageTriggerQueue else tr)"

definition valid_trigger :: "AgentMessageTrigger \<Rightarrow> bool" where
  "valid_trigger tr \<longleftrightarrow>
     (case tr of AgentMessageTriggerQueue \<Rightarrow> True | AgentMessageTriggerTurn \<Rightarrow> True
      | AgentMessageTriggerSteer \<Rightarrow> True | _ \<Rightarrow> False)"

text \<open>
  The loop over the mailbox stops at the first message with the identifier of the new one
  (messages without an identifier are never compared), so it is a search.
\<close>

definition EnqueueMessage :: "Message \<Rightarrow> gotime \<Rightarrow> Task \<Rightarrow> task_error + Task" where
  "EnqueueMessage message now t =
     (if Terminal t then Inl TaskCannotSendToTerminal
      else if task_Status t \<noteq> TaskStatusQueued \<and> task_Status t \<noteq> TaskStatusRunning
              \<and> task_Status t \<noteq> TaskStatusWaitingSubagents
        then Inl (TaskCannotSendInStatus (task_Status t))
      else
        (let content = TrimSpace (msg_Content message);
             trigger = default_trigger (msg_Trigger message)
         in if content = [] then Inl MailboxMessageEmpty
            else
              (case find (\<lambda>e. msg_ID e = msg_ID message \<and> \<not> blank (msg_ID message))
                      (task_Mailbox t) of
                 Some existing \<Rightarrow>
                   (if TrimSpace (msg_Content existing) \<noteq> content
                       \<or> default_trigger (msg_Trigger existing) \<noteq> trigger
                    then Inl MailboxIDReused else Inr t)
               | None \<Rightarrow>
                   (if RuneCount content > MaxMailboxMessageRunes then Inl MailboxMessageTooLong
                    else if length (task_Mailbox t) \<ge> MaxMailboxMessages
                      then Inl MailboxTooManyMessages
                    else if mailboxRunes t + RuneCount content > MaxMailboxRunes
                      then Inl MailboxTooManyRunes
                    else if \<not> valid_trigger trigger then Inl (MailboxBadTrigger trigger)
                    else
                      (let created = (if IsZero (msg_CreatedAt message) then now
                                      else msg_CreatedAt message);
                           m = message\<lparr>msg_Content := content, msg_Trigger := trigger,
                                 msg_CreatedAt := created, msg_Status := MessageStatusPending,
                                 msg_ClaimedAt := None, msg_LastError := []\<rparr>
                       in Inr (t\<lparr>task_Mailbox := task_Mailbox t @ [m],
                                 task_UpdatedAt := created\<rparr>))))))"

definition claimable :: "Message \<Rightarrow> bool" where
  "claimable m \<longleftrightarrow> msg_Status m = MessageStatusUnset \<or> msg_Status m = MessageStatusPending"

definition claimed_at :: "gotime \<Rightarrow> Message \<Rightarrow> Message" where
  "claimed_at now m =
     m\<lparr>msg_Status := MessageStatusDelivering,
       msg_DeliveryAttempts := msg_DeliveryAttempts m + 1,
       msg_LastError := [], msg_ClaimedAt := Some now\<rparr>"

text \<open>The loop updates the first message that satisfies a condition, and returns it updated.\<close>

fun update_first :: "('a \<Rightarrow> bool) \<Rightarrow> ('a \<Rightarrow> 'a) \<Rightarrow> 'a list \<Rightarrow> ('a \<times> 'a list) option" where
  "update_first P f [] = None"
| "update_first P f (x # xs) =
     (if P x then Some (f x, f x # xs)
      else map_option (\<lambda>(y, ys). (y, x # ys)) (update_first P f xs))"

fun remove_first :: "('a \<Rightarrow> bool) \<Rightarrow> 'a list \<Rightarrow> 'a list option" where
  "remove_first P [] = None"
| "remove_first P (x # xs) = (if P x then Some xs else map_option ((#) x) (remove_first P xs))"

definition ClaimMailboxMessage :: "gotime \<Rightarrow> Task \<Rightarrow> (Message option) \<times> Task" where
  "ClaimMailboxMessage now t =
     (case update_first claimable (claimed_at now) (task_Mailbox t) of
        None \<Rightarrow> (None, t)
      | Some (m, mailbox) \<Rightarrow> (Some m, t\<lparr>task_Mailbox := mailbox, task_UpdatedAt := now\<rparr>))"

definition delivering :: "string \<Rightarrow> Message \<Rightarrow> bool" where
  "delivering messageID m \<longleftrightarrow> msg_ID m = messageID \<and> msg_Status m = MessageStatusDelivering"

definition AcknowledgeMailboxMessage :: "string \<Rightarrow> gotime \<Rightarrow> Task \<Rightarrow> bool \<times> Task" where
  "AcknowledgeMailboxMessage messageID now t =
     (case remove_first (delivering messageID) (task_Mailbox t) of
        None \<Rightarrow> (False, t)
      | Some mailbox \<Rightarrow> (True, t\<lparr>task_Mailbox := mailbox, task_UpdatedAt := now\<rparr>))"

definition released :: "string option \<Rightarrow> Message \<Rightarrow> Message" where
  "released deliveryErr m =
     m\<lparr>msg_Status := MessageStatusPending, msg_ClaimedAt := None,
       msg_LastError := (case deliveryErr of None \<Rightarrow> [] | Some e \<Rightarrow> TrimSpace e)\<rparr>"

definition ReleaseMailboxMessage ::
  "string \<Rightarrow> string option \<Rightarrow> gotime \<Rightarrow> Task \<Rightarrow> bool \<times> Task" where
  "ReleaseMailboxMessage messageID deliveryErr now t =
     (case update_first (delivering messageID) (released deliveryErr) (task_Mailbox t) of
        None \<Rightarrow> (False, t)
      | Some (_, mailbox) \<Rightarrow> (True, t\<lparr>task_Mailbox := mailbox, task_UpdatedAt := now\<rparr>))"

definition recovered :: "Message \<Rightarrow> Message" where
  "recovered m0 =
     (let m = (if msg_Status m0 = MessageStatusUnset then m0\<lparr>msg_Status := MessageStatusPending\<rparr>
               else m0)
      in if msg_Status m = MessageStatusDelivering
         then m\<lparr>msg_Status := MessageStatusPending, msg_ClaimedAt := None\<rparr> else m)"

definition RecoverMailboxDeliveries :: "gotime \<Rightarrow> Task \<Rightarrow> bool \<times> Task" where
  "RecoverMailboxDeliveries now t =
     (let changed = list_ex (\<lambda>m. msg_Status m = MessageStatusUnset
                              \<or> msg_Status m = MessageStatusDelivering) (task_Mailbox t);
          t' = t\<lparr>task_Mailbox := map recovered (task_Mailbox t)\<rparr>
      in (changed, if changed then t'\<lparr>task_UpdatedAt := now\<rparr> else t'))"

end
