(* ===== verification/SubagentMailbox.thy ===== *)
theory SubagentMailbox
  imports SubagentTask "HOL-Library.Multiset"
begin

text \<open>
  Facts about the task of \<open>SubagentTask\<close>: the mailbox invariant (bounds, unique identifiers,
  delivery states), its preservation by every method, first-in-first-out claiming, conservation
  of undelivered messages, and the lifecycle, in which a terminal status is final.
  The delivery contract is a locale: whatever holds undelivered messages keeps them through
  claims and releases, and only an acknowledgement takes one out.
\<close>

section \<open>The delivery contract\<close>

locale delivery_box =
  fixes held :: "'s \<Rightarrow> 'm multiset"
    and claim :: "'c \<Rightarrow> 's \<Rightarrow> 's"
    and release :: "'r \<Rightarrow> 's \<Rightarrow> 's"
    and ack :: "'a \<Rightarrow> 's \<Rightarrow> 's"
  assumes claim_held: "held (claim c s) = held s"
    and release_held: "held (release r s) = held s"
    and ack_held: "held (ack a s) = held s \<or> (\<exists>x. held s = add_mset x (held (ack a s)))"
begin

text \<open>At-least-once delivery: without acknowledgements, nothing held is ever lost.\<close>

lemma retry_held:
  "held (run_ops (\<lambda>s op. case op of Inl c \<Rightarrow> claim c s | Inr r \<Rightarrow> release r s) s ops) = held s"
  by (induction ops arbitrary: s) (auto simp: claim_held release_held split: sum.splits)

lemma size_ack: "size (held s) \<le> size (held (ack a s)) + 1"
  using ack_held [of a s] by auto

lemma ack_run_size: "size (held s) \<le> size (held (run_ops (\<lambda>s a. ack a s) s as)) + length as"
proof (induction as arbitrary: s)
  case (Cons a as)
  from size_ack [of s a] Cons [of "ack a s"] show ?case by simp
qed simp

end

section \<open>Searching loops\<close>

lemma update_first_None: "update_first P f xs = None \<longleftrightarrow> (\<forall>x \<in> set xs. \<not> P x)"
  by (induction xs) auto

lemma update_first_Some:
  "update_first P f xs = Some (y, ys) \<Longrightarrow>
     \<exists>as x bs. xs = as @ x # bs \<and> P x \<and> (\<forall>a \<in> set as. \<not> P a) \<and> y = f x \<and> ys = as @ f x # bs"
proof (induction xs arbitrary: ys)
  case (Cons z zs)
  show ?case
  proof (cases "P z")
    case True
    with Cons.prems have "z # zs = [] @ z # zs \<and> P z \<and> y = f z \<and> ys = [] @ f z # zs" by auto
    then show ?thesis by fastforce
  next
    case False
    with Cons.prems obtain ys' where "update_first P f zs = Some (y, ys')" "ys = z # ys'"
      by (auto split: prod.splits)
    with Cons.IH obtain as x bs where "zs = as @ x # bs" "P x" "\<forall>a \<in> set as. \<not> P a" "y = f x"
      "ys = (z # as) @ f x # bs" by fastforce
    with False show ?thesis by (metis append_Cons set_ConsD)
  qed
qed simp

lemma update_first_map:
  "update_first P f xs = Some (y, ys) \<Longrightarrow> (\<And>x. g (f x) = g x) \<Longrightarrow> map g ys = map g xs"
  by (auto dest!: update_first_Some)

lemma update_first_all:
  "update_first P f xs = Some (y, ys) \<Longrightarrow> list_all Q xs \<Longrightarrow> (\<And>x. P x \<Longrightarrow> Q x \<Longrightarrow> Q (f x)) \<Longrightarrow> list_all Q ys"
  by (auto dest!: update_first_Some)

lemma remove_first_None: "remove_first P xs = None \<longleftrightarrow> (\<forall>x \<in> set xs. \<not> P x)"
  by (induction xs) auto

lemma remove_first_Some:
  "remove_first P xs = Some ys \<Longrightarrow>
     \<exists>as x bs. xs = as @ x # bs \<and> P x \<and> (\<forall>a \<in> set as. \<not> P a) \<and> ys = as @ bs"
proof (induction xs arbitrary: ys)
  case (Cons z zs)
  show ?case
  proof (cases "P z")
    case True
    with Cons.prems have "z # zs = [] @ z # zs \<and> P z \<and> ys = [] @ zs" by simp
    then show ?thesis by fastforce
  next
    case False
    with Cons.prems obtain ys' where "remove_first P zs = Some ys'" "ys = z # ys'" by auto
    with Cons.IH obtain as x bs where "zs = as @ x # bs" "P x" "\<forall>a \<in> set as. \<not> P a"
      "ys = (z # as) @ bs" by fastforce
    with False show ?thesis by (metis append_Cons set_ConsD)
  qed
qed simp

lemma find_snoc: "\<forall>x \<in> set xs. \<not> P x \<Longrightarrow> P y \<Longrightarrow> find P (xs @ [y]) = Some y"
  by (induction xs) auto

section \<open>The mailbox invariant\<close>

type_synonym message_key = "string \<times> string \<times> AgentMessageTrigger"

definition msg_key :: "Message \<Rightarrow> message_key" where
  "msg_key m = (msg_ID m, msg_Content m, msg_Trigger m)"

definition key_ok :: "message_key \<Rightarrow> bool" where
  "key_ok k \<longleftrightarrow>
     (case k of (i, c, tr) \<Rightarrow> c \<noteq> [] \<and> TrimSpace c = c \<and> RuneCount c \<le> MaxMailboxMessageRunes
        \<and> valid_trigger tr)"

definition keys_ok :: "message_key list \<Rightarrow> bool" where
  "keys_ok ks \<longleftrightarrow>
     list_all key_ok ks \<and> length ks \<le> MaxMailboxMessages
     \<and> sum_list (map (\<lambda>(i, c, tr). RuneCount c) ks) \<le> MaxMailboxRunes
     \<and> distinct (filter (\<lambda>i. \<not> blank i) (map fst ks))"

definition delivery_ok :: "Message \<Rightarrow> bool" where
  "delivery_ok m \<longleftrightarrow>
     msg_Status m = MessageStatusPending \<and> msg_ClaimedAt m = None
     \<or> msg_Status m = MessageStatusDelivering \<and> msg_ClaimedAt m \<noteq> None"

definition mailbox_ok :: "Task \<Rightarrow> bool" where
  "mailbox_ok t \<longleftrightarrow>
     keys_ok (map msg_key (task_Mailbox t))
     \<and> list_all delivery_ok (task_Mailbox t)"

lemma claimed_key [simp]: "msg_key (claimed_at now m) = msg_key m"
  by (simp add: msg_key_def claimed_at_def)

lemma released_key [simp]: "msg_key (released e m) = msg_key m"
  by (simp add: msg_key_def released_def)

lemma recovered_key [simp]: "msg_key (recovered m) = msg_key m"
  by (simp add: msg_key_def recovered_def Let_def)

lemma mailboxRunes_keys:
  "mailboxRunes t = sum_list (map (\<lambda>(i, c, tr). RuneCount c) (map msg_key (task_Mailbox t)))"
  by (simp add: mailboxRunes_def msg_key_def comp_def)

lemma delivery_ok_steps:
  "delivery_ok (claimed_at now m)"
  "delivery_ok (released e m)"
  "delivery_ok m \<Longrightarrow> delivery_ok (recovered m)"
  by (auto simp: delivery_ok_def claimed_at_def released_def recovered_def Let_def)

text \<open>Each method on the mailbox keeps the invariant.\<close>

text \<open>An accepted message is new, stored with its content trimmed, at the end of the mailbox.\<close>

lemma default_trigger_idem [simp]: "default_trigger (default_trigger tr) = default_trigger tr"
  by (simp add: default_trigger_def)

lemma EnqueueMessage_cases:
  assumes "EnqueueMessage m now t = Inr t'"
  shows "t' = t \<and> (\<exists>e \<in> set (task_Mailbox t). msg_ID e = msg_ID m)
    \<or> (\<exists>m'. task_Mailbox t' = task_Mailbox t @ [m'] \<and> msg_ID m' = msg_ID m
         \<and> msg_Content m' = TrimSpace (msg_Content m) \<and> msg_Status m' = MessageStatusPending
         \<and> msg_Trigger m' = default_trigger (msg_Trigger m)
         \<and> msg_ClaimedAt m' = None \<and> msg_DeliveryAttempts m' = msg_DeliveryAttempts m
         \<and> key_ok (msg_key m')
         \<and> (\<forall>e \<in> set (task_Mailbox t). blank (msg_ID m) \<or> msg_ID e \<noteq> msg_ID m)
         \<and> length (task_Mailbox t) < MaxMailboxMessages
         \<and> mailboxRunes t + RuneCount (msg_Content m') \<le> MaxMailboxRunes
         \<and> t' = t\<lparr>task_Mailbox := task_Mailbox t @ [m'], task_UpdatedAt := msg_CreatedAt m'\<rparr>)"
  using assms
  by (fastforce simp: EnqueueMessage_def Let_def key_ok_def msg_key_def not_le not_less
      find_Some_iff find_None_iff split: if_splits option.splits)

lemma keys_ok_snoc:
  "keys_ok (ks @ [k]) \<longleftrightarrow>
     keys_ok ks \<and> key_ok k \<and> length ks < MaxMailboxMessages
     \<and> sum_list (map (\<lambda>(i, c, tr). RuneCount c) ks) + RuneCount (fst (snd k)) \<le> MaxMailboxRunes
     \<and> (blank (fst k) \<or> fst k \<notin> fst ` set ks)"
  by (cases k) (auto simp: keys_ok_def)

lemma EnqueueMessage_mailbox_ok:
  assumes "EnqueueMessage m now t = Inr t'" "mailbox_ok t"
  shows "mailbox_ok t'"
  using EnqueueMessage_cases [OF assms(1)] assms(2)
  by (auto simp: mailbox_ok_def keys_ok_snoc delivery_ok_def mailboxRunes_keys)
    (auto simp: msg_key_def comp_def)

lemma update_first_mailbox_ok:
  assumes "update_first P f (task_Mailbox t) = Some (y, ys)" "mailbox_ok t"
    and "\<And>x. msg_key (f x) = msg_key x"
    and "\<And>x. delivery_ok (f x)"
  shows "keys_ok (map msg_key ys) \<and> list_all delivery_ok ys"
  using update_first_map [where g = msg_key, OF assms(1,3)]
    update_first_all [OF assms(1), of delivery_ok] assms(2,4)
  by (auto simp: mailbox_ok_def)

lemma ClaimMailboxMessage_mailbox_ok:
  "mailbox_ok t \<Longrightarrow> mailbox_ok (snd (ClaimMailboxMessage now t))"
  using update_first_mailbox_ok [of claimable "claimed_at now" t]
  by (auto simp: ClaimMailboxMessage_def mailbox_ok_def delivery_ok_steps split: option.split)

lemma ReleaseMailboxMessage_mailbox_ok:
  "mailbox_ok t \<Longrightarrow> mailbox_ok (snd (ReleaseMailboxMessage i e now t))"
  using update_first_mailbox_ok [of "delivering i" "released e" t]
  by (auto simp: ReleaseMailboxMessage_def mailbox_ok_def delivery_ok_steps split: option.split)

lemma keys_ok_remove: "keys_ok (as @ k # bs) \<Longrightarrow> keys_ok (as @ bs)"
  by (cases "blank (fst k)") (auto simp: keys_ok_def)

lemma AcknowledgeMailboxMessage_mailbox_ok:
  "mailbox_ok t \<Longrightarrow> mailbox_ok (snd (AcknowledgeMailboxMessage i now t))"
  by (auto simp: AcknowledgeMailboxMessage_def mailbox_ok_def keys_ok_remove
      split: option.split dest!: remove_first_Some)

lemma RecoverMailboxDeliveries_mailbox_ok:
  "mailbox_ok t \<Longrightarrow> mailbox_ok (snd (RecoverMailboxDeliveries now t))"
  by (auto simp: RecoverMailboxDeliveries_def mailbox_ok_def Let_def comp_def list_all_iff
      delivery_ok_steps)

section \<open>Conservation\<close>

definition mailbox_held :: "Task \<Rightarrow> message_key multiset" where
  "mailbox_held t = mset (map msg_key (task_Mailbox t))"

lemma ClaimMailboxMessage_held [simp]:
  "mailbox_held (snd (ClaimMailboxMessage now t)) = mailbox_held t"
  by (auto simp: mailbox_held_def ClaimMailboxMessage_def split: option.split
      dest!: update_first_Some)

lemma ReleaseMailboxMessage_held [simp]:
  "mailbox_held (snd (ReleaseMailboxMessage i e now t)) = mailbox_held t"
  by (auto simp: mailbox_held_def ReleaseMailboxMessage_def split: option.split
      dest!: update_first_Some)

lemma RecoverMailboxDeliveries_held [simp]:
  "mailbox_held (snd (RecoverMailboxDeliveries now t)) = mailbox_held t"
  by (simp add: mailbox_held_def RecoverMailboxDeliveries_def Let_def comp_def del: mset_map)

lemma AcknowledgeMailboxMessage_held:
  "mailbox_held (snd (AcknowledgeMailboxMessage i now t)) = mailbox_held t
   \<or> (\<exists>x. mailbox_held t = add_mset x (mailbox_held (snd (AcknowledgeMailboxMessage i now t))))"
  by (auto simp: mailbox_held_def AcknowledgeMailboxMessage_def split: option.split
      simp del: split_paired_Ex dest!: remove_first_Some)

interpretation task_box: delivery_box mailbox_held
  "\<lambda>now t. snd (ClaimMailboxMessage now t)"
  "\<lambda>(i, e, now) t. snd (ReleaseMailboxMessage i e now t)"
  "\<lambda>(i, now) t. snd (AcknowledgeMailboxMessage i now t)"
  by unfold_locales (use AcknowledgeMailboxMessage_held in \<open>auto simp del: split_paired_Ex\<close>)

section \<open>Executions\<close>

text \<open>
  The methods as operations of a machine: a method that returns an error leaves the task as it
  was, since every check comes before the first assignment.
\<close>

datatype task_op =
    OpEnqueue Message gotime
  | OpClaim gotime
  | OpAcknowledge string gotime
  | OpRelease string "string option" gotime
  | OpRecover gotime
  | OpStart gotime
  | OpSucceed string string gotime
  | OpFail string gotime
  | OpCancel string gotime

definition or_keep :: "Task \<Rightarrow> task_error + Task \<Rightarrow> Task" where
  "or_keep t r = (case r of Inl _ \<Rightarrow> t | Inr t' \<Rightarrow> t')"

fun task_step :: "Task \<Rightarrow> task_op \<Rightarrow> Task" where
  "task_step t (OpEnqueue m now) = or_keep t (EnqueueMessage m now t)"
| "task_step t (OpClaim now) = snd (ClaimMailboxMessage now t)"
| "task_step t (OpAcknowledge i now) = snd (AcknowledgeMailboxMessage i now t)"
| "task_step t (OpRelease i e now) = snd (ReleaseMailboxMessage i e now t)"
| "task_step t (OpRecover now) = snd (RecoverMailboxDeliveries now t)"
| "task_step t (OpStart now) = or_keep t (MarkRunning now t)"
| "task_step t (OpSucceed r g now) = or_keep t (MarkSucceeded r g now t)"
| "task_step t (OpFail e now) = or_keep t (MarkFailed e now t)"
| "task_step t (OpCancel e now) = or_keep t (MarkCanceled e now t)"

definition task_inv :: "Task \<Rightarrow> bool" where
  "task_inv t \<longleftrightarrow> mailbox_ok t \<and> (task_Status t = TaskStatusSucceeded \<longrightarrow> task_Mailbox t = [])"

lemma or_keep_simps [simp]: "or_keep t (Inl e) = t" "or_keep t (Inr t') = t'"
  by (simp_all add: or_keep_def)

lemma mailbox_methods_status [simp]:
  "task_Status (snd (ClaimMailboxMessage now t)) = task_Status t"
  "task_Status (snd (AcknowledgeMailboxMessage i now t)) = task_Status t"
  "task_Status (snd (ReleaseMailboxMessage i e now t)) = task_Status t"
  "task_Status (snd (RecoverMailboxDeliveries now t)) = task_Status t"
  "task_Status (or_keep t (EnqueueMessage m now t)) = task_Status t"
  by (auto simp: ClaimMailboxMessage_def AcknowledgeMailboxMessage_def ReleaseMailboxMessage_def
      RecoverMailboxDeliveries_def EnqueueMessage_def Let_def or_keep_def split: option.split)

lemma mailbox_methods_empty:
  "task_Mailbox t = [] \<Longrightarrow> task_Mailbox (snd (ClaimMailboxMessage now t)) = []"
  "task_Mailbox t = [] \<Longrightarrow> task_Mailbox (snd (AcknowledgeMailboxMessage i now t)) = []"
  "task_Mailbox t = [] \<Longrightarrow> task_Mailbox (snd (ReleaseMailboxMessage i e now t)) = []"
  "task_Mailbox t = [] \<Longrightarrow> task_Mailbox (snd (RecoverMailboxDeliveries now t)) = []"
  by (simp_all add: ClaimMailboxMessage_def AcknowledgeMailboxMessage_def
      ReleaseMailboxMessage_def RecoverMailboxDeliveries_def)

lemma mailbox_ok_cong [simp]:
  "mailbox_ok (t\<lparr>task_Status := a, task_StartedAt := b, task_UpdatedAt := c\<rparr>) = mailbox_ok t"
  "mailbox_ok (t\<lparr>task_Status := a, task_ErrorMessage := s, task_Unread := u,
     task_CompletedAt := b, task_UpdatedAt := c\<rparr>) = mailbox_ok t"
  "mailbox_ok (t\<lparr>task_Status := a, task_Result := r, task_Reasoning := g, task_ErrorMessage := s,
     task_Unread := u, task_CompletedAt := b, task_UpdatedAt := c\<rparr>) = mailbox_ok t"
  by (simp_all add: mailbox_ok_def)

lemma EnqueueMessage_terminal: "Terminal t \<Longrightarrow> EnqueueMessage m now t = Inl TaskCannotSendToTerminal"
  by (simp add: EnqueueMessage_def)

lemma or_keep_enqueue_ok: "mailbox_ok t \<Longrightarrow> mailbox_ok (or_keep t (EnqueueMessage m now t))"
  by (cases "EnqueueMessage m now t") (auto intro: EnqueueMessage_mailbox_ok)

lemma task_step_inv: "task_inv t \<Longrightarrow> task_inv (task_step t op)"
proof (cases op)
  case (OpEnqueue m now)
  assume "task_inv t"
  then show ?thesis
    using OpEnqueue or_keep_enqueue_ok [of t m now]
    by (auto simp: task_inv_def EnqueueMessage_terminal Terminal_def split del: if_split)
qed (auto simp: task_inv_def MarkRunning_def MarkSucceeded_def MarkFailed_def MarkCanceled_def
    HasMailboxMessages_def mailbox_methods_empty ClaimMailboxMessage_mailbox_ok
    ReleaseMailboxMessage_mailbox_ok AcknowledgeMailboxMessage_mailbox_ok
    RecoverMailboxDeliveries_mailbox_ok)

text \<open>What a task keeps once it is terminal: all of it but the mailbox and the update time.\<close>

definition settled :: "Task \<Rightarrow> Task" where
  "settled t = t\<lparr>task_Mailbox := [], task_UpdatedAt := 0\<rparr>"

lemma task_step_settled: "Terminal t \<Longrightarrow> settled (task_step t op) = settled t"
  by (cases op)
    (auto simp: settled_def MarkRunning_def MarkSucceeded_def MarkFailed_def MarkCanceled_def
      Terminal_def EnqueueMessage_def ClaimMailboxMessage_def AcknowledgeMailboxMessage_def
      ReleaseMailboxMessage_def RecoverMailboxDeliveries_def Let_def split: option.split)

lemma Terminal_settled: "Terminal (settled t) = Terminal t"
  by (simp add: settled_def Terminal_def)

interpretation task_machine: op_machine task_step task_inv
  by unfold_locales (rule task_step_inv)

lemma task_step_terminal_held: "Terminal t \<Longrightarrow> mailbox_held (task_step t op) \<subseteq># mailbox_held t"
proof (cases op)
  case (OpAcknowledge i now)
  then show ?thesis using AcknowledgeMailboxMessage_held [of i now t] by auto
qed (auto simp: EnqueueMessage_terminal MarkRunning_def MarkSucceeded_def MarkFailed_def
    MarkCanceled_def Terminal_def)

interpretation terminal_machine: op_machine task_step
  "\<lambda>t. Terminal t \<and> settled t = f \<and> mailbox_held t \<subseteq># h" for f h
  by unfold_locales (metis Terminal_settled subset_mset.order_trans task_step_settled task_step_terminal_held)

section \<open>Properties\<close>

text \<open>A queued task with an empty mailbox, for the witnesses.\<close>

definition sample_snapshot :: DefinitionSnapshot where
  "sample_snapshot = \<lparr>snap_ID = ''d'', snap_Name = ''n'', snap_SystemPrompt = ''p'',
     snap_ModelID = [], snap_AllowedTools = [], snap_CapabilityMode = CapabilityModeReadOnly,
     snap_IsolationMode = IsolationModeDirect, snap_MaxTurns = 12, snap_TimeoutSeconds = 300,
     snap_Version = 1\<rparr>"

definition sample_task :: Task where
  "sample_task = \<lparr>task_ID = ''t'', task_ParentSessionID = ''s'', task_ParentTaskID = [],
     task_ParentRunID = [], task_ParentToolCallID = [], task_PlanID = [], task_StepID = [],
     task_ChildSessionID = ''c'', task_AgentPath = ''a'', task_AgentNickname = [],
     task_CreatedRequestID = [], task_DefinitionID = ''d'', task_DefinitionVersion = 1,
     task_Definition = sample_snapshot, task_Instruction = ''i'', task_Title = [],
     task_Status = TaskStatusQueued, task_CurrentRunID = ''r'',
     task_Workspace = \<lparr>ref_ID = [], ref_Mode = IsolationModeDirect, ref_Root = [],
       ref_SourceRoot = [], ref_SandboxID = []\<rparr>,
     task_ChangeSet = \<lparr>cs_WorkspaceID = [], cs_Status = ChangeSetStatusNone, cs_Files = [],
       cs_CheckpointID = [], cs_Message = [], cs_CreatedAt = 0, cs_AppliedAt = None,
       cs_DiscardedAt = None\<rparr>,
     task_Result = [], task_Reasoning = [], task_Usage = 0, task_ErrorMessage = [],
     task_Unread = False, task_Mailbox = [], task_CreatedAt = 1, task_UpdatedAt = 1,
     task_StartedAt = None, task_CompletedAt = None\<rparr>"

definition sample_message :: Message where
  "sample_message = \<lparr>msg_ID = ''m'', msg_Content = ''hello'',
     msg_Trigger = AgentMessageTriggerUnset, msg_Status = MessageStatusUnset,
     msg_DeliveryAttempts = 0, msg_LastError = [], msg_CreatedAt = 5, msg_ClaimedAt = None\<rparr>"

lemmas sample_defs = sample_task_def sample_snapshot_def sample_message_def
lemmas mailbox_limits = MaxMailboxMessages_def MaxMailboxMessageRunes_def MaxMailboxRunes_def

text \<open>
  C13: whatever sequence of methods runs on a task that starts with an empty mailbox, the mailbox
  never holds more than 64 messages or 100000 runes, every message holds trimmed, non-empty text
  of at most 20000 runes, no two messages share a non-blank identifier, and a task that has
  succeeded holds no message.
\<close>

theorem task_mailbox_bounded:
  assumes "task_Mailbox t = []"
  shows "length (task_Mailbox (run_ops task_step t ops)) \<le> 64
    \<and> mailboxRunes (run_ops task_step t ops) \<le> 100000
    \<and> list_all (\<lambda>m. msg_Content m \<noteq> [] \<and> TrimSpace (msg_Content m) = msg_Content m
         \<and> RuneCount (msg_Content m) \<le> 20000) (task_Mailbox (run_ops task_step t ops))
    \<and> distinct (filter (\<lambda>i. \<not> blank i) (map msg_ID (task_Mailbox (run_ops task_step t ops))))
    \<and> (task_Status (run_ops task_step t ops) = TaskStatusSucceeded
         \<longrightarrow> task_Mailbox (run_ops task_step t ops) = [])"
proof -
  from assms have "task_inv t" by (simp add: task_inv_def mailbox_ok_def keys_ok_def)
  then have "task_inv (run_ops task_step t ops)" by (rule task_machine.run_inv)
  then show ?thesis
    by (auto simp: task_inv_def mailbox_ok_def keys_ok_def key_ok_def msg_key_def comp_def
        list_all_iff mailboxRunes_def mailbox_limits)
qed

theorem task_mailbox_bounded_witness:
  "task_Mailbox sample_task = []
   \<and> length (task_Mailbox (run_ops task_step sample_task
        [OpEnqueue sample_message 7, OpStart 8, OpClaim 9])) \<le> 64"
  using task_mailbox_bounded
    [of sample_task "[OpEnqueue sample_message 7, OpStart 8, OpClaim 9]"]
  by (simp add: sample_task_def)

text \<open>
  A claim takes the oldest message that is not being delivered; acknowledging it removes
  exactly that message, and releasing it puts it back, pending, in its old place.
\<close>

theorem mailbox_claim_resolves:
  assumes ok: "mailbox_ok t" and claim: "ClaimMailboxMessage now t = (Some m, t')"
    and id: "\<not> blank (msg_ID m)"
  shows "\<exists>as x bs. task_Mailbox t = as @ x # bs
    \<and> (\<forall>a \<in> set as. msg_Status a = MessageStatusDelivering)
    \<and> m = claimed_at now x \<and> task_Mailbox t' = as @ m # bs
    \<and> AcknowledgeMailboxMessage (msg_ID m) later t'
        = (True, t'\<lparr>task_Mailbox := as @ bs, task_UpdatedAt := later\<rparr>)
    \<and> ReleaseMailboxMessage (msg_ID m) e later t'
        = (True, t'\<lparr>task_Mailbox := as @ released e m # bs, task_UpdatedAt := later\<rparr>)"
proof -
  from claim obtain as x bs where box: "task_Mailbox t = as @ x # bs"
    and before: "\<forall>a \<in> set as. \<not> claimable a" and m: "m = claimed_at now x"
    and t': "task_Mailbox t' = as @ m # bs"
    by (fastforce simp: ClaimMailboxMessage_def split: option.splits dest: update_first_Some)
  from ok box before have st: "\<forall>a \<in> set as. msg_Status a = MessageStatusDelivering"
    by (auto simp: mailbox_ok_def list_all_iff delivery_ok_def claimable_def)
  from ok box id m have other: "\<forall>a \<in> set as. msg_ID a \<noteq> msg_ID m"
    by (auto simp: mailbox_ok_def keys_ok_def msg_key_def claimed_at_def image_iff
        dest!: spec)
  have d: "delivering (msg_ID m) m" by (simp add: delivering_def m claimed_at_def)
  have skip: "remove_first (delivering (msg_ID m)) (as @ m # bs) = Some (as @ bs)"
    "update_first (delivering (msg_ID m)) (released e) (as @ m # bs)
       = Some (released e m, as @ released e m # bs)"
    using other d by (induction as) (auto simp: delivering_def)
  show ?thesis
    by (rule exI [of _ as], rule exI [of _ x], rule exI [of _ bs])
      (simp add: box st m [symmetric] t' skip AcknowledgeMailboxMessage_def
        ReleaseMailboxMessage_def)
qed

definition claimed_sample :: Message where
  "claimed_sample = claimed_at 9 (sample_message\<lparr>msg_Trigger := AgentMessageTriggerTurn,
     msg_Status := MessageStatusPending\<rparr>)"

theorem mailbox_claim_resolves_witness:
  "\<exists>as x bs. task_Mailbox (sample_task\<lparr>task_Mailbox := [sample_message\<lparr>msg_Trigger := AgentMessageTriggerTurn,
      msg_Status := MessageStatusPending\<rparr>]\<rparr>) = as @ x # bs \<and> claimed_sample = claimed_at 9 x"
proof -
  let ?t = "sample_task\<lparr>task_Mailbox := [sample_message\<lparr>msg_Trigger := AgentMessageTriggerTurn,
      msg_Status := MessageStatusPending\<rparr>]\<rparr>"
  have ok: "mailbox_ok ?t"
    by (simp add: sample_defs mailbox_ok_def keys_ok_def key_ok_def msg_key_def delivery_ok_def
        valid_trigger_def mailbox_limits visible_eval go_defs runes_ascii)
  have claim: "ClaimMailboxMessage 9 ?t
    = (Some claimed_sample, ?t\<lparr>task_Mailbox := [claimed_sample], task_UpdatedAt := 9\<rparr>)"
    by (simp add: ClaimMailboxMessage_def claimable_def claimed_sample_def sample_defs)
  have id: "\<not> blank (msg_ID claimed_sample)"
    by (simp add: claimed_sample_def claimed_at_def sample_defs visible_eval)
  from mailbox_claim_resolves [OF ok claim id] show ?thesis by blast
qed

text \<open>
  Sending the same message again is harmless: once a message with an identifier has been
  accepted, a retry with the same content and trigger returns no error and changes nothing.
\<close>

theorem enqueue_retry_idempotent:
  assumes id: "\<not> blank (msg_ID m)" and first: "EnqueueMessage m now t = Inr t'"
  shows "EnqueueMessage m later t' = Inr t'"
proof (cases "t' = t")
  case True
  with EnqueueMessage_cases [OF first] have "\<exists>e \<in> set (task_Mailbox t). msg_ID e = msg_ID m"
    by (auto dest: arg_cong [of _ _ task_Mailbox])
  with id have "find (\<lambda>e. msg_ID e = msg_ID m \<and> \<not> blank (msg_ID m)) (task_Mailbox t) \<noteq> None"
    by (auto simp: find_None_iff)
  then obtain x where
    f: "find (\<lambda>e. msg_ID e = msg_ID m \<and> \<not> blank (msg_ID m)) (task_Mailbox t) = Some x" by auto
  have "EnqueueMessage m later t = EnqueueMessage m now t"
    by (simp add: EnqueueMessage_def Let_def f)
  with first True show ?thesis by simp
next
  case False
  from EnqueueMessage_cases [OF first] False obtain m' where
    t': "t' = t\<lparr>task_Mailbox := task_Mailbox t @ [m'], task_UpdatedAt := msg_CreatedAt m'\<rparr>"
    and m': "msg_ID m' = msg_ID m" "msg_Content m' = TrimSpace (msg_Content m)"
      "msg_Trigger m' = default_trigger (msg_Trigger m)"
    and fresh: "\<forall>e \<in> set (task_Mailbox t). msg_ID e \<noteq> msg_ID m"
    using id by auto
  have "find (\<lambda>e. msg_ID e = msg_ID m \<and> \<not> blank (msg_ID m)) (task_Mailbox t @ [m']) = Some m'"
    by (rule find_snoc) (use fresh id m'(1) in auto)
  with first show ?thesis
    by (auto simp: EnqueueMessage_def Let_def t' m' Terminal_def split: if_splits)
qed

theorem enqueue_retry_idempotent_witness:
  "\<exists>t'. EnqueueMessage sample_message 7 sample_task = Inr t' \<and> EnqueueMessage sample_message 8 t' = Inr t'"
proof -
  have id: "\<not> blank (msg_ID sample_message)" by (simp add: sample_message_def visible_eval)
  have "\<exists>t'. EnqueueMessage sample_message 7 sample_task = Inr t'"
    by (simp add: EnqueueMessage_def Let_def sample_defs Terminal_def mailboxRunes_def mailbox_limits
        default_trigger_def valid_trigger_def visible_eval go_defs runes_ascii)
  then obtain t' where "EnqueueMessage sample_message 7 sample_task = Inr t'" ..
  with enqueue_retry_idempotent [OF id this, of 8] show ?thesis by blast
qed

text \<open>
  C37: a terminal status is final: no sequence of methods changes anything of a succeeded, failed
  or canceled task but its mailbox and update time, and none adds a message to it.
\<close>

theorem terminal_task_settled:
  assumes "Terminal t"
  shows "settled (run_ops task_step t ops) = settled t
    \<and> mailbox_held (run_ops task_step t ops) \<subseteq># mailbox_held t"
  using terminal_machine.run_inv [of t "settled t" "mailbox_held t" ops] assms by simp

theorem terminal_task_settled_witness:
  "Terminal (sample_task\<lparr>task_Status := TaskStatusFailed\<rparr>)
   \<and> settled (run_ops task_step (sample_task\<lparr>task_Status := TaskStatusFailed\<rparr>)
        [OpEnqueue sample_message 7, OpStart 8]) = settled (sample_task\<lparr>task_Status := TaskStatusFailed\<rparr>)"
proof -
  have "Terminal (sample_task\<lparr>task_Status := TaskStatusFailed\<rparr>)"
    by (simp add: sample_task_def Terminal_def)
  with terminal_task_settled [OF this, of "[OpEnqueue sample_message 7, OpStart 8]"]
  show ?thesis by blast
qed

text \<open>
  Recovery after a restart: every message of the mailbox is still there, in its order, none
  is being delivered any more, so the next claim takes the oldest one, and recovering again
  reports no change.
\<close>

lemma recovery_makes_deliverable:
  assumes "mailbox_ok t"
  shows "map msg_key (task_Mailbox (snd (RecoverMailboxDeliveries now t)))
      = map msg_key (task_Mailbox t)
    \<and> list_all (\<lambda>m. msg_Status m = MessageStatusPending \<and> msg_ClaimedAt m = None)
        (task_Mailbox (snd (RecoverMailboxDeliveries now t)))
    \<and> fst (ClaimMailboxMessage later (snd (RecoverMailboxDeliveries now t)))
        = (case task_Mailbox t of [] \<Rightarrow> None | m # ms \<Rightarrow> Some (claimed_at later (recovered m)))
    \<and> fst (RecoverMailboxDeliveries later (snd (RecoverMailboxDeliveries now t))) = False"
proof -
  have p: "m \<in> set (task_Mailbox t) \<Longrightarrow>
      msg_Status (recovered m) = MessageStatusPending \<and> msg_ClaimedAt (recovered m) = None" for m
    using assms by (auto simp: mailbox_ok_def list_all_iff delivery_ok_def recovered_def)
  have box: "task_Mailbox (snd (RecoverMailboxDeliveries now t)) = map recovered (task_Mailbox t)"
    by (simp add: RecoverMailboxDeliveries_def Let_def)
  have "fst (ClaimMailboxMessage later (snd (RecoverMailboxDeliveries now t)))
        = (case task_Mailbox t of [] \<Rightarrow> None | m # ms \<Rightarrow> Some (claimed_at later (recovered m)))"
    using p by (cases "task_Mailbox t") (simp_all add: ClaimMailboxMessage_def box claimable_def)
  moreover have "fst (RecoverMailboxDeliveries later (snd (RecoverMailboxDeliveries now t))) = False"
    using p by (simp add: RecoverMailboxDeliveries_def [of later] Let_def box list_ex_iff)
  ultimately show ?thesis using p by (simp add: box list_all_iff)
qed

end
