(* ===== verification/GoJson.thy ===== *)
theory GoJson
  imports GoStrings "HOL-Library.Char_ord" "HOL-Library.List_Lexorder"
begin

text \<open>
  The part of \<open>encoding/json\<close> the code uses on untrusted text: \<open>MarshalIndent\<close> with the indent
  of two spaces on an object whose members are strings, integers, booleans and lists of strings.
  Members come out sorted by key. HTML-sensitive characters, control characters, the two line
  separators and bytes that are no encoding are escaped, as the Go encoder does.
\<close>

datatype json =
    JString string
  | JInt int
  | JBool bool
  | JStrings "string list"

type_synonym json_object = "(string \<times> json) list"

definition hex_digit :: "nat \<Rightarrow> char" where
  "hex_digit n = ''0123456789abcdef'' ! (n mod 16)"

definition json_escape_byte :: "char \<Rightarrow> string" where
  "json_escape_byte b =
     (if b = CHR 0x5C \<or> b = CHR 0x22 then [CHR 0x5C, b]
      else if byte b = 8 then [CHR 0x5C, CHR ''b'']
      else if byte b = 12 then [CHR 0x5C, CHR ''f'']
      else if byte b = 10 then [CHR 0x5C, CHR ''n'']
      else if byte b = 13 then [CHR 0x5C, CHR ''r'']
      else if byte b = 9 then [CHR 0x5C, CHR ''t'']
      else if byte b < 32 \<or> b = CHR ''<'' \<or> b = CHR ''>'' \<or> b = CHR ''&''
        then [CHR 0x5C, CHR ''u'', CHR ''0'', CHR ''0'', hex_digit (byte b div 16), hex_digit (byte b)]
      else [b])"

definition json_escape_rune :: "string \<Rightarrow> string" where
  "json_escape_rune r =
     (case r of
        [b] \<Rightarrow> if byte b < 128 then json_escape_byte b
               else [CHR 0x5C] @ ''ufffd''
      | _ \<Rightarrow> if rune_value r = 8232 \<or> rune_value r = 8233
             then [CHR 0x5C] @ ''u202'' @ [hex_digit (rune_value r)]
             else r)"

definition json_string :: "string \<Rightarrow> string" where
  "json_string s = [CHR 0x22] @ concat (map json_escape_rune (runes s)) @ [CHR 0x22]"

fun decimal_digits :: "nat \<Rightarrow> string" where
  "decimal_digits n =
     (if n < 10 then [''0123456789'' ! n] else decimal_digits (n div 10) @ [''0123456789'' ! (n mod 10)])"

declare decimal_digits.simps [simp del]

definition Itoa :: "int \<Rightarrow> string" where
  "Itoa i = (if i < 0 then CHR ''-'' # decimal_digits (nat (- i)) else decimal_digits (nat i))"

definition newline :: string where
  "newline = [CHR 0x0A]"

definition json_value :: "json \<Rightarrow> string" where
  "json_value v =
     (case v of
        JString s \<Rightarrow> json_string s
      | JInt i \<Rightarrow> Itoa i
      | JBool b \<Rightarrow> (if b then ''true'' else ''false'')
      | JStrings ss \<Rightarrow>
          (if ss = [] then ''[]''
           else ''['' @ newline
             @ join (CHR '','' # newline) (map (\<lambda>s. ''    '' @ json_string s) ss)
             @ newline @ ''  ]''))"

definition MarshalIndent :: "json_object \<Rightarrow> string" where
  "MarshalIndent ms =
     (if ms = [] then ''{}''
      else ''{'' @ newline
        @ join (CHR '','' # newline)
            (map (\<lambda>(k, v). ''  '' @ json_string k @ '': '' @ json_value v) (sort_key fst ms))
        @ newline @ ''}'')"

section \<open>No markup in the encoding\<close>

definition no_markup :: "string \<Rightarrow> bool" where
  "no_markup s \<longleftrightarrow> list_all (\<lambda>c. c \<noteq> CHR ''<'' \<and> c \<noteq> CHR ''>'' \<and> c \<noteq> CHR ''&'') s"

lemma no_markup_append [simp]: "no_markup (s @ t) \<longleftrightarrow> no_markup s \<and> no_markup t"
  by (simp add: no_markup_def)

lemma no_markup_Cons [simp]:
  "no_markup (c # s) \<longleftrightarrow> c \<noteq> CHR ''<'' \<and> c \<noteq> CHR ''>'' \<and> c \<noteq> CHR ''&'' \<and> no_markup s"
  by (simp add: no_markup_def)

lemma no_markup_Nil [simp]: "no_markup []"
  by (simp add: no_markup_def)

lemma no_markup_newline [simp]: "no_markup newline"
  by (simp add: newline_def)

lemma no_markup_concat: "(\<And>r. r \<in> set rs \<Longrightarrow> no_markup r) \<Longrightarrow> no_markup (concat rs)"
  by (induction rs) auto

lemma no_markup_join: "no_markup sep \<Longrightarrow> (\<And>r. r \<in> set rs \<Longrightarrow> no_markup r) \<Longrightarrow> no_markup (join sep rs)"
  by (induction sep rs rule: join.induct) auto

lemma hex_digit_markup: "hex_digit n \<noteq> CHR ''<'' \<and> hex_digit n \<noteq> CHR ''>'' \<and> hex_digit n \<noteq> CHR ''&''"
proof -
  have "hex_digit n \<in> set ''0123456789abcdef''"
    unfolding hex_digit_def by (rule nth_mem) simp
  then show ?thesis by auto
qed

text \<open>A multi-byte encoding has no byte below 128.\<close>

lemma multibyte_high:
  assumes "c \<in> set (take (rune_width s) s)" "rune_width s \<noteq> 1"
  shows "128 \<le> byte c"
proof -
  have second: "second_ok b0 b1 \<Longrightarrow> 128 \<le> byte b1" for b0 b1
    by (auto simp: second_ok_def byte_in_def cont_byte_def split: if_splits)
  then show ?thesis
    using assms
    by (cases s rule: rune_width.cases)
      (auto simp: byte_in_def cont_byte_def split: if_splits)
qed

lemma runes_high: "r \<in> set (runes s) \<Longrightarrow> length r = 1 \<or> (\<forall>c \<in> set r. 128 \<le> byte c)"
proof (induction s rule: runes.induct)
  case (1 s)
  then have s: "s \<noteq> []" by auto
  have "length (take (rune_width s) s) = rune_width s" using rune_width_le [of s] by simp
  then have "length (take (rune_width s) s) = 1 \<or> (\<forall>c \<in> set (take (rune_width s) s). 128 \<le> byte c)"
    using multibyte_high [of _ s] by metis
  with 1 s show ?case by (auto simp: runes_step)
qed

lemma no_markup_high: "\<forall>c \<in> set r. 128 \<le> byte c \<Longrightarrow> no_markup r"
  by (auto simp: no_markup_def list_all_iff byte_def)

lemma no_markup_escape_byte: "no_markup (json_escape_byte b)"
  using hex_digit_markup by (auto simp: json_escape_byte_def)

lemma no_markup_escape: "r \<in> set (runes s) \<Longrightarrow> no_markup (json_escape_rune r)"
  using runes_high [of r s] runes_nonempty [of r s] no_markup_escape_byte hex_digit_markup
    no_markup_high [of r]
  by (auto simp: json_escape_rune_def split: list.split)

lemma no_markup_json_string [simp]: "no_markup (json_string s)"
  by (auto simp: json_string_def intro!: no_markup_concat no_markup_escape)

lemma no_markup_digits: "no_markup (decimal_digits n)"
proof (induction n rule: decimal_digits.induct)
  case (1 n)
  have d: "k < 10 \<Longrightarrow> no_markup [''0123456789'' ! k]" for k
  proof -
    assume "k < 10"
    then have "''0123456789'' ! k \<in> set ''0123456789''" by (intro nth_mem) simp
    then show ?thesis by auto
  qed
  show ?case
    using 1 d [of n] d [of "n mod 10"] by (subst decimal_digits.simps) (simp del: no_markup_Cons)
qed

lemma no_markup_json_value [simp]: "no_markup (json_value v)"
  by (auto simp: json_value_def Itoa_def no_markup_digits intro!: no_markup_join split: json.split)

text \<open>Whatever the values hold, the encoding cannot open or close a markup tag.\<close>

lemma no_markup_MarshalIndent: "no_markup (MarshalIndent ms)"
  by (auto simp: MarshalIndent_def intro!: no_markup_join)

end
