(* ===== verification/AgentMessages.thy ===== *)
theory AgentMessages
  imports SubagentTask "HOL-Library.Word"
begin

text \<open>
  \<open>core/domain/subagent/agent.go\<close>: the durable envelope of a message between agents, its
  validation and the comparison of a retry with the original request. A text that the code
  compares with the empty string has an \<open>...Unset\<close> value, any other text outside the listed
  ones is \<open>...Other\<close>. The sequence is a 64-bit word.
\<close>

datatype AgentStatus =
    AgentStatusCreated
  | AgentStatusQueued
  | AgentStatusRunning
  | AgentStatusWaiting
  | AgentStatusIdle
  | AgentStatusCompleted
  | AgentStatusFailed
  | AgentStatusInterrupted
  | AgentStatusUnloaded
  | AgentStatusOther string

record AgentRuntimeSnapshot =
  rt_ThreadID :: string
  rt_ParentThreadID :: string
  rt_RootAgentID :: string
  rt_AgentPath :: string
  rt_AgentNickname :: string
  rt_CurrentTurnID :: string
  rt_Status :: AgentStatus
  rt_Loaded :: bool

datatype AgentMessageKind =
    AgentMessageKindUnset
  | AgentMessageKindUserInput
  | AgentMessageKindAssignment
  | AgentMessageKindInterAgent
  | AgentMessageKindTaskResult
  | AgentMessageKindTaskError
  | AgentMessageKindControl
  | AgentMessageKindOther string

datatype AgentMessageDeliveryStatus =
    AgentMessageStatusUnset
  | AgentMessagePending
  | AgentMessageDelivering
  | AgentMessageDelivered
  | AgentMessageFailed
  | AgentMessageStatusOther string

record AgentMessage =
  am_ID :: string
  am_SourceTaskID :: string
  am_AuthorAgentID :: string
  am_RecipientAgentID :: string
  am_ParentTurnID :: string
  am_RootAgentID :: string
  am_Kind :: AgentMessageKind
  am_Content :: string
  am_Trigger :: AgentMessageTrigger
  am_Sequence :: "64 word"
  am_Status :: AgentMessageDeliveryStatus
  am_DeliveryAttempts :: int
  am_LastError :: string
  am_CreatedAt :: gotime
  am_DeliveredAt :: "gotime option"
  am_ClaimOwnerID :: string
  am_ClaimExpiresAt :: "gotime option"

datatype agent_message_error =
    AgentMessageIDRequired
  | AgentMessageRecipientRequired
  | AgentMessageContentRequired
  | AgentMessageKindRequired
  | AgentMessageTriggerRequired
  | AgentMessageStatusRequired
  | AgentMessageBadKind AgentMessageKind
  | AgentMessageBadTrigger AgentMessageTrigger
  | AgentMessageBadStatus AgentMessageDeliveryStatus

definition AgentResultMessageID :: "string \<Rightarrow> string \<Rightarrow> string" where
  "AgentResultMessageID taskID runID =
     ''agent-result:'' @ TrimSpace taskID @ '':'' @ TrimSpace runID"

definition AgentMessage_Validate :: "AgentMessage \<Rightarrow> agent_message_error option" where
  "AgentMessage_Validate message =
     (if blank (am_ID message) then Some AgentMessageIDRequired
      else if blank (am_RecipientAgentID message) then Some AgentMessageRecipientRequired
      else if blank (am_Content message) then Some AgentMessageContentRequired
      else if am_Kind message = AgentMessageKindUnset then Some AgentMessageKindRequired
      else if am_Trigger message = AgentMessageTriggerUnset then Some AgentMessageTriggerRequired
      else if am_Status message = AgentMessageStatusUnset then Some AgentMessageStatusRequired
      else case am_Kind message of
        AgentMessageKindOther _ \<Rightarrow> Some (AgentMessageBadKind (am_Kind message))
      | _ \<Rightarrow> (case am_Trigger message of
          AgentMessageTriggerOther _ \<Rightarrow> Some (AgentMessageBadTrigger (am_Trigger message))
        | _ \<Rightarrow> (case am_Status message of
            AgentMessageStatusOther _ \<Rightarrow> Some (AgentMessageBadStatus (am_Status message))
          | _ \<Rightarrow> None)))"

definition SameRequest :: "AgentMessage \<Rightarrow> AgentMessage \<Rightarrow> bool" where
  "SameRequest message other \<longleftrightarrow>
     am_ID message = am_ID other \<and> am_SourceTaskID message = am_SourceTaskID other
     \<and> am_AuthorAgentID message = am_AuthorAgentID other
     \<and> am_RecipientAgentID message = am_RecipientAgentID other
     \<and> am_ParentTurnID message = am_ParentTurnID other
     \<and> am_RootAgentID message = am_RootAgentID other
     \<and> am_Kind message = am_Kind other \<and> am_Content message = am_Content other
     \<and> default_trigger (am_Trigger message) = default_trigger (am_Trigger other)"

lemma SameRequest_refl [simp]: "SameRequest m m"
  by (simp add: SameRequest_def)

lemma SameRequest_sym: "SameRequest a b \<Longrightarrow> SameRequest b a"
  by (simp add: SameRequest_def)

lemma SameRequest_trans: "SameRequest a b \<Longrightarrow> SameRequest b c \<Longrightarrow> SameRequest a c"
  by (simp add: SameRequest_def)

lemma valid_message_known:
  "AgentMessage_Validate m = None \<Longrightarrow>
     \<not> blank (am_ID m) \<and> \<not> blank (am_Content m) \<and> am_Trigger m \<noteq> AgentMessageTriggerUnset
     \<and> valid_trigger (am_Trigger m)"
  by (auto simp: AgentMessage_Validate_def valid_trigger_def
      split: if_splits AgentMessageKind.splits AgentMessageTrigger.splits
        AgentMessageDeliveryStatus.splits)

end
