(* ===== verification/SubagentRepository.thy ===== *)
theory SubagentRepository
  imports AgentMessages
begin

text \<open>
  \<open>core/adapter/subagent/memory/repository.go\<close> and \<open>ReconcileOwnedTaskTransition\<close> of
  \<open>core/port/subagent/repository.go\<close>: the store of definitions, tasks, runs, agent messages,
  execution leases and task events. Every method holds the repository's mutex from its first
  access to its last, so a method is one operation on the state. A method that returns an error
  has not changed the state; one that succeeds returns the new state, with its value when it has
  one. \<open>time.Now()\<close> is the argument \<open>now\<close> (two arguments where the code reads it twice). The
  order in which \<open>range\<close> visits a map is the argument \<open>ks\<close>; \<open>sort.Slice\<close> leaves the order of
  equal elements open, which the freedom of \<open>ks\<close> covers.
\<close>

record SharedAsset =
  sa_ID :: string
  sa_SessionID :: string
  sa_RequestID :: string
  sa_ToolCallID :: string
  sa_ToolName :: string
  sa_LocalPath :: string
  sa_FileName :: string
  sa_ContentType :: string
  sa_Size :: int
  sa_ShortURL :: string
  sa_ShortCode :: string
  sa_ExpiresAt :: "gotime option"
  sa_CreatedAt :: gotime

record TaskEvent =
  ev_Sequence :: "64 word"
  ev_Kind :: string
  ev_Task :: Task
  ev_RunID :: string
  ev_ToolCallID :: string
  ev_Assets :: "SharedAsset list"
  ev_Content :: string
  ev_ToolName :: string
  ev_Arguments :: string
  ev_Status :: string
  ev_ErrorCode :: string
  ev_ErrorMessage :: string
  ev_Truncated :: bool
  ev_Delta :: bool
  ev_EmittedAt :: gotime

record executionLease =
  lease_runID :: string
  lease_ownerID :: string
  lease_expiresAt :: gotime

record Repository =
  repo_definitions :: "Definition gomap"
  repo_tasks :: "Task gomap"
  repo_runs :: "Run list gomap"
  repo_agentMessages :: "AgentMessage gomap"
  repo_leases :: "executionLease gomap"
  repo_events :: "TaskEvent list"
  repo_eventSequence :: "64 word"

datatype repo_error =
    ErrNotFound
  | ErrExecutionLeaseNotAcquired
  | ErrPendingMailbox
  | ErrTaskStateConflict
  | RepoMessageInvalid agent_message_error
  | RepoTaskError task_error
  | AgentMessageIDReused
  | AgentMessageIDInMailbox
  | ClaimedMessageMissing
  | ParentCompletionConflict
  | ParentClaimInvalid

definition NewRepository :: Repository where
  "NewRepository =
     \<lparr>repo_definitions = Map.empty, repo_tasks = Map.empty, repo_runs = Map.empty,
      repo_agentMessages = Map.empty, repo_leases = Map.empty, repo_events = [],
      repo_eventSequence = 0\<rparr>"

definition with_task :: "Task \<Rightarrow> Repository \<Rightarrow> Repository" where
  "with_task task r = r\<lparr>repo_tasks := (repo_tasks r)(task_ID task \<mapsto> task)\<rparr>"

definition with_message :: "AgentMessage \<Rightarrow> Repository \<Rightarrow> Repository" where
  "with_message m r = r\<lparr>repo_agentMessages := (repo_agentMessages r)(am_ID m \<mapsto> m)\<rparr>"

definition with_lease :: "string \<Rightarrow> executionLease \<Rightarrow> Repository \<Rightarrow> Repository" where
  "with_lease taskID l r = r\<lparr>repo_leases := (repo_leases r)(taskID \<mapsto> l)\<rparr>"

section \<open>Child mailbox\<close>

definition EnqueueChildAgentMessage ::
  "string \<Rightarrow> AgentMessage \<Rightarrow> gotime \<Rightarrow> Repository \<Rightarrow> repo_error + (Task \<times> Repository)" where
  "EnqueueChildAgentMessage taskID message now r =
     (case AgentMessage_Validate message of
        Some e \<Rightarrow> Inl (RepoMessageInvalid e)
      | None \<Rightarrow>
        (case repo_tasks r (TrimSpace taskID) of
           None \<Rightarrow> Inl ErrNotFound
         | Some task \<Rightarrow>
           (case repo_agentMessages r (am_ID message) of
              Some existing \<Rightarrow>
                (if \<not> SameRequest existing message then Inl AgentMessageIDReused
                 else Inr (task, r))
            | None \<Rightarrow>
                (if list_ex (\<lambda>queued. msg_ID queued = am_ID message) (task_Mailbox task)
                   then Inl AgentMessageIDInMailbox
                 else (case EnqueueMessage
                     \<lparr>msg_ID = am_ID message, msg_Content = am_Content message,
                      msg_Trigger = am_Trigger message, msg_Status = MessageStatusUnset,
                      msg_DeliveryAttempts = 0, msg_LastError = [],
                      msg_CreatedAt = am_CreatedAt message, msg_ClaimedAt = None\<rparr> now task of
                   Inl e \<Rightarrow> Inl (RepoTaskError e)
                 | Inr task' \<Rightarrow> Inr (task', with_message message (with_task task' r)))))))"

definition ClaimChildMailboxMessage ::
  "string \<Rightarrow> gotime \<Rightarrow> Repository \<Rightarrow> repo_error + (Message option \<times> Repository)" where
  "ClaimChildMailboxMessage taskID now r =
     (case repo_tasks r (TrimSpace taskID) of
        None \<Rightarrow> Inl ErrNotFound
      | Some task \<Rightarrow>
        (case ClaimMailboxMessage now task of
           (None, _) \<Rightarrow> Inr (None, r)
         | (Some message, task') \<Rightarrow>
           (let r' = with_task task' r
            in case repo_agentMessages r' (msg_ID message) of
                 None \<Rightarrow> Inr (Some message, r')
               | Some envelope \<Rightarrow>
                   Inr (Some message,
                     r'\<lparr>repo_agentMessages := (repo_agentMessages r')(msg_ID message \<mapsto>
                          envelope\<lparr>am_Status := AgentMessageDelivering,
                                   am_DeliveryAttempts := msg_DeliveryAttempts message,
                                   am_LastError := []\<rparr>)\<rparr>))))"

definition AcknowledgeChildAgentMessage ::
  "string \<Rightarrow> string \<Rightarrow> gotime \<Rightarrow> Repository \<Rightarrow> repo_error + Repository" where
  "AcknowledgeChildAgentMessage taskID messageID deliveredAt r =
     (case repo_tasks r (TrimSpace taskID) of
        None \<Rightarrow> Inl ErrNotFound
      | Some task \<Rightarrow>
        (case repo_agentMessages r (TrimSpace messageID) of
           None \<Rightarrow> Inl ErrNotFound
         | Some message \<Rightarrow>
           (if am_Status message = AgentMessageDelivered then Inr r
            else if am_RecipientAgentID message \<noteq> task_ChildSessionID task
              then Inl ClaimedMessageMissing
            else (case AcknowledgeMailboxMessage messageID deliveredAt task of
                (False, _) \<Rightarrow> Inl ClaimedMessageMissing
              | (True, task') \<Rightarrow>
                  Inr (with_message (message\<lparr>am_Status := AgentMessageDelivered,
                                             am_DeliveredAt := Some deliveredAt\<rparr>)
                        (with_task task' r))))))"

definition ReleaseChildMailboxMessage ::
  "string \<Rightarrow> string \<Rightarrow> string \<Rightarrow> gotime \<Rightarrow> Repository \<Rightarrow> repo_error + Repository" where
  "ReleaseChildMailboxMessage taskID messageID reason now r =
     (case repo_tasks r (TrimSpace taskID) of
        None \<Rightarrow> Inl ErrNotFound
      | Some task \<Rightarrow>
        (case ReleaseMailboxMessage messageID (if reason \<noteq> [] then Some reason else None) now task of
           (False, _) \<Rightarrow> Inr r
         | (True, task') \<Rightarrow>
           (let r' = with_task task' r
            in case repo_agentMessages r' messageID of
                 None \<Rightarrow> Inr r'
               | Some envelope \<Rightarrow>
                   Inr (r'\<lparr>repo_agentMessages := (repo_agentMessages r')(messageID \<mapsto>
                          envelope\<lparr>am_Status := AgentMessagePending,
                                   am_LastError := reason\<rparr>)\<rparr>))))"

section \<open>Execution leases\<close>

definition lease_args_ok :: "string \<Rightarrow> string \<Rightarrow> string \<Rightarrow> bool" where
  "lease_args_ok taskID runID ownerID \<longleftrightarrow> \<not> blank taskID \<and> \<not> blank runID \<and> \<not> blank ownerID"

definition Acquire ::
  "string \<Rightarrow> string \<Rightarrow> string \<Rightarrow> duration \<Rightarrow> gotime \<Rightarrow> Repository \<Rightarrow> repo_error + Repository" where
  "Acquire taskID runID ownerID ttl now r =
     (let accept = Inr (with_lease taskID
            \<lparr>lease_runID = runID, lease_ownerID = ownerID, lease_expiresAt = now + ttl\<rparr> r)
      in if \<not> lease_args_ok taskID runID ownerID \<or> ttl \<le> 0 then Inl ErrExecutionLeaseNotAcquired
         else case repo_leases r taskID of
             None \<Rightarrow> accept
           | Some current \<Rightarrow>
               (if now < lease_expiresAt current
                   \<and> (lease_runID current \<noteq> runID \<or> lease_ownerID current \<noteq> ownerID)
                then Inl ErrExecutionLeaseNotAcquired else accept))"

definition Renew ::
  "string \<Rightarrow> string \<Rightarrow> string \<Rightarrow> duration \<Rightarrow> gotime \<Rightarrow> Repository \<Rightarrow> repo_error + Repository" where
  "Renew taskID runID ownerID ttl now r =
     (if \<not> lease_args_ok taskID runID ownerID \<or> ttl \<le> 0 then Inl ErrExecutionLeaseNotAcquired
      else case repo_leases r taskID of
          None \<Rightarrow> Inl ErrExecutionLeaseNotAcquired
        | Some current \<Rightarrow>
            (if \<not> now < lease_expiresAt current
                \<or> lease_runID current \<noteq> runID \<or> lease_ownerID current \<noteq> ownerID
             then Inl ErrExecutionLeaseNotAcquired
             else Inr (with_lease taskID (current\<lparr>lease_expiresAt := now + ttl\<rparr>) r)))"

definition Release ::
  "string \<Rightarrow> string \<Rightarrow> string \<Rightarrow> Repository \<Rightarrow> repo_error + Repository" where
  "Release taskID runID ownerID r =
     (if \<not> lease_args_ok taskID runID ownerID then Inl ErrExecutionLeaseNotAcquired
      else case repo_leases r taskID of
          None \<Rightarrow> Inr r
        | Some current \<Rightarrow>
            (if lease_runID current \<noteq> runID \<or> lease_ownerID current \<noteq> ownerID
             then Inl ErrExecutionLeaseNotAcquired
             else Inr (r\<lparr>repo_leases := (repo_leases r)(taskID := None)\<rparr>)))"

section \<open>Agent messages\<close>

definition SaveAgentMessage :: "AgentMessage \<Rightarrow> Repository \<Rightarrow> repo_error + Repository" where
  "SaveAgentMessage message r =
     (case AgentMessage_Validate message of
        Some e \<Rightarrow> Inl (RepoMessageInvalid e)
      | None \<Rightarrow> Inr (with_message message r))"

definition GetAgentMessage :: "string \<Rightarrow> Repository \<Rightarrow> repo_error + AgentMessage" where
  "GetAgentMessage messageID r =
     (case repo_agentMessages r (TrimSpace messageID) of
        None \<Rightarrow> Inl ErrNotFound | Some message \<Rightarrow> Inr message)"

definition undelivered :: "AgentMessage \<Rightarrow> bool" where
  "undelivered m \<longleftrightarrow> am_Status m = AgentMessagePending \<or> am_Status m = AgentMessageDelivering"

definition ListPendingAgentMessages ::
  "string \<Rightarrow> int \<Rightarrow> string list \<Rightarrow> Repository \<Rightarrow> AgentMessage list" where
  "ListPendingAgentMessages recipientAgentID limit ks r =
     (let recipient = TrimSpace recipientAgentID
      in limit_list limit
           (sort_key am_CreatedAt
             (filter (\<lambda>m. (recipient = [] \<or> am_RecipientAgentID m = recipient) \<and> undelivered m)
               (map_items (repo_agentMessages r) ks))))"

definition ListPendingParentMessages :: "string list \<Rightarrow> Repository \<Rightarrow> AgentMessage list" where
  "ListPendingParentMessages ks r =
     sort_key am_CreatedAt
       (filter (\<lambda>m. undelivered m
            \<and> (am_Kind m = AgentMessageKindTaskResult \<or> am_Kind m = AgentMessageKindTaskError))
         (map_items (repo_agentMessages r) ks))"

definition MarkAgentMessageDelivered ::
  "string \<Rightarrow> gotime \<Rightarrow> Repository \<Rightarrow> repo_error + Repository" where
  "MarkAgentMessageDelivered messageID deliveredAt r =
     (case repo_agentMessages r (TrimSpace messageID) of
        None \<Rightarrow> Inl ErrNotFound
      | Some message \<Rightarrow>
          Inr (with_message (message\<lparr>am_Status := AgentMessageDelivered,
                 am_DeliveredAt := Some deliveredAt, am_ClaimOwnerID := [],
                 am_ClaimExpiresAt := None\<rparr>) r))"

definition MarkAgentMessageFailed :: "string \<Rightarrow> string \<Rightarrow> Repository \<Rightarrow> repo_error + Repository" where
  "MarkAgentMessageFailed messageID reason r =
     (case repo_agentMessages r (TrimSpace messageID) of
        None \<Rightarrow> Inl ErrNotFound
      | Some message \<Rightarrow>
          Inr (with_message (message\<lparr>am_Status := AgentMessageFailed,
                 am_LastError := TrimSpace reason\<rparr>) r))"

section \<open>Completions for the parent\<close>

definition EnqueueParentCompletion ::
  "string \<Rightarrow> AgentMessage \<Rightarrow> Repository \<Rightarrow> repo_error + (AgentMessage \<times> Repository)" where
  "EnqueueParentCompletion taskID message r =
     (case AgentMessage_Validate message of
        Some e \<Rightarrow> Inl (RepoMessageInvalid e)
      | None \<Rightarrow>
        (case repo_tasks r (TrimSpace taskID) of
           None \<Rightarrow> Inl ErrNotFound
         | Some task \<Rightarrow>
           (if \<not> Terminal task
               \<or> (am_Kind message = AgentMessageKindTaskResult \<and> task_Status task \<noteq> TaskStatusSucceeded)
               \<or> (am_Kind message = AgentMessageKindTaskError \<and> task_Status task \<noteq> TaskStatusFailed)
            then Inl ErrTaskStateConflict
            else (case repo_agentMessages r (am_ID message) of
                Some existing \<Rightarrow>
                  (if am_SourceTaskID existing \<noteq> taskID
                      \<or> am_RecipientAgentID existing \<noteq> task_ParentSessionID task
                      \<or> am_Kind existing \<noteq> am_Kind message
                      \<or> am_Content existing \<noteq> am_Content message
                   then Inl ParentCompletionConflict
                   else Inr (existing, r))
              | None \<Rightarrow> Inr (message, with_message message r)))))"

definition ClaimParentCompletion ::
  "string \<Rightarrow> string \<Rightarrow> gotime \<Rightarrow> duration \<Rightarrow> Repository \<Rightarrow> repo_error + (AgentMessage \<times> Repository)" where
  "ClaimParentCompletion messageID ownerID now ttl r =
     (if blank ownerID \<or> ttl \<le> 0 then Inl ParentClaimInvalid
      else case repo_agentMessages r (TrimSpace messageID) of
        None \<Rightarrow> Inl ErrNotFound
      | Some message \<Rightarrow>
          (if am_Status message = AgentMessageDelivered then Inl ErrTaskStateConflict
           else if am_Status message = AgentMessageDelivering
              \<and> (case am_ClaimExpiresAt message of None \<Rightarrow> False | Some expires \<Rightarrow> now < expires)
              \<and> am_ClaimOwnerID message \<noteq> ownerID
             then Inl ErrExecutionLeaseNotAcquired
           else (let message' = message\<lparr>am_Status := AgentMessageDelivering,
                       am_ClaimOwnerID := ownerID, am_ClaimExpiresAt := Some (now + ttl),
                       am_DeliveryAttempts := am_DeliveryAttempts message + 1,
                       am_LastError := []\<rparr>
                 in Inr (message', with_message message' r))))"

definition ReleaseParentCompletion ::
  "string \<Rightarrow> string \<Rightarrow> string \<Rightarrow> Repository \<Rightarrow> repo_error + Repository" where
  "ReleaseParentCompletion messageID ownerID reason r =
     (case repo_agentMessages r (TrimSpace messageID) of
        None \<Rightarrow> Inl ErrNotFound
      | Some message \<Rightarrow>
          (if am_Status message \<noteq> AgentMessageDelivering \<or> am_ClaimOwnerID message \<noteq> ownerID
             then Inl ErrTaskStateConflict
           else Inr (with_message (message\<lparr>am_Status := AgentMessagePending,
                  am_ClaimOwnerID := [], am_ClaimExpiresAt := None,
                  am_LastError := TrimSpace reason\<rparr>) r)))"

definition CompleteParentCompletion ::
  "string \<Rightarrow> string \<Rightarrow> gotime \<Rightarrow> Repository \<Rightarrow> repo_error + Repository" where
  "CompleteParentCompletion messageID ownerID deliveredAt r =
     (case repo_agentMessages r (TrimSpace messageID) of
        None \<Rightarrow> Inl ErrNotFound
      | Some message \<Rightarrow>
          (if am_Status message \<noteq> AgentMessageDelivering \<or> am_ClaimOwnerID message \<noteq> ownerID
             then Inl ErrTaskStateConflict
           else Inr (with_message (message\<lparr>am_Status := AgentMessageDelivered,
                  am_DeliveredAt := Some deliveredAt, am_ClaimOwnerID := [],
                  am_ClaimExpiresAt := None\<rparr>) r)))"

section \<open>Definitions, tasks and runs\<close>

definition SaveDefinition :: "Definition \<Rightarrow> Repository \<Rightarrow> Repository" where
  "SaveDefinition d r = r\<lparr>repo_definitions := (repo_definitions r)(def_ID d \<mapsto> d)\<rparr>"

definition GetDefinition :: "string \<Rightarrow> Repository \<Rightarrow> repo_error + Definition" where
  "GetDefinition definitionID r =
     (case repo_definitions r (TrimSpace definitionID) of None \<Rightarrow> Inl ErrNotFound | Some d \<Rightarrow> Inr d)"

definition ListDefinitions :: "bool \<Rightarrow> string list \<Rightarrow> Repository \<Rightarrow> Definition list" where
  "ListDefinitions includeDeleted ks r =
     filter (\<lambda>d. \<not> (def_Deleted d \<noteq> includeDeleted \<and> def_Deleted d)) (map_items (repo_definitions r) ks)"

definition DeleteDefinition :: "string \<Rightarrow> gotime \<Rightarrow> Repository \<Rightarrow> repo_error + Repository" where
  "DeleteDefinition definitionID now r =
     (case repo_definitions r (TrimSpace definitionID) of
        None \<Rightarrow> Inl ErrNotFound
      | Some d \<Rightarrow>
          Inr (SaveDefinition (d\<lparr>def_Deleted := True, def_DeletedAt := Some now,
                 def_UpdatedAt := now\<rparr>) r))"

definition SaveTask :: "Task \<Rightarrow> Repository \<Rightarrow> Repository" where
  "SaveTask task r = with_task task r"

definition GetTask :: "string \<Rightarrow> Repository \<Rightarrow> repo_error + Task" where
  "GetTask taskID r =
     (case repo_tasks r (TrimSpace taskID) of None \<Rightarrow> Inl ErrNotFound | Some task \<Rightarrow> Inr task)"

definition ListTasks :: "string \<Rightarrow> int \<Rightarrow> string list \<Rightarrow> Repository \<Rightarrow> Task list" where
  "ListTasks parentSessionID limit ks r =
     limit_list limit
       (sort_key (\<lambda>t. - task_CreatedAt t)
         (filter (\<lambda>t. parentSessionID = [] \<or> task_ParentSessionID t = parentSessionID)
           (map_items (repo_tasks r) ks)))"

definition ListNonTerminalTasks :: "string list \<Rightarrow> Repository \<Rightarrow> Task list" where
  "ListNonTerminalTasks ks r =
     sort_key task_CreatedAt (filter (\<lambda>t. \<not> Terminal t) (map_items (repo_tasks r) ks))"

definition runs_of :: "string \<Rightarrow> Repository \<Rightarrow> Run list" where
  "runs_of taskID r = (case repo_runs r taskID of None \<Rightarrow> [] | Some items \<Rightarrow> items)"

text \<open>The loop replaces the first run with the identifier; a new run is appended.\<close>

definition put_run :: "Run \<Rightarrow> Run list \<Rightarrow> Run list" where
  "put_run run items =
     (case update_first (\<lambda>x. run_ID x = run_ID run) (\<lambda>_. run) items of
        None \<Rightarrow> items @ [run]
      | Some (_, items') \<Rightarrow> items')"

definition SaveRun :: "Run \<Rightarrow> Repository \<Rightarrow> Repository" where
  "SaveRun run r =
     r\<lparr>repo_runs := (repo_runs r)(run_TaskID run \<mapsto> put_run run (runs_of (run_TaskID run) r))\<rparr>"

definition ListRuns :: "string \<Rightarrow> Repository \<Rightarrow> Run list" where
  "ListRuns taskID r = sort_key run_Sequence (runs_of (TrimSpace taskID) r)"

definition saveTaskAndRunLocked :: "Task \<Rightarrow> Run \<Rightarrow> Repository \<Rightarrow> Repository" where
  "saveTaskAndRunLocked task run r = SaveRun run (with_task task r)"

definition SaveTaskAndRun :: "Task \<Rightarrow> Run \<Rightarrow> Repository \<Rightarrow> Repository" where
  "SaveTaskAndRun task run r = saveTaskAndRunLocked task run r"

definition ReconcileOwnedTaskTransition :: "Task \<Rightarrow> Task \<Rightarrow> string \<Rightarrow> repo_error + Task" where
  "ReconcileOwnedTaskTransition current desired runID =
     (if task_ID current = [] then Inr desired
      else if task_CurrentRunID current \<noteq> [] \<and> task_CurrentRunID current \<noteq> runID
          \<and> \<not> (Terminal current \<and> task_Status desired = TaskStatusQueued)
        then Inl ErrTaskStateConflict
      else if task_Status current = TaskStatusCanceled \<and> task_Status desired \<noteq> TaskStatusCanceled
        then Inl ErrTaskStateConflict
      else if Terminal current \<and> task_Status desired \<noteq> TaskStatusQueued
          \<and> task_Status current \<noteq> task_Status desired
        then Inl ErrTaskStateConflict
      else (let desired' = desired\<lparr>task_Mailbox := task_Mailbox current\<rparr>
            in if task_Status desired' = TaskStatusSucceeded \<and> HasMailboxMessages desired'
               then Inl ErrPendingMailbox else Inr desired'))"

definition SaveOwnedTaskAndRun ::
  "Task \<Rightarrow> Run \<Rightarrow> string \<Rightarrow> duration \<Rightarrow> gotime \<Rightarrow> Repository \<Rightarrow> repo_error + Repository" where
  "SaveOwnedTaskAndRun task run ownerID ttl now r =
     (if ttl \<le> 0 then Inl ErrExecutionLeaseNotAcquired
      else case repo_leases r (task_ID task) of
        None \<Rightarrow> Inl ErrExecutionLeaseNotAcquired
      | Some lease \<Rightarrow>
          (if lease_runID lease \<noteq> run_ID run \<or> lease_ownerID lease \<noteq> ownerID
              \<or> \<not> now < lease_expiresAt lease
             then Inl ErrExecutionLeaseNotAcquired
           else (case (case repo_tasks r (task_ID task) of
                         None \<Rightarrow> Inr task
                       | Some current \<Rightarrow> ReconcileOwnedTaskTransition current task (run_ID run)) of
                   Inl e \<Rightarrow> Inl e
                 | Inr task' \<Rightarrow>
                     Inr (saveTaskAndRunLocked task' run
                           (with_lease (task_ID task') (lease\<lparr>lease_expiresAt := now + ttl\<rparr>) r)))))"

definition SaveCanceledTaskAndRun :: "Task \<Rightarrow> Run \<Rightarrow> Repository \<Rightarrow> repo_error + Repository" where
  "SaveCanceledTaskAndRun task run r =
     (case repo_tasks r (task_ID task) of
        None \<Rightarrow> Inl ErrNotFound
      | Some current \<Rightarrow>
          (if task_CurrentRunID current \<noteq> run_ID run
              \<or> (Terminal current \<and> task_Status current \<noteq> TaskStatusCanceled)
             then Inl ErrTaskStateConflict
           else Inr (saveTaskAndRunLocked task run r)))"

definition SaveTaskIfVersion :: "Task \<Rightarrow> gotime \<Rightarrow> Repository \<Rightarrow> repo_error + Repository" where
  "SaveTaskIfVersion task expectedUpdatedAt r =
     (case repo_tasks r (task_ID task) of
        None \<Rightarrow> Inl ErrNotFound
      | Some current \<Rightarrow>
          (if task_UpdatedAt current \<noteq> expectedUpdatedAt then Inl ErrTaskStateConflict
           else Inr (with_task task r)))"

definition SaveOwnedTask ::
  "Task \<Rightarrow> string \<Rightarrow> string \<Rightarrow> string \<Rightarrow> gotime \<Rightarrow> duration \<Rightarrow> gotime \<Rightarrow> gotime \<Rightarrow> Repository
     \<Rightarrow> repo_error + Repository" where
  "SaveOwnedTask task leaseRunID expectedCurrentRunID ownerID expectedUpdatedAt ttl now now' r =
     (if ttl \<le> 0 \<or> blank leaseRunID \<or> blank ownerID then Inl ErrExecutionLeaseNotAcquired
      else case repo_leases r (task_ID task) of
        None \<Rightarrow> Inl ErrExecutionLeaseNotAcquired
      | Some lease \<Rightarrow>
          (if lease_runID lease \<noteq> leaseRunID \<or> lease_ownerID lease \<noteq> ownerID
              \<or> \<not> now < lease_expiresAt lease
             then Inl ErrExecutionLeaseNotAcquired
           else (case repo_tasks r (task_ID task) of
               None \<Rightarrow> Inl ErrNotFound
             | Some current \<Rightarrow>
                 (if task_CurrentRunID current \<noteq> expectedCurrentRunID
                     \<or> task_UpdatedAt current \<noteq> expectedUpdatedAt
                    then Inl ErrTaskStateConflict
                  else Inr (with_task task
                         (with_lease (task_ID task)
                           (lease\<lparr>lease_expiresAt := now' + ttl\<rparr>) r))))))"

section \<open>Task events\<close>

definition bump_sequence :: "64 word \<Rightarrow> 64 word \<Rightarrow> 64 word" where
  "bump_sequence current seq = (if current < seq then seq else current)"

definition SaveTaskEvent :: "TaskEvent \<Rightarrow> Repository \<Rightarrow> Repository" where
  "SaveTaskEvent event r =
     (let r' = r\<lparr>repo_eventSequence := bump_sequence (repo_eventSequence r) (ev_Sequence event)\<rparr>
      in case update_first (\<lambda>e. ev_Sequence e = ev_Sequence event) (\<lambda>_. event) (repo_events r) of
           Some (_, events) \<Rightarrow> r'\<lparr>repo_events := events\<rparr>
         | None \<Rightarrow>
             (if repo_events r = [] \<or> ev_Sequence (last (repo_events r)) < ev_Sequence event
              then r'\<lparr>repo_events := repo_events r @ [event]\<rparr>
              else r'\<lparr>repo_events := sort_key ev_Sequence (repo_events r @ [event])\<rparr>))"

definition NextTaskEventSequence :: "Repository \<Rightarrow> 64 word \<times> Repository" where
  "NextTaskEventSequence r =
     (let n = repo_eventSequence r + 1 in (n, r\<lparr>repo_eventSequence := n\<rparr>))"

definition EnsureTaskEventSequence :: "64 word \<Rightarrow> Repository \<Rightarrow> Repository" where
  "EnsureTaskEventSequence least r =
     r\<lparr>repo_eventSequence := bump_sequence (repo_eventSequence r) least\<rparr>"

text \<open>The loop stops when it has \<open>limit\<close> events, for a positive limit.\<close>

definition ListTaskEvents :: "string \<Rightarrow> 64 word \<Rightarrow> int \<Rightarrow> Repository \<Rightarrow> TaskEvent list" where
  "ListTaskEvents parentSessionID afterSequence limit r =
     (let parent = TrimSpace parentSessionID;
          items = filter (\<lambda>e. afterSequence < ev_Sequence e
                    \<and> (parent = [] \<or> task_ParentSessionID (ev_Task e) = parent)) (repo_events r)
      in if 0 < limit then take (nat limit) items else items)"

definition LatestTaskEventSequence :: "Repository \<Rightarrow> 64 word" where
  "LatestTaskEventSequence r =
     (if repo_events r = [] then 0 else ev_Sequence (last (repo_events r)))"

end
