(* ===== verification/Contracts.thy ===== *)
theory Contracts
  imports GoBase Machine
begin

text \<open>
  The interfaces between the components and their stores, as locales: a key-value store, an
  expiring lease, and a slot that one holder has at a time. The components that provide them interpret them.
\<close>

section \<open>Key-value store\<close>

text \<open>
  What the repositories promise their clients: a lookup after a save returns the saved value, and
  a save of one key leaves the others.
\<close>

locale kv_store =
  fixes get :: "'k \<Rightarrow> 's \<Rightarrow> 'v option"
    and put :: "'v \<Rightarrow> 's \<Rightarrow> 's"
    and key :: "'v \<Rightarrow> 'k"
  assumes get_put_same: "get (key v) (put v s) = Some v"
    and get_put_other: "k \<noteq> key v \<Longrightarrow> get k (put v s) = get k s"
begin

definition put_all :: "'v list \<Rightarrow> 's \<Rightarrow> 's" where
  "put_all vs s = run_ops (\<lambda>s v. put v s) s vs"

lemma get_put: "get k (put v s) = (if k = key v then Some v else get k s)"
  by (simp add: get_put_same get_put_other)

text \<open>A lookup returns the last value saved under the key, and else what was there before.\<close>

lemma get_put_all:
  "get k (put_all vs s) = (case find (\<lambda>v. key v = k) (rev vs) of None \<Rightarrow> get k s | Some v \<Rightarrow> Some v)"
proof (induction vs rule: rev_induct)
  case (snoc v vs)
  then show ?case by (auto simp: put_all_def run_ops_append get_put)
qed (simp add: put_all_def)

lemma put_put_same: "key v = key w \<Longrightarrow> get k (put v (put w s)) = get k (put v s)"
  by (simp add: get_put)

end

section \<open>Expiring lease\<close>

text \<open>
  An operation reads the clock once and acts for a holder on a key. Until a lease expires, only
  its holder changes it.
\<close>

locale lease_store = op_machine step inv
  for step :: "'s \<Rightarrow> 'op \<Rightarrow> 's" and inv :: "'s \<Rightarrow> bool" +
  fixes lease :: "'k \<Rightarrow> 's \<Rightarrow> ('h \<times> gotime) option"
    and clock :: "'op \<Rightarrow> gotime"
    and actor :: "'op \<Rightarrow> 'k \<times> 'h"
  assumes lease_step:
    "\<lbrakk>inv s; lease k s = Some (h, e); clock op < e; actor op \<noteq> (k, h)\<rbrakk>
      \<Longrightarrow> lease k (step s op) = Some (h, e)"
begin

lemma lease_run:
  "\<lbrakk>inv s; lease k s = Some (h, e); \<forall>op \<in> set ops. clock op < e \<and> actor op \<noteq> (k, h)\<rbrakk>
    \<Longrightarrow> lease k (run_ops step s ops) = Some (h, e)"
  by (induction ops arbitrary: s) (simp_all add: lease_step step_inv)

end

section \<open>Exclusive slot\<close>

text \<open>
  A slot that one occupant holds until it gives it back: no operation but the occupant's release
  changes it, so it survives every execution without that release.
\<close>

locale exclusive_slot = op_machine step inv
  for step :: "'s \<Rightarrow> 'op \<Rightarrow> 's" and inv :: "'s \<Rightarrow> bool" +
  fixes occupant :: "'k \<Rightarrow> 's \<Rightarrow> 'h option"
    and releases :: "'op \<Rightarrow> 'k \<Rightarrow> 'h \<Rightarrow> bool"
  assumes slot_step:
    "\<lbrakk>inv s; occupant k s = Some h; \<not> releases op k h\<rbrakk> \<Longrightarrow> occupant k (step s op) = Some h"
begin

lemma slot_run:
  "\<lbrakk>inv s; occupant k s = Some h; \<forall>op \<in> set ops. \<not> releases op k h\<rbrakk>
    \<Longrightarrow> occupant k (run_ops step s ops) = Some h"
  by (induction ops arbitrary: s) (simp_all add: slot_step step_inv)

end

end
