(* ===== verification/RepositoryFacts.thy ===== *)
theory RepositoryFacts
  imports SubagentRepository SubagentMailbox Contracts
begin

text \<open>
  Facts about the repository of \<open>SubagentRepository\<close>: its stores meet the key-value contract, its
  leases the lease contract, its event log stays sorted; the properties that clients rely on.
\<close>

section \<open>Stores\<close>

interpretation task_store: kv_store "\<lambda>k r. repo_tasks r k" SaveTask task_ID
  by unfold_locales (simp_all add: SaveTask_def with_task_def)

interpretation definition_store: kv_store "\<lambda>k r. repo_definitions r k" SaveDefinition def_ID
  by unfold_locales (simp_all add: SaveDefinition_def)

interpretation message_store: kv_store "\<lambda>k r. repo_agentMessages r k" with_message am_ID
  by unfold_locales (simp_all add: with_message_def)

lemma with_sel [simp]:
  "repo_tasks (with_task t r) = (repo_tasks r)(task_ID t \<mapsto> t)"
  "repo_agentMessages (with_task t r) = repo_agentMessages r"
  "repo_leases (with_task t r) = repo_leases r"
  "repo_tasks (with_message m r) = repo_tasks r"
  "repo_agentMessages (with_message m r) = (repo_agentMessages r)(am_ID m \<mapsto> m)"
  "repo_leases (with_message m r) = repo_leases r"
  "repo_tasks (with_lease k l r) = repo_tasks r"
  "repo_agentMessages (with_lease k l r) = repo_agentMessages r"
  "repo_leases (with_lease k l r) = (repo_leases r)(k \<mapsto> l)"
  "repo_tasks (SaveRun run r) = repo_tasks r"
  "repo_leases (SaveRun run r) = repo_leases r"
  by (simp_all add: with_task_def with_message_def with_lease_def SaveRun_def)

section \<open>Leases\<close>

type_synonym holder = "string \<times> string"

datatype lease_op =
    LeaseAcquire string holder duration gotime
  | LeaseRenew string holder duration gotime
  | LeaseRelease string holder gotime
  | LeaseSaveRun Task Run string duration gotime
  | LeaseSaveTask Task string string string gotime duration gotime

definition or_same :: "'s \<Rightarrow> 'e + 's \<Rightarrow> 's" where
  "or_same s x = (case x of Inl _ \<Rightarrow> s | Inr s' \<Rightarrow> s')"

lemma or_same_simps [simp]: "or_same s (Inl e) = s" "or_same s (Inr s') = s'"
  by (simp_all add: or_same_def)

fun lease_attempt :: "Repository \<Rightarrow> lease_op \<Rightarrow> repo_error + Repository" where
  "lease_attempt r (LeaseAcquire t (run, own) ttl now) = Acquire t run own ttl now r"
| "lease_attempt r (LeaseRenew t (run, own) ttl now) = Renew t run own ttl now r"
| "lease_attempt r (LeaseRelease t (run, own) now) = Release t run own r"
| "lease_attempt r (LeaseSaveRun task run own ttl now) = SaveOwnedTaskAndRun task run own ttl now r"
| "lease_attempt r (LeaseSaveTask task lrun crun own upd ttl now) =
     SaveOwnedTask task lrun crun own upd ttl now now r"

definition lease_apply :: "Repository \<Rightarrow> lease_op \<Rightarrow> Repository" where
  "lease_apply r op = or_same r (lease_attempt r op)"

fun lease_clock :: "lease_op \<Rightarrow> gotime" where
  "lease_clock (LeaseAcquire t h ttl now) = now"
| "lease_clock (LeaseRenew t h ttl now) = now"
| "lease_clock (LeaseRelease t h now) = now"
| "lease_clock (LeaseSaveRun task run own ttl now) = now"
| "lease_clock (LeaseSaveTask task lrun crun own upd ttl now) = now"

fun lease_actor :: "lease_op \<Rightarrow> string \<times> holder" where
  "lease_actor (LeaseAcquire t h ttl now) = (t, h)"
| "lease_actor (LeaseRenew t h ttl now) = (t, h)"
| "lease_actor (LeaseRelease t h now) = (t, h)"
| "lease_actor (LeaseSaveRun task run own ttl now) = (task_ID task, (run_ID run, own))"
| "lease_actor (LeaseSaveTask task lrun crun own upd ttl now) = (task_ID task, (lrun, own))"

definition task_lease :: "string \<Rightarrow> Repository \<Rightarrow> (holder \<times> gotime) option" where
  "task_lease t r =
     map_option (\<lambda>l. ((lease_runID l, lease_ownerID l), lease_expiresAt l)) (repo_leases r t)"

lemma Reconcile_ID: "ReconcileOwnedTaskTransition c d run = Inr t \<Longrightarrow> task_ID t = task_ID d"
  by (auto simp: ReconcileOwnedTaskTransition_def Let_def split: if_splits)

lemma lease_held: "task_lease k r = Some (h, e) \<longleftrightarrow>
   (\<exists>l. repo_leases r k = Some l \<and> h = (lease_runID l, lease_ownerID l) \<and> e = lease_expiresAt l)"
  by (auto simp: task_lease_def)

lemma task_lease_cong: "repo_leases r' k = repo_leases r k \<Longrightarrow> task_lease k r' = task_lease k r"
  by (simp add: task_lease_def)

lemma or_same_lease:
  assumes "\<And>r'. x = Inr r' \<Longrightarrow> repo_leases r' k = repo_leases r k"
  shows "task_lease k (or_same r x) = task_lease k r"
  using assms by (cases x) (auto intro: task_lease_cong)

text \<open>An operation of someone else, before the lease expires, fails or is about another task.\<close>

lemma lease_attempt_other:
  assumes "task_lease k r = Some (h, e)" "lease_clock op < e" "lease_actor op = (k, h')" "h' \<noteq> h"
  shows "\<exists>err. lease_attempt r op = Inl err"
  using assms
  by (cases h'; cases op) (auto simp: lease_held Acquire_def Renew_def Release_def SaveOwnedTaskAndRun_def
      SaveOwnedTask_def Let_def split: prod.splits)

lemma lease_attempt_frame:
  assumes "lease_attempt r op = Inr r'" "fst (lease_actor op) \<noteq> k"
  shows "repo_leases r' k = repo_leases r k"
  using assms
  by (cases op)
    (auto simp: Acquire_def Renew_def Release_def SaveOwnedTaskAndRun_def SaveOwnedTask_def Let_def
      saveTaskAndRunLocked_def dest: Reconcile_ID split: if_splits option.splits sum.splits)

interpretation task_leases: lease_store lease_apply "\<lambda>_. True" task_lease lease_clock lease_actor
proof unfold_locales
  fix k r h e op
  assume held: "task_lease k r = Some (h, e)" and t: "lease_clock op < e"
    and other: "lease_actor op \<noteq> (k, h)"
  show "task_lease k (lease_apply r op) = Some (h, e)"
  proof (cases "fst (lease_actor op) = k")
    case True
    with other obtain h' where "lease_actor op = (k, h')" "h' \<noteq> h" by (cases "lease_actor op") auto
    from lease_attempt_other [OF held t this] held show ?thesis by (auto simp: lease_apply_def)
  next
    case False
    have "task_lease k (lease_apply r op) = task_lease k r"
      unfolding lease_apply_def by (rule or_same_lease) (rule lease_attempt_frame [OF _ False])
    with held show ?thesis by simp
  qed
qed

text \<open>
  C8: mutual exclusion of executions: after a run acquired the lease of a task, and until that
  lease expires, whatever any other run or owner attempts on any task, the lease stays with its
  holder; every attempt of another holder on this task to acquire or renew the lease, to release
  it, or to save the task under it fails and changes nothing.
\<close>

theorem lease_mutual_exclusion:
  assumes acq: "Acquire task run own ttl now r = Inr r0"
    and ops: "\<forall>op \<in> set ops. lease_clock op < now + ttl \<and> lease_actor op \<noteq> (task, run, own)"
  shows "task_lease task (run_ops lease_apply r0 ops) = Some ((run, own), now + ttl)
    \<and> (\<forall>op. lease_clock op < now + ttl \<longrightarrow> fst (lease_actor op) = task
          \<longrightarrow> snd (lease_actor op) \<noteq> (run, own)
          \<longrightarrow> lease_apply (run_ops lease_apply r0 ops) op = run_ops lease_apply r0 ops
              \<and> (\<exists>e. lease_attempt (run_ops lease_apply r0 ops) op = Inl e))"
proof -
  from acq have "task_lease task r0 = Some ((run, own), now + ttl)"
    by (auto simp: Acquire_def Let_def lease_held split: if_splits option.splits)
  then have held: "task_lease task (run_ops lease_apply r0 ops) = Some ((run, own), now + ttl)"
    using ops by (rule task_leases.lease_run [OF TrueI])
  have "\<exists>e. lease_attempt (run_ops lease_apply r0 ops) op = Inl e"
    if "lease_clock op < now + ttl" "fst (lease_actor op) = task" "snd (lease_actor op) \<noteq> (run, own)" for op
    using lease_attempt_other [OF held that(1), of "snd (lease_actor op)"] that by (metis prod.collapse)
  with held show ?thesis by (auto simp: lease_apply_def) (metis or_same_simps(1))
qed

theorem lease_mutual_exclusion_witness:
  "\<exists>r0. Acquire ''t'' ''r1'' ''a'' 10 100 NewRepository = Inr r0
     \<and> task_lease ''t'' (run_ops lease_apply r0
          [LeaseAcquire ''t'' (''r2'', ''b'') 10 105, LeaseRelease ''t'' (''r1'', ''b'') 107])
        = Some ((''r1'', ''a''), 110)"
proof -
  have "\<exists>r0. Acquire ''t'' ''r1'' ''a'' 10 100 NewRepository = Inr r0"
    by (simp add: Acquire_def Let_def NewRepository_def lease_args_ok_def visible_eval)
  then obtain r0 where a: "Acquire ''t'' ''r1'' ''a'' 10 100 NewRepository = Inr r0" ..
  from lease_mutual_exclusion [OF a, of "[LeaseAcquire ''t'' (''r2'', ''b'') 10 105,
      LeaseRelease ''t'' (''r1'', ''b'') 107]"] a show ?thesis by simp
qed

section \<open>Saving under a lease\<close>

lemma put_run_in: "run \<in> set (put_run run items)"
  by (auto simp: put_run_def split: option.split dest!: update_first_Some)


definition sample_run :: Run where
  "sample_run = \<lparr>run_ID = ''r'', run_TaskID = ''t'', run_Sequence = 1, run_RequestID = [],
     run_RequestContentHash = [], run_Instruction = ''i'', run_Status = RunStatusRunning,
     run_Result = [], run_Usage = 0, run_ErrorMessage = [], run_CreatedAt = 1,
     run_StartedAt = None, run_CompletedAt = None\<rparr>"


text \<open>
  Optimistic writers do not lose updates: of two writers that read the same version of a
  task, the second to save is refused, as long as the first gave its task a new update time;
  what the first saved is still there.
\<close>

lemma version_check_stops_lost_update:
  assumes "SaveTaskIfVersion t1 version r = Inr r1" "task_UpdatedAt t1 \<noteq> version"
    and "task_ID t2 = task_ID t1"
  shows "SaveTaskIfVersion t2 version r1 = Inl ErrTaskStateConflict
    \<and> SaveOwnedTask t2 lrun crun own version ttl now now' r1 \<in> range Inl
    \<and> repo_tasks r1 (task_ID t2) = Some t1"
  using assms
  by (auto simp: SaveTaskIfVersion_def SaveOwnedTask_def split: if_splits option.splits)

end
