(* ===== verification/ParentCompletion.thy ===== *)
theory ParentCompletion
  imports RepositoryFacts
begin

text \<open>
  The delivery of completions to the parent, over the repository of \<open>SubagentRepository\<close>: a
  completion is enqueued once, claimed for a time by one owner, and released or completed by it.
  A claim is a lease in the sense of \<open>Contracts\<close>; a delivered completion is final.
\<close>

definition keyed :: "Repository \<Rightarrow> bool" where
  "keyed r \<longleftrightarrow> (\<forall>k m. repo_agentMessages r k = Some m \<longrightarrow> am_ID m = k)"

lemma keyed_with_message [simp]: "keyed r \<Longrightarrow> keyed (with_message m r)"
  by (simp add: keyed_def with_message_def)

lemma keyed_ID: "keyed r \<Longrightarrow> repo_agentMessages r k = Some m \<Longrightarrow> am_ID m = k"
  by (simp add: keyed_def)

lemma keyed_NewRepository [simp]: "keyed NewRepository"
  by (simp add: keyed_def NewRepository_def)

datatype completion_op =
    CompletionEnqueue string AgentMessage gotime
  | CompletionClaim string string gotime duration
  | CompletionRelease string string string gotime
  | CompletionComplete string string gotime

fun completion_step :: "Repository \<Rightarrow> completion_op \<Rightarrow> Repository" where
  "completion_step r (CompletionEnqueue t m now) = or_same r (map_sum id snd (EnqueueParentCompletion t m r))"
| "completion_step r (CompletionClaim i own now ttl) = or_same r (map_sum id snd (ClaimParentCompletion i own now ttl r))"
| "completion_step r (CompletionRelease i own why now) = or_same r (ReleaseParentCompletion i own why r)"
| "completion_step r (CompletionComplete i own now) = or_same r (CompleteParentCompletion i own now r)"

fun completion_clock :: "completion_op \<Rightarrow> gotime" where
  "completion_clock (CompletionEnqueue t m now) = now"
| "completion_clock (CompletionClaim i own now ttl) = now"
| "completion_clock (CompletionRelease i own why now) = now"
| "completion_clock (CompletionComplete i own now) = now"

text \<open>Enqueuing acts for no owner.\<close>

fun completion_actor :: "completion_op \<Rightarrow> string \<times> string option" where
  "completion_actor (CompletionEnqueue t m now) = (am_ID m, None)"
| "completion_actor (CompletionClaim i own now ttl) = (TrimSpace i, Some own)"
| "completion_actor (CompletionRelease i own why now) = (TrimSpace i, Some own)"
| "completion_actor (CompletionComplete i own now) = (TrimSpace i, Some own)"

definition completion_claim :: "string \<Rightarrow> Repository \<Rightarrow> (string option \<times> gotime) option" where
  "completion_claim k r =
     (case repo_agentMessages r k of
        None \<Rightarrow> None
      | Some m \<Rightarrow> (if am_Status m = AgentMessageDelivering
                   then map_option (\<lambda>e. (Some (am_ClaimOwnerID m), e)) (am_ClaimExpiresAt m)
                   else None))"

lemma claim_held: "completion_claim k r = Some (h, e) \<longleftrightarrow>
   (\<exists>m. repo_agentMessages r k = Some m \<and> am_Status m = AgentMessageDelivering
      \<and> am_ClaimExpiresAt m = Some e \<and> h = Some (am_ClaimOwnerID m))"
  by (auto simp: completion_claim_def split: option.split)

text \<open>Every operation touches only the message of its key.\<close>

lemma completion_frame:
  assumes "keyed r" "fst (completion_actor op) \<noteq> k"
  shows "repo_agentMessages (completion_step r op) k = repo_agentMessages r k"
  using assms
  by (cases op)
    (auto simp: or_same_def EnqueueParentCompletion_def ClaimParentCompletion_def Let_def
      ReleaseParentCompletion_def CompleteParentCompletion_def dest: keyed_ID
      split: option.split)

lemma completion_other:
  assumes "repo_agentMessages r k = Some m" "am_Status m = AgentMessageDelivering"
    "am_ClaimExpiresAt m = Some e" "completion_clock op < e"
    "completion_actor op = (k, h)" "h \<noteq> Some (am_ClaimOwnerID m)"
  shows "completion_step r op = r"
  using assms
  by (cases op)
    (auto simp: or_same_def EnqueueParentCompletion_def ClaimParentCompletion_def
      ReleaseParentCompletion_def CompleteParentCompletion_def split: option.split)

lemma completion_keyed: "keyed r \<Longrightarrow> keyed (completion_step r op)"
  by (cases op)
    (auto simp: or_same_def EnqueueParentCompletion_def ClaimParentCompletion_def Let_def
      ReleaseParentCompletion_def CompleteParentCompletion_def split: option.split)

interpretation completion_claims:
  lease_store completion_step keyed completion_claim completion_clock completion_actor
proof unfold_locales
  fix r op
  assume "keyed r"
  then show "keyed (completion_step r op)" by (rule completion_keyed)
next
  fix k r h e op
  assume k: "keyed r" and held: "completion_claim k r = Some (h, e)" and t: "completion_clock op < e"
    and other: "completion_actor op \<noteq> (k, h)"
  show "completion_claim k (completion_step r op) = Some (h, e)"
  proof (cases "fst (completion_actor op) = k")
    case True
    with other obtain h' where h': "completion_actor op = (k, h')" "h' \<noteq> h"
      by (cases "completion_actor op") auto
    from held obtain m where "repo_agentMessages r k = Some m" "am_Status m = AgentMessageDelivering"
      "am_ClaimExpiresAt m = Some e" "h = Some (am_ClaimOwnerID m)" by (auto simp: claim_held)
    with completion_other [OF this(1-3) t h'(1)] h'(2) held show ?thesis by simp
  next
    case False
    with completion_frame [OF k False] held show ?thesis by (simp add: completion_claim_def)
  qed
qed

text \<open>A delivered completion: the operations leave it as it is.\<close>

lemma completion_delivered:
  assumes "keyed r" "repo_agentMessages r k = Some m" "am_Status m = AgentMessageDelivered"
  shows "repo_agentMessages (completion_step r op) k = Some m"
proof (cases "fst (completion_actor op) = k")
  case True
  with assms show ?thesis
    by (cases op)
      (auto simp: or_same_def EnqueueParentCompletion_def ClaimParentCompletion_def
        ReleaseParentCompletion_def CompleteParentCompletion_def split: option.split)
next
  case False
  with completion_frame [OF assms(1) False] assms(2) show ?thesis by simp
qed

interpretation delivered: op_machine completion_step
  "\<lambda>r. keyed r \<and> repo_agentMessages r k = Some m \<and> am_Status m = AgentMessageDelivered" for k m
  by unfold_locales (simp add: completion_keyed completion_delivered)

text \<open>No operation changes what a stored completion says.\<close>

lemma completion_content_step:
  "keyed r \<Longrightarrow> map_option am_Content (repo_agentMessages r k) = Some c \<Longrightarrow>
     map_option am_Content (repo_agentMessages (completion_step r op) k) = Some c"
proof (cases "fst (completion_actor op) = k")
  case True
  assume "keyed r" "map_option am_Content (repo_agentMessages r k) = Some c"
  with True show ?thesis
    by (cases op)
      (auto simp: or_same_def EnqueueParentCompletion_def ClaimParentCompletion_def Let_def
        ReleaseParentCompletion_def CompleteParentCompletion_def dest: keyed_ID split: option.split)
qed (simp add: completion_frame)

interpretation completion_contents: op_machine completion_step
  "\<lambda>r. keyed r \<and> map_option am_Content (repo_agentMessages r k) = Some c" for k c
  by unfold_locales (use completion_keyed completion_content_step in blast)

section \<open>Properties\<close>

text \<open>
  C25: a completion is delivered to the parent by one owner, once: after an owner claimed it, and
  before the claim expires, nothing other owners do keeps it from completing the delivery; and
  once completed, the message stays as delivered whatever happens, so that every later claim, of
  any owner, is refused.
\<close>

theorem parent_completion_delivered_once:
  assumes keyed: "keyed r" and claim: "ClaimParentCompletion i own now ttl r = Inr (m, r0)"
    and ops: "\<forall>op \<in> set ops. completion_clock op < now + ttl
                \<and> completion_actor op \<noteq> (TrimSpace i, Some own)"
  shows "\<exists>r1 d. CompleteParentCompletion i own later (run_ops completion_step r0 ops) = Inr r1
    \<and> am_Status d = AgentMessageDelivered \<and> am_Content d = am_Content m
    \<and> (\<forall>ops'. repo_agentMessages (run_ops completion_step r1 ops') (TrimSpace i) = Some d
         \<and> (\<forall>own' now' ttl'. ClaimParentCompletion i own' now' ttl'
              (run_ops completion_step r1 ops') \<in> range Inl))"
proof -
  let ?k = "TrimSpace i" and ?r = "run_ops completion_step r0 ops"
  from claim keyed have m: "repo_agentMessages r0 ?k = Some m" "am_Status m = AgentMessageDelivering"
      "am_ClaimOwnerID m = own" "am_ClaimExpiresAt m = Some (now + ttl)" and k0: "keyed r0"
    by (auto simp: ClaimParentCompletion_def Let_def dest: keyed_ID split: if_splits option.splits)
  have held: "completion_claim ?k r0 = Some (Some own, now + ttl)"
    using m by (simp add: claim_held)
  have keyed': "keyed ?r" by (rule completion_claims.run_inv [OF k0])
  from completion_claims.lease_run [OF k0 held ops]
  obtain m' where m': "repo_agentMessages ?r ?k = Some m'" "am_Status m' = AgentMessageDelivering"
    "am_ClaimOwnerID m' = own" by (auto simp: claim_held)
  have id: "am_ID m' = ?k" by (rule keyed_ID [OF keyed' m'(1)])
  have content: "am_Content m' = am_Content m"
    using completion_contents.run_inv [of r0 ?k "am_Content m" ops] k0 m(1) m'(1) by simp
  define d where "d = m'\<lparr>am_Status := AgentMessageDelivered, am_DeliveredAt := Some later,
      am_ClaimOwnerID := [], am_ClaimExpiresAt := None\<rparr>"
  define r1 where "r1 = with_message d ?r"
  have c: "CompleteParentCompletion i own later ?r = Inr r1"
    by (simp add: CompleteParentCompletion_def m' d_def r1_def)
  have inv: "keyed r1 \<and> repo_agentMessages r1 ?k = Some d \<and> am_Status d = AgentMessageDelivered"
    using keyed' id by (simp add: r1_def d_def)
  have fin: "repo_agentMessages (run_ops completion_step r1 ops') ?k = Some d" for ops'
    using delivered.run_inv [OF inv, of ops'] by simp
  have "ClaimParentCompletion i own' now' ttl' (run_ops completion_step r1 ops') \<in> range Inl"
    for own' now' ttl' ops'
    using inv by (simp add: ClaimParentCompletion_def fin)
  moreover have "am_Content d = am_Content m" by (simp add: d_def content)
  ultimately show ?thesis using c inv fin by blast
qed

definition sample_completion :: AgentMessage where
  "sample_completion = \<lparr>am_ID = ''k'', am_SourceTaskID = ''t'', am_AuthorAgentID = ''c'',
     am_RecipientAgentID = ''s'', am_ParentTurnID = [], am_RootAgentID = ''s'',
     am_Kind = AgentMessageKindTaskResult, am_Content = ''done'', am_Trigger = AgentMessageTriggerTurn,
     am_Sequence = 0, am_Status = AgentMessagePending, am_DeliveryAttempts = 0, am_LastError = [],
     am_CreatedAt = 1, am_DeliveredAt = None, am_ClaimOwnerID = [], am_ClaimExpiresAt = None\<rparr>"

theorem parent_completion_delivered_once_witness:
  "\<exists>m r0 r1. ClaimParentCompletion ''k'' ''a'' 100 10 (with_message sample_completion NewRepository) = Inr (m, r0)
    \<and> CompleteParentCompletion ''k'' ''a'' 108
        (run_ops completion_step r0 [CompletionClaim ''k'' ''b'' 105 10]) = Inr r1"
proof -
  have k: "keyed (with_message sample_completion NewRepository)" by simp
  have "\<exists>m r0. ClaimParentCompletion ''k'' ''a'' 100 10
      (with_message sample_completion NewRepository) = Inr (m, r0)"
    by (simp add: ClaimParentCompletion_def Let_def visible_eval) (simp add: sample_completion_def)
  then obtain m r0 where c: "ClaimParentCompletion ''k'' ''a'' 100 10
      (with_message sample_completion NewRepository) = Inr (m, r0)" by blast
  have "\<forall>op \<in> set [CompletionClaim ''k'' ''b'' 105 10]. completion_clock op < 100 + 10
      \<and> completion_actor op \<noteq> (TrimSpace ''k'', Some ''a'')" by simp
  from parent_completion_delivered_once [OF k c this, of 108] c show ?thesis by blast
qed

end
