(* ===== verification/ChildMessages.thy ===== *)
theory ChildMessages
  imports ParentCompletion
begin

text \<open>
  Messages to a child: the durable envelope and the mailbox of the child's task, which the
  repository changes together.
\<close>

definition child_message :: "AgentMessage \<Rightarrow> Message" where
  "child_message m = \<lparr>msg_ID = am_ID m, msg_Content = am_Content m, msg_Trigger = am_Trigger m,
     msg_Status = MessageStatusUnset, msg_DeliveryAttempts = 0, msg_LastError = [],
     msg_CreatedAt = am_CreatedAt m, msg_ClaimedAt = None\<rparr>"

lemma EnqueueChildAgentMessage_cases:
  assumes "EnqueueChildAgentMessage t m now r = Inr (task', r')"
  obtains (retry) existing where "repo_agentMessages r (am_ID m) = Some existing"
      "SameRequest existing m" "r' = r" "repo_tasks r (TrimSpace t) = Some task'"
  | (fresh) task where "repo_agentMessages r (am_ID m) = None"
      "repo_tasks r (TrimSpace t) = Some task"
      "EnqueueMessage (child_message m) now task = Inr task'"
      "\<forall>q \<in> set (task_Mailbox task). msg_ID q \<noteq> am_ID m"
      "r' = with_message m (with_task task' r)"
  using assms
  by (auto simp: EnqueueChildAgentMessage_def child_message_def list_ex_iff
      split: option.splits if_splits sum.splits)

lemma EnqueueMessage_keeps_ID: "EnqueueMessage m now t = Inr t' \<Longrightarrow> task_ID t' = task_ID t"
  using EnqueueMessage_cases by fastforce

definition sample_child_message :: AgentMessage where
  "sample_child_message = sample_completion\<lparr>am_RecipientAgentID := ''c'', am_Kind := AgentMessageKindControl\<rparr>"

lemma sample_child_enqueue:
  "\<exists>t1 r1. EnqueueChildAgentMessage ''t'' sample_child_message 2 (with_task sample_task NewRepository) = Inr (t1, r1)"
  by (simp add: EnqueueChildAgentMessage_def AgentMessage_Validate_def EnqueueMessage_def Let_def
      NewRepository_def with_task_def sample_child_message_def sample_completion_def Terminal_def
      sample_defs mailbox_limits mailboxRunes_def default_trigger_def valid_trigger_def visible_eval)

text \<open>
  A message to a child is accepted once: sending it again, later, returns no error and leaves
  the repository as it is, while another message under its identifier is refused.
\<close>

theorem child_message_accepted_once:
  assumes "EnqueueChildAgentMessage t m now r = Inr (task, r')"
  shows "(\<exists>stored. EnqueueChildAgentMessage t m later r' = Inr (stored, r'))
    \<and> (\<forall>m2. EnqueueChildAgentMessage t (m2\<lparr>am_ID := am_ID m\<rparr>) later r' \<in> range Inl
        \<or> SameRequest m (m2\<lparr>am_ID := am_ID m\<rparr>))"
proof -
  have valid: "AgentMessage_Validate m = None"
    using assms by (auto simp: EnqueueChildAgentMessage_def split: option.splits)
  have "\<exists>e. repo_agentMessages r' (am_ID m) = Some e \<and> SameRequest e m"
    using assms by (cases rule: EnqueueChildAgentMessage_cases) auto
  then obtain e where e: "repo_agentMessages r' (am_ID m) = Some e" "SameRequest e m" by blast
  have "\<exists>stored. repo_tasks r' (TrimSpace t) = Some stored"
    using assms by (cases rule: EnqueueChildAgentMessage_cases) auto
  then obtain stored where st: "repo_tasks r' (TrimSpace t) = Some stored" ..
  have "EnqueueChildAgentMessage t m later r' = Inr (stored, r')"
    by (simp add: EnqueueChildAgentMessage_def valid st e)
  moreover have "EnqueueChildAgentMessage t (m2\<lparr>am_ID := am_ID m\<rparr>) later r' \<in> range Inl
      \<or> SameRequest m (m2\<lparr>am_ID := am_ID m\<rparr>)" for m2
    using e(2) SameRequest_trans [of m e] SameRequest_sym [of e m]
    by (auto simp: EnqueueChildAgentMessage_def st e(1) split: option.split)
  ultimately show ?thesis by blast
qed

theorem child_message_accepted_once_witness:
  "\<exists>t1 r1 t2. EnqueueChildAgentMessage ''t'' sample_child_message 2 (with_task sample_task NewRepository) = Inr (t1, r1)
     \<and> EnqueueChildAgentMessage ''t'' sample_child_message 3 r1 = Inr (t2, r1)"
proof -
  obtain t1 r1 where a: "EnqueueChildAgentMessage ''t'' sample_child_message 2
      (with_task sample_task NewRepository) = Inr (t1, r1)"
    using sample_child_enqueue by blast
  from child_message_accepted_once [OF a, of 3] a show ?thesis by blast
qed

text \<open>
  The whole way of a message to an idle child: once accepted for a task with an empty
  mailbox, the next claim hands out its text with the envelope marked as delivering, and the
  acknowledgement empties the mailbox and marks the envelope as delivered, after which
  acknowledging again changes nothing.
\<close>

theorem child_message_delivery_cycle:
  assumes task: "repo_tasks r (TrimSpace t) = Some task" "task_ID task = TrimSpace t"
      "task_Mailbox task = []"
    and new: "repo_agentMessages r (am_ID m) = None" "TrimSpace (am_ID m) = am_ID m"
      "am_RecipientAgentID m = task_ChildSessionID task"
    and enq: "EnqueueChildAgentMessage t m t0 r = Inr (task1, r1)"
  shows "\<exists>msg r2 r3. ClaimChildMailboxMessage t t1 r1 = Inr (Some msg, r2)
    \<and> msg_Content msg = TrimSpace (am_Content m) \<and> msg_DeliveryAttempts msg = 1
    \<and> map_option am_Status (repo_agentMessages r2 (am_ID m)) = Some AgentMessageDelivering
    \<and> AcknowledgeChildAgentMessage t (am_ID m) t2 r2 = Inr r3
    \<and> map_option task_Mailbox (repo_tasks r3 (TrimSpace t)) = Some []
    \<and> map_option am_Status (repo_agentMessages r3 (am_ID m)) = Some AgentMessageDelivered
    \<and> AcknowledgeChildAgentMessage t (am_ID m) t2 r3 = Inr r3"
proof -
  from enq new(1) task(1) have e: "EnqueueMessage (child_message m) t0 task = Inr task1"
    and r1: "r1 = with_message m (with_task task1 r)"
    by (auto elim!: EnqueueChildAgentMessage_cases)
  from EnqueueMessage_cases [OF e] task(3) obtain q where q: "msg_ID q = am_ID m"
    "msg_Content q = TrimSpace (am_Content m)" "msg_Status q = MessageStatusPending"
    "msg_DeliveryAttempts q = 0"
    and t1: "task1 = task\<lparr>task_Mailbox := [q], task_UpdatedAt := msg_CreatedAt q\<rparr>"
    by (auto simp: child_message_def)
  let ?c = "claimed_at t1 q"
  let ?task2 = "task1\<lparr>task_Mailbox := [?c], task_UpdatedAt := t1\<rparr>"
  let ?m2 = "m\<lparr>am_Status := AgentMessageDelivering, am_DeliveryAttempts := 1, am_LastError := []\<rparr>"
  have claim: "ClaimMailboxMessage t1 task1 = (Some ?c, ?task2)"
    by (simp add: ClaimMailboxMessage_def t1 claimable_def q)
  have cid: "msg_ID ?c = am_ID m" "msg_DeliveryAttempts ?c = 1"
    "msg_Content ?c = TrimSpace (am_Content m)" "msg_Status ?c = MessageStatusDelivering"
    by (simp_all add: claimed_at_def q)
  have id: "task_ID task1 = TrimSpace t" "task_ChildSessionID task1 = am_RecipientAgentID m"
    by (simp_all add: t1 task new)
  define r2 where "r2 = with_message ?m2 (with_task ?task2 r1)"
  have c: "ClaimChildMailboxMessage t t1 r1 = Inr (Some ?c, r2)"
    by (simp add: ClaimChildMailboxMessage_def r1 id claim Let_def cid r2_def)
      (simp add: with_message_def with_task_def)
  let ?task3 = "?task2\<lparr>task_Mailbox := [], task_UpdatedAt := t2\<rparr>"
  let ?m3 = "?m2\<lparr>am_Status := AgentMessageDelivered, am_DeliveredAt := Some t2\<rparr>"
  have ack: "AcknowledgeMailboxMessage (am_ID m) t2 ?task2 = (True, ?task3)"
    by (simp add: AcknowledgeMailboxMessage_def delivering_def cid)
  define r3 where "r3 = with_message ?m3 (with_task ?task3 r2)"
  have a: "AcknowledgeChildAgentMessage t (am_ID m) t2 r2 = Inr r3"
    by (simp add: AcknowledgeChildAgentMessage_def r2_def id new(2) ack r3_def)
  have "AcknowledgeChildAgentMessage t (am_ID m) t2 r3 = Inr r3"
    by (simp add: AcknowledgeChildAgentMessage_def r3_def id new(2))
  with c a show ?thesis
    by (intro exI [of _ ?c] exI [of _ r2] exI [of _ r3]) (simp add: cid r2_def r3_def id)
qed

theorem child_message_delivery_cycle_witness:
  "\<exists>t1 r1 msg r2 r3. EnqueueChildAgentMessage ''t'' sample_child_message 2
      (with_task sample_task NewRepository) = Inr (t1, r1)
    \<and> ClaimChildMailboxMessage ''t'' 3 r1 = Inr (Some msg, r2)
    \<and> AcknowledgeChildAgentMessage ''t'' (am_ID sample_child_message) 4 r2 = Inr r3"
proof -
  obtain t1 r1 where a: "EnqueueChildAgentMessage ''t'' sample_child_message 2
      (with_task sample_task NewRepository) = Inr (t1, r1)"
    using sample_child_enqueue by blast
  have "repo_tasks (with_task sample_task NewRepository) (TrimSpace ''t'') = Some sample_task"
    "task_ID sample_task = TrimSpace ''t''" "task_Mailbox sample_task = []"
    "repo_agentMessages (with_task sample_task NewRepository) (am_ID sample_child_message) = None"
    "TrimSpace (am_ID sample_child_message) = am_ID sample_child_message"
    "am_RecipientAgentID sample_child_message = task_ChildSessionID sample_task"
    by (simp_all add: with_task_def NewRepository_def sample_defs sample_child_message_def
        sample_completion_def visible_eval)
  from child_message_delivery_cycle [OF this a, of 3 4] a show ?thesis by blast
qed

end
