(* ===== verification/TaskEventLog.thy ===== *)
theory TaskEventLog
  imports SubagentRepository SubagentMailbox
begin

text \<open>
  The ordered event log of the repository, which reconnecting clients replay: the invariant that
  its sequence numbers strictly increase and are covered by the counter, and the replay laws.
\<close>

definition sequences :: "Repository \<Rightarrow> 64 word list" where
  "sequences r = map ev_Sequence (repo_events r)"

definition log_ok :: "Repository \<Rightarrow> bool" where
  "log_ok r \<longleftrightarrow> sorted_wrt (<) (sequences r) \<and> (\<forall>s \<in> set (sequences r). s \<le> repo_eventSequence r)"

datatype log_op =
    LogSave TaskEvent
  | LogEnsure "64 word"

text \<open>
  An event is saved with a sequence the counter has covered or with a larger one of its own; a
  new sequence number is taken by \<open>NextTaskEventSequence\<close>, which is treated apart because the
  64-bit counter wraps.
\<close>

fun log_step :: "Repository \<Rightarrow> log_op \<Rightarrow> Repository" where
  "log_step r (LogSave e) = SaveTaskEvent e r"
| "log_step r (LogEnsure n) = EnsureTaskEventSequence n r"

lemma sorted_strict_sort_key:
  assumes "distinct (map f xs)"
  shows "sorted_wrt (<) (map f (sort_key f xs))"
proof -
  have "distinct (map f (sort_key f xs))"
    using assms by (simp add: distinct_map)
  then show ?thesis by (simp add: strict_sorted_iff)
qed

lemma update_first_same:
  "update_first (\<lambda>e. f e = f v) (\<lambda>_. v) xs = Some (y, ys) \<Longrightarrow> map f ys = map f xs"
  by (induction xs arbitrary: ys) (auto split: if_splits prod.splits)

lemma bump_le [simp]: "c \<le> bump_sequence c s" "s \<le> bump_sequence c s"
  by (auto simp: bump_sequence_def)

lemma sequences_SaveTaskEvent:
  "update_first (\<lambda>e. ev_Sequence e = ev_Sequence v) (\<lambda>_. v) (repo_events r) = None \<Longrightarrow>
     set (sequences (SaveTaskEvent v r)) = insert (ev_Sequence v) (set (sequences r))"
  by (auto simp: SaveTaskEvent_def sequences_def Let_def)

lemma log_ok_save:
  assumes ok: "log_ok r"
  shows "log_ok (SaveTaskEvent v r)"
proof (cases "update_first (\<lambda>e. ev_Sequence e = ev_Sequence v) (\<lambda>_. v) (repo_events r)")
  case None
  then have new: "ev_Sequence v \<notin> set (sequences r)"
    by (auto simp: update_first_None sequences_def)
  have seq: "repo_eventSequence (SaveTaskEvent v r)
      = bump_sequence (repo_eventSequence r) (ev_Sequence v)"
    by (simp add: SaveTaskEvent_def None Let_def)
  have "s \<le> bump_sequence (repo_eventSequence r) (ev_Sequence v)" if "s \<in> set (sequences r)" for s
    using ok that by (auto simp: log_ok_def intro: order_trans [OF _ bump_le(1)])
  then have bound: "\<forall>s \<in> set (sequences (SaveTaskEvent v r)). s \<le> repo_eventSequence (SaveTaskEvent v r)"
    by (simp add: sequences_SaveTaskEvent [OF None] seq)
  have "sorted_wrt (<) (sequences (SaveTaskEvent v r))"
  proof (cases "repo_events r = [] \<or> ev_Sequence (last (repo_events r)) < ev_Sequence v")
    case True
    have "s < ev_Sequence v" if s: "s \<in> set (sequences r)" for s
    proof -
      have ne: "repo_events r \<noteq> []" using s by (auto simp: sequences_def)
      have "sorted (sequences r)" using ok by (simp add: log_ok_def strict_sorted_iff)
      moreover have "sequences r \<noteq> []" using ne by (simp add: sequences_def)
      ultimately have "s \<le> last (sequences r)"
        using s by (metis in_set_conv_nth last_conv_nth diff_less length_greater_0_conv
            less_Suc_eq_le Suc_diff_1 sorted_nth_mono zero_less_one)
      then show ?thesis using True ne by (simp add: sequences_def last_map)
    qed
    then have "\<forall>s \<in> set (sequences r). s < ev_Sequence v" by blast
    with True ok show ?thesis
      by (simp add: SaveTaskEvent_def None Let_def log_ok_def sequences_def sorted_wrt_append)
  next
    case False
    have "distinct (map ev_Sequence (repo_events r @ [v]))"
      using ok new by (simp add: log_ok_def sequences_def strict_sorted_iff)
    from sorted_strict_sort_key [OF this] False show ?thesis
      by (simp add: SaveTaskEvent_def None Let_def sequences_def)
  qed
  with bound show ?thesis by (simp add: log_ok_def)
next
  case (Some ye)
  obtain y ys where ye: "ye = (y, ys)" by (cases ye)
  have "map ev_Sequence ys = map ev_Sequence (repo_events r)"
    by (rule update_first_same) (use Some ye in simp)
  then show ?thesis
    using ok by (auto simp: SaveTaskEvent_def Some ye Let_def log_ok_def sequences_def
        intro: order_trans [OF _ bump_le(1)])
qed

lemma log_ok_ensure: "log_ok r \<Longrightarrow> log_ok (EnsureTaskEventSequence n r)"
  by (auto simp: EnsureTaskEventSequence_def log_ok_def sequences_def
      intro: order_trans [OF _ bump_le(1)])

lemma log_ok_step: "log_ok r \<Longrightarrow> log_ok (log_step r op)"
  by (cases op) (simp_all add: log_ok_save log_ok_ensure)

lemma log_counter_step: "repo_eventSequence r \<le> repo_eventSequence (log_step r op)"
  by (cases op) (auto simp: SaveTaskEvent_def EnsureTaskEventSequence_def Let_def split: option.split)

interpretation event_log: monotone_machine log_step log_ok repo_eventSequence
  by unfold_locales (simp_all add: log_ok_step log_counter_step)

section \<open>Properties\<close>

text \<open>
  Replay after a reconnect is deterministic and without duplicates: however events were
  saved, a listing after a sequence number holds exactly the events of the session with a larger
  number, each number once, in increasing order; the counter covers every stored number and never
  goes back, so the next number it hands out is above all of them until the 64-bit counter wraps.
\<close>

theorem event_replay_ordered:
  assumes "log_ok r"
  shows "sorted_wrt (<) (map ev_Sequence (ListTaskEvents parent after 0 (run_ops log_step r ops)))
    \<and> set (ListTaskEvents parent after 0 (run_ops log_step r ops))
        = {e \<in> set (repo_events (run_ops log_step r ops)). after < ev_Sequence e
             \<and> (blank parent \<or> task_ParentSessionID (ev_Task e) = TrimSpace parent)}
    \<and> repo_eventSequence r \<le> repo_eventSequence (run_ops log_step r ops)
    \<and> (repo_eventSequence (run_ops log_step r ops) = - 1
       \<or> (\<forall>e \<in> set (repo_events (run_ops log_step r ops)).
             ev_Sequence e < fst (NextTaskEventSequence (run_ops log_step r ops))))"
proof -
  let ?r = "run_ops log_step r ops"
  have ok: "log_ok ?r" using assms by (rule event_log.run_inv)
  have mono: "repo_eventSequence r \<le> repo_eventSequence ?r" using assms by (rule event_log.run_level)
  have "sorted_wrt (<) (map ev_Sequence (filter P (repo_events ?r)))" for P
    using ok unfolding log_ok_def sequences_def sorted_wrt_map by (auto intro: sorted_wrt_filter)
  moreover have "ev_Sequence e < repo_eventSequence ?r + 1"
    if "e \<in> set (repo_events ?r)" "repo_eventSequence ?r \<noteq> - 1" for e
  proof -
    have "ev_Sequence e \<le> repo_eventSequence ?r"
      using ok that(1) by (auto simp: log_ok_def sequences_def)
    also have "\<dots> < repo_eventSequence ?r + 1"
      using that(2) inc_less_eq_self_iff_eq [of "repo_eventSequence ?r"] by (simp add: not_le)
    finally show ?thesis .
  qed
  ultimately show ?thesis
    using mono by (auto simp: ListTaskEvents_def Let_def NextTaskEventSequence_def)
qed

text \<open>
  Paging through the log loses nothing: a page of at most \<open>n\<close> events and then a page of at
  most \<open>m\<close> events after the last sequence number seen are, together, the first \<open>n + m\<close> events.
\<close>

theorem event_paging_complete:
  assumes "log_ok r" "0 < n" "0 < m" "ListTaskEvents parent after n r \<noteq> []"
  shows "ListTaskEvents parent after n r
      @ ListTaskEvents parent (ev_Sequence (last (ListTaskEvents parent after n r))) m r
    = ListTaskEvents parent after (n + m) r"
proof -
  define P where "P e \<longleftrightarrow> blank parent \<or> task_ParentSessionID (ev_Task e) = TrimSpace parent"
    for e :: TaskEvent
  define xs where "xs = filter (\<lambda>e. after < ev_Sequence e \<and> P e) (repo_events r)"
  have sorted: "sorted_wrt (\<lambda>a b. ev_Sequence a < ev_Sequence b) (repo_events r)"
    using assms(1) by (simp add: log_ok_def sequences_def sorted_wrt_map)
  then have sxs: "sorted_wrt (\<lambda>a b. ev_Sequence a < ev_Sequence b) xs"
    by (simp add: xs_def sorted_wrt_filter)
  have page: "ListTaskEvents parent a k r
      = take (nat k) (filter (\<lambda>e. a < ev_Sequence e \<and> P e) (repo_events r))" if "0 < k" for a k
    using that by (simp add: ListTaskEvents_def Let_def P_def conj_commute)
  define ys where "ys = take (nat n) xs"
  have ys: "ys \<noteq> []" using assms(4) page [OF assms(2)] by (simp add: ys_def xs_def)
  let ?l = "last ys"
  have l: "after < ev_Sequence ?l"
    using last_in_set [OF ys] by (auto simp: ys_def xs_def dest: in_set_takeD)
  have split: "xs = ys @ drop (nat n) xs" by (simp add: ys_def)
  have "filter (\<lambda>e. ev_Sequence ?l < ev_Sequence e \<and> P e) (repo_events r)
      = filter (\<lambda>e. ev_Sequence ?l < ev_Sequence e) xs"
    using l by (auto simp: xs_def intro!: filter_cong)
  also have "\<dots> = filter (\<lambda>e. ev_Sequence ?l < ev_Sequence e) ys
      @ filter (\<lambda>e. ev_Sequence ?l < ev_Sequence e) (drop (nat n) xs)"
    by (subst split) simp
  also have "filter (\<lambda>e. ev_Sequence ?l < ev_Sequence e) ys = []"
  proof -
    obtain zs where zs: "ys = zs @ [?l]" using ys by (metis append_butlast_last_id)
    have "sorted_wrt (\<lambda>a b. ev_Sequence a < ev_Sequence b) (zs @ [?l])"
      using sxs split zs by (metis sorted_wrt_append)
    then have "\<forall>e \<in> set (zs @ [?l]). ev_Sequence e \<le> ev_Sequence ?l"
      by (auto simp: sorted_wrt_append)
    then show ?thesis by (subst zs) (auto simp: filter_empty_conv not_less)
  qed
  also have "filter (\<lambda>e. ev_Sequence ?l < ev_Sequence e) (drop (nat n) xs) = drop (nat n) xs"
  proof -
    have "sorted_wrt (\<lambda>a b. ev_Sequence a < ev_Sequence b) (ys @ drop (nat n) xs)"
      using sxs split by simp
    with last_in_set [OF ys] show ?thesis by (auto simp: sorted_wrt_append filter_id_conv)
  qed
  finally have rest: "filter (\<lambda>e. ev_Sequence ?l < ev_Sequence e \<and> P e) (repo_events r)
      = drop (nat n) xs" by simp
  have "ys @ take (nat m) (drop (nat n) xs) = take (nat (n + m)) xs"
    using assms(2,3) by (simp add: ys_def nat_add_distrib take_add)
  then show ?thesis
    using assms(2,3) by (simp add: page rest flip: ys_def xs_def)
qed

lemma log_ok_New: "log_ok NewRepository"
  by (simp add: log_ok_def sequences_def NewRepository_def)

theorem event_replay_ordered_witness:
  "log_ok NewRepository \<and> sorted_wrt (<) (map ev_Sequence
      (ListTaskEvents [] 0 0 (run_ops log_step NewRepository [LogEnsure 7])))"
  using event_replay_ordered [OF log_ok_New, of "[]" 0 "[LogEnsure 7]"] log_ok_New by blast

definition sample_event :: "64 word \<Rightarrow> TaskEvent" where
  "sample_event n = \<lparr>ev_Sequence = n, ev_Kind = ''task.updated'', ev_Task = sample_task, ev_RunID = [],
     ev_ToolCallID = [], ev_Assets = [], ev_Content = [], ev_ToolName = [], ev_Arguments = [],
     ev_Status = [], ev_ErrorCode = [], ev_ErrorMessage = [], ev_Truncated = False,
     ev_Delta = False, ev_EmittedAt = 1\<rparr>"

theorem event_paging_complete_witness:
  "length (ListTaskEvents [] 0 1 (SaveTaskEvent (sample_event 3) NewRepository)
      @ ListTaskEvents [] 3 1 (SaveTaskEvent (sample_event 3) NewRepository)) = 1"
proof -
  let ?r = "SaveTaskEvent (sample_event 3) NewRepository"
  have ok: "log_ok ?r" by (rule log_ok_save [OF log_ok_New])
  have page: "ListTaskEvents [] 0 1 ?r = [sample_event 3]" "ListTaskEvents [] 0 2 ?r = [sample_event 3]"
    by (simp_all add: ListTaskEvents_def SaveTaskEvent_def NewRepository_def sample_event_def Let_def)
  then have ne: "ListTaskEvents [] 0 1 ?r \<noteq> []" by simp
  have "ev_Sequence (last (ListTaskEvents [] 0 1 ?r)) = 3"
    unfolding page by (simp add: sample_event_def)
  with event_paging_complete [OF ok _ _ ne, of 1] page show ?thesis by simp
qed

end
