(* ===== verification/TaskEventBus.thy ===== *)
theory TaskEventBus
  imports TaskEventLog
begin

text \<open>
  \<open>core/adapter/subagent/events/bus.go\<close>: the bus that numbers task events, keeps the last 512 of
  them for replay, stores them in the repository when there is one, and streams them to
  subscribers. A Go channel is its capacity, its buffer and whether it is closed; a send never
  blocks here, because the code selects with a default branch and sizes a new channel for its
  replay. Subscription identifiers are natural numbers: the code's 64-bit counter would have to
  wrap to differ. Sequences are 64-bit words. The repository is that of \<open>SubagentRepository\<close>, which
  implements the optional interfaces the code asserts; whether one of its calls fails, as calls
  to a remote store may, is an argument. Iteration over subscribers touches each of them once and
  independently, so it is a pointwise update. Nil buses and contexts are not modelled.
\<close>

record 'a Channel =
  ch_cap :: nat
  ch_buf :: "'a list"
  ch_closed :: bool

record Bus =
  bus_nextID :: nat
  bus_nextSequence :: "64 word"
  bus_subscribers :: "nat \<Rightarrow> Task Channel option"
  bus_eventSubscribers :: "nat \<Rightarrow> string option"
  bus_streams :: "nat \<Rightarrow> TaskEvent Channel option"
  bus_history :: "TaskEvent list"
  bus_historyLimit :: nat
  bus_eventRepository :: "Repository option"

definition taskEventKind :: "TaskStatus \<Rightarrow> string" where
  "taskEventKind status =
     (case status of
        TaskStatusWaitingSubagents \<Rightarrow> ''task.waiting''
      | TaskStatusWaitingPermission \<Rightarrow> ''task.waiting''
      | TaskStatusSucceeded \<Rightarrow> ''task.completed''
      | TaskStatusFailed \<Rightarrow> ''task.failed''
      | TaskStatusCanceled \<Rightarrow> ''task.canceled''
      | _ \<Rightarrow> ''task.updated'')"

definition NewBus :: "Repository option \<Rightarrow> bool \<Rightarrow> bool \<Rightarrow> Bus" where
  "NewBus repository tail_ok list_ok =
     (let bus = \<lparr>bus_nextID = 0, bus_nextSequence = 0, bus_subscribers = Map.empty,
           bus_eventSubscribers = Map.empty, bus_streams = Map.empty, bus_history = [],
           bus_historyLimit = 512, bus_eventRepository = repository\<rparr>
      in case repository of
           None \<Rightarrow> bus
         | Some r \<Rightarrow>
             (let latest = LatestTaskEventSequence r;
                  limit = word_of_nat (bus_historyLimit bus);
                  afterSequence = (if tail_ok \<and> limit < latest then latest - limit else 0);
                  persisted = (if list_ok then ListTaskEvents [] afterSequence
                                 (int (bus_historyLimit bus)) r else []);
                  next = foldl (\<lambda>n e. bump_sequence n (ev_Sequence e)) 0 persisted
              in bus\<lparr>bus_nextSequence := next, bus_history := persisted,
                     bus_eventRepository := Some (EnsureTaskEventSequence next r)\<rparr>))"

text \<open>Sending to a channel that drops its oldest value when it is full.\<close>

definition send_dropping :: "'a \<Rightarrow> 'a Channel \<Rightarrow> 'a Channel" where
  "send_dropping x c =
     (if length (ch_buf c) < ch_cap c then c\<lparr>ch_buf := ch_buf c @ [x]\<rparr>
      else (let b = tl (ch_buf c)
            in if length b < ch_cap c then c\<lparr>ch_buf := b @ [x]\<rparr> else c\<lparr>ch_buf := b\<rparr>))"

definition publishTaskLocked :: "Task \<Rightarrow> Bus \<Rightarrow> Bus" where
  "publishTaskLocked task bus =
     bus\<lparr>bus_subscribers := (\<lambda>i. map_option (send_dropping task) (bus_subscribers bus i))\<rparr>"

definition event_for :: "string \<Rightarrow> TaskEvent \<Rightarrow> bool" where
  "event_for parent e \<longleftrightarrow> parent = [] \<or> parent = task_ParentSessionID (ev_Task e)"

text \<open>The subscribers whose buffer is full and are to receive the event: they are closed.\<close>

definition slow :: "TaskEvent \<Rightarrow> Bus \<Rightarrow> nat \<Rightarrow> bool" where
  "slow e bus i =
     (case (bus_eventSubscribers bus i, bus_streams bus i) of
        (Some parent, Some c) \<Rightarrow> event_for parent e \<and> \<not> length (ch_buf c) < ch_cap c
      | _ \<Rightarrow> False)"

definition receives :: "TaskEvent \<Rightarrow> Bus \<Rightarrow> nat \<Rightarrow> bool" where
  "receives e bus i =
     (case (bus_eventSubscribers bus i, bus_streams bus i) of
        (Some parent, Some c) \<Rightarrow> event_for parent e \<and> length (ch_buf c) < ch_cap c
      | _ \<Rightarrow> False)"

definition publishEventLocked :: "TaskEvent \<Rightarrow> Bus \<Rightarrow> Bus" where
  "publishEventLocked e bus =
     bus\<lparr>bus_eventSubscribers := (\<lambda>i. if slow e bus i then None else bus_eventSubscribers bus i),
         bus_streams := (\<lambda>i.
           if slow e bus i then map_option (\<lambda>c. c\<lparr>ch_closed := True\<rparr>) (bus_streams bus i)
           else if receives e bus i
             then map_option (\<lambda>c. c\<lparr>ch_buf := ch_buf c @ [e]\<rparr>) (bus_streams bus i)
           else bus_streams bus i)\<rparr>"

definition prepare_event :: "TaskEvent \<Rightarrow> gotime \<Rightarrow> TaskEvent" where
  "prepare_event e0 now =
     (let e1 = (if ev_Kind e0 = [] then e0\<lparr>ev_Kind := taskEventKind (task_Status (ev_Task e0))\<rparr> else e0);
          e2 = (if ev_RunID e1 = [] then e1\<lparr>ev_RunID := task_CurrentRunID (ev_Task e1)\<rparr> else e1)
      in if IsZero (ev_EmittedAt e2) then e2\<lparr>ev_EmittedAt := now\<rparr> else e2)"

text \<open>
  The sequence number: from the repository when there is one, else from the bus. The result is
  \<open>None\<close> when the repository fails to give one.
\<close>

definition assign_sequence :: "bool \<Rightarrow> Bus \<Rightarrow> ((64 word) \<times> Bus) option" where
  "assign_sequence next_ok bus =
     (case bus_eventRepository bus of
        Some r \<Rightarrow>
          (if next_ok
           then (case NextTaskEventSequence r of (seq, r') \<Rightarrow>
                   Some (seq, bus\<lparr>bus_eventRepository := Some r',
                     bus_nextSequence := bump_sequence (bus_nextSequence bus) seq\<rparr>))
           else None)
      | None \<Rightarrow>
          (let n = bus_nextSequence bus + 1 in Some (n, bus\<lparr>bus_nextSequence := n\<rparr>)))"

definition keep_last :: "nat \<Rightarrow> 'a list \<Rightarrow> 'a list" where
  "keep_last n xs = (if n < length xs then drop (length xs - n) xs else xs)"

text \<open>Returns the event as it was numbered, when it was.\<close>

definition PublishTaskEvent ::
  "TaskEvent \<Rightarrow> gotime \<Rightarrow> bool \<Rightarrow> bool \<Rightarrow> Bus \<Rightarrow> TaskEvent option \<times> Bus" where
  "PublishTaskEvent event now next_ok save_ok bus =
     (case assign_sequence next_ok bus of
        None \<Rightarrow> (None, bus)
      | Some (seq, bus1) \<Rightarrow>
          (let e = (prepare_event event now)\<lparr>ev_Sequence := seq\<rparr>;
               bus2 = bus1\<lparr>bus_history := keep_last (bus_historyLimit bus1) (bus_history bus1 @ [e])\<rparr>;
               bus3 = (if save_ok
                       then bus2\<lparr>bus_eventRepository :=
                              map_option (SaveTaskEvent e) (bus_eventRepository bus2)\<rparr>
                       else bus2)
           in (Some e, publishEventLocked e (publishTaskLocked (ev_Task e) bus3))))"

text \<open>The event with the Go zero value in every field but two.\<close>

definition bare_event :: "string \<Rightarrow> Task \<Rightarrow> TaskEvent" where
  "bare_event kind task =
     \<lparr>ev_Sequence = 0, ev_Kind = kind, ev_Task = task, ev_RunID = [], ev_ToolCallID = [],
      ev_Assets = [], ev_Content = [], ev_ToolName = [], ev_Arguments = [], ev_Status = [],
      ev_ErrorCode = [], ev_ErrorMessage = [], ev_Truncated = False, ev_Delta = False,
      ev_EmittedAt = 0\<rparr>"

definition TaskUpdated :: "Task \<Rightarrow> gotime \<Rightarrow> bool \<Rightarrow> bool \<Rightarrow> Bus \<Rightarrow> TaskEvent option \<times> Bus" where
  "TaskUpdated task now next_ok save_ok bus =
     PublishTaskEvent (bare_event (taskEventKind (task_Status task)) task) now next_ok save_ok bus"

text \<open>
  The events a new subscriber gets first: \<open>None\<close> when its cursor is older than what can be
  replayed, so that it is handed a closed channel. The last loop of the code runs after the
  replay from the log, too; it skips what is already there.
\<close>

fun append_newer :: "(TaskEvent \<Rightarrow> bool) \<Rightarrow> TaskEvent list \<Rightarrow> TaskEvent list \<Rightarrow> TaskEvent list" where
  "append_newer P replay [] = replay"
| "append_newer P replay (e # es) =
     (if \<not> P e then append_newer P replay es
      else if replay \<noteq> [] \<and> ev_Sequence e \<le> ev_Sequence (last replay)
        then append_newer P replay es
      else append_newer P (replay @ [e]) es)"

definition cursor_expired :: "64 word \<Rightarrow> Bus \<Rightarrow> bool" where
  "cursor_expired afterSequence bus \<longleftrightarrow>
     0 < afterSequence \<and> bus_history bus \<noteq> []
     \<and> afterSequence + 1 < ev_Sequence (hd (bus_history bus))"

definition subscription_replay :: "string \<Rightarrow> 64 word \<Rightarrow> bool \<Rightarrow> Bus \<Rightarrow> TaskEvent list option" where
  "subscription_replay parent afterSequence list_ok bus =
     (let wanted = (\<lambda>e. afterSequence < ev_Sequence e \<and> event_for parent e);
          base =
            (if cursor_expired afterSequence bus
             then (case bus_eventRepository bus of
                 None \<Rightarrow> None
               | Some r \<Rightarrow>
                   (let maxReplay = max (bus_historyLimit bus * 8) 1024;
                        persisted = ListTaskEvents parent afterSequence (int maxReplay + 1) r
                    in if list_ok \<and> length persisted \<le> maxReplay
                       then (let replay = filter (\<lambda>e. afterSequence < ev_Sequence e) persisted;
                                 lastPersisted = (if replay \<noteq> [] then ev_Sequence (last replay) else 0)
                             in Some (replay
                                  @ filter (\<lambda>e. wanted e \<and> lastPersisted < ev_Sequence e)
                                      (bus_history bus)))
                       else None))
             else Some [])
      in map_option (\<lambda>replay. append_newer wanted replay (bus_history bus)) base)"

definition SubscribeTaskEvents ::
  "string \<Rightarrow> 64 word \<Rightarrow> int \<Rightarrow> bool \<Rightarrow> Bus \<Rightarrow> nat option \<times> Bus" where
  "SubscribeTaskEvents parentSessionID afterSequence buffer0 list_ok bus0 =
     (let buffer = (if buffer0 < 1 then 32 else nat buffer0);
          parent = TrimSpace parentSessionID;
          i = bus_nextID bus0 + 1;
          bus = bus0\<lparr>bus_nextID := i\<rparr>
      in case subscription_replay parent afterSequence list_ok bus of
           None \<Rightarrow> (None, bus)
         | Some replay \<Rightarrow>
             (Some i, bus\<lparr>bus_eventSubscribers := (bus_eventSubscribers bus)(i \<mapsto> parent),
                bus_streams := (bus_streams bus)(i \<mapsto>
                  \<lparr>ch_cap = buffer + length replay, ch_buf = replay, ch_closed = False\<rparr>)\<rparr>))"

definition CancelTaskEvents :: "nat \<Rightarrow> Bus \<Rightarrow> Bus" where
  "CancelTaskEvents i bus =
     (if bus_eventSubscribers bus i \<noteq> None
      then bus\<lparr>bus_eventSubscribers := (bus_eventSubscribers bus)(i := None),
               bus_streams := (bus_streams bus)(i :=
                 map_option (\<lambda>c. c\<lparr>ch_closed := True\<rparr>) (bus_streams bus i))\<rparr>
      else bus)"

definition Subscribe :: "int \<Rightarrow> Bus \<Rightarrow> nat \<times> Bus" where
  "Subscribe buffer bus =
     (let i = bus_nextID bus + 1
      in (i, bus\<lparr>bus_nextID := i, bus_subscribers := (bus_subscribers bus)(i \<mapsto>
               \<lparr>ch_cap = (if buffer < 1 then 16 else nat buffer), ch_buf = [], ch_closed = False\<rparr>)\<rparr>))"

definition Unsubscribe :: "nat \<Rightarrow> Bus \<Rightarrow> Bus" where
  "Unsubscribe i bus = bus\<lparr>bus_subscribers := (bus_subscribers bus)(i := None)\<rparr>"

text \<open>A consumer takes the next event of its stream.\<close>

definition receive_event :: "nat \<Rightarrow> Bus \<Rightarrow> TaskEvent option \<times> Bus" where
  "receive_event i bus =
     (case bus_streams bus i of
        Some c \<Rightarrow> (case ch_buf c of
            [] \<Rightarrow> (None, bus)
          | e # es \<Rightarrow> (Some e, bus\<lparr>bus_streams := (bus_streams bus)(i \<mapsto> c\<lparr>ch_buf := es\<rparr>)\<rparr>))
      | None \<Rightarrow> (None, bus))"

section \<open>Executions\<close>

text \<open>A system is a bus with what was published so far and what each consumer took so far.\<close>

record System =
  sys_bus :: Bus
  sys_published :: "TaskEvent list"
  sys_taken :: "nat \<Rightarrow> TaskEvent list"

datatype bus_op =
    BusPublish TaskEvent gotime bool bool
  | BusSubscribeEvents string "64 word" int bool
  | BusCancelEvents nat
  | BusSubscribe int
  | BusUnsubscribe nat
  | BusReceive nat

fun bus_step :: "System \<Rightarrow> bus_op \<Rightarrow> System" where
  "bus_step s (BusPublish e now a b) =
     (case PublishTaskEvent e now a b (sys_bus s) of
        (out, bus) \<Rightarrow> s\<lparr>sys_bus := bus,
           sys_published := sys_published s @ (case out of None \<Rightarrow> [] | Some e' \<Rightarrow> [e'])\<rparr>)"
| "bus_step s (BusSubscribeEvents p a n ok) =
     s\<lparr>sys_bus := snd (SubscribeTaskEvents p a n ok (sys_bus s))\<rparr>"
| "bus_step s (BusCancelEvents i) = s\<lparr>sys_bus := CancelTaskEvents i (sys_bus s)\<rparr>"
| "bus_step s (BusSubscribe n) = s\<lparr>sys_bus := snd (Subscribe n (sys_bus s))\<rparr>"
| "bus_step s (BusUnsubscribe i) = s\<lparr>sys_bus := Unsubscribe i (sys_bus s)\<rparr>"
| "bus_step s (BusReceive i) =
     (case receive_event i (sys_bus s) of
        (None, bus) \<Rightarrow> s\<lparr>sys_bus := bus\<rparr>
      | (Some e, bus) \<Rightarrow>
          s\<lparr>sys_bus := bus, sys_taken := (sys_taken s)(i := sys_taken s i @ [e])\<rparr>)"

text \<open>What a subscriber has seen or will see without further publications.\<close>

definition stream_of :: "nat \<Rightarrow> System \<Rightarrow> TaskEvent list" where
  "stream_of i s = sys_taken s i @
     (case bus_streams (sys_bus s) i of None \<Rightarrow> [] | Some c \<Rightarrow> ch_buf c)"

definition subscribed :: "nat \<Rightarrow> System \<Rightarrow> bool" where
  "subscribed i s \<longleftrightarrow> bus_eventSubscribers (sys_bus s) i \<noteq> None"

section \<open>Streams without gaps\<close>

definition bus_ok :: "Bus \<Rightarrow> bool" where
  "bus_ok b \<longleftrightarrow>
     (\<forall>i. bus_streams b i \<noteq> None \<longrightarrow> i \<le> bus_nextID b)
     \<and> (\<forall>i. bus_eventSubscribers b i \<noteq> None \<longrightarrow> bus_streams b i \<noteq> None)"

lemma bus_okD:
  "bus_ok b \<Longrightarrow> bus_nextID b < i \<Longrightarrow> bus_streams b i = None"
  "bus_ok b \<Longrightarrow> bus_eventSubscribers b i = Some p \<Longrightarrow> \<exists>c. bus_streams b i = Some c"
  unfolding bus_ok_def by (metis linorder_not_less) fastforce

lemma assign_frame:
  "assign_sequence ok b = Some (n, b') \<Longrightarrow>
     bus_streams b' = bus_streams b \<and> bus_eventSubscribers b' = bus_eventSubscribers b
     \<and> bus_nextID b' = bus_nextID b \<and> bus_history b' = bus_history b
     \<and> bus_historyLimit b' = bus_historyLimit b"
  by (auto simp: assign_sequence_def Let_def split: option.splits if_splits prod.splits)

lemma publish_streams:
  assumes "PublishTaskEvent e now a b bus = (Some e', bus')"
  shows "bus_eventSubscribers bus' i = (if slow e' bus i then None else bus_eventSubscribers bus i)"
    and "bus_streams bus' i =
      (if slow e' bus i then map_option (\<lambda>c. c\<lparr>ch_closed := True\<rparr>) (bus_streams bus i)
       else if receives e' bus i then map_option (\<lambda>c. c\<lparr>ch_buf := ch_buf c @ [e']\<rparr>) (bus_streams bus i)
       else bus_streams bus i)"
    and "bus_nextID bus' = bus_nextID bus"
  using assms
  by (auto simp: PublishTaskEvent_def Let_def publishEventLocked_def publishTaskLocked_def
      slow_def receives_def split: option.splits prod.splits dest!: assign_frame)

lemma publish_none: "PublishTaskEvent e now a b bus = (None, bus') \<Longrightarrow> bus' = bus"
  by (auto simp: PublishTaskEvent_def Let_def split: option.splits prod.splits)

lemma bus_ok_publish:
  assumes "bus_ok bus" "PublishTaskEvent e now a b bus = (out, bus')"
  shows "bus_ok bus'"
proof (cases out)
  case None
  with assms publish_none show ?thesis by blast
next
  case (Some e')
  note p = publish_streams [OF assms(2) [unfolded Some]]
  from assms(1) show ?thesis
    unfolding bus_ok_def p by (auto split: if_splits)
qed

text \<open>
  The progress of one subscriber: its stream is what it was, followed by the events for it that
  were published since, all of them while it is subscribed.
\<close>

definition keeps_up :: "nat \<Rightarrow> string \<Rightarrow> TaskEvent list \<Rightarrow> TaskEvent list \<Rightarrow> System \<Rightarrow> bool" where
  "keeps_up i p past stream s \<longleftrightarrow>
     bus_ok (sys_bus s) \<and> i \<le> bus_nextID (sys_bus s)
     \<and> (\<exists>new k. sys_published s = past @ new
          \<and> stream_of i s = stream @ take k (filter (event_for p) new)
          \<and> (subscribed i s \<longrightarrow>
               bus_eventSubscribers (sys_bus s) i = Some p \<and> length (filter (event_for p) new) \<le> k))"

lemma keeps_up_frame:
  assumes "keeps_up i p past stream s" "bus_ok (sys_bus s')" "sys_published s' = sys_published s"
    and "stream_of i s' = stream_of i s" "bus_nextID (sys_bus s) \<le> bus_nextID (sys_bus s')"
    and "bus_eventSubscribers (sys_bus s') i \<in> {None, bus_eventSubscribers (sys_bus s) i}"
  shows "keeps_up i p past stream s'"
proof -
  from assms(1) obtain new k where new: "sys_published s = past @ new"
    and st: "stream_of i s = stream @ take k (filter (event_for p) new)"
    and sub: "subscribed i s \<longrightarrow> bus_eventSubscribers (sys_bus s) i = Some p
      \<and> length (filter (event_for p) new) \<le> k" and le: "i \<le> bus_nextID (sys_bus s)"
    unfolding keeps_up_def by blast
  from sub assms(6) have "subscribed i s' \<longrightarrow> bus_eventSubscribers (sys_bus s') i = Some p
      \<and> length (filter (event_for p) new) \<le> k"
    by (auto simp: subscribed_def)
  with new st le assms(2-5) show ?thesis
    unfolding keeps_up_def by (metis order_trans)
qed

lemma keeps_up_publish:
  assumes k: "keeps_up i p past stream s"
  shows "keeps_up i p past stream (bus_step s (BusPublish e now a b))"
proof -
  obtain out bus where pub: "PublishTaskEvent e now a b (sys_bus s) = (out, bus)"
    by (metis surj_pair)
  define s1 where "s1 = bus_step s (BusPublish e now a b)"
  have s': "sys_bus s1 = bus" "sys_taken s1 = sys_taken s" by (simp_all add: s1_def pub)
  have "keeps_up i p past stream s1"
  proof (cases out)
    case None
    with pub publish_none [of e now a b "sys_bus s" bus] have "s1 = s" by (simp add: s1_def)
    with k show ?thesis by simp
  next
    case (Some e')
    note pubs = publish_streams [OF pub [unfolded Some]]
    from k obtain new m where new: "sys_published s = past @ new"
      and st: "stream_of i s = stream @ take m (filter (event_for p) new)"
      and sub: "subscribed i s \<longrightarrow> bus_eventSubscribers (sys_bus s) i = Some p
        \<and> length (filter (event_for p) new) \<le> m" and ok: "bus_ok (sys_bus s)"
      and le: "i \<le> bus_nextID (sys_bus s)" by (auto simp: keeps_up_def)
    have pub': "sys_published s1 = past @ (new @ [e'])" by (simp add: s1_def pub Some new)
    show ?thesis
    proof (cases "receives e' (sys_bus s) i")
      case True
      then obtain q c where q: "bus_eventSubscribers (sys_bus s) i = Some q"
        "bus_streams (sys_bus s) i = Some c" "event_for q e'"
        by (auto simp: receives_def split: option.splits)
      have ns: "\<not> slow e' (sys_bus s) i" using True by (auto simp: slow_def receives_def split: option.splits)
      have "subscribed i s" by (simp add: subscribed_def q)
      with sub q have p: "q = p" "length (filter (event_for p) new) \<le> m" by auto
      have "stream_of i s1 = stream_of i s @ [e']"
        by (simp add: stream_of_def s' pubs ns True q)
      then have "stream_of i s1 = stream @ take (Suc m) (filter (event_for p) (new @ [e']))"
        using st p q by simp
      moreover have "bus_eventSubscribers (sys_bus s1) i = Some p" by (simp only: s' pubs ns q p) simp
      ultimately show ?thesis
        unfolding keeps_up_def
        using pub' bus_ok_publish [OF ok pub] le p pubs(3) s'(1)
        by (intro conjI exI [of _ "new @ [e']"] exI [of _ "Suc m"]) auto
    next
      case False
      have same: "stream_of i s1 = stream_of i s"
        using False by (auto simp: stream_of_def s' pubs map_option_case split: option.split)
      show ?thesis
      proof (cases "subscribed i s1")
        case True
        then have ns: "\<not> slow e' (sys_bus s) i" and "subscribed i s"
          by (auto simp: subscribed_def s' pubs split: if_splits)
        with sub have q: "bus_eventSubscribers (sys_bus s) i = Some p"
          "length (filter (event_for p) new) \<le> m" by auto
        from bus_okD(2) [OF ok q(1)] obtain c where "bus_streams (sys_bus s) i = Some c" ..
        with ns False q(1) have "\<not> event_for p e'" by (auto simp: slow_def receives_def)
        then have "filter (event_for p) (new @ [e']) = filter (event_for p) new" by simp
        moreover have "bus_eventSubscribers (sys_bus s1) i = Some p" by (simp only: s' pubs ns q) simp
        ultimately show ?thesis
          unfolding keeps_up_def
          using pub' bus_ok_publish [OF ok pub] le q st same pubs(3) s'(1)
          by (intro conjI exI [of _ "new @ [e']"] exI [of _ m]) auto
      next
        case False
        let ?f = "filter (event_for p) new"
        have "take (min m (length ?f)) (filter (event_for p) (new @ [e'])) = take m ?f"
          by (simp add: min_def)
        then show ?thesis
          unfolding keeps_up_def
          using pub' bus_ok_publish [OF ok pub] le st same pubs(3) s'(1) False
          by (intro conjI exI [of _ "new @ [e']"] exI [of _ "min m (length ?f)"]) auto
      qed
    qed
  qed
  then show ?thesis by (simp add: s1_def)
qed

lemma subscribe_events_cases:
  assumes "SubscribeTaskEvents q a n ok b = (out, b')"
  obtains "out = None" "b' = b\<lparr>bus_nextID := bus_nextID b + 1\<rparr>"
  | replay c where "out = Some (bus_nextID b + 1)"
      "subscription_replay (TrimSpace q) a ok (b\<lparr>bus_nextID := bus_nextID b + 1\<rparr>) = Some replay"
      "ch_buf c = replay" "length replay < ch_cap c"
      "b' = b\<lparr>bus_nextID := bus_nextID b + 1,
              bus_eventSubscribers := (bus_eventSubscribers b)(bus_nextID b + 1 \<mapsto> TrimSpace q),
              bus_streams := (bus_streams b)(bus_nextID b + 1 \<mapsto> c)\<rparr>"
proof (cases "subscription_replay (TrimSpace q) a ok (b\<lparr>bus_nextID := bus_nextID b + 1\<rparr>)")
  case None
  with assms have "out = None" "b' = b\<lparr>bus_nextID := bus_nextID b + 1\<rparr>"
    by (simp_all add: SubscribeTaskEvents_def Let_def)
  then show ?thesis by (rule that(1))
next
  case (Some replay)
  let ?c = "\<lparr>ch_cap = (if n < 1 then 32 else nat n) + length replay, ch_buf = replay, ch_closed = False\<rparr>"
  show ?thesis
    using assms Some
    by (intro that(2) [of replay ?c]) (simp_all add: SubscribeTaskEvents_def Let_def)
qed

lemma bus_ok_subscribe:
  "bus_ok b \<Longrightarrow> SubscribeTaskEvents q a n ok b = (out, b') \<Longrightarrow> bus_ok b'"
  by (erule subscribe_events_cases) (auto simp: bus_ok_def le_SucI)

lemma bus_ok_cancel: "bus_ok b \<Longrightarrow> bus_ok (CancelTaskEvents i b)"
  by (auto simp: CancelTaskEvents_def bus_ok_def)

lemma bus_ok_receive: "bus_ok b \<Longrightarrow> bus_ok (snd (receive_event i b))"
  by (fastforce simp: receive_event_def bus_ok_def split: option.split list.split)

lemma keeps_up_step:
  assumes k: "keeps_up i p past stream s"
  shows "keeps_up i p past stream (bus_step s op)"
proof (cases op)
  case (BusPublish e now a b)
  with keeps_up_publish [OF k] show ?thesis by simp
next
  case (BusSubscribeEvents q a n ok)
  obtain out b' where sub: "SubscribeTaskEvents q a n ok (sys_bus s) = (out, b')" by (metis surj_pair)
  from k have ok: "bus_ok (sys_bus s)" and le: "i \<le> bus_nextID (sys_bus s)" by (auto simp: keeps_up_def)
  have "bus_streams b' i = bus_streams (sys_bus s) i"
    "bus_eventSubscribers b' i = bus_eventSubscribers (sys_bus s) i"
    "bus_nextID b' = bus_nextID (sys_bus s) + 1"
    using sub le by (auto elim!: subscribe_events_cases)
  then show ?thesis
    using BusSubscribeEvents bus_ok_subscribe [OF ok sub]
    by (intro keeps_up_frame [OF k]) (auto simp: sub stream_of_def)
next
  case (BusCancelEvents j)
  from k have "bus_ok (sys_bus s)" by (simp add: keeps_up_def)
  then have "bus_ok (CancelTaskEvents j (sys_bus s))" by (rule bus_ok_cancel)
  moreover have "stream_of i (bus_step s (BusCancelEvents j)) = stream_of i s"
    by (auto simp: stream_of_def CancelTaskEvents_def split: option.split)
  moreover have "bus_nextID (CancelTaskEvents j b) = bus_nextID b"
    "bus_eventSubscribers (CancelTaskEvents j b) i \<in> {None, bus_eventSubscribers b i}" for b
    by (auto simp: CancelTaskEvents_def)
  ultimately show ?thesis
    using BusCancelEvents by (intro keeps_up_frame [OF k]) simp_all
next
  case (BusSubscribe n)
  from k have "bus_ok (sys_bus s)" by (simp add: keeps_up_def)
  with BusSubscribe show ?thesis
    by (intro keeps_up_frame [OF k]) (auto simp: stream_of_def Subscribe_def Let_def bus_ok_def le_SucI)
next
  case (BusUnsubscribe j)
  from k have "bus_ok (sys_bus s)" by (simp add: keeps_up_def)
  with BusUnsubscribe show ?thesis
    by (intro keeps_up_frame [OF k]) (auto simp: stream_of_def Unsubscribe_def bus_ok_def)
next
  case (BusReceive j)
  obtain out b' where rec: "receive_event j (sys_bus s) = (out, b')" by (metis surj_pair)
  from k have "bus_ok (sys_bus s)" by (simp add: keeps_up_def)
  from bus_ok_receive [OF this, of j] have ok: "bus_ok b'" by (simp add: rec)
  have "stream_of i (bus_step s (BusReceive j)) = stream_of i s"
    using rec by (auto simp: stream_of_def receive_event_def split: option.splits list.splits)
  moreover have "sys_bus (bus_step s (BusReceive j)) = b'"
    "sys_published (bus_step s (BusReceive j)) = sys_published s"
    using rec by (simp_all split: option.split)
  moreover have "bus_eventSubscribers b' = bus_eventSubscribers (sys_bus s)"
    "bus_nextID b' = bus_nextID (sys_bus s)"
    using rec by (auto simp: receive_event_def split: option.splits list.splits)
  ultimately show ?thesis
    using BusReceive ok by (intro keeps_up_frame [OF k]) simp_all
qed

interpretation subscriber: op_machine bus_step "keeps_up i p past stream" for i p past stream
  by unfold_locales (rule keeps_up_step)

section \<open>Numbering without a repository\<close>

definition start_system :: System where
  "start_system = \<lparr>sys_bus = NewBus None True True, sys_published = [], sys_taken = (\<lambda>_. [])\<rparr>"

definition numbered :: "System \<Rightarrow> bool" where
  "numbered s \<longleftrightarrow>
     bus_ok (sys_bus s)
     \<and> bus_eventRepository (sys_bus s) = None \<and> bus_historyLimit (sys_bus s) = 512
     \<and> bus_nextSequence (sys_bus s) = word_of_nat (length (sys_published s))
     \<and> map ev_Sequence (sys_published s) = map word_of_nat [1..<Suc (length (sys_published s))]
     \<and> bus_history (sys_bus s) = keep_last 512 (sys_published s)
     \<and> (\<forall>i. bus_nextID (sys_bus s) < i \<longrightarrow> sys_taken s i = [])"

lemma keep_last_append: "keep_last n (keep_last n xs @ [x]) = keep_last n (xs @ [x])"
proof (cases "n < length xs")
  case True
  then have "length (keep_last n xs @ [x]) = Suc n" by (simp add: keep_last_def)
  moreover have "keep_last n xs @ [x] = drop (length xs - n) (xs @ [x])"
    using True by (simp add: keep_last_def)
  moreover have "Suc (length xs - n) = Suc (length xs) - n" using True by simp
  ultimately show ?thesis using True by (simp add: keep_last_def)
qed (simp add: keep_last_def)

lemma numbered_publish:
  assumes "numbered s"
  shows "numbered (bus_step s (BusPublish e now a b))"
proof -
  let ?n = "length (sys_published s)"
  define e' where "e' = (prepare_event e now)\<lparr>ev_Sequence := word_of_nat (Suc ?n)\<rparr>"
  obtain bus' where pub: "PublishTaskEvent e now a b (sys_bus s) = (Some e', bus')"
    and h: "bus_history bus' = keep_last 512 (bus_history (sys_bus s) @ [e'])"
    and n: "bus_nextSequence bus' = word_of_nat (Suc ?n)"
    and r: "bus_eventRepository bus' = None" "bus_historyLimit bus' = 512"
    using assms
    by (auto simp: PublishTaskEvent_def assign_sequence_def numbered_def Let_def e'_def
        publishEventLocked_def publishTaskLocked_def add.commute)
  have "bus_ok bus'" using assms bus_ok_publish [OF _ pub] by (simp add: numbered_def)
  moreover have "bus_nextID bus' = bus_nextID (sys_bus s)" by (rule publish_streams(3) [OF pub])
  ultimately show ?thesis
    using assms
    by (simp add: numbered_def pub h n r e'_def keep_last_append)
qed

lemma numbered_step: "numbered s \<Longrightarrow> numbered (bus_step s op)"
proof (cases op)
  case (BusPublish e now a b)
  assume "numbered s"
  with BusPublish numbered_publish show ?thesis by simp
next
  case (BusSubscribeEvents q a n ok)
  obtain out b' where sub: "SubscribeTaskEvents q a n ok (sys_bus s) = (out, b')" by (metis surj_pair)
  assume "numbered s"
  with sub bus_ok_subscribe [OF _ sub] show ?thesis
    using BusSubscribeEvents by (auto simp: numbered_def elim!: subscribe_events_cases)
next
  case (BusReceive j)
  obtain out b' where rec: "receive_event j (sys_bus s) = (out, b')" by (metis surj_pair)
  assume num: "numbered s"
  then have "bus_ok b'" using bus_ok_receive [of "sys_bus s" j] by (simp add: numbered_def rec)
  moreover have "j \<le> bus_nextID (sys_bus s)" if "out \<noteq> None"
    using rec that num by (auto simp: numbered_def bus_ok_def receive_event_def split: option.splits)
  moreover have "bus_nextID b' = bus_nextID (sys_bus s)"
    "bus_eventRepository b' = bus_eventRepository (sys_bus s)"
    "bus_historyLimit b' = bus_historyLimit (sys_bus s)"
    "bus_nextSequence b' = bus_nextSequence (sys_bus s)"
    "bus_history b' = bus_history (sys_bus s)"
    using rec by (auto simp: receive_event_def split: option.splits list.splits)
  ultimately show ?thesis
    using num BusReceive by (cases out) (auto simp: numbered_def rec)
qed (auto simp: numbered_def bus_ok_cancel CancelTaskEvents_def [of _ "sys_bus s"] Subscribe_def
    Unsubscribe_def Let_def bus_ok_def le_SucI)

interpretation numbering: op_machine bus_step numbered
  by unfold_locales (rule numbered_step)

lemma append_newer_sorted:
  "sorted_wrt (\<lambda>a b. ev_Sequence a < ev_Sequence b) (replay @ es) \<Longrightarrow>
     append_newer P replay es = replay @ filter P es"
proof (induction P replay es rule: append_newer.induct)
  case (2 P replay e es)
  have "\<forall>x \<in> set replay. ev_Sequence x < ev_Sequence e"
    using "2.prems" by (simp add: sorted_wrt_append)
  then have "\<not> (replay \<noteq> [] \<and> ev_Sequence e \<le> ev_Sequence (last replay))"
    using last_in_set [of replay] by (metis not_le)
  moreover have "sorted_wrt (\<lambda>a b. ev_Sequence a < ev_Sequence b) (replay @ es)"
    "sorted_wrt (\<lambda>a b. ev_Sequence a < ev_Sequence b) ((replay @ [e]) @ es)"
    using "2.prems" by (simp_all add: sorted_wrt_append)
  ultimately show ?case using "2.IH" by auto
qed simp

lemma numbered_index:
  assumes "numbered s" "length (sys_published s) < 2 ^ 64" "j < length (sys_published s)"
  shows "unat (ev_Sequence (sys_published s ! j)) = Suc j"
proof -
  have "map ev_Sequence (sys_published s) ! j = map word_of_nat [1..<Suc (length (sys_published s))] ! j"
    using assms(1) by (simp only: numbered_def)
  then have "ev_Sequence (sys_published s ! j) = word_of_nat (Suc j)"
    using assms(3) by (simp del: upt_Suc of_nat_Suc)
  then show ?thesis
    using assms(2,3) by (simp add: unsigned_of_nat take_bit_nat_eq_self del: of_nat_Suc)
qed

lemma numbered_sorted:
  assumes "numbered s" "length (sys_published s) < 2 ^ 64"
  shows "sorted_wrt (\<lambda>a b. ev_Sequence a < ev_Sequence b) (sys_published s)"
  unfolding sorted_wrt_iff_nth_less
  using numbered_index [OF assms] by (auto simp: word_less_nat_alt)

lemma keep_last_drop: "keep_last n xs = drop (length xs - n) xs"
  by (simp add: keep_last_def)

lemma fresh_replay:
  assumes num: "numbered s" and len: "length (sys_published s) < 2 ^ 64"
    and alive: "a \<noteq> 0 \<or> length (sys_published s) \<le> 512"
    and sub: "SubscribeTaskEvents p a n ok (sys_bus s) = (Some i, b')"
  shows "i = bus_nextID (sys_bus s) + 1"
    and "bus_eventSubscribers b' i = Some (TrimSpace p)"
    and "stream_of i (s\<lparr>sys_bus := b'\<rparr>)
      = filter (\<lambda>e. a < ev_Sequence e \<and> event_for (TrimSpace p) e) (sys_published s)"
proof -
  let ?xs = "sys_published s" and ?b = "sys_bus s\<lparr>bus_nextID := bus_nextID (sys_bus s) + 1\<rparr>"
  define d where "d = length ?xs - 512"
  define W where "W e \<longleftrightarrow> a < ev_Sequence e \<and> event_for (TrimSpace p) e" for e
  from sub obtain replay c where i: "i = bus_nextID (sys_bus s) + 1"
    and r: "subscription_replay (TrimSpace p) a ok ?b = Some replay" and c: "ch_buf c = replay"
    and b': "b' = (sys_bus s)\<lparr>bus_nextID := bus_nextID (sys_bus s) + 1,
       bus_eventSubscribers := (bus_eventSubscribers (sys_bus s))(i \<mapsto> TrimSpace p),
       bus_streams := (bus_streams (sys_bus s))(i \<mapsto> c)\<rparr>"
    by (auto elim!: subscribe_events_cases)
  have hist: "bus_history ?b = drop d ?xs" and norepo: "bus_eventRepository ?b = None"
    using num by (simp_all add: numbered_def keep_last_drop d_def)
  from r norepo have live: "\<not> cursor_expired a ?b"
    by (auto simp: subscription_replay_def Let_def split: if_splits)
  have "sorted_wrt (\<lambda>a b. ev_Sequence a < ev_Sequence b) ([] @ drop d ?xs)"
    using numbered_sorted [OF num len] sorted_wrt_drop by simp
  from append_newer_sorted [OF this, of W] have "replay = filter W (drop d ?xs)"
    using r live hist by (simp add: subscription_replay_def Let_def W_def [abs_def])
  also have "\<dots> = filter W ?xs"
  proof -
    have "\<not> W e" if e: "e \<in> set (take d ?xs)" for e
    proof -
      from e obtain j where j: "j < d" "j < length ?xs" "e = ?xs ! j"
        by (auto simp: in_set_conv_nth)
      then have big: "512 < length ?xs" by (simp add: d_def)
      then have a: "a \<noteq> 0" using alive by simp
      have "drop d ?xs \<noteq> []" "hd (drop d ?xs) = ?xs ! d" "d < length ?xs"
        using big by (simp_all add: d_def hd_drop_conv_nth)
      with live a hist have "\<not> a + 1 < ev_Sequence (?xs ! d)"
        by (auto simp: cursor_expired_def word_greater_zero_iff)
      then have "Suc d \<le> unat (a + 1)"
        using numbered_index [OF num len \<open>d < length ?xs\<close>] by (simp add: word_less_nat_alt)
      moreover have "unat (a + 1) \<le> unat a + 1"
        by (simp add: unat_word_ariths(1) mod_less_eq_dividend)
      ultimately have "unat (ev_Sequence e) \<le> unat a"
        using numbered_index [OF num len j(2)] j by simp
      then show ?thesis by (simp add: W_def word_less_nat_alt)
    qed
    then have "filter W (take d ?xs) = []" by (simp add: filter_empty_conv)
    then show ?thesis by (metis append_Nil append_take_drop_id filter_append)
  qed
  finally have replay: "replay = filter W ?xs" .
  show "i = bus_nextID (sys_bus s) + 1" "bus_eventSubscribers b' i = Some (TrimSpace p)"
    using i b' by simp_all
  have "sys_taken s i = []" using num i by (simp add: numbered_def)
  then show "stream_of i (s\<lparr>sys_bus := b'\<rparr>)
      = filter (\<lambda>e. a < ev_Sequence e \<and> event_for (TrimSpace p) e) ?xs"
    using replay c by (simp add: stream_of_def b' W_def [abs_def])
qed

lemma gap_free:
  assumes ok: "bus_ok (sys_bus s)" and sub: "bus_eventSubscribers (sys_bus s) i = Some p"
  shows "\<exists>new k. sys_published (run_ops bus_step s ops) = sys_published s @ new
    \<and> stream_of i (run_ops bus_step s ops) = stream_of i s @ take k (filter (event_for p) new)
    \<and> (subscribed i (run_ops bus_step s ops) \<longrightarrow> length (filter (event_for p) new) \<le> k)"
proof -
  from bus_okD(2) [OF ok sub] ok have "i \<le> bus_nextID (sys_bus s)" by (auto simp: bus_ok_def)
  with ok sub have "keeps_up i p (sys_published s) (stream_of i s) s"
    by (simp add: keeps_up_def)
  from subscriber.run_inv [OF this, of ops] show ?thesis
    unfolding keeps_up_def by blast
qed

lemma published_grows: "length (sys_published s) \<le> length (sys_published (run_ops bus_step s ops))"
proof (induction ops arbitrary: s)
  case (Cons op ops)
  have "length (sys_published s) \<le> length (sys_published (bus_step s op))"
    by (cases op) (auto split: prod.split option.split)
  with Cons [of "bus_step s op"] show ?case by simp
qed simp

lemma later_numbers:
  assumes num: "numbered s" and len: "length (sys_published s) < 2 ^ 64"
    and pub: "sys_published s = past @ new" and a: "unat a \<le> length past"
  shows "filter (\<lambda>e. a < ev_Sequence e \<and> P e) new = filter P new"
proof (rule filter_cong)
  fix e assume "e \<in> set new"
  then obtain j where j: "j < length new" "e = new ! j" by (auto simp: in_set_conv_nth)
  then have "unat (ev_Sequence e) = Suc (length past + j)"
    using numbered_index [OF num len, of "length past + j"] pub by (simp add: nth_append)
  with a show "(a < ev_Sequence e \<and> P e) = P e" by (simp add: word_less_nat_alt)
qed simp

section \<open>Properties\<close>

text \<open>
  C12: an event stream has no gaps: whatever happens on the bus after a client subscribed, what
  the client has received and will receive is what it had, followed by the events for its session
  published since, in their order and none skipped, up to the moment it is closed; while it is
  subscribed it is all of them.
\<close>

theorem stream_without_gaps:
  assumes "bus_ok (sys_bus s)" "bus_eventSubscribers (sys_bus s) i = Some p"
  shows "\<exists>new k. sys_published (run_ops bus_step s ops) = sys_published s @ new
    \<and> stream_of i (run_ops bus_step s ops) = stream_of i s @ take k (filter (event_for p) new)
    \<and> (subscribed i (run_ops bus_step s ops) \<longrightarrow>
         stream_of i (run_ops bus_step s ops) = stream_of i s @ filter (event_for p) new)"
proof -
  from gap_free [OF assms, of ops] obtain new k where
    "sys_published (run_ops bus_step s ops) = sys_published s @ new"
    "stream_of i (run_ops bus_step s ops) = stream_of i s @ take k (filter (event_for p) new)"
    "subscribed i (run_ops bus_step s ops) \<longrightarrow> length (filter (event_for p) new) \<le> k"
    by blast
  then show ?thesis by (intro exI [of _ new] exI [of _ k]) simp
qed


section \<open>Witnesses\<close>

theorem stream_without_gaps_witness:
  "\<exists>new k. sys_published (run_ops bus_step (bus_step start_system (BusSubscribeEvents [] 0 4 True))
       [BusPublish (sample_event 0) 5 True True]) = new
     \<and> stream_of 1 (run_ops bus_step (bus_step start_system (BusSubscribeEvents [] 0 4 True))
       [BusPublish (sample_event 0) 5 True True]) = take k (filter (event_for []) new)"
proof -
  let ?s = "bus_step start_system (BusSubscribeEvents [] 0 4 True)"
  have "sys_published ?s = []" "stream_of 1 ?s = []" "bus_ok (sys_bus ?s)"
    "bus_eventSubscribers (sys_bus ?s) 1 = Some []"
    by (simp_all add: start_system_def NewBus_def Let_def SubscribeTaskEvents_def bus_ok_def
        subscription_replay_def cursor_expired_def stream_of_def)
  with stream_without_gaps [of ?s 1 "[]" "[BusPublish (sample_event 0) 5 True True]"]
  show ?thesis by auto
qed


end
