(* ===== verification/AgentRuntime.thy ===== *)
theory AgentRuntime
  imports AgentMessages Contracts
    "HOL-Library.Char_ord" "HOL-Library.List_Lexorder" "HOL-Library.Product_Lexorder" "HOL-Library.Multiset"
begin

text \<open>
  \<open>core/adapter/subagent/runtime/manager.go\<close>: the process-local registry of child agents, with
  the turn each of them is executing, and \<open>core/adapter/subagent/registry/registry.go\<close>: the
  reservation of agent paths. Both hold a mutex during each method. \<open>turns\<close> maps an absent key to
  the empty string, as a Go map does, so it is a function. A nil manager is not modelled.
\<close>

definition normalizePath :: "string \<Rightarrow> string" where
  "normalizePath path = TrimASCII ''/'' (TrimSpace path)"

definition statusForTask :: "TaskStatus \<Rightarrow> AgentStatus" where
  "statusForTask status =
     (case status of
        TaskStatusQueued \<Rightarrow> AgentStatusQueued
      | TaskStatusRunning \<Rightarrow> AgentStatusRunning
      | TaskStatusWaitingSubagents \<Rightarrow> AgentStatusWaiting
      | TaskStatusWaitingPermission \<Rightarrow> AgentStatusWaiting
      | TaskStatusSucceeded \<Rightarrow> AgentStatusCompleted
      | TaskStatusFailed \<Rightarrow> AgentStatusFailed
      | TaskStatusCanceled \<Rightarrow> AgentStatusInterrupted
      | TaskStatusOther _ \<Rightarrow> AgentStatusCreated)"

record Manager =
  mgr_runtime :: "AgentRuntimeSnapshot gomap"
  mgr_turns :: "string \<Rightarrow> string"

datatype runtime_error =
    ErrAgentRuntimeNotFound
  | ErrAgentRuntimeLoaded
  | ErrAgentRuntimeUnloaded
  | ErrAgentTurnActive
  | ErrAgentTurnMismatch

definition NewManager :: Manager where
  "NewManager = \<lparr>mgr_runtime = Map.empty, mgr_turns = (\<lambda>_. [])\<rparr>"

definition set_runtime :: "string \<Rightarrow> AgentRuntimeSnapshot \<Rightarrow> Manager \<Rightarrow> Manager" where
  "set_runtime k s m = m\<lparr>mgr_runtime := (mgr_runtime m)(k \<mapsto> s)\<rparr>"

definition Manager_Register :: "Task \<Rightarrow> Manager \<Rightarrow> runtime_error + Manager" where
  "Manager_Register thread m =
     (let threadID = TrimSpace (task_ID thread)
      in if threadID = [] then Inl ErrAgentRuntimeNotFound
         else case mgr_runtime m threadID of
           Some current \<Rightarrow>
             (if mgr_turns m threadID \<noteq> []
                 \<and> mgr_turns m threadID \<noteq> TrimSpace (task_CurrentRunID thread)
              then Inl ErrAgentTurnActive
              else Inr (set_runtime threadID
                (current\<lparr>rt_ParentThreadID := TrimSpace (task_ParentTaskID thread),
                         rt_RootAgentID := TrimSpace (task_ParentSessionID thread),
                         rt_AgentPath := normalizePath (task_AgentPath thread),
                         rt_AgentNickname := TrimSpace (task_AgentNickname thread),
                         rt_CurrentTurnID := mgr_turns m threadID,
                         rt_Status := statusForTask (task_Status thread)\<rparr>) m))
         | None \<Rightarrow>
             Inr (set_runtime threadID
               \<lparr>rt_ThreadID = threadID,
                rt_ParentThreadID = TrimSpace (task_ParentTaskID thread),
                rt_RootAgentID = TrimSpace (task_ParentSessionID thread),
                rt_AgentPath = normalizePath (task_AgentPath thread),
                rt_AgentNickname = TrimSpace (task_AgentNickname thread),
                rt_CurrentTurnID = [],
                rt_Status = statusForTask (task_Status thread),
                rt_Loaded = False\<rparr> m))"

definition Manager_Remove :: "string \<Rightarrow> Manager \<Rightarrow> runtime_error + Manager" where
  "Manager_Remove thread m =
     (let threadID = TrimSpace thread
      in case mgr_runtime m threadID of
           None \<Rightarrow> Inl ErrAgentRuntimeNotFound
         | Some _ \<Rightarrow>
             (if mgr_turns m threadID \<noteq> [] then Inl ErrAgentTurnActive
              else Inr (m\<lparr>mgr_runtime := (mgr_runtime m)(threadID := None)\<rparr>)))"

definition ReserveTurn :: "string \<Rightarrow> string \<Rightarrow> Manager \<Rightarrow> runtime_error + Manager" where
  "ReserveTurn thread turn m =
     (let threadID = TrimSpace thread; turnID = TrimSpace turn
      in if threadID = [] \<or> turnID = [] then Inl ErrAgentRuntimeNotFound
         else case mgr_runtime m threadID of
           None \<Rightarrow> Inl ErrAgentRuntimeNotFound
         | Some state \<Rightarrow>
             (if mgr_turns m threadID \<noteq> [] \<and> mgr_turns m threadID \<noteq> turnID
                then Inl ErrAgentTurnActive
              else Inr (set_runtime threadID
                     (state\<lparr>rt_CurrentTurnID := turnID, rt_Status := AgentStatusQueued\<rparr>)
                     (m\<lparr>mgr_turns := (mgr_turns m)(threadID := turnID)\<rparr>))))"

definition ReleaseTurn :: "string \<Rightarrow> string \<Rightarrow> Manager \<Rightarrow> runtime_error + Manager" where
  "ReleaseTurn thread turn m =
     (let threadID = TrimSpace thread; turnID = TrimSpace turn
      in case mgr_runtime m threadID of
           None \<Rightarrow> Inl ErrAgentRuntimeNotFound
         | Some state \<Rightarrow>
             (if mgr_turns m threadID = [] then Inr m
              else if mgr_turns m threadID \<noteq> turnID then Inl ErrAgentTurnMismatch
              else Inr (set_runtime threadID (state\<lparr>rt_CurrentTurnID := []\<rparr>)
                     (m\<lparr>mgr_turns := (mgr_turns m)(threadID := [])\<rparr>))))"

definition SetStatus :: "string \<Rightarrow> AgentStatus \<Rightarrow> Manager \<Rightarrow> runtime_error + Manager" where
  "SetStatus thread status m =
     (let threadID = TrimSpace thread
      in case mgr_runtime m threadID of
           None \<Rightarrow> Inl ErrAgentRuntimeNotFound
         | Some state \<Rightarrow> Inr (set_runtime threadID (state\<lparr>rt_Status := status\<rparr>) m))"

definition MarkLoaded :: "string \<Rightarrow> Manager \<Rightarrow> runtime_error + Manager" where
  "MarkLoaded thread m =
     (let threadID = TrimSpace thread
      in case mgr_runtime m threadID of
           None \<Rightarrow> Inl ErrAgentRuntimeNotFound
         | Some state \<Rightarrow>
             (if rt_Loaded state then Inl ErrAgentRuntimeLoaded
              else Inr (set_runtime threadID
                     (state\<lparr>rt_Loaded := True,
                            rt_Status := (if rt_Status state = AgentStatusUnloaded
                                          then AgentStatusIdle else rt_Status state)\<rparr>) m)))"

definition MarkUnloaded :: "string \<Rightarrow> Manager \<Rightarrow> runtime_error + Manager" where
  "MarkUnloaded thread m =
     (let threadID = TrimSpace thread
      in case mgr_runtime m threadID of
           None \<Rightarrow> Inl ErrAgentRuntimeNotFound
         | Some state \<Rightarrow>
             (if mgr_turns m threadID \<noteq> [] then Inl ErrAgentTurnActive
              else if \<not> rt_Loaded state then Inl ErrAgentRuntimeUnloaded
              else Inr (set_runtime threadID
                     (state\<lparr>rt_Loaded := False, rt_Status := AgentStatusUnloaded\<rparr>) m)))"

definition Inspect :: "string \<Rightarrow> Manager \<Rightarrow> runtime_error + AgentRuntimeSnapshot" where
  "Inspect thread m =
     (case mgr_runtime m (TrimSpace thread) of
        None \<Rightarrow> Inl ErrAgentRuntimeNotFound | Some state \<Rightarrow> Inr state)"

text \<open>The snapshots ordered by path, then by thread; \<open>ks\<close> is the order of the map iteration.\<close>

definition Manager_List :: "string list \<Rightarrow> Manager \<Rightarrow> AgentRuntimeSnapshot list" where
  "Manager_List ks m = sort_key (\<lambda>s. (rt_AgentPath s, rt_ThreadID s)) (map_items (mgr_runtime m) ks)"

section \<open>Agent paths\<close>

type_synonym PathRegistry = "string set"

definition Reserve :: "string \<Rightarrow> PathRegistry \<Rightarrow> unit option \<times> PathRegistry" where
  "Reserve path paths =
     (let p = normalizePath path
      in if p = [] then (None, paths)
         else if p \<in> paths then (Some (), paths)
         else (None, insert p paths))"

definition ReleasePath :: "string \<Rightarrow> PathRegistry \<Rightarrow> PathRegistry" where
  "ReleasePath path paths =
     (let p = normalizePath path in if p = [] then paths else paths - {p})"

definition Has :: "string \<Rightarrow> PathRegistry \<Rightarrow> bool" where
  "Has path paths = (let p = normalizePath path in if p = [] then False else p \<in> paths)"

section \<open>Executions of the manager\<close>

datatype runtime_op =
    RtRegister Task
  | RtRemove string
  | RtReserve string string
  | RtRelease string string
  | RtStatus string AgentStatus
  | RtLoad string
  | RtUnload string

fun runtime_attempt :: "Manager \<Rightarrow> runtime_op \<Rightarrow> runtime_error + Manager" where
  "runtime_attempt m (RtRegister t) = Manager_Register t m"
| "runtime_attempt m (RtRemove t) = Manager_Remove t m"
| "runtime_attempt m (RtReserve t u) = ReserveTurn t u m"
| "runtime_attempt m (RtRelease t u) = ReleaseTurn t u m"
| "runtime_attempt m (RtStatus t s) = SetStatus t s m"
| "runtime_attempt m (RtLoad t) = MarkLoaded t m"
| "runtime_attempt m (RtUnload t) = MarkUnloaded t m"

definition runtime_step :: "Manager \<Rightarrow> runtime_op \<Rightarrow> Manager" where
  "runtime_step m op = (case runtime_attempt m op of Inl _ \<Rightarrow> m | Inr m' \<Rightarrow> m')"

lemmas runtime_ops = Manager_Register_def Manager_Remove_def ReserveTurn_def ReleaseTurn_def
  SetStatus_def MarkLoaded_def MarkUnloaded_def set_runtime_def

text \<open>
  The invariant: a snapshot is stored under its trimmed, non-empty identifier and shows the turn
  that \<open>turns\<close> has for it, and only registered threads have a turn.
\<close>

definition runtime_ok :: "Manager \<Rightarrow> bool" where
  "runtime_ok m \<longleftrightarrow>
     (\<forall>k s. mgr_runtime m k = Some s \<longrightarrow> rt_ThreadID s = k \<and> k \<noteq> [] \<and> rt_CurrentTurnID s = mgr_turns m k)
     \<and> (\<forall>k. mgr_turns m k \<noteq> [] \<longrightarrow> mgr_runtime m k \<noteq> None)"

lemma runtime_okD:
  "runtime_ok m \<Longrightarrow> mgr_runtime m k = Some s \<Longrightarrow> rt_ThreadID s = k \<and> rt_CurrentTurnID s = mgr_turns m k"
  "runtime_ok m \<Longrightarrow> mgr_runtime m k = None \<Longrightarrow> mgr_turns m k = []"
  "runtime_ok m \<Longrightarrow> mgr_runtime m [] = None"
  by (auto simp: runtime_ok_def) (metis option.exhaust)

lemma runtime_ok_set:
  "\<lbrakk>runtime_ok m; rt_ThreadID s = k; k \<noteq> []; rt_CurrentTurnID s = mgr_turns m k\<rbrakk>
    \<Longrightarrow> runtime_ok (set_runtime k s m)"
  by (auto simp: runtime_ok_def set_runtime_def)

lemma runtime_ok_set_turn:
  "\<lbrakk>runtime_ok m; rt_ThreadID s = k; k \<noteq> []; rt_CurrentTurnID s = u\<rbrakk>
    \<Longrightarrow> runtime_ok (set_runtime k s (m\<lparr>mgr_turns := (mgr_turns m)(k := u)\<rparr>))"
  by (auto simp: runtime_ok_def set_runtime_def)

lemma runtime_ok_remove:
  "runtime_ok m \<Longrightarrow> mgr_turns m k = [] \<Longrightarrow> runtime_ok (m\<lparr>mgr_runtime := (mgr_runtime m)(k := None)\<rparr>)"
  unfolding runtime_ok_def by simp

lemma runtime_ok_attempt:
  assumes ok: "runtime_ok m" and a: "runtime_attempt m op = Inr m'"
  shows "runtime_ok m'"
proof (cases op)
  case (RtRegister t)
  with a ok show ?thesis
    by (auto simp: Manager_Register_def Let_def runtime_okD(2) dest: runtime_okD(1)
        intro!: runtime_ok_set split: if_splits option.splits)
next
  case (RtRemove t)
  with a ok show ?thesis
    by (auto simp: Manager_Remove_def Let_def intro!: runtime_ok_remove split: if_splits option.splits)
next
  case (RtReserve t u)
  with a ok show ?thesis
    by (auto simp: ReserveTurn_def Let_def dest: runtime_okD(1)
        intro!: runtime_ok_set_turn split: if_splits option.splits)
next
  case (RtRelease t u)
  with a ok show ?thesis
    by (auto simp: ReleaseTurn_def Let_def runtime_okD(3) dest: runtime_okD(1)
        intro!: runtime_ok_set_turn split: if_splits option.splits)
next
  case (RtStatus t s)
  with a ok show ?thesis
    by (auto simp: SetStatus_def Let_def runtime_okD(3) dest: runtime_okD(1)
        intro!: runtime_ok_set split: if_splits option.splits)
next
  case (RtLoad t)
  with a ok show ?thesis
    by (auto simp: MarkLoaded_def Let_def runtime_okD(3) dest: runtime_okD(1)
        intro!: runtime_ok_set split: if_splits option.splits)
next
  case (RtUnload t)
  with a ok show ?thesis
    by (auto simp: MarkUnloaded_def Let_def runtime_okD(3) dest: runtime_okD(1)
        intro!: runtime_ok_set split: if_splits option.splits)
qed

lemma runtime_ok_step: "runtime_ok m \<Longrightarrow> runtime_ok (runtime_step m op)"
  by (auto simp: runtime_step_def split: sum.split intro: runtime_ok_attempt)

definition active_turn :: "string \<Rightarrow> Manager \<Rightarrow> string option" where
  "active_turn k m = (if mgr_turns m k = [] then None else Some (mgr_turns m k))"

fun turn_released :: "runtime_op \<Rightarrow> string \<Rightarrow> string \<Rightarrow> bool" where
  "turn_released (RtRelease t u) k h \<longleftrightarrow> TrimSpace t = k \<and> TrimSpace u = h"
| "turn_released _ k h \<longleftrightarrow> False"

lemma turns_step:
  assumes "active_turn k m = Some h" "\<not> turn_released op k h"
  shows "active_turn k (runtime_step m op) = Some h"
  using assms
  by (cases op)
    (auto simp: runtime_step_def active_turn_def runtime_ops Let_def split: if_splits option.split)

interpretation turn_slot: exclusive_slot runtime_step runtime_ok active_turn turn_released
  by unfold_locales (auto simp: runtime_ok_step turns_step)

section \<open>Executions of the path registry\<close>

datatype path_op = PathReserve string | PathRelease string

fun path_step :: "PathRegistry \<Rightarrow> path_op \<Rightarrow> PathRegistry" where
  "path_step s (PathReserve p) = snd (Reserve p s)"
| "path_step s (PathRelease p) = ReleasePath p s"

fun path_released :: "path_op \<Rightarrow> string \<Rightarrow> unit \<Rightarrow> bool" where
  "path_released (PathRelease p) k h \<longleftrightarrow> normalizePath p = k"
| "path_released (PathReserve p) k h \<longleftrightarrow> False"


interpretation path_slot: exclusive_slot path_step "\<lambda>_. True"
  "\<lambda>k s. if k \<in> s then Some () else None" path_released
proof unfold_locales
  fix s k h op
  assume "(if k \<in> s then Some () else None) = Some h" "\<not> path_released op k h"
  then show "(if k \<in> path_step s op then Some () else None) = Some h"
    by (cases op) (auto simp: Reserve_def ReleasePath_def Let_def split: if_splits)
qed simp

section \<open>Properties\<close>

text \<open>
  C32: a child agent executes at most one turn at a time: once a turn is reserved for a thread,
  and until exactly this turn is released, whatever other operations run, every reservation of
  another turn is refused as active, every release of another turn is refused, the thread can be
  neither removed nor unloaded, and its snapshot shows the reserved turn.
\<close>

theorem one_active_turn:
  assumes ok: "runtime_ok m" and reserve: "ReserveTurn t u m = Inr m0"
    and ops: "\<forall>op \<in> set ops. \<not> turn_released op (TrimSpace t) (TrimSpace u)"
  shows "(\<forall>u'. TrimSpace u' \<noteq> TrimSpace u \<longrightarrow>
            ReleaseTurn t u' (run_ops runtime_step m0 ops) = Inl ErrAgentTurnMismatch
            \<and> ReserveTurn t u' (run_ops runtime_step m0 ops)
                = Inl (if blank u' then ErrAgentRuntimeNotFound else ErrAgentTurnActive))
    \<and> Manager_Remove t (run_ops runtime_step m0 ops) = Inl ErrAgentTurnActive
    \<and> MarkUnloaded t (run_ops runtime_step m0 ops) = Inl ErrAgentTurnActive
    \<and> map_sum id rt_CurrentTurnID (Inspect t (run_ops runtime_step m0 ops)) = Inr (TrimSpace u)"
proof -
  let ?m = "run_ops runtime_step m0 ops"
  have "runtime_step m (RtReserve t u) = m0" by (simp add: runtime_step_def reserve)
  with runtime_ok_step [OF ok, of "RtReserve t u"] have ok0: "runtime_ok m0" by simp
  from reserve have a0: "active_turn (TrimSpace t) m0 = Some (TrimSpace u)" and t: "TrimSpace t \<noteq> []"
    by (auto simp: ReserveTurn_def Let_def active_turn_def set_runtime_def split: if_splits option.splits)
  from turn_slot.slot_run [OF ok0 a0 ops]
  have turn: "mgr_turns ?m (TrimSpace t) = TrimSpace u" "TrimSpace u \<noteq> []"
    by (auto simp: active_turn_def split: if_splits)
  have "runtime_ok ?m" by (rule turn_slot.run_inv [OF ok0])
  then obtain st where "mgr_runtime ?m (TrimSpace t) = Some st" "rt_CurrentTurnID st = TrimSpace u"
    using turn by (fastforce simp: runtime_ok_def)
  with turn t show ?thesis
    by (simp add: ReserveTurn_def ReleaseTurn_def Manager_Remove_def MarkUnloaded_def Inspect_def)
qed

definition registered_sample :: Manager where
  "registered_sample = \<lparr>mgr_runtime = [''t'' \<mapsto> \<lparr>rt_ThreadID = ''t'', rt_ParentThreadID = [],
     rt_RootAgentID = ''s'', rt_AgentPath = ''a'', rt_AgentNickname = [], rt_CurrentTurnID = [],
     rt_Status = AgentStatusQueued, rt_Loaded = False\<rparr>], mgr_turns = (\<lambda>_. [])\<rparr>"

theorem one_active_turn_witness:
  "\<exists>m0. ReserveTurn ''t'' ''r1'' registered_sample = Inr m0
    \<and> ReserveTurn ''t'' ''r2'' (run_ops runtime_step m0 [RtLoad ''t'', RtRelease ''t'' ''r3''])
        = Inl ErrAgentTurnActive"
proof -
  have ok: "runtime_ok registered_sample" by (simp add: runtime_ok_def registered_sample_def)
  have "\<exists>m0. ReserveTurn ''t'' ''r1'' registered_sample = Inr m0"
    by (simp add: ReserveTurn_def Let_def registered_sample_def visible_eval)
  then obtain m0 where a: "ReserveTurn ''t'' ''r1'' registered_sample = Inr m0" ..
  have "\<forall>op \<in> set [RtLoad ''t'', RtRelease ''t'' ''r3''].
      \<not> turn_released op (TrimSpace ''t'') (TrimSpace ''r1'')" by (simp add: visible_eval)
  from one_active_turn [OF ok a this] a show ?thesis by (auto simp: visible_eval)
qed

lemma sort_key_determined:
  assumes "mset xs = mset ys" "inj_on f (set xs)"
  shows "sort_key f xs = sort_key f ys"
proof (rule map_inj_on)
  have "set (sort_key f xs) = set xs" "set (sort_key f ys) = set xs"
    using assms(1) by (auto dest: mset_eq_setD)
  with assms(2) show "inj_on f (set (sort_key f xs) \<union> set (sort_key f ys))" by simp
  have "mset (map f (sort_key f xs)) = mset (map f (sort_key f ys))" using assms(1) by simp
  then show "map f (sort_key f xs) = map f (sort_key f ys)"
    by (metis sorted_sort_key properties_for_sort)
qed

lemma mset_map_items_order:
  assumes "map_order m ks" "map_order m ks'"
  shows "mset (map_items m ks) = mset (map_items m ks')"
proof -
  have "map_items m ks = map (\<lambda>k. the (m k)) ks" if "set ks \<subseteq> dom m" for ks
    using that by (induction ks) auto
  moreover have "mset ks = mset ks'"
    using assms by (metis map_order_def set_eq_iff_mset_eq_distinct)
  ultimately show ?thesis using assms by (simp add: map_order_def)
qed

text \<open>
  The listing of the agents does not depend on the order in which the map is iterated: it is
  sorted by path and then by thread, and holds every registered agent once.
\<close>

theorem runtime_listing_deterministic:
  assumes "runtime_ok m" "map_order (mgr_runtime m) ks" "map_order (mgr_runtime m) ks'"
  shows "Manager_List ks m = Manager_List ks' m
    \<and> sorted (map (\<lambda>s. (rt_AgentPath s, rt_ThreadID s)) (Manager_List ks m))
    \<and> set (Manager_List ks m) = ran (mgr_runtime m)
    \<and> distinct (map rt_ThreadID (Manager_List ks m))"
proof -
  have ids: "map rt_ThreadID (map_items (mgr_runtime m) ks) = ks" if "set ks \<subseteq> dom (mgr_runtime m)" for ks
    using that assms(1) by (induction ks) (auto dest: runtime_okD(1))
  have dist: "distinct (map rt_ThreadID (map_items (mgr_runtime m) ks))"
    using assms(2) by (simp add: ids map_order_def)
  then have "inj_on (\<lambda>s. (rt_AgentPath s, rt_ThreadID s)) (set (map_items (mgr_runtime m) ks))"
    by (auto simp: distinct_map inj_on_def)
  with mset_map_items_order [OF assms(2,3)] have "Manager_List ks m = Manager_List ks' m"
    unfolding Manager_List_def by (rule sort_key_determined)
  moreover have "distinct (map rt_ThreadID (Manager_List ks m))"
    using dist by (simp add: Manager_List_def distinct_map)
  ultimately show ?thesis
    using assms(2,3) by (simp add: Manager_List_def set_map_items_order)
qed

theorem runtime_listing_deterministic_witness:
  "length (Manager_List [''t''] registered_sample) = 1
   \<and> set (Manager_List [''t''] registered_sample) = ran (mgr_runtime registered_sample)"
proof -
  have ok: "runtime_ok registered_sample" by (simp add: runtime_ok_def registered_sample_def)
  have o: "map_order (mgr_runtime registered_sample) [''t'']"
    by (simp add: map_order_def registered_sample_def)
  have "length (Manager_List [''t''] registered_sample) = 1"
    by (simp add: Manager_List_def registered_sample_def)
  with runtime_listing_deterministic [OF ok o o] show ?thesis by blast
qed

text \<open>
  An agent path is reserved once: after a reservation, under every spelling of the path, a
  second reservation is refused until the path is released.
\<close>

lemma path_reserved_once:
  assumes "Reserve p s = (None, s0)" "normalizePath p \<noteq> []" "normalizePath q = normalizePath p"
    and "\<forall>op \<in> set ops. \<not> path_released op (normalizePath p) ()"
  shows "fst (Reserve q (run_ops path_step s0 ops)) = Some ()
    \<and> Has q (run_ops path_step s0 ops)
    \<and> fst (Reserve q (ReleasePath q (run_ops path_step s0 ops))) = None"
proof -
  have "(if normalizePath p \<in> s0 then Some () else None) = Some ()"
    using assms(1,2) by (auto simp: Reserve_def Let_def split: if_splits)
  from path_slot.slot_run [OF TrueI this assms(4)]
  have "normalizePath p \<in> run_ops path_step s0 ops" by (simp split: if_splits)
  with assms(2,3) show ?thesis by (simp add: Reserve_def Has_def ReleasePath_def)
qed

end
