(* ===== verification/SubagentScheduler.thy ===== *)
theory SubagentScheduler
  imports GoStrings Machine
begin

text \<open>
  \<open>core/adapter/subagent/local/scheduler.go\<close>: the worker pool that runs subagent tasks. The
  methods hold the mutex, so each is one operation. The goroutines are counted: idle workers
  (blocked on the job channel), waiting substitutes (each with the channel whose closing ends
  it), and running jobs (with whether a permanent worker runs them). What the goroutines do is
  the step relation \<open>work\<close>; a job that returns or panics is its rule \<open>finish\<close>. An unpark channel
  is a number, closed when it is in \<open>sch_unparked\<close>. \<open>wg\<close> is the number of goroutines left, so
  \<open>Close\<close> returns when there is none.
\<close>

record activeJob =
  aj_canceled :: bool
  aj_parkCount :: int
  aj_unpark :: "nat option"

record Scheduler =
  sch_jobs :: "string list"
  sch_cap :: nat
  sch_active :: "activeJob gomap"
  sch_closed :: bool
  sch_workers :: nat
  sch_substitutes :: "nat list"
  sch_running :: "(string \<times> bool) list"
  sch_unparked :: "nat set"
  sch_channels :: nat

datatype scheduler_error =
    ErrScheduledTaskInvalid
  | ErrSchedulerClosed
  | ErrAlreadyScheduled
  | ErrSchedulerQueueFull
  | ErrParkInvalid
  | ErrNotScheduled

definition NewScheduler :: "int \<Rightarrow> int \<Rightarrow> Scheduler" where
  "NewScheduler workers queueSize =
     \<lparr>sch_jobs = [], sch_cap = nat (if queueSize < 1 then 32 else queueSize),
      sch_active = Map.empty, sch_closed = False,
      sch_workers = nat (if workers < 1 then 2 else workers),
      sch_substitutes = [], sch_running = [], sch_unparked = {}, sch_channels = 0\<rparr>"

text \<open>\<open>runnable\<close> is \<open>task != nil\<close>.\<close>

definition Submit :: "string \<Rightarrow> bool \<Rightarrow> Scheduler \<Rightarrow> scheduler_error + Scheduler" where
  "Submit taskID runnable s =
     (if taskID = [] \<or> \<not> runnable then Inl ErrScheduledTaskInvalid
      else if sch_closed s then Inl ErrSchedulerClosed
      else if sch_active s taskID \<noteq> None then Inl ErrAlreadyScheduled
      else if length (sch_jobs s) < sch_cap s
        then Inr (s\<lparr>sch_jobs := sch_jobs s @ [taskID],
                    sch_active := (sch_active s)(taskID \<mapsto>
                      \<lparr>aj_canceled = False, aj_parkCount = 0, aj_unpark = None\<rparr>)\<rparr>)
      else Inl ErrSchedulerQueueFull)"

definition Cancel :: "string \<Rightarrow> Scheduler \<Rightarrow> bool \<times> Scheduler" where
  "Cancel taskID s =
     (case sch_active s taskID of
        None \<Rightarrow> (False, s)
      | Some job \<Rightarrow>
          (True, s\<lparr>sch_active := (sch_active s)(taskID \<mapsto> job\<lparr>aj_canceled := True\<rparr>)\<rparr>))"

definition Park :: "string \<Rightarrow> Scheduler \<Rightarrow> scheduler_error + Scheduler" where
  "Park taskID s =
     (if taskID = [] then Inl ErrParkInvalid
      else if sch_closed s then Inl ErrSchedulerClosed
      else case sch_active s taskID of
        None \<Rightarrow> Inl ErrNotScheduled
      | Some job \<Rightarrow>
          (let fresh = sch_channels s;
               c = (case aj_unpark job of None \<Rightarrow> fresh | Some c \<Rightarrow> c)
           in Inr (s\<lparr>sch_active := (sch_active s)(taskID \<mapsto>
                       job\<lparr>aj_parkCount := aj_parkCount job + 1, aj_unpark := Some c\<rparr>),
                     sch_channels := (if aj_unpark job = None then fresh + 1 else fresh),
                     sch_substitutes := sch_substitutes s @ [c]\<rparr>)))"

definition Unpark :: "string \<Rightarrow> Scheduler \<Rightarrow> Scheduler" where
  "Unpark taskID s =
     (if taskID = [] then s
      else case sch_active s taskID of
        None \<Rightarrow> s
      | Some job \<Rightarrow>
          (if aj_parkCount job = 0 then s
           else (let n = aj_parkCount job - 1
                 in case (n = 0, aj_unpark job) of
                      (True, Some c) \<Rightarrow>
                        s\<lparr>sch_active := (sch_active s)(taskID \<mapsto>
                             job\<lparr>aj_parkCount := n, aj_unpark := None\<rparr>),
                          sch_unparked := insert c (sch_unparked s)\<rparr>
                    | _ \<Rightarrow> s\<lparr>sch_active := (sch_active s)(taskID \<mapsto> job\<lparr>aj_parkCount := n\<rparr>)\<rparr>)))"

text \<open>\<open>Close\<close> up to its wait.\<close>

definition Close :: "Scheduler \<Rightarrow> Scheduler" where
  "Close s =
     (if sch_closed s then s
      else s\<lparr>sch_closed := True,
             sch_active := (\<lambda>k. map_option (\<lambda>job. job\<lparr>aj_canceled := True\<rparr>) (sch_active s k))\<rparr>)"

definition all_done :: "Scheduler \<Rightarrow> bool" where
  "all_done s \<longleftrightarrow> sch_workers s = 0 \<and> sch_substitutes s = [] \<and> sch_running s = []"

text \<open>The goroutines: \<open>worker\<close>, \<open>substituteWorker\<close> and \<open>runJob\<close>.\<close>

inductive work :: "Scheduler \<Rightarrow> Scheduler \<Rightarrow> bool" where
  worker_take: "\<lbrakk>sch_workers s = Suc n; sch_jobs s = j # js\<rbrakk> \<Longrightarrow>
     work s (s\<lparr>sch_workers := n, sch_jobs := js, sch_running := sch_running s @ [(j, True)]\<rparr>)"
| worker_exit: "\<lbrakk>sch_workers s = Suc n; sch_jobs s = []; sch_closed s\<rbrakk> \<Longrightarrow>
     work s (s\<lparr>sch_workers := n\<rparr>)"
| substitute_take: "\<lbrakk>sch_substitutes s = as @ c # bs; sch_jobs s = j # js\<rbrakk> \<Longrightarrow>
     work s (s\<lparr>sch_substitutes := as @ bs, sch_jobs := js,
               sch_running := sch_running s @ [(j, False)]\<rparr>)"
| substitute_exit: "\<lbrakk>sch_substitutes s = as @ c # bs; c \<in> sch_unparked s \<or> sch_closed s\<rbrakk> \<Longrightarrow>
     work s (s\<lparr>sch_substitutes := as @ bs\<rparr>)"
| finish: "sch_running s = as @ (j, w) # bs \<Longrightarrow>
     work s (s\<lparr>sch_running := as @ bs, sch_active := (sch_active s)(j := None),
               sch_workers := (if w then Suc (sch_workers s) else sch_workers s)\<rparr>)"

datatype scheduler_op =
    SchSubmit string bool
  | SchCancel string
  | SchPark string
  | SchUnpark string
  | SchClose

fun scheduler_call :: "Scheduler \<Rightarrow> scheduler_op \<Rightarrow> Scheduler" where
  "scheduler_call s (SchSubmit t r) = (case Submit t r s of Inl _ \<Rightarrow> s | Inr s' \<Rightarrow> s')"
| "scheduler_call s (SchCancel t) = snd (Cancel t s)"
| "scheduler_call s (SchPark t) = (case Park t s of Inl _ \<Rightarrow> s | Inr s' \<Rightarrow> s')"
| "scheduler_call s (SchUnpark t) = Unpark t s"
| "scheduler_call s SchClose = Close s"

text \<open>Calls of the methods and steps of the goroutines, in any interleaving.\<close>

inductive scheduler_reach :: "Scheduler \<Rightarrow> Scheduler \<Rightarrow> bool" where
  here: "scheduler_reach s s"
| call: "scheduler_reach s t \<Longrightarrow> scheduler_reach s (scheduler_call t op)"
| step: "scheduler_reach s t \<Longrightarrow> work t u \<Longrightarrow> scheduler_reach s u"

inductive_cases work_cases: "work s t"

section \<open>Invariants\<close>

definition permanent :: "Scheduler \<Rightarrow> nat" where
  "permanent s = length (filter snd (sch_running s))"

definition scheduled :: "Scheduler \<Rightarrow> string list" where
  "scheduled s = sch_jobs s @ map fst (sch_running s)"

definition scheduler_ok :: "nat \<Rightarrow> nat \<Rightarrow> Scheduler \<Rightarrow> bool" where
  "scheduler_ok n cap s \<longleftrightarrow>
     distinct (scheduled s) \<and> set (scheduled s) = dom (sch_active s)
     \<and> length (sch_jobs s) \<le> cap \<and> sch_cap s = cap
     \<and> sch_workers s + permanent s \<le> n
     \<and> (\<not> sch_closed s \<longrightarrow> sch_workers s + permanent s = n)
     \<and> (0 < sch_workers s + permanent s \<or> (sch_closed s \<and> sch_jobs s = []) \<or> n = 0)"

lemma dom_map_option_fun: "dom (\<lambda>k. map_option f (m k)) = dom m"
  by (auto simp: dom_def)

lemma scheduler_ok_call: "scheduler_ok n cap s \<Longrightarrow> scheduler_ok n cap (scheduler_call s op)"
proof (cases op)
  case (SchSubmit t r)
  assume "scheduler_ok n cap s"
  with SchSubmit show ?thesis
    by (auto simp: Submit_def scheduler_ok_def scheduled_def permanent_def)
next
  case (SchCancel t)
  assume "scheduler_ok n cap s"
  with SchCancel show ?thesis
    by (auto simp: Cancel_def scheduler_ok_def scheduled_def permanent_def split: option.split)
next
  case (SchPark t)
  assume "scheduler_ok n cap s"
  with SchPark show ?thesis
    by (auto simp: Park_def Let_def scheduler_ok_def scheduled_def permanent_def split: option.split)
next
  case (SchUnpark t)
  assume "scheduler_ok n cap s"
  with SchUnpark show ?thesis
    by (auto simp: Unpark_def Let_def scheduler_ok_def scheduled_def permanent_def
        split: option.split bool.split)
next
  case SchClose
  assume "scheduler_ok n cap s"
  with SchClose show ?thesis
    by (simp add: Close_def scheduler_ok_def scheduled_def permanent_def dom_map_option_fun) blast
qed

lemma scheduler_ok_work:
  assumes "work s t" "scheduler_ok n cap s"
  shows "scheduler_ok n cap t"
  using assms
proof (induction rule: work.induct)
  case (finish s as j w bs)
  then have "set (sch_jobs s @ map fst (as @ bs)) = dom ((sch_active s)(j := None))"
    by (auto simp: scheduler_ok_def scheduled_def)
  with finish show ?case
    by (auto simp: scheduler_ok_def scheduled_def permanent_def)
qed (auto simp: scheduler_ok_def scheduled_def permanent_def)

lemma scheduler_ok_reach: "scheduler_reach s t \<Longrightarrow> scheduler_ok n cap s \<Longrightarrow> scheduler_ok n cap t"
  by (induction rule: scheduler_reach.induct) (auto intro: scheduler_ok_call scheduler_ok_work)

lemma scheduler_ok_New:
  "scheduler_ok (nat (if w < 1 then 2 else w)) (nat (if q < 1 then 32 else q)) (NewScheduler w q)"
  by (auto simp: scheduler_ok_def NewScheduler_def scheduled_def permanent_def)

section \<open>Draining\<close>

definition work_left :: "Scheduler \<Rightarrow> nat" where
  "work_left s = 3 * length (sch_jobs s) + 2 * length (sch_running s) + sch_workers s
     + length (sch_substitutes s)"

lemma work_decreases: "work s t \<Longrightarrow> work_left t < work_left s"
  by (induction rule: work.induct) (auto simp: work_left_def)

lemma work_closed: "work s t \<Longrightarrow> sch_closed t = sch_closed s"
  by (induction rule: work.induct) auto

lemma work_enabled:
  assumes "scheduler_ok n cap s" "0 < n" "sch_closed s" "\<not> all_done s"
  shows "\<exists>t. work s t"
proof (cases "sch_running s")
  case (Cons jw bs)
  obtain j w where "sch_running s = [] @ (j, w) # bs" using Cons by (cases jw) auto
  then show ?thesis by (blast intro: work.finish)
next
  case Nil
  show ?thesis
  proof (cases "sch_substitutes s")
    case (Cons c bs)
    then have "sch_substitutes s = [] @ c # bs" by simp
    with assms(3) show ?thesis by (blast intro: work.substitute_exit)
  next
    case Nil
    with assms(4) \<open>sch_running s = []\<close> obtain m where m: "sch_workers s = Suc m"
      by (auto simp: all_done_def gr0_conv_Suc)
    show ?thesis
      by (cases "sch_jobs s") (use m assms(3) in \<open>blast intro: work.worker_take work.worker_exit\<close>)+
  qed
qed

lemma work_steps:
  "(work ^^ k) s t \<Longrightarrow> work_left t + k \<le> work_left s \<and> sch_closed t = sch_closed s
     \<and> (scheduler_ok n cap s \<longrightarrow> scheduler_ok n cap t)"
proof (induction k arbitrary: t)
  case (Suc k)
  then obtain u where "(work ^^ k) s u" "work u t" by auto
  with Suc.IH [of u] work_decreases [of u t] work_closed [of u t] scheduler_ok_work [of u t n cap]
  show ?case by auto
qed simp

section \<open>Properties\<close>

text \<open>
  C24: however calls and goroutines interleave, a task is never scheduled twice: what is queued
  and what runs are distinct tasks, exactly the active ones, so a second submission is refused
  until the first has ended; the queue keeps its bound, the permanent workers run at most one job
  each, and none of them is lost before the scheduler is closed.
\<close>

theorem task_scheduled_once:
  assumes "scheduler_reach (NewScheduler workers queueSize) s"
  shows "distinct (sch_jobs s @ map fst (sch_running s))
    \<and> set (sch_jobs s @ map fst (sch_running s)) = dom (sch_active s)
    \<and> (\<forall>t \<in> set (sch_jobs s @ map fst (sch_running s)). \<forall>r. Submit t r s \<in> range Inl)
    \<and> int (length (sch_jobs s)) \<le> (if queueSize < 1 then 32 else queueSize)
    \<and> int (permanent s) \<le> (if workers < 1 then 2 else workers)
    \<and> (\<not> sch_closed s \<longrightarrow> int (sch_workers s + permanent s) = (if workers < 1 then 2 else workers))"
proof -
  have ok: "scheduler_ok (nat (if workers < 1 then 2 else workers))
      (nat (if queueSize < 1 then 32 else queueSize)) s"
    using scheduler_ok_reach [OF assms scheduler_ok_New] .
  have "Submit t r s \<in> range Inl" if "t \<in> set (sch_jobs s @ map fst (sch_running s))" for t r
  proof -
    from that ok have "sch_active s t \<noteq> None"
      unfolding scheduler_ok_def scheduled_def by (metis domIff)
    then show ?thesis by (simp add: Submit_def)
  qed
  with ok show ?thesis
    unfolding scheduler_ok_def scheduled_def by (auto split: if_splits)
qed

theorem task_scheduled_once_witness:
  "Submit ''a'' True (scheduler_call (NewScheduler 1 1) (SchSubmit ''a'' True)) \<in> range Inl"
proof -
  have "scheduler_reach (NewScheduler 1 1) (scheduler_call (NewScheduler 1 1) (SchSubmit ''a'' True))"
    by (intro scheduler_reach.intros)
  from task_scheduled_once [OF this] show ?thesis
    by (simp add: Submit_def NewScheduler_def)
qed




end
