(* ===== verification/SubagentHierarchy.thy ===== *)
theory SubagentHierarchy
  imports SubagentMailbox
begin

text \<open>
  \<open>core/application/subagent/service/task_hierarchy.go\<close>: the checks before a nested task is
  stored. The task store is behind an interface, so its two lookups are arguments: \<open>get\<close> is
  \<open>GetTask\<close> and \<open>list_tasks\<close> is \<open>ListTasks\<close>, each with the store's own errors.
\<close>

definition maxSubagentDepth :: nat where "maxSubagentDepth = 4"
definition maxSubagentFanout :: nat where "maxSubagentFanout = 8"
definition maxParentChainWalk :: nat where "maxParentChainWalk = 64"

lemmas hierarchy_limits = maxSubagentDepth_def maxSubagentFanout_def maxParentChainWalk_def

datatype 'e hierarchy_error =
    LoadParentFailed 'e
  | ParentNotFound
  | ParentTerminal
  | CountChildrenFailed 'e
  | FanoutLimitReached
  | ParentChainTooDeep
  | LoadAncestorFailed 'e
  | ParentChainCyclic
  | DepthLimitReached

text \<open>The walk up the parents: the depth of the chain, or an error.\<close>

function ancestor_depth ::
  "(string \<Rightarrow> 'e + Task) \<Rightarrow> string list \<Rightarrow> nat \<Rightarrow> Task \<Rightarrow> 'e hierarchy_error + nat" where
  "ancestor_depth get seen depth current =
     (if blank (task_ParentTaskID current) then Inr depth
      else if depth \<ge> maxParentChainWalk then Inl ParentChainTooDeep
      else case get (task_ParentTaskID current) of
        Inl e \<Rightarrow> Inl (LoadAncestorFailed e)
      | Inr ancestor \<Rightarrow>
          (if task_ID ancestor \<in> set seen then Inl ParentChainCyclic
           else ancestor_depth get (task_ID ancestor # seen) (depth + 1) ancestor))"
  by pat_completeness auto
termination by (relation "measure (\<lambda>(get, seen, depth, current). maxParentChainWalk - depth)") auto

declare ancestor_depth.simps [simp del]

text \<open>\<open>Inr None\<close> stands for the empty task that the code returns for a task without a parent.\<close>

definition validateTaskParent ::
  "(string \<Rightarrow> 'e + Task) \<Rightarrow> (string \<Rightarrow> int \<Rightarrow> 'e + Task list) \<Rightarrow> string \<Rightarrow> string
     \<Rightarrow> 'e hierarchy_error + Task option" where
  "validateTaskParent get list_tasks ParentTaskID ParentSessionID =
     (let parentID = TrimSpace ParentTaskID
      in if parentID = [] then Inr None
         else case get parentID of
           Inl e \<Rightarrow> Inl (LoadParentFailed e)
         | Inr parent \<Rightarrow>
             (if blank ParentSessionID \<or> task_ChildSessionID parent \<noteq> TrimSpace ParentSessionID
                then Inl ParentNotFound
              else if Terminal parent then Inl ParentTerminal
              else case list_tasks (task_ChildSessionID parent) (int (maxSubagentFanout + 1)) of
                Inl e \<Rightarrow> Inl (CountChildrenFailed e)
              | Inr children \<Rightarrow>
                  (if length children \<ge> maxSubagentFanout then Inl FanoutLimitReached
                   else case ancestor_depth get [task_ID parent] 1 parent of
                     Inl e \<Rightarrow> Inl e
                   | Inr depth \<Rightarrow>
                       (if depth \<ge> maxSubagentDepth then Inl DepthLimitReached
                        else Inr (Some parent)))))"

definition nestedAgentPath :: "Task \<Rightarrow> string \<Rightarrow> string \<Rightarrow> string" where
  "nestedAgentPath parent taskName fallbackID =
     (let name = (if blank taskName then fallbackID else TrimSpace taskName);
          prefix = TrimASCII ''/'' (TrimSpace (task_AgentPath parent))
      in if prefix = [] then name else prefix @ ''/'' @ name)"

section \<open>Parent chains\<close>

text \<open>The specification: the chain of ancestors of a task, up to one without a parent.\<close>

fun parent_chain :: "(string \<Rightarrow> 'e + Task) \<Rightarrow> Task \<Rightarrow> Task list \<Rightarrow> bool" where
  "parent_chain get t [] \<longleftrightarrow> blank (task_ParentTaskID t)"
| "parent_chain get t (a # as) \<longleftrightarrow>
     \<not> blank (task_ParentTaskID t) \<and> get (task_ParentTaskID t) = Inr a \<and> parent_chain get a as"

lemma ancestor_depth_chain:
  "ancestor_depth get seen depth t = Inr d \<longleftrightarrow>
     (\<exists>as. parent_chain get t as \<and> d = depth + length as
        \<and> distinct (map task_ID as) \<and> set (map task_ID as) \<inter> set seen = {}
        \<and> (as \<noteq> [] \<longrightarrow> depth + length as \<le> maxParentChainWalk))"
  (is "?L get seen depth t \<longleftrightarrow> ?R get seen depth t")
proof (induction get seen depth t rule: ancestor_depth.induct)
  case (1 get seen depth t)
  show ?case
  proof (cases "blank (task_ParentTaskID t)")
    case True
    have "parent_chain get t as \<longleftrightarrow> as = []" for as using True by (cases as) auto
    with True show ?thesis by (subst ancestor_depth.simps) auto
  next
    case False
    have chain: "parent_chain get t as \<longleftrightarrow>
        (\<exists>a as'. as = a # as' \<and> get (task_ParentTaskID t) = Inr a \<and> parent_chain get a as')" for as
      using False by (cases as) auto
    show ?thesis
    proof (cases "depth \<ge> maxParentChainWalk")
      case True
      with False chain show ?thesis by (subst ancestor_depth.simps) auto
    next
      case shallow: False
      show ?thesis
      proof (cases "get (task_ParentTaskID t)")
        case (Inl e)
        with False shallow chain show ?thesis by (subst ancestor_depth.simps) auto
      next
        case (Inr a)
        show ?thesis
        proof (cases "task_ID a \<in> set seen")
          case True
          with Inr False shallow chain show ?thesis by (subst ancestor_depth.simps) auto
        next
          case new: False
          have "?L get seen depth t \<longleftrightarrow> ?R get (task_ID a # seen) (depth + 1) a"
            using "1.IH" [OF False shallow Inr new] False shallow Inr new
            by (subst ancestor_depth.simps) simp
          also have "\<dots> \<longleftrightarrow> ?R get seen depth t"
          proof
            assume "?R get (task_ID a # seen) (depth + 1) a"
            then obtain as where as: "parent_chain get a as" "d = depth + 1 + length as"
              "distinct (map task_ID as)" "set (map task_ID as) \<inter> set (task_ID a # seen) = {}"
              "as \<noteq> [] \<longrightarrow> depth + 1 + length as \<le> maxParentChainWalk" by blast
            have "depth + length (a # as) \<le> maxParentChainWalk"
              using as(5) shallow by (cases as) auto
            with as new Inr False show "?R get seen depth t"
              by (intro exI [of _ "a # as"]) auto
          next
            assume "?R get seen depth t"
            then obtain as where as: "parent_chain get t as" "d = depth + length as"
              "distinct (map task_ID as)" "set (map task_ID as) \<inter> set seen = {}"
              "as \<noteq> [] \<longrightarrow> depth + length as \<le> maxParentChainWalk" by blast
            then obtain as' where "as = a # as'" "parent_chain get a as'"
              using chain Inr by auto
            with as show "?R get (task_ID a # seen) (depth + 1) a"
              by (intro exI [of _ as']) auto
          qed
          finally show ?thesis .
        qed
      qed
    qed
  qed
qed

section \<open>Properties\<close>

text \<open>
  A nested task is accepted exactly under a live parent in its own tree: the parent is the
  stored task, its child session is the session of the request, it is not terminal, it has fewer
  than eight children, and its chain of ancestors ends, without a repetition, within four levels
  counting the parent.
\<close>

theorem nested_task_accepted_iff:
  "(validateTaskParent get list_tasks ptask psession = Inr (Some parent))
    = (\<not> blank ptask \<and> get (TrimSpace ptask) = Inr parent
       \<and> \<not> blank psession \<and> task_ChildSessionID parent = TrimSpace psession \<and> \<not> Terminal parent
       \<and> (\<exists>children. list_tasks (task_ChildSessionID parent) 9 = Inr children \<and> length children < 8)
       \<and> (\<exists>as. parent_chain get parent as \<and> distinct (map task_ID (parent # as))
            \<and> length (parent # as) < 4))"
proof -
  have "(\<exists>d < 4. ancestor_depth get [task_ID parent] 1 parent = Inr d)
    = (\<exists>as. parent_chain get parent as \<and> distinct (map task_ID (parent # as)) \<and> length (parent # as) < 4)"
    unfolding ancestor_depth_chain by (fastforce simp: hierarchy_limits)
  then show ?thesis
    by (auto simp: validateTaskParent_def Let_def hierarchy_limits not_le split: sum.splits if_splits)
qed

text \<open>
  A corrupted store cannot hang the check: whatever parents it reports, cyclic or endless,
  the walk ends after at most 64 lookups, with the length of the chain or an error.
\<close>

theorem parent_walk_bounded:
  "(case ancestor_depth get [task_ID t] 1 t of
      Inr d \<Rightarrow> 1 \<le> d \<and> d \<le> 64
    | Inl e \<Rightarrow> e \<in> {ParentChainTooDeep, ParentChainCyclic} \<union> range LoadAncestorFailed)"
proof -
  have "ancestor_depth get seen depth t = Inl e \<Longrightarrow>
      e \<in> {ParentChainTooDeep, ParentChainCyclic} \<union> range LoadAncestorFailed" for seen depth t e
  proof (induction get seen depth t rule: ancestor_depth.induct)
    case (1 get seen depth t)
    from "1.prems" show ?case
      by (subst (asm) ancestor_depth.simps) (use "1.IH" in \<open>auto split: if_splits sum.splits\<close>)
  qed
  then show ?thesis
    by (auto simp: ancestor_depth_chain hierarchy_limits split: sum.split)
qed

end
