(* ===== verification/PendingInput.thy ===== *)
theory PendingInput
  imports AgentMessages Contracts
begin

text \<open>
  \<open>core/adapter/chat/pendinginput/queue.go\<close> with \<open>core/domain/generation/pending_input.go\<close>: the
  messages that wait for the next turn of a session, and those the current turn has claimed.
  Every method is one critical section. Both maps give an absent session an empty value, so they
  are functions; deleting an empty inner map is the identity then. An error does not undo what
  the method did before it, so \<open>RequeueIdentified\<close> returns the state with the error. The
  acknowledger is behind an interface: the outcome of its call is an argument.
\<close>

definition MaxPendingMessages :: nat where "MaxPendingMessages = 8"
definition MaxPendingRunes :: nat where "MaxPendingRunes = 8000"

lemmas pending_limits = MaxPendingMessages_def MaxPendingRunes_def

record PendingTurnInputItem =
  pi_ID :: string
  pi_Content :: string
  pi_SourceKind :: string
  pi_SourceTaskID :: string
  pi_AuthorAgentID :: string
  pi_RecipientAgentID :: string
  pi_ParentTurnID :: string
  pi_RootAgentID :: string
  pi_Trigger :: string
  pi_Sequence :: "64 word"
  pi_CreatedAt :: gotime

record Queue =
  q_messages :: "string \<Rightarrow> PendingTurnInputItem list"
  q_inflight :: "string \<Rightarrow> PendingTurnInputItem gomap"

datatype pending_error =
    PendingSessionEmpty
  | PendingInputEmpty
  | PendingInputTooLong
  | PendingMessageIDEmpty
  | PendingMessageInvalid agent_message_error
  | PendingIDReused
  | PendingIDInFlight
  | PendingQueueFull
  | RequeueInFlightConflict
  | RequeueQueuedConflict

definition NewQueue :: Queue where
  "NewQueue = \<lparr>q_messages = (\<lambda>_. []), q_inflight = (\<lambda>_. Map.empty)\<rparr>"

definition AgentMessageKind_text :: "AgentMessageKind \<Rightarrow> string" where
  "AgentMessageKind_text k =
     (case k of AgentMessageKindUnset \<Rightarrow> [] | AgentMessageKindUserInput \<Rightarrow> ''user_input''
      | AgentMessageKindAssignment \<Rightarrow> ''task_assignment''
      | AgentMessageKindInterAgent \<Rightarrow> ''inter_agent_message''
      | AgentMessageKindTaskResult \<Rightarrow> ''task_result'' | AgentMessageKindTaskError \<Rightarrow> ''task_error''
      | AgentMessageKindControl \<Rightarrow> ''control'' | AgentMessageKindOther s \<Rightarrow> s)"

definition AgentMessageTrigger_text :: "AgentMessageTrigger \<Rightarrow> string" where
  "AgentMessageTrigger_text t =
     (case t of AgentMessageTriggerUnset \<Rightarrow> [] | AgentMessageTriggerQueue \<Rightarrow> ''queue''
      | AgentMessageTriggerTurn \<Rightarrow> ''trigger_turn'' | AgentMessageTriggerSteer \<Rightarrow> ''steer_current_turn''
      | AgentMessageTriggerOther s \<Rightarrow> s)"

definition plain_item :: "string \<Rightarrow> string \<Rightarrow> PendingTurnInputItem" where
  "plain_item i c = \<lparr>pi_ID = i, pi_Content = c, pi_SourceKind = [], pi_SourceTaskID = [],
     pi_AuthorAgentID = [], pi_RecipientAgentID = [], pi_ParentTurnID = [], pi_RootAgentID = [],
     pi_Trigger = [], pi_Sequence = 0, pi_CreatedAt = 0\<rparr>"

text \<open>All fields but the creation time.\<close>

definition samePendingItem :: "PendingTurnInputItem \<Rightarrow> PendingTurnInputItem \<Rightarrow> bool" where
  "samePendingItem left right \<longleftrightarrow> left = right\<lparr>pi_CreatedAt := pi_CreatedAt left\<rparr>"

definition findPendingItem :: "PendingTurnInputItem list \<Rightarrow> string \<Rightarrow> PendingTurnInputItem option" where
  "findPendingItem items i = find (\<lambda>x. pi_ID x = i) items"

definition set_messages :: "string \<Rightarrow> PendingTurnInputItem list \<Rightarrow> Queue \<Rightarrow> Queue" where
  "set_messages s xs q = q\<lparr>q_messages := (q_messages q)(s := xs)\<rparr>"

section \<open>Enqueueing\<close>

definition enqueueItem ::
  "string \<Rightarrow> string \<Rightarrow> string \<Rightarrow> PendingTurnInputItem \<Rightarrow> Queue \<Rightarrow> pending_error + Queue" where
  "enqueueItem session messageID content0 item q =
     (let sessionID = TrimSpace session; content = TrimSpace content0;
          append =
            (if length (q_messages q sessionID) \<ge> MaxPendingMessages then Inl PendingQueueFull
             else Inr (set_messages sessionID
               (q_messages q sessionID @ [item\<lparr>pi_ID := messageID, pi_Content := content\<rparr>]) q))
      in if sessionID = [] then Inl PendingSessionEmpty
         else if content = [] then Inl PendingInputEmpty
         else if RuneCount content > MaxPendingRunes then Inl PendingInputTooLong
         else if messageID = [] then append
         else case findPendingItem (q_messages q sessionID) messageID of
           Some existing \<Rightarrow> (if \<not> samePendingItem existing item then Inl PendingIDReused else Inr q)
         | None \<Rightarrow>
             (case q_inflight q sessionID messageID of
                Some existing \<Rightarrow>
                  (if \<not> samePendingItem existing item then Inl PendingIDInFlight else Inr q)
              | None \<Rightarrow> append))"

definition Enqueue :: "string \<Rightarrow> string \<Rightarrow> Queue \<Rightarrow> pending_error + Queue" where
  "Enqueue session content0 q =
     (let sessionID = TrimSpace session; content = TrimSpace content0
      in if sessionID = [] then Inl PendingSessionEmpty
         else if content = [] then Inl PendingInputEmpty
         else if RuneCount content > MaxPendingRunes then Inl PendingInputTooLong
         else enqueueItem sessionID [] content (plain_item [] content) q)"

definition EnqueueIdentified :: "string \<Rightarrow> string \<Rightarrow> string \<Rightarrow> Queue \<Rightarrow> pending_error + Queue" where
  "EnqueueIdentified session message content q =
     (let messageID = TrimSpace message
      in if messageID = [] then Inl PendingMessageIDEmpty
         else enqueueItem session messageID content (plain_item messageID content) q)"

definition agent_item :: "AgentMessage \<Rightarrow> PendingTurnInputItem" where
  "agent_item m =
     \<lparr>pi_ID = am_ID m, pi_Content = am_Content m, pi_SourceKind = AgentMessageKind_text (am_Kind m),
      pi_SourceTaskID = am_SourceTaskID m, pi_AuthorAgentID = am_AuthorAgentID m,
      pi_RecipientAgentID = am_RecipientAgentID m, pi_ParentTurnID = am_ParentTurnID m,
      pi_RootAgentID = am_RootAgentID m, pi_Trigger = AgentMessageTrigger_text (am_Trigger m),
      pi_Sequence = am_Sequence m, pi_CreatedAt = am_CreatedAt m\<rparr>"

definition EnqueueAgentMessage :: "string \<Rightarrow> AgentMessage \<Rightarrow> Queue \<Rightarrow> pending_error + Queue" where
  "EnqueueAgentMessage session m q =
     (case AgentMessage_Validate m of
        Some e \<Rightarrow> Inl (PendingMessageInvalid e)
      | None \<Rightarrow> enqueueItem session (am_ID m) (am_Content m) (agent_item m) q)"

section \<open>Claiming and giving back\<close>

definition Drain :: "string \<Rightarrow> Queue \<Rightarrow> string list \<times> Queue" where
  "Drain session q =
     (let sessionID = TrimSpace session
      in (map pi_Content (q_messages q sessionID), set_messages sessionID [] q))"

definition claim_items :: "PendingTurnInputItem list \<Rightarrow> PendingTurnInputItem gomap \<Rightarrow> PendingTurnInputItem gomap" where
  "claim_items items m = foldl (\<lambda>m x. if pi_ID x \<noteq> [] then m(pi_ID x \<mapsto> x) else m) m items"

definition DrainIdentified :: "string \<Rightarrow> Queue \<Rightarrow> PendingTurnInputItem list \<times> Queue" where
  "DrainIdentified session q =
     (let sessionID = TrimSpace session; items = q_messages q sessionID;
          q' = set_messages sessionID [] q
      in (items, q'\<lparr>q_inflight := (q_inflight q)(sessionID :=
                    claim_items items (q_inflight q sessionID))\<rparr>))"

text \<open>
  The loop over the batch, with the identifiers seen and the messages restored so far. It removes
  claims as it goes.
\<close>

fun requeue_loop ::
  "PendingTurnInputItem list \<Rightarrow> string list \<Rightarrow> PendingTurnInputItem list \<Rightarrow> PendingTurnInputItem list
     \<Rightarrow> PendingTurnInputItem gomap
     \<Rightarrow> (pending_error + PendingTurnInputItem list) \<times> PendingTurnInputItem gomap" where
  "requeue_loop current seen restored [] inflight = (Inr restored, inflight)"
| "requeue_loop current seen restored (item0 # items) inflight =
     (let item = item0\<lparr>pi_Content := TrimSpace (pi_Content item0)\<rparr>
      in if pi_Content item = [] then (Inl PendingInputEmpty, inflight)
         else if RuneCount (pi_Content item) > MaxPendingRunes then (Inl PendingInputTooLong, inflight)
         else if pi_ID item = [] then
           requeue_loop current seen (restored @ [item]) items inflight
         else if (case inflight (pi_ID item) of
                    Some existing \<Rightarrow> \<not> samePendingItem existing item | None \<Rightarrow> False)
           then (Inl RequeueInFlightConflict, inflight)
         else case findPendingItem current (pi_ID item) of
             Some existing \<Rightarrow>
               (if \<not> samePendingItem existing item then (Inl RequeueQueuedConflict, inflight)
                else requeue_loop current seen restored items (inflight(pi_ID item := None)))
           | None \<Rightarrow>
               (if pi_ID item \<in> set seen
                then requeue_loop current seen restored items (inflight(pi_ID item := None))
                else requeue_loop current (pi_ID item # seen) (restored @ [item]) items
                       (inflight(pi_ID item := None))))"

definition RequeueIdentified ::
  "string \<Rightarrow> PendingTurnInputItem list \<Rightarrow> Queue \<Rightarrow> pending_error option \<times> Queue" where
  "RequeueIdentified session items q =
     (let sessionID = TrimSpace session; current = q_messages q sessionID
      in if sessionID = [] then (Some PendingSessionEmpty, q)
         else if items = [] then (None, q)
         else case requeue_loop current (filter (\<lambda>i. i \<noteq> []) (map pi_ID current)) [] items
                     (q_inflight q sessionID) of
             (Inl e, inflight) \<Rightarrow>
               (Some e, q\<lparr>q_inflight := (q_inflight q)(sessionID := inflight)\<rparr>)
           | (Inr restored, inflight) \<Rightarrow>
               (let q' = q\<lparr>q_inflight := (q_inflight q)(sessionID := inflight)\<rparr>
                in if length restored + length current > MaxPendingMessages
                   then (Some PendingQueueFull, q')
                   else (None, set_messages sessionID (restored @ current) q')))"

text \<open>
  \<open>acknowledger\<close> is \<open>None\<close> when none is set, else the error of its call, if any.
\<close>

definition Acknowledge ::
  "string \<Rightarrow> (string \<Rightarrow> 'e option) option \<Rightarrow> Queue \<Rightarrow> 'e option \<times> Queue" where
  "Acknowledge messageID acknowledger q =
     (if blank messageID then (None, q)
      else case acknowledger of
        None \<Rightarrow> (None, q)
      | Some call \<Rightarrow>
          (case call messageID of
             Some e \<Rightarrow> (Some e, q)
           | None \<Rightarrow> (None, q\<lparr>q_inflight := (\<lambda>s. (q_inflight q s)(messageID := None))\<rparr>)))"

definition HasPending :: "string \<Rightarrow> Queue \<Rightarrow> bool" where
  "HasPending session q \<longleftrightarrow> 0 < length (q_messages q (TrimSpace session))"

definition HasImmediatePending :: "string \<Rightarrow> Queue \<Rightarrow> bool" where
  "HasImmediatePending session q \<longleftrightarrow>
     list_ex (\<lambda>x. pi_Trigger x = AgentMessageTrigger_text AgentMessageTriggerSteer)
       (q_messages q (TrimSpace session))"

section \<open>Invariant\<close>

definition item_ok :: "PendingTurnInputItem \<Rightarrow> bool" where
  "item_ok x \<longleftrightarrow> pi_Content x \<noteq> [] \<and> TrimSpace (pi_Content x) = pi_Content x
     \<and> RuneCount (pi_Content x) \<le> MaxPendingRunes"

definition queued_ids :: "PendingTurnInputItem list \<Rightarrow> string list" where
  "queued_ids xs = filter (\<lambda>i. i \<noteq> []) (map pi_ID xs)"

definition session_ok :: "PendingTurnInputItem list \<Rightarrow> PendingTurnInputItem gomap \<Rightarrow> bool" where
  "session_ok xs m \<longleftrightarrow>
     list_all item_ok xs \<and> distinct (queued_ids xs) \<and> length xs \<le> MaxPendingMessages
     \<and> set (queued_ids xs) \<inter> dom m = {} \<and> m [] = None
     \<and> (\<forall>i x. m i = Some x \<longrightarrow> pi_ID x = i \<and> item_ok x)"

definition queue_ok :: "Queue \<Rightarrow> bool" where
  "queue_ok q \<longleftrightarrow> (\<forall>s. session_ok (q_messages q s) (q_inflight q s))"

lemma samePendingItem_refl [simp]: "samePendingItem x x"
  by (simp add: samePendingItem_def)

lemma samePendingItem_ID: "samePendingItem x y \<Longrightarrow> pi_ID x = pi_ID y \<and> pi_Content x = pi_Content y"
  by (metis (no_types, lifting) samePendingItem_def PendingTurnInputItem.select_convs(1,2)
      PendingTurnInputItem.surjective PendingTurnInputItem.update_convs(11))

lemma findPendingItem_None: "i \<noteq> [] \<Longrightarrow> findPendingItem xs i = None \<longleftrightarrow> i \<notin> set (queued_ids xs)"
  by (auto simp: findPendingItem_def find_None_iff queued_ids_def)

lemma queue_ok_update:
  "queue_ok q \<Longrightarrow> session_ok xs m \<Longrightarrow>
     queue_ok (q\<lparr>q_messages := (q_messages q)(s := xs), q_inflight := (q_inflight q)(s := m)\<rparr>)"
  by (simp add: queue_ok_def)

lemma set_messages_sel [simp]:
  "q_messages (set_messages s xs q) = (q_messages q)(s := xs)"
  "q_inflight (set_messages s xs q) = q_inflight q"
  by (simp_all add: set_messages_def)

lemma enqueueItem_cases:
  assumes "enqueueItem session i content item q = Inr q'"
  obtains "q' = q"
  | x where "x = item\<lparr>pi_ID := i, pi_Content := TrimSpace content\<rparr>" "item_ok x"
      "q' = set_messages (TrimSpace session) (q_messages q (TrimSpace session) @ [x]) q"
      "length (q_messages q (TrimSpace session)) < MaxPendingMessages"
      "i = [] \<or> (i \<notin> set (queued_ids (q_messages q (TrimSpace session)))
                 \<and> q_inflight q (TrimSpace session) i = None)"
  using assms
  by (auto simp: enqueueItem_def Let_def item_ok_def findPendingItem_None not_le not_less
      split: if_splits option.splits)

lemma enqueueItem_ok:
  assumes "enqueueItem session i content item q = Inr q'" "queue_ok q"
  shows "queue_ok q'"
proof (rule enqueueItem_cases [OF assms(1)])
  fix x
  let ?s = "TrimSpace session"
  assume x: "x = item\<lparr>pi_ID := i, pi_Content := TrimSpace content\<rparr>" "item_ok x"
    "q' = set_messages ?s (q_messages q ?s @ [x]) q"
    "length (q_messages q ?s) < MaxPendingMessages"
    "i = [] \<or> (i \<notin> set (queued_ids (q_messages q ?s)) \<and> q_inflight q ?s i = None)"
  have "session_ok (q_messages q ?s @ [x]) (q_inflight q ?s)"
    using assms(2) x unfolding queue_ok_def
    by (auto simp: session_ok_def queued_ids_def dest: spec [of _ ?s])
  with assms(2) x show ?thesis by (simp add: queue_ok_def)
qed (use assms(2) in simp)

lemma claim_items_lookup:
  "distinct (queued_ids xs) \<Longrightarrow> claim_items xs m i =
     (if i \<in> set (queued_ids xs) then findPendingItem xs i else m i)"
proof (induction xs arbitrary: m)
  case (Cons x xs)
  then show ?case
    by (auto simp: claim_items_def queued_ids_def findPendingItem_def find_None_iff)
qed (simp add: claim_items_def queued_ids_def)

lemma findPendingItem_mem:
  "findPendingItem xs i = Some x \<Longrightarrow> x \<in> set xs \<and> pi_ID x = i"
  by (auto simp: findPendingItem_def find_Some_iff)

lemma findPendingItem_snoc:
  "findPendingItem (xs @ [x]) i = (case findPendingItem xs i of
     None \<Rightarrow> if pi_ID x = i then Some x else None | Some y \<Rightarrow> Some y)"
  by (induction xs) (auto simp: findPendingItem_def)

lemma findPendingItem_distinct:
  "distinct (queued_ids xs) \<Longrightarrow> x \<in> set xs \<Longrightarrow> pi_ID x \<noteq> [] \<Longrightarrow> findPendingItem xs (pi_ID x) = Some x"
  by (induction xs) (auto simp: findPendingItem_def queued_ids_def split: if_splits)

lemma DrainIdentified_ok: "queue_ok q \<Longrightarrow> queue_ok (snd (DrainIdentified s q))"
proof -
  assume ok: "queue_ok q"
  let ?s = "TrimSpace s"
  have s: "session_ok (q_messages q ?s) (q_inflight q ?s)" using ok by (simp add: queue_ok_def)
  then have d: "distinct (queued_ids (q_messages q ?s))" by (simp add: session_ok_def)
  have "session_ok [] (claim_items (q_messages q ?s) (q_inflight q ?s))"
    using s findPendingItem_mem [of "q_messages q ?s"]
    by (auto simp: session_ok_def queued_ids_def list_all_iff
        claim_items_lookup [OF d, unfolded queued_ids_def] split: if_splits)
  with ok show ?thesis by (simp add: DrainIdentified_def Let_def queue_ok_def)
qed

definition restorable :: "PendingTurnInputItem list \<Rightarrow> PendingTurnInputItem gomap \<Rightarrow> bool" where
  "restorable items m \<longleftrightarrow> list_all item_ok items \<and> distinct (queued_ids items)
     \<and> (\<forall>x \<in> set items. pi_ID x \<noteq> [] \<longrightarrow> m (pi_ID x) = Some x)"

lemma queued_ids_Cons [simp]:
  "queued_ids (x # xs) = (if pi_ID x \<noteq> [] then pi_ID x # queued_ids xs else queued_ids xs)"
  "queued_ids [] = []"
  by (simp_all add: queued_ids_def)

lemma in_queued_ids: "x \<in> set xs \<Longrightarrow> pi_ID x \<noteq> [] \<Longrightarrow> pi_ID x \<in> set (queued_ids xs)"
  by (simp add: queued_ids_def)

lemma restorable_Cons:
  assumes "restorable (x # xs) m" "pi_ID x \<noteq> []"
  shows "pi_ID x \<notin> set (queued_ids xs)" "m (pi_ID x) = Some x"
    "restorable xs (m(pi_ID x := None))"
proof -
  show n: "pi_ID x \<notin> set (queued_ids xs)" and "m (pi_ID x) = Some x"
    using assms by (simp_all add: restorable_def)
  have "pi_ID y \<noteq> pi_ID x" if "y \<in> set xs" "pi_ID y \<noteq> []" for y
    using in_queued_ids [OF that] n by auto
  with assms show "restorable xs (m(pi_ID x := None))" by (auto simp: restorable_def)
qed

lemma item_ok_trimmed: "item_ok x \<Longrightarrow> x\<lparr>pi_Content := TrimSpace (pi_Content x)\<rparr> = x"
  by (simp add: item_ok_def)

lemma requeue_loop_restorable:
  "\<lbrakk>restorable items m; set (queued_ids items) \<inter> set seen = {}; set (queued_ids current) \<subseteq> set seen\<rbrakk>
    \<Longrightarrow> requeue_loop current seen restored items m
        = (Inr (restored @ items), m |` (- set (queued_ids items)))"
proof (induction items arbitrary: seen restored m)
  case Nil
  then show ?case by (simp add: queued_ids_def restrict_map_def fun_eq_iff)
next
  case (Cons x xs)
  have x: "item_ok x" using Cons.prems(1) by (simp add: restorable_def)
  then have t: "x\<lparr>pi_Content := TrimSpace (pi_Content x)\<rparr> = x" "pi_Content x \<noteq> []"
    "\<not> RuneCount (pi_Content x) > MaxPendingRunes"
    by (auto simp: item_ok_trimmed item_ok_def)
  show ?case
  proof (cases "pi_ID x = []")
    case True
    with Cons.prems have "restorable xs m" "set (queued_ids xs) \<inter> set seen = {}"
      by (auto simp: restorable_def)
    from Cons.IH [OF this Cons.prems(3)] True t show ?thesis by simp
  next
    case False
    let ?m = "m(pi_ID x := None)"
    note fresh = restorable_Cons [OF Cons.prems(1) False]
    have unseen: "pi_ID x \<notin> set seen" "set (queued_ids xs) \<inter> set (pi_ID x # seen) = {}"
      "set (queued_ids current) \<subseteq> set (pi_ID x # seen)"
      using False Cons.prems(2,3) fresh(1) by auto
    note IH = Cons.IH [OF fresh(3) unseen(2,3), of "restored @ [x]"]
    have "findPendingItem current (pi_ID x) = None"
      using False unseen(1) Cons.prems(3) by (auto simp: findPendingItem_None)
    then have "requeue_loop current seen restored (x # xs) m
        = requeue_loop current (pi_ID x # seen) (restored @ [x]) xs ?m"
      using t False fresh(2) unseen(1) by simp
    also have "\<dots> = (Inr (restored @ x # xs), ?m |` (- set (queued_ids xs)))"
      by (simp only: IH append_assoc append_Cons append_Nil)
    also have "?m |` (- set (queued_ids xs)) = m |` (- set (queued_ids (x # xs)))"
    proof
      fix i
      show "(?m |` (- set (queued_ids xs))) i = (m |` (- set (queued_ids (x # xs)))) i"
        using False by (simp add: restrict_map_def)
    qed
    finally show ?thesis .
  qed
qed

text \<open>Enqueuing keeps the claims and the invariant.\<close>

datatype enqueue_op =
    EnqPlain string string
  | EnqIdentified string string string
  | EnqAgent string AgentMessage

fun enqueue_step :: "Queue \<Rightarrow> enqueue_op \<Rightarrow> Queue" where
  "enqueue_step q (EnqPlain s c) = (case Enqueue s c q of Inl _ \<Rightarrow> q | Inr q' \<Rightarrow> q')"
| "enqueue_step q (EnqIdentified s i c) = (case EnqueueIdentified s i c q of Inl _ \<Rightarrow> q | Inr q' \<Rightarrow> q')"
| "enqueue_step q (EnqAgent s m) = (case EnqueueAgentMessage s m q of Inl _ \<Rightarrow> q | Inr q' \<Rightarrow> q')"

lemma enqueue_variants:
  "Enqueue s c q = Inr q' \<Longrightarrow> \<exists>s i c x. enqueueItem s i c x q = Inr q'"
  "EnqueueIdentified s i c q = Inr q' \<Longrightarrow> \<exists>s i c x. enqueueItem s i c x q = Inr q'"
  "EnqueueAgentMessage s m q = Inr q' \<Longrightarrow> \<exists>s i c x. enqueueItem s i c x q = Inr q'"
  unfolding Enqueue_def EnqueueIdentified_def EnqueueAgentMessage_def Let_def
  by (metis Inl_Inr_False, metis Inl_Inr_False, cases "AgentMessage_Validate m") auto

lemma enqueue_step_cases:
  "enqueue_step q op = q \<or> (\<exists>s i c x. enqueueItem s i c x q = Inr (enqueue_step q op))"
proof (cases op)
  case (EnqPlain s c)
  then show ?thesis using enqueue_variants(1) [of s c q] by (auto split: sum.split)
next
  case (EnqIdentified s i c)
  then show ?thesis using enqueue_variants(2) [of s i c q] by (auto split: sum.split)
next
  case (EnqAgent s m)
  then show ?thesis using enqueue_variants(3) [of s m q] by (auto split: sum.split)
qed

lemma enqueueItem_inflight: "enqueueItem s i c x q = Inr q' \<Longrightarrow> q_inflight q' = q_inflight q"
  by (erule enqueueItem_cases) simp_all

lemma enqueue_step_ok:
  "queue_ok q \<and> q_inflight q = m \<Longrightarrow> queue_ok (enqueue_step q op) \<and> q_inflight (enqueue_step q op) = m"
  using enqueue_step_cases [of q op] by (auto dest: enqueueItem_ok enqueueItem_inflight)

interpretation enqueueing: op_machine enqueue_step "\<lambda>q. queue_ok q \<and> q_inflight q = m" for m
  by unfold_locales (rule enqueue_step_ok)

lemma requeue_after_drain:
  assumes ok: "queue_ok q" and s: "\<not> blank s" and drain: "DrainIdentified s q = (items, q1)"
    and q2: "q2 = run_ops enqueue_step q1 ops"
  shows "requeue_loop (q_messages q2 (TrimSpace s))
      (filter (\<lambda>i. i \<noteq> []) (map pi_ID (q_messages q2 (TrimSpace s)))) [] items
      (q_inflight q2 (TrimSpace s))
    = (Inr items, q_inflight q (TrimSpace s)) \<and> q_inflight q2 = q_inflight q1"
proof -
  let ?s = "TrimSpace s"
  have items: "items = q_messages q ?s" and m1: "q_inflight q1 ?s = claim_items items (q_inflight q ?s)"
    and q1: "queue_ok q1"
    using drain DrainIdentified_ok [OF ok, of s] by (auto simp: DrainIdentified_def Let_def)
  have ok2: "queue_ok q2 \<and> q_inflight q2 = q_inflight q1"
    unfolding q2 by (rule enqueueing.run_inv) (simp add: q1)
  have so: "session_ok items (q_inflight q ?s)" using ok items by (simp add: queue_ok_def)
  then have d: "distinct (queued_ids items)" by (simp add: session_ok_def)
  have r: "restorable items (q_inflight q2 ?s)"
    using so d ok2 by (auto simp: restorable_def session_ok_def m1 claim_items_lookup [OF d]
        findPendingItem_distinct queued_ids_def)
  have "session_ok (q_messages q2 ?s) (q_inflight q2 ?s)" using ok2 unfolding queue_ok_def by blast
  moreover have "set (queued_ids items) \<subseteq> dom (q_inflight q2 ?s)"
    using r by (auto simp: restorable_def queued_ids_def)
  ultimately have "set (queued_ids items) \<inter> set (queued_ids (q_messages q2 ?s)) = {}"
    unfolding session_ok_def by blast
  from requeue_loop_restorable [OF r this order_refl, of "[]"]
  have "requeue_loop (q_messages q2 ?s) (queued_ids (q_messages q2 ?s)) [] items (q_inflight q2 ?s)
      = (Inr items, q_inflight q2 ?s |` (- set (queued_ids items)))" by simp
  moreover have "q_inflight q2 ?s |` (- set (queued_ids items)) = q_inflight q ?s"
  proof
    fix i
    have "q_inflight q ?s i = None" if "i \<in> set (queued_ids items)"
      using so that unfolding session_ok_def by blast
    then show "(q_inflight q2 ?s |` (- set (queued_ids items))) i = q_inflight q ?s i"
      using so ok2 by (auto simp: restrict_map_def m1 claim_items_lookup [OF d] session_ok_def)
  qed
  ultimately show ?thesis using ok2 by (simp add: queued_ids_def)
qed

lemma requeue_drained:
  assumes "queue_ok q" "\<not> blank s" "DrainIdentified s q = (items, q1)"
    and "q2 = run_ops enqueue_step q1 ops" "items \<noteq> []"
  shows "RequeueIdentified s items q2 =
     (if length items + length (q_messages q2 (TrimSpace s)) > MaxPendingMessages
      then (Some PendingQueueFull, q2\<lparr>q_inflight := q_inflight q\<rparr>)
      else (None, q2\<lparr>q_inflight := q_inflight q,
              q_messages := (q_messages q2)(TrimSpace s := items @ q_messages q2 (TrimSpace s))\<rparr>))"
proof -
  let ?s = "TrimSpace s"
  note loop = requeue_after_drain [OF assms(1-4), THEN conjunct1]
    requeue_after_drain [OF assms(1-4), THEN conjunct2]
  have "q_inflight q1 = (q_inflight q)(?s := q_inflight q1 ?s)"
    using assms(3) by (auto simp: DrainIdentified_def Let_def)
  then have "(q_inflight q2)(?s := q_inflight q ?s) = q_inflight q"
    unfolding loop(2) by (metis fun_upd_triv fun_upd_upd)
  then show ?thesis
    using assms(2,5) unfolding RequeueIdentified_def Let_def loop(1) by (simp add: set_messages_def)
qed

section \<open>Properties\<close>


text \<open>
  When the queue has no room for the claimed messages any more, giving them back is refused
  after their claims were withdrawn: the identified ones are then neither queued nor in flight.
\<close>

theorem requeue_overflow_drops_claims:
  assumes "queue_ok q" "\<not> blank s" "DrainIdentified s q = (items, q1)"
    and "q2 = run_ops enqueue_step q1 ops"
    and "items \<noteq> []" "8 < length items + length (q_messages q2 (TrimSpace s))"
  shows "\<exists>q3. RequeueIdentified s items q2 = (Some PendingQueueFull, q3)
    \<and> q_messages q3 = q_messages q2
    \<and> (\<forall>x \<in> set items. q_inflight q3 (TrimSpace s) (pi_ID x) = None)"
proof -
  have "session_ok items (q_inflight q (TrimSpace s))"
    using assms(1,3) by (auto simp: queue_ok_def DrainIdentified_def Let_def)
  then have "\<forall>x \<in> set items. q_inflight q (TrimSpace s) (pi_ID x) = None"
    by (auto simp: session_ok_def queued_ids_def)
  with requeue_drained [OF assms(1-5)] assms(6) show ?thesis by (simp add: pending_limits)
qed

text \<open>
  Retrying an accepted message changes nothing, whether it is still queued or already claimed
  by the current turn, when its text was sent without surrounding white space.
\<close>

theorem pending_retry_idempotent:
  assumes ok: "queue_ok q" and first: "EnqueueIdentified s i c q = Inr q1" and trim: "TrimSpace c = c"
  shows "EnqueueIdentified s i c q1 = Inr q1
    \<and> EnqueueIdentified s i c (snd (DrainIdentified s q1)) = Inr (snd (DrainIdentified s q1))"
proof -
  let ?s = "TrimSpace s" and ?i = "TrimSpace i"
  from first have i: "?i \<noteq> []"
    and e: "enqueueItem s ?i c (plain_item ?i c) q = Inr q1"
    by (auto simp: EnqueueIdentified_def Let_def split: if_splits)
  have q1: "queue_ok q1" by (rule enqueueItem_ok [OF e ok])
  then have so: "session_ok (q_messages q1 ?s) (q_inflight q1 ?s)" by (simp add: queue_ok_def)
  have guards: "?s \<noteq> []" "TrimSpace c \<noteq> []" "\<not> RuneCount (TrimSpace c) > MaxPendingRunes"
    using e by (auto simp: enqueueItem_def Let_def split: if_splits)
  have held: "(\<exists>x. findPendingItem (q_messages q1 ?s) ?i = Some x \<and> samePendingItem x (plain_item ?i c))
      \<or> findPendingItem (q_messages q1 ?s) ?i = None
        \<and> (\<exists>x. q_inflight q1 ?s ?i = Some x \<and> samePendingItem x (plain_item ?i c))"
  proof (rule enqueueItem_cases [OF e])
    assume "q1 = q"
    with e i guards show ?thesis
      by (auto simp: enqueueItem_def Let_def set_messages_def split: if_splits option.splits
          dest: arg_cong [of _ _ "\<lambda>q. length (q_messages q (TrimSpace s))"])
  next
    fix x
    assume x: "x = plain_item ?i c\<lparr>pi_ID := ?i, pi_Content := TrimSpace c\<rparr>"
      "q1 = set_messages ?s (q_messages q ?s @ [x]) q"
      "?i = [] \<or> ?i \<notin> set (queued_ids (q_messages q ?s)) \<and> q_inflight q ?s ?i = None"
    have "x = plain_item ?i c" by (simp add: x(1) trim) (simp add: plain_item_def)
    moreover from this have "pi_ID x = ?i" by (simp add: plain_item_def)
    moreover have "findPendingItem (q_messages q ?s) ?i = None"
      using x(3) i by (auto simp: findPendingItem_None)
    ultimately show ?thesis
      using x(2) by (simp add: findPendingItem_snoc)
  qed
  have again: "EnqueueIdentified s i c q1 = Inr q1"
    using held guards i by (auto simp: EnqueueIdentified_def enqueueItem_def Let_def)
  have d: "distinct (queued_ids (q_messages q1 ?s))" using so by (simp add: session_ok_def)
  have "EnqueueIdentified s i c (snd (DrainIdentified s q1)) = Inr (snd (DrainIdentified s q1))"
    using held guards i
    by (auto simp: EnqueueIdentified_def enqueueItem_def Let_def DrainIdentified_def
        claim_items_lookup [OF d] findPendingItem_None findPendingItem_def [of "[]"]
        dest: findPendingItem_None [OF i, THEN iffD2])
  with again show ?thesis by simp
qed

text \<open>
  Retrying the very same request is refused as a conflict when its text has white space
  around it: the queue stores the trimmed text but compares it with the text of the retry.
\<close>

theorem padded_retry_conflicts:
  assumes first: "EnqueueIdentified s i c q = Inr q1" and padded: "TrimSpace c \<noteq> c"
    and new: "findPendingItem (q_messages q (TrimSpace s)) (TrimSpace i) = None"
      "q_inflight q (TrimSpace s) (TrimSpace i) = None"
  shows "EnqueueIdentified s i c q1 = Inl PendingIDReused
    \<and> (\<exists>x \<in> set (q_messages q1 (TrimSpace s)). pi_ID x = TrimSpace i \<and> pi_Content x = TrimSpace c)"
proof -
  let ?s = "TrimSpace s" and ?i = "TrimSpace i"
  let ?x = "plain_item ?i c\<lparr>pi_ID := ?i, pi_Content := TrimSpace c\<rparr>"
  from first have guards: "?i \<noteq> []" "?s \<noteq> []" "TrimSpace c \<noteq> []"
    "\<not> RuneCount (TrimSpace c) > MaxPendingRunes"
    and q1: "q1 = set_messages ?s (q_messages q ?s @ [?x]) q"
    by (auto simp: EnqueueIdentified_def enqueueItem_def Let_def new split: if_splits)
  have x: "pi_ID ?x = ?i" "pi_Content ?x = TrimSpace c" "\<not> samePendingItem ?x (plain_item ?i c)"
    using padded by (auto simp: samePendingItem_def plain_item_def)
  have "findPendingItem (q_messages q1 ?s) ?i = Some ?x"
    by (simp add: q1 findPendingItem_snoc new x(1))
  with guards x(3) have "EnqueueIdentified s i c q1 = Inl PendingIDReused"
    by (simp add: EnqueueIdentified_def enqueueItem_def Let_def)
  moreover have "?x \<in> set (q_messages q1 ?s)" by (simp add: q1)
  ultimately show ?thesis using x(1,2) by blast
qed

section \<open>Witnesses\<close>

definition sample_queue :: "string \<Rightarrow> Queue" where
  "sample_queue ids = set_messages ''s'' (map (\<lambda>c. plain_item [c] ''x'') ids) NewQueue"

lemma queued_ids_sample: "queued_ids (map (\<lambda>c. plain_item [c] t) ids) = map (\<lambda>c. [c]) ids"
  by (induction ids) (simp_all add: plain_item_def)

lemma sample_queue_ok: "distinct ids \<Longrightarrow> length ids \<le> 8 \<Longrightarrow> queue_ok (sample_queue ids)"
  by (auto simp: queue_ok_def session_ok_def sample_queue_def NewQueue_def queued_ids_sample
      pending_limits list_all_iff item_ok_def distinct_map inj_on_def)
    (simp_all add: plain_item_def visible_eval)

lemma sample_drain:
  "\<exists>q1. DrainIdentified ''s'' (sample_queue ids) = (map (\<lambda>c. plain_item [c] ''x'') ids, q1)
     \<and> q_messages q1 = (\<lambda>_. []) \<and> q_inflight q1 ''s'' ''new'' = None"
proof -
  have "claim_items (map (\<lambda>c. plain_item [c] ''x'') ids) m ''new'' = m ''new''" for m
    by (induction ids arbitrary: m) (simp_all add: claim_items_def plain_item_def)
  then show ?thesis
    by (auto simp: DrainIdentified_def Let_def sample_queue_def NewQueue_def visible_eval fun_eq_iff)
qed


theorem requeue_overflow_drops_claims_witness:
  "\<exists>q1 q3. DrainIdentified ''s'' (sample_queue ''abcdefgh'')
        = (map (\<lambda>c. plain_item [c] ''x'') ''abcdefgh'', q1)
     \<and> RequeueIdentified ''s'' (map (\<lambda>c. plain_item [c] ''x'') ''abcdefgh'')
         (run_ops enqueue_step q1 [EnqIdentified ''s'' ''new'' ''y'']) = (Some PendingQueueFull, q3)"
proof -
  let ?items = "map (\<lambda>c. plain_item [c] ''x'') ''abcdefgh''"
  have ok: "queue_ok (sample_queue ''abcdefgh'')" by (simp add: sample_queue_ok)
  obtain q1 where d: "DrainIdentified ''s'' (sample_queue ''abcdefgh'') = (?items, q1)"
    "q_messages q1 = (\<lambda>_. [])" "q_inflight q1 ''s'' ''new'' = None"
    using sample_drain [of "''abcdefgh''"] by metis
  have b: "\<not> blank ''s''" by (simp add: visible_eval)
  have one: "length (q_messages (run_ops enqueue_step q1 [EnqIdentified ''s'' ''new'' ''y'']) (TrimSpace ''s'')) = 1"
    by (simp add: EnqueueIdentified_def enqueueItem_def Let_def visible_eval d findPendingItem_def
        pending_limits)
  have "8 < length ?items + length (q_messages (run_ops enqueue_step q1
      [EnqIdentified ''s'' ''new'' ''y'']) (TrimSpace ''s''))" unfolding one by simp
  from requeue_overflow_drops_claims [OF ok b d(1) refl _ this] d(1) show ?thesis by auto
qed

theorem pending_retry_idempotent_witness:
  "\<exists>q1. EnqueueIdentified ''s'' ''m'' ''hi'' NewQueue = Inr q1
     \<and> EnqueueIdentified ''s'' ''m'' ''hi'' q1 = Inr q1"
proof -
  have ok: "queue_ok NewQueue" by (simp add: queue_ok_def session_ok_def NewQueue_def)
  have "\<exists>q1. EnqueueIdentified ''s'' ''m'' ''hi'' NewQueue = Inr q1"
    by (simp add: EnqueueIdentified_def enqueueItem_def Let_def NewQueue_def findPendingItem_def
        pending_limits visible_eval)
  then obtain q1 where e: "EnqueueIdentified ''s'' ''m'' ''hi'' NewQueue = Inr q1" ..
  have "TrimSpace ''hi'' = ''hi''" by (simp add: visible_eval)
  from pending_retry_idempotent [OF ok e this] e show ?thesis by blast
qed

theorem padded_retry_conflicts_witness:
  "\<exists>q1. EnqueueIdentified ''s'' ''m'' ''hi '' NewQueue = Inr q1
     \<and> EnqueueIdentified ''s'' ''m'' ''hi '' q1 = Inl PendingIDReused"
proof -
  have t: "TrimSpace ''hi '' = ''hi''"
    by (simp add: TrimSpace_def runes_ascii byte_def trim_list_def IsSpace_def rune_value_def)
  have "\<exists>q1. EnqueueIdentified ''s'' ''m'' ''hi '' NewQueue = Inr q1"
    by (simp add: EnqueueIdentified_def enqueueItem_def Let_def NewQueue_def findPendingItem_def
        pending_limits t visible_eval)
  then obtain q1 where e: "EnqueueIdentified ''s'' ''m'' ''hi '' NewQueue = Inr q1" ..
  from padded_retry_conflicts [OF e] t e show ?thesis
    by (simp add: NewQueue_def findPendingItem_def)
qed

end
