(* ===== verification/SessionQueue.thy ===== *)
theory SessionQueue
  imports GoStrings "HOL-Library.Sublist" "HOL-Library.Multiset"
begin

text \<open>
  \<open>core/adapter/chat/generation/session_queue.go\<close>: persistence tasks of one session run one after
  the other on a shared worker pool. The pool is behind an interface: a call of its \<open>Submit\<close> may
  succeed or fail. \<open>Submit\<close> gives up the mutex before that call, so it is two steps, and between
  them anything may happen. A task is a number, a queue object is an address, and a goroutine is
  its session, its queue object and the task it runs. \<open>runTask\<close> recovers from a panic, so running
  a task is one step that always ends. What was submitted and what ran is recorded in order.
\<close>

record sessionTaskQueue =
  stq_running :: bool
  stq_tasks :: "nat list"

record SessionQueueState =
  sq_queues :: "string \<Rightarrow> nat option"
  sq_heap :: "nat \<Rightarrow> sessionTaskQueue"
  sq_next :: nat
  sq_starting :: "(string \<times> nat \<times> nat) list"
  sq_draining :: "(string \<times> nat \<times> nat option) list"
  sq_submitted :: "(string \<times> nat) list"
  sq_accepted :: "(string \<times> nat) list"
  sq_executed :: "(string \<times> nat) list"

definition NewSessionQueue :: SessionQueueState where
  "NewSessionQueue = \<lparr>sq_queues = Map.empty, sq_heap = (\<lambda>_. \<lparr>stq_running = False, stq_tasks = []\<rparr>),
     sq_next = 0, sq_starting = [], sq_draining = [], sq_submitted = [], sq_accepted = [],
     sq_executed = []\<rparr>"

text \<open>
  The first critical section of \<open>Submit\<close>, for a trimmed session that is not empty: find or make
  the queue object, append the task, and start draining unless it is running.
\<close>

definition locate_queue :: "string \<Rightarrow> SessionQueueState \<Rightarrow> nat \<times> SessionQueueState" where
  "locate_queue sessionID q =
     (case sq_queues q sessionID of
        Some a \<Rightarrow> (a, q)
      | None \<Rightarrow>
          (sq_next q, q\<lparr>sq_next := sq_next q + 1,
             sq_heap := (sq_heap q)(sq_next q := \<lparr>stq_running = False, stq_tasks = []\<rparr>),
             sq_queues := (sq_queues q)(sessionID \<mapsto> sq_next q)\<rparr>))"

definition submit_enter :: "string \<Rightarrow> nat \<Rightarrow> SessionQueueState \<Rightarrow> SessionQueueState" where
  "submit_enter sessionID task q0 =
     (case locate_queue sessionID q0 of
        (a, q) \<Rightarrow>
          (let queue = sq_heap q a;
               q1 = q\<lparr>sq_heap := (sq_heap q)(a :=
                      \<lparr>stq_running = True, stq_tasks = stq_tasks queue @ [task]\<rparr>),
                      sq_submitted := sq_submitted q @ [(sessionID, task)]\<rparr>
           in if stq_running queue
              then q1\<lparr>sq_accepted := sq_accepted q1 @ [(sessionID, task)]\<rparr>
              else q1\<lparr>sq_starting := sq_starting q1 @ [(sessionID, a, task)]\<rparr>))"

text \<open>The second critical section, after the pool refused.\<close>

definition submit_refused :: "string \<Rightarrow> nat \<Rightarrow> SessionQueueState \<Rightarrow> SessionQueueState" where
  "submit_refused sessionID a q =
     (if sq_queues q sessionID = Some a
      then q\<lparr>sq_queues := (sq_queues q)(sessionID := None),
             sq_heap := (sq_heap q)(a := \<lparr>stq_running = False, stq_tasks = []\<rparr>)\<rparr>
      else q)"

text \<open>
  The steps; \<open>ok\<close> tells whether the pool accepts, so that executions with a pool that never
  refuses can be told apart.
\<close>

inductive sq_step :: "bool \<Rightarrow> SessionQueueState \<Rightarrow> SessionQueueState \<Rightarrow> bool" where
  submit: "sessionID \<noteq> [] \<Longrightarrow> sq_step ok q (submit_enter sessionID task q)"
| accepted: "sq_starting q = as @ (s, a, t) # bs \<Longrightarrow>
     sq_step ok q (q\<lparr>sq_starting := as @ bs, sq_draining := sq_draining q @ [(s, a, None)],
                     sq_accepted := sq_accepted q @ [(s, t)]\<rparr>)"
| refused: "sq_starting q = as @ (s, a, t) # bs \<Longrightarrow>
     sq_step False q (submit_refused s a (q\<lparr>sq_starting := as @ bs\<rparr>))"
| drain_take: "\<lbrakk>sq_draining q = as @ (s, a, None) # bs; sq_queues q s = Some a;
      stq_tasks (sq_heap q a) = t # ts\<rbrakk> \<Longrightarrow>
     sq_step ok q (q\<lparr>sq_heap := (sq_heap q)(a := (sq_heap q a)\<lparr>stq_tasks := ts\<rparr>),
                     sq_draining := as @ (s, a, Some t) # bs\<rparr>)"
| drain_run: "sq_draining q = as @ (s, a, Some t) # bs \<Longrightarrow>
     sq_step ok q (q\<lparr>sq_draining := as @ (s, a, None) # bs,
                     sq_executed := sq_executed q @ [(s, t)]\<rparr>)"
| drain_exit: "\<lbrakk>sq_draining q = as @ (s, a, None) # bs;
      sq_queues q s \<noteq> Some a \<or> stq_tasks (sq_heap q a) = []\<rbrakk> \<Longrightarrow>
     sq_step ok q (q\<lparr>sq_draining := as @ bs,
        sq_queues := (if sq_queues q s = Some a then (sq_queues q)(s := None) else sq_queues q),
        sq_heap := (sq_heap q)(a := (sq_heap q a)\<lparr>stq_running := False\<rparr>)\<rparr>)"

inductive sq_reach :: "bool \<Rightarrow> SessionQueueState \<Rightarrow> bool" for ok where
  start: "sq_reach ok NewSessionQueue"
| step: "sq_reach ok q \<Longrightarrow> sq_step ok q q' \<Longrightarrow> sq_reach ok q'"

section \<open>Invariant\<close>

definition owners :: "SessionQueueState \<Rightarrow> (string \<times> nat) list" where
  "owners q = map (\<lambda>(s, a, t). (s, a)) (sq_starting q) @ map (\<lambda>(s, a, t). (s, a)) (sq_draining q)"

definition of_session :: "string \<Rightarrow> (string \<times> nat) list \<Rightarrow> nat list" where
  "of_session s xs = map snd (filter (\<lambda>(s', t). s' = s) xs)"

definition in_progress :: "string \<Rightarrow> SessionQueueState \<Rightarrow> nat list" where
  "in_progress s q = List.map_filter (\<lambda>(s', a, t). if s' = s then t else None) (sq_draining q)"

definition queued :: "string \<Rightarrow> SessionQueueState \<Rightarrow> nat list" where
  "queued s q = (case sq_queues q s of None \<Rightarrow> [] | Some a \<Rightarrow> stq_tasks (sq_heap q a))"

text \<open>
  Each session has at most one goroutine that starts or drains its queue object, and the map
  holds exactly these objects, all running and all different.
\<close>

definition owner_ok ::
  "(string \<times> nat) list \<Rightarrow> (string \<Rightarrow> nat option) \<Rightarrow> (nat \<Rightarrow> sessionTaskQueue) \<Rightarrow> nat \<Rightarrow> bool" where
  "owner_ok own queues heap n \<longleftrightarrow>
     distinct (map fst own) \<and> distinct (map snd own)
     \<and> (\<forall>s a. queues s = Some a \<longleftrightarrow> (s, a) \<in> set own)
     \<and> (\<forall>(s, a) \<in> set own. stq_running (heap a) \<and> a < n)"

definition sq_ok :: "SessionQueueState \<Rightarrow> bool" where
  "sq_ok q \<longleftrightarrow> owner_ok (owners q) (sq_queues q) (sq_heap q) (sq_next q)"

lemma owner_okI:
  assumes "distinct (map fst own)" "distinct (map snd own)"
    and "\<And>s a. queues s = Some a \<longleftrightarrow> (s, a) \<in> set own"
    and "\<And>s a. (s, a) \<in> set own \<Longrightarrow> stq_running (heap a) \<and> a < n"
  shows "owner_ok own queues heap n"
  using assms by (auto simp: owner_ok_def)

lemma owner_okD:
  assumes "owner_ok own queues heap n"
  shows "queues s = Some a \<longleftrightarrow> (s, a) \<in> set own"
    and "(s, a) \<in> set own \<Longrightarrow> stq_running (heap a) \<and> a < n"
    and "distinct (map fst own)" "distinct (map snd own)"
  using assms unfolding owner_ok_def by blast+

lemma owner_add:
  assumes ok: "owner_ok (xs @ ys) queues heap n" and new: "queues s = None" and v: "stq_running v"
  shows "owner_ok (xs @ (s, n) # ys) (queues(s \<mapsto> n)) (heap(n := v)) (n + 1)"
proof -
  note d = owner_okD [OF ok]
  have s: "(s, a) \<notin> set (xs @ ys)" for a using new d(1) [of s a] by auto
  have n: "(s', n) \<notin> set (xs @ ys)" for s' using d(2) [of s' n] by auto
  show ?thesis
  proof (rule owner_okI)
    show "distinct (map fst (xs @ (s, n) # ys))" using d(3) s by auto
    show "distinct (map snd (xs @ (s, n) # ys))" using d(4) n by auto
    fix s' a
    have "set (xs @ (s, n) # ys) = insert (s, n) (set (xs @ ys))" by auto
    note set = this
    show "(queues(s \<mapsto> n)) s' = Some a \<longleftrightarrow> (s', a) \<in> set (xs @ (s, n) # ys)"
      unfolding set using d(1) [of s' a] s [of a] by auto
    show "stq_running ((heap(n := v)) a) \<and> a < n + 1" if "(s', a) \<in> set (xs @ (s, n) # ys)"
      using that unfolding set using d(2) [of s' a] v by auto
  qed
qed

lemma owner_remove:
  assumes ok: "owner_ok (xs @ (s, a) # ys) queues heap n"
  shows "owner_ok (xs @ ys) (queues(s := None)) (heap(a := v)) n" "queues s = Some a"
proof -
  note d = owner_okD [OF ok]
  have set: "set (xs @ (s, a) # ys) = insert (s, a) (set (xs @ ys))" by auto
  have s: "(s, b) \<notin> set (xs @ ys)" for b using d(3) by (force simp: image_iff)
  have a: "(s', a) \<notin> set (xs @ ys)" for s' using d(4) by (force simp: image_iff)
  show "owner_ok (xs @ ys) (queues(s := None)) (heap(a := v)) n"
  proof (rule owner_okI)
    show "distinct (map fst (xs @ ys))" "distinct (map snd (xs @ ys))" using d(3,4) by auto
    fix s' b
    show "(queues(s := None)) s' = Some b \<longleftrightarrow> (s', b) \<in> set (xs @ ys)"
      using d(1) [of s' b] s [of b] unfolding set by auto
    show "stq_running ((heap(a := v)) b) \<and> b < n" if "(s', b) \<in> set (xs @ ys)"
      using that d(2) [of s' b] a [of s'] unfolding set by auto
  qed
  show "queues s = Some a" using d(1) by simp
qed

lemma owner_heap:
  assumes ok: "owner_ok own queues heap n" and v: "stq_running v"
  shows "owner_ok own queues (heap(a := v)) n"
  by (rule owner_okI) (use owner_okD [OF ok] v in auto)

lemma owner_perm:
  assumes ok: "owner_ok own queues heap n" and m: "mset own' = mset own"
  shows "owner_ok own' queues heap n"
proof -
  have "distinct (map fst own') = distinct (map fst own)" "distinct (map snd own') = distinct (map snd own)"
    by (rule mset_eq_imp_distinct_iff, simp add: m)+
  with owner_okD [OF ok] mset_eq_setD [OF m] show ?thesis
    by (intro owner_okI) auto
qed

lemma of_session_simps [simp]:
  "of_session s (xs @ ys) = of_session s xs @ of_session s ys"
  "of_session s [(s', t)] = (if s' = s then [t] else [])"
  "of_session s [] = []"
  by (simp_all add: of_session_def)

lemma submit_enter_cases:
  assumes ok: "sq_ok q"
  obtains (fresh) "sq_queues q s = None"
      "submit_enter s t q = q\<lparr>sq_next := sq_next q + 1,
         sq_heap := (sq_heap q)(sq_next q := \<lparr>stq_running = True, stq_tasks = [t]\<rparr>),
         sq_queues := (sq_queues q)(s \<mapsto> sq_next q), sq_submitted := sq_submitted q @ [(s, t)],
         sq_starting := sq_starting q @ [(s, sq_next q, t)]\<rparr>"
  | (join) a where "sq_queues q s = Some a" "stq_running (sq_heap q a)"
      "submit_enter s t q = q\<lparr>
         sq_heap := (sq_heap q)(a := \<lparr>stq_running = True, stq_tasks = stq_tasks (sq_heap q a) @ [t]\<rparr>),
         sq_submitted := sq_submitted q @ [(s, t)], sq_accepted := sq_accepted q @ [(s, t)]\<rparr>"
proof (cases "sq_queues q s")
  case None
  then show ?thesis
    by (intro fresh) (simp_all add: submit_enter_def locate_queue_def Let_def)
next
  case (Some a)
  with ok have "stq_running (sq_heap q a)" unfolding sq_ok_def by (metis owner_okD(1,2))
  with Some show ?thesis
    by (intro join [of a]) (simp_all add: submit_enter_def locate_queue_def Let_def)
qed

lemma sq_ok_submit:
  assumes ok: "sq_ok q"
  shows "sq_ok (submit_enter s t q)"
  using ok
proof (cases rule: submit_enter_cases [of q s t])
  case fresh
  with ok show ?thesis
    using owner_add [of "map (\<lambda>(s, a, t). (s, a)) (sq_starting q)"
        "map (\<lambda>(s, a, t). (s, a)) (sq_draining q)" "sq_queues q" "sq_heap q" "sq_next q" s]
    by (simp add: sq_ok_def owners_def)
next
  case (join a)
  with ok show ?thesis by (simp add: sq_ok_def owners_def owner_heap)
qed

lemma sq_ok_step: "sq_step pool q q' \<Longrightarrow> sq_ok q \<Longrightarrow> sq_ok q'"
proof (induction rule: sq_step.induct)
  case (submit s q t)
  then show ?case by (simp add: sq_ok_submit)
next
  case (accepted q as s a t bs)
  then show ?case
    by (auto simp: sq_ok_def owners_def elim!: owner_perm)
next
  case (refused q as s a t bs)
  from refused owner_remove [of "map (\<lambda>(s, a, t). (s, a)) as" s a
      "map (\<lambda>(s, a, t). (s, a)) bs @ map (\<lambda>(s, a, t). (s, a)) (sq_draining q)"
      "sq_queues q" "sq_heap q" "sq_next q"]
  show ?case by (simp add: sq_ok_def owners_def submit_refused_def)
next
  case (drain_take q as s a bs t ts)
  then have "stq_running (sq_heap q a)" unfolding sq_ok_def by (metis owner_okD(1,2))
  with drain_take show ?case by (simp add: sq_ok_def owners_def owner_heap)
next
  case (drain_run q as s a t bs)
  then show ?case by (simp add: sq_ok_def owners_def)
next
  case (drain_exit q as s a bs)
  from drain_exit owner_remove [of "map (\<lambda>(s, a, t). (s, a)) (sq_starting q) @ map (\<lambda>(s, a, t). (s, a)) as" s a
      "map (\<lambda>(s, a, t). (s, a)) bs" "sq_queues q" "sq_heap q" "sq_next q"]
  show ?case by (simp add: sq_ok_def owners_def)
qed

lemma sq_ok_New: "sq_ok NewSessionQueue"
  by (simp add: sq_ok_def owner_ok_def owners_def NewSessionQueue_def)

lemma sq_ok_reach: "sq_reach pool q \<Longrightarrow> sq_ok q"
  by (induction rule: sq_reach.induct) (simp_all add: sq_ok_step sq_ok_New)

section \<open>Order\<close>

text \<open>
  What ran, what runs and what is queued, in this order, is what was submitted, in the order of
  submission, with tasks missing only where the pool refused; with a pool that accepts, none is.
\<close>

definition pipeline :: "string \<Rightarrow> SessionQueueState \<Rightarrow> nat list" where
  "pipeline s q = of_session s (sq_executed q) @ in_progress s q @ queued s q"

definition ordered :: "bool \<Rightarrow> SessionQueueState \<Rightarrow> bool" where
  "ordered pool q \<longleftrightarrow>
     (\<forall>s. subseq (pipeline s q) (of_session s (sq_submitted q))
        \<and> (pool \<longrightarrow> pipeline s q = of_session s (sq_submitted q)))"

lemma in_progress_simps [simp]:
  "in_progress s (q\<lparr>sq_draining := xs @ ys\<rparr>) =
     in_progress s (q\<lparr>sq_draining := xs\<rparr>) @ in_progress s (q\<lparr>sq_draining := ys\<rparr>)"
  "in_progress s (q\<lparr>sq_draining := (s', a, x) # ys\<rparr>) =
     (case x of Some t \<Rightarrow> if s' = s then [t] else [] | None \<Rightarrow> []) @ in_progress s (q\<lparr>sq_draining := ys\<rparr>)"
  "in_progress s (q\<lparr>sq_draining := []\<rparr>) = []"
  by (simp_all add: in_progress_def List.map_filter_def split: option.split)

lemma in_progress_draining: "in_progress s q = in_progress s (q'\<lparr>sq_draining := sq_draining q\<rparr>)"
  by (simp add: in_progress_def)

lemma owners_fst: "map fst (owners q) = map fst (sq_starting q) @ map fst (sq_draining q)"
  by (simp add: owners_def comp_def case_prod_beta)

lemma owners_once:
  assumes "sq_ok q"
  shows "distinct (map fst (sq_starting q) @ map fst (sq_draining q))"
  using assms owner_okD(3) unfolding sq_ok_def owners_fst [symmetric] by blast

lemma in_progress_none:
  "s \<notin> set (map fst xs) \<Longrightarrow> in_progress s (q\<lparr>sq_draining := xs\<rparr>) = []"
proof (induction xs)
  case (Cons x xs)
  then show ?case by (cases x) (auto split: option.split)
qed simp

lemma others_idle:
  assumes "sq_ok q" "sq_draining q = as @ (s, a, x) # bs"
  shows "in_progress s (q\<lparr>sq_draining := as\<rparr>) = []" "in_progress s (q\<lparr>sq_draining := bs\<rparr>) = []"
  using owners_once [OF assms(1)] assms(2) by (simp_all add: in_progress_none)

lemma starting_idle:
  assumes ok: "sq_ok q" and st: "sq_starting q = as @ (s, a, t) # bs"
  shows "in_progress s q = []"
proof -
  have "s \<notin> set (map fst (sq_draining q))" using owners_once [OF ok] st by auto
  then show ?thesis using in_progress_none [of s "sq_draining q" q] by simp
qed

lemma owner_queue:
  assumes "sq_ok q" "(s, a) \<in> set (owners q)"
  shows "sq_queues q s = Some a"
  using assms unfolding sq_ok_def by (simp add: owner_okD(1))

lemma queue_unique:
  assumes ok: "sq_ok q" and a: "sq_queues q s = Some a" "sq_queues q s' = Some a"
  shows "s = s'"
proof -
  from ok have o: "owner_ok (owners q) (sq_queues q) (sq_heap q) (sq_next q)" by (simp add: sq_ok_def)
  from owner_okD(1) [OF o] a have "(s, a) \<in> set (owners q)" "(s', a) \<in> set (owners q)" by auto
  with owner_okD(4) [OF o] show ?thesis
    by (metis distinct_map inj_onD prod.sel(2) Pair_inject)
qed

lemma pipeline_frame:
  assumes "of_session s (sq_executed q') = of_session s (sq_executed q)"
    and "in_progress s q' = in_progress s q" "queued s q' = queued s q"
  shows "pipeline s q' = pipeline s q"
  using assms by (simp add: pipeline_def)

lemma queued_other:
  assumes ok: "sq_ok q" and a: "sq_queues q s = Some a" and s': "s' \<noteq> s"
  shows "queued s' (q\<lparr>sq_heap := (sq_heap q)(a := v)\<rparr>) = queued s' q"
  using queue_unique [OF ok a, of s'] s' by (auto simp: queued_def split: option.split)

lemma pipeline_submit:
  assumes ok: "sq_ok q"
  shows "pipeline s' (submit_enter s t q) = pipeline s' q @ (if s' = s then [t] else [])"
    "of_session s' (sq_submitted (submit_enter s t q))
       = of_session s' (sq_submitted q) @ (if s' = s then [t] else [])"
proof -
  have "pipeline s' (submit_enter s t q) = pipeline s' q @ (if s' = s then [t] else [])
    \<and> of_session s' (sq_submitted (submit_enter s t q))
       = of_session s' (sq_submitted q) @ (if s' = s then [t] else [])"
    using ok
  proof (cases rule: submit_enter_cases [of q s t])
    case fresh
    have "b \<noteq> sq_next q" if "sq_queues q s' = Some b" for b
      using ok that unfolding sq_ok_def by (metis owner_okD(1,2) less_irrefl)
    with fresh show ?thesis
      by (auto simp: pipeline_def in_progress_def queued_def split: option.split)
  next
    case (join a)
    show ?thesis
    proof (cases "s' = s")
      case True
      with join(1,3) show ?thesis by (simp add: pipeline_def in_progress_def queued_def)
    next
      case False
      with queue_unique [OF ok join(1), of s'] have "sq_queues q s' \<noteq> Some a" by blast
      with False join(3) show ?thesis
        by (auto simp: pipeline_def in_progress_def queued_def split: option.split)
    qed
  qed
  then show "pipeline s' (submit_enter s t q) = pipeline s' q @ (if s' = s then [t] else [])"
    "of_session s' (sq_submitted (submit_enter s t q))
       = of_session s' (sq_submitted q) @ (if s' = s then [t] else [])" by blast+
qed

lemma pipeline_draining:
  assumes ok: "sq_ok q" and dr: "sq_draining q = as @ (s, a, x) # bs"
  shows "pipeline s q = of_session s (sq_executed q) @ (case x of Some t \<Rightarrow> [t] | None \<Rightarrow> []) @ stq_tasks (sq_heap q a)"
    "sq_queues q s = Some a"
proof -
  show a: "sq_queues q s = Some a" by (rule owner_queue [OF ok]) (force simp: owners_def dr)
  have "in_progress s q = in_progress s (q\<lparr>sq_draining := as @ (s, a, x) # bs\<rparr>)"
    using in_progress_draining [of s q q] dr by simp
  then have "in_progress s q = (case x of Some t \<Rightarrow> [t] | None \<Rightarrow> [])"
    using others_idle [OF ok dr] by (simp split: option.split)
  then show "pipeline s q = of_session s (sq_executed q) @ (case x of Some t \<Rightarrow> [t] | None \<Rightarrow> []) @ stq_tasks (sq_heap q a)"
    by (simp add: pipeline_def queued_def a)
qed

lemma in_progress_other:
  "s' \<noteq> s \<Longrightarrow> sq_draining q = as @ (s, a, x) # bs \<Longrightarrow>
     in_progress s' (q'\<lparr>sq_draining := as @ (s, a, y) # bs\<rparr>) = in_progress s' q"
  "s' \<noteq> s \<Longrightarrow> sq_draining q = as @ (s, a, x) # bs \<Longrightarrow>
     in_progress s' (q'\<lparr>sq_draining := as @ bs\<rparr>) = in_progress s' q"
proof -
  assume s': "s' \<noteq> s" and dr: "sq_draining q = as @ (s, a, x) # bs"
  have "in_progress s' q = in_progress s' (q'\<lparr>sq_draining := as @ (s, a, x) # bs\<rparr>)"
    unfolding dr [symmetric] by (rule in_progress_draining)
  then show "in_progress s' (q'\<lparr>sq_draining := as @ (s, a, y) # bs\<rparr>) = in_progress s' q"
    "in_progress s' (q'\<lparr>sq_draining := as @ bs\<rparr>) = in_progress s' q"
    using s' by (auto split: option.split)
qed

lemma sq_step_pipeline:
  assumes step: "sq_step pool q q'" and ok: "sq_ok q"
  shows "(\<exists>t s. q' = submit_enter s t q)
    \<or> (sq_submitted q' = sq_submitted q \<and> (\<forall>s. pipeline s q' = pipeline s q))
    \<or> (\<not> pool \<and> sq_submitted q' = sq_submitted q \<and> (\<forall>s. subseq (pipeline s q') (pipeline s q)))"
  using step ok
proof (induction rule: sq_step.induct)
  case (submit s q t)
  then show ?case by blast
next
  case (accepted q as s a t bs)
  have "pipeline s' (q\<lparr>sq_starting := as @ bs, sq_draining := sq_draining q @ [(s, a, None)],
      sq_accepted := sq_accepted q @ [(s, t)]\<rparr>) = pipeline s' q" for s'
    by (rule pipeline_frame) (simp_all add: in_progress_def queued_def List.map_filter_def split: option.split)
  then show ?case by simp
next
  case (refused q as s a t bs)
  then have a: "sq_queues q s = Some a" by (intro owner_queue) (auto simp: owners_def)
  have "subseq (pipeline s' (submit_refused s a (q\<lparr>sq_starting := as @ bs\<rparr>))) (pipeline s' q)" for s'
  proof (cases "s' = s")
    case True
    then show ?thesis
      by (auto simp: pipeline_def submit_refused_def a queued_def in_progress_def intro!: list_emb_append_mono)
  next
    case False
    with queue_unique [OF refused(2) a, of s'] have "sq_queues q s' \<noteq> Some a" by blast
    with False have "pipeline s' (submit_refused s a (q\<lparr>sq_starting := as @ bs\<rparr>)) = pipeline s' q"
      by (auto simp: pipeline_def submit_refused_def a queued_def in_progress_def split: option.split)
    then show ?thesis by simp
  qed
  moreover have "sq_submitted (submit_refused s a (q\<lparr>sq_starting := as @ bs\<rparr>)) = sq_submitted q"
    by (simp add: submit_refused_def)
  ultimately show ?case by blast
next
  case (drain_take q as s a bs t ts)
  define q' where "q' = q\<lparr>sq_heap := (sq_heap q)(a := (sq_heap q a)\<lparr>stq_tasks := ts\<rparr>),
      sq_draining := as @ (s, a, Some t) # bs\<rparr>"
  have ok': "sq_ok q'" unfolding q'_def by (rule sq_ok_step [OF sq_step.drain_take]) (use drain_take in auto)
  have dr': "sq_draining q' = as @ (s, a, Some t) # bs" by (simp add: q'_def)
  have "pipeline s' q' = pipeline s' q" for s'
  proof (cases "s' = s")
    case True
    with pipeline_draining(1) [OF ok' dr'] pipeline_draining(1) [OF drain_take(4,1)] drain_take(3)
    show ?thesis by (simp add: q'_def)
  next
    case False
    with queue_unique [OF drain_take(4,2), of s'] have n: "sq_queues q s' \<noteq> Some a" by blast
    have "in_progress s' q' = in_progress s' q"
      using in_progress_other(1) [OF False drain_take(1), where q' = q and y = "Some t"] by (simp add: q'_def in_progress_def)
    with n show ?thesis by (auto simp: pipeline_def q'_def queued_def split: option.split)
  qed
  then show ?case by (simp add: q'_def)
next
  case (drain_run q as s a t bs)
  define q' where "q' = q\<lparr>sq_draining := as @ (s, a, None) # bs, sq_executed := sq_executed q @ [(s, t)]\<rparr>"
  have ok': "sq_ok q'" unfolding q'_def by (rule sq_ok_step [OF sq_step.drain_run]) (use drain_run in auto)
  have dr': "sq_draining q' = as @ (s, a, None) # bs" by (simp add: q'_def)
  have "pipeline s' q' = pipeline s' q" for s'
  proof (cases "s' = s")
    case True
    with pipeline_draining(1) [OF ok' dr'] pipeline_draining(1) [OF drain_run(2,1)]
    show ?thesis by (simp add: q'_def)
  next
    case False
    have "in_progress s' q' = in_progress s' q"
      using in_progress_other(1) [OF False drain_run(1), where q' = q and y = None]
      by (simp add: q'_def in_progress_def)
    with False show ?thesis by (simp add: pipeline_def q'_def queued_def split: option.split)
  qed
  then show ?case by (simp add: q'_def)
next
  case (drain_exit q as s a bs)
  note d = pipeline_draining [OF drain_exit(3,1)]
  have empty: "stq_tasks (sq_heap q a) = []" using drain_exit(2) d(2) by simp
  define q' where "q' = q\<lparr>sq_draining := as @ bs, sq_queues := (sq_queues q)(s := None),
      sq_heap := (sq_heap q)(a := (sq_heap q a)\<lparr>stq_running := False\<rparr>)\<rparr>"
  have "pipeline s' q' = pipeline s' q" for s'
  proof (cases "s' = s")
    case True
    have "in_progress s q' = in_progress s (q\<lparr>sq_draining := as @ bs\<rparr>)"
      by (simp add: q'_def in_progress_def)
    with True d(1) empty others_idle [OF drain_exit(3,1)] show ?thesis
      by (simp add: pipeline_def queued_def q'_def)
  next
    case False
    have "in_progress s' q' = in_progress s' q"
      using in_progress_other(2) [OF False drain_exit(1), of q] by (simp add: q'_def in_progress_def)
    moreover from False queue_unique [OF drain_exit(3) d(2), of s'] have "sq_queues q s' \<noteq> Some a"
      by blast
    ultimately show ?thesis using False
      by (auto simp: pipeline_def q'_def queued_def split: option.split)
  qed
  then show ?case by (simp add: q'_def d(2))
qed

lemma ordered_reach: "sq_reach pool q \<Longrightarrow> ordered pool q"
proof (induction rule: sq_reach.induct)
  case start
  then show ?case
    by (simp add: ordered_def pipeline_def queued_def in_progress_def NewSessionQueue_def
        List.map_filter_def)
next
  case (step q q')
  have ok: "sq_ok q" by (rule sq_ok_reach [OF step(1)])
  from sq_step_pipeline [OF step(2) ok] consider
      t s where "q' = submit_enter s t q"
    | "sq_submitted q' = sq_submitted q" "\<And>s. pipeline s q' = pipeline s q"
    | "\<not> pool" "sq_submitted q' = sq_submitted q" "\<And>s. subseq (pipeline s q') (pipeline s q)"
    by blast
  then show ?case
  proof cases
    case (1 t s)
    with step.IH show ?thesis
      by (auto simp: ordered_def pipeline_submit [OF ok] intro: list_emb_append_mono)
  next
    case 2
    with step.IH show ?thesis by (simp add: ordered_def)
  next
    case 3
    with step.IH show ?thesis
      by (auto simp: ordered_def intro: subseq_order.order_trans)
  qed
qed

section \<open>Properties\<close>

text \<open>
  C14: the tasks of a session run one at a time and in the order they were submitted: no two
  goroutines work on one session, what ran is a subsequence of what was submitted, and as long as
  the worker pool never refuses, the tasks that ran, the one that runs and those still queued are
  together exactly the submitted tasks, in order.
\<close>

theorem session_tasks_in_order:
  assumes "sq_reach pool q"
  shows "distinct (map fst (sq_starting q) @ map fst (sq_draining q))
    \<and> subseq (of_session s (sq_executed q)) (of_session s (sq_submitted q))
    \<and> (pool \<longrightarrow> of_session s (sq_executed q) @ in_progress s q @ queued s q
          = of_session s (sq_submitted q))"
proof -
  from ordered_reach [OF assms] have o: "subseq (pipeline s q) (of_session s (sq_submitted q))"
    "pool \<longrightarrow> pipeline s q = of_session s (sq_submitted q)" by (auto simp: ordered_def)
  have "subseq (of_session s (sq_executed q)) (pipeline s q)"
    unfolding pipeline_def by (rule list_emb_prefix) simp
  with o(1) have "subseq (of_session s (sq_executed q)) (of_session s (sq_submitted q))"
    using subseq_order.order_trans by blast
  with o(2) owners_once [OF sq_ok_reach [OF assms]] show ?thesis by (simp add: pipeline_def)
qed

lemma first_submit: "sq_reach pool (submit_enter ''s'' 1 NewSessionQueue)"
  by (rule sq_reach.step [OF sq_reach.start sq_step.submit]) simp

theorem session_tasks_in_order_witness:
  "sq_reach True (submit_enter ''s'' 1 NewSessionQueue)
   \<and> of_session ''s'' (sq_executed (submit_enter ''s'' 1 NewSessionQueue))
       @ in_progress ''s'' (submit_enter ''s'' 1 NewSessionQueue)
       @ queued ''s'' (submit_enter ''s'' 1 NewSessionQueue) = [1]"
  using session_tasks_in_order [OF first_submit [of True], of "''s''"] first_submit [of True]
  by (simp add: submit_enter_def locate_queue_def NewSessionQueue_def)

text \<open>
  A task can be accepted and lost: when a second submission for a session joins the queue
  while the first is still asking the pool for a worker, and the pool then refuses the first, the
  second, which was told that its task is accepted, is dropped with it: no step can run it any
  more.
\<close>

theorem accepted_task_lost:
  "\<exists>q. sq_reach False q \<and> (''s'', 2) \<in> set (sq_accepted q) \<and> sq_executed q = []
     \<and> sq_starting q = [] \<and> sq_draining q = [] \<and> (\<forall>s. queued s q = [])"
proof -
  define q1 where "q1 = submit_enter ''s'' 1 NewSessionQueue"
  define q2 where "q2 = submit_enter ''s'' 2 q1"
  have q2: "q2 = \<lparr>sq_queues = [''s'' \<mapsto> 0],
      sq_heap = (\<lambda>_. \<lparr>stq_running = False, stq_tasks = []\<rparr>)(0 := \<lparr>stq_running = True, stq_tasks = [1, 2]\<rparr>),
      sq_next = 1, sq_starting = [(''s'', 0, 1)], sq_draining = [],
      sq_submitted = [(''s'', 1), (''s'', 2)], sq_accepted = [(''s'', 2)], sq_executed = []\<rparr>"
    by (simp add: q2_def q1_def submit_enter_def locate_queue_def NewSessionQueue_def fun_eq_iff)
  define q3 where "q3 = submit_refused ''s'' 0 (q2\<lparr>sq_starting := []\<rparr>)"
  have "sq_reach False q1" unfolding q1_def by (rule first_submit)
  then have "sq_reach False q2"
    unfolding q2_def by (rule sq_reach.step) (rule sq_step.submit, simp)
  moreover have "sq_step False q2 q3"
    unfolding q3_def using sq_step.refused [of q2 "[]" "''s''" 0 1 "[]"] by (simp add: q2)
  ultimately have "sq_reach False q3" by (rule sq_reach.step)
  moreover have "(''s'', 2) \<in> set (sq_accepted q3)" "sq_executed q3 = []" "sq_starting q3 = []"
    "sq_draining q3 = []" "\<forall>s. queued s q3 = []"
    by (simp_all add: q3_def q2 submit_refused_def queued_def)
  ultimately show ?thesis by blast
qed

end
