(* ===== verification/PlanModel.thy ===== *)
theory PlanModel
  imports GoJson "HOL-Library.Word"
begin

text \<open>
  Plans: \<open>core/plan/plan.go\<close> (the data), \<open>core/application/plan/service\<close> (the status changes, the
  text given to the model for a step) and the scheduling functions of
  \<open>core/application/chat/plan/service/execution_service.go\<close> (which steps are ready, how a
  replacement plan is merged). A step is addressed by its index, as in the code; \<open>Clone\<close> is the
  identity on values. The nil plan is not modelled: the execution checks for it once, at its start.
  A status is a Go string, and a plan decoded from a model's reply can carry any.
\<close>

section \<open>Data\<close>

definition StatusDraft :: string where "StatusDraft = ''draft''"
definition StatusApproved :: string where "StatusApproved = ''approved''"
definition StatusRunning :: string where "StatusRunning = ''running''"
definition StatusDone :: string where "StatusDone = ''done''"
definition StatusFailed :: string where "StatusFailed = ''failed''"
definition StatusCanceled :: string where "StatusCanceled = ''canceled''"

definition StepStatusPending :: string where "StepStatusPending = ''pending''"
definition StepStatusRunning :: string where "StepStatusRunning = ''running''"
definition StepStatusDone :: string where "StepStatusDone = ''done''"
definition StepStatusFailed :: string where "StepStatusFailed = ''failed''"
definition StepStatusSkipped :: string where "StepStatusSkipped = ''skipped''"

lemmas plan_status_defs = StatusDraft_def StatusApproved_def StatusRunning_def StatusDone_def
  StatusFailed_def StatusCanceled_def
lemmas step_status_defs = StepStatusPending_def StepStatusRunning_def StepStatusDone_def
  StepStatusFailed_def StepStatusSkipped_def

lemma step_status_neq [simp]:
  "StepStatusPending \<noteq> StepStatusRunning" "StepStatusPending \<noteq> StepStatusDone"
  "StepStatusPending \<noteq> StepStatusFailed" "StepStatusPending \<noteq> StepStatusSkipped"
  "StepStatusRunning \<noteq> StepStatusPending" "StepStatusRunning \<noteq> StepStatusDone"
  "StepStatusRunning \<noteq> StepStatusFailed" "StepStatusRunning \<noteq> StepStatusSkipped"
  "StepStatusDone \<noteq> StepStatusPending" "StepStatusDone \<noteq> StepStatusRunning"
  "StepStatusDone \<noteq> StepStatusFailed" "StepStatusDone \<noteq> StepStatusSkipped"
  "StepStatusFailed \<noteq> StepStatusPending" "StepStatusFailed \<noteq> StepStatusRunning"
  "StepStatusFailed \<noteq> StepStatusDone" "StepStatusFailed \<noteq> StepStatusSkipped"
  "StepStatusSkipped \<noteq> StepStatusPending" "StepStatusSkipped \<noteq> StepStatusRunning"
  "StepStatusSkipped \<noteq> StepStatusDone" "StepStatusSkipped \<noteq> StepStatusFailed"
  by (simp_all add: step_status_defs)

record Step =
  ps_ID :: string
  ps_Order :: int
  ps_Title :: string
  ps_Description :: string
  ps_Dependencies :: "string list"
  ps_Status :: string
  ps_RetryCount :: int
  ps_MaxRetries :: int
  ps_LastError :: string
  ps_AgentTaskID :: string
  ps_StartedAt :: "gotime option"
  ps_CompletedAt :: "gotime option"

record Plan =
  pl_ID :: string
  pl_SessionID :: string
  pl_Goal :: string
  pl_Status :: string
  pl_Revision :: "64 word"
  pl_RawContent :: string
  pl_Steps :: "Step list"
  pl_CreatedAt :: gotime
  pl_UpdatedAt :: gotime

definition IsExecutableStatus :: "string \<Rightarrow> bool" where
  "IsExecutableStatus status \<longleftrightarrow>
     status \<in> {StatusDraft, StatusApproved, StatusRunning, StatusFailed, StatusCanceled}"

definition finished :: "Step \<Rightarrow> bool" where
  "finished s \<longleftrightarrow> ps_Status s = StepStatusDone \<or> ps_Status s = StepStatusSkipped"

section \<open>Status changes (\<open>StateService\<close>)\<close>

definition hasStep :: "Plan \<Rightarrow> int \<Rightarrow> bool" where
  "hasStep p index \<longleftrightarrow> 0 \<le> index \<and> index < int (length (pl_Steps p))"

definition at_step :: "int \<Rightarrow> (Step \<Rightarrow> Step) \<Rightarrow> Plan \<Rightarrow> Plan" where
  "at_step index f p =
     (if hasStep p index
      then p\<lparr>pl_Steps := (pl_Steps p)[nat index := f (pl_Steps p ! nat index)]\<rparr> else p)"

definition Plan_Approve :: "Plan \<Rightarrow> Plan" where
  "Plan_Approve p = p\<lparr>pl_Status := StatusApproved\<rparr>"

definition Plan_Start :: "Plan \<Rightarrow> Plan" where
  "Plan_Start p =
     p\<lparr>pl_Status := StatusRunning,
       pl_Steps := map (\<lambda>s. if finished s then s else s\<lparr>ps_Status := StepStatusPending\<rparr>) (pl_Steps p)\<rparr>"

definition MarkStepRunning :: "gotime \<Rightarrow> Plan \<Rightarrow> int \<Rightarrow> Plan" where
  "MarkStepRunning now p index =
     at_step index (\<lambda>s. s\<lparr>ps_Status := StepStatusRunning, ps_StartedAt := Some now,
                          ps_CompletedAt := None\<rparr>) p"

definition MarkStepDone :: "gotime \<Rightarrow> Plan \<Rightarrow> int \<Rightarrow> Plan" where
  "MarkStepDone now p index =
     at_step index (\<lambda>s. s\<lparr>ps_Status := StepStatusDone, ps_CompletedAt := Some now,
                          ps_LastError := []\<rparr>) p"

text \<open>The optional cause is always given by the execution.\<close>

definition MarkStepFailed :: "gotime \<Rightarrow> string \<Rightarrow> Plan \<Rightarrow> int \<Rightarrow> Plan" where
  "MarkStepFailed now cause p index =
     at_step index (\<lambda>s. s\<lparr>ps_Status := StepStatusFailed, ps_LastError := TrimSpace cause,
                          ps_CompletedAt := Some now\<rparr>) (p\<lparr>pl_Status := StatusFailed\<rparr>)"

definition MarkStepRetry :: "string \<Rightarrow> Plan \<Rightarrow> int \<Rightarrow> Plan" where
  "MarkStepRetry cause p index =
     at_step index (\<lambda>s. s\<lparr>ps_RetryCount := ps_RetryCount s + 1, ps_Status := StepStatusPending,
                          ps_LastError := TrimSpace cause, ps_CompletedAt := None\<rparr>) p"

definition MarkStepSkipped :: "gotime \<Rightarrow> string \<Rightarrow> Plan \<Rightarrow> int \<Rightarrow> Plan" where
  "MarkStepSkipped now cause p index =
     at_step index (\<lambda>s. s\<lparr>ps_Status := StepStatusSkipped, ps_LastError := TrimSpace cause,
                          ps_CompletedAt := Some now\<rparr>) p"

definition Plan_MarkCanceled :: "Plan \<Rightarrow> Plan" where
  "Plan_MarkCanceled p =
     p\<lparr>pl_Status := StatusCanceled,
       pl_Steps := map (\<lambda>s. if ps_Status s = StepStatusRunning
                            then s\<lparr>ps_Status := StepStatusPending\<rparr> else s) (pl_Steps p)\<rparr>"

definition Plan_MarkDone :: "Plan \<Rightarrow> Plan" where
  "Plan_MarkDone p = p\<lparr>pl_Status := StatusDone\<rparr>"

section \<open>Scheduling\<close>

text \<open>The step a dependency names: the first with this identifier or this order number.\<close>

definition dependency_step :: "Plan \<Rightarrow> string \<Rightarrow> Step option" where
  "dependency_step p dependency =
     (let d = TrimSpace dependency
      in find (\<lambda>c. ps_ID c = d \<or> Itoa (ps_Order c) = d) (pl_Steps p))"

definition dependenciesSatisfied :: "Plan \<Rightarrow> Step \<Rightarrow> bool" where
  "dependenciesSatisfied p step \<longleftrightarrow>
     list_all (\<lambda>d. case dependency_step p d of None \<Rightarrow> False | Some c \<Rightarrow> finished c)
       (ps_Dependencies step)"

definition readyStepIndexes :: "Plan \<Rightarrow> nat list" where
  "readyStepIndexes p =
     filter (\<lambda>i. ps_Status (pl_Steps p ! i) = StepStatusPending
               \<and> dependenciesSatisfied p (pl_Steps p ! i)) [0..<length (pl_Steps p)]"

definition allStepsTerminal :: "Plan \<Rightarrow> bool" where
  "allStepsTerminal p \<longleftrightarrow> list_all finished (pl_Steps p)"

definition firstUnfinishedStep :: "Plan \<Rightarrow> int" where
  "firstUnfinishedStep p =
     (case find (\<lambda>i. \<not> finished (pl_Steps p ! i)) [0..<length (pl_Steps p)] of
        None \<Rightarrow> -1 | Some i \<Rightarrow> int i)"

text \<open>
  \<open>extract\<close> is \<open>ExtractSteps\<close>, the parser of a model's reply; only the number of steps it finds
  matters here.
\<close>

definition planHasDependencies :: "(string \<Rightarrow> Step list) \<Rightarrow> Plan \<Rightarrow> bool" where
  "planHasDependencies extract p \<longleftrightarrow>
     list_ex (\<lambda>s. ps_Dependencies s \<noteq> []) (pl_Steps p)
     \<or> length (extract (pl_RawContent p)) = length (pl_Steps p)
        \<and> Contains (pl_RawContent p) (CHR 0x22 # ''steps'' @ [CHR 0x22])"

definition maxParallelSteps :: "(string \<Rightarrow> Step list) \<Rightarrow> int \<Rightarrow> Plan \<Rightarrow> nat" where
  "maxParallelSteps extract configured p =
     (if \<not> planHasDependencies extract p then 1
      else if configured > 0 then nat configured else 1)"

definition maxReplans :: "int \<Rightarrow> int" where
  "maxReplans configured = (if configured > 0 then configured else 1)"

section \<open>Recovery\<close>

definition title_key :: "(string \<Rightarrow> string) \<Rightarrow> Step \<Rightarrow> string" where
  "title_key low s = ToLower low (TrimSpace (ps_Title s))"

text \<open>The loop over the replacement's steps; \<open>uuid n\<close> is the identifier drawn for the step at \<open>n\<close>.\<close>

fun merge_steps ::
  "(string \<Rightarrow> string) \<Rightarrow> (nat \<Rightarrow> string) \<Rightarrow> string \<Rightarrow> string list \<Rightarrow> Step list \<Rightarrow> Step list \<Rightarrow> Step list"
  where
  "merge_steps low uuid failedTitle seen merged [] = merged"
| "merge_steps low uuid failedTitle seen merged (step # rest) =
     (let titleKey = title_key low step
      in if titleKey = [] \<or> titleKey = failedTitle \<or> titleKey \<in> set seen
         then merge_steps low uuid failedTitle seen merged rest
         else (let next = step\<lparr>
                     ps_ID := (if blank (ps_ID step) then uuid (length merged) else TrimSpace (ps_ID step)),
                     ps_Order := int (length merged) + 1, ps_Status := StepStatusPending,
                     ps_RetryCount := 0, ps_LastError := []\<rparr>;
                   merged' = merged @ [next]
               in if length merged' \<ge> 12 then merged'
                  else merge_steps low uuid failedTitle (titleKey # seen) merged' rest))"

definition mergeRecoveryPlan ::
  "(string \<Rightarrow> string) \<Rightarrow> (nat \<Rightarrow> string) \<Rightarrow> Plan \<Rightarrow> Plan \<Rightarrow> int \<Rightarrow> string \<Rightarrow> Plan" where
  "mergeRecoveryPlan low uuid current replacement failedIndex failure =
     (let merged = at_step failedIndex
            (\<lambda>s. s\<lparr>ps_Status := StepStatusSkipped, ps_LastError := TrimSpace failure\<rparr>) current;
          failedTitle = (if hasStep merged failedIndex
                         then title_key low (pl_Steps merged ! nat failedIndex) else []);
          steps = merge_steps low uuid failedTitle (map (title_key low) (pl_Steps merged))
                    (pl_Steps merged) (pl_Steps replacement)
      in merged\<lparr>pl_Steps := steps, pl_Status := StatusRunning,
           pl_RawContent :=
             (if blank (pl_RawContent replacement) then pl_RawContent merged
              else TrimSpace (pl_RawContent merged @ newline @ newline @ ''Recovery plan:'' @ newline
                     @ pl_RawContent replacement))\<rparr>)"

section \<open>Progress and the text for a step\<close>

definition planProgress :: "Plan \<Rightarrow> int \<times> string" where
  "planProgress p =
     (case find (\<lambda>i. ps_Status (pl_Steps p ! i) = StepStatusRunning) [0..<length (pl_Steps p)] of
        Some i \<Rightarrow> (int i + 1, ps_Title (pl_Steps p ! i))
      | None \<Rightarrow>
          (case find (\<lambda>i. finished (pl_Steps p ! i)) (rev [0..<length (pl_Steps p)]) of
             Some i \<Rightarrow> (int i + 1, ps_Title (pl_Steps p ! i))
           | None \<Rightarrow> (0, ''Plan updated'')))"

definition plan_line :: "Step \<Rightarrow> string" where
  "plan_line item =
     Itoa (ps_Order item) @ ''. ['' @ ps_Status item @ ''] '' @ ps_Title item
     @ (if blank (ps_Description item) then [] else '' - '' @ ps_Description item) @ newline"

definition step_guidance :: string where
  "step_guidance =
     ''Focus on the current step. Use the available tools to inspect, edit, and verify the workspace when needed. If a focused investigation or implementation can be delegated, use spawn_agent and wait_agent; use definition_id=implementer for isolated coding work, then apply_task_changes after the child succeeds. Do not ask the user to manually execute this step; report what changed and stop after the step is complete.''"

definition BuildStepInput :: "Plan \<Rightarrow> Step \<Rightarrow> int \<Rightarrow> int \<Rightarrow> string" where
  "BuildStepInput p step index count =
     ''Execute the approved plan step '' @ Itoa (index + 1) @ ''/'' @ Itoa count @ ''.'' @ newline @ newline
     @ (if blank (pl_Goal p) then []
        else ''Goal:'' @ newline @ pl_Goal p @ newline @ newline)
     @ ''Current step:'' @ newline @ ps_Title step
     @ (if blank (ps_Description step) then [] else newline @ ps_Description step)
     @ (if ps_Dependencies step = [] then []
        else newline @ ''Prerequisites: '' @ join '', '' (ps_Dependencies step))
     @ newline @ newline @ ''Full plan:'' @ newline
     @ concat (map plan_line (pl_Steps p)) @ newline @ step_guidance"

section \<open>Lemmas\<close>

lemma length_at_step [simp]: "length (pl_Steps (at_step i f p)) = length (pl_Steps p)"
  by (simp add: at_step_def)

lemma nth_at_step:
  "j < length (pl_Steps p) \<Longrightarrow>
     pl_Steps (at_step (int i) f p) ! j = (if i = j then f (pl_Steps p ! j) else pl_Steps p ! j)"
  by (simp add: at_step_def hasStep_def)

lemma at_step_Status [simp]: "pl_Status (at_step i f p) = pl_Status p"
  by (simp add: at_step_def)

text \<open>Marking the steps of a batch one after the other.\<close>

lemma length_mark_batch:
  "length (pl_Steps (foldl (\<lambda>p i. at_step (int i) f p) p ixs)) = length (pl_Steps p)"
  by (induction ixs arbitrary: p) simp_all

lemma nth_mark_batch:
  "distinct ixs \<Longrightarrow> j < length (pl_Steps p) \<Longrightarrow>
     pl_Steps (foldl (\<lambda>p i. at_step (int i) f p) p ixs) ! j
       = (if j \<in> set ixs then f (pl_Steps p ! j) else pl_Steps p ! j)"
proof (induction ixs arbitrary: p)
  case (Cons i js)
  have "pl_Steps (foldl (\<lambda>p i. at_step (int i) f p) (at_step (int i) f p) js) ! j
      = (if j \<in> set js then f (pl_Steps (at_step (int i) f p) ! j) else pl_Steps (at_step (int i) f p) ! j)"
    using Cons.prems by (intro Cons.IH) simp_all
  with Cons.prems show ?case by (auto simp: nth_at_step)
qed simp

lemma distinct_ready: "distinct (readyStepIndexes p)"
  by (simp add: readyStepIndexes_def)

lemma ready_iff:
  "i \<in> set (readyStepIndexes p) \<longleftrightarrow> i < length (pl_Steps p)
     \<and> ps_Status (pl_Steps p ! i) = StepStatusPending \<and> dependenciesSatisfied p (pl_Steps p ! i)"
  by (auto simp: readyStepIndexes_def)

lemma firstUnfinishedStep_bounds:
  "firstUnfinishedStep p < int (length (pl_Steps p))"
  by (auto simp: firstUnfinishedStep_def find_Some_iff split: option.split)

text \<open>The merged steps begin with the steps there were, and only add pending ones.\<close>

lemma merge_steps_prefix:
  "\<exists>new. merge_steps low uuid ft seen merged rs = merged @ new
     \<and> list_all (\<lambda>s. ps_Status s = StepStatusPending \<and> ps_RetryCount s = 0) new"
proof (induction rs arbitrary: seen merged)
  case (Cons r rs)
  show ?case
  proof (cases "title_key low r = [] \<or> title_key low r = ft \<or> title_key low r \<in> set seen")
    case True
    then show ?thesis using Cons.IH [of seen merged] by (auto simp: Let_def)
  next
    case False
    define nx where "nx = r\<lparr>ps_ID := (if blank (ps_ID r) then uuid (length merged) else TrimSpace (ps_ID r)),
        ps_Order := int (length merged) + 1, ps_Status := StepStatusPending,
        ps_RetryCount := 0, ps_LastError := []\<rparr>"
    obtain new where "merge_steps low uuid ft (title_key low r # seen) (merged @ [nx]) rs
        = (merged @ [nx]) @ new" "list_all (\<lambda>s. ps_Status s = StepStatusPending \<and> ps_RetryCount s = 0) new"
      using Cons.IH by blast
    moreover have "ps_Status nx = StepStatusPending \<and> ps_RetryCount nx = 0" by (simp add: nx_def)
    ultimately show ?thesis
      using False unfolding merge_steps.simps Let_def nx_def [symmetric]
      by (cases "12 \<le> length (merged @ [nx])") auto
  qed
qed simp

lemma merge_steps_repeats:
  "list_all (\<lambda>s. title_key low s \<in> set seen) rs \<Longrightarrow> merge_steps low uuid ft seen merged rs = merged"
  by (induction rs) (simp_all add: Let_def)

lemma merge_steps_length:
  "length (merge_steps low uuid ft seen merged rs) \<le> max 12 (length merged + 1)"
proof (induction rs arbitrary: seen merged)
  case (Cons r rs)
  have "length (merge_steps low uuid ft seen' merged' rs) \<le> max 12 (length merged + 1)"
    if "length merged' < 12" for seen' merged'
    using Cons.IH [of seen' merged'] that by linarith
  then show ?case using Cons.IH [of seen merged] by (auto simp: Let_def not_le)
qed simp

lemma merge_prefix:
  assumes "i < length (pl_Steps p)"
  shows "\<exists>new. pl_Steps (mergeRecoveryPlan low uuid p r (int i) failure)
    = (pl_Steps p)[i := (pl_Steps p ! i)\<lparr>ps_Status := StepStatusSkipped, ps_LastError := TrimSpace failure\<rparr>] @ new
    \<and> list_all (\<lambda>s. ps_Status s = StepStatusPending \<and> ps_RetryCount s = 0) new"
proof -
  have "pl_Steps (at_step (int i) f p) = (pl_Steps p)[i := f (pl_Steps p ! i)]" for f
    using assms by (simp add: at_step_def hasStep_def)
  then show ?thesis
    unfolding mergeRecoveryPlan_def Let_def
    by (simp del: merge_steps.simps add: merge_steps_prefix)
qed

end
