(* ===== verification/PlanExecution.thy ===== *)
theory PlanExecution
  imports PlanModel Workspace Machine
begin

text \<open>
  \<open>ExecutionService.Execute\<close> of \<open>core/application/chat/plan/service/execution_service.go\<close>: the loop
  that runs a plan in batches of steps whose dependencies are finished, with retries, recovery by
  a replacement plan and the saving of every state change.

  What the service calls is an environment, indexed by the round of the loop: the store, the
  context, the generation of a step's reply (with the appending of its instruction), the recovery
  planner, identifiers and time. The replies of a batch are collected by index, so the order in
  which its goroutines end does not matter. The bookkeeping of agent runs, the buffered stream
  and the callbacks are not modelled. The loop is a total function: its termination proof uses
  that retries and replacements are bounded, whatever the environment answers.
\<close>

section \<open>Environment and state\<close>

record exec_error =
  er_text :: string
  er_canceled :: bool

text \<open>\<open>errors.Join\<close>, and \<open>errors.Is\<close> for \<open>context.Canceled\<close> through it.\<close>

definition errors_Join :: "exec_error \<Rightarrow> exec_error \<Rightarrow> exec_error" where
  "errors_Join a b =
     \<lparr>er_text = er_text a @ newline @ er_text b, er_canceled = er_canceled a \<or> er_canceled b\<rparr>"

record 'x ChatResult =
  cr_Content :: string
  cr_Reasoning :: string
  cr_Usage :: TokenUsage
  cr_ToolCalls :: "'x list"

record ('x, 'y) GenerationResponse =
  gr_SessionID :: string
  gr_Result :: "'x ChatResult"
  gr_Context :: "'y option"

datatype save_point =
  SaveApproved | SaveStarted | SaveBatch | SaveResults | SaveBranches | SaveRetry | SaveRecovery
  | SaveDone | SaveTerminal

datatype ctx_point = LoopHead | AfterFailures | BeforeRetry | BeforeRecovery

record ('x, 'y) PlanEnv =
  env_now :: "nat \<Rightarrow> gotime"
  env_store :: "(nat \<Rightarrow> save_point \<Rightarrow> Plan \<Rightarrow> exec_error option) option"
  env_ctx :: "nat \<Rightarrow> ctx_point \<Rightarrow> exec_error option"
  env_generate :: "nat \<Rightarrow> nat \<Rightarrow> string \<Rightarrow> exec_error + ('x, 'y) GenerationResponse"
  env_recover :: "(Plan \<Rightarrow> Step \<Rightarrow> string \<Rightarrow> int \<Rightarrow> Plan option) option"
  env_uuid :: "nat \<Rightarrow> nat \<Rightarrow> string"
  env_lower :: "string \<Rightarrow> string"
  env_extract :: "string \<Rightarrow> Step list"
  env_MaxReplans :: int
  env_MaxParallelSteps :: int

text \<open>
  \<open>ex_live\<close> is the plan of the session in memory, \<open>ex_published\<close> the snapshots sent to clients.
\<close>

record ('x, 'y) Exec =
  ex_plan :: Plan
  ex_live :: Plan
  ex_published :: "Plan list"
  ex_round :: nat
  ex_currentStep :: int
  ex_replans :: int
  ex_combined :: "('x, 'y) GenerationResponse"

datatype ('x, 'y) ended =
    ExecFailed exec_error "('x, 'y) Exec"
  | ExecDone "('x, 'y) Exec"

section \<open>Saving\<close>

text \<open>\<open>StatePersistenceService.Save\<close>; the second argument is the answer of the repository.\<close>

definition StatePersistence_Save :: "gotime \<Rightarrow> (Plan \<Rightarrow> 'e option) \<Rightarrow> Plan \<Rightarrow> 'e + Plan" where
  "StatePersistence_Save now repository p =
     (let currentPlan = p\<lparr>pl_UpdatedAt := now, pl_Revision := pl_Revision p + 1\<rparr>
      in case repository currentPlan of Some e \<Rightarrow> Inl e | None \<Rightarrow> Inr currentPlan)"

definition savePlanState ::
  "('x, 'y) PlanEnv \<Rightarrow> save_point \<Rightarrow> ('x, 'y) Exec \<Rightarrow> exec_error + ('x, 'y) Exec" where
  "savePlanState env point st =
     (let p = ex_plan st; n = ex_round st;
          outcome = (case env_store env of
              None \<Rightarrow> Inr (p\<lparr>pl_Revision := pl_Revision p + 1\<rparr>)
            | Some store \<Rightarrow> StatePersistence_Save (env_now env n) (store n point) p)
      in case outcome of
           Inl e \<Rightarrow> Inl e
         | Inr saved \<Rightarrow> Inr (st\<lparr>ex_plan := saved, ex_live := saved,
                                ex_published := ex_published st @ [saved]\<rparr>))"

definition finishWithError ::
  "('x, 'y) PlanEnv \<Rightarrow> int \<Rightarrow> exec_error \<Rightarrow> ('x, 'y) Exec \<Rightarrow> ('x, 'y) ended" where
  "finishWithError env stepIndex cause st =
     (let p = (if er_canceled cause then Plan_MarkCanceled (ex_plan st)
               else MarkStepFailed (env_now env (ex_round st)) (er_text cause) (ex_plan st) stepIndex);
          st1 = st\<lparr>ex_plan := p\<rparr>
      in case savePlanState env SaveTerminal st1 of
           Inr st2 \<Rightarrow> ExecFailed cause st2
         | Inl e \<Rightarrow>
             ExecFailed (errors_Join cause (e\<lparr>er_text := ''save terminal plan state: '' @ er_text e\<rparr>))
               (st1\<lparr>ex_live := p, ex_published := ex_published st1 @ [p]\<rparr>))"

section \<open>Combining replies\<close>

definition appendResponseText :: "string \<Rightarrow> string \<Rightarrow> string" where
  "appendResponseText existing0 next0 =
     (let existing = TrimSpace existing0; reply = TrimSpace next0
      in if existing = [] then reply
         else if reply = [] then existing
         else existing @ newline @ newline @ reply)"

definition Combine :: "'x ChatResult \<Rightarrow> 'x ChatResult \<Rightarrow> 'x ChatResult" where
  "Combine current reply =
     \<lparr>cr_Content = appendResponseText (cr_Content current) (cr_Content reply),
      cr_Reasoning = appendResponseText (cr_Reasoning current) (cr_Reasoning reply),
      cr_Usage = TokenUsage_Add (cr_Usage current) (cr_Usage reply),
      cr_ToolCalls = cr_ToolCalls reply\<rparr>"

definition combine_response ::
  "('x, 'y) GenerationResponse \<Rightarrow> ('x, 'y) GenerationResponse \<Rightarrow> ('x, 'y) GenerationResponse" where
  "combine_response current reply =
     \<lparr>gr_SessionID = (if gr_SessionID current = [] then gr_SessionID reply else gr_SessionID current),
      gr_Result = Combine (gr_Result current) (gr_Result reply),
      gr_Context = gr_Context reply\<rparr>"

section \<open>One round\<close>

type_synonym ('x, 'y) batch_results = "(nat \<times> (exec_error + ('x, 'y) GenerationResponse)) list"

definition batch :: "('x, 'y) PlanEnv \<Rightarrow> Plan \<Rightarrow> nat list" where
  "batch env p =
     take (maxParallelSteps (env_extract env) (env_MaxParallelSteps env) p) (readyStepIndexes p)"

definition executeReadyBatch ::
  "('x, 'y) PlanEnv \<Rightarrow> nat \<Rightarrow> Plan \<Rightarrow> nat list \<Rightarrow> ('x, 'y) batch_results" where
  "executeReadyBatch env n p indexes =
     map (\<lambda>i. (i, env_generate env n i
           (BuildStepInput p (pl_Steps p ! i) (int i) (int (length (pl_Steps p)))))) indexes"

definition succeeded :: "('x, 'y) batch_results \<Rightarrow> nat list" where
  "succeeded rs = map fst (filter (\<lambda>x. \<not> isl (snd x)) rs)"

definition replies :: "('x, 'y) batch_results \<Rightarrow> ('x, 'y) GenerationResponse list" where
  "replies rs = map (\<lambda>x. projr (snd x)) (filter (\<lambda>x. \<not> isl (snd x)) rs)"

definition failures :: "('x, 'y) batch_results \<Rightarrow> (nat \<times> exec_error) list" where
  "failures rs = map (\<lambda>x. (fst x, projl (snd x))) (filter (\<lambda>x. isl (snd x)) rs)"

text \<open>What follows the results of a batch: the end of the execution, or the next round.\<close>

definition saved_or_finish ::
  "('x, 'y) PlanEnv \<Rightarrow> save_point \<Rightarrow> int \<Rightarrow> ('x, 'y) Exec \<Rightarrow> ('x, 'y) ended + ('x, 'y) Exec" where
  "saved_or_finish env point index st =
     (case savePlanState env point st of
        Inl e \<Rightarrow> Inl (finishWithError env index e st) | Inr st' \<Rightarrow> Inr st')"

definition fail_branches ::
  "('x, 'y) PlanEnv \<Rightarrow> (nat \<times> exec_error) list \<Rightarrow> nat \<Rightarrow> exec_error \<Rightarrow> ('x, 'y) Exec \<Rightarrow> ('x, 'y) ended" where
  "fail_branches env fs index cause st =
     (if er_canceled cause
         \<or> (case env_ctx env (ex_round st) AfterFailures of None \<Rightarrow> False | Some e \<Rightarrow> er_canceled e)
      then finishWithError env (int index) cause st
      else (let st1 = st\<lparr>ex_plan := foldl (\<lambda>p (i, e).
                  MarkStepFailed (env_now env (ex_round st)) (er_text e) p (int i)) (ex_plan st) fs\<rparr>
            in case savePlanState env SaveBranches st1 of
                 Inl e \<Rightarrow> finishWithError env (int index) (errors_Join cause e) st1
               | Inr st2 \<Rightarrow> ExecFailed cause st2))"

definition recovery ::
  "('x, 'y) PlanEnv \<Rightarrow> nat \<Rightarrow> exec_error \<Rightarrow> ('x, 'y) Exec \<Rightarrow> Plan option" where
  "recovery env index cause st =
     (case env_recover env of
        None \<Rightarrow> None
      | Some recover \<Rightarrow>
          (if ex_replans st < maxReplans (env_MaxReplans env)
              \<and> env_ctx env (ex_round st) BeforeRecovery = None
           then (case recover (ex_plan st) (pl_Steps (ex_plan st) ! index) (er_text cause)
                        (ex_replans st + 1) of
                   None \<Rightarrow> None
                 | Some replacement \<Rightarrow>
                     (if pl_Steps replacement = [] then None else Some replacement))
           else None))"

definition fail_step ::
  "('x, 'y) PlanEnv \<Rightarrow> nat \<Rightarrow> exec_error \<Rightarrow> ('x, 'y) Exec \<Rightarrow> ('x, 'y) ended + ('x, 'y) Exec" where
  "fail_step env index cause st =
     (let step = pl_Steps (ex_plan st) ! index
      in if 0 < ps_MaxRetries step \<and> ps_RetryCount step < ps_MaxRetries step
            \<and> env_ctx env (ex_round st) BeforeRetry = None
         then saved_or_finish env SaveRetry (int index)
                (st\<lparr>ex_plan := MarkStepRetry (er_text cause) (ex_plan st) (int index)\<rparr>)
         else case recovery env index cause st of
             None \<Rightarrow> Inl (finishWithError env (int index) cause st)
           | Some replacement \<Rightarrow>
               saved_or_finish env SaveRecovery (int index)
                 (st\<lparr>ex_plan := mergeRecoveryPlan (env_lower env) (env_uuid env (ex_round st))
                        (ex_plan st) replacement (int index) (er_text cause),
                     ex_replans := ex_replans st + 1\<rparr>))"

definition record_results ::
  "('x, 'y) PlanEnv \<Rightarrow> ('x, 'y) batch_results \<Rightarrow> ('x, 'y) Exec \<Rightarrow> ('x, 'y) Exec" where
  "record_results env rs st =
     st\<lparr>ex_plan := foldl (\<lambda>p i. MarkStepDone (env_now env (ex_round st)) p (int i)) (ex_plan st) (succeeded rs),
        ex_combined := foldl combine_response (ex_combined st) (replies rs)\<rparr>"

definition run_batch ::
  "('x, 'y) PlanEnv \<Rightarrow> nat list \<Rightarrow> ('x, 'y) Exec \<Rightarrow> ('x, 'y) ended + ('x, 'y) Exec" where
  "run_batch env ready st =
     (let rs = executeReadyBatch env (ex_round st) (ex_plan st) ready
      in case saved_or_finish env SaveResults (-1) (record_results env rs st) of
           Inl r \<Rightarrow> Inl r
         | Inr st1 \<Rightarrow>
             (case failures rs of
                [] \<Rightarrow> Inr st1
              | [(i, e)] \<Rightarrow> fail_step env i e st1
              | (i, e) # _ \<Rightarrow> Inl (fail_branches env (failures rs) i e st1)))"

definition dependency_error :: exec_error where
  "dependency_error =
     \<lparr>er_text = ''plan has an unsatisfied or cyclic step dependency'', er_canceled = False\<rparr>"

definition complete :: "('x, 'y) PlanEnv \<Rightarrow> ('x, 'y) Exec \<Rightarrow> ('x, 'y) ended" where
  "complete env st =
     (case saved_or_finish env SaveDone (-1) (st\<lparr>ex_plan := Plan_MarkDone (ex_plan st)\<rparr>) of
        Inl r \<Rightarrow> r | Inr st' \<Rightarrow> ExecDone st')"

definition start_batch :: "('x, 'y) PlanEnv \<Rightarrow> nat list \<Rightarrow> ('x, 'y) Exec \<Rightarrow> ('x, 'y) Exec" where
  "start_batch env ready st =
     st\<lparr>ex_plan := foldl (\<lambda>p i. MarkStepRunning (env_now env (ex_round st)) p (int i)) (ex_plan st) ready,
        ex_currentStep := int (last ready) + 1\<rparr>"

definition plan_round ::
  "('x, 'y) PlanEnv \<Rightarrow> ('x, 'y) Exec \<Rightarrow> ('x, 'y) ended + ('x, 'y) Exec" where
  "plan_round env st =
     (case env_ctx env (ex_round st) LoopHead of
        Some e \<Rightarrow> Inl (finishWithError env (ex_currentStep st - 1) e st)
      | None \<Rightarrow>
          (let p = ex_plan st; ready = batch env p
           in if readyStepIndexes p = [] then
                (if allStepsTerminal p then Inl (complete env st)
                 else Inl (finishWithError env (firstUnfinishedStep p) dependency_error st))
              else case saved_or_finish env SaveBatch (int (hd ready)) (start_batch env ready st) of
                Inl r \<Rightarrow> Inl r
              | Inr st1 \<Rightarrow>
                  (case run_batch env ready st1 of
                     Inl r \<Rightarrow> Inl r
                   | Inr st2 \<Rightarrow> Inr (st2\<lparr>ex_round := ex_round st2 + 1\<rparr>))))"

section \<open>Termination\<close>

text \<open>The attempts a step can still take; a batch uses up at least one, or a replacement.\<close>

definition step_work :: "Step \<Rightarrow> nat" where
  "step_work s =
     (if ps_Status s = StepStatusPending then Suc (nat (ps_MaxRetries s - ps_RetryCount s)) else 0)"

definition plan_work :: "Plan \<Rightarrow> nat" where
  "plan_work p = sum_list (map step_work (pl_Steps p))"

lemma sum_list_less:
  assumes "length xs = length ys" "\<And>i. i < length xs \<Longrightarrow> xs ! i \<le> (ys ! i :: nat)"
    "k < length xs" "xs ! k < ys ! k"
  shows "sum_list xs < sum_list ys"
proof -
  have "sum ((!) xs) {0..<length xs} < sum ((!) ys) {0..<length xs}"
    by (rule sum_strict_mono_ex1) (use assms in auto)
  then show ?thesis using assms(1) by (simp add: sum_list_sum_nth)
qed

lemma plan_work_less:
  assumes "length (pl_Steps p) = length (pl_Steps q)"
    "\<And>i. i < length (pl_Steps q) \<Longrightarrow> step_work (pl_Steps p ! i) \<le> step_work (pl_Steps q ! i)"
    "k < length (pl_Steps q)" "step_work (pl_Steps p ! k) < step_work (pl_Steps q ! k)"
  shows "plan_work p < plan_work q"
  unfolding plan_work_def by (rule sum_list_less [where k = k]) (use assms in auto)

lemma savePlanState_Inr:
  assumes "savePlanState env point st = Inr st'"
  shows "pl_Steps (ex_plan st') = pl_Steps (ex_plan st)" "pl_Status (ex_plan st') = pl_Status (ex_plan st)"
    "ex_live st' = ex_plan st'" "ex_replans st' = ex_replans st" "ex_round st' = ex_round st"
    "ex_currentStep st' = ex_currentStep st"
  using assms
  by (auto simp: savePlanState_def StatePersistence_Save_def Let_def split: option.splits sum.splits)

lemma saved_or_finish_Inr:
  "saved_or_finish env point i st = Inr st' \<Longrightarrow> savePlanState env point st = Inr st'"
  by (auto simp: saved_or_finish_def split: sum.splits)

lemmas saved_next = savePlanState_Inr [OF saved_or_finish_Inr]

definition marked_running :: "gotime \<Rightarrow> Step \<Rightarrow> Step" where
  "marked_running now s = s\<lparr>ps_Status := StepStatusRunning, ps_StartedAt := Some now, ps_CompletedAt := None\<rparr>"

definition marked_done :: "gotime \<Rightarrow> Step \<Rightarrow> Step" where
  "marked_done now s = s\<lparr>ps_Status := StepStatusDone, ps_CompletedAt := Some now, ps_LastError := []\<rparr>"

definition marked_retry :: "string \<Rightarrow> Step \<Rightarrow> Step" where
  "marked_retry cause s = s\<lparr>ps_RetryCount := ps_RetryCount s + 1, ps_Status := StepStatusPending,
     ps_LastError := TrimSpace cause, ps_CompletedAt := None\<rparr>"

lemmas mark_at_step =
  MarkStepRunning_def [folded marked_running_def] MarkStepDone_def [folded marked_done_def]
  MarkStepRetry_def [folded marked_retry_def]

lemma batch_subset: "set (batch env p) \<subseteq> set (readyStepIndexes p)"
  by (simp add: batch_def set_take_subset)

lemma distinct_batch: "distinct (batch env p)"
  by (simp add: batch_def distinct_ready)

lemma limit_pos: "0 < maxParallelSteps extract configured p"
  by (auto simp: maxParallelSteps_def)

lemma batch_Nil: "batch env p = [] \<longleftrightarrow> readyStepIndexes p = []"
  using limit_pos [of "env_extract env" "env_MaxParallelSteps env" p] by (auto simp: batch_def)

lemma batch_ready:
  assumes "i \<in> set (batch env p)"
  shows "i < length (pl_Steps p)" "ps_Status (pl_Steps p ! i) = StepStatusPending"
    "dependenciesSatisfied p (pl_Steps p ! i)"
  using assms batch_subset ready_iff by blast+

lemma batch_fst [simp]: "map fst (executeReadyBatch env n p ixs) = ixs"
  by (simp add: executeReadyBatch_def comp_def)

lemma results_indexes:
  assumes "distinct (map fst rs)"
  shows "set (succeeded rs) \<union> set (map fst (failures rs)) = set (map fst rs)"
    "set (succeeded rs) \<inter> set (map fst (failures rs)) = {}" "distinct (succeeded rs)"
proof -
  show "distinct (succeeded rs)" using assms by (simp add: succeeded_def distinct_map_filter)
  show "set (succeeded rs) \<inter> set (map fst (failures rs)) = {}"
    using assms by (auto simp: succeeded_def failures_def distinct_map inj_on_def)
qed (auto simp: succeeded_def failures_def)

text \<open>The steps after a batch ran and its results are recorded.\<close>

lemma recorded_steps:
  fixes env n p ready
  defines "rs \<equiv> executeReadyBatch env n p ready"
  assumes st: "ex_plan st = p" and dist: "distinct ready"
  shows "length (pl_Steps (ex_plan (record_results env rs st))) = length (pl_Steps p)"
    and "j < length (pl_Steps p) \<Longrightarrow> pl_Steps (ex_plan (record_results env rs st)) ! j
      = (if j \<in> set (succeeded rs) then marked_done (env_now env (ex_round st)) (pl_Steps p ! j)
         else pl_Steps p ! j)"
  using results_indexes(3) [of rs] dist
  by (simp_all add: record_results_def st mark_at_step length_mark_batch nth_mark_batch rs_def)

lemma started_steps:
  assumes "distinct ready"
  shows "length (pl_Steps (ex_plan (start_batch env ready st))) = length (pl_Steps (ex_plan st))"
    and "j < length (pl_Steps (ex_plan st)) \<Longrightarrow> pl_Steps (ex_plan (start_batch env ready st)) ! j
      = (if j \<in> set ready then marked_running (env_now env (ex_round st)) (pl_Steps (ex_plan st) ! j)
         else pl_Steps (ex_plan st) ! j)"
  using assms by (simp_all add: start_batch_def mark_at_step length_mark_batch nth_mark_batch)

text \<open>A round that goes on: what it did to the steps.\<close>

definition ran :: "nat set \<Rightarrow> nat set \<Rightarrow> gotime \<Rightarrow> Step list \<Rightarrow> Step list \<Rightarrow> bool" where
  "ran ready good now before after \<longleftrightarrow>
     length after = length before \<and> good \<subseteq> ready
     \<and> (\<forall>j < length before. after ! j =
          (if j \<in> good then marked_done now (marked_running now (before ! j))
           else if j \<in> ready then marked_running now (before ! j) else before ! j))"

lemma run_batch_ran:
  assumes ready: "distinct ready" "set ready \<subseteq> {..<length (pl_Steps (ex_plan st))}"
    and st1: "saved_or_finish env SaveBatch k (start_batch env ready st) = Inr st1"
    and rs: "rs = executeReadyBatch env (ex_round st1) (ex_plan st1) ready"
    and st2: "saved_or_finish env SaveResults k' (record_results env rs st1) = Inr st2"
  shows "ran (set ready) (set (succeeded rs)) (env_now env (ex_round st))
      (pl_Steps (ex_plan st)) (pl_Steps (ex_plan st2))"
    "ex_round st2 = ex_round st" "ex_replans st2 = ex_replans st"
proof -
  have r1: "ex_round st1 = ex_round st" "ex_replans st1 = ex_replans st"
    "pl_Steps (ex_plan st1) = pl_Steps (ex_plan (start_batch env ready st))"
    using saved_next [OF st1] by (simp_all add: start_batch_def)
  have r2: "pl_Steps (ex_plan st2) = pl_Steps (ex_plan (record_results env rs st1))"
    "ex_round st2 = ex_round st" "ex_replans st2 = ex_replans st"
    using saved_next [OF st2] r1 by (simp_all add: record_results_def)
  have sub: "set (succeeded rs) \<subseteq> set ready"
    using results_indexes(1) [of rs] ready(1) by (simp add: rs) blast
  have len: "length (pl_Steps (ex_plan st1)) = length (pl_Steps (ex_plan st))"
    using r1(3) started_steps(1) [OF ready(1)] by simp
  have "pl_Steps (ex_plan st2) ! j =
      (if j \<in> set (succeeded rs) then marked_done (env_now env (ex_round st)) (pl_Steps (ex_plan st1) ! j)
       else pl_Steps (ex_plan st1) ! j)" if "j < length (pl_Steps (ex_plan st))" for j
    using recorded_steps(2) [OF refl ready(1), of j st1 env "ex_round st1"] that r1(1) r2(1) len
    by (simp add: rs)
  moreover have "pl_Steps (ex_plan st1) ! j =
      (if j \<in> set ready then marked_running (env_now env (ex_round st)) (pl_Steps (ex_plan st) ! j)
       else pl_Steps (ex_plan st) ! j)" if "j < length (pl_Steps (ex_plan st))" for j
    using started_steps(2) [OF ready(1) that] r1(3) by simp
  moreover have "length (pl_Steps (ex_plan st2)) = length (pl_Steps (ex_plan st))"
    using recorded_steps(1) [OF refl ready(1), of env "ex_round st1" st1] r2(1) len by (simp add: rs)
  ultimately show "ran (set ready) (set (succeeded rs)) (env_now env (ex_round st))
      (pl_Steps (ex_plan st)) (pl_Steps (ex_plan st2))"
    using sub by (auto simp: ran_def)
  show "ex_round st2 = ex_round st" "ex_replans st2 = ex_replans st" by (fact r2)+
qed

lemma fail_step_next:
  assumes "fail_step env i e st = Inr st'" "i < length (pl_Steps (ex_plan st))"
  obtains (retry) "ps_RetryCount (pl_Steps (ex_plan st) ! i) < ps_MaxRetries (pl_Steps (ex_plan st) ! i)"
      "pl_Steps (ex_plan st') = (pl_Steps (ex_plan st))[i := marked_retry (er_text e) (pl_Steps (ex_plan st) ! i)]"
      "ex_replans st' = ex_replans st"
  | (recovered) new where "ex_replans st < maxReplans (env_MaxReplans env)"
      "ex_replans st' = ex_replans st + 1"
      "pl_Steps (ex_plan st') = (pl_Steps (ex_plan st))[i := (pl_Steps (ex_plan st) ! i)
         \<lparr>ps_Status := StepStatusSkipped, ps_LastError := TrimSpace (er_text e)\<rparr>] @ new"
      "list_all (\<lambda>s. ps_Status s = StepStatusPending \<and> ps_RetryCount s = 0) new"
proof (cases "0 < ps_MaxRetries (pl_Steps (ex_plan st) ! i)
    \<and> ps_RetryCount (pl_Steps (ex_plan st) ! i) < ps_MaxRetries (pl_Steps (ex_plan st) ! i)
    \<and> env_ctx env (ex_round st) BeforeRetry = None")
  case True
  then have "saved_or_finish env SaveRetry (int i)
      (st\<lparr>ex_plan := MarkStepRetry (er_text e) (ex_plan st) (int i)\<rparr>) = Inr st'"
    using assms(1) by (simp add: fail_step_def Let_def)
  from saved_next [OF this] True assms(2) show thesis
    by (intro retry) (simp_all add: mark_at_step at_step_def hasStep_def)
next
  case False
  then obtain replacement where r: "recovery env i e st = Some replacement"
    and s: "saved_or_finish env SaveRecovery (int i)
      (st\<lparr>ex_plan := mergeRecoveryPlan (env_lower env) (env_uuid env (ex_round st))
            (ex_plan st) replacement (int i) (er_text e), ex_replans := ex_replans st + 1\<rparr>) = Inr st'"
    using assms(1) unfolding fail_step_def Let_def by (auto split: option.splits)
  obtain new where new: "pl_Steps (mergeRecoveryPlan (env_lower env) (env_uuid env (ex_round st))
        (ex_plan st) replacement (int i) (er_text e))
      = (pl_Steps (ex_plan st))[i := (pl_Steps (ex_plan st) ! i)
         \<lparr>ps_Status := StepStatusSkipped, ps_LastError := TrimSpace (er_text e)\<rparr>] @ new"
    "list_all (\<lambda>s. ps_Status s = StepStatusPending \<and> ps_RetryCount s = 0) new"
    using merge_prefix [OF assms(2)] by blast
  have "ex_replans st < maxReplans (env_MaxReplans env)"
    using r by (auto simp: recovery_def split: option.splits if_splits)
  then show thesis using saved_next [OF s] new by (intro recovered [of new]) simp_all
qed

lemma round_next:
  assumes "plan_round env st = Inr st'"
  obtains good q where "batch env (ex_plan st) \<noteq> []"
    "ran (set (batch env (ex_plan st))) good (env_now env (ex_round st)) (pl_Steps (ex_plan st)) q"
    "good = set (batch env (ex_plan st)) \<and> pl_Steps (ex_plan st') = q \<and> ex_replans st' = ex_replans st
     \<or> (\<exists>i cause. set (batch env (ex_plan st)) - good = {i} \<and> i < length q
          \<and> ps_RetryCount (q ! i) < ps_MaxRetries (q ! i)
          \<and> pl_Steps (ex_plan st') = q[i := marked_retry cause (q ! i)] \<and> ex_replans st' = ex_replans st)
     \<or> (\<exists>i cause new. set (batch env (ex_plan st)) - good = {i} \<and> i < length q
          \<and> pl_Steps (ex_plan st') = q[i := (q ! i)\<lparr>ps_Status := StepStatusSkipped, ps_LastError := cause\<rparr>] @ new
          \<and> list_all (\<lambda>s. ps_Status s = StepStatusPending \<and> ps_RetryCount s = 0) new
          \<and> ex_replans st < maxReplans (env_MaxReplans env) \<and> ex_replans st' = ex_replans st + 1)"
proof -
  let ?ready = "batch env (ex_plan st)"
  have ne: "readyStepIndexes (ex_plan st) \<noteq> []"
    using assms by (auto simp: plan_round_def Let_def split: option.splits if_splits)
  then have ne': "?ready \<noteq> []" by (simp add: batch_Nil)
  obtain st1 st3 where st1: "saved_or_finish env SaveBatch (int (hd ?ready)) (start_batch env ?ready st) = Inr st1"
    and st3: "run_batch env ?ready st1 = Inr st3" and st': "st' = st3\<lparr>ex_round := ex_round st3 + 1\<rparr>"
    using assms ne by (auto simp: plan_round_def Let_def split: option.splits sum.splits)
  define rs where "rs = executeReadyBatch env (ex_round st1) (ex_plan st1) ?ready"
  obtain st2 where st2: "saved_or_finish env SaveResults (-1) (record_results env rs st1) = Inr st2"
    using st3 by (auto simp: run_batch_def Let_def rs_def split: sum.splits)
  have sub: "set ?ready \<subseteq> {..<length (pl_Steps (ex_plan st))}" using batch_ready(1) by blast
  note ran = run_batch_ran [OF distinct_batch sub st1 rs_def st2]
  have split: "set (succeeded rs) \<union> set (map fst (failures rs)) = set ?ready"
    "set (succeeded rs) \<inter> set (map fst (failures rs)) = {}"
    using results_indexes(1,2) [of rs] distinct_batch [of env "ex_plan st"] by (simp_all add: rs_def)
  have len: "length (pl_Steps (ex_plan st2)) = length (pl_Steps (ex_plan st))"
    using ran(1) by (simp add: ran_def)
  show thesis
  proof (cases "failures rs")
    case Nil
    then have "st3 = st2" using st3 st2 by (simp add: run_batch_def Let_def rs_def)
    then show thesis using that [OF ne' ran(1)] split Nil ran(3) st' by simp
  next
    case (Cons f fs)
    obtain i e where f: "f = (i, e)" by (cases f)
    have fs: "fs = []" using st3 st2 Cons f
      by (cases fs) (simp_all add: run_batch_def Let_def rs_def)
    have step: "fail_step env i e st2 = Inr st3"
      using st3 st2 Cons f fs by (simp add: run_batch_def Let_def rs_def)
    have one: "set ?ready - set (succeeded rs) = {i}" using split Cons f fs by auto
    then have i: "i < length (pl_Steps (ex_plan st2))" using sub len by auto
    from step i show thesis
    proof (cases rule: fail_step_next)
      case retry
      then show thesis using that [OF ne' ran(1)] one i st' ran(3) by auto
    next
      case (recovered new)
      then show thesis using that [OF ne' ran(1)] one i st' ran(3) by auto
    qed
  qed
qed

lemma step_work_marks [simp]:
  "step_work (marked_running now s) = 0" "step_work (marked_done now s) = 0"
  "step_work (s\<lparr>ps_Status := StepStatusSkipped, ps_LastError := c\<rparr>) = 0"
  by (simp_all add: step_work_def marked_running_def marked_done_def)

lemma step_work_retry:
  "ps_RetryCount s < ps_MaxRetries s \<Longrightarrow> ps_Status t = StepStatusPending \<Longrightarrow>
    ps_RetryCount t = ps_RetryCount s \<Longrightarrow> ps_MaxRetries t = ps_MaxRetries s \<Longrightarrow>
    step_work (marked_retry c s) < step_work t"
  by (simp add: step_work_def marked_retry_def)

lemma marks_keep [simp]:
  "ps_RetryCount (marked_running now s) = ps_RetryCount s" "ps_MaxRetries (marked_running now s) = ps_MaxRetries s"
  "ps_RetryCount (marked_done now s) = ps_RetryCount s" "ps_MaxRetries (marked_done now s) = ps_MaxRetries s"
  by (simp_all add: marked_running_def marked_done_def)

text \<open>A round that does not replan uses up an attempt of a step of its batch.\<close>

lemma round_progress:
  assumes "plan_round env st = Inr st'"
  shows "ex_replans st' = ex_replans st \<and> plan_work (ex_plan st') < plan_work (ex_plan st)
    \<or> ex_replans st < maxReplans (env_MaxReplans env) \<and> ex_replans st' = ex_replans st + 1"
  using assms
proof (cases rule: round_next)
  case (1 good q)
  let ?p = "ex_plan st" and ?r = "batch env (ex_plan st)" and ?p' = "ex_plan st'"
  have q: "length q = length (pl_Steps ?p)" "good \<subseteq> set ?r"
    "\<And>j. j < length (pl_Steps ?p) \<Longrightarrow> q ! j =
          (if j \<in> good then marked_done (env_now env (ex_round st)) (marked_running (env_now env (ex_round st)) (pl_Steps ?p ! j))
           else if j \<in> set ?r then marked_running (env_now env (ex_round st)) (pl_Steps ?p ! j) else pl_Steps ?p ! j)"
    using 1(2) by (auto simp: ran_def)
  have le: "step_work (q ! j) \<le> step_work (pl_Steps ?p ! j)" if "j < length (pl_Steps ?p)" for j
    using q(3) [OF that] by simp
  obtain k where k: "k \<in> set ?r" using 1(1) by (meson last_in_set)
  have pos: "0 < step_work (pl_Steps ?p ! j)" if "j \<in> set ?r" for j
    using batch_ready(2) [OF that] by (simp add: step_work_def)
  from 1(3) show ?thesis
  proof (elim disjE exE conjE)
    assume "pl_Steps ?p' = q" "ex_replans st' = ex_replans st" "good = set ?r"
    moreover from this have "plan_work ?p' < plan_work ?p"
      using k q le pos [OF k] batch_ready(1) [OF k] by (intro plan_work_less [where k = k]) simp_all
    ultimately show ?thesis by simp
  next
    fix i cause
    assume i: "set ?r - good = {i}" "i < length q" "ps_RetryCount (q ! i) < ps_MaxRetries (q ! i)"
      and st': "pl_Steps ?p' = q[i := marked_retry cause (q ! i)]" "ex_replans st' = ex_replans st"
    have ir: "i \<in> set ?r" "i \<notin> good" using i(1) by auto
    have less: "step_work (marked_retry cause (q ! i)) < step_work (pl_Steps ?p ! i)"
      using i q(3) [of i] ir q(1) batch_ready(2) [OF ir(1)] by (intro step_work_retry) simp_all
    have "plan_work ?p' < plan_work ?p"
      by (rule plan_work_less [where k = i])
        (use st' q(1) i le less in \<open>auto simp: nth_list_update less_imp_le\<close>)
    then show ?thesis using st' by simp
  qed simp
qed

section \<open>The loop\<close>

function plan_loop :: "('x, 'y) PlanEnv \<Rightarrow> ('x, 'y) Exec \<Rightarrow> ('x, 'y) ended" where
  "plan_loop env st = (case plan_round env st of Inl r \<Rightarrow> r | Inr st' \<Rightarrow> plan_loop env st')"
  by pat_completeness auto
termination
proof (relation "measures [\<lambda>(env, st). nat (maxReplans (env_MaxReplans env) - ex_replans st),
                           \<lambda>(env, st). plan_work (ex_plan st)]", goal_cases)
  case (2 env st st')
  from round_progress [OF 2] show ?case by auto
qed simp

declare plan_loop.simps [simp del]

text \<open>
  The whole call. \<open>load\<close> is the session loader: the session's identifier and its current plan.
\<close>

datatype 'e plan_refusal =
    PlanSessionEmpty
  | PlanLoadFailed 'e
  | SessionHasNoPlan
  | PlanHasNoSteps
  | PlanNotExecutable string
  | PlanApprovalFailed exec_error

definition no_usage :: TokenUsage where
  "no_usage = TokenUsage 0 0 0 0 False 0"

definition initial_exec :: "string \<Rightarrow> Plan \<Rightarrow> ('x, 'y) Exec" where
  "initial_exec sessionID p =
     \<lparr>ex_plan = p, ex_live = p, ex_published = [], ex_round = 0, ex_currentStep = 0, ex_replans = 0,
      ex_combined = \<lparr>gr_SessionID = sessionID,
        gr_Result = \<lparr>cr_Content = [], cr_Reasoning = [], cr_Usage = no_usage, cr_ToolCalls = []\<rparr>,
        gr_Context = None\<rparr>\<rparr>"

definition approve :: "('x, 'y) PlanEnv \<Rightarrow> ('x, 'y) Exec \<Rightarrow> exec_error + ('x, 'y) Exec" where
  "approve env st =
     (if pl_Status (ex_plan st) = StatusApproved then Inr st
      else savePlanState env SaveApproved (st\<lparr>ex_plan := Plan_Approve (ex_plan st)\<rparr>))"

definition start_plan :: "('x, 'y) PlanEnv \<Rightarrow> ('x, 'y) Exec \<Rightarrow> ('x, 'y) ended" where
  "start_plan env st =
     (case saved_or_finish env SaveStarted (-1) (st\<lparr>ex_plan := Plan_Start (ex_plan st)\<rparr>) of
        Inl r \<Rightarrow> r | Inr st' \<Rightarrow> plan_loop env st')"

definition Execute ::
  "('x, 'y) PlanEnv \<Rightarrow> (string \<Rightarrow> 'e + string \<times> Plan option) \<Rightarrow> string
     \<Rightarrow> 'e plan_refusal + ('x, 'y) ended" where
  "Execute env load session =
     (let sessionID = TrimSpace session
      in if sessionID = [] then Inl PlanSessionEmpty
         else case load sessionID of
           Inl e \<Rightarrow> Inl (PlanLoadFailed e)
         | Inr (currentID, None) \<Rightarrow> Inl SessionHasNoPlan
         | Inr (currentID, Some p) \<Rightarrow>
             (if pl_Steps p = [] then Inl PlanHasNoSteps
              else if \<not> IsExecutableStatus (pl_Status p) then Inl (PlanNotExecutable (pl_Status p))
              else case approve env (initial_exec currentID p) of
                Inl e \<Rightarrow> Inl (PlanApprovalFailed e)
              | Inr st \<Rightarrow> Inr (start_plan env st)))"

section \<open>Dependency order\<close>

text \<open>
  A step runs or is done only after its dependencies: the invariant of the loop. A round changes
  neither the identity of the steps there are nor a finished step.
\<close>

definition ordered_plan :: "Plan \<Rightarrow> bool" where
  "ordered_plan p \<longleftrightarrow>
     (\<forall>s \<in> set (pl_Steps p). ps_Status s = StepStatusRunning \<or> ps_Status s = StepStatusDone
        \<longrightarrow> dependenciesSatisfied p s)"

definition step_kept :: "Step \<Rightarrow> Step \<Rightarrow> bool" where
  "step_kept s t \<longleftrightarrow> ps_ID t = ps_ID s \<and> ps_Order t = ps_Order s \<and> ps_Dependencies t = ps_Dependencies s
     \<and> (finished s \<longrightarrow> finished t)"

definition steps_kept :: "Step list \<Rightarrow> Step list \<Rightarrow> bool" where
  "steps_kept xs ys \<longleftrightarrow> length xs \<le> length ys \<and> (\<forall>i < length xs. step_kept (xs ! i) (ys ! i))"

lemma find_kept:
  assumes "steps_kept xs ys" "\<And>s t. step_kept s t \<Longrightarrow> Q t = Q s" "find Q xs = Some s"
  shows "\<exists>t. find Q ys = Some t \<and> step_kept s t"
proof -
  obtain i where i: "i < length xs" "Q (xs ! i)" "s = xs ! i" "\<forall>j < i. \<not> Q (xs ! j)"
    using assms(3) by (auto simp: find_Some_iff)
  have "\<forall>j < length xs. Q (ys ! j) = Q (xs ! j)" "length xs \<le> length ys"
    using assms(1,2) by (auto simp: steps_kept_def)
  with i have "find Q ys = Some (ys ! i)" by (auto simp: find_Some_iff intro!: exI [of _ i])
  then show ?thesis using assms(1) i by (auto simp: steps_kept_def)
qed

lemma dependencies_kept:
  assumes kept: "steps_kept (pl_Steps p) (pl_Steps q)" and "dependenciesSatisfied p s"
    and s: "ps_Dependencies t = ps_Dependencies s"
  shows "dependenciesSatisfied q t"
  unfolding dependenciesSatisfied_def list_all_iff s
proof
  fix d
  assume "d \<in> set (ps_Dependencies s)"
  with assms(2) obtain c where c: "dependency_step p d = Some c" "finished c"
    by (auto simp: dependenciesSatisfied_def list_all_iff split: option.splits)
  have "\<exists>c'. dependency_step q d = Some c' \<and> step_kept c c'"
    using c(1) unfolding dependency_step_def Let_def
    by (intro find_kept [OF kept]) (auto simp: step_kept_def)
  with c(2) show "case dependency_step q d of None \<Rightarrow> False | Some c \<Rightarrow> finished c"
    by (auto simp: step_kept_def)
qed

lemma step_kept_marks:
  "\<not> finished s \<Longrightarrow> step_kept s (marked_running now s)"
  "step_kept s s"
  "step_kept s (marked_done now (marked_running now s))"
  "\<not> finished s \<Longrightarrow> step_kept s (marked_retry c (marked_running now s))"
  "step_kept s ((marked_running now s)\<lparr>ps_Status := StepStatusSkipped, ps_LastError := c\<rparr>)"
  by (auto simp: step_kept_def marked_running_def marked_done_def marked_retry_def finished_def)

lemma round_steps:
  assumes "plan_round env st = Inr st'" and j: "j < length (pl_Steps (ex_plan st))"
  shows "step_kept (pl_Steps (ex_plan st) ! j) (pl_Steps (ex_plan st') ! j)"
    "j \<notin> set (batch env (ex_plan st)) \<Longrightarrow> pl_Steps (ex_plan st') ! j = pl_Steps (ex_plan st) ! j"
proof -
  let ?p = "ex_plan st" and ?r = "batch env (ex_plan st)"
  from assms(1) have "step_kept (pl_Steps ?p ! j) (pl_Steps (ex_plan st') ! j)
      \<and> (j \<notin> set ?r \<longrightarrow> pl_Steps (ex_plan st') ! j = pl_Steps ?p ! j)"
  proof (cases rule: round_next)
    case (1 good q)
    let ?now = "env_now env (ex_round st)"
    have len: "length q = length (pl_Steps ?p)" using 1(2) by (simp add: ran_def)
    have good: "good \<subseteq> set ?r" using 1(2) by (simp add: ran_def)
    have q: "q ! j = (if j \<in> good then marked_done ?now (marked_running ?now (pl_Steps ?p ! j))
             else if j \<in> set ?r then marked_running ?now (pl_Steps ?p ! j) else pl_Steps ?p ! j)"
      using 1(2) j by (simp add: ran_def)
    have unfinished: "\<not> finished (pl_Steps ?p ! j)" if "j \<in> set ?r"
      using batch_ready(2) [OF that] by (simp add: finished_def)
    have kq: "step_kept (pl_Steps ?p ! j) (q ! j)" using q unfinished by (simp add: step_kept_marks)
    from 1(3) show ?thesis
    proof (elim disjE exE conjE)
      assume "pl_Steps (ex_plan st') = q"
      then show ?thesis using kq q good by auto
    next
      fix i cause
      assume a: "set ?r - good = {i}" "i < length q" "pl_Steps (ex_plan st') = q[i := marked_retry cause (q ! i)]"
      show ?thesis
      proof (cases "i = j")
        case True
        then have "j \<in> set ?r" "j \<notin> good" using a(1) by auto
        then show ?thesis using a True q unfinished by (simp add: step_kept_marks)
      qed (use a kq q good in \<open>auto simp: nth_list_update\<close>)
    next
      fix i cause new
      assume a: "set ?r - good = {i}" "i < length q"
        "pl_Steps (ex_plan st') = q[i := (q ! i)\<lparr>ps_Status := StepStatusSkipped, ps_LastError := cause\<rparr>] @ new"
      show ?thesis
      proof (cases "i = j")
        case True
        then have "j \<in> set ?r" "j \<notin> good" using a(1) by auto
        then show ?thesis using a True q len j by (simp add: nth_append step_kept_marks)
      qed (use a kq q good len j in \<open>auto simp: nth_list_update nth_append\<close>)
    qed
  qed
  then show "step_kept (pl_Steps (ex_plan st) ! j) (pl_Steps (ex_plan st') ! j)"
    "j \<notin> set (batch env (ex_plan st)) \<Longrightarrow> pl_Steps (ex_plan st') ! j = pl_Steps (ex_plan st) ! j"
    by simp_all
qed

lemma round_new_steps:
  assumes "plan_round env st = Inr st'"
  shows "length (pl_Steps (ex_plan st)) \<le> length (pl_Steps (ex_plan st'))"
    "\<lbrakk>length (pl_Steps (ex_plan st)) \<le> j; j < length (pl_Steps (ex_plan st'))\<rbrakk>
      \<Longrightarrow> ps_Status (pl_Steps (ex_plan st') ! j) = StepStatusPending"
proof -
  let ?n = "length (pl_Steps (ex_plan st))" and ?p' = "ex_plan st'"
  from assms have "?n \<le> length (pl_Steps ?p')
    \<and> (\<forall>j. ?n \<le> j \<and> j < length (pl_Steps ?p') \<longrightarrow> ps_Status (pl_Steps ?p' ! j) = StepStatusPending)"
  proof (cases rule: round_next)
    case (1 good q)
    then have len: "length q = ?n" by (simp add: ran_def)
    have tail: "ps_Status ((ys @ new) ! j) = StepStatusPending"
      if "length ys = ?n" "list_all (\<lambda>s. ps_Status s = StepStatusPending \<and> ps_RetryCount s = 0) new"
        "?n \<le> j" "j < ?n + length new" for ys new j
      using that by (simp add: nth_append list_all_length)
    from 1(3) show ?thesis
      by (elim disjE exE conjE) (auto simp: len tail)
  qed
  then show "?n \<le> length (pl_Steps ?p')"
    "\<lbrakk>?n \<le> j; j < length (pl_Steps ?p')\<rbrakk> \<Longrightarrow> ps_Status (pl_Steps ?p' ! j) = StepStatusPending"
    by simp_all
qed

lemma round_kept:
  assumes "plan_round env st = Inr st'"
  shows "steps_kept (pl_Steps (ex_plan st)) (pl_Steps (ex_plan st'))"
  using round_steps(1) [OF assms] round_new_steps(1) [OF assms] by (simp add: steps_kept_def)

text \<open>A step of the batch ends the round pending again, or it has run after its dependencies.\<close>

lemma round_ordered:
  assumes next_round: "plan_round env st = Inr st'" and "ordered_plan (ex_plan st)"
  shows "ordered_plan (ex_plan st')"
  unfolding ordered_plan_def
proof (intro ballI impI)
  fix t
  assume "t \<in> set (pl_Steps (ex_plan st'))"
    and status: "ps_Status t = StepStatusRunning \<or> ps_Status t = StepStatusDone"
  then obtain j where j: "j < length (pl_Steps (ex_plan st'))" "t = pl_Steps (ex_plan st') ! j"
    by (auto simp: in_set_conv_nth)
  then have old: "j < length (pl_Steps (ex_plan st))"
    using round_new_steps(2) [OF next_round, of j] status by (cases "j < length (pl_Steps (ex_plan st))") auto
  let ?s = "pl_Steps (ex_plan st) ! j"
  have "dependenciesSatisfied (ex_plan st) ?s"
  proof (cases "j \<in> set (batch env (ex_plan st))")
    case True
    then show ?thesis by (rule batch_ready(3))
  next
    case False
    with status j round_steps(2) [OF next_round old] assms(2) old show ?thesis
      by (auto simp: ordered_plan_def)
  qed
  then show "dependenciesSatisfied (ex_plan st') t"
    using round_steps(1) [OF next_round old] j
    by (intro dependencies_kept [OF round_kept [OF next_round], of ?s]) (simp_all add: step_kept_def)
qed

text \<open>The rounds as an operation machine, whose finished steps only grow.\<close>

definition next_round :: "('x, 'y) PlanEnv \<Rightarrow> ('x, 'y) Exec \<Rightarrow> unit \<Rightarrow> ('x, 'y) Exec" where
  "next_round env st u = (case plan_round env st of Inl r \<Rightarrow> st | Inr st' \<Rightarrow> st')"

definition finished_steps :: "('x, 'y) Exec \<Rightarrow> nat set" where
  "finished_steps st = {j. j < length (pl_Steps (ex_plan st)) \<and> finished (pl_Steps (ex_plan st) ! j)}"

lemma next_round_ordered:
  "ordered_plan (ex_plan st) \<Longrightarrow> ordered_plan (ex_plan (next_round env st u))"
  by (auto simp: next_round_def round_ordered split: sum.split)

lemma next_round_finished: "finished_steps st \<le> finished_steps (next_round env st u)"
proof (cases "plan_round env st")
  case (Inr st')
  from round_kept [OF this] show ?thesis
    by (auto simp: next_round_def Inr finished_steps_def steps_kept_def step_kept_def)
qed (simp add: next_round_def)

interpretation rounds: monotone_machine "next_round env" "\<lambda>st. ordered_plan (ex_plan st)" finished_steps for env
  by unfold_locales (rule next_round_ordered next_round_finished, assumption?)+

section \<open>Properties\<close>


text \<open>What an ended execution leaves, wherever it ended.\<close>

definition settled :: "('x, 'y) ended \<Rightarrow> bool" where
  "settled r \<longleftrightarrow> (case r of
       ExecDone st \<Rightarrow> allStepsTerminal (ex_plan st) \<and> pl_Status (ex_plan st) = StatusDone
         \<and> ex_live st = ex_plan st
     | ExecFailed e st \<Rightarrow> pl_Status (ex_live st) \<in> {StatusFailed, StatusCanceled})"

lemma settled_simps [simp]:
  "settled (ExecDone st) \<longleftrightarrow> allStepsTerminal (ex_plan st) \<and> pl_Status (ex_plan st) = StatusDone
     \<and> ex_live st = ex_plan st"
  "settled (ExecFailed e st) \<longleftrightarrow> pl_Status (ex_live st) \<in> {StatusFailed, StatusCanceled}"
  by (simp_all add: settled_def)

lemma mark_failed_status [simp]: "pl_Status (MarkStepFailed now c p i) = StatusFailed"
  by (simp add: MarkStepFailed_def)

lemma settled_finish: "settled (finishWithError env i cause st)"
  using savePlanState_Inr(2,3) [of env SaveTerminal]
  by (auto simp: finishWithError_def Let_def Plan_MarkCanceled_def split: sum.split)

lemma settled_saved: "saved_or_finish env pt i st = Inl r \<Longrightarrow> settled r"
  by (auto simp: saved_or_finish_def settled_finish split: sum.splits)

lemma foldl_failed_status:
  "fs \<noteq> [] \<Longrightarrow> pl_Status (foldl (\<lambda>p (i, e). MarkStepFailed now (er_text e) p (int i)) p fs) = StatusFailed"
  by (induction fs rule: rev_induct) (auto simp: split_beta)

lemma settled_branches: "fs \<noteq> [] \<Longrightarrow> settled (fail_branches env fs i cause st)"
  using savePlanState_Inr(2,3) [of env SaveBranches]
  by (auto simp: fail_branches_def Let_def settled_finish foldl_failed_status split: sum.split)

lemma settled_step: "fail_step env i e st = Inl r \<Longrightarrow> settled r"
  by (auto simp: fail_step_def Let_def settled_saved settled_finish split: if_splits option.splits)

lemma settled_batch:
  assumes "run_batch env ready st = Inl r"
  shows "settled r"
proof (cases "saved_or_finish env SaveResults (-1)
    (record_results env (executeReadyBatch env (ex_round st) (ex_plan st) ready) st)")
  case (Inl r')
  then show ?thesis using assms settled_saved by (simp add: run_batch_def Let_def)
next
  case (Inr st1)
  then show ?thesis using assms
    by (auto simp: run_batch_def Let_def intro: settled_step settled_branches split: list.splits)
qed

lemma settled_complete:
  assumes "allStepsTerminal (ex_plan st)"
  shows "settled (complete env st)"
proof (cases "saved_or_finish env SaveDone (-1) (st\<lparr>ex_plan := Plan_MarkDone (ex_plan st)\<rparr>)")
  case (Inl r)
  then show ?thesis using settled_saved by (simp add: complete_def)
next
  case (Inr st')
  from saved_next [OF this] assms show ?thesis
    unfolding complete_def Inr by (simp add: Plan_MarkDone_def allStepsTerminal_def)
qed

lemma settled_round: "plan_round env st = Inl r \<Longrightarrow> settled r"
  by (auto simp: plan_round_def Let_def settled_finish settled_complete settled_saved settled_batch
      split: option.splits if_splits sum.splits)

lemma settled_loop: "settled (plan_loop env st)"
  by (induction env st rule: plan_loop.induct)
    (subst plan_loop.simps, auto simp: settled_round split: sum.split)

lemma steps_kept_trans: "steps_kept xs ys \<Longrightarrow> steps_kept ys zs \<Longrightarrow> steps_kept xs zs"
  by (auto simp: steps_kept_def step_kept_def)

lemma finish_not_done [simp]: "finishWithError env i e st \<noteq> ExecDone st'"
  by (auto simp: finishWithError_def Let_def split: sum.splits)

lemma saved_not_done [simp]: "saved_or_finish env pt i st \<noteq> Inl (ExecDone st')"
  by (auto simp: saved_or_finish_def split: sum.splits)

lemma round_done:
  assumes "plan_round env st = Inl (ExecDone st')"
  shows "pl_Steps (ex_plan st') = pl_Steps (ex_plan st)"
proof -
  have "fail_step env i e st1 \<noteq> Inl (ExecDone st')" for i e st1
    by (auto simp: fail_step_def Let_def split: if_splits option.splits)
  moreover have "fail_branches env fs i e st1 \<noteq> ExecDone st'" for fs i e st1
    by (auto simp: fail_branches_def Let_def split: sum.splits)
  ultimately have "run_batch env ready st1 \<noteq> Inl (ExecDone st')" for ready st1
    by (auto simp: run_batch_def Let_def split: sum.splits list.splits)
  then have "complete env st = ExecDone st'"
    using assms by (auto simp: plan_round_def Let_def split: option.splits if_splits sum.splits)
  then obtain "saved_or_finish env SaveDone (-1) (st\<lparr>ex_plan := Plan_MarkDone (ex_plan st)\<rparr>) = Inr st'"
    by (auto simp: complete_def split: sum.splits)
  from saved_next(1) [OF this] show ?thesis by (simp add: Plan_MarkDone_def)
qed

lemma loop_kept: "plan_loop env st = ExecDone st' \<Longrightarrow> steps_kept (pl_Steps (ex_plan st)) (pl_Steps (ex_plan st'))"
proof (induction env st rule: plan_loop.induct)
  case (1 env st)
  show ?case
  proof (cases "plan_round env st")
    case (Inl r)
    with "1.prems" have "plan_round env st = Inl (ExecDone st')" by (simp add: plan_loop.simps)
    from round_done [OF this] show ?thesis by (simp add: steps_kept_def step_kept_marks)
  next
    case (Inr st1)
    with 1 have "steps_kept (pl_Steps (ex_plan st1)) (pl_Steps (ex_plan st'))"
      by (simp add: plan_loop.simps)
    with round_kept [OF Inr] show ?thesis by (rule steps_kept_trans)
  qed
qed


text \<open>
  A deadline that passes between two rounds marks the last step that was started as failed,
  although it is done: the execution ends in failure, the session keeps the done step as failed,
  and the next execution of the plan runs it again.
\<close>

theorem deadline_fails_finished_step:
  assumes "env_ctx env (ex_round st) LoopHead = Some e" "\<not> er_canceled e"
    and "ex_currentStep st = int k + 1" "k < length (pl_Steps (ex_plan st))"
    and "ps_Status (pl_Steps (ex_plan st) ! k) = StepStatusDone"
  shows "\<exists>e' st'. plan_round env st = Inl (ExecFailed e' st')
    \<and> ps_Status (pl_Steps (ex_live st') ! k) = StepStatusFailed
    \<and> ps_Status (pl_Steps (Plan_Start (ex_live st')) ! k) = StepStatusPending"
proof -
  let ?p = "MarkStepFailed (env_now env (ex_round st)) (er_text e) (ex_plan st) (int k)"
  have len: "k < length (pl_Steps ?p)" and failed: "ps_Status (pl_Steps ?p ! k) = StepStatusFailed"
    using assms(4) by (simp_all add: MarkStepFailed_def nth_at_step)
  obtain e' st' where r: "finishWithError env (int k) e st = ExecFailed e' st'"
    by (cases "finishWithError env (int k) e st") auto
  have "pl_Steps (ex_live st') = pl_Steps ?p"
    using r assms(2) savePlanState_Inr(1,3) [of env SaveTerminal "st\<lparr>ex_plan := ?p\<rparr>"]
    by (auto simp: finishWithError_def Let_def split: sum.splits)
  then show ?thesis
    using r assms(1,3) len failed
    by (auto simp: plan_round_def Plan_Start_def finished_def)
qed

text \<open>
  A recovery that repeats titles of the plan counts as success: the failed step is skipped,
  nothing replaces it, and when it was the last one the plan is reported as done.
\<close>

theorem repeated_recovery_completes_failed_plan:
  assumes "env_store env = None" "\<And>n c. env_ctx env n c = None"
    and i: "i < length (pl_Steps (ex_plan st))"
    and no_retry: "ps_MaxRetries (pl_Steps (ex_plan st) ! i) \<le> ps_RetryCount (pl_Steps (ex_plan st) ! i)"
    and recovered: "recovery env i cause st = Some r"
    and repeats: "\<forall>s \<in> set (pl_Steps r). title_key (env_lower env) s
      \<in> title_key (env_lower env) ` set (pl_Steps (ex_plan st))"
    and last_step: "\<forall>j < length (pl_Steps (ex_plan st)). j \<noteq> i \<longrightarrow> finished (pl_Steps (ex_plan st) ! j)"
  shows "\<exists>st1 st2. fail_step env i cause st = Inr st1 \<and> plan_loop env st1 = ExecDone st2
    \<and> pl_Status (ex_plan st2) = StatusDone
    \<and> length (pl_Steps (ex_plan st2)) = length (pl_Steps (ex_plan st))
    \<and> ps_Status (pl_Steps (ex_plan st2) ! i) = StepStatusSkipped"
proof -
  let ?low = "env_lower env" and ?steps = "pl_Steps (ex_plan st)"
  let ?s = "(?steps ! i)\<lparr>ps_Status := StepStatusSkipped, ps_LastError := TrimSpace (er_text cause)\<rparr>"
  let ?m = "mergeRecoveryPlan ?low (env_uuid env (ex_round st)) (ex_plan st) r (int i) (er_text cause)"
  have key: "title_key ?low ?s = title_key ?low (?steps ! i)" by (simp add: title_key_def)
  have "map (title_key ?low) (?steps[i := ?s]) = map (title_key ?low) ?steps"
    using i by (simp add: map_update key) (metis length_map list_update_id nth_map)
  then have merged: "pl_Steps ?m = ?steps[i := ?s]"
    using i repeats unfolding mergeRecoveryPlan_def Let_def
    by (simp add: at_step_def hasStep_def merge_steps_repeats list_all_iff del: merge_steps.simps)
  define st1 where "st1 = (let p = ?m\<lparr>pl_Revision := pl_Revision ?m + 1\<rparr>
    in st\<lparr>ex_plan := p, ex_live := p, ex_published := ex_published st @ [p], ex_replans := ex_replans st + 1\<rparr>)"
  have fail: "fail_step env i cause st = Inr st1"
    using no_retry recovered assms(1)
    by (simp add: fail_step_def Let_def saved_or_finish_def savePlanState_def st1_def)
  have steps1: "pl_Steps (ex_plan st1) = ?steps[i := ?s]" using merged by (simp add: st1_def Let_def)
  have fin: "finished (?steps[i := ?s] ! j)" if "j < length ?steps" for j
    using last_step that by (cases "j = i") (simp_all add: finished_def)
  then have "allStepsTerminal (ex_plan st1)"
    by (simp add: allStepsTerminal_def steps1 list_all_length)
  moreover have "readyStepIndexes (ex_plan st1) = []"
  proof -
    have "ps_Status (?steps[i := ?s] ! j) \<noteq> StepStatusPending" if "j < length ?steps" for j
      using fin [OF that] by (auto simp: finished_def)
    then show ?thesis by (auto simp: readyStepIndexes_def steps1 filter_empty_conv)
  qed
  moreover obtain st2 where "complete env st1 = ExecDone st2" "pl_Steps (ex_plan st2) = ?steps[i := ?s]"
      "pl_Status (ex_plan st2) = StatusDone"
    using assms(1) steps1
    by (simp add: complete_def saved_or_finish_def savePlanState_def Let_def Plan_MarkDone_def)
  ultimately have "plan_loop env st1 = ExecDone st2"
    using assms(2) by (simp add: plan_loop.simps plan_round_def Let_def)
  then show ?thesis
    using fail i \<open>pl_Steps (ex_plan st2) = _\<close> \<open>pl_Status (ex_plan st2) = _\<close> by auto
qed

section \<open>Witnesses\<close>

definition sample_step :: "string \<Rightarrow> string list \<Rightarrow> string \<Rightarrow> Step" where
  "sample_step i deps status =
     \<lparr>ps_ID = i, ps_Order = 1, ps_Title = i, ps_Description = [], ps_Dependencies = deps,
      ps_Status = status, ps_RetryCount = 0, ps_MaxRetries = 0, ps_LastError = [], ps_AgentTaskID = [],
      ps_StartedAt = None, ps_CompletedAt = None\<rparr>"

definition sample_plan :: "Step list \<Rightarrow> Plan" where
  "sample_plan steps =
     \<lparr>pl_ID = ''p'', pl_SessionID = ''s'', pl_Goal = ''g'', pl_Status = StatusDraft, pl_Revision = 0,
      pl_RawContent = [], pl_Steps = steps, pl_CreatedAt = 1, pl_UpdatedAt = 1\<rparr>"

definition sample_env :: "(nat \<Rightarrow> ctx_point \<Rightarrow> exec_error option) \<Rightarrow> (unit, unit) PlanEnv" where
  "sample_env ctx =
     \<lparr>env_now = (\<lambda>_. 5), env_store = None, env_ctx = ctx,
      env_generate = (\<lambda>_ _ _. Inl \<lparr>er_text = ''x'', er_canceled = False\<rparr>),
      env_recover = Some (\<lambda>p s e n. Some p), env_uuid = (\<lambda>_ _. ''u''), env_lower = id,
      env_extract = (\<lambda>_. []), env_MaxReplans = 0, env_MaxParallelSteps = 3\<rparr>"

lemmas sample_plan_defs = sample_step_def sample_plan_def sample_env_def initial_exec_def



theorem deadline_fails_finished_step_witness:
  "\<exists>e' st'. plan_round (sample_env (\<lambda>_ _. Some \<lparr>er_text = ''deadline'', er_canceled = False\<rparr>))
      ((initial_exec ''s'' (sample_plan [sample_step ''a'' [] StepStatusDone]))\<lparr>ex_currentStep := 1\<rparr>)
      = Inl (ExecFailed e' st') \<and> ps_Status (pl_Steps (ex_live st') ! 0) = StepStatusFailed"
  using deadline_fails_finished_step [of "sample_env (\<lambda>_ _. Some \<lparr>er_text = ''deadline'', er_canceled = False\<rparr>)"
      "(initial_exec ''s'' (sample_plan [sample_step ''a'' [] StepStatusDone]))\<lparr>ex_currentStep := 1\<rparr>"
      "\<lparr>er_text = ''deadline'', er_canceled = False\<rparr>" 0]
  by (auto simp: sample_plan_defs)

theorem repeated_recovery_completes_failed_plan_witness:
  "\<exists>st1 st2. fail_step (sample_env (\<lambda>_ _. None)) 0 \<lparr>er_text = ''x'', er_canceled = False\<rparr>
      (initial_exec ''s'' (sample_plan [sample_step ''a'' [] StepStatusRunning])) = Inr st1
    \<and> plan_loop (sample_env (\<lambda>_ _. None)) st1 = ExecDone st2 \<and> pl_Status (ex_plan st2) = StatusDone"
  using repeated_recovery_completes_failed_plan [of "sample_env (\<lambda>_ _. None)" 0
      "initial_exec ''s'' (sample_plan [sample_step ''a'' [] StepStatusRunning])"
      "\<lparr>er_text = ''x'', er_canceled = False\<rparr>" "sample_plan [sample_step ''a'' [] StepStatusRunning]"]
  by (fastforce simp: sample_plan_defs recovery_def maxReplans_def)

end
