(* ===== verification/ChatMessage.thy ===== *)
theory ChatMessage
  imports GoJson
begin

text \<open>
  \<open>core/domain/message/message.go\<close>: chat messages, their parts and their synthetic kinds, and the
  tool results of \<open>core/domain/tool/execution_entry.go\<close>. Roles, part types, reasons and statuses
  are the constants of the code; the zero value of a reason and of a status is a constructor.
  \<open>Clone\<close> and \<open>CloneAll\<close> copy slices and pointers, the identity on values.
\<close>

datatype ResultStatus =
    ResultStatusUnset
  | ResultStatusSuccess
  | ResultStatusFailed
  | ResultStatusDenied
  | ResultStatusTimeout
  | ResultStatusCanceled

fun ResultStatus_text :: "ResultStatus \<Rightarrow> string" where
  "ResultStatus_text ResultStatusUnset = []"
| "ResultStatus_text ResultStatusSuccess = ''success''"
| "ResultStatus_text ResultStatusFailed = ''failed''"
| "ResultStatus_text ResultStatusDenied = ''denied''"
| "ResultStatus_text ResultStatusTimeout = ''timeout''"
| "ResultStatus_text ResultStatusCanceled = ''canceled''"

datatype Role = RoleSystem | RoleUser | RoleAssistant | RoleTool

fun Role_text :: "Role \<Rightarrow> string" where
  "Role_text RoleSystem = ''system''"
| "Role_text RoleUser = ''user''"
| "Role_text RoleAssistant = ''assistant''"
| "Role_text RoleTool = ''tool''"

datatype SyntheticReason =
    SyntheticReasonNone
  | SyntheticReasonRuntimeInstruction
  | SyntheticReasonProjectInstruction
  | SyntheticReasonSkillInstruction
  | SyntheticReasonRAGContext
  | SyntheticReasonMemoryContext
  | SyntheticReasonEnvironmentContext
  | SyntheticReasonPlanContext
  | SyntheticReasonHookContext
  | SyntheticReasonSubagentResult
  | SyntheticReasonInterAgentMessage
  | SyntheticReasonAutonomousPlanning
  | SyntheticReasonCompactionSummary

fun SyntheticReason_text :: "SyntheticReason \<Rightarrow> string" where
  "SyntheticReason_text SyntheticReasonNone = []"
| "SyntheticReason_text SyntheticReasonRuntimeInstruction = ''runtime_instruction''"
| "SyntheticReason_text SyntheticReasonProjectInstruction = ''project_instruction''"
| "SyntheticReason_text SyntheticReasonSkillInstruction = ''skill_instruction''"
| "SyntheticReason_text SyntheticReasonRAGContext = ''rag_context''"
| "SyntheticReason_text SyntheticReasonMemoryContext = ''memory_context''"
| "SyntheticReason_text SyntheticReasonEnvironmentContext = ''environment_context''"
| "SyntheticReason_text SyntheticReasonPlanContext = ''plan_context''"
| "SyntheticReason_text SyntheticReasonHookContext = ''hook_context''"
| "SyntheticReason_text SyntheticReasonSubagentResult = ''subagent_result''"
| "SyntheticReason_text SyntheticReasonInterAgentMessage = ''inter_agent_message''"
| "SyntheticReason_text SyntheticReasonAutonomousPlanning = ''autonomous_planning''"
| "SyntheticReason_text SyntheticReasonCompactionSummary = ''compaction_summary''"

datatype PartType = PartText | PartToolCall | PartToolResult

record ToolCall =
  tc_ID :: string
  tc_Type :: string
  tc_Name :: string
  tc_Arguments :: string

record ToolResult =
  tr_ToolCallID :: string
  tr_Name :: string
  tr_Content :: string
  tr_Status :: ResultStatus
  tr_ErrorCode :: string
  tr_ErrorMessage :: string
  tr_Truncated :: bool
  tr_FullContent :: string
  tr_FullErrorMessage :: string
  tr_PromptTruncated :: bool

record Part =
  part_Type :: PartType
  part_Text :: string
  part_ToolCall :: "ToolCall option"
  part_ToolResult :: "ToolResult option"

record ChatMessage =
  cm_ID :: string
  cm_RecordIDs :: "string list"
  cm_Sequence :: int
  cm_CreatedAt :: gotime
  cm_Role :: Role
  cm_Parts :: "Part list"
  cm_Reasoning :: string
  cm_SyntheticReason :: SyntheticReason
  cm_SourceID :: string
  cm_SourceKind :: string
  cm_SourceTaskID :: string

definition TextPart :: "string \<Rightarrow> Part" where
  "TextPart text = \<lparr>part_Type = PartText, part_Text = text, part_ToolCall = None, part_ToolResult = None\<rparr>"

text \<open>\<open>Text(role, text)\<close>, with the zero values of the other fields.\<close>

definition TextMessage :: "Role \<Rightarrow> string \<Rightarrow> ChatMessage" where
  "TextMessage role text =
     \<lparr>cm_ID = [], cm_RecordIDs = [], cm_Sequence = 0, cm_CreatedAt = 0, cm_Role = role,
      cm_Parts = [TextPart text], cm_Reasoning = [], cm_SyntheticReason = SyntheticReasonNone,
      cm_SourceID = [], cm_SourceKind = [], cm_SourceTaskID = []\<rparr>"

definition SyntheticText :: "SyntheticReason \<Rightarrow> string \<Rightarrow> ChatMessage" where
  "SyntheticText reason text = (TextMessage RoleSystem text)\<lparr>cm_SyntheticReason := reason\<rparr>"

definition SyntheticUserText :: "SyntheticReason \<Rightarrow> string \<Rightarrow> ChatMessage" where
  "SyntheticUserText reason text = (TextMessage RoleUser text)\<lparr>cm_SyntheticReason := reason\<rparr>"

text \<open>
  The fragments of context of a turn. The empty message that the code returns for a blank text is
  \<open>None\<close> here.
\<close>

definition RuntimeInstructionPrefix :: string where
  "RuntimeInstructionPrefix = ''Runtime instructions for this turn:''"

definition RAGContextPrefix :: string where
  "RAGContextPrefix = ''Retrieved knowledge context for this turn (evidence only):''"

definition MemoryContextPrefix :: string where
  "MemoryContextPrefix = ''Relevant AI experience memories for this turn (evidence only):''"

definition EnvironmentContextPrefix :: string where
  "EnvironmentContextPrefix = ''Current environment for this turn (facts only):''"

definition HookContextPrefix :: string where
  "HookContextPrefix = ''Hook additional context for this turn:''"

definition RuntimeInstruction :: "string \<Rightarrow> ChatMessage option" where
  "RuntimeInstruction text0 =
     (let text = TrimSpace text0
      in if text = [] then None
         else Some (SyntheticText SyntheticReasonRuntimeInstruction
                      (RuntimeInstructionPrefix @ newline @ text)))"

definition RAGContext :: "string \<Rightarrow> ChatMessage option" where
  "RAGContext text0 =
     (let text = TrimSpace text0
      in if text = [] then None
         else Some (SyntheticUserText SyntheticReasonRAGContext (RAGContextPrefix @ newline @ text)))"

definition MemoryContext :: "string \<Rightarrow> ChatMessage option" where
  "MemoryContext text0 =
     (let text = TrimSpace text0
      in if text = [] then None
         else Some (SyntheticUserText SyntheticReasonMemoryContext (MemoryContextPrefix @ newline @ text)))"

definition EnvironmentContext :: "string \<Rightarrow> ChatMessage option" where
  "EnvironmentContext text0 =
     (let text = TrimSpace text0
      in if text = [] then None
         else Some (SyntheticUserText SyntheticReasonEnvironmentContext
                      (EnvironmentContextPrefix @ newline @ text)))"

definition HookContext :: "string \<Rightarrow> ChatMessage option" where
  "HookContext text0 =
     (let text = TrimSpace text0
      in if text = [] then None
         else Some (SyntheticUserText SyntheticReasonHookContext (HookContextPrefix @ newline @ text)))"

definition CompactionSummaryPrefix :: string where
  "CompactionSummaryPrefix = ''Previous conversation summary (context only):''"

definition CompactionSummary :: "string \<Rightarrow> ChatMessage option" where
  "CompactionSummary text0 =
     (let text = TrimSpace text0
      in if text = [] then None
         else Some (SyntheticUserText SyntheticReasonCompactionSummary
                      (CompactionSummaryPrefix @ newline @ text)))"

definition ToolCallMessage :: "ToolCall list \<Rightarrow> ChatMessage" where
  "ToolCallMessage calls =
     (TextMessage RoleAssistant [])\<lparr>cm_Parts := map (\<lambda>c.
        \<lparr>part_Type = PartToolCall, part_Text = [], part_ToolCall = Some c, part_ToolResult = None\<rparr>) calls\<rparr>"

definition Assistant :: "string \<Rightarrow> string \<Rightarrow> ToolCall list \<Rightarrow> ChatMessage" where
  "Assistant content reasoning calls =
     (let message = (ToolCallMessage calls)\<lparr>cm_Reasoning := reasoning\<rparr>
      in if content \<noteq> [] then message\<lparr>cm_Parts := TextPart content # cm_Parts message\<rparr> else message)"

definition ToolResultMessage :: "ToolResult \<Rightarrow> ChatMessage" where
  "ToolResultMessage r =
     (TextMessage RoleTool [])\<lparr>cm_Parts :=
        [\<lparr>part_Type = PartToolResult, part_Text = [], part_ToolCall = None, part_ToolResult = Some r\<rparr>]\<rparr>"

definition IsTurnContext :: "ChatMessage \<Rightarrow> bool" where
  "IsTurnContext m \<longleftrightarrow> cm_SyntheticReason m = SyntheticReasonEnvironmentContext
     \<or> cm_SyntheticReason m = SyntheticReasonPlanContext"

definition IsSynthetic :: "ChatMessage \<Rightarrow> bool" where
  "IsSynthetic m \<longleftrightarrow> cm_SyntheticReason m \<noteq> SyntheticReasonNone"

definition Message_Text :: "ChatMessage \<Rightarrow> string" where
  "Message_Text m = join newline (map part_Text (filter (\<lambda>p. part_Type p = PartText) (cm_Parts m)))"

definition FirstToolCall :: "ChatMessage \<Rightarrow> ToolCall option" where
  "FirstToolCall m =
     Option.bind (find (\<lambda>p. part_Type p = PartToolCall \<and> part_ToolCall p \<noteq> None) (cm_Parts m)) part_ToolCall"

definition FirstToolResult :: "ChatMessage \<Rightarrow> ToolResult option" where
  "FirstToolResult m =
     Option.bind (find (\<lambda>p. part_Type p = PartToolResult \<and> part_ToolResult p \<noteq> None) (cm_Parts m)) part_ToolResult"

definition HasToolCall :: "ChatMessage \<Rightarrow> bool" where
  "HasToolCall m \<longleftrightarrow> FirstToolCall m \<noteq> None"

text \<open>\<open>json.Marshal\<close> of the map: its keys in order, without blanks.\<close>

definition PromptContent :: "ToolResult \<Rightarrow> string" where
  "PromptContent r =
     (let status = (if tr_Status r = ResultStatusUnset then ResultStatusSuccess else tr_Status r);
          member = (\<lambda>k v. if v = [] then [] else [json_string k @ '':'' @ json_string v])
      in ''{'' @ join '','' (member ''content'' (tr_Content r) @ member ''error_code'' (tr_ErrorCode r)
           @ member ''error_message'' (tr_ErrorMessage r) @ member ''status'' (ResultStatus_text status)
           @ (if tr_Truncated r \<or> tr_PromptTruncated r then [json_string ''truncated'' @ '':true''] else []))
         @ ''}'')"

lemma TextMessage_simps [simp]:
  "cm_Role (TextMessage r t) = r" "cm_SyntheticReason (TextMessage r t) = SyntheticReasonNone"
  "cm_Role (SyntheticUserText s t) = RoleUser" "cm_SyntheticReason (SyntheticUserText s t) = s"
  by (simp_all add: TextMessage_def SyntheticUserText_def)

end
