(* ===== verification/TokenBudget.thy ===== *)
theory TokenBudget
  imports ChatMessage
begin

text \<open>
  The token estimate and the truncation of \<open>core/contextmgr/context.go\<close>: an estimate of the tokens
  of a text, of a part and of messages, and the shortening of a text to a budget by two binary
  searches. The searches are proved to find the longest prefix and suffix within the budget.
\<close>

section \<open>Estimates\<close>

definition EstimateTextTokens :: "string \<Rightarrow> int" where
  "EstimateTextTokens text0 =
     (let text = TrimSpace text0;
          rs = filter (\<lambda>r. \<not> IsSpace r) (runes text);
          ascii = int (length (filter (\<lambda>r. rune_value r \<le> 127) rs));
          nonASCII = int (length (filter (\<lambda>r. \<not> rune_value r \<le> 127) rs));
          tokens = (ascii + 3) div 4 + nonASCII
      in if text = [] then 0 else if tokens = 0 then 1 else tokens)"

definition estimatePartTokens :: "Part \<Rightarrow> int" where
  "estimatePartTokens part =
     (case part_Type part of
        PartText \<Rightarrow> EstimateTextTokens (part_Text part)
      | PartToolCall \<Rightarrow>
          (case part_ToolCall part of
             None \<Rightarrow> 0
           | Some c \<Rightarrow> EstimateTextTokens (tc_ID c @ '' '' @ tc_Type c @ '' '' @ tc_Name c @ '' '' @ tc_Arguments c))
      | PartToolResult \<Rightarrow>
          (case part_ToolResult part of
             None \<Rightarrow> 0
           | Some r \<Rightarrow> EstimateTextTokens (tr_ToolCallID r @ '' '' @ tr_Name r @ '' '' @ PromptContent r)))"

definition EstimateMessageTokens :: "ChatMessage \<Rightarrow> int" where
  "EstimateMessageTokens m =
     4 + EstimateTextTokens (cm_Reasoning m) + sum_list (map estimatePartTokens (cm_Parts m))"

definition EstimateMessagesTokens :: "ChatMessage list \<Rightarrow> int" where
  "EstimateMessagesTokens ms = sum_list (map EstimateMessageTokens ms)"

section \<open>Binary search\<close>

text \<open>The loop of both truncations; \<open>low + (high - low + 1) / 2\<close> is the same middle.\<close>

function search_longest :: "(nat \<Rightarrow> bool) \<Rightarrow> nat \<Rightarrow> nat \<Rightarrow> nat" where
  "search_longest fits low high =
     (if low < high
      then (let middle = (low + high + 1) div 2
            in if fits middle then search_longest fits middle high
               else search_longest fits low (middle - 1))
      else low)"
  by pat_completeness auto
termination by (relation "measure (\<lambda>(_, low, high). high - low)") auto

declare search_longest.simps [simp del]

text \<open>A predicate that holds below each of its points: the search finds its last point.\<close>

definition downward :: "(nat \<Rightarrow> bool) \<Rightarrow> bool" where
  "downward P \<longleftrightarrow> (\<forall>m n. m \<le> n \<longrightarrow> P n \<longrightarrow> P m)"

lemma search_longest_correct:
  assumes "downward fits" "fits low" "low \<le> high"
  shows "fits (search_longest fits low high)
    \<and> low \<le> search_longest fits low high \<and> search_longest fits low high \<le> high
    \<and> (\<forall>k. search_longest fits low high < k \<and> k \<le> high \<longrightarrow> \<not> fits k)"
  using assms
proof (induction fits low high rule: search_longest.induct)
  case (1 fits low high)
  show ?case
  proof (cases "low < high")
    case False
    then show ?thesis using "1.prems" by (subst (1 2 3 4) search_longest.simps) auto
  next
    case True
    define m where "m = (low + high + 1) div 2"
    have m: "low < m" "m \<le> high" using True by (auto simp: m_def)
    show ?thesis
    proof (cases "fits m")
      case fits: True
      have eq: "search_longest fits low high = search_longest fits m high"
        using True fits by (subst search_longest.simps) (simp add: Let_def m_def)
      show ?thesis using "1.IH"(1) [OF True m_def fits "1.prems"(1) fits m(2)] m unfolding eq by auto
    next
      case False
      have eq: "search_longest fits low high = search_longest fits low (m - 1)"
        using True False by (subst search_longest.simps) (simp add: Let_def m_def)
      have above: "\<not> fits k" if "m - 1 < k" for k
      proof -
        have "m \<le> k" using that m by simp
        then show ?thesis using False "1.prems"(1) unfolding downward_def by blast
      qed
      have "low \<le> m - 1" using m by simp
      note ih = "1.IH"(2) [OF True m_def False "1.prems"(1,2) this]
      show ?thesis using ih above m unfolding eq
        by (meson diff_le_self le_trans not_le_imp_less)
    qed
  qed
qed

section \<open>Truncation\<close>

definition truncatePrefixToTokens :: "string \<Rightarrow> int \<Rightarrow> string" where
  "truncatePrefixToTokens text maxTokens =
     (let rs = runes text;
          low = search_longest (\<lambda>n. EstimateTextTokens (from_runes (take n rs)) \<le> maxTokens) 0 (length rs)
      in from_runes (take low rs))"

definition truncateSuffixToTokens :: "string \<Rightarrow> int \<Rightarrow> string" where
  "truncateSuffixToTokens text maxTokens =
     (let rs = runes text;
          low = search_longest (\<lambda>n. EstimateTextTokens (from_runes (drop (length rs - n) rs)) \<le> maxTokens)
                  0 (length rs)
      in from_runes (drop (length rs - low) rs))"

definition truncation_marker :: string where
  "truncation_marker = newline @ ''[...context truncated...]'' @ newline"

definition TruncateTextToTokens :: "string \<Rightarrow> int \<Rightarrow> string" where
  "TruncateTextToTokens text0 maxTokens =
     (let text = TrimSpace text0;
          markerTokens = EstimateTextTokens truncation_marker;
          contentBudget = maxTokens - markerTokens;
          head = truncatePrefixToTokens text (contentBudget * 3 div 5);
          tail = truncateSuffixToTokens text (contentBudget - EstimateTextTokens head)
      in if text = [] \<or> maxTokens \<le> 0 then []
         else if EstimateTextTokens text \<le> maxTokens then text
         else if maxTokens \<le> markerTokens + 2 then truncatePrefixToTokens text maxTokens
         else TrimSpace head @ truncation_marker @ TrimSpace tail)"

section \<open>Lemmas\<close>

text \<open>The estimate as a count over the runes, blanks included or not.\<close>

definition ascii_runes :: "string list \<Rightarrow> int" where
  "ascii_runes rs = int (length (filter (\<lambda>r. \<not> IsSpace r \<and> rune_value r \<le> 127) rs))"

definition wide_runes :: "string list \<Rightarrow> int" where
  "wide_runes rs = int (length (filter (\<lambda>r. \<not> IsSpace r \<and> \<not> rune_value r \<le> 127) rs))"

definition estimate :: "string list \<Rightarrow> int" where
  "estimate rs = (ascii_runes rs + 3) div 4 + wide_runes rs"

lemma filter_dropWhile: "(\<And>x. P x \<Longrightarrow> \<not> Q x) \<Longrightarrow> filter Q (dropWhile P xs) = filter Q xs"
  by (induction xs) auto

lemma filter_trim_list:
  assumes "\<And>x. P x \<Longrightarrow> \<not> Q x"
  shows "filter Q (trim_list P xs) = filter Q xs"
proof -
  have "filter Q (trim_list P xs) = rev (filter Q (dropWhile P (rev (dropWhile P xs))))"
    unfolding trim_list_def by (rule rev_filter [symmetric])
  also have "\<dots> = rev (filter Q (rev (dropWhile P xs)))" by (simp only: filter_dropWhile [OF assms])
  also have "\<dots> = filter Q (dropWhile P xs)" by (simp add: rev_filter)
  also have "\<dots> = filter Q xs" by (simp only: filter_dropWhile [OF assms])
  finally show ?thesis .
qed

lemma trim_list_eq_Nil: "trim_list P xs = [] \<longleftrightarrow> (\<forall>x \<in> set xs. P x)"
proof -
  have "trim_list P xs = [] \<longleftrightarrow> (\<forall>x \<in> set (dropWhile P xs). P x)"
    by (simp add: trim_list_def dropWhile_eq_Nil_conv)
  also have "\<dots> \<longleftrightarrow> dropWhile P xs = []"
    using hd_dropWhile [of P xs] hd_in_set [of "dropWhile P xs"] by (cases "dropWhile P xs") (auto dest: set_dropWhileD)
  finally show ?thesis by (simp add: dropWhile_eq_Nil_conv)
qed

lemma estimate_nonneg: "0 \<le> ascii_runes rs" "0 \<le> wide_runes rs" "0 \<le> estimate rs"
  by (simp_all add: ascii_runes_def wide_runes_def estimate_def)

lemma estimate_zero: "estimate rs = 0 \<longleftrightarrow> (\<forall>r \<in> set rs. IsSpace r)"
proof -
  have "estimate rs = 0 \<longleftrightarrow> ascii_runes rs = 0 \<and> wide_runes rs = 0"
    using estimate_nonneg [of rs] by (simp add: estimate_def) linarith
  then show ?thesis by (auto simp: ascii_runes_def wide_runes_def filter_empty_conv)
qed

lemma EstimateTextTokens_runes: "EstimateTextTokens s = estimate (runes s)"
proof -
  have r: "filter (\<lambda>r. \<not> IsSpace r \<and> Q r) (runes (TrimSpace s))
      = filter (\<lambda>r. \<not> IsSpace r \<and> Q r) (runes s)" for Q
    by (simp add: runes_TrimSpace filter_trim_list)
  have blank: "TrimSpace s = [] \<longleftrightarrow> estimate (runes s) = 0"
    unfolding estimate_zero runes_eq_Nil [symmetric] runes_TrimSpace trim_list_eq_Nil ..
  show ?thesis
    using blank estimate_nonneg [of "runes s"]
    by (auto simp: EstimateTextTokens_def Let_def r estimate_def ascii_runes_def wide_runes_def)
qed

lemma estimate_append_le: "estimate (xs @ ys) \<le> estimate xs + estimate ys"
proof -
  have "ascii_runes (xs @ ys) = ascii_runes xs + ascii_runes ys"
    "wide_runes (xs @ ys) = wide_runes xs + wide_runes ys"
    by (simp_all add: ascii_runes_def wide_runes_def)
  then show ?thesis by (simp add: estimate_def)
qed

lemma estimate_mono:
  "estimate xs \<le> estimate (xs @ ys)" "estimate ys \<le> estimate (xs @ ys)"
  by (auto simp: estimate_def ascii_runes_def wide_runes_def intro!: add_mono zdiv_mono1)

text \<open>Re-encoding a rune keeps its class, so a slice of runes is estimated as the slice.\<close>

lemma encode_rune_class:
  assumes "r \<in> set (runes s)"
  shows "IsSpace (encode_rune r) \<longleftrightarrow> IsSpace r" "rune_value (encode_rune r) \<le> 127 \<longleftrightarrow> rune_value r \<le> 127"
proof -
  have "rune_value (encode_rune r) = rune_value r"
  proof (cases "length r = 1")
    case True
    then obtain b where "r = [b]" by (metis length_0_conv length_Suc_conv One_nat_def)
    then show ?thesis by (simp add: encode_rune_def rune_value_def byte_def)
  next
    case False
    then have "encode_rune r = r" by (auto simp: encode_rune_def split: list.split)
    then show ?thesis by simp
  qed
  then show "IsSpace (encode_rune r) \<longleftrightarrow> IsSpace r" "rune_value (encode_rune r) \<le> 127 \<longleftrightarrow> rune_value r \<le> 127"
    by (simp_all add: IsSpace_def)
qed

lemma estimate_encoded:
  "set rs \<subseteq> set (runes s) \<Longrightarrow> estimate (map encode_rune rs) = estimate rs"
proof -
  assume "set rs \<subseteq> set (runes s)"
  then have "filter (\<lambda>r. \<not> IsSpace r \<and> rune_value r \<le> 127) (map encode_rune rs)
      = map encode_rune (filter (\<lambda>r. \<not> IsSpace r \<and> rune_value r \<le> 127) rs)"
    "filter (\<lambda>r. \<not> IsSpace r \<and> \<not> rune_value r \<le> 127) (map encode_rune rs)
      = map encode_rune (filter (\<lambda>r. \<not> IsSpace r \<and> \<not> rune_value r \<le> 127) rs)"
    by (induction rs) (auto simp: encode_rune_class)
  then show ?thesis by (simp add: estimate_def ascii_runes_def wide_runes_def)
qed

lemma estimate_from_runes:
  assumes "set rs \<subseteq> set (runes s)"
  shows "EstimateTextTokens (from_runes rs) = estimate rs"
  by (simp add: EstimateTextTokens_runes runes_from_runes [OF assms] estimate_encoded [OF assms])

lemma take_in_runes: "set (take n (runes s)) \<subseteq> set (runes s)"
  by (rule set_take_subset)

lemma drop_in_runes: "set (drop n (runes s)) \<subseteq> set (runes s)"
  by (rule set_drop_subset)

lemmas slice_estimate = estimate_from_runes [OF take_in_runes] estimate_from_runes [OF drop_in_runes]

text \<open>The two truncations take the longest prefix and the longest suffix within the budget.\<close>

definition longest_slice :: "(nat \<Rightarrow> string list) \<Rightarrow> nat \<Rightarrow> int \<Rightarrow> nat \<Rightarrow> bool" where
  "longest_slice slice count budget n \<longleftrightarrow>
     n \<le> count \<and> estimate (slice n) \<le> budget
     \<and> (\<forall>k. n < k \<and> k \<le> count \<longrightarrow> budget < estimate (slice k))"

lemma search_slice:
  assumes mono: "\<And>m n. m \<le> n \<Longrightarrow> estimate (slice m) \<le> estimate (slice n)"
    and "estimate (slice 0) = 0" "0 \<le> budget"
  shows "longest_slice slice count budget
    (search_longest (\<lambda>n. estimate (slice n) \<le> budget) 0 count)"
proof -
  have "downward (\<lambda>n. estimate (slice n) \<le> budget)"
    unfolding downward_def using mono order_trans by blast
  from search_longest_correct [OF this, of 0 count] assms(2,3) show ?thesis
    by (auto simp: longest_slice_def not_le [symmetric])
qed

lemma truncatePrefix_longest:
  assumes "0 \<le> budget"
  shows "\<exists>n. truncatePrefixToTokens s budget = from_runes (take n (runes s))
    \<and> longest_slice (\<lambda>n. take n (runes s)) (length (runes s)) budget n"
proof -
  have "estimate (take m (runes s)) \<le> estimate (take n (runes s))" if "m \<le> n" for m n
  proof -
    have "take n (runes s) = take m (runes s) @ take (n - m) (drop m (runes s))"
      using that by (metis le_add_diff_inverse take_add)
    then show ?thesis by (metis estimate_mono(1))
  qed
  then show ?thesis
    using search_slice [of "\<lambda>n. take n (runes s)" budget "length (runes s)"] assms
    by (auto simp: truncatePrefixToTokens_def Let_def slice_estimate estimate_zero)
qed

lemma truncateSuffix_longest:
  assumes "0 \<le> budget"
  shows "\<exists>n. truncateSuffixToTokens s budget = from_runes (drop (length (runes s) - n) (runes s))
    \<and> longest_slice (\<lambda>n. drop (length (runes s) - n) (runes s)) (length (runes s)) budget n"
proof -
  have "estimate (drop (length (runes s) - m) (runes s)) \<le> estimate (drop (length (runes s) - n) (runes s))"
    if "m \<le> n" for m n
  proof -
    have "drop (length (runes s) - n) (runes s)
        = take (length (runes s) - m - (length (runes s) - n)) (drop (length (runes s) - n) (runes s))
          @ drop (length (runes s) - m) (runes s)"
      using that by (metis append_take_drop_id diff_le_mono2 drop_drop le_add_diff_inverse2)
    then show ?thesis by (metis estimate_mono(2))
  qed
  then show ?thesis
    using search_slice [of "\<lambda>n. drop (length (runes s) - n) (runes s)" budget "length (runes s)"] assms
    by (auto simp: truncateSuffixToTokens_def Let_def slice_estimate estimate_zero)
qed

text \<open>Texts made of whole encodings: their concatenation is decoded part by part.\<close>

definition encoded_text :: "string \<Rightarrow> bool" where
  "encoded_text s \<longleftrightarrow> list_all encoding (runes s)"

lemma runes_encoded_append:
  "encoded_text a \<Longrightarrow> encoded_text b \<Longrightarrow> runes (a @ b) = runes a @ runes b"
  using runes_encodings [of "runes a @ runes b"] by (simp add: encoded_text_def)

lemma encoded_append: "encoded_text a \<Longrightarrow> encoded_text b \<Longrightarrow> encoded_text (a @ b)"
  by (simp add: encoded_text_def runes_encoded_append)

lemma encoded_from_runes: "set rs \<subseteq> set (runes s) \<Longrightarrow> encoded_text (from_runes rs)"
  by (auto simp: encoded_text_def runes_from_runes list_all_iff encoding_encode_rune)

lemma encoded_TrimSpace: "encoded_text s \<Longrightarrow> encoded_text (TrimSpace s)"
  unfolding encoded_text_def runes_TrimSpace list_all_iff
  by (metis trim_list_infix in_set_dropD in_set_takeD)

lemma encoded_ascii: "list_all (\<lambda>c. byte c < 128) s \<Longrightarrow> encoded_text s"
proof -
  assume a: "list_all (\<lambda>c. byte c < 128) s"
  have "encoding [c]" if "byte c < 128" for c
    using that rune_width_ascii [of c "[]"] by (simp add: encoding_def)
  with a show ?thesis by (simp add: encoded_text_def runes_ascii list_all_iff)
qed

lemma estimate_append_text:
  "encoded_text a \<Longrightarrow> encoded_text b \<Longrightarrow> EstimateTextTokens (a @ b) \<le> EstimateTextTokens a + EstimateTextTokens b"
  by (simp add: EstimateTextTokens_runes runes_encoded_append estimate_append_le)

lemma EstimateTextTokens_TrimSpace [simp]: "EstimateTextTokens (TrimSpace s) = EstimateTextTokens s"
  by (simp add: EstimateTextTokens_def)

lemma EstimateTextTokens_Nil [simp]: "EstimateTextTokens [] = 0"
  by (simp add: EstimateTextTokens_def)

lemma EstimateTextTokens_nonneg [simp]: "0 \<le> EstimateTextTokens s"
  by (simp add: EstimateTextTokens_runes estimate_nonneg)

lemma encoded_marker: "encoded_text truncation_marker"
  by (rule encoded_ascii) (simp add: truncation_marker_def newline_def byte_def)

lemma truncatePrefix_within:
  assumes "0 \<le> budget"
  shows "EstimateTextTokens (truncatePrefixToTokens s budget) \<le> budget"
    "encoded_text (truncatePrefixToTokens s budget)"
  using truncatePrefix_longest [OF assms, of s] encoded_from_runes [OF take_in_runes]
  by (auto simp: longest_slice_def slice_estimate)

lemma truncateSuffix_within:
  assumes "0 \<le> budget"
  shows "EstimateTextTokens (truncateSuffixToTokens s budget) \<le> budget"
    "encoded_text (truncateSuffixToTokens s budget)"
  using truncateSuffix_longest [OF assms, of s] encoded_from_runes [OF drop_in_runes]
  by (auto simp: longest_slice_def slice_estimate)

section \<open>Property\<close>

text \<open>
  C36: a truncated text stays within its budget of tokens and loses as little as the budget allows:
  a text that fits is kept as it is; from a longer one the prefix that is kept is the longest with
  at most three fifths of the budget left by the marker, and the suffix the longest with what the
  prefix leaves.
\<close>

theorem truncation_within_budget:
  assumes "0 < n"
  shows "EstimateTextTokens (TruncateTextToTokens s n) \<le> n
    \<and> (EstimateTextTokens s \<le> n \<longrightarrow> TruncateTextToTokens s n = TrimSpace s)
    \<and> (n < EstimateTextTokens s \<and> EstimateTextTokens truncation_marker + 2 < n \<longrightarrow>
        (\<exists>i j. let rs = runes (TrimSpace s); budget = n - EstimateTextTokens truncation_marker
          in TruncateTextToTokens s n = TrimSpace (from_runes (take i rs)) @ truncation_marker
                @ TrimSpace (from_runes (drop (length rs - j) rs))
            \<and> longest_slice (\<lambda>k. take k rs) (length rs) (budget * 3 div 5) i
            \<and> longest_slice (\<lambda>k. drop (length rs - k) rs) (length rs) (budget - estimate (take i rs)) j))"
proof -
  let ?text = "TrimSpace s" and ?m = "EstimateTextTokens truncation_marker"
  let ?b = "n - ?m"
  let ?head = "truncatePrefixToTokens ?text (?b * 3 div 5)"
  let ?tail = "truncateSuffixToTokens ?text (?b - EstimateTextTokens ?head)"
  have small: "EstimateTextTokens (truncatePrefixToTokens ?text n) \<le> n"
    using assms by (intro truncatePrefix_within) simp
  have long: "EstimateTextTokens (TrimSpace ?head @ truncation_marker @ TrimSpace ?tail) \<le> n
      \<and> (\<exists>i j. let rs = runes ?text
          in TrimSpace ?head @ truncation_marker @ TrimSpace ?tail
              = TrimSpace (from_runes (take i rs)) @ truncation_marker @ TrimSpace (from_runes (drop (length rs - j) rs))
            \<and> longest_slice (\<lambda>k. take k rs) (length rs) (?b * 3 div 5) i
            \<and> longest_slice (\<lambda>k. drop (length rs - k) rs) (length rs) (?b - estimate (take i rs)) j)"
    if "?m + 2 < n"
  proof
    have hb: "0 \<le> ?b * 3 div 5" "?b * 3 div 5 \<le> ?b" using that by simp_all
    note head = truncatePrefix_within [OF hb(1), of ?text]
    have tb: "0 \<le> ?b - EstimateTextTokens ?head" using head(1) hb(2) by linarith
    note tail = truncateSuffix_within [OF tb, of ?text]
    have "EstimateTextTokens (TrimSpace ?head @ truncation_marker @ TrimSpace ?tail)
        \<le> EstimateTextTokens ?head + (?m + EstimateTextTokens ?tail)"
      using estimate_append_text [OF encoded_TrimSpace [OF head(2)]
          encoded_append [OF encoded_marker encoded_TrimSpace [OF tail(2)]]]
        estimate_append_text [OF encoded_marker encoded_TrimSpace [OF tail(2)]]
      by simp
    with tail(1) show "EstimateTextTokens (TrimSpace ?head @ truncation_marker @ TrimSpace ?tail) \<le> n"
      by linarith
    show "\<exists>i j. let rs = runes ?text
          in TrimSpace ?head @ truncation_marker @ TrimSpace ?tail
              = TrimSpace (from_runes (take i rs)) @ truncation_marker @ TrimSpace (from_runes (drop (length rs - j) rs))
            \<and> longest_slice (\<lambda>k. take k rs) (length rs) (?b * 3 div 5) i
            \<and> longest_slice (\<lambda>k. drop (length rs - k) rs) (length rs) (?b - estimate (take i rs)) j"
      using truncatePrefix_longest [OF hb(1), of ?text] truncateSuffix_longest [OF tb, of ?text]
      unfolding Let_def by (metis slice_estimate(1))
  qed
  have blank: "?text = [] \<Longrightarrow> EstimateTextTokens s = 0" by (simp add: EstimateTextTokens_def)
  have cases: "TruncateTextToTokens s n =
      (if EstimateTextTokens s \<le> n then ?text
       else if n \<le> ?m + 2 then truncatePrefixToTokens ?text n
       else TrimSpace ?head @ truncation_marker @ TrimSpace ?tail)"
    using assms blank by (auto simp: TruncateTextToTokens_def Let_def)
  show ?thesis
    using small long by (simp add: cases Let_def not_le)
qed

theorem truncation_within_budget_witness:
  "EstimateTextTokens (TruncateTextToTokens ''a long text'' 2) \<le> 2"
  using truncation_within_budget [of 2 "''a long text''"] by simp

end
