(* ===== verification/ContextWindow.thy ===== *)
theory ContextWindow
  imports TokenBudget
begin

text \<open>
  The context window of \<open>core/contextmgr/context.go\<close>: the grouping of a history into turns, the split
  for compaction, and the snapshot that is sent to a model, as many of the newest turns as the
  budget allows behind the system message, the fixed context and the summary. Whether a checkpoint
  matches the history (a comparison of SHA-256 hashes) is an argument of the snapshot, and so are
  the hashes it reports.
\<close>

section \<open>Window size\<close>

definition NormalizeWindowK :: "int \<Rightarrow> int" where
  "NormalizeWindowK windowK = (if windowK \<le> 0 then 16 else windowK)"

definition ValidateWindowK :: "int \<Rightarrow> bool" where
  "ValidateWindowK windowK \<longleftrightarrow> \<not> (windowK < 4 \<or> windowK > 256)"

definition summaryForWindow :: "string \<Rightarrow> int \<Rightarrow> string" where
  "summaryForWindow summary windowK =
     (let limit = NormalizeWindowK windowK * 1000 div 4
      in TruncateTextToTokens summary (if limit > 1024 then 1024 else if limit < 256 then 256 else limit))"

section \<open>Turns\<close>

text \<open>A synthetic message that opens a turn, and the messages that belong to the turn before them.\<close>

definition opens_turn :: "ChatMessage \<Rightarrow> bool" where
  "opens_turn m \<longleftrightarrow> IsSynthetic m \<and> \<not> IsTurnContext m"

definition continues_turn :: "ChatMessage \<Rightarrow> bool" where
  "continues_turn m \<longleftrightarrow> IsTurnContext m \<or> \<not> IsSynthetic m \<and> cm_Role m \<noteq> RoleUser"

definition chunk_rest :: "ChatMessage \<Rightarrow> ChatMessage list \<Rightarrow> ChatMessage list" where
  "chunk_rest m ms =
     (if opens_turn m then
        (let rest = dropWhile opens_turn ms
         in dropWhile continues_turn
              (case rest of x # xs \<Rightarrow> if cm_Role x = RoleUser then xs else rest | [] \<Rightarrow> rest))
      else if cm_Role m = RoleUser then dropWhile continues_turn ms
      else if cm_Role m = RoleAssistant \<and> HasToolCall m
        then dropWhile (\<lambda>x. cm_Role x = RoleTool) ms
      else ms)"

lemma chunk_rest_suffix: "\<exists>pre. ms = pre @ chunk_rest m ms"
proof -
  have d: "\<exists>pre. xs = pre @ dropWhile P xs" for P and xs :: "ChatMessage list"
    by (metis takeWhile_dropWhile_id)
  have "\<exists>pre. rest = pre @ (case rest of x # xs \<Rightarrow> if cm_Role x = RoleUser then xs else rest | [] \<Rightarrow> rest)"
    for rest :: "ChatMessage list"
    by (cases rest) (auto intro: exI [of _ "[]"])
  then have "\<exists>pre. ms = pre @ dropWhile continues_turn (case dropWhile opens_turn ms of
      x # xs \<Rightarrow> if cm_Role x = RoleUser then xs else dropWhile opens_turn ms | [] \<Rightarrow> dropWhile opens_turn ms)"
    by (metis append.assoc d)
  then show ?thesis using d by (auto simp: chunk_rest_def Let_def)
qed

lemma length_chunk_rest: "length (chunk_rest m ms) \<le> length ms"
  using chunk_rest_suffix [of ms m] by (metis le_add2 length_append)

function messageChunks :: "ChatMessage list \<Rightarrow> ChatMessage list list" where
  "messageChunks [] = []"
| "messageChunks (m # ms) =
     take (Suc (length ms) - length (chunk_rest m ms)) (m # ms) # messageChunks (chunk_rest m ms)"
  by pat_completeness auto
termination
  by (relation "measure length") (simp_all add: le_imp_less_Suc length_chunk_rest)

section \<open>Compaction\<close>

definition NormalizeCompactedMessages :: "ChatMessage list \<Rightarrow> int \<Rightarrow> nat" where
  "NormalizeCompactedMessages ms compacted =
     (if ms = [] then 0 else if compacted < 1 then 1
      else if compacted > int (length ms) then length ms else nat compacted)"

text \<open>The messages to summarise, the messages to keep, and the new number of compacted messages.\<close>

definition CompactSplit ::
  "ChatMessage list \<Rightarrow> int \<Rightarrow> int \<Rightarrow> ChatMessage list \<times> ChatMessage list \<times> nat" where
  "CompactSplit ms compacted keepChunks0 =
     (let keepChunks = (if keepChunks0 \<le> 0 then 8 else keepChunks0);
          start = NormalizeCompactedMessages ms compacted;
          chunks = messageChunks (drop start ms);
          compactable = take (length chunks - nat keepChunks) chunks;
          cutoff = start + sum_list (map length compactable)
      in if start \<ge> length ms then ([], [], start)
         else if int (length chunks) \<le> keepChunks then ([], drop start ms, start)
         else (take (cutoff - start) (drop start ms), drop cutoff ms, cutoff))"

section \<open>The snapshot\<close>

definition splitSystemMessage :: "ChatMessage list \<Rightarrow> ChatMessage list \<times> ChatMessage list" where
  "splitSystemMessage ms =
     (case ms of m # rest \<Rightarrow> if cm_Role m = RoleSystem then ([m], rest) else ([], ms) | [] \<Rightarrow> ([], ms))"

definition buildBaseAndRecent ::
  "ChatMessage list \<Rightarrow> string \<Rightarrow> int \<Rightarrow> string list \<Rightarrow> ChatMessage list \<times> ChatMessage list" where
  "buildBaseAndRecent ms summary compacted fixedContext =
     (let (system, rest) = splitSystemMessage ms;
          base = system
            @ map (\<lambda>item. TextMessage RoleSystem (TrimSpace item)) (filter (\<lambda>item. \<not> blank item) fixedContext)
            @ (case CompactionSummary summary of None \<Rightarrow> [] | Some m \<Rightarrow> [m]);
          start = NormalizeCompactedMessages ms compacted
      in if start > 1 then (base, drop start ms) else (base, rest))"

text \<open>The loop over the turns from the newest one; the flag is \<open>len(selectedChunks) == 0\<close>.\<close>

fun select_chunks :: "int \<Rightarrow> int \<Rightarrow> bool \<Rightarrow> ChatMessage list list \<Rightarrow> ChatMessage list list" where
  "select_chunks budget tokens first [] = []"
| "select_chunks budget tokens first (c # cs) =
     (let chunkTokens = EstimateMessagesTokens c
      in if tokens + chunkTokens \<le> budget \<or> first
         then c # select_chunks budget (tokens + chunkTokens) False cs else [])"

record WindowInfo =
  wi_WindowK :: int
  wi_FullTokens :: int
  wi_SelectedTokens :: int
  wi_SummaryTokens :: int
  wi_FullMessages :: nat
  wi_SelectedMessages :: nat
  wi_CompactedMessages :: nat
  wi_HasSummary :: bool
  wi_Truncated :: bool

definition window_budget :: "int \<Rightarrow> int \<Rightarrow> int" where
  "window_budget windowK reserved = max 0 (NormalizeWindowK windowK * 1000 - max 0 reserved)"

definition analyzePrepared ::
  "ChatMessage list \<Rightarrow> ChatMessage list \<Rightarrow> ChatMessage list \<Rightarrow> int \<Rightarrow> bool \<Rightarrow> int \<Rightarrow> nat \<Rightarrow> int
     \<Rightarrow> WindowInfo \<times> ChatMessage list" where
  "analyzePrepared base recent full windowK0 hasSummary summaryTokens compacted reserved =
     (let windowK = NormalizeWindowK windowK0; budget = window_budget windowK reserved;
          chosen = select_chunks budget (EstimateMessagesTokens base) True (rev (messageChunks recent));
          selected = base @ concat (rev chosen)
      in if base = [] \<and> recent = []
         then (\<lparr>wi_WindowK = windowK, wi_FullTokens = 0, wi_SelectedTokens = 0,
                wi_SummaryTokens = summaryTokens, wi_FullMessages = 0, wi_SelectedMessages = 0,
                wi_CompactedMessages = compacted, wi_HasSummary = hasSummary, wi_Truncated = False\<rparr>, [])
         else (\<lparr>wi_WindowK = windowK, wi_FullTokens = EstimateMessagesTokens full,
                wi_SelectedTokens = EstimateMessagesTokens base
                  + sum_list (map EstimateMessagesTokens chosen),
                wi_SummaryTokens = summaryTokens, wi_FullMessages = length full,
                wi_SelectedMessages = length selected,
                wi_CompactedMessages = compacted, wi_HasSummary = hasSummary,
                wi_Truncated = (length selected < length base + length recent
                   \<or> EstimateMessagesTokens (base @ recent) > budget)\<rparr>, selected))"

definition displayCompactedMessages :: "ChatMessage list \<Rightarrow> int \<Rightarrow> nat" where
  "displayCompactedMessages ms compacted =
     (let prefix = take (NormalizeCompactedMessages ms compacted) ms
      in length (filter (\<lambda>m. \<not> IsSynthetic m)
           (case prefix of m # rest \<Rightarrow> if cm_Role m = RoleSystem \<and> \<not> IsSynthetic m then rest else prefix
            | [] \<Rightarrow> [])))"

text \<open>Where the latest user turn begins, with the synthetic messages attached before it.\<close>

definition user_turn :: "ChatMessage \<Rightarrow> bool" where
  "user_turn m \<longleftrightarrow> cm_Role m = RoleUser \<and> \<not> IsTurnContext m"

text \<open>
  \<open>current_turn\<close> is the tail from that place, if there is a user message: over the reversed list,
  the messages up to the last user message, that message, and the synthetic ones before it.
\<close>

definition current_turn :: "ChatMessage list \<Rightarrow> ChatMessage list option" where
  "current_turn ms =
     (let r = rev ms; after = takeWhile (\<lambda>m. \<not> user_turn m) r
      in case dropWhile (\<lambda>m. \<not> user_turn m) r of
           [] \<Rightarrow> None
         | u # before \<Rightarrow> Some (rev (after @ u # takeWhile opens_turn before)))"

definition CurrentTurnTokens :: "ChatMessage list \<Rightarrow> int" where
  "CurrentTurnTokens ms = (case current_turn ms of None \<Rightarrow> 0 | Some turn \<Rightarrow> EstimateMessagesTokens turn)"

definition stableCacheablePrefix :: "ChatMessage list \<Rightarrow> ChatMessage list" where
  "stableCacheablePrefix ms =
     (case current_turn ms of None \<Rightarrow> ms | Some turn \<Rightarrow> take (length ms - length turn) ms)"

record Snapshot =
  snap_Info :: WindowInfo
  snap_Messages :: "ChatMessage list"
  snap_Prefix :: "ChatMessage list"

text \<open>
  \<open>BuildSnapshotWithBudget\<close>, with the summary of the checkpoint; \<open>checkpoint_ok\<close> is
  \<open>CompactionCheckpointMatchesCheckpoint\<close>.
\<close>

definition BuildSnapshot ::
  "bool \<Rightarrow> ChatMessage list \<Rightarrow> string \<Rightarrow> int \<Rightarrow> int \<Rightarrow> int \<Rightarrow> string list \<Rightarrow> Snapshot" where
  "BuildSnapshot checkpoint_ok ms checkpointSummary compacted0 windowK reserved fixedContext =
     (let compacted = (if checkpoint_ok then compacted0 else 0);
          summary = summaryForWindow (if checkpoint_ok then TrimSpace checkpointSummary else []) windowK;
          (base, recent) = buildBaseAndRecent ms summary compacted fixedContext;
          (info, selected) = analyzePrepared base recent ms windowK (summary \<noteq> [])
             (EstimateTextTokens summary) (displayCompactedMessages ms compacted) reserved
      in \<lparr>snap_Info = info, snap_Messages = selected, snap_Prefix = stableCacheablePrefix selected\<rparr>)"

section \<open>Turns cover the history\<close>

lemma concat_messageChunks [simp]: "concat (messageChunks ms) = ms"
proof (induction ms rule: messageChunks.induct)
  case (2 m ms)
  obtain pre where pre: "ms = pre @ chunk_rest m ms" using chunk_rest_suffix by blast
  have "take (Suc (length ms) - length (chunk_rest m ms)) (m # ms) = m # pre"
    by (subst (1 2) pre) simp
  with 2 show ?case using pre by simp
qed simp

lemma messageChunks_nonempty: "c \<in> set (messageChunks ms) \<Longrightarrow> c \<noteq> []"
  by (induction ms rule: messageChunks.induct) (auto simp: length_chunk_rest Suc_diff_le)

lemma messageChunks_eq_Nil [simp]: "messageChunks ms = [] \<longleftrightarrow> ms = []"
  by (cases ms) simp_all

section \<open>Tool results stay with their calls\<close>

text \<open>
  A history a model accepts: a tool result comes directly after the message with its call or
  another tool result. The flag tells whether a tool result may come first.
\<close>

definition calls_tools :: "ChatMessage \<Rightarrow> bool" where
  "calls_tools m \<longleftrightarrow> cm_Role m = RoleAssistant \<and> HasToolCall m"

fun tools_follow :: "bool \<Rightarrow> ChatMessage list \<Rightarrow> bool" where
  "tools_follow ok [] \<longleftrightarrow> True"
| "tools_follow ok (m # ms) \<longleftrightarrow>
     (cm_Role m = RoleTool \<longrightarrow> ok \<and> \<not> IsSynthetic m)
     \<and> tools_follow (cm_Role m = RoleTool \<or> calls_tools m) ms"

abbreviation well_paired :: "ChatMessage list \<Rightarrow> bool" where
  "well_paired \<equiv> tools_follow False"

lemma tools_follow_weaken: "well_paired ms \<Longrightarrow> tools_follow ok ms"
  by (cases ms) auto

lemma tools_follow_append: "tools_follow ok xs \<Longrightarrow> well_paired ys \<Longrightarrow> tools_follow ok (xs @ ys)"
  by (induction ok xs rule: tools_follow.induct) (auto simp: tools_follow_weaken)

lemma tools_follow_prefix: "tools_follow ok (xs @ ys) \<Longrightarrow> tools_follow ok xs"
  by (induction ok xs rule: tools_follow.induct) auto

lemma tools_follow_suffix: "tools_follow ok (xs @ ys) \<Longrightarrow> \<exists>ok'. tools_follow ok' ys"
  by (induction ok xs rule: tools_follow.induct) auto

lemma tools_follow_hd: "tools_follow ok ms \<Longrightarrow> (ms = [] \<or> cm_Role (hd ms) \<noteq> RoleTool) \<Longrightarrow> well_paired ms"
  by (cases ms) auto

lemma well_paired_no_tools: "\<forall>m \<in> set ms. cm_Role m \<noteq> RoleTool \<Longrightarrow> well_paired ms"
proof (induction ms)
  case (Cons m ms)
  then show ?case by (simp add: tools_follow_weaken)
qed simp

lemma well_paired_concat: "\<forall>c \<in> set cs. well_paired c \<Longrightarrow> well_paired (concat cs)"
  by (induction cs) (simp_all add: tools_follow_append)

lemma tool_result_continues:
  "tools_follow ok ms \<Longrightarrow> m \<in> set ms \<Longrightarrow> cm_Role m = RoleTool \<Longrightarrow> continues_turn m"
  by (induction ok ms rule: tools_follow.induct) (auto simp: continues_turn_def)

lemma chunk_rest_well_paired:
  assumes "well_paired (m # ms)"
  shows "well_paired (chunk_rest m ms)"
proof -
  obtain pre where pre: "ms = pre @ chunk_rest m ms" using chunk_rest_suffix by blast
  have ms: "tools_follow (calls_tools m) ms" and m: "cm_Role m \<noteq> RoleTool" using assms by auto
  obtain ok where ok: "tools_follow ok (chunk_rest m ms)"
    using tools_follow_suffix pre ms by metis
  have stop: "dropWhile continues_turn xs = [] \<or> \<not> continues_turn (hd (dropWhile continues_turn xs))" for xs
    using hd_dropWhile [of continues_turn xs] by blast
  show ?thesis
  proof (cases "opens_turn m \<or> cm_Role m = RoleUser")
    case True
    then have "chunk_rest m ms \<in> range (dropWhile continues_turn)"
      by (cases "opens_turn m"; simp add: chunk_rest_def Let_def)
    then obtain xs where "chunk_rest m ms = dropWhile continues_turn xs" by blast
    with stop [of xs] have "chunk_rest m ms = [] \<or> \<not> continues_turn (hd (chunk_rest m ms))" by simp
    then show ?thesis
      using tool_result_continues [OF ok] by (intro tools_follow_hd [OF ok]) (metis hd_in_set)
  next
    case other: False
    show ?thesis
    proof (cases "calls_tools m")
      case True
      then have eq: "chunk_rest m ms = dropWhile (\<lambda>x. cm_Role x = RoleTool) ms"
        using other by (simp add: chunk_rest_def calls_tools_def)
      show ?thesis
        using hd_dropWhile [of "\<lambda>x. cm_Role x = RoleTool" ms]
        by (intro tools_follow_hd [OF ok]) (auto simp: eq)
    next
      case False
      then show ?thesis using other ms by (auto simp: chunk_rest_def calls_tools_def)
    qed
  qed
qed

lemma chunks_well_paired: "well_paired ms \<Longrightarrow> c \<in> set (messageChunks ms) \<Longrightarrow> well_paired c"
proof (induction ms rule: messageChunks.induct)
  case (2 m ms)
  then show ?case
    using chunk_rest_well_paired [OF "2.prems"(1)] tools_follow_prefix
    by (metis append_take_drop_id messageChunks.simps(2) set_ConsD)
qed simp

section \<open>Selection of turns\<close>

lemma EstimateMessagesTokens_append [simp]:
  "EstimateMessagesTokens (xs @ ys) = EstimateMessagesTokens xs + EstimateMessagesTokens ys"
  by (simp add: EstimateMessagesTokens_def)

lemma EstimateMessagesTokens_concat:
  "EstimateMessagesTokens (concat cs) = sum_list (map EstimateMessagesTokens cs)"
  by (induction cs) (simp_all add: EstimateMessagesTokens_def)

lemma estimatePartTokens_nonneg: "0 \<le> estimatePartTokens p"
  by (auto simp: estimatePartTokens_def split: PartType.split option.split)

lemma EstimateMessageTokens_pos: "4 \<le> EstimateMessageTokens m"
proof -
  have "0 \<le> sum_list (map estimatePartTokens (cm_Parts m))"
    by (rule sum_list_nonneg) (auto simp: estimatePartTokens_nonneg)
  then show ?thesis by (simp add: EstimateMessageTokens_def)
qed

lemma EstimateMessagesTokens_nonneg: "0 \<le> EstimateMessagesTokens ms"
  using EstimateMessageTokens_pos unfolding EstimateMessagesTokens_def
  by (intro sum_list_nonneg) (force intro: order_trans [rotated])

abbreviation turns_tokens :: "ChatMessage list list \<Rightarrow> int" where
  "turns_tokens cs \<equiv> sum_list (map EstimateMessagesTokens cs)"

lemma select_chunks_rest:
  "\<exists>n \<le> length cs. select_chunks b t False cs = take n cs
     \<and> (0 < n \<longrightarrow> t + turns_tokens (take n cs) \<le> b)
     \<and> (n < length cs \<longrightarrow> b < t + turns_tokens (take (Suc n) cs))"
proof (induction cs arbitrary: t)
  case (Cons c cs)
  show ?case
  proof (cases "t + EstimateMessagesTokens c \<le> b")
    case True
    let ?t = "t + EstimateMessagesTokens c"
    obtain n where n: "n \<le> length cs" "select_chunks b ?t False cs = take n cs"
      "0 < n \<longrightarrow> ?t + turns_tokens (take n cs) \<le> b"
      "n < length cs \<longrightarrow> b < ?t + turns_tokens (take (Suc n) cs)"
      using Cons.IH [of ?t] by blast
    then show ?thesis using True
      by (intro exI [of _ "Suc n"]) (cases "n = 0"; simp add: Let_def add.assoc)
  next
    case False
    then show ?thesis by (intro exI [of _ 0]) (simp add: Let_def)
  qed
qed simp

lemma select_chunks_first:
  assumes "cs \<noteq> []"
  shows "\<exists>n. 0 < n \<and> n \<le> length cs \<and> select_chunks b t True cs = take n cs
     \<and> (1 < n \<longrightarrow> t + turns_tokens (take n cs) \<le> b)
     \<and> (n < length cs \<longrightarrow> b < t + turns_tokens (take (Suc n) cs))"
proof -
  obtain c cs' where cs: "cs = c # cs'" using assms by (cases cs) auto
  obtain n where "n \<le> length cs'" "select_chunks b (t + EstimateMessagesTokens c) False cs' = take n cs'"
      "0 < n \<longrightarrow> t + EstimateMessagesTokens c + turns_tokens (take n cs') \<le> b"
      "n < length cs' \<longrightarrow> b < t + EstimateMessagesTokens c + turns_tokens (take (Suc n) cs')"
    using select_chunks_rest by blast
  then show ?thesis unfolding cs by (intro exI [of _ "Suc n"]) (simp add: Let_def add.assoc)
qed

section \<open>Properties\<close>

lemma base_no_tools:
  "buildBaseAndRecent ms summary c fixed = (base, recent) \<Longrightarrow> \<forall>m \<in> set base. cm_Role m \<noteq> RoleTool"
  by (auto simp: buildBaseAndRecent_def splitSystemMessage_def CompactionSummary_def Let_def
      split: list.splits if_splits prod.splits)

lemma recent_cases:
  "buildBaseAndRecent ms summary c fixed = (base, recent) \<Longrightarrow>
     recent = drop (NormalizeCompactedMessages ms c) ms \<and> 1 < NormalizeCompactedMessages ms c
     \<or> recent = snd (splitSystemMessage ms)"
  by (auto simp: buildBaseAndRecent_def Let_def split: prod.splits if_splits)

lemma rest_well_paired: "well_paired ms \<Longrightarrow> well_paired (snd (splitSystemMessage ms))"
  by (cases ms) (auto simp: splitSystemMessage_def calls_tools_def)

lemma BuildSnapshot_messages:
  assumes "buildBaseAndRecent ms
      (summaryForWindow (if ok then TrimSpace summary else []) windowK) (if ok then c else 0) fixed = (base, recent)"
  shows "snap_Messages (BuildSnapshot ok ms summary c windowK reserved fixed)
    = base @ concat (rev (select_chunks (window_budget (NormalizeWindowK windowK) reserved)
        (EstimateMessagesTokens base) True (rev (messageChunks recent))))"
  using assms by (auto simp: BuildSnapshot_def analyzePrepared_def Let_def split: prod.splits)

lemma select_chunks_subset: "set (select_chunks b t f cs) \<subseteq> set cs"
  by (induction b t f cs rule: select_chunks.induct) (auto simp: Let_def)

text \<open>
  C11: no request to a model holds a tool result without its call: if each tool result of the history
  follows its call, and the compacted prefix ends between turns, then in the snapshot each tool
  result follows its call, for every budget, summary and fixed context; and the prefix of a new
  compaction ends between turns again, keeps the given number of newest turns, and loses no message.
\<close>

theorem snapshot_keeps_tool_pairs:
  assumes paired: "well_paired ms"
    and boundary: "well_paired (drop (NormalizeCompactedMessages ms c) ms)"
  shows "well_paired (snap_Messages (BuildSnapshot ok ms summary c windowK reserved fixed))
    \<and> (case CompactSplit ms c keep of (old, kept, cutoff) \<Rightarrow>
        old @ kept = drop (NormalizeCompactedMessages ms c) ms
        \<and> well_paired (drop cutoff ms) \<and> NormalizeCompactedMessages ms c \<le> cutoff
        \<and> (old \<noteq> [] \<longrightarrow> kept = drop cutoff ms
             \<and> (\<exists>turns. kept = concat turns \<and> int (length turns) = (if keep \<le> 0 then 8 else keep)
                  \<and> set turns \<subseteq> set (messageChunks (drop (NormalizeCompactedMessages ms c) ms)))))"
proof
  obtain base recent where br: "buildBaseAndRecent ms
      (summaryForWindow (if ok then TrimSpace summary else []) windowK) (if ok then c else 0) fixed = (base, recent)"
    by (meson surj_pair)
  have "well_paired recent"
    using recent_cases [OF br] boundary rest_well_paired [OF paired]
    by (cases ok) (auto simp: NormalizeCompactedMessages_def split: if_splits)
  then have "\<forall>chunk \<in> set (rev (select_chunks (window_budget (NormalizeWindowK windowK) reserved)
      (EstimateMessagesTokens base) True (rev (messageChunks recent)))). well_paired chunk"
    using select_chunks_subset chunks_well_paired by fastforce
  then show "well_paired (snap_Messages (BuildSnapshot ok ms summary c windowK reserved fixed))"
    unfolding BuildSnapshot_messages [OF br]
    by (intro tools_follow_append well_paired_no_tools [OF base_no_tools [OF br]] well_paired_concat)
next
  let ?start = "NormalizeCompactedMessages ms c"
  let ?chunks = "messageChunks (drop ?start ms)" and ?keep = "if keep \<le> 0 then 8 else keep"
  let ?n = "length ?chunks - nat ?keep"
  let ?cut = "?start + sum_list (map length (take ?n ?chunks))"
  have split: "concat (take ?n ?chunks) @ concat (drop ?n ?chunks) = drop ?start ms"
    by (simp only: concat_append [symmetric] append_take_drop_id concat_messageChunks)
  have parts: "take (length xs) d = xs \<and> drop (length xs) d = ys" if "xs @ ys = d"
    for xs ys d :: "ChatMessage list"
    using that by auto
  have len: "sum_list (map length (take ?n ?chunks)) = length (concat (take ?n ?chunks))"
    by (simp only: length_concat)
  have old: "take (?cut - ?start) (drop ?start ms) = concat (take ?n ?chunks)"
    using parts [OF split] unfolding len by (simp only: diff_add_inverse)
  have kept: "drop ?cut ms = concat (drop ?n ?chunks)"
    using parts [OF split] unfolding len by (simp only: drop_drop add.commute)
  have paired_kept: "well_paired (concat (drop ?n ?chunks))"
    using chunks_well_paired [OF boundary] by (intro well_paired_concat) (meson in_set_dropD)
  have count: "int (length (drop ?n ?chunks)) = ?keep" if "\<not> int (length ?chunks) \<le> ?keep"
    using that by (auto simp: nat_le_iff)
  show "case CompactSplit ms c keep of (old, kept, cutoff) \<Rightarrow>
        old @ kept = drop ?start ms \<and> well_paired (drop cutoff ms) \<and> ?start \<le> cutoff
        \<and> (old \<noteq> [] \<longrightarrow> kept = drop cutoff ms
             \<and> (\<exists>turns. kept = concat turns \<and> int (length turns) = ?keep \<and> set turns \<subseteq> set ?chunks))"
  proof (cases "?start \<ge> length ms \<or> int (length ?chunks) \<le> ?keep")
    case True
    then show ?thesis using boundary by (auto simp: CompactSplit_def Let_def)
  next
    case False
    then have eq: "CompactSplit ms c keep = (take (?cut - ?start) (drop ?start ms), drop ?cut ms, ?cut)"
      by (simp add: CompactSplit_def Let_def)
    have many: "\<not> int (length ?chunks) \<le> ?keep" using False by simp
    have "concat (drop ?n ?chunks) = concat (drop ?n ?chunks) \<and> int (length (drop ?n ?chunks)) = ?keep
        \<and> set (drop ?n ?chunks) \<subseteq> set ?chunks"
      by (intro conjI refl count [OF many] set_drop_subset)
    then have ex: "\<exists>turns. concat (drop ?n ?chunks) = concat turns \<and> int (length turns) = ?keep
        \<and> set turns \<subseteq> set ?chunks"
      by (rule exI)
    show ?thesis
      unfolding eq prod.case old kept by (intro conjI impI split paired_kept le_add1 refl ex)
  qed
qed

text \<open>
  The snapshot is the system message, the fixed context and the summary, followed by the newest
  whole turns of the history that is not compacted, always at least the newest one; the number of
  tokens it reports is that of its messages, they are within the window less the reserved tokens
  unless only the newest turn was taken, and one more turn would not have fitted.
\<close>

theorem snapshot_takes_newest_turns:
  fixes reserved :: int
  assumes br: "buildBaseAndRecent ms
      (summaryForWindow (if ok then TrimSpace summary else []) windowK) (if ok then c else 0) fixed = (base, recent)"
    and ne: "recent \<noteq> []"
  defines "snap \<equiv> BuildSnapshot ok ms summary c windowK reserved fixed"
    and "turns \<equiv> messageChunks recent"
    and "budget \<equiv> window_budget (NormalizeWindowK windowK) reserved"
  shows "\<exists>k < length turns. snap_Messages snap = base @ concat (drop k turns) \<and> concat turns = recent
    \<and> wi_SelectedTokens (snap_Info snap) = EstimateMessagesTokens (snap_Messages snap)
    \<and> (wi_SelectedTokens (snap_Info snap) \<le> budget \<or> Suc k = length turns)
    \<and> (0 < k \<longrightarrow> budget < EstimateMessagesTokens (base @ concat (drop (k - 1) turns)))"
proof -
  let ?t = "EstimateMessagesTokens base"
  have "rev turns \<noteq> []" using ne by (simp add: turns_def)
  from select_chunks_first [OF this, of budget ?t]
  obtain n where n: "0 < n" "n \<le> length turns" "select_chunks budget ?t True (rev turns) = take n (rev turns)"
    "1 < n \<longrightarrow> ?t + turns_tokens (take n (rev turns)) \<le> budget"
    "n < length turns \<longrightarrow> budget < ?t + turns_tokens (take (Suc n) (rev turns))"
    by auto
  let ?k = "length turns - n"
  have newest: "rev (take j (rev turns)) = drop (length turns - j) turns" for j
    by (simp add: rev_take)
  have tokens: "turns_tokens (take j (rev turns)) = EstimateMessagesTokens (concat (drop (length turns - j) turns))" for j
    unfolding EstimateMessagesTokens_concat newest [symmetric] by (simp add: rev_map sum_list_rev flip: rev_map)
  have msgs: "snap_Messages snap = base @ concat (drop ?k turns)"
    unfolding snap_def BuildSnapshot_messages [OF br] by (simp add: n(3) newest flip: turns_def budget_def)
  have info: "wi_SelectedTokens (snap_Info snap) = ?t + turns_tokens (take n (rev turns))"
    using br ne n(3)
    by (auto simp: snap_def BuildSnapshot_def analyzePrepared_def Let_def turns_def budget_def split: prod.splits)
  have one: "n = 1 \<Longrightarrow> Suc ?k = length turns" using n(2) by simp
  show ?thesis
  proof (intro exI [of _ ?k] conjI impI)
    show "?k < length turns" using n(1,2) by simp
    show "snap_Messages snap = base @ concat (drop ?k turns)" by (fact msgs)
    show "concat turns = recent" by (simp add: turns_def)
    show "wi_SelectedTokens (snap_Info snap) = EstimateMessagesTokens (snap_Messages snap)"
      by (simp add: info msgs tokens)
    show "wi_SelectedTokens (snap_Info snap) \<le> budget \<or> Suc ?k = length turns"
      using n(1,4) one info by (cases "n = 1") auto
    assume "0 < ?k"
    then show "budget < EstimateMessagesTokens (base @ concat (drop (?k - 1) turns))"
      using n(5) tokens [of "Suc n"] by simp
  qed
qed

section \<open>Witnesses\<close>

definition sample_history :: "ChatMessage list" where
  "sample_history =
     [TextMessage RoleSystem ''rules'', TextMessage RoleUser ''hi'',
      ToolCallMessage [\<lparr>tc_ID = ''1'', tc_Type = ''function'', tc_Name = ''ls'', tc_Arguments = []\<rparr>],
      TextMessage RoleTool ''a.txt'', TextMessage RoleUser ''thanks'']"

lemma sample_history_roles:
  "map cm_Role sample_history = [RoleSystem, RoleUser, RoleAssistant, RoleTool, RoleUser]"
  by (simp add: sample_history_def ToolCallMessage_def)

lemma sample_history_paired: "well_paired sample_history"
  by (simp add: sample_history_def calls_tools_def ToolCallMessage_def HasToolCall_def FirstToolCall_def
      IsSynthetic_def TextMessage_def)

theorem snapshot_keeps_tool_pairs_witness:
  "well_paired (snap_Messages (BuildSnapshot True sample_history [] 0 4 0 []))"
proof -
  have "well_paired (drop (NormalizeCompactedMessages sample_history 0) sample_history)"
    using sample_history_paired
    by (simp add: NormalizeCompactedMessages_def sample_history_def calls_tools_def ToolCallMessage_def)
  from snapshot_keeps_tool_pairs [OF sample_history_paired this, where ok = True and summary = "[]"
      and windowK = 4 and reserved = 0 and fixed = "[]" and keep = 1]
  show ?thesis by (rule conjunct1)
qed

theorem snapshot_takes_newest_turns_witness:
  "\<exists>k. snap_Messages (BuildSnapshot True sample_history [] 0 4 0 [])
     = [TextMessage RoleSystem ''rules''] @ concat (drop k (messageChunks (tl sample_history)))"
proof -
  have "TruncateTextToTokens [] n = []" for n by (simp add: TruncateTextToTokens_def Let_def)
  then have br: "buildBaseAndRecent sample_history
      (summaryForWindow (if True then TrimSpace [] else []) 4) (if True then 0 else 0) []
      = ([TextMessage RoleSystem ''rules''], tl sample_history)"
    by (simp add: buildBaseAndRecent_def splitSystemMessage_def sample_history_def summaryForWindow_def
        CompactionSummary_def NormalizeCompactedMessages_def Let_def)
  have "tl sample_history \<noteq> []" by (simp add: sample_history_def)
  from snapshot_takes_newest_turns [OF br this, where reserved = 0] show ?thesis by blast
qed

end
