(* ===== verification/GoPath.thy ===== *)
theory GoPath
  imports GoStrings
begin

text \<open>
  Go's \<open>path/filepath\<close> on Unix, as far as the components use it: \<open>Clean\<close>, \<open>IsAbs\<close>, \<open>Join\<close>, \<open>Abs\<close>
  (with the working directory as an argument) and \<open>Rel\<close> for absolute paths. A path is cleaned by its
  elements: blank ones and \<open>.\<close> disappear, \<open>..\<close> removes the element before it, and nothing is above
  the root.
\<close>

definition IsAbs :: "string \<Rightarrow> bool" where
  "IsAbs p \<longleftrightarrow> HasPrefix p ''/''"

fun clean_elements :: "bool \<Rightarrow> string list \<Rightarrow> string list \<Rightarrow> string list" where
  "clean_elements rooted done_rev [] = rev done_rev"
| "clean_elements rooted done_rev (e # es) =
     (if e = [] \<or> e = ''.'' then clean_elements rooted done_rev es
      else if e = ''..'' then
        (case done_rev of
           [] \<Rightarrow> clean_elements rooted (if rooted then [] else [''..'']) es
         | d # ds \<Rightarrow> clean_elements rooted (if d = ''..'' then ''..'' # d # ds else ds) es)
      else clean_elements rooted (e # done_rev) es)"

definition path_elements :: "string \<Rightarrow> string list" where
  "path_elements p = clean_elements (IsAbs p) [] (split_at CHR ''/'' p)"

definition Clean :: "string \<Rightarrow> string" where
  "Clean p =
     (if IsAbs p then ''/'' @ join ''/'' (path_elements p)
      else if path_elements p = [] then ''.'' else join ''/'' (path_elements p))"

definition Join2 :: "string \<Rightarrow> string \<Rightarrow> string" where
  "Join2 a b = (if a = [] \<and> b = [] then [] else if a = [] then Clean b else if b = [] then Clean a
     else Clean (a @ ''/'' @ b))"

definition Abs :: "string \<Rightarrow> string \<Rightarrow> string" where
  "Abs cwd p = (if IsAbs p then Clean p else Join2 cwd p)"

text \<open>\<open>Rel\<close> of two absolute paths: up from the base to the common elements, then down.\<close>

fun common_length :: "string list \<Rightarrow> string list \<Rightarrow> nat" where
  "common_length (x # xs) (y # ys) = (if x = y then Suc (common_length xs ys) else 0)"
| "common_length _ _ = 0"

definition rel_elements :: "string list \<Rightarrow> string list \<Rightarrow> string list" where
  "rel_elements bs ts =
     (let n = common_length bs ts in replicate (length bs - n) ''..'' @ drop n ts)"

definition Rel :: "string \<Rightarrow> string \<Rightarrow> string" where
  "Rel base target =
     (let rel = rel_elements (path_elements base) (path_elements target)
      in if rel = [] then ''.'' else join ''/'' rel)"

section \<open>Lemmas\<close>

text \<open>Elements of a split: non-empty ones of a clean path hold no slash; and a path of an absolute
  path has no \<open>..\<close>.\<close>

definition element :: "string \<Rightarrow> bool" where
  "element e \<longleftrightarrow> e \<noteq> [] \<and> e \<noteq> ''.'' \<and> e \<noteq> ''..'' \<and> CHR ''/'' \<notin> set e"

lemma split_at_no_sep: "e \<in> set (split_at c s) \<Longrightarrow> c \<notin> set e"
proof (induction s arbitrary: e)
  case (Cons x xs)
  obtain f fs where "split_at c xs = f # fs" using split_at_nonempty by (meson list.exhaust)
  with Cons show ?case by (auto split: if_splits)
qed simp

lemma clean_rooted_elements:
  "list_all element done_rev \<Longrightarrow> \<forall>e \<in> set es. CHR ''/'' \<notin> set e
    \<Longrightarrow> list_all element (clean_elements True done_rev es)"
proof (induction True done_rev es rule: clean_elements.induct)
  case (2 done_rev e es)
  show ?case
  proof (cases "e = [] \<or> e = ''.''")
    case True
    with 2 show ?thesis by auto
  next
    case ne: False
    show ?thesis
    proof (cases "e = ''..''")
      case True
      show ?thesis
      proof (cases done_rev)
        case Nil
        with 2 True show ?thesis by simp
      next
        case (Cons d ds)
        with "2.prems" have "d \<noteq> ''..''" by (simp add: element_def)
        with 2 True Cons show ?thesis by simp
      qed
    next
      case False
      with ne "2.prems" have "list_all element (e # done_rev)" by (simp add: element_def)
      with 2 ne False show ?thesis by simp
    qed
  qed
qed simp

lemma path_elements_absolute: "IsAbs p \<Longrightarrow> list_all element (path_elements p)"
  using clean_rooted_elements [of "[]"] split_at_no_sep by (auto simp: path_elements_def)

lemma clean_elements_id:
  "list_all element es \<Longrightarrow> clean_elements rooted done_rev es = rev done_rev @ es"
  by (induction es arbitrary: done_rev) (simp_all add: element_def)

lemma split_at_join_elements:
  "es \<noteq> [] \<Longrightarrow> list_all (\<lambda>e. c \<notin> set e) es \<Longrightarrow> split_at c (join [c] es) = es"
proof (induction es)
  case (Cons e es)
  have last: "c \<notin> set x \<Longrightarrow> split_at c x = [x]" for x by (induction x) auto
  have more: "c \<notin> set x \<Longrightarrow> split_at c (x @ c # s) = x # split_at c s" for x s by (induction x) auto
  show ?case using Cons last more by (cases es) auto
qed simp

text \<open>A cleaned absolute path is absolute, and cleaning it again changes nothing.\<close>

lemma path_elements_Clean:
  assumes "IsAbs p"
  shows "IsAbs (Clean p)" "path_elements (Clean p) = path_elements p"
proof -
  let ?es = "path_elements p"
  have es: "list_all element ?es" by (rule path_elements_absolute [OF assms])
  show abs: "IsAbs (Clean p)" using assms by (simp add: Clean_def IsAbs_def HasPrefix_def)
  have "split_at CHR ''/'' (''/'' @ join ''/'' ?es) = (if ?es = [] then [[], []] else [] # ?es)"
    using es split_at_join_elements [of ?es "CHR ''/''"] by (auto simp: list_all_iff element_def)
  then have sp: "split_at CHR ''/'' (Clean p) = (if ?es = [] then [[], []] else [] # ?es)"
    using assms by (simp add: Clean_def)
  have "path_elements (Clean p) = clean_elements True [] (split_at CHR ''/'' (Clean p))"
    by (simp only: path_elements_def [of "Clean p"] abs)
  then show "path_elements (Clean p) = ?es"
    unfolding sp using clean_elements_id [OF es, of True "[]"] by simp
qed

lemma IsAbs_append: "IsAbs p \<Longrightarrow> IsAbs (p @ q)"
  by (cases p) (simp_all add: IsAbs_def HasPrefix_def)

lemma IsAbs_Abs: "IsAbs cwd \<Longrightarrow> IsAbs (Abs cwd p)"
  using IsAbs_append [of cwd "''/'' @ p"]
  by (cases "cwd = []") (simp_all add: Abs_def Join2_def path_elements_Clean(1) IsAbs_def [of "[]"] HasPrefix_def)

text \<open>A relative path stays inside exactly if the elements of the base are a prefix.\<close>

lemma common_length_full: "common_length bs ts = length bs \<longleftrightarrow> take (length bs) ts = bs"
  by (induction bs ts rule: common_length.induct) auto

lemma common_length_le: "common_length bs ts \<le> length bs"
  by (induction bs ts rule: common_length.induct) auto

lemma rel_escapes:
  assumes "list_all element ts"
  shows "(rel_elements bs ts \<noteq> [] \<and> hd (rel_elements bs ts) = ''..'') \<longleftrightarrow> take (length bs) ts \<noteq> bs"
proof (cases "common_length bs ts = length bs")
  case True
  then have "rel_elements bs ts = drop (length bs) ts" by (simp add: rel_elements_def)
  moreover have "''..'' \<notin> set (drop (length bs) ts)"
    using assms by (auto simp: list_all_iff element_def dest: in_set_dropD)
  ultimately show ?thesis using True common_length_full hd_in_set by metis
next
  case False
  then obtain k where "length bs - common_length bs ts = Suc k"
    using common_length_le [of bs ts] by (metis Suc_diff_Suc le_neq_implies_less)
  then show ?thesis using False common_length_full by (auto simp: rel_elements_def Let_def)
qed

lemma rel_elements_no_slash:
  assumes "list_all element ts"
  shows "\<forall>e \<in> set (rel_elements bs ts). e \<noteq> [] \<and> CHR ''/'' \<notin> set e"
proof
  fix e
  assume "e \<in> set (rel_elements bs ts)"
  then have "e \<in> set (replicate (length bs - common_length bs ts) ''..'')
      \<or> e \<in> set (drop (common_length bs ts) ts)"
    by (simp only: rel_elements_def Let_def set_append Un_iff)
  then show "e \<noteq> [] \<and> CHR ''/'' \<notin> set e"
  proof
    assume "e \<in> set (replicate (length bs - common_length bs ts) ''..'')"
    then have "e = ''..''" by (rule in_set_replicate [THEN iffD1, THEN conjunct1])
    then show ?thesis by simp
  next
    assume "e \<in> set (drop (common_length bs ts) ts)"
    then have "e \<in> set ts" by (rule in_set_dropD)
    then have "element e" using assms by (simp add: list_all_iff)
    then show ?thesis by (simp add: element_def)
  qed
qed

end
