(* ===== verification/ToolPolicy.thy ===== *)
theory ToolPolicy
  imports GoPath
begin

text \<open>
  Which tool calls a session permits: \<open>core/application/tool/service/permission_service.go\<close>,
  \<open>approval_policy.go\<close> (which calls need no confirmation in ask mode), \<open>selection_service.go\<close> (which
  tools a model is offered) and the modes of \<open>core/session/Session.go\<close> and \<open>core/tool/tool\<close>.
  Permissions and modes are Go strings with known constants: any other value is a constructor of
  its own. The JSON decoding of a call's arguments is the argument \<open>member\<close> (the string member of
  an object, if it has one), the letter case of non-ASCII runes the argument \<open>low\<close>, the working
  directory \<open>cwd\<close>.
\<close>

section \<open>Permissions and modes\<close>

datatype Permission = PermissionRead | PermissionWrite | PermissionExecute | PermissionOther string

fun NormalizePermission :: "Permission \<Rightarrow> Permission" where
  "NormalizePermission PermissionWrite = PermissionWrite"
| "NormalizePermission PermissionExecute = PermissionExecute"
| "NormalizePermission _ = PermissionRead"

datatype PermissionMode =
    PermissionModeReadonly
  | PermissionModeReadWrite
  | PermissionModeExecute
  | PermissionModeAsk
  | PermissionModeFull
  | PermissionModeOther string

fun NormalizePermissionMode :: "PermissionMode \<Rightarrow> PermissionMode" where
  "NormalizePermissionMode PermissionModeReadonly = PermissionModeReadonly"
| "NormalizePermissionMode PermissionModeReadWrite = PermissionModeReadWrite"
| "NormalizePermissionMode PermissionModeExecute = PermissionModeExecute"
| "NormalizePermissionMode PermissionModeFull = PermissionModeFull"
| "NormalizePermissionMode _ = PermissionModeAsk"

datatype AgentMode = AgentModeChat | AgentModePlan | AgentModeOther string

fun NormalizeAgentMode :: "AgentMode \<Rightarrow> AgentMode" where
  "NormalizeAgentMode AgentModePlan = AgentModePlan"
| "NormalizeAgentMode _ = AgentModeChat"

fun Permission_text :: "Permission \<Rightarrow> string" where
  "Permission_text PermissionRead = ''read''"
| "Permission_text PermissionWrite = ''write''"
| "Permission_text PermissionExecute = ''execute''"
| "Permission_text (PermissionOther s) = s"

fun PermissionMode_text :: "PermissionMode \<Rightarrow> string" where
  "PermissionMode_text PermissionModeReadonly = ''readonly''"
| "PermissionMode_text PermissionModeReadWrite = ''read_write''"
| "PermissionMode_text PermissionModeExecute = ''execute''"
| "PermissionMode_text PermissionModeAsk = ''ask''"
| "PermissionMode_text PermissionModeFull = ''full''"
| "PermissionMode_text (PermissionModeOther s) = s"

record PermissionRequest =
  pr_ToolCallID :: string
  pr_Name :: string
  pr_Arguments :: string
  pr_Permission :: Permission
  pr_Mode :: PermissionMode

record PermissionCommand =
  pc_Name :: string
  pc_Arguments :: string
  pc_Permission :: Permission
  pc_Mode :: PermissionMode
  pc_WorkspaceRoot :: string
  pc_Isolated :: bool
  pc_RequireConfirmation :: bool
  pc_Ask :: "(PermissionRequest \<Rightarrow> bool) option"

record PermissionDecision =
  pd_Message :: string
  pd_Allowed :: bool

section \<open>Approval without confirmation\<close>

type_synonym json_member = "string \<Rightarrow> string \<Rightarrow> string option"
type_synonym case_table = "string \<Rightarrow> string"

definition jsonStringField :: "json_member \<Rightarrow> string \<Rightarrow> string \<Rightarrow> string" where
  "jsonStringField member arguments field =
     (case member (TrimSpace arguments) field of None \<Rightarrow> [] | Some v \<Rightarrow> TrimSpace v)"

definition commandLine :: "json_member \<Rightarrow> string \<Rightarrow> string \<Rightarrow> string" where
  "commandLine member name arguments =
     (if TrimSpace name = ''shell'' then jsonStringField member arguments ''command''
      else TrimSpace arguments)"

definition pathInsideWorkspace :: "string \<Rightarrow> string \<Rightarrow> string \<Rightarrow> bool" where
  "pathInsideWorkspace cwd workspaceRoot0 rawPath0 =
     (let workspaceRoot = TrimSpace workspaceRoot0; rawPath = TrimSpace rawPath0
      in if workspaceRoot = [] \<or> rawPath = [] then False
         else (let workspace = Abs cwd (Clean workspaceRoot);
                   target0 = (if \<not> IsAbs rawPath then Join2 workspace rawPath else rawPath);
                   target = Abs cwd (Clean target0);
                   rel = Rel workspace target
               in rel \<noteq> ''..'' \<and> \<not> HasPrefix rel ''../''))"

text \<open>The replacer puts a newline for each operator, the first that matches in the order of the code.\<close>

fun replace_operators :: "string \<Rightarrow> string" where
  "replace_operators (a # b # s) =
     (if (a = CHR ''&'' \<and> b = CHR ''&'') \<or> (a = CHR ''|'' \<and> b = CHR ''|'')
      then CHR 0x0A # replace_operators s
      else if a = CHR ''|'' \<or> a = CHR '';'' \<or> a = CHR 0x60 then CHR 0x0A # replace_operators (b # s)
      else a # replace_operators (b # s))"
| "replace_operators [a] =
     (if a = CHR ''|'' \<or> a = CHR '';'' \<or> a = CHR 0x60 then [CHR 0x0A] else [a])"
| "replace_operators [] = []"

definition splitCommandSegments :: "string \<Rightarrow> string list" where
  "splitCommandSegments command =
     (let segments = filter (\<lambda>s. s \<noteq> []) (map TrimSpace (split_at CHR 0x0A (replace_operators command)))
      in if segments = [] then [TrimSpace command] else segments)"

definition commandTokens :: "string \<Rightarrow> string list" where
  "commandTokens segment =
     filter (\<lambda>t. t \<noteq> []) (map (TrimASCII [CHR 0x22, CHR 0x27]) (FieldsFunc IsSpace segment))"

definition hasRedirection :: "string \<Rightarrow> bool" where
  "hasRedirection segment \<longleftrightarrow> ContainsAny segment ''<>''"

definition versionQuery :: "case_table \<Rightarrow> string list \<Rightarrow> bool" where
  "versionQuery low tokens =
     (case tokens of [] \<Rightarrow> False | t # _ \<Rightarrow> ToLower low t \<in> {''--version'', ''-version'', ''-v''})"

definition safeReadOnlySegment :: "case_table \<Rightarrow> string \<Rightarrow> bool" where
  "safeReadOnlySegment low segment =
     (case commandTokens segment of
        [] \<Rightarrow> False
      | t # ts \<Rightarrow>
          (let first = ToLower low t
           in if first \<in> {''date'', ''time'', ''pwd'', ''cd'', ''dir'', ''ls'', ''hostname'', ''whoami'',
                          ''get-date'', ''get-location'', ''set-location'', ''get-childitem'', ''gci''}
              then \<not> hasRedirection segment
              else if first = ''git'' then
                (case ts of
                   [] \<Rightarrow> False
                 | u # _ \<Rightarrow> ToLower low u \<in> {''status'', ''diff'', ''log'', ''rev-parse'', ''branch''}
                            \<and> \<not> hasRedirection segment)
              else if first \<in> {''go'', ''python'', ''python3'', ''py'', ''node'', ''java''}
                then versionQuery low ts \<and> \<not> hasRedirection segment
              else False))"

definition dangerousSegment :: "case_table \<Rightarrow> string \<Rightarrow> bool" where
  "dangerousSegment low segment =
     (case commandTokens segment of
        [] \<Rightarrow> False
      | t # ts \<Rightarrow>
          (let first = ToLower low t; lower = ToLower low segment
           in if first \<in> {''rm'', ''del'', ''erase'', ''rd'', ''rmdir'', ''remove-item'', ''ri'', ''format'',
                          ''shutdown'', ''restart-computer'', ''curl'', ''wget'', ''invoke-webrequest'',
                          ''iwr'', ''iex'', ''invoke-expression'', ''start-process'',
                          ''set-executionpolicy'', ''chmod'', ''chown'', ''sudo'', ''mkfs'', ''diskpart''}
              then True
              else if first \<in> {''npm'', ''pip'', ''pip3'', ''pnpm'', ''yarn'', ''go''}
                then (case ts of [] \<Rightarrow> False | u # _ \<Rightarrow> EqualFoldWord u ''install'')
              else Contains lower ''invoke-expression'' \<or> Contains lower ''iex(''))"

definition isSafeReadOnlyCommand :: "case_table \<Rightarrow> string \<Rightarrow> bool" where
  "isSafeReadOnlyCommand low command \<longleftrightarrow>
     \<not> blank command \<and> list_all (safeReadOnlySegment low) (splitCommandSegments command)"

definition isDangerousCommand :: "case_table \<Rightarrow> string \<Rightarrow> bool" where
  "isDangerousCommand low command \<longleftrightarrow>
     \<not> blank command \<and> list_ex (dangerousSegment low) (splitCommandSegments command)"

text \<open>\<open>True\<close> is \<open>askApprovalAuto\<close>.\<close>

definition assessExecuteApproval :: "case_table \<Rightarrow> json_member \<Rightarrow> PermissionCommand \<Rightarrow> bool" where
  "assessExecuteApproval low member command =
     (let cmdline = commandLine member (pc_Name command) (pc_Arguments command)
      in isSafeReadOnlyCommand low cmdline
         \<or> pc_Isolated command \<and> cmdline \<noteq> [] \<and> \<not> isDangerousCommand low cmdline)"

definition assessAskApproval :: "case_table \<Rightarrow> json_member \<Rightarrow> string \<Rightarrow> PermissionCommand \<Rightarrow> bool" where
  "assessAskApproval low member cwd command =
     (case NormalizePermission (pc_Permission command) of
        PermissionRead \<Rightarrow> True
      | PermissionWrite \<Rightarrow>
          pathInsideWorkspace cwd (pc_WorkspaceRoot command)
            (jsonStringField member (pc_Arguments command) ''path'')
      | _ \<Rightarrow> assessExecuteApproval low member command)"

section \<open>The permission service\<close>

definition permission_denied :: "string \<Rightarrow> PermissionDecision" where
  "permission_denied message = \<lparr>pd_Message = message, pd_Allowed = False\<rparr>"

definition permission_allowed :: PermissionDecision where
  "permission_allowed = \<lparr>pd_Message = [], pd_Allowed = True\<rparr>"

definition deniedByCapability ::
  "PermissionCommand \<Rightarrow> PermissionMode \<Rightarrow> Permission \<Rightarrow> PermissionDecision" where
  "deniedByCapability command mode permission =
     permission_denied (''permission denied: session permission mode is '' @ PermissionMode_text mode
       @ '' and tool '' @ pc_Name command @ '' requires '' @ Permission_text permission)"

definition askForPermission ::
  "PermissionCommand \<Rightarrow> Permission \<Rightarrow> PermissionMode \<Rightarrow> string \<Rightarrow> PermissionDecision" where
  "askForPermission command permission mode reason =
     (let suffix = (if reason = [] then [] else '': '' @ reason)
      in case pc_Ask command of
           None \<Rightarrow> permission_denied (''permission denied: tool '' @ pc_Name command @ '' requires ''
                     @ Permission_text permission @ '' but no permission handler is configured'' @ suffix)
         | Some ask \<Rightarrow>
             (if ask \<lparr>pr_ToolCallID = [], pr_Name = pc_Name command, pr_Arguments = pc_Arguments command,
                      pr_Permission = permission, pr_Mode = mode\<rparr>
              then permission_allowed
              else permission_denied (''permission denied by user: tool '' @ pc_Name command
                     @ '' requires '' @ Permission_text permission @ suffix)))"

definition Allow :: "case_table \<Rightarrow> json_member \<Rightarrow> string \<Rightarrow> PermissionCommand \<Rightarrow> PermissionDecision" where
  "Allow low member cwd command =
     (let permission = NormalizePermission (pc_Permission command);
          mode = NormalizePermissionMode (pc_Mode command)
      in if mode = PermissionModeReadonly \<and> permission \<noteq> PermissionRead
            \<or> mode = PermissionModeReadWrite \<and> permission = PermissionExecute
            \<or> mode = PermissionModeExecute \<and> permission = PermissionWrite
         then deniedByCapability command mode permission
         else if pc_RequireConfirmation command
           then askForPermission command permission mode ''hook requires confirmation''
         else if permission = PermissionRead then permission_allowed
         else if mode = PermissionModeReadWrite \<or> mode = PermissionModeExecute \<or> mode = PermissionModeFull
           then permission_allowed
         else if assessAskApproval low member cwd command then permission_allowed
         else askForPermission command permission mode [])"

section \<open>The selection service\<close>

definition allowsPermissionMode :: "Permission \<Rightarrow> PermissionMode \<Rightarrow> bool" where
  "allowsPermissionMode permission0 mode =
     (let permission = NormalizePermission permission0
      in case NormalizePermissionMode mode of
           PermissionModeReadonly \<Rightarrow> permission = PermissionRead
         | PermissionModeReadWrite \<Rightarrow> permission = PermissionRead \<or> permission = PermissionWrite
         | PermissionModeExecute \<Rightarrow> permission = PermissionRead \<or> permission = PermissionExecute
         | _ \<Rightarrow> True)"

definition EffectiveAgentMode :: "AgentMode \<Rightarrow> bool \<Rightarrow> AgentMode" where
  "EffectiveAgentMode agentMode forceChatMode =
     (if forceChatMode then AgentModeChat else NormalizeAgentMode agentMode)"

definition AllowsToolPermission :: "Permission \<Rightarrow> AgentMode \<Rightarrow> bool \<Rightarrow> bool" where
  "AllowsToolPermission permission agentMode forceChatMode \<longleftrightarrow>
     \<not> (EffectiveAgentMode agentMode forceChatMode = AgentModePlan
        \<and> NormalizePermission permission \<noteq> PermissionRead)"

text \<open>
  The parts of a session that the selection reads; \<open>ss_AllowedTools\<close> is \<open>None\<close> for a nil slice. A
  tool of the catalog is its name and its permission. The mode policy is that of the runtime.
\<close>

record SessionTools =
  ss_AgentMode :: AgentMode
  ss_PermissionMode :: PermissionMode
  ss_AllowedTools :: "string list option"
  ss_EnforceToolAllowlist :: bool
  ss_RetrievalAuto :: bool

definition allowlist :: "string list option \<Rightarrow> string list" where
  "allowlist allowed = (case allowed of None \<Rightarrow> [] | Some names \<Rightarrow> names)"

definition ToolsForSession :: "SessionTools \<Rightarrow> bool \<Rightarrow> (string \<times> Permission) list \<Rightarrow> (string \<times> Permission) list" where
  "ToolsForSession current forceChatMode catalog =
     (let tools = filter (\<lambda>(name, permission).
              AllowsToolPermission permission (NormalizeAgentMode (ss_AgentMode current)) forceChatMode
              \<and> allowsPermissionMode permission (NormalizePermissionMode (ss_PermissionMode current))) catalog;
          tools' = (if ss_RetrievalAuto current then tools
                    else filter (\<lambda>(name, permission). name \<noteq> ''knowledge_search'') tools)
      in if \<not> ss_EnforceToolAllowlist current \<and> ss_AllowedTools current = None then tools'
         else filter (\<lambda>(name, permission). name \<in> set (allowlist (ss_AllowedTools current))) tools')"

section \<open>Properties\<close>


text \<open>Evaluation on ASCII commands.\<close>

lemma TrimSpace_ascii:
  "list_all (\<lambda>c. byte c < 128) s \<Longrightarrow> TrimSpace s = concat (trim_list IsSpace (map (\<lambda>c. [c]) s))"
  by (simp add: TrimSpace_def runes_ascii)

lemma FieldsFunc_ascii:
  "list_all (\<lambda>c. byte c < 128) s \<Longrightarrow> FieldsFunc P s = fields_from P (map (\<lambda>c. [c]) s) []"
  by (simp add: FieldsFunc_def runes_ascii)

lemma ToLower_ascii:
  "list_all (\<lambda>c. byte c < 128) s \<Longrightarrow> ToLower low s = map lower_byte s"
proof -
  assume a: "list_all (\<lambda>c. byte c < 128) s"
  then have "concat (map (lower_rune low) (map (\<lambda>c. [c]) s)) = map lower_byte s"
    by (induction s) (auto simp: lower_rune_def)
  with a show ?thesis by (simp add: ToLower_def runes_ascii)
qed

lemmas ascii_eval = TrimSpace_ascii FieldsFunc_ascii ToLower_ascii trim_list_def IsSpace_def rune_value_def
  byte_def byte_in_def lower_byte_def Let_def

lemma background_command_safe: "isSafeReadOnlyCommand low ''ls & rm -rf /''"
proof -
  have split: "splitCommandSegments ''ls & rm -rf /'' = [''ls & rm -rf /'']"
    by (simp add: splitCommandSegments_def ascii_eval)
  have tokens: "commandTokens ''ls & rm -rf /'' = [''ls'', ''&'', ''rm'', ''-rf'', ''/'']"
    by (simp add: commandTokens_def TrimASCII_def ascii_eval)
  have "safeReadOnlySegment low ''ls & rm -rf /''"
    by (simp add: safeReadOnlySegment_def tokens ascii_eval hasRedirection_def ContainsAny_def)
  then show ?thesis by (simp add: isSafeReadOnlyCommand_def split ascii_eval)
qed

text \<open>
  The approval of read-only commands does not see the background operator: in ask mode a shell
  call of \<open>ls & rm -rf /\<close> is allowed without asking, isolated or not, although the user would refuse.
\<close>

theorem background_command_auto_approved:
  assumes "NormalizePermissionMode (pc_Mode command) = PermissionModeAsk"
    and "NormalizePermission (pc_Permission command) = PermissionExecute"
    and "\<not> pc_RequireConfirmation command" and "TrimSpace (pc_Name command) = ''shell''"
    and "member (TrimSpace (pc_Arguments command)) ''command'' = Some ''ls & rm -rf /''"
  shows "pd_Allowed (Allow low member cwd command)
    \<and> Allow low member cwd (command\<lparr>pc_Ask := Some (\<lambda>_. False)\<rparr>) = permission_allowed"
proof -
  have "TrimSpace ''ls & rm -rf /'' = ''ls & rm -rf /''" by (simp add: ascii_eval)
  then have "commandLine member (pc_Name command) (pc_Arguments command) = ''ls & rm -rf /''"
    using assms(4,5) by (simp add: commandLine_def jsonStringField_def)
  then show ?thesis
    using assms background_command_safe
    by (simp add: Allow_def Let_def assessAskApproval_def assessExecuteApproval_def permission_allowed_def)
qed

definition sample_command :: "string \<Rightarrow> Permission \<Rightarrow> PermissionCommand" where
  "sample_command root permission =
     \<lparr>pc_Name = ''shell'', pc_Arguments = ''{}'', pc_Permission = permission, pc_Mode = PermissionModeAsk,
      pc_WorkspaceRoot = root, pc_Isolated = False, pc_RequireConfirmation = False, pc_Ask = None\<rparr>"

theorem background_command_auto_approved_witness:
  "pd_Allowed (Allow id (\<lambda>_ _. Some ''ls & rm -rf /'') ''/'' (sample_command [] PermissionExecute))"
proof -
  let ?c = "sample_command [] PermissionExecute" and ?m = "\<lambda>_ _. Some ''ls & rm -rf /''"
  have "NormalizePermissionMode (pc_Mode ?c) = PermissionModeAsk"
    "NormalizePermission (pc_Permission ?c) = PermissionExecute" "\<not> pc_RequireConfirmation ?c"
    "TrimSpace (pc_Name ?c) = ''shell''" "?m (TrimSpace (pc_Arguments ?c)) ''command'' = Some ''ls & rm -rf /''"
    by (simp_all add: sample_command_def visible_eval)
  from background_command_auto_approved [OF this] show ?thesis by (rule conjunct1)
qed


end
