(* ===== verification/ToolExecution.thy ===== *)
theory ToolExecution
  imports ToolPolicy ChatMessage
begin

text \<open>
  \<open>core/application/tool/service/execution_service.go\<close> and \<open>mapper.go\<close>: what happens to the tool
  calls of a model's reply. Each call goes through the registry, the hook before it, the allow
  list, the plan mode and the permission service before the tool is called; its result becomes a
  message and two entries. The calls of a reply run in goroutines, but each writes its own slot, and
  a call that is not read-only holds the lock alone; so the model gives the outcome of each call and
  the list of its effects, and the reply collects the slots in order. The registry, the hooks, the
  tools and the asset extractor are an environment.
\<close>

section \<open>Outputs and entries\<close>

record ToolOutput =
  to_Content :: string
  to_Status :: ResultStatus
  to_ErrorCode :: string
  to_ErrorMessage :: string
  to_Truncated :: bool

definition FailedOutput :: "ResultStatus \<Rightarrow> string \<Rightarrow> string \<Rightarrow> ToolOutput" where
  "FailedOutput status errorCode message =
     \<lparr>to_Content = message, to_Status = status, to_ErrorCode = errorCode, to_ErrorMessage = message,
      to_Truncated = False\<rparr>"

definition Normalized :: "ToolOutput \<Rightarrow> ToolOutput" where
  "Normalized o0 =
     (let o1 = (if to_Status o0 = ResultStatusUnset then o0\<lparr>to_Status := ResultStatusSuccess\<rparr> else o0)
      in if to_Status o1 \<noteq> ResultStatusSuccess then
           (let o2 = (if to_ErrorMessage o1 = [] then o1\<lparr>to_ErrorMessage := to_Content o1\<rparr> else o1)
            in if to_Content o2 = [] then o2\<lparr>to_Content := to_ErrorMessage o2\<rparr> else o2)
         else o1)"

definition Output_Failed :: "ToolOutput \<Rightarrow> bool" where
  "Output_Failed out \<longleftrightarrow> to_Status (Normalized out) \<noteq> ResultStatusSuccess"

datatype ExecutionEntryKind = ExecutionEntryToolCall | ExecutionEntryToolResult

record ExecutionEntry =
  ee_Kind :: ExecutionEntryKind
  ee_SessionID :: string
  ee_ToolCallID :: string
  ee_ToolName :: string
  ee_Arguments :: string
  ee_Content :: string
  ee_Error :: string
  ee_Status :: ResultStatus
  ee_ErrorCode :: string
  ee_Truncated :: bool
  ee_PromptContent :: string
  ee_PromptError :: string
  ee_PromptTruncated :: bool
  ee_CreatedAt :: gotime

definition ToolCallEntry :: "string \<Rightarrow> ToolCall \<Rightarrow> gotime \<Rightarrow> ExecutionEntry" where
  "ToolCallEntry sessionID call createdAt =
     \<lparr>ee_Kind = ExecutionEntryToolCall, ee_SessionID = sessionID, ee_ToolCallID = tc_ID call,
      ee_ToolName = tc_Name call, ee_Arguments = tc_Arguments call, ee_Content = [], ee_Error = [],
      ee_Status = ResultStatusUnset, ee_ErrorCode = [], ee_Truncated = False, ee_PromptContent = [],
      ee_PromptError = [], ee_PromptTruncated = False, ee_CreatedAt = createdAt\<rparr>"

definition ToolResultEntry :: "string \<Rightarrow> ToolCall \<Rightarrow> ToolOutput \<Rightarrow> gotime \<Rightarrow> ExecutionEntry" where
  "ToolResultEntry sessionID call out0 createdAt =
     (let out = Normalized out0
      in \<lparr>ee_Kind = ExecutionEntryToolResult, ee_SessionID = sessionID, ee_ToolCallID = tc_ID call,
          ee_ToolName = tc_Name call, ee_Arguments = tc_Arguments call, ee_Content = to_Content out,
          ee_Error = to_ErrorMessage out, ee_Status = to_Status out, ee_ErrorCode = to_ErrorCode out,
          ee_Truncated = to_Truncated out, ee_PromptContent = [], ee_PromptError = [],
          ee_PromptTruncated = False, ee_CreatedAt = createdAt\<rparr>)"

definition ToolOutputMessage :: "ToolCall \<Rightarrow> ToolOutput \<Rightarrow> ChatMessage" where
  "ToolOutputMessage call out0 =
     (let out = Normalized out0
      in ToolResultMessage
           \<lparr>tr_ToolCallID = tc_ID call, tr_Name = tc_Name call, tr_Content = to_Content out,
            tr_Status = to_Status out, tr_ErrorCode = to_ErrorCode out,
            tr_ErrorMessage = to_ErrorMessage out, tr_Truncated = to_Truncated out,
            tr_FullContent = [], tr_FullErrorMessage = [], tr_PromptTruncated = False\<rparr>)"

section \<open>Environment\<close>

datatype HookDecision = HookDecisionContinue | HookDecisionAllow | HookDecisionAsk | HookDecisionDeny

record Hook =
  hk_Decision :: HookDecision
  hk_Arguments :: string
  hk_Message :: string

datatype tool_error = DeadlineExceeded string | ToolCanceled string | ToolError string

fun tool_error_text :: "tool_error \<Rightarrow> string" where
  "tool_error_text (DeadlineExceeded s) = s"
| "tool_error_text (ToolCanceled s) = s"
| "tool_error_text (ToolError s) = s"

text \<open>
  \<open>tv_GetTool\<close> gives the declared permission of a tool, \<open>tv_Call\<close> what the call at an index does;
  \<open>tv_BeforeToolUse\<close> continues when there are no hooks.
\<close>

record 'a ToolEnv =
  tv_GetTool :: "string \<Rightarrow> string + Permission"
  tv_BeforeToolUse :: "string \<Rightarrow> string \<Rightarrow> Permission \<Rightarrow> string + Hook"
  tv_Call :: "nat \<Rightarrow> string \<Rightarrow> string \<Rightarrow> ToolOutput \<times> tool_error option"
  tv_Extract :: "ToolCall \<Rightarrow> ToolOutput \<Rightarrow> gotime \<Rightarrow> 'a option"
  tv_ContextCanceled :: bool
  tv_member :: json_member
  tv_lower :: case_table
  tv_cwd :: string

record ExecutionCommand =
  xc_SessionID :: string
  xc_AgentMode :: AgentMode
  xc_PermissionMode :: PermissionMode
  xc_ForceChatMode :: bool
  xc_WorkspaceRoot :: string
  xc_Isolated :: bool
  xc_Calls :: "ToolCall list"
  xc_AllowedTools :: "string list option"
  xc_EnforceToolAllowlist :: bool
  xc_OnToolAsk :: "(PermissionRequest \<Rightarrow> bool) option"

datatype 'a tool_event =
    EvToolCall ToolCall
  | EvInvoke string string
  | EvToolResult ToolCall ToolOutput
  | EvAfterToolUse ToolCall string "string option"
  | EvAsset 'a

record 'a callExecution =
  ce_call :: ToolCall
  ce_message :: ChatMessage
  ce_entries :: "ExecutionEntry list"
  ce_asset :: "'a option"

section \<open>Guards\<close>

definition toolAllowed :: "string list option \<Rightarrow> bool \<Rightarrow> string \<Rightarrow> bool" where
  "toolAllowed allowed enforced name \<longleftrightarrow>
     \<not> enforced \<and> allowed = None \<or> name \<in> set (allowlist allowed)"

definition allowsExecutionInMode :: "Permission \<Rightarrow> AgentMode \<Rightarrow> bool \<Rightarrow> bool" where
  "allowsExecutionInMode permission agentMode forceChatMode \<longleftrightarrow>
     forceChatMode \<or> NormalizeAgentMode agentMode \<noteq> AgentModePlan
     \<or> NormalizePermission permission = PermissionRead"

definition outputForError :: "bool \<Rightarrow> tool_error \<Rightarrow> ToolOutput" where
  "outputForError contextCanceled err =
     (let message = ''tool error: '' @ tool_error_text err
      in case err of
           DeadlineExceeded _ \<Rightarrow> FailedOutput ResultStatusTimeout ''tool_timeout'' message
         | ToolCanceled _ \<Rightarrow> FailedOutput ResultStatusCanceled ''tool_canceled'' message
         | ToolError _ \<Rightarrow>
             (if contextCanceled then FailedOutput ResultStatusCanceled ''tool_canceled'' message
              else FailedOutput ResultStatusFailed ''tool_failed'' message))"

text \<open>The error of a hook event, as its text.\<close>

definition outputError :: "ToolOutput \<Rightarrow> string option \<Rightarrow> string option" where
  "outputError out0 err =
     (case err of
        Some e \<Rightarrow> Some e
      | None \<Rightarrow>
          (let out = Normalized out0
           in if \<not> Output_Failed out then None
              else if \<not> blank (to_ErrorMessage out) then Some (TrimSpace (to_ErrorMessage out))
              else if \<not> blank (to_Content out) then Some (TrimSpace (to_Content out))
              else Some (ResultStatus_text (to_Status out))))"

section \<open>One call\<close>

definition failedCall ::
  "ExecutionCommand \<Rightarrow> ToolCall \<Rightarrow> string \<Rightarrow> string \<Rightarrow> gotime \<Rightarrow> gotime
     \<Rightarrow> 'a callExecution \<times> 'a tool_event list" where
  "failedCall command call code err callCreatedAt resultCreatedAt =
     (let out = FailedOutput ResultStatusFailed code (''tool error: '' @ err)
      in (\<lparr>ce_call = call, ce_message = ToolOutputMessage call out,
           ce_entries = [ToolCallEntry (xc_SessionID command) call callCreatedAt,
                         ToolResultEntry (xc_SessionID command) call out resultCreatedAt],
           ce_asset = None\<rparr>,
          [EvToolCall call, EvToolResult call out]))"

definition finishedCall ::
  "'a ToolEnv \<Rightarrow> ExecutionCommand \<Rightarrow> ToolCall \<Rightarrow> ToolOutput \<Rightarrow> string option
     \<Rightarrow> ExecutionEntry list \<Rightarrow> gotime \<Rightarrow> 'a callExecution \<times> 'a tool_event list" where
  "finishedCall env command call out0 toolErr entries resultCreatedAt =
     (let out = Normalized out0;
          asset = (if \<not> Output_Failed out then tv_Extract env call out resultCreatedAt else None)
      in (\<lparr>ce_call = call, ce_message = ToolOutputMessage call out,
           ce_entries = entries @ [ToolResultEntry (xc_SessionID command) call out resultCreatedAt],
           ce_asset = asset\<rparr>,
          [EvToolResult call out, EvAfterToolUse call (to_Content out) (outputError out toolErr)]
          @ (case asset of None \<Rightarrow> [] | Some a \<Rightarrow> [EvAsset a])))"

text \<open>The permission command of a call; the question is asked under the call's identifier.\<close>

definition permission_command ::
  "ExecutionCommand \<Rightarrow> ToolCall \<Rightarrow> Permission \<Rightarrow> Hook \<Rightarrow> PermissionCommand" where
  "permission_command command call permission hook =
     \<lparr>pc_Name = tc_Name call, pc_Arguments = tc_Arguments call, pc_Permission = permission,
      pc_Mode = xc_PermissionMode command, pc_WorkspaceRoot = xc_WorkspaceRoot command,
      pc_Isolated = xc_Isolated command, pc_RequireConfirmation = (hk_Decision hook = HookDecisionAsk),
      pc_Ask = map_option (\<lambda>ask request. ask (request\<lparr>pr_ToolCallID := tc_ID call\<rparr>)) (xc_OnToolAsk command)\<rparr>"

definition hooked_call :: "ToolCall \<Rightarrow> Hook \<Rightarrow> ToolCall" where
  "hooked_call call hook =
     (if blank (hk_Arguments hook) then call else call\<lparr>tc_Arguments := hk_Arguments hook\<rparr>)"

definition permitted_call ::
  "'a ToolEnv \<Rightarrow> ExecutionCommand \<Rightarrow> ToolCall \<Rightarrow> nat \<Rightarrow> Permission \<Rightarrow> Hook
     \<Rightarrow> ToolOutput \<times> string option \<times> 'a tool_event list" where
  "permitted_call env command call index permission hook =
     (let decision = Allow (tv_lower env) (tv_member env) (tv_cwd env)
                       (permission_command command call permission hook)
      in if pd_Allowed decision then
           (case tv_Call env index (tc_Name call) (tc_Arguments call) of
              (out, None) \<Rightarrow> (out, None, [EvInvoke (tc_Name call) (tc_Arguments call)])
            | (out, Some e) \<Rightarrow> (outputForError (tv_ContextCanceled env) e, Some (tool_error_text e),
                                [EvInvoke (tc_Name call) (tc_Arguments call)]))
         else (FailedOutput ResultStatusDenied ''permission_denied'' (pd_Message decision), None, []))"

definition executeOne ::
  "'a ToolEnv \<Rightarrow> ExecutionCommand \<Rightarrow> ToolCall \<Rightarrow> nat \<Rightarrow> gotime
     \<Rightarrow> 'a callExecution \<times> 'a tool_event list" where
  "executeOne env command call0 index createdAt =
     (let callCreatedAt = createdAt + 2 * int index; resultCreatedAt = createdAt + 2 * int index + 1
      in case tv_GetTool env (tc_Name call0) of
        Inl err \<Rightarrow> failedCall command call0 ''tool_not_found'' err callCreatedAt resultCreatedAt
      | Inr declared \<Rightarrow>
          (let permission = NormalizePermission declared
           in case tv_BeforeToolUse env (tc_Name call0) (tc_Arguments call0) permission of
             Inl err \<Rightarrow> failedCall command call0 ''hook_pre_failed'' err callCreatedAt resultCreatedAt
           | Inr hook \<Rightarrow>
               (let call = hooked_call call0 hook;
                    entries = [ToolCallEntry (xc_SessionID command) call callCreatedAt];
                    (out, err, invoked) =
                      (if \<not> toolAllowed (xc_AllowedTools command) (xc_EnforceToolAllowlist command) (tc_Name call)
                       then (FailedOutput ResultStatusDenied ''subagent_tool_denied''
                               (''tool '' @ tc_Name call @ '' is not allowed for this subagent''), None, [])
                       else if hk_Decision hook = HookDecisionDeny
                       then (let e = ''tool denied by hook: '' @ hk_Message hook
                             in (FailedOutput ResultStatusDenied ''hook_denied'' (''tool error: '' @ e), Some e, []))
                       else if \<not> allowsExecutionInMode permission (xc_AgentMode command) (xc_ForceChatMode command)
                       then (FailedOutput ResultStatusDenied ''plan_mode_denied''
                               (''permission denied: plan mode does not allow tool '' @ tc_Name call
                                @ '' requiring '' @ Permission_text permission), None, [])
                       else permitted_call env command call index permission hook);
                    (result, events) = finishedCall env command call out err entries resultCreatedAt
                in (result, EvToolCall call # invoked @ events))))"

section \<open>All calls of a reply\<close>

record 'a ToolExecutionResult =
  te_Calls :: "ToolCall list"
  te_Messages :: "ChatMessage list"
  te_Entries :: "ExecutionEntry list"
  te_Assets :: "'a list"

definition execute_slots ::
  "'a ToolEnv \<Rightarrow> ExecutionCommand \<Rightarrow> gotime \<Rightarrow> ('a callExecution \<times> 'a tool_event list) list" where
  "execute_slots env command createdAt =
     map (\<lambda>(index, call). executeOne env command call index createdAt)
       (filter (\<lambda>(index, call). \<not> blank (tc_Name call)) (enumerate 0 (xc_Calls command)))"

definition Tools_Execute :: "'a ToolEnv \<Rightarrow> ExecutionCommand \<Rightarrow> gotime \<Rightarrow> 'a ToolExecutionResult" where
  "Tools_Execute env command createdAt =
     (let slots = map fst (execute_slots env command createdAt)
      in \<lparr>te_Calls = map ce_call slots, te_Messages = map ce_message slots,
          te_Entries = concat (map ce_entries slots),
          te_Assets = List.map_filter ce_asset slots\<rparr>)"

section \<open>Lemmas\<close>

text \<open>What a permission allows, whatever was asked: the capability of the mode.\<close>

definition capable :: "PermissionMode \<Rightarrow> Permission \<Rightarrow> bool" where
  "capable mode permission \<longleftrightarrow>
     (NormalizePermissionMode mode = PermissionModeReadonly \<longrightarrow> NormalizePermission permission = PermissionRead)
     \<and> (NormalizePermissionMode mode = PermissionModeReadWrite \<longrightarrow> NormalizePermission permission \<noteq> PermissionExecute)
     \<and> (NormalizePermissionMode mode = PermissionModeExecute \<longrightarrow> NormalizePermission permission \<noteq> PermissionWrite)"

lemma Allow_capable:
  "pd_Allowed (Allow low member cwd command) \<Longrightarrow> capable (pc_Mode command) (pc_Permission command)"
  by (auto simp: Allow_def Let_def deniedByCapability_def permission_denied_def capable_def split: if_splits)

lemma askForPermission_allowed:
  "pd_Allowed (askForPermission command permission mode reason) \<longleftrightarrow>
     (\<exists>ask. pc_Ask command = Some ask \<and> ask \<lparr>pr_ToolCallID = [], pr_Name = pc_Name command,
        pr_Arguments = pc_Arguments command, pr_Permission = permission, pr_Mode = mode\<rparr>)"
  by (auto simp: askForPermission_def permission_allowed_def permission_denied_def split: option.split)

text \<open>A confirmation is needed when a hook asks for it, and in ask mode unless it is auto-approved.\<close>

definition confirmation_needed :: "case_table \<Rightarrow> json_member \<Rightarrow> string \<Rightarrow> PermissionCommand \<Rightarrow> bool" where
  "confirmation_needed low member cwd command \<longleftrightarrow>
     pc_RequireConfirmation command
     \<or> NormalizePermissionMode (pc_Mode command) = PermissionModeAsk
        \<and> NormalizePermission (pc_Permission command) \<noteq> PermissionRead
        \<and> \<not> assessAskApproval low member cwd command"

lemma normalized_mode_cases:
  "NormalizePermissionMode m \<in> {PermissionModeReadonly, PermissionModeReadWrite, PermissionModeExecute,
     PermissionModeFull, PermissionModeAsk}"
  by (cases m) simp_all

lemma Allow_iff:
  "pd_Allowed (Allow low member cwd command) \<longleftrightarrow>
     capable (pc_Mode command) (pc_Permission command)
     \<and> (confirmation_needed low member cwd command \<longrightarrow>
          (\<exists>ask. pc_Ask command = Some ask \<and> ask \<lparr>pr_ToolCallID = [], pr_Name = pc_Name command,
             pr_Arguments = pc_Arguments command, pr_Permission = NormalizePermission (pc_Permission command),
             pr_Mode = NormalizePermissionMode (pc_Mode command)\<rparr>))"
proof -
  have denied: "\<not> pd_Allowed (deniedByCapability c m p)" for c m p
    by (simp add: deniedByCapability_def permission_denied_def)
  have allowed: "pd_Allowed permission_allowed" by (simp add: permission_allowed_def)
  show ?thesis
    using normalized_mode_cases [of "pc_Mode command"]
    by (cases "NormalizePermission (pc_Permission command) = PermissionRead")
      (auto simp: Allow_def Let_def denied allowed askForPermission_allowed capable_def confirmation_needed_def)
qed

lemma finishedCall_no_invoke: "EvInvoke n a \<notin> set (snd (finishedCall env command call out err entries t))"
  by (auto simp: finishedCall_def Let_def split: option.split)

lemma failedCall_no_invoke: "EvInvoke n a \<notin> set (snd (failedCall command call code err t u))"
  by (simp add: failedCall_def Let_def)

lemma permitted_invoke:
  "permitted_call env command call index permission hook = (out, err, evs) \<Longrightarrow> EvInvoke n a \<in> set evs \<Longrightarrow>
     n = tc_Name call \<and> a = tc_Arguments call
     \<and> pd_Allowed (Allow (tv_lower env) (tv_member env) (tv_cwd env) (permission_command command call permission hook))"
  by (auto simp: permitted_call_def Let_def split: if_splits prod.splits option.splits)

lemma finished_message:
  "ce_message (fst (finishedCall env command call out err entries t)) = ToolOutputMessage call (Normalized out)"
  by (simp add: finishedCall_def Let_def)

lemma Normalized_idem [simp]: "Normalized (Normalized out) = Normalized out"
  by (simp add: Normalized_def Let_def)

definition answers :: "ToolCall \<Rightarrow> ChatMessage \<Rightarrow> bool" where
  "answers call m \<longleftrightarrow> cm_Role m = RoleTool
     \<and> (\<exists>r. FirstToolResult m = Some r \<and> tr_ToolCallID r = tc_ID call \<and> tr_Name r = tc_Name call
          \<and> tr_Status r \<noteq> ResultStatusUnset)"

lemma answers_output: "tc_ID call = tc_ID call' \<Longrightarrow> tc_Name call = tc_Name call' \<Longrightarrow>
    answers call (ToolOutputMessage call' out)"
  by (simp add: answers_def ToolOutputMessage_def ToolResultMessage_def FirstToolResult_def TextMessage_def
      Normalized_def Let_def)

lemma hooked_identity [simp]: "tc_ID (hooked_call c h) = tc_ID c" "tc_Name (hooked_call c h) = tc_Name c"
  by (simp_all add: hooked_call_def)

lemma executeOne_answers: "answers call (ce_message (fst (executeOne env command call i t)))"
  by (simp add: executeOne_def failedCall_def Let_def split_beta finished_message answers_output
      split: sum.split)

section \<open>Properties\<close>

text \<open>
  C9: a tool is called only after every guard let it: for a call of a tool to happen, the tool is
  registered and on the allow list, no hook denied it, plan mode only reads, the mode of the session
  has the capability, and where a confirmation is needed the user gave it, asked with the call's own
  identifier and the arguments that are used.
\<close>

theorem tool_called_only_when_permitted:
  assumes "EvInvoke n a \<in> set (snd (executeOne env command call index createdAt))"
  shows "\<exists>declared hook. tv_GetTool env (tc_Name call) = Inr declared
    \<and> tv_BeforeToolUse env (tc_Name call) (tc_Arguments call) (NormalizePermission declared) = Inr hook
    \<and> n = tc_Name call \<and> a = tc_Arguments (hooked_call call hook)
    \<and> hk_Decision hook \<noteq> HookDecisionDeny
    \<and> toolAllowed (xc_AllowedTools command) (xc_EnforceToolAllowlist command) n
    \<and> allowsExecutionInMode declared (xc_AgentMode command) (xc_ForceChatMode command)
    \<and> capable (xc_PermissionMode command) declared
    \<and> (confirmation_needed (tv_lower env) (tv_member env) (tv_cwd env)
          (permission_command command (hooked_call call hook) (NormalizePermission declared) hook) \<longrightarrow>
        (\<exists>ask. xc_OnToolAsk command = Some ask \<and> ask \<lparr>pr_ToolCallID = tc_ID call, pr_Name = n,
           pr_Arguments = a, pr_Permission = NormalizePermission declared,
           pr_Mode = NormalizePermissionMode (xc_PermissionMode command)\<rparr>))"
proof -
  have idem: "NormalizePermission (NormalizePermission p) = NormalizePermission p" for p
    by (cases p) simp_all
  obtain declared where d: "tv_GetTool env (tc_Name call) = Inr declared"
    using assms by (auto simp: executeOne_def Let_def failedCall_no_invoke split: sum.splits)
  let ?perm = "NormalizePermission declared"
  obtain hook where h: "tv_BeforeToolUse env (tc_Name call) (tc_Arguments call) ?perm = Inr hook"
    using assms d by (auto simp: executeOne_def Let_def failedCall_no_invoke split: sum.splits)
  let ?call = "hooked_call call hook"
  have guards: "toolAllowed (xc_AllowedTools command) (xc_EnforceToolAllowlist command) (tc_Name call)"
    "hk_Decision hook \<noteq> HookDecisionDeny"
    "allowsExecutionInMode ?perm (xc_AgentMode command) (xc_ForceChatMode command)"
    "EvInvoke n a \<in> set (snd (snd (permitted_call env command ?call index ?perm hook)))"
    using assms d h
    by (auto simp: executeOne_def Let_def split_beta finishedCall_no_invoke split: if_splits)
  have inv: "n = tc_Name ?call \<and> a = tc_Arguments ?call
      \<and> pd_Allowed (Allow (tv_lower env) (tv_member env) (tv_cwd env) (permission_command command ?call ?perm hook))"
    using guards(4) by (cases "permitted_call env command ?call index ?perm hook") (auto dest: permitted_invoke)
  then have "capable (xc_PermissionMode command) declared"
    unfolding Allow_iff by (simp add: permission_command_def capable_def idem)
  moreover have "confirmation_needed (tv_lower env) (tv_member env) (tv_cwd env) (permission_command command ?call ?perm hook)
      \<longrightarrow> (\<exists>ask. xc_OnToolAsk command = Some ask \<and> ask \<lparr>pr_ToolCallID = tc_ID call, pr_Name = n,
           pr_Arguments = a, pr_Permission = ?perm, pr_Mode = NormalizePermissionMode (xc_PermissionMode command)\<rparr>)"
    using inv unfolding Allow_iff by (auto simp: permission_command_def idem)
  ultimately show ?thesis
    using d h guards(1,2,3) inv by (auto simp: allowsExecutionInMode_def idem)
qed



section \<open>Witnesses\<close>

definition sample_tools :: "unit ToolEnv" where
  "sample_tools =
     \<lparr>tv_GetTool = (\<lambda>_. Inr PermissionRead),
      tv_BeforeToolUse = (\<lambda>_ _ _. Inr \<lparr>hk_Decision = HookDecisionContinue, hk_Arguments = [], hk_Message = []\<rparr>),
      tv_Call = (\<lambda>_ _ _. (FailedOutput ResultStatusSuccess [] ''ok'', None)),
      tv_Extract = (\<lambda>_ _ _. None), tv_ContextCanceled = False, tv_member = (\<lambda>_ _. None),
      tv_lower = id, tv_cwd = ''/''\<rparr>"

definition sample_execution :: ExecutionCommand where
  "sample_execution =
     \<lparr>xc_SessionID = ''s'', xc_AgentMode = AgentModePlan, xc_PermissionMode = PermissionModeReadonly,
      xc_ForceChatMode = False, xc_WorkspaceRoot = [], xc_Isolated = False, xc_Calls = [],
      xc_AllowedTools = None, xc_EnforceToolAllowlist = False, xc_OnToolAsk = None\<rparr>"

definition sample_call :: ToolCall where
  "sample_call = \<lparr>tc_ID = ''1'', tc_Type = ''function'', tc_Name = ''ls'', tc_Arguments = ''{}''\<rparr>"

theorem tool_called_only_when_permitted_witness:
  "\<exists>n a. EvInvoke n a \<in> set (snd (executeOne sample_tools sample_execution sample_call 0 0))
     \<and> capable (xc_PermissionMode sample_execution) PermissionRead"
proof -
  have inv: "EvInvoke ''ls'' ''{}'' \<in> set (snd (executeOne sample_tools sample_execution sample_call 0 0))"
    by (simp add: executeOne_def sample_tools_def sample_execution_def sample_call_def hooked_call_def
        toolAllowed_def allowsExecutionInMode_def permitted_call_def permission_command_def Allow_def
        permission_allowed_def Let_def split_beta)
  from tool_called_only_when_permitted [OF this] show ?thesis
    using inv by (auto simp: sample_tools_def)
qed


end
