(* ===== verification/RelayProtocol.thy ===== *)
theory RelayProtocol
  imports Main
begin

text \<open>
  The message types of \<open>core/remote/protocol/message.go\<close>, by their wire values, and the tables of
  \<open>core/remote/relay/server.go\<close> over them: the requests that the relay takes from a client, the
  responses and events that it takes from an agent, and which responses end a request.
\<close>

type_synonym MessageType = string

abbreviation TypeAgentOnline :: MessageType where "TypeAgentOnline \<equiv> ''agent_online''"
abbreviation TypeAgentOffline :: MessageType where "TypeAgentOffline \<equiv> ''agent_offline''"
abbreviation TypeUserMessage :: MessageType where "TypeUserMessage \<equiv> ''user_message''"
abbreviation TypeUserMessageQueued :: MessageType where "TypeUserMessageQueued \<equiv> ''user_message_queued''"
abbreviation TypeAssistantDelta :: MessageType where "TypeAssistantDelta \<equiv> ''assistant_delta''"
abbreviation TypeAssistantDone :: MessageType where "TypeAssistantDone \<equiv> ''assistant_done''"
abbreviation TypeAgentRunStarted :: MessageType where "TypeAgentRunStarted \<equiv> ''agent_run_started''"
abbreviation TypeAgentRunEvent :: MessageType where "TypeAgentRunEvent \<equiv> ''agent_run_event''"
abbreviation TypeBackgroundTurnEvent :: MessageType where "TypeBackgroundTurnEvent \<equiv> ''background_turn_event''"
abbreviation TypeAgentRunCompleted :: MessageType where "TypeAgentRunCompleted \<equiv> ''agent_run_completed''"
abbreviation TypeAgentRunList :: MessageType where "TypeAgentRunList \<equiv> ''agent_run_list''"
abbreviation TypeAgentRunListResult :: MessageType where "TypeAgentRunListResult \<equiv> ''agent_run_list_result''"
abbreviation TypeToolCall :: MessageType where "TypeToolCall \<equiv> ''tool_call''"
abbreviation TypeToolResult :: MessageType where "TypeToolResult \<equiv> ''tool_result''"
abbreviation TypePermissionAsk :: MessageType where "TypePermissionAsk \<equiv> ''permission_ask''"
abbreviation TypePermissionResult :: MessageType where "TypePermissionResult \<equiv> ''permission_result''"
abbreviation TypeSessionList :: MessageType where "TypeSessionList \<equiv> ''session_list''"
abbreviation TypeSessionListResult :: MessageType where "TypeSessionListResult \<equiv> ''session_list_result''"
abbreviation TypeSessionNew :: MessageType where "TypeSessionNew \<equiv> ''session_new''"
abbreviation TypeSessionLoad :: MessageType where "TypeSessionLoad \<equiv> ''session_load''"
abbreviation TypeSessionDelete :: MessageType where "TypeSessionDelete \<equiv> ''session_delete''"
abbreviation TypeSessionDeleteResult :: MessageType where "TypeSessionDeleteResult \<equiv> ''session_delete_result''"
abbreviation TypeSessionRestore :: MessageType where "TypeSessionRestore \<equiv> ''session_restore''"
abbreviation TypeSessionRestoreResult :: MessageType where "TypeSessionRestoreResult \<equiv> ''session_restore_result''"
abbreviation TypeSessionChanged :: MessageType where "TypeSessionChanged \<equiv> ''session_changed''"
abbreviation TypeSessionHistory :: MessageType where "TypeSessionHistory \<equiv> ''session_history''"
abbreviation TypeSessionHistoryResult :: MessageType where "TypeSessionHistoryResult \<equiv> ''session_history_result''"
abbreviation TypeSessionHistoryMeta :: MessageType where "TypeSessionHistoryMeta \<equiv> ''session_history_meta''"
abbreviation TypeSessionHistoryMetaResult :: MessageType where "TypeSessionHistoryMetaResult \<equiv> ''session_history_meta_result''"
abbreviation TypeSessionHistoryDelta :: MessageType where "TypeSessionHistoryDelta \<equiv> ''session_history_delta''"
abbreviation TypeSessionHistoryDeltaResult :: MessageType where "TypeSessionHistoryDeltaResult \<equiv> ''session_history_delta_result''"
abbreviation TypeSessionPermissionSet :: MessageType where "TypeSessionPermissionSet \<equiv> ''session_permission_set''"
abbreviation TypeSessionPermissionSetResult :: MessageType where "TypeSessionPermissionSetResult \<equiv> ''session_permission_set_result''"
abbreviation TypeSessionModeSet :: MessageType where "TypeSessionModeSet \<equiv> ''session_mode_set''"
abbreviation TypeSessionModeSetResult :: MessageType where "TypeSessionModeSetResult \<equiv> ''session_mode_set_result''"
abbreviation TypeSessionPlanExecute :: MessageType where "TypeSessionPlanExecute \<equiv> ''session_plan_execute''"
abbreviation TypeSessionPlanExecuteUpdate :: MessageType where "TypeSessionPlanExecuteUpdate \<equiv> ''session_plan_update''"
abbreviation TypeSessionPlanExecuteResult :: MessageType where "TypeSessionPlanExecuteResult \<equiv> ''session_plan_execute_result''"
abbreviation TypeSessionContextQuery :: MessageType where "TypeSessionContextQuery \<equiv> ''session_context_query''"
abbreviation TypeSessionContextQueryResult :: MessageType where "TypeSessionContextQueryResult \<equiv> ''session_context_query_result''"
abbreviation TypeSessionContextSet :: MessageType where "TypeSessionContextSet \<equiv> ''session_context_set''"
abbreviation TypeSessionContextSetResult :: MessageType where "TypeSessionContextSetResult \<equiv> ''session_context_set_result''"
abbreviation TypeSessionRAGSet :: MessageType where "TypeSessionRAGSet \<equiv> ''session_rag_set''"
abbreviation TypeSessionRAGSetResult :: MessageType where "TypeSessionRAGSetResult \<equiv> ''session_rag_set_result''"
abbreviation TypeSessionGenerationQuery :: MessageType where "TypeSessionGenerationQuery \<equiv> ''session_generation_query''"
abbreviation TypeSessionGenerationQueryResult :: MessageType where "TypeSessionGenerationQueryResult \<equiv> ''session_generation_query_result''"
abbreviation TypeSessionGenerationSet :: MessageType where "TypeSessionGenerationSet \<equiv> ''session_generation_set''"
abbreviation TypeSessionGenerationSetResult :: MessageType where "TypeSessionGenerationSetResult \<equiv> ''session_generation_set_result''"
abbreviation TypeSessionStyleSet :: MessageType where "TypeSessionStyleSet \<equiv> ''session_style_set''"
abbreviation TypeSessionStyleSetResult :: MessageType where "TypeSessionStyleSetResult \<equiv> ''session_style_set_result''"
abbreviation TypeSessionCompact :: MessageType where "TypeSessionCompact \<equiv> ''session_compact''"
abbreviation TypeSessionCompactResult :: MessageType where "TypeSessionCompactResult \<equiv> ''session_compact_result''"
abbreviation TypeSessionPause :: MessageType where "TypeSessionPause \<equiv> ''session_pause''"
abbreviation TypeSessionPauseResult :: MessageType where "TypeSessionPauseResult \<equiv> ''session_pause_result''"
abbreviation TypeSessionRegenerate :: MessageType where "TypeSessionRegenerate \<equiv> ''session_regenerate''"
abbreviation TypeModelList :: MessageType where "TypeModelList \<equiv> ''model_list''"
abbreviation TypeModelListResult :: MessageType where "TypeModelListResult \<equiv> ''model_list_result''"
abbreviation TypeModelSwitch :: MessageType where "TypeModelSwitch \<equiv> ''model_switch''"
abbreviation TypeModelSwitchResult :: MessageType where "TypeModelSwitchResult \<equiv> ''model_switch_result''"
abbreviation TypeModelConfigAdd :: MessageType where "TypeModelConfigAdd \<equiv> ''model_config_add''"
abbreviation TypeModelConfigAddResult :: MessageType where "TypeModelConfigAddResult \<equiv> ''model_config_add_result''"
abbreviation TypeModelConfigTest :: MessageType where "TypeModelConfigTest \<equiv> ''model_config_test''"
abbreviation TypeModelConfigTestResult :: MessageType where "TypeModelConfigTestResult \<equiv> ''model_config_test_result''"
abbreviation TypeModelConfigUpdate :: MessageType where "TypeModelConfigUpdate \<equiv> ''model_config_update''"
abbreviation TypeModelConfigDelete :: MessageType where "TypeModelConfigDelete \<equiv> ''model_config_delete''"
abbreviation TypeModelConfigEnabledSet :: MessageType where "TypeModelConfigEnabledSet \<equiv> ''model_config_enabled_set''"
abbreviation TypeModelConfigDefaultSet :: MessageType where "TypeModelConfigDefaultSet \<equiv> ''model_config_default_set''"
abbreviation TypeModelConfigMutationResult :: MessageType where "TypeModelConfigMutationResult \<equiv> ''model_config_mutation_result''"
abbreviation TypeIntentConfigQuery :: MessageType where "TypeIntentConfigQuery \<equiv> ''intent_config_query''"
abbreviation TypeIntentConfigQueryResult :: MessageType where "TypeIntentConfigQueryResult \<equiv> ''intent_config_query_result''"
abbreviation TypeIntentConfigSet :: MessageType where "TypeIntentConfigSet \<equiv> ''intent_config_set''"
abbreviation TypeIntentConfigSetResult :: MessageType where "TypeIntentConfigSetResult \<equiv> ''intent_config_set_result''"
abbreviation TypeIntentConfigTest :: MessageType where "TypeIntentConfigTest \<equiv> ''intent_config_test''"
abbreviation TypeIntentConfigTestResult :: MessageType where "TypeIntentConfigTestResult \<equiv> ''intent_config_test_result''"
abbreviation TypeIntentTraceList :: MessageType where "TypeIntentTraceList \<equiv> ''intent_trace_list''"
abbreviation TypeIntentTraceListResult :: MessageType where "TypeIntentTraceListResult \<equiv> ''intent_trace_list_result''"
abbreviation TypeIntentTraceGet :: MessageType where "TypeIntentTraceGet \<equiv> ''intent_trace_get''"
abbreviation TypeIntentTraceGetResult :: MessageType where "TypeIntentTraceGetResult \<equiv> ''intent_trace_get_result''"
abbreviation TypeIntentTraceClear :: MessageType where "TypeIntentTraceClear \<equiv> ''intent_trace_clear''"
abbreviation TypeIntentTraceClearResult :: MessageType where "TypeIntentTraceClearResult \<equiv> ''intent_trace_clear_result''"
abbreviation TypeSkillList :: MessageType where "TypeSkillList \<equiv> ''skill_list''"
abbreviation TypeSkillListResult :: MessageType where "TypeSkillListResult \<equiv> ''skill_list_result''"
abbreviation TypeSkillReload :: MessageType where "TypeSkillReload \<equiv> ''skill_reload''"
abbreviation TypeSkillReloadResult :: MessageType where "TypeSkillReloadResult \<equiv> ''skill_reload_result''"
abbreviation TypePluginList :: MessageType where "TypePluginList \<equiv> ''plugin_list''"
abbreviation TypePluginListResult :: MessageType where "TypePluginListResult \<equiv> ''plugin_list_result''"
abbreviation TypePluginReload :: MessageType where "TypePluginReload \<equiv> ''plugin_reload''"
abbreviation TypePluginReloadResult :: MessageType where "TypePluginReloadResult \<equiv> ''plugin_reload_result''"
abbreviation TypePluginEnable :: MessageType where "TypePluginEnable \<equiv> ''plugin_enable''"
abbreviation TypePluginDisable :: MessageType where "TypePluginDisable \<equiv> ''plugin_disable''"
abbreviation TypePluginMutationResult :: MessageType where "TypePluginMutationResult \<equiv> ''plugin_mutation_result''"
abbreviation TypeMCPReload :: MessageType where "TypeMCPReload \<equiv> ''mcp_reload''"
abbreviation TypeMCPReloadResult :: MessageType where "TypeMCPReloadResult \<equiv> ''mcp_reload_result''"
abbreviation TypeAssetList :: MessageType where "TypeAssetList \<equiv> ''asset_list''"
abbreviation TypeAssetListResult :: MessageType where "TypeAssetListResult \<equiv> ''asset_list_result''"
abbreviation TypeKnowledgeCatalogList :: MessageType where "TypeKnowledgeCatalogList \<equiv> ''knowledge_catalog_list''"
abbreviation TypeKnowledgeCatalogListResult :: MessageType where "TypeKnowledgeCatalogListResult \<equiv> ''knowledge_catalog_list_result''"
abbreviation TypeKnowledgeCategoryCreate :: MessageType where "TypeKnowledgeCategoryCreate \<equiv> ''knowledge_category_create''"
abbreviation TypeKnowledgeCategoryMove :: MessageType where "TypeKnowledgeCategoryMove \<equiv> ''knowledge_category_move''"
abbreviation TypeKnowledgeCategoryDelete :: MessageType where "TypeKnowledgeCategoryDelete \<equiv> ''knowledge_category_delete''"
abbreviation TypeKnowledgeBaseCreate :: MessageType where "TypeKnowledgeBaseCreate \<equiv> ''knowledge_base_create''"
abbreviation TypeKnowledgeBaseUpdate :: MessageType where "TypeKnowledgeBaseUpdate \<equiv> ''knowledge_base_update''"
abbreviation TypeKnowledgeBaseDelete :: MessageType where "TypeKnowledgeBaseDelete \<equiv> ''knowledge_base_delete''"
abbreviation TypeKnowledgeCatalogMutationResult :: MessageType where "TypeKnowledgeCatalogMutationResult \<equiv> ''knowledge_catalog_mutation_result''"
abbreviation TypeKnowledgeDocumentList :: MessageType where "TypeKnowledgeDocumentList \<equiv> ''knowledge_document_list''"
abbreviation TypeKnowledgeDocumentListResult :: MessageType where "TypeKnowledgeDocumentListResult \<equiv> ''knowledge_document_list_result''"
abbreviation TypeKnowledgeDocumentIngest :: MessageType where "TypeKnowledgeDocumentIngest \<equiv> ''knowledge_document_ingest''"
abbreviation TypeKnowledgeDocumentRetry :: MessageType where "TypeKnowledgeDocumentRetry \<equiv> ''knowledge_document_retry''"
abbreviation TypeKnowledgeDocumentDelete :: MessageType where "TypeKnowledgeDocumentDelete \<equiv> ''knowledge_document_delete''"
abbreviation TypeKnowledgeDocumentMutationResult :: MessageType where "TypeKnowledgeDocumentMutationResult \<equiv> ''knowledge_document_mutation_result''"
abbreviation TypeKnowledgeProfileList :: MessageType where "TypeKnowledgeProfileList \<equiv> ''knowledge_profile_list''"
abbreviation TypeKnowledgeProfileListResult :: MessageType where "TypeKnowledgeProfileListResult \<equiv> ''knowledge_profile_list_result''"
abbreviation TypeKnowledgeSearchPreview :: MessageType where "TypeKnowledgeSearchPreview \<equiv> ''knowledge_search_preview''"
abbreviation TypeKnowledgeSearchPreviewResult :: MessageType where "TypeKnowledgeSearchPreviewResult \<equiv> ''knowledge_search_preview_result''"
abbreviation TypeAIMemoryList :: MessageType where "TypeAIMemoryList \<equiv> ''ai_memory_list''"
abbreviation TypeAIMemoryListResult :: MessageType where "TypeAIMemoryListResult \<equiv> ''ai_memory_list_result''"
abbreviation TypeAIMemoryCreate :: MessageType where "TypeAIMemoryCreate \<equiv> ''ai_memory_create''"
abbreviation TypeAIMemoryUpdate :: MessageType where "TypeAIMemoryUpdate \<equiv> ''ai_memory_update''"
abbreviation TypeAIMemoryDelete :: MessageType where "TypeAIMemoryDelete \<equiv> ''ai_memory_delete''"
abbreviation TypeAIMemoryRestore :: MessageType where "TypeAIMemoryRestore \<equiv> ''ai_memory_restore''"
abbreviation TypeAIMemoryMutationResult :: MessageType where "TypeAIMemoryMutationResult \<equiv> ''ai_memory_mutation_result''"
abbreviation TypeAIMemoryCandidateList :: MessageType where "TypeAIMemoryCandidateList \<equiv> ''ai_memory_candidate_list''"
abbreviation TypeAIMemoryCandidateListResult :: MessageType where "TypeAIMemoryCandidateListResult \<equiv> ''ai_memory_candidate_list_result''"
abbreviation TypeAIMemoryCandidateApprove :: MessageType where "TypeAIMemoryCandidateApprove \<equiv> ''ai_memory_candidate_approve''"
abbreviation TypeAIMemoryCandidateReject :: MessageType where "TypeAIMemoryCandidateReject \<equiv> ''ai_memory_candidate_reject''"
abbreviation TypeAIMemoryCandidateMutationResult :: MessageType where "TypeAIMemoryCandidateMutationResult \<equiv> ''ai_memory_candidate_mutation_result''"
abbreviation TypeAIMemoryExtractionJobList :: MessageType where "TypeAIMemoryExtractionJobList \<equiv> ''ai_memory_extraction_job_list''"
abbreviation TypeAIMemoryExtractionJobListResult :: MessageType where "TypeAIMemoryExtractionJobListResult \<equiv> ''ai_memory_extraction_job_list_result''"
abbreviation TypeAIMemoryExtractionJobRetry :: MessageType where "TypeAIMemoryExtractionJobRetry \<equiv> ''ai_memory_extraction_job_retry''"
abbreviation TypeAIMemoryExtractionJobRetryResult :: MessageType where "TypeAIMemoryExtractionJobRetryResult \<equiv> ''ai_memory_extraction_job_retry_result''"
abbreviation TypeAIMemoryDreamRun :: MessageType where "TypeAIMemoryDreamRun \<equiv> ''ai_memory_dream_run''"
abbreviation TypeAIMemoryDreamRunResult :: MessageType where "TypeAIMemoryDreamRunResult \<equiv> ''ai_memory_dream_run_result''"
abbreviation TypeAIMemoryDreamList :: MessageType where "TypeAIMemoryDreamList \<equiv> ''ai_memory_dream_list''"
abbreviation TypeAIMemoryDreamListResult :: MessageType where "TypeAIMemoryDreamListResult \<equiv> ''ai_memory_dream_list_result''"
abbreviation TypeSubagentDefinitionList :: MessageType where "TypeSubagentDefinitionList \<equiv> ''subagent_definition_list''"
abbreviation TypeSubagentDefinitionListResult :: MessageType where "TypeSubagentDefinitionListResult \<equiv> ''subagent_definition_list_result''"
abbreviation TypeSubagentDefinitionCreate :: MessageType where "TypeSubagentDefinitionCreate \<equiv> ''subagent_definition_create''"
abbreviation TypeSubagentDefinitionUpdate :: MessageType where "TypeSubagentDefinitionUpdate \<equiv> ''subagent_definition_update''"
abbreviation TypeSubagentDefinitionDelete :: MessageType where "TypeSubagentDefinitionDelete \<equiv> ''subagent_definition_delete''"
abbreviation TypeSubagentDefinitionMutationResult :: MessageType where "TypeSubagentDefinitionMutationResult \<equiv> ''subagent_definition_mutation_result''"
abbreviation TypeSubagentTaskList :: MessageType where "TypeSubagentTaskList \<equiv> ''subagent_task_list''"
abbreviation TypeSubagentTaskListResult :: MessageType where "TypeSubagentTaskListResult \<equiv> ''subagent_task_list_result''"
abbreviation TypeSubagentTaskCheck :: MessageType where "TypeSubagentTaskCheck \<equiv> ''subagent_task_check''"
abbreviation TypeSubagentTaskMessage :: MessageType where "TypeSubagentTaskMessage \<equiv> ''subagent_task_message''"
abbreviation TypeSubagentTaskFollowup :: MessageType where "TypeSubagentTaskFollowup \<equiv> ''subagent_task_followup''"
abbreviation TypeSubagentTaskWait :: MessageType where "TypeSubagentTaskWait \<equiv> ''subagent_task_wait''"
abbreviation TypeSubagentTaskWaitResult :: MessageType where "TypeSubagentTaskWaitResult \<equiv> ''subagent_task_wait_result''"
abbreviation TypeSubagentTaskCancel :: MessageType where "TypeSubagentTaskCancel \<equiv> ''subagent_task_cancel''"
abbreviation TypeSubagentTaskApply :: MessageType where "TypeSubagentTaskApply \<equiv> ''subagent_task_apply''"
abbreviation TypeSubagentTaskDiscard :: MessageType where "TypeSubagentTaskDiscard \<equiv> ''subagent_task_discard''"
abbreviation TypeSubagentTaskResume :: MessageType where "TypeSubagentTaskResume \<equiv> ''subagent_task_resume''"
abbreviation TypeSubagentTaskResumeResult :: MessageType where "TypeSubagentTaskResumeResult \<equiv> ''subagent_task_resume_result''"
abbreviation TypeSubagentTaskResult :: MessageType where "TypeSubagentTaskResult \<equiv> ''subagent_task_result''"
abbreviation TypeSubagentTaskEvent :: MessageType where "TypeSubagentTaskEvent \<equiv> ''subagent_task_event''"
abbreviation TypeSubagentTaskDetail :: MessageType where "TypeSubagentTaskDetail \<equiv> ''subagent_task_detail''"
abbreviation TypeSubagentTaskDetailResult :: MessageType where "TypeSubagentTaskDetailResult \<equiv> ''subagent_task_detail_result''"
abbreviation TypeSubagentTaskEvents :: MessageType where "TypeSubagentTaskEvents \<equiv> ''subagent_task_events''"
abbreviation TypeSubagentTaskEventsResult :: MessageType where "TypeSubagentTaskEventsResult \<equiv> ''subagent_task_events_result''"
abbreviation TypeFileList :: MessageType where "TypeFileList \<equiv> ''file_list''"
abbreviation TypeFileListResult :: MessageType where "TypeFileListResult \<equiv> ''file_list_result''"
abbreviation TypeFileRead :: MessageType where "TypeFileRead \<equiv> ''file_read''"
abbreviation TypeFileReadResult :: MessageType where "TypeFileReadResult \<equiv> ''file_read_result''"
abbreviation TypeChangesList :: MessageType where "TypeChangesList \<equiv> ''changes_list''"
abbreviation TypeChangesListResult :: MessageType where "TypeChangesListResult \<equiv> ''changes_list_result''"
abbreviation TypeChangeDiff :: MessageType where "TypeChangeDiff \<equiv> ''change_diff''"
abbreviation TypeChangeDiffResult :: MessageType where "TypeChangeDiffResult \<equiv> ''change_diff_result''"
abbreviation TypeChangeRevert :: MessageType where "TypeChangeRevert \<equiv> ''change_revert''"
abbreviation TypeChangeRevertResult :: MessageType where "TypeChangeRevertResult \<equiv> ''change_revert_result''"
abbreviation TypeHistoryList :: MessageType where "TypeHistoryList \<equiv> ''history_list''"
abbreviation TypeHistoryListResult :: MessageType where "TypeHistoryListResult \<equiv> ''history_list_result''"
abbreviation TypeHistoryDiff :: MessageType where "TypeHistoryDiff \<equiv> ''history_diff''"
abbreviation TypeHistoryDiffResult :: MessageType where "TypeHistoryDiffResult \<equiv> ''history_diff_result''"
abbreviation TypeHistoryRevert :: MessageType where "TypeHistoryRevert \<equiv> ''history_revert''"
abbreviation TypeHistoryRevertResult :: MessageType where "TypeHistoryRevertResult \<equiv> ''history_revert_result''"
abbreviation TypeError :: MessageType where "TypeError \<equiv> ''error''"
abbreviation TypeHeartbeat :: MessageType where "TypeHeartbeat \<equiv> ''heartbeat''"

record RelayMessage =
  rm_Type :: MessageType
  rm_RequestID :: string
  rm_UserID :: string
  rm_DeviceID :: string
  rm_SessionID :: string
  rm_ClientToken :: string
  rm_Payload :: string

text \<open>The two cases of \<open>handleClientMessage\<close> with the same body, in the order of the code.\<close>

definition client_requests :: "MessageType list" where
  "client_requests =
     [TypeUserMessage, TypeAgentRunList, TypeSessionList, TypeSessionNew, TypeSessionLoad,
      TypeSessionDelete, TypeSessionRestore, TypeSessionHistory, TypeSessionHistoryMeta,
      TypeSessionHistoryDelta, TypeSessionPermissionSet, TypeSessionModeSet, TypeSessionPlanExecute,
      TypeSessionContextQuery, TypeSessionContextSet, TypeSessionRAGSet, TypeSessionGenerationQuery,
      TypeSessionGenerationSet, TypeSessionStyleSet, TypeSessionCompact, TypeSessionPause,
      TypeSessionRegenerate, TypeModelList, TypeModelSwitch, TypeModelConfigAdd,
      TypeModelConfigTest, TypeModelConfigUpdate, TypeModelConfigDelete, TypeModelConfigEnabledSet,
      TypeModelConfigDefaultSet, TypeSkillList, TypeSkillReload, TypePluginList, TypePluginReload,
      TypePluginEnable, TypePluginDisable, TypeMCPReload, TypeAssetList, TypeFileList,
      TypeKnowledgeCatalogList, TypeKnowledgeCategoryCreate, TypeKnowledgeCategoryMove,
      TypeKnowledgeCategoryDelete, TypeKnowledgeBaseCreate, TypeKnowledgeBaseUpdate,
      TypeKnowledgeBaseDelete, TypeKnowledgeDocumentList, TypeKnowledgeDocumentIngest,
      TypeKnowledgeDocumentRetry, TypeKnowledgeDocumentDelete, TypeKnowledgeProfileList,
      TypeKnowledgeSearchPreview, TypeAIMemoryList, TypeAIMemoryCreate, TypeAIMemoryUpdate,
      TypeAIMemoryDelete, TypeAIMemoryRestore, TypeAIMemoryCandidateList,
      TypeAIMemoryCandidateApprove, TypeAIMemoryCandidateReject, TypeAIMemoryExtractionJobList,
      TypeAIMemoryExtractionJobRetry, TypeAIMemoryDreamRun, TypeAIMemoryDreamList,
      TypeSubagentDefinitionList, TypeSubagentDefinitionCreate, TypeSubagentDefinitionUpdate,
      TypeSubagentDefinitionDelete, TypeSubagentTaskList, TypeSubagentTaskCheck,
      TypeSubagentTaskMessage, TypeSubagentTaskFollowup, TypeSubagentTaskWait,
      TypeSubagentTaskCancel, TypeSubagentTaskApply, TypeSubagentTaskDiscard,
      TypeSubagentTaskResume, TypeFileRead, TypeChangesList, TypeChangeDiff, TypeChangeRevert,
      TypeHistoryList, TypeHistoryDiff, TypeHistoryRevert, TypeIntentConfigQuery,
      TypeIntentConfigSet, TypeIntentConfigTest, TypeIntentTraceList, TypeIntentTraceGet,
      TypeIntentTraceClear, TypeSubagentTaskDetail, TypeSubagentTaskEvents]"

text \<open>The cases of \<open>handleAgentMessage\<close> that forward to the client of a request, and the two events.\<close>

definition agent_responses :: "MessageType list" where
  "agent_responses =
     [TypeAssistantDelta, TypeAssistantDone, TypeAgentRunStarted, TypeAgentRunEvent,
      TypeAgentRunCompleted, TypeAgentRunListResult, TypeToolCall, TypeToolResult,
      TypePermissionAsk, TypeSessionListResult, TypeSessionChanged, TypeSessionDeleteResult,
      TypeSessionRestoreResult, TypeSessionHistoryResult, TypeSessionHistoryMetaResult,
      TypeSessionHistoryDeltaResult, TypeSessionPermissionSetResult, TypeSessionModeSetResult,
      TypeSessionPlanExecuteUpdate, TypeSessionPlanExecuteResult, TypeSessionContextQueryResult,
      TypeSessionContextSetResult, TypeSessionRAGSetResult, TypeSessionGenerationQueryResult,
      TypeSessionGenerationSetResult, TypeSessionStyleSetResult, TypeSessionCompactResult,
      TypeSessionPauseResult, TypeModelListResult, TypeModelSwitchResult, TypeModelConfigAddResult,
      TypeModelConfigTestResult, TypeModelConfigMutationResult, TypeSkillListResult,
      TypeSkillReloadResult, TypePluginListResult, TypePluginReloadResult, TypePluginMutationResult,
      TypeMCPReloadResult, TypeAssetListResult, TypeKnowledgeCatalogListResult,
      TypeKnowledgeCatalogMutationResult, TypeKnowledgeDocumentListResult,
      TypeKnowledgeDocumentMutationResult, TypeKnowledgeProfileListResult,
      TypeKnowledgeSearchPreviewResult, TypeAIMemoryListResult, TypeAIMemoryMutationResult,
      TypeAIMemoryCandidateListResult, TypeAIMemoryCandidateMutationResult,
      TypeAIMemoryExtractionJobListResult, TypeAIMemoryExtractionJobRetryResult,
      TypeAIMemoryDreamRunResult, TypeAIMemoryDreamListResult, TypeSubagentDefinitionListResult,
      TypeSubagentDefinitionMutationResult, TypeSubagentTaskListResult, TypeSubagentTaskWaitResult,
      TypeSubagentTaskResult, TypeSubagentTaskResumeResult, TypeFileListResult, TypeFileReadResult,
      TypeChangesListResult, TypeChangeDiffResult, TypeChangeRevertResult, TypeHistoryListResult,
      TypeHistoryDiffResult, TypeHistoryRevertResult, TypeError, TypeUserMessageQueued,
      TypeIntentConfigQueryResult, TypeIntentConfigSetResult, TypeIntentConfigTestResult,
      TypeIntentTraceListResult, TypeIntentTraceGetResult, TypeIntentTraceClearResult,
      TypeSubagentTaskDetailResult, TypeSubagentTaskEventsResult]"

definition agent_events :: "MessageType list" where
  "agent_events = [TypeSubagentTaskEvent, TypeBackgroundTurnEvent]"

text \<open>The cases of \<open>isTerminalResponseForRequest\<close>: requests and the responses that end them.\<close>

definition terminal_responses :: "(MessageType list \<times> MessageType list) list" where
  "terminal_responses =
     [([TypeUserMessage], [TypeAssistantDone, TypeUserMessageQueued]),
      ([TypeSessionRegenerate], [TypeAssistantDone]),
      ([TypeAgentRunList], [TypeAgentRunListResult]),
      ([TypeSessionList], [TypeSessionListResult]),
      ([TypeSessionNew, TypeSessionLoad], [TypeSessionChanged]),
      ([TypeSessionDelete], [TypeSessionDeleteResult]),
      ([TypeSessionRestore], [TypeSessionRestoreResult]),
      ([TypeSessionHistory], [TypeSessionHistoryResult]),
      ([TypeSessionHistoryMeta], [TypeSessionHistoryMetaResult]),
      ([TypeSessionHistoryDelta], [TypeSessionHistoryDeltaResult]),
      ([TypeSessionPermissionSet], [TypeSessionPermissionSetResult]),
      ([TypeSessionModeSet], [TypeSessionModeSetResult]),
      ([TypeSessionPlanExecute], [TypeSessionPlanExecuteResult]),
      ([TypeSessionContextQuery], [TypeSessionContextQueryResult]),
      ([TypeSessionContextSet], [TypeSessionContextSetResult]),
      ([TypeSessionRAGSet], [TypeSessionRAGSetResult]),
      ([TypeSessionGenerationQuery], [TypeSessionGenerationQueryResult]),
      ([TypeSessionGenerationSet], [TypeSessionGenerationSetResult]),
      ([TypeSessionStyleSet], [TypeSessionStyleSetResult]),
      ([TypeSessionCompact], [TypeSessionCompactResult]),
      ([TypeSessionPause], [TypeSessionPauseResult]),
      ([TypeModelList], [TypeModelListResult]),
      ([TypeModelSwitch], [TypeModelSwitchResult]),
      ([TypeModelConfigAdd], [TypeModelConfigAddResult]),
      ([TypeModelConfigTest], [TypeModelConfigTestResult]),
      ([TypeModelConfigUpdate, TypeModelConfigDelete, TypeModelConfigEnabledSet,
        TypeModelConfigDefaultSet], [TypeModelConfigMutationResult]),
      ([TypeIntentConfigQuery], [TypeIntentConfigQueryResult]),
      ([TypeIntentConfigSet], [TypeIntentConfigSetResult]),
      ([TypeIntentConfigTest], [TypeIntentConfigTestResult]),
      ([TypeIntentTraceList], [TypeIntentTraceListResult]),
      ([TypeIntentTraceGet], [TypeIntentTraceGetResult]),
      ([TypeIntentTraceClear], [TypeIntentTraceClearResult]),
      ([TypeSkillList], [TypeSkillListResult]),
      ([TypeSkillReload], [TypeSkillReloadResult]),
      ([TypePluginList], [TypePluginListResult]),
      ([TypePluginReload], [TypePluginReloadResult]),
      ([TypeMCPReload], [TypeMCPReloadResult]),
      ([TypePluginEnable, TypePluginDisable], [TypePluginMutationResult]),
      ([TypeAssetList], [TypeAssetListResult]),
      ([TypeKnowledgeCatalogList], [TypeKnowledgeCatalogListResult]),
      ([TypeKnowledgeCategoryCreate, TypeKnowledgeCategoryMove, TypeKnowledgeCategoryDelete,
        TypeKnowledgeBaseCreate, TypeKnowledgeBaseUpdate, TypeKnowledgeBaseDelete],
        [TypeKnowledgeCatalogMutationResult]),
      ([TypeKnowledgeDocumentList], [TypeKnowledgeDocumentListResult]),
      ([TypeKnowledgeDocumentIngest, TypeKnowledgeDocumentRetry, TypeKnowledgeDocumentDelete],
        [TypeKnowledgeDocumentMutationResult]),
      ([TypeKnowledgeProfileList], [TypeKnowledgeProfileListResult]),
      ([TypeKnowledgeSearchPreview], [TypeKnowledgeSearchPreviewResult]),
      ([TypeAIMemoryList], [TypeAIMemoryListResult]),
      ([TypeAIMemoryCreate, TypeAIMemoryUpdate, TypeAIMemoryDelete, TypeAIMemoryRestore],
        [TypeAIMemoryMutationResult]),
      ([TypeAIMemoryCandidateList], [TypeAIMemoryCandidateListResult]),
      ([TypeAIMemoryCandidateApprove, TypeAIMemoryCandidateReject],
        [TypeAIMemoryCandidateMutationResult]),
      ([TypeAIMemoryExtractionJobList], [TypeAIMemoryExtractionJobListResult]),
      ([TypeAIMemoryExtractionJobRetry], [TypeAIMemoryExtractionJobRetryResult]),
      ([TypeAIMemoryDreamRun], [TypeAIMemoryDreamRunResult]),
      ([TypeAIMemoryDreamList], [TypeAIMemoryDreamListResult]),
      ([TypeSubagentDefinitionList], [TypeSubagentDefinitionListResult]),
      ([TypeSubagentDefinitionCreate, TypeSubagentDefinitionUpdate, TypeSubagentDefinitionDelete],
        [TypeSubagentDefinitionMutationResult]),
      ([TypeSubagentTaskList], [TypeSubagentTaskListResult]),
      ([TypeSubagentTaskDetail], [TypeSubagentTaskDetailResult]),
      ([TypeSubagentTaskEvents], [TypeSubagentTaskEventsResult]),
      ([TypeSubagentTaskCheck, TypeSubagentTaskCancel, TypeSubagentTaskApply,
        TypeSubagentTaskDiscard], [TypeSubagentTaskResult]),
      ([TypeSubagentTaskMessage], [TypeSubagentTaskResult]),
      ([TypeSubagentTaskFollowup], [TypeSubagentTaskResult]),
      ([TypeSubagentTaskWait], [TypeSubagentTaskWaitResult]),
      ([TypeSubagentTaskResume], [TypeSubagentTaskResumeResult]),
      ([TypeFileList], [TypeFileListResult]),
      ([TypeFileRead], [TypeFileReadResult]),
      ([TypeChangesList], [TypeChangesListResult]),
      ([TypeChangeDiff], [TypeChangeDiffResult]),
      ([TypeChangeRevert], [TypeChangeRevertResult]),
      ([TypeHistoryList], [TypeHistoryListResult]),
      ([TypeHistoryDiff], [TypeHistoryDiffResult]),
      ([TypeHistoryRevert], [TypeHistoryRevertResult])]"

definition isTerminalResponseForRequest :: "MessageType \<Rightarrow> MessageType \<Rightarrow> bool" where
  "isTerminalResponseForRequest requestType responseType \<longleftrightarrow>
     responseType = TypeError
     \<or> (case find (\<lambda>(requests, _). requestType \<in> set requests) terminal_responses of
          None \<Rightarrow> False
        | Some (_, responses) \<Rightarrow> responseType \<in> set responses)"

section \<open>The tables fit together\<close>

text \<open>
  The requests of the client handler are the keys of the switch, and the responses of the switch are
  among those of the agent handler; each lemma names the places.
\<close>

abbreviation terminal_requests :: "MessageType list" where
  "terminal_requests \<equiv> concat (map fst terminal_responses)"

lemma list_by_places: "xs = map ((!) ys) is \<Longrightarrow> list_all (\<lambda>i. i < length ys) is \<Longrightarrow> set xs \<subseteq> set ys"
  by (auto simp: list_all_iff)

lemma client_requests_terminate: "set client_requests \<subseteq> set terminal_requests"
proof (rule list_by_places)
  show "client_requests = map ((!) terminal_requests)
     [0, 2, 3, 4, 5, 6, 7, 8, 9, 10, 11, 12, 13, 14, 15, 16, 17, 18, 19, 20, 21, 1, 22, 23, 24,
      25, 26, 27, 28, 29, 36, 37, 38, 39, 41, 42, 40, 43, 84, 44, 45, 46, 47, 48, 49, 50, 51, 52,
      53, 54, 55, 56, 57, 58, 59, 60, 61, 62, 63, 64, 65, 66, 67, 68, 69, 70, 71, 72, 73, 76, 80,
      81, 82, 77, 78, 79, 83, 85, 86, 87, 88, 89, 90, 91, 30, 31, 32, 33, 34, 35, 74, 75]"
    by (simp add: client_requests_def terminal_responses_def)
qed (simp add: terminal_responses_def)

lemma terminal_requests_accepted: "set terminal_requests \<subseteq> set client_requests"
proof (rule list_by_places)
  show "terminal_requests = map ((!) client_requests)
     [0, 21, 1, 2, 3, 4, 5, 6, 7, 8, 9, 10, 11, 12, 13, 14, 15, 16, 17, 18, 19, 20, 22, 23, 24,
      25, 26, 27, 28, 29, 84, 85, 86, 87, 88, 89, 30, 31, 32, 33, 36, 34, 35, 37, 39, 40, 41, 42,
      43, 44, 45, 46, 47, 48, 49, 50, 51, 52, 53, 54, 55, 56, 57, 58, 59, 60, 61, 62, 63, 64, 65,
      66, 67, 68, 90, 91, 69, 73, 74, 75, 70, 71, 72, 76, 38, 77, 78, 79, 80, 81, 82, 83]"
    by (simp add: client_requests_def terminal_responses_def)
qed (simp add: client_requests_def)

lemma terminal_responses_forwarded:
  "set (concat (map snd terminal_responses)) \<subseteq> set agent_responses"
proof (rule list_by_places)
  show "concat (map snd terminal_responses) = map ((!) agent_responses)
     [1, 69, 1, 5, 9, 10, 11, 12, 13, 14, 15, 16, 17, 19, 20, 21, 22, 23, 24, 25, 26, 27, 28, 29,
      30, 31, 32, 70, 71, 72, 73, 74, 75, 33, 34, 35, 36, 38, 37, 39, 40, 41, 42, 43, 44, 45, 46,
      47, 48, 49, 50, 51, 52, 53, 54, 55, 56, 76, 77, 58, 58, 58, 57, 59, 60, 61, 62, 63, 64, 65,
      66, 67]"
    by (simp add: agent_responses_def terminal_responses_def)
qed (simp add: agent_responses_def)

lemma terminal_responses_proper:
  "(requests, responses) \<in> set terminal_responses \<Longrightarrow> responses \<noteq> [] \<and> TypeError \<notin> set responses"
  unfolding terminal_responses_def by auto

text \<open>A request type has a response, other than an error, that the relay forwards and that ends it.\<close>

definition answerable :: "MessageType \<Rightarrow> bool" where
  "answerable request \<longleftrightarrow>
     (\<exists>response \<in> set agent_responses. response \<noteq> TypeError
        \<and> isTerminalResponseForRequest request response)"

lemma find_Some_mem: "find P xs = Some x \<Longrightarrow> x \<in> set xs \<and> P x"
  by (auto simp: find_Some_iff)

lemma answerable_iff: "answerable request \<longleftrightarrow> request \<in> set client_requests"
proof
  assume "answerable request"
  then obtain rs ts where "find (\<lambda>(rs, _). request \<in> set rs) terminal_responses = Some (rs, ts)"
    by (auto simp: answerable_def isTerminalResponseForRequest_def split: option.splits)
  then have "request \<in> set terminal_requests" by (force dest: find_Some_mem)
  then show "request \<in> set client_requests" using terminal_requests_accepted by blast
next
  assume "request \<in> set client_requests"
  then have "request \<in> set terminal_requests" using client_requests_terminate by blast
  then have "find (\<lambda>(rs, _). request \<in> set rs) terminal_responses \<noteq> None"
    by (auto simp: find_None_iff split_beta)
  then obtain rs ts where f: "find (\<lambda>(rs, _). request \<in> set rs) terminal_responses = Some (rs, ts)"
    by auto
  then have m: "(rs, ts) \<in> set terminal_responses" by (auto dest: find_Some_mem)
  with terminal_responses_proper obtain t where t: "t \<in> set ts" "t \<noteq> TypeError"
    by (metis list.set_intros(1) neq_Nil_conv)
  with m terminal_responses_forwarded have "t \<in> set agent_responses" by force
  with t f show "answerable request" by (auto simp: answerable_def isTerminalResponseForRequest_def)
qed

end
