(* ===== verification/RelayRegistry.thy ===== *)
theory RelayRegistry
  imports RelayProtocol GoStrings
begin

text \<open>
  The registry of \<open>core/remote/relay/registry.go\<close> with the authorizations of
  \<open>core/remote/relay/auth_service.go\<close> over the store of \<open>core/adapter/authorization/memory\<close>: the
  agents that are online, the pairing codes, the routes of the requests in flight and the
  connections of the clients. A websocket is a number, its identity. The digest of a token
  (\<open>clientTokenHash\<close>, SHA-256) and the order in which Go ranges over the connections are arguments;
  each operation is one critical section and reads the clock once.
\<close>

type_synonym peer = nat

section \<open>State\<close>

record agentEntry =
  ae_UserID :: string
  ae_DeviceID :: string
  ae_BindCode :: string
  ae_RemoteAddr :: string
  ae_ConnectedAt :: gotime
  ae_LastSeenAt :: gotime
  ae_peer :: peer

record clientEntry =
  cl_RequestID :: string
  cl_RequestType :: MessageType
  cl_UserID :: string
  cl_DeviceID :: string
  cl_ClientID :: string
  cl_RemoteAddr :: string
  cl_ConnectedAt :: gotime
  cl_LastSeenAt :: gotime
  cl_peer :: "peer option"

record clientConnection =
  cc_UserID :: string
  cc_DeviceID :: string
  cc_ClientID :: string
  cc_RemoteAddr :: string
  cc_LastSeenAt :: gotime

record ClientAuthorization =
  ca_ID :: string
  ca_UserID :: string
  ca_DeviceID :: string
  ca_ClientName :: string
  ca_RemoteAddr :: string
  ca_CreatedAt :: gotime
  ca_LastSeenAt :: gotime
  ca_ExpiresAt :: gotime
  ca_RevokedAt :: "gotime option"

text \<open>The maps of the server; \<open>rs_bindings\<close> gives the empty string for a code that is not bound.\<close>

record RelayServer =
  rs_agents :: "agentEntry gomap"
  rs_bindings :: "string \<Rightarrow> string"
  rs_clients :: "clientEntry gomap"
  rs_connections :: "peer \<Rightarrow> clientConnection option"
  rs_authorizations :: "ClientAuthorization gomap"

definition NewServer :: RelayServer where
  "NewServer = \<lparr>rs_agents = Map.empty, rs_bindings = (\<lambda>_. []), rs_clients = Map.empty,
     rs_connections = Map.empty, rs_authorizations = Map.empty\<rparr>"

section \<open>Agents\<close>

definition agentKey :: "string \<Rightarrow> string \<Rightarrow> string" where
  "agentKey userID deviceID = userID @ ''/'' @ deviceID"

text \<open>The connection that the new one replaces, to be closed, and the server.\<close>

definition registerAgent ::
  "peer \<Rightarrow> string \<Rightarrow> string \<Rightarrow> string \<Rightarrow> string \<Rightarrow> gotime \<Rightarrow> RelayServer \<Rightarrow> peer option \<times> RelayServer" where
  "registerAgent p userID deviceID bindCode remoteAddr now s =
     (if userID = [] \<or> deviceID = [] then (None, s)
      else
        (let key = agentKey userID deviceID;
             (superseded, bindings) =
               (case rs_agents s key of
                  None \<Rightarrow> (None, rs_bindings s)
                | Some previous \<Rightarrow>
                    (if ae_peer previous \<noteq> p then Some (ae_peer previous) else None,
                     if ae_BindCode previous \<noteq> [] then (rs_bindings s)(ae_BindCode previous := [])
                     else rs_bindings s))
         in (superseded,
             s\<lparr>rs_agents := (rs_agents s)(key \<mapsto>
                 \<lparr>ae_UserID = userID, ae_DeviceID = deviceID, ae_BindCode = bindCode,
                  ae_RemoteAddr = remoteAddr, ae_ConnectedAt = now, ae_LastSeenAt = now, ae_peer = p\<rparr>),
               rs_bindings := (if bindCode \<noteq> [] then bindings(bindCode := key) else bindings)\<rparr>)))"

definition touchAgent :: "string \<Rightarrow> string \<Rightarrow> gotime \<Rightarrow> RelayServer \<Rightarrow> RelayServer" where
  "touchAgent userID deviceID now s =
     (if userID = [] \<or> deviceID = [] then s
      else case rs_agents s (agentKey userID deviceID) of
        None \<Rightarrow> s
      | Some agent \<Rightarrow>
          s\<lparr>rs_agents := (rs_agents s)(agentKey userID deviceID \<mapsto> agent\<lparr>ae_LastSeenAt := now\<rparr>)\<rparr>)"

definition unregisterAgent :: "peer \<Rightarrow> string \<Rightarrow> string \<Rightarrow> RelayServer \<Rightarrow> RelayServer" where
  "unregisterAgent p userID deviceID s =
     (if userID = [] \<or> deviceID = [] then s
      else case rs_agents s (agentKey userID deviceID) of
        None \<Rightarrow> s
      | Some agent \<Rightarrow>
          (if ae_peer agent = p
           then s\<lparr>rs_agents := (rs_agents s)(agentKey userID deviceID := None),
                  rs_bindings := (if ae_BindCode agent \<noteq> []
                    then (rs_bindings s)(ae_BindCode agent := []) else rs_bindings s)\<rparr>
           else s))"

definition getAgent :: "string \<Rightarrow> string \<Rightarrow> RelayServer \<Rightarrow> agentEntry option" where
  "getAgent userID deviceID s =
     (if userID = [] \<or> deviceID = [] then None else rs_agents s (agentKey userID deviceID))"

definition isCurrentAgentPeer :: "peer \<Rightarrow> string \<Rightarrow> string \<Rightarrow> RelayServer \<Rightarrow> bool" where
  "isCurrentAgentPeer p userID deviceID s \<longleftrightarrow>
     userID \<noteq> [] \<and> deviceID \<noteq> []
     \<and> (case rs_agents s (agentKey userID deviceID) of None \<Rightarrow> False | Some agent \<Rightarrow> ae_peer agent = p)"

definition getAgentByBindCode :: "string \<Rightarrow> RelayServer \<Rightarrow> agentEntry option" where
  "getAgentByBindCode bindCode s =
     (if bindCode = [] then None
      else if rs_bindings s bindCode = [] then None else rs_agents s (rs_bindings s bindCode))"

section \<open>Routes and connections of clients\<close>

definition clientRouteTTL :: duration where
  "clientRouteTTL = 30 * 60 * 1000000000"

definition route_expired :: "gotime \<Rightarrow> clientEntry \<Rightarrow> bool" where
  "route_expired now client \<longleftrightarrow> now - cl_LastSeenAt client > clientRouteTTL"

definition pruneExpiredClientRoutesLocked :: "gotime \<Rightarrow> RelayServer \<Rightarrow> RelayServer" where
  "pruneExpiredClientRoutesLocked now s =
     s\<lparr>rs_clients := (\<lambda>requestID. case rs_clients s requestID of
          None \<Rightarrow> None | Some client \<Rightarrow> if route_expired now client then None else Some client)\<rparr>"

text \<open>The three parts of an identity that a route or a connection is compared by.\<close>

definition route_identity :: "clientEntry \<Rightarrow> string \<times> string \<times> string" where
  "route_identity client = (cl_UserID client, cl_DeviceID client, cl_ClientID client)"

definition connection_identity :: "clientConnection \<Rightarrow> string \<times> string \<times> string" where
  "connection_identity connection =
     (cc_UserID connection, cc_DeviceID connection, cc_ClientID connection)"

definition registerClient ::
  "(string \<Rightarrow> string) \<Rightarrow> string \<Rightarrow> MessageType \<Rightarrow> peer \<Rightarrow> string \<Rightarrow> string \<Rightarrow> string \<Rightarrow> string \<Rightarrow> gotime
     \<Rightarrow> RelayServer \<Rightarrow> bool \<times> RelayServer" where
  "registerClient hash requestID requestType p userID deviceID clientToken remoteAddr now s0 =
     (if requestID = [] then (False, s0)
      else
        (let s = pruneExpiredClientRoutesLocked now s0; clientID = hash clientToken
         in case rs_clients s requestID of
           Some previous \<Rightarrow>
             (if route_identity previous \<noteq> (userID, deviceID, clientID) then (False, s)
              else (True, s\<lparr>rs_clients := (rs_clients s)(requestID \<mapsto>
                     previous\<lparr>cl_peer := Some p, cl_RemoteAddr := remoteAddr, cl_LastSeenAt := now\<rparr>)\<rparr>))
         | None \<Rightarrow>
             (True, s\<lparr>rs_clients := (rs_clients s)(requestID \<mapsto>
                \<lparr>cl_RequestID = requestID, cl_RequestType = requestType, cl_UserID = userID,
                 cl_DeviceID = deviceID, cl_ClientID = clientID, cl_RemoteAddr = remoteAddr,
                 cl_ConnectedAt = now, cl_LastSeenAt = now, cl_peer = Some p\<rparr>)\<rparr>)))"

definition touchClient :: "string \<Rightarrow> gotime \<Rightarrow> RelayServer \<Rightarrow> RelayServer" where
  "touchClient requestID now s =
     (if requestID = [] then s
      else s\<lparr>rs_clients := (rs_clients s)(requestID :=
             map_option (\<lambda>client. client\<lparr>cl_LastSeenAt := now\<rparr>) (rs_clients s requestID))\<rparr>)"

definition touchClientPeer :: "peer \<Rightarrow> gotime \<Rightarrow> RelayServer \<Rightarrow> RelayServer" where
  "touchClientPeer p now s =
     s\<lparr>rs_clients := (\<lambda>requestID. map_option (\<lambda>client.
          if cl_peer client = Some p then client\<lparr>cl_LastSeenAt := now\<rparr> else client) (rs_clients s requestID)),
       rs_connections := (rs_connections s)(p :=
          map_option (\<lambda>connection. connection\<lparr>cc_LastSeenAt := now\<rparr>) (rs_connections s p))\<rparr>"

definition unregisterClient :: "string \<Rightarrow> RelayServer \<Rightarrow> RelayServer" where
  "unregisterClient requestID s =
     (if requestID = [] then s else s\<lparr>rs_clients := (rs_clients s)(requestID := None)\<rparr>)"

definition unregisterClientPeer :: "peer \<Rightarrow> RelayServer \<Rightarrow> RelayServer" where
  "unregisterClientPeer p s =
     s\<lparr>rs_clients := (\<lambda>requestID. map_option (\<lambda>client.
          if cl_peer client = Some p then client\<lparr>cl_peer := None\<rparr> else client) (rs_clients s requestID)),
       rs_connections := (rs_connections s)(p := None)\<rparr>"

text \<open>The peers it removes are closed, which their own goroutines notice.\<close>

definition invalidateClientAuthorization :: "string \<Rightarrow> RelayServer \<Rightarrow> RelayServer" where
  "invalidateClientAuthorization clientID s =
     s\<lparr>rs_clients := (\<lambda>requestID. case rs_clients s requestID of
          None \<Rightarrow> None | Some client \<Rightarrow> if cl_ClientID client = clientID then None else Some client),
       rs_connections := (\<lambda>p. case rs_connections s p of
          None \<Rightarrow> None | Some connection \<Rightarrow> if cc_ClientID connection = clientID then None else Some connection)\<rparr>"

definition rebindClientRequest ::
  "(string \<Rightarrow> string) \<Rightarrow> string \<Rightarrow> string \<Rightarrow> string \<Rightarrow> string \<Rightarrow> peer \<Rightarrow> gotime \<Rightarrow> RelayServer \<Rightarrow> bool \<times> RelayServer" where
  "rebindClientRequest hash requestID userID deviceID clientToken p now s =
     (if requestID = [] \<or> userID = [] \<or> deviceID = [] \<or> clientToken = [] then (False, s)
      else case rs_clients s requestID of
        None \<Rightarrow> (False, s)
      | Some client \<Rightarrow>
          (if route_expired now client
             then (False, s\<lparr>rs_clients := (rs_clients s)(requestID := None)\<rparr>)
           else if route_identity client \<noteq> (userID, deviceID, hash clientToken) then (False, s)
           else (True, s\<lparr>rs_clients := (rs_clients s)(requestID \<mapsto>
                  client\<lparr>cl_peer := Some p, cl_LastSeenAt := now\<rparr>)\<rparr>)))"

definition registerClientConnection ::
  "(string \<Rightarrow> string) \<Rightarrow> peer \<Rightarrow> string \<Rightarrow> string \<Rightarrow> string \<Rightarrow> string \<Rightarrow> gotime \<Rightarrow> RelayServer \<Rightarrow> RelayServer" where
  "registerClientConnection hash p userID deviceID clientToken remoteAddr now s =
     (if userID = [] \<or> deviceID = [] \<or> clientToken = [] then s
      else s\<lparr>rs_connections := (rs_connections s)(p \<mapsto>
             \<lparr>cc_UserID = userID, cc_DeviceID = deviceID, cc_ClientID = hash clientToken,
              cc_RemoteAddr = remoteAddr, cc_LastSeenAt = now\<rparr>)\<rparr>)"

definition getClientConnections :: "peer list \<Rightarrow> string \<Rightarrow> string \<Rightarrow> RelayServer \<Rightarrow> peer list" where
  "getClientConnections order userID deviceID s =
     filter (\<lambda>p. case rs_connections s p of
        None \<Rightarrow> False
      | Some connection \<Rightarrow> cc_UserID connection = userID \<and> cc_DeviceID connection = deviceID) order"

text \<open>
  The scan for another connection of the same identity, from \<open>target\<close> and the time it was seen: the
  connection seen last, the first of the order among several.
\<close>

fun latest_connection ::
  "(peer \<Rightarrow> clientConnection option) \<Rightarrow> string \<times> string \<times> string \<Rightarrow> (peer \<times> gotime) option \<Rightarrow> peer list
     \<Rightarrow> peer option" where
  "latest_connection connections identity best [] = map_option fst best"
| "latest_connection connections identity best (p # ps) =
     latest_connection connections identity
       (case connections p of
          None \<Rightarrow> best
        | Some connection \<Rightarrow>
            (if connection_identity connection \<noteq> identity then best
             else case best of
               None \<Rightarrow> Some (p, cc_LastSeenAt connection)
             | Some (target, latest) \<Rightarrow>
                 (if cc_LastSeenAt connection > latest then Some (p, cc_LastSeenAt connection) else best)))
       ps"

definition live_target :: "RelayServer \<Rightarrow> clientEntry \<Rightarrow> peer option" where
  "live_target s client =
     (case cl_peer client of
        None \<Rightarrow> None
      | Some p \<Rightarrow>
          (case rs_connections s p of
             None \<Rightarrow> None
           | Some connection \<Rightarrow>
               if connection_identity connection \<noteq> route_identity client then None else Some p))"

definition clientPeerForMessage ::
  "peer list \<Rightarrow> string \<Rightarrow> string \<Rightarrow> string \<Rightarrow> gotime \<Rightarrow> RelayServer
     \<Rightarrow> (clientEntry \<times> peer) option \<times> RelayServer" where
  "clientPeerForMessage order requestID userID deviceID now s =
     (if requestID = [] then (None, s)
      else case rs_clients s requestID of
        None \<Rightarrow> (None, s)
      | Some client \<Rightarrow>
          (if route_expired now client
             then (None, s\<lparr>rs_clients := (rs_clients s)(requestID := None)\<rparr>)
           else if userID \<noteq> [] \<and> cl_UserID client \<noteq> userID \<or> deviceID \<noteq> [] \<and> cl_DeviceID client \<noteq> deviceID
             then (None, s)
           else
             (let target = (case live_target s client of
                    Some p \<Rightarrow> Some p
                  | None \<Rightarrow> latest_connection (rs_connections s) (route_identity client) None order)
              in case target of
                   None \<Rightarrow> (None, s\<lparr>rs_clients := (rs_clients s)(requestID \<mapsto> client\<lparr>cl_peer := None\<rparr>)\<rparr>)
                 | Some p \<Rightarrow>
                     (let entry = client\<lparr>cl_peer := Some p, cl_LastSeenAt := now\<rparr>
                      in (Some (entry, p), s\<lparr>rs_clients := (rs_clients s)(requestID \<mapsto> entry)\<rparr>)))))"

section \<open>Authorizations\<close>

definition ActiveAt :: "ClientAuthorization \<Rightarrow> gotime \<Rightarrow> bool" where
  "ActiveAt a now \<longleftrightarrow> ca_RevokedAt a = None \<and> (IsZero (ca_ExpiresAt a) \<or> ca_ExpiresAt a > now)"

text \<open>The methods of the store; an absent authorization is \<open>ErrNotFound\<close>.\<close>

definition Store_Save :: "ClientAuthorization \<Rightarrow> RelayServer \<Rightarrow> RelayServer option" where
  "Store_Save a s =
     (if ca_ID a = [] then None
      else Some (s\<lparr>rs_authorizations := (rs_authorizations s)(ca_ID a \<mapsto> a)\<rparr>))"

definition Store_Get :: "string \<Rightarrow> RelayServer \<Rightarrow> ClientAuthorization option" where
  "Store_Get authID s = (if authID = [] then None else rs_authorizations s authID)"

definition Store_Touch :: "string \<Rightarrow> gotime \<Rightarrow> RelayServer \<Rightarrow> RelayServer option" where
  "Store_Touch authID lastSeenAt s =
     (if authID = [] then None
      else case rs_authorizations s authID of
        None \<Rightarrow> None
      | Some a \<Rightarrow> Some (s\<lparr>rs_authorizations := (rs_authorizations s)(authID \<mapsto> a\<lparr>ca_LastSeenAt := lastSeenAt\<rparr>)\<rparr>))"

definition Store_Revoke :: "string \<Rightarrow> gotime \<Rightarrow> RelayServer \<Rightarrow> RelayServer option" where
  "Store_Revoke authID revokedAt s =
     (if authID = [] then None
      else case rs_authorizations s authID of
        None \<Rightarrow> None
      | Some a \<Rightarrow> Some (s\<lparr>rs_authorizations := (rs_authorizations s)(authID \<mapsto> a\<lparr>ca_RevokedAt := Some revokedAt\<rparr>)\<rparr>))"

definition normalizeClientName :: "string \<Rightarrow> string" where
  "normalizeClientName name = (if name = [] then ''Browser'' else if length name > 80 then take 80 name else name)"

definition defaultClientTokenTTL :: duration where
  "defaultClientTokenTTL = 30 * 24 * 60 * 60 * 1000000000"

text \<open>\<open>token\<close> is what the random source gave, \<open>None\<close> when it failed.\<close>

definition authorizeClient ::
  "(string \<Rightarrow> string) \<Rightarrow> string option \<Rightarrow> string \<Rightarrow> string \<Rightarrow> string \<Rightarrow> string \<Rightarrow> gotime \<Rightarrow> RelayServer
     \<Rightarrow> (string \<times> ClientAuthorization) option \<times> RelayServer" where
  "authorizeClient hash token userID deviceID clientName remoteAddr now s =
     (if userID = [] \<or> deviceID = [] then (None, s)
      else case token of
        None \<Rightarrow> (None, s)
      | Some t \<Rightarrow>
          (let a = \<lparr>ca_ID = hash t, ca_UserID = userID, ca_DeviceID = deviceID,
                    ca_ClientName = normalizeClientName clientName, ca_RemoteAddr = remoteAddr,
                    ca_CreatedAt = now, ca_LastSeenAt = now,
                    ca_ExpiresAt = now + defaultClientTokenTTL, ca_RevokedAt = None\<rparr>
           in case Store_Save a s of
                None \<Rightarrow> (None, s)
              | Some s' \<Rightarrow> (Some (t, a), s')))"

definition validateClientToken ::
  "(string \<Rightarrow> string) \<Rightarrow> string \<Rightarrow> string \<Rightarrow> string \<Rightarrow> gotime \<Rightarrow> RelayServer \<Rightarrow> bool \<times> RelayServer" where
  "validateClientToken hash userID deviceID token now s =
     (if userID = [] \<or> deviceID = [] \<or> token = [] then (False, s)
      else case Store_Get (hash token) s of
        None \<Rightarrow> (False, s)
      | Some a \<Rightarrow>
          (if ca_UserID a \<noteq> userID \<or> ca_DeviceID a \<noteq> deviceID then (False, s)
           else if \<not> ActiveAt a now then (False, s)
           else case Store_Touch (ca_ID a) now s of None \<Rightarrow> (False, s) | Some s' \<Rightarrow> (True, s')))"

definition revokeClientAuthorization :: "string \<Rightarrow> string \<Rightarrow> string \<Rightarrow> gotime \<Rightarrow> RelayServer \<Rightarrow> bool \<times> RelayServer" where
  "revokeClientAuthorization authID userID deviceID now s =
     (case Store_Get authID s of
        None \<Rightarrow> (False, s)
      | Some a \<Rightarrow>
          (if ca_UserID a \<noteq> userID \<or> ca_DeviceID a \<noteq> deviceID then (False, s)
           else case Store_Revoke authID now s of
             None \<Rightarrow> (False, s)
           | Some s' \<Rightarrow> (True, invalidateClientAuthorization authID s')))"

end
