(* ===== verification/RelayServer.thy ===== *)
theory RelayServer
  imports RelayRegistry Machine
begin

text \<open>
  The message handlers of \<open>core/remote/relay/server.go\<close> with the pairing and revocation endpoints
  (\<open>pair.go\<close>, \<open>authorization.go\<close>) and the authentication of agents (\<open>security.go\<close>). A handler gives
  its error, the messages it tried to write to the sockets of others, and the server. What a write
  returns is an argument, as are the credentials of the agents and the decoder of the payload of an
  agent's first message. A handler runs as one step; closing a replaced socket is the input
  \<open>SocketClosed\<close> of that socket.
\<close>

section \<open>Handlers\<close>

record RelayEnv =
  env_hash :: "string \<Rightarrow> string"
  env_credentials :: "string gomap"
  env_BindCode :: "string \<Rightarrow> string + string"
  env_order :: "(peer \<Rightarrow> clientConnection option) \<Rightarrow> peer list"

type_synonym network = "peer \<Rightarrow> RelayMessage \<Rightarrow> string option"
type_synonym writes = "(peer \<times> RelayMessage) list"

definition authenticateAgentRequest ::
  "RelayEnv \<Rightarrow> string \<Rightarrow> string \<Rightarrow> string \<Rightarrow> (string \<times> string) option" where
  "authenticateAgentRequest env userHeader deviceHeader authorizationHeader =
     (let userID = TrimSpace userHeader; deviceID = TrimSpace deviceHeader;
          header = TrimSpace authorizationHeader
      in case env_credentials env (agentKey userID deviceID) of
           None \<Rightarrow> None
         | Some expected \<Rightarrow>
             (if expected = [] then None
              else if length header \<le> 7 \<or> \<not> EqualFoldWord (take 7 header) ''bearer '' then None
              else if TrimSpace (drop 7 header) \<noteq> expected then None
              else Some (userID, deviceID)))"

definition writeAuthorizedClient ::
  "network \<Rightarrow> gotime \<Rightarrow> peer \<Rightarrow> RelayMessage \<Rightarrow> RelayServer \<Rightarrow> string option \<times> writes \<times> RelayServer" where
  "writeAuthorizedClient net now p message s =
     (case rs_connections s p of
        None \<Rightarrow> (Some ''client connection is no longer registered'', [], s)
      | Some identity \<Rightarrow>
          (case Store_Get (cc_ClientID identity) s of
             Some a \<Rightarrow>
               (if ActiveAt a now \<and> ca_UserID a = cc_UserID identity \<and> ca_DeviceID a = cc_DeviceID identity
                then (net p message, [(p, message)], s)
                else (Some ''client authorization is unavailable, revoked or expired'', [],
                      invalidateClientAuthorization (cc_ClientID identity) s))
           | None \<Rightarrow> (Some ''client authorization is unavailable, revoked or expired'', [],
                      invalidateClientAuthorization (cc_ClientID identity) s)))"

definition forwardToAgent :: "network \<Rightarrow> RelayMessage \<Rightarrow> RelayServer \<Rightarrow> string option \<times> writes" where
  "forwardToAgent net message s =
     (case getAgent (rm_UserID message) (rm_DeviceID message) s of
        None \<Rightarrow> (Some (''agent is not online: user='' @ rm_UserID message @ '' device='' @ rm_DeviceID message), [])
      | Some agent \<Rightarrow> (net (ae_peer agent) message, [(ae_peer agent, message)]))"

text \<open>The end of \<open>forwardToClient\<close>, after a write that succeeded.\<close>

definition release_route :: "clientEntry \<Rightarrow> RelayMessage \<Rightarrow> RelayServer \<Rightarrow> RelayServer" where
  "release_route client message s =
     (if isTerminalResponseForRequest (cl_RequestType client) (rm_Type message)
      then unregisterClient (rm_RequestID message) s else s)"

definition route_peer ::
  "RelayEnv \<Rightarrow> gotime \<Rightarrow> RelayMessage \<Rightarrow> RelayServer \<Rightarrow> (clientEntry \<times> peer) option \<times> RelayServer" where
  "route_peer env now message s =
     clientPeerForMessage (env_order env (rs_connections s)) (rm_RequestID message) (rm_UserID message)
       (rm_DeviceID message) now s"

definition forwardToClient ::
  "RelayEnv \<Rightarrow> network \<Rightarrow> gotime \<Rightarrow> RelayMessage \<Rightarrow> RelayServer \<Rightarrow> string option \<times> writes \<times> RelayServer" where
  "forwardToClient env net now message s =
     (case route_peer env now message s of
        (None, s1) \<Rightarrow> (Some (''client request is not online: request='' @ rm_RequestID message), [], s1)
      | (Some (client, target), s1) \<Rightarrow>
          (case writeAuthorizedClient net now target message s1 of
             (None, ws, s2) \<Rightarrow> (None, ws, release_route client message s2)
           | (Some err, ws, s2) \<Rightarrow>
               (case route_peer env now message (unregisterClientPeer target s2) of
                  (None, s4) \<Rightarrow> (Some err, ws, s4)
                | (Some (_, replacement), s4) \<Rightarrow>
                    (if replacement = target then (Some err, ws, s4)
                     else case writeAuthorizedClient net now replacement message s4 of
                       (Some err', ws', s5) \<Rightarrow> (Some err', ws @ ws', s5)
                     | (None, ws', s5) \<Rightarrow> (None, ws @ ws', release_route client message s5)))))"

text \<open>The loop of \<open>forwardEventToClients\<close>; the errors are joined with newlines.\<close>

fun event_writes ::
  "network \<Rightarrow> gotime \<Rightarrow> RelayMessage \<Rightarrow> peer list \<Rightarrow> RelayServer \<Rightarrow> string list \<times> writes \<times> RelayServer" where
  "event_writes net now message [] s = ([], [], s)"
| "event_writes net now message (p # ps) s =
     (let (err, ws, s1) = writeAuthorizedClient net now p message s;
          (errs, ws', s2) = event_writes net now message ps s1
      in ((case err of None \<Rightarrow> errs | Some e \<Rightarrow> e # errs), ws @ ws', s2))"

definition forwardEventToClients ::
  "RelayEnv \<Rightarrow> network \<Rightarrow> gotime \<Rightarrow> RelayMessage \<Rightarrow> RelayServer \<Rightarrow> string option \<times> writes \<times> RelayServer" where
  "forwardEventToClients env net now message s =
     (let (errs, ws, s') = event_writes net now message
            (getClientConnections (env_order env (rs_connections s)) (rm_UserID message) (rm_DeviceID message) s) s
      in (if errs = [] then None else Some (join [CHR 0x0A] errs), ws, s'))"

text \<open>The identity under which the socket has registered, \<open>agentUserID\<close> and \<open>agentDeviceID\<close>, is a pair.\<close>

type_synonym agent_result = "string option \<times> (string \<times> string) \<times> writes \<times> RelayServer"

definition agent_online ::
  "RelayEnv \<Rightarrow> gotime \<Rightarrow> peer \<Rightarrow> string \<Rightarrow> RelayMessage \<Rightarrow> string \<times> string \<Rightarrow> string \<times> string
     \<Rightarrow> RelayServer \<Rightarrow> agent_result" where
  "agent_online env now p remoteAddr message authenticated registered s =
     (case env_BindCode env (rm_Payload message) of
        Inl err \<Rightarrow> (Some (''decode agent online failed: '' @ err), registered, [], s)
      | Inr bindCode \<Rightarrow>
          (let identity = (rm_UserID message, rm_DeviceID message)
           in if blank (rm_UserID message) \<or> blank (rm_DeviceID message)
                then (Some ''agent user and device ids are required'', registered, [], s)
              else if identity \<noteq> authenticated
                then (Some ''agent registration identity does not match its credential'', registered, [], s)
              else if fst registered \<noteq> [] \<and> registered \<noteq> identity
                then (Some ''agent connection cannot change identity'', registered, [], s)
              else (None, identity, [],
                    snd (registerAgent p (rm_UserID message) (rm_DeviceID message) bindCode remoteAddr now s))))"

definition handleAgentMessage ::
  "RelayEnv \<Rightarrow> network \<Rightarrow> gotime \<Rightarrow> peer \<Rightarrow> string \<Rightarrow> RelayMessage \<Rightarrow> string \<times> string \<Rightarrow> string \<times> string
     \<Rightarrow> RelayServer \<Rightarrow> agent_result" where
  "handleAgentMessage env net now p remoteAddr message authenticated registered s =
     (let mtype = rm_Type message
      in if mtype \<noteq> TypeAgentOnline \<and> (fst registered = [] \<or> snd registered = [])
           then (Some ''agent must register before sending messages'', registered, [], s)
         else if mtype \<noteq> TypeAgentOnline \<and> (rm_UserID message, rm_DeviceID message) \<noteq> registered
           then (Some ''agent message identity does not match the authenticated connection'', registered, [], s)
         else if mtype \<noteq> TypeAgentOnline \<and> \<not> isCurrentAgentPeer p (fst registered) (snd registered) s
           then (Some ''agent connection has been superseded'', registered, [], s)
         else if mtype = TypeAgentOnline
           then agent_online env now p remoteAddr message authenticated registered s
         else if mtype = TypeHeartbeat
           then (None, registered, [], touchAgent (rm_UserID message) (rm_DeviceID message) now s)
         else if mtype = TypeAgentOffline
           then (None, ([], []), [], unregisterAgent p (rm_UserID message) (rm_DeviceID message) s)
         else if mtype \<in> set agent_events then
           (let (err, ws, s') = forwardEventToClients env net now message s in (err, registered, ws, s'))
         else if mtype \<in> set agent_responses then
           (let (err, ws, s') = forwardToClient env net now message s in (err, registered, ws, s'))
         else (Some (''unsupported agent message type: '' @ mtype), registered, [], s))"

text \<open>A request of a client, after its token is validated: the route, the connection, the agent.\<close>

definition handleClientMessage ::
  "RelayEnv \<Rightarrow> network \<Rightarrow> gotime \<Rightarrow> peer \<Rightarrow> string \<Rightarrow> RelayMessage \<Rightarrow> RelayServer
     \<Rightarrow> string option \<times> writes \<times> RelayServer" where
  "handleClientMessage env net now p remoteAddr message s0 =
     (let hash = env_hash env; mtype = rm_Type message; userID = rm_UserID message;
          deviceID = rm_DeviceID message; token = rm_ClientToken message; requestID = rm_RequestID message;
          (valid, s) = validateClientToken hash userID deviceID token now s0
      in if mtype = TypePermissionResult then
           (if \<not> valid then (Some ''client token is invalid or expired'', [], s)
            else
              (let s1 = registerClientConnection hash p userID deviceID token remoteAddr now s;
                   (bound, s2) = rebindClientRequest hash requestID userID deviceID token p now s1
               in if \<not> bound then (Some (''client request is not online: request='' @ requestID), [], s2)
                  else (let (err, ws) = forwardToAgent net message s2 in (err, ws, s2))))
         else if mtype \<in> set client_requests then
           (if \<not> valid then (Some ''client token is invalid or expired'', [], s)
            else
              (let (owned, s1) = registerClient hash requestID mtype p userID deviceID token remoteAddr now s
               in if \<not> owned
                    then (Some (''client request id is already owned by another client: request='' @ requestID), [], s1)
                  else
                    (let s2 = registerClientConnection hash p userID deviceID token remoteAddr now s1;
                         (err, ws) = forwardToAgent net message s2
                     in (err, ws, s2))))
         else if mtype = TypeHeartbeat then
           (if userID = [] \<and> deviceID = [] \<and> token = [] then (None, [], touchClient requestID now s0)
            else if \<not> valid then (Some ''client token is invalid or expired'', [], s)
            else (None, [], touchClientPeer p now
                    (registerClientConnection hash p userID deviceID token remoteAddr now s)))
         else (Some (''unsupported client message type: '' @ mtype), [], s0))"

section \<open>The server as a machine\<close>

text \<open>
  A socket of an agent holds the identity of its credential and the identity it has registered. The
  inputs are the upgrades of \<open>handleWebSocket\<close> with their headers, the messages its loop reads, the
  end of a socket, and the two endpoints; a closed socket is never used again.
\<close>

datatype socket = AgentSocket "string \<times> string" "string \<times> string" | ClientSocket | ClosedSocket

record Relay =
  ry_server :: RelayServer
  ry_sockets :: "peer \<Rightarrow> socket option"

datatype relay_input =
    AgentUpgrade peer string string string
  | ClientUpgrade peer
  | SocketMessage peer string gotime network RelayMessage
  | SocketClosed peer
  | PairRequest string string string "string option" gotime
  | RevokeRequest string string string string gotime

definition handlePair :: "RelayEnv \<Rightarrow> string \<Rightarrow> string \<Rightarrow> string \<Rightarrow> string option \<Rightarrow> gotime \<Rightarrow> RelayServer \<Rightarrow> RelayServer" where
  "handlePair env bindCode clientName remoteAddr token now s =
     (case getAgentByBindCode (TrimSpace bindCode) s of
        None \<Rightarrow> s
      | Some agent \<Rightarrow>
          snd (authorizeClient (env_hash env) token (ae_UserID agent) (ae_DeviceID agent) clientName remoteAddr now s))"

definition handleRevokeAuthorization ::
  "RelayEnv \<Rightarrow> string \<Rightarrow> string \<Rightarrow> string \<Rightarrow> string \<Rightarrow> gotime \<Rightarrow> RelayServer \<Rightarrow> bool \<times> RelayServer" where
  "handleRevokeAuthorization env authID0 userID0 deviceID0 token now s =
     (let authID = TrimSpace authID0; userID = TrimSpace userID0; deviceID = TrimSpace deviceID0
      in if authID = [] then (False, s)
         else (let (valid, s1) = validateClientToken (env_hash env) userID deviceID (TrimSpace token) now s
               in if \<not> valid then (False, s1) else revokeClientAuthorization authID userID deviceID now s1))"

fun relay_step :: "RelayEnv \<Rightarrow> Relay \<Rightarrow> relay_input \<Rightarrow> Relay \<times> writes" where
  "relay_step env r (AgentUpgrade p user device authorization) =
     (case (ry_sockets r p, authenticateAgentRequest env user device authorization) of
        (None, Some identity) \<Rightarrow>
          (r\<lparr>ry_sockets := (ry_sockets r)(p \<mapsto> AgentSocket identity ([], []))\<rparr>, [])
      | _ \<Rightarrow> (r, []))"
| "relay_step env r (ClientUpgrade p) =
     (case ry_sockets r p of
        None \<Rightarrow> (r\<lparr>ry_sockets := (ry_sockets r)(p \<mapsto> ClientSocket)\<rparr>, [])
      | Some _ \<Rightarrow> (r, []))"
| "relay_step env r (SocketMessage p remoteAddr now net message) =
     (case ry_sockets r p of
        Some (AgentSocket authenticated registered) \<Rightarrow>
          (let (err, registered', ws, s) =
             handleAgentMessage env net now p remoteAddr message authenticated registered (ry_server r)
           in (r\<lparr>ry_server := s, ry_sockets := (ry_sockets r)(p \<mapsto> AgentSocket authenticated registered')\<rparr>, ws))
      | Some ClientSocket \<Rightarrow>
          (let (err, ws, s) = handleClientMessage env net now p remoteAddr message (ry_server r)
           in (r\<lparr>ry_server := s\<rparr>, ws))
      | _ \<Rightarrow> (r, []))"
| "relay_step env r (SocketClosed p) =
     (case ry_sockets r p of
        Some (AgentSocket _ registered) \<Rightarrow>
          (r\<lparr>ry_server := unregisterAgent p (fst registered) (snd registered) (ry_server r),
             ry_sockets := (ry_sockets r)(p \<mapsto> ClosedSocket)\<rparr>, [])
      | Some ClientSocket \<Rightarrow>
          (r\<lparr>ry_server := unregisterClientPeer p (ry_server r),
             ry_sockets := (ry_sockets r)(p \<mapsto> ClosedSocket)\<rparr>, [])
      | _ \<Rightarrow> (r, []))"
| "relay_step env r (PairRequest bindCode clientName remoteAddr token now) =
     (r\<lparr>ry_server := handlePair env bindCode clientName remoteAddr token now (ry_server r)\<rparr>, [])"
| "relay_step env r (RevokeRequest authID userID deviceID token now) =
     (r\<lparr>ry_server := snd (handleRevokeAuthorization env authID userID deviceID token now (ry_server r))\<rparr>, [])"

definition initial_relay :: Relay where
  "initial_relay = \<lparr>ry_server = NewServer, ry_sockets = Map.empty\<rparr>"

text \<open>The state after a history of inputs.\<close>

definition relay_after :: "RelayEnv \<Rightarrow> relay_input list \<Rightarrow> Relay" where
  "relay_after env inputs = run_ops (\<lambda>r i. fst (relay_step env r i)) initial_relay inputs"

end
