(* ===== verification/RelayFacts.thy ===== *)
theory RelayFacts
  imports RelayServer
begin

text \<open>
  What the registry operations leave in place, the invariant of the relay over the history of its
  inputs, and the properties: to whom messages go, what a revocation ends, and which responses
  release a route.
\<close>

section \<open>What an operation keeps\<close>

text \<open>
  \<open>keeps s s'\<close>: every connection, route and agent of \<open>s'\<close> was one of \<open>s\<close> under the same identity,
  and the authorizations differ at most in when they were last seen.
\<close>

definition auth_view :: "RelayServer \<Rightarrow> string \<Rightarrow> ClientAuthorization option" where
  "auth_view s k = map_option (\<lambda>a. a\<lparr>ca_LastSeenAt := 0\<rparr>) (rs_authorizations s k)"

definition submap :: "('v \<Rightarrow> 'i) \<Rightarrow> ('k \<Rightarrow> 'v option) \<Rightarrow> ('k \<Rightarrow> 'v option) \<Rightarrow> bool" where
  "submap f m m' \<longleftrightarrow> (\<forall>k v'. m' k = Some v' \<longrightarrow> (\<exists>v. m k = Some v \<and> f v = f v'))"

lemma submap_refl [simp]: "submap f m m"
  by (simp add: submap_def)

lemma submap_trans: "submap f m m' \<Longrightarrow> submap f m' m'' \<Longrightarrow> submap f m m''"
  unfolding submap_def by metis

lemma submapD: "submap f m m' \<Longrightarrow> m' k = Some v' \<Longrightarrow> \<exists>v. m k = Some v \<and> f v = f v'"
  by (simp add: submap_def)

definition route_view :: "clientEntry \<Rightarrow> string \<times> MessageType \<times> string \<times> string \<times> string" where
  "route_view e = (cl_RequestID e, cl_RequestType e, route_identity e)"

definition agent_view :: "agentEntry \<Rightarrow> string \<times> string \<times> peer" where
  "agent_view a = (ae_UserID a, ae_DeviceID a, ae_peer a)"

definition keeps :: "RelayServer \<Rightarrow> RelayServer \<Rightarrow> bool" where
  "keeps s s' \<longleftrightarrow>
     submap connection_identity (rs_connections s) (rs_connections s')
     \<and> submap route_view (rs_clients s) (rs_clients s')
     \<and> submap agent_view (rs_agents s) (rs_agents s')
     \<and> auth_view s' = auth_view s"

lemmas view_defs = route_view_def agent_view_def route_identity_def connection_identity_def auth_view_def

lemma keeps_refl [simp, intro]: "keeps s s"
  by (simp add: keeps_def)

lemma keeps_trans [trans]: "keeps s s' \<Longrightarrow> keeps s' s'' \<Longrightarrow> keeps s s''"
  unfolding keeps_def by (auto intro: submap_trans)

named_theorems relay_keeps \<open>operations that keep the identities\<close>

lemma keeps_touchAgent [relay_keeps]: "keeps s (touchAgent u d now s)"
  by (auto simp: keeps_def submap_def view_defs touchAgent_def split: option.splits if_splits)
lemma keeps_unregisterAgent [relay_keeps]: "keeps s (unregisterAgent p u d s)"
  by (auto simp: keeps_def submap_def view_defs unregisterAgent_def split: option.splits if_splits)
lemma keeps_prune [relay_keeps]: "keeps s (pruneExpiredClientRoutesLocked now s)"
  by (auto simp: keeps_def submap_def view_defs pruneExpiredClientRoutesLocked_def split: option.splits if_splits)

lemma keeps_touchClient [relay_keeps]: "keeps s (touchClient r now s)"
  by (auto simp: keeps_def submap_def view_defs touchClient_def split: option.splits if_splits)

lemma keeps_touchClientPeer [relay_keeps]: "keeps s (touchClientPeer p now s)"
  by (auto simp: keeps_def submap_def view_defs touchClientPeer_def split: option.splits if_splits)

lemma keeps_unregisterClient [relay_keeps]: "keeps s (unregisterClient r s)"
  by (auto simp: keeps_def submap_def view_defs unregisterClient_def split: option.splits if_splits)

lemma keeps_unregisterClientPeer [relay_keeps]: "keeps s (unregisterClientPeer p s)"
  by (auto simp: keeps_def submap_def view_defs unregisterClientPeer_def split: option.splits if_splits)

lemma keeps_invalidate [relay_keeps]: "keeps s (invalidateClientAuthorization cid s)"
  by (auto simp: keeps_def submap_def view_defs invalidateClientAuthorization_def split: option.splits if_splits)

lemma keeps_rebind [relay_keeps]: "keeps s (snd (rebindClientRequest hash r u d t p now s))"
  by (auto simp: keeps_def submap_def view_defs rebindClientRequest_def split: option.splits if_splits)

lemma keeps_validate [relay_keeps]: "keeps s (snd (validateClientToken hash u d t now s))"
  by (auto simp: keeps_def submap_def view_defs validateClientToken_def Store_Get_def Store_Touch_def
      split: option.splits if_splits)

lemma keeps_release [relay_keeps]: "keeps s (release_route c m s)"
  by (simp add: release_route_def relay_keeps)

lemma latest_connection_matches:
  "latest_connection conns identity best ps = Some p \<Longrightarrow>
     (\<exists>t. best = Some (p, t)) \<or> (\<exists>c. conns p = Some c \<and> connection_identity c = identity)"
  by (induction conns identity best ps rule: latest_connection.induct)
    (auto split: option.splits if_splits)

lemma clientPeerForMessage_route:
  assumes "clientPeerForMessage order r u d now s = (Some (e, p), s')"
  shows "\<exists>c e0. rs_connections s p = Some c \<and> connection_identity c = route_identity e
     \<and> rs_clients s r = Some e0 \<and> route_identity e0 = route_identity e \<and> cl_RequestType e0 = cl_RequestType e
     \<and> (u \<noteq> [] \<longrightarrow> cl_UserID e = u) \<and> (d \<noteq> [] \<longrightarrow> cl_DeviceID e = d)
     \<and> r \<noteq> [] \<and> rs_clients s' r = Some e"
  using assms
  by (auto simp: clientPeerForMessage_def live_target_def Let_def route_identity_def
      dest: latest_connection_matches split: option.splits if_splits)

lemma keeps_route_peer [relay_keeps]: "keeps s (snd (route_peer env now m s))"
  by (auto simp: keeps_def submap_def view_defs route_peer_def clientPeerForMessage_def Let_def
      split: option.splits if_splits)

lemma connections_route_peer: "rs_connections (snd (route_peer env now m s)) = rs_connections s"
  by (auto simp: route_peer_def clientPeerForMessage_def Let_def split: option.splits if_splits)

text \<open>None of the operations on routes touches the authorizations.\<close>

lemma authorizations_same [simp]:
  "rs_authorizations (snd (route_peer env now m s)) = rs_authorizations s"
  "rs_authorizations (unregisterClientPeer p s) = rs_authorizations s"
  "rs_authorizations (invalidateClientAuthorization cid s) = rs_authorizations s"
  by (auto simp: route_peer_def clientPeerForMessage_def Let_def unregisterClientPeer_def
      invalidateClientAuthorization_def split: option.splits if_splits)

section \<open>Deliveries\<close>

text \<open>A write to a client goes to a live connection whose authorization is active at that time.\<close>

definition authorized_at :: "gotime \<Rightarrow> RelayServer \<Rightarrow> peer \<Rightarrow> string \<times> string \<times> string \<Rightarrow> bool" where
  "authorized_at now s q identity \<longleftrightarrow>
     (\<exists>c a. rs_connections s q = Some c \<and> connection_identity c = identity
        \<and> rs_authorizations s (snd (snd identity)) = Some a \<and> ActiveAt a now
        \<and> ca_UserID a = fst identity \<and> ca_DeviceID a = fst (snd identity))"

lemma writeAuthorizedClient_writes:
  assumes "writeAuthorizedClient net now p m s = (err, ws, s')"
  shows "keeps s s'" "rs_authorizations s' = rs_authorizations s"
    and "(q, m') \<in> set ws \<Longrightarrow> q = p \<and> m' = m \<and> (\<exists>identity. authorized_at now s p identity)"
  using assms
  by (auto simp: writeAuthorizedClient_def authorized_at_def connection_identity_def Store_Get_def
      relay_keeps split: option.splits if_splits)

lemma authorized_at_keeps:
  assumes "keeps s s'" "rs_authorizations s' = rs_authorizations s" "authorized_at now s' q identity"
  shows "authorized_at now s q identity"
  using assms by (auto simp: authorized_at_def keeps_def dest: submapD)

text \<open>What \<open>forwardToClient\<close> writes goes to the identity of the route.\<close>

definition goes_to_route :: "gotime \<Rightarrow> RelayMessage \<Rightarrow> RelayServer \<Rightarrow> writes \<Rightarrow> bool" where
  "goes_to_route now m s ws \<longleftrightarrow>
     (\<forall>(q, m') \<in> set ws. m' = m
        \<and> (\<exists>e. rs_clients s (rm_RequestID m) = Some e \<and> authorized_at now s q (route_identity e)
             \<and> (rm_UserID m \<noteq> [] \<longrightarrow> cl_UserID e = rm_UserID m)
             \<and> (rm_DeviceID m \<noteq> [] \<longrightarrow> cl_DeviceID e = rm_DeviceID m)))"

lemma goes_to_route_append:
  "goes_to_route now m s (ws @ ws') \<longleftrightarrow> goes_to_route now m s ws \<and> goes_to_route now m s ws'"
  by (auto simp: goes_to_route_def)

lemma goes_to_route_keeps:
  assumes "goes_to_route now m s' ws" and k: "keeps s s'" and a: "rs_authorizations s' = rs_authorizations s"
  shows "goes_to_route now m s ws"
proof -
  have "\<exists>e'. rs_clients s r = Some e' \<and> route_identity e' = route_identity e"
    if "rs_clients s' r = Some e" for r e
    using k that by (fastforce simp: keeps_def route_view_def dest: submapD)
  then show ?thesis
    using assms(1) authorized_at_keeps [OF k a]
    unfolding goes_to_route_def route_identity_def by fastforce
qed

lemma write_to_route:
  assumes r: "route_peer env now m s = (Some (e, t), s1)"
    and w: "writeAuthorizedClient net now t m s1 = (err, ws, s2)"
  shows "keeps s s2" "rs_authorizations s2 = rs_authorizations s" "goes_to_route now m s ws"
proof -
  have k: "keeps s s1" and a: "rs_authorizations s1 = rs_authorizations s"
    using keeps_route_peer [of s env now m] authorizations_same(1) [of env now m s] by (simp_all add: r)
  show "keeps s s2" "rs_authorizations s2 = rs_authorizations s"
    using writeAuthorizedClient_writes(1,2) [OF w] k a by (auto intro: keeps_trans)
  obtain c e0 where c: "rs_connections s t = Some c" "connection_identity c = route_identity e"
    "rs_clients s (rm_RequestID m) = Some e0" "route_identity e0 = route_identity e"
    "rm_UserID m \<noteq> [] \<longrightarrow> cl_UserID e = rm_UserID m" "rm_DeviceID m \<noteq> [] \<longrightarrow> cl_DeviceID e = rm_DeviceID m"
    using clientPeerForMessage_route r unfolding route_peer_def by blast
  have at: "authorized_at now s t (route_identity e0)" if "authorized_at now s1 t identity" for identity
    using authorized_at_keeps [OF k a that] c(1,2,4) by (auto simp: authorized_at_def)
  have e0: "cl_UserID e0 = cl_UserID e" "cl_DeviceID e0 = cl_DeviceID e"
    using c(4) by (simp_all add: route_identity_def)
  show "goes_to_route now m s ws"
    unfolding goes_to_route_def
  proof clarify
    fix q m'
    assume "(q, m') \<in> set ws"
    then have "q = t" "m' = m" "\<exists>identity. authorized_at now s1 t identity"
      using writeAuthorizedClient_writes(3) [OF w] by blast+
    with at c(3,5,6) e0 show "m' = m \<and> (\<exists>e. rs_clients s (rm_RequestID m) = Some e
        \<and> authorized_at now s q (route_identity e)
        \<and> (rm_UserID m \<noteq> [] \<longrightarrow> cl_UserID e = rm_UserID m)
        \<and> (rm_DeviceID m \<noteq> [] \<longrightarrow> cl_DeviceID e = rm_DeviceID m))"
      by auto
  qed
qed

lemma forwardToClient_writes:
  assumes f: "forwardToClient env net now m s = (err, ws, s')"
  shows "keeps s s' \<and> goes_to_route now m s ws"
proof (cases "route_peer env now m s")
  case (Pair route s1)
  show ?thesis
  proof (cases route)
    case None
    then show ?thesis
      using f Pair keeps_route_peer [of s env now m] by (auto simp: forwardToClient_def goes_to_route_def)
  next
    case (Some et)
    obtain e t where et: "et = (e, t)" by (cases et)
    obtain err2 ws2 s2 where w: "writeAuthorizedClient net now t m s1 = (err2, ws2, s2)"
      by (metis prod_cases3)
    note first = write_to_route [OF _ w, of env s e]
    have r: "route_peer env now m s = (Some (e, t), s1)" using Pair Some et by simp
    show ?thesis
    proof (cases err2)
      case None
      then show ?thesis
        using f r w first keeps_trans [OF first(1) keeps_release] by (auto simp: forwardToClient_def)
    next
      case (Some e2)
      let ?s3 = "unregisterClientPeer t s2"
      have k3: "keeps s ?s3" using first(1) [OF r] keeps_unregisterClientPeer by (rule keeps_trans)
      have a3: "rs_authorizations ?s3 = rs_authorizations s" using first(2) [OF r] by simp
      obtain route4 s4 where r4: "route_peer env now m ?s3 = (route4, s4)" by (cases "route_peer env now m ?s3")
      show ?thesis
      proof (cases route4)
        case None
        then show ?thesis
          using f r w Some r4 first(3) [OF r] keeps_trans [OF k3, of s4] keeps_route_peer [of ?s3 env now m]
          by (auto simp: forwardToClient_def)
      next
        case (Some et4)
        obtain e4 t4 where et4: "et4 = (e4, t4)" by (cases et4)
        obtain err5 ws5 s5 where w5: "writeAuthorizedClient net now t4 m s4 = (err5, ws5, s5)"
          by (metis prod_cases3)
        have second: "keeps ?s3 s5" "goes_to_route now m ?s3 ws5"
          using write_to_route [OF _ w5, of env ?s3 e4] r4 Some et4 by simp_all
        have k5: "keeps s s5" using k3 second(1) by (rule keeps_trans)
        have g5: "goes_to_route now m s ws5" using goes_to_route_keeps [OF second(2) k3 a3] .
        have k4: "keeps s s4" using k3 keeps_route_peer [of ?s3 env now m] r4 by (auto intro: keeps_trans)
        show ?thesis
          using f r w \<open>err2 = Some e2\<close> r4 Some et4 w5 first(3) [OF r] k4 k5 g5
            keeps_trans [OF k5 keeps_release, of e m]
          by (auto simp: forwardToClient_def goes_to_route_append split: if_splits option.splits)
      qed
    qed
  qed
qed

lemma event_writes_writes:
  assumes "event_writes net now m ps s = (errs, ws, s')"
  shows "keeps s s' \<and> rs_authorizations s' = rs_authorizations s
    \<and> (\<forall>(q, m') \<in> set ws. m' = m \<and> q \<in> set ps \<and> (\<exists>identity. authorized_at now s q identity))"
  using assms
proof (induction ps arbitrary: s errs ws s')
  case (Cons p ps)
  obtain err1 ws1 s1 where w: "writeAuthorizedClient net now p m s = (err1, ws1, s1)"
    by (metis prod_cases3)
  obtain errs2 ws2 s2 where e: "event_writes net now m ps s1 = (errs2, ws2, s2)"
    by (metis prod_cases3)
  note first = writeAuthorizedClient_writes [OF w] and rest = Cons.IH [OF e]
  have "keeps s s2" using first(1) rest by (blast intro: keeps_trans)
  then show ?case
    using Cons.prems w e first rest authorized_at_keeps [OF first(1,2)] by fastforce
qed simp

lemma forwardEventToClients_writes:
  assumes "forwardEventToClients env net now m s = (err, ws, s')"
  shows "keeps s s'"
    and "(q, m') \<in> set ws \<Longrightarrow>
      m' = m \<and> (\<exists>cid. authorized_at now s q (rm_UserID m, rm_DeviceID m, cid))"
proof -
  let ?ps = "getClientConnections (env_order env (rs_connections s)) (rm_UserID m) (rm_DeviceID m) s"
  obtain errs ws0 s0 where e: "event_writes net now m ?ps s = (errs, ws0, s0)" by (metis prod_cases3)
  note facts = event_writes_writes [OF e]
  show "keeps s s'" using assms e facts by (simp add: forwardEventToClients_def)
  have "\<exists>c. rs_connections s q = Some c \<and> cc_UserID c = rm_UserID m \<and> cc_DeviceID c = rm_DeviceID m"
    if "q \<in> set ?ps" for q
    using that by (auto simp: getClientConnections_def split: option.splits)
  then show "(q, m') \<in> set ws \<Longrightarrow>
      m' = m \<and> (\<exists>cid. authorized_at now s q (rm_UserID m, rm_DeviceID m, cid))"
    using assms e facts
    by (fastforce simp: forwardEventToClients_def authorized_at_def connection_identity_def)
qed

end
