(* ===== verification/RelaySecurity.thy ===== *)
theory RelaySecurity
  imports RelayFacts
begin

text \<open>
  The invariant of the relay over the history of its inputs, and its properties: to whom messages
  go, what a revocation ends, and which responses release a route.
\<close>

section \<open>What the history shows\<close>

text \<open>
  A socket presented an identity, the last part of which is the digest of its token; a request was
  made under an identity; a socket was upgraded with the credential of an agent.
\<close>

definition identity_of :: "RelayEnv \<Rightarrow> RelayMessage \<Rightarrow> string \<times> string \<times> string" where
  "identity_of env m = (rm_UserID m, rm_DeviceID m, env_hash env (rm_ClientToken m))"

definition presented :: "RelayEnv \<Rightarrow> relay_input list \<Rightarrow> peer \<Rightarrow> string \<times> string \<times> string \<Rightarrow> bool" where
  "presented env hist q identity \<longleftrightarrow>
     (\<exists>addr now net m. SocketMessage q addr now net m \<in> set hist \<and> identity_of env m = identity)"

definition requested ::
  "RelayEnv \<Rightarrow> relay_input list \<Rightarrow> string \<Rightarrow> MessageType \<Rightarrow> string \<times> string \<times> string \<Rightarrow> bool" where
  "requested env hist requestID mtype identity \<longleftrightarrow>
     (\<exists>q addr now net m. SocketMessage q addr now net m \<in> set hist \<and> rm_RequestID m = requestID
        \<and> rm_Type m = mtype \<and> identity_of env m = identity)"

definition agent_upgraded :: "RelayEnv \<Rightarrow> relay_input list \<Rightarrow> peer \<Rightarrow> string \<times> string \<Rightarrow> bool" where
  "agent_upgraded env hist p identity \<longleftrightarrow>
     (\<exists>user device authorization. AgentUpgrade p user device authorization \<in> set hist
        \<and> authenticateAgentRequest env user device authorization = Some identity)"

lemma history_grows:
  assumes "set hist \<subseteq> set hist'"
  shows "presented env hist q i \<Longrightarrow> presented env hist' q i"
    and "requested env hist r t i \<Longrightarrow> requested env hist' r t i"
    and "agent_upgraded env hist p j \<Longrightarrow> agent_upgraded env hist' p j"
  using assms unfolding presented_def requested_def agent_upgraded_def by blast+

section \<open>Invariant of the registry\<close>

definition revoked :: "RelayServer \<Rightarrow> string \<Rightarrow> bool" where
  "revoked s cid \<longleftrightarrow> (case rs_authorizations s cid of None \<Rightarrow> False | Some a \<Rightarrow> ca_RevokedAt a \<noteq> None)"

definition map_all :: "('k \<Rightarrow> 'v \<Rightarrow> bool) \<Rightarrow> ('k \<Rightarrow> 'v option) \<Rightarrow> bool" where
  "map_all P m \<longleftrightarrow> (\<forall>k v. m k = Some v \<longrightarrow> P k v)"

lemma map_allD: "map_all P m \<Longrightarrow> m k = Some v \<Longrightarrow> P k v"
  by (simp add: map_all_def)

lemma map_all_upd: "map_all P m \<Longrightarrow> P k v \<Longrightarrow> map_all P (m(k \<mapsto> v))"
  by (simp add: map_all_def)

lemma map_all_mono: "map_all P m \<Longrightarrow> (\<And>k v. P k v \<Longrightarrow> Q k v) \<Longrightarrow> map_all Q m"
  by (simp add: map_all_def)

lemma map_all_submap: "map_all (\<lambda>k v. P k (f v)) m \<Longrightarrow> submap f m m' \<Longrightarrow> map_all (\<lambda>k v. P k (f v)) m'"
  unfolding map_all_def submap_def by metis

text \<open>The identities of connections, routes and agents satisfy the three predicates.\<close>

definition conn_fact :: "(peer \<Rightarrow> string \<times> string \<times> string \<Rightarrow> bool) \<Rightarrow> (string \<Rightarrow> bool)
     \<Rightarrow> peer \<Rightarrow> string \<times> string \<times> string \<Rightarrow> bool" where
  "conn_fact conn_ok rv q i \<longleftrightarrow> conn_ok q i \<and> \<not> rv (snd (snd i))"

definition route_fact :: "(string \<Rightarrow> MessageType \<Rightarrow> string \<times> string \<times> string \<Rightarrow> bool) \<Rightarrow> (string \<Rightarrow> bool)
     \<Rightarrow> string \<Rightarrow> string \<times> MessageType \<times> string \<times> string \<times> string \<Rightarrow> bool" where
  "route_fact route_ok rv r v \<longleftrightarrow>
     (case v of (requestID, mtype, i) \<Rightarrow> requestID = r \<and> route_ok r mtype i \<and> \<not> rv (snd (snd i)))"

definition agent_fact :: "(peer \<Rightarrow> string \<times> string \<Rightarrow> bool) \<Rightarrow> string \<Rightarrow> string \<times> string \<times> peer \<Rightarrow> bool" where
  "agent_fact agent_ok k v \<longleftrightarrow> (case v of (u, d, p) \<Rightarrow> agentKey u d = k \<and> agent_ok p (u, d))"

definition server_inv ::
  "(peer \<Rightarrow> string \<times> string \<times> string \<Rightarrow> bool) \<Rightarrow> (string \<Rightarrow> MessageType \<Rightarrow> string \<times> string \<times> string \<Rightarrow> bool)
     \<Rightarrow> (peer \<Rightarrow> string \<times> string \<Rightarrow> bool) \<Rightarrow> RelayServer \<Rightarrow> bool" where
  "server_inv conn_ok route_ok agent_ok s \<longleftrightarrow>
     map_all (\<lambda>q c. conn_fact conn_ok (revoked s) q (connection_identity c)) (rs_connections s)
     \<and> map_all (\<lambda>r e. route_fact route_ok (revoked s) r (route_view e)) (rs_clients s)
     \<and> map_all (\<lambda>k a. agent_fact agent_ok k (agent_view a)) (rs_agents s)"

lemma server_inv_mono:
  assumes "server_inv c r a s"
    and "\<And>q i. c q i \<Longrightarrow> c' q i" "\<And>k t i. r k t i \<Longrightarrow> r' k t i" "\<And>p j. a p j \<Longrightarrow> a' p j"
  shows "server_inv c' r' a' s"
proof -
  have "conn_fact c rv q i \<Longrightarrow> conn_fact c' rv q i" for rv q i
    using assms(2) by (simp add: conn_fact_def)
  moreover have "route_fact r rv k v \<Longrightarrow> route_fact r' rv k v" for rv k v
    using assms(3) by (cases v) (simp add: route_fact_def)
  moreover have "agent_fact a k v \<Longrightarrow> agent_fact a' k v" for k v
    using assms(4) by (cases v) (simp add: agent_fact_def)
  ultimately show ?thesis using assms(1) unfolding server_inv_def by (blast intro: map_all_mono)
qed

lemma revoked_auth_view: "auth_view s' = auth_view s \<Longrightarrow> revoked s' = revoked s"
proof -
  have "revoked s cid \<longleftrightarrow> (case auth_view s cid of None \<Rightarrow> False | Some a \<Rightarrow> ca_RevokedAt a \<noteq> None)" for s cid
    by (auto simp: revoked_def auth_view_def split: option.splits)
  then show "auth_view s' = auth_view s \<Longrightarrow> revoked s' = revoked s" by (simp add: fun_eq_iff)
qed

lemma server_inv_keeps:
  assumes inv: "server_inv conn_ok route_ok agent_ok s" and k: "keeps s s'"
  shows "server_inv conn_ok route_ok agent_ok s'"
proof -
  have rv: "revoked s' = revoked s"
    by (rule revoked_auth_view) (use k in \<open>simp add: keeps_def\<close>)
  show ?thesis
    unfolding server_inv_def rv
  proof (intro conjI)
    show "map_all (\<lambda>q c. conn_fact conn_ok (revoked s) q (connection_identity c)) (rs_connections s')"
      by (rule map_all_submap [where P = "conn_fact conn_ok (revoked s)" and f = connection_identity and m = "rs_connections s"])
        (use inv k in \<open>simp_all add: server_inv_def keeps_def\<close>)
    show "map_all (\<lambda>r e. route_fact route_ok (revoked s) r (route_view e)) (rs_clients s')"
      by (rule map_all_submap [where P = "route_fact route_ok (revoked s)" and f = route_view and m = "rs_clients s"])
        (use inv k in \<open>simp_all add: server_inv_def keeps_def\<close>)
    show "map_all (\<lambda>k a. agent_fact agent_ok k (agent_view a)) (rs_agents s')"
      by (rule map_all_submap [where P = "agent_fact agent_ok" and f = agent_view and m = "rs_agents s"])
        (use inv k in \<open>simp_all add: server_inv_def keeps_def\<close>)
  qed
qed

lemma server_inv_connection:
  assumes "server_inv conn_ok route_ok agent_ok s" "conn_ok p (u, d, hash t)" "\<not> revoked s (hash t)"
  shows "server_inv conn_ok route_ok agent_ok (registerClientConnection hash p u d t addr now s)"
proof -
  let ?s = "registerClientConnection hash p u d t addr now s"
  have "revoked ?s = revoked s" by (simp add: revoked_def registerClientConnection_def fun_eq_iff)
  with assms show ?thesis
    by (auto simp: server_inv_def registerClientConnection_def connection_identity_def conn_fact_def
        intro!: map_all_upd)
qed

lemma server_inv_route:
  assumes inv: "server_inv conn_ok route_ok agent_ok s"
    and ok: "route_ok r mtype (u, d, hash t)" "\<not> revoked s (hash t)"
  shows "server_inv conn_ok route_ok agent_ok (snd (registerClient hash r mtype p u d t addr now s))"
proof -
  let ?pruned = "pruneExpiredClientRoutesLocked now s" and ?s = "snd (registerClient hash r mtype p u d t addr now s)"
  have inv': "server_inv conn_ok route_ok agent_ok ?pruned" by (rule server_inv_keeps [OF inv keeps_prune])
  have rv: "revoked ?pruned = revoked s" "revoked ?s = revoked s"
    by (auto simp: revoked_def registerClient_def pruneExpiredClientRoutesLocked_def Let_def fun_eq_iff
        split: option.splits)
  have "route_fact route_ok (revoked s) r (route_view e)" if "rs_clients ?pruned r = Some e" for e
    using inv' that rv by (auto simp: server_inv_def dest: map_allD)
  with inv inv' ok show ?thesis
    unfolding server_inv_def rv
    by (auto simp: registerClient_def Let_def route_view_def route_identity_def route_fact_def
        intro!: map_all_upd split: option.splits)
qed

lemma server_inv_agent:
  assumes "server_inv conn_ok route_ok agent_ok s" "agent_ok p (u, d)"
  shows "server_inv conn_ok route_ok agent_ok (snd (registerAgent p u d code addr now s))"
proof -
  let ?s = "snd (registerAgent p u d code addr now s)"
  have "revoked ?s = revoked s"
    by (auto simp: revoked_def registerAgent_def Let_def fun_eq_iff split: option.splits prod.splits)
  with assms show ?thesis
    unfolding server_inv_def
    by (auto simp: registerAgent_def Let_def agent_view_def agent_fact_def intro!: map_all_upd
        split: option.splits prod.splits)
qed

lemma server_inv_fewer_revoked:
  assumes "server_inv conn_ok route_ok agent_ok s" "\<And>cid. revoked s' cid \<Longrightarrow> revoked s cid"
    and "rs_connections s' = rs_connections s" "rs_clients s' = rs_clients s" "rs_agents s' = rs_agents s"
  shows "server_inv conn_ok route_ok agent_ok s'"
proof -
  have "conn_fact conn_ok (revoked s) q i \<Longrightarrow> conn_fact conn_ok (revoked s') q i" for q i
    using assms(2) by (auto simp: conn_fact_def)
  moreover have "route_fact route_ok (revoked s) r v \<Longrightarrow> route_fact route_ok (revoked s') r v" for r v
    using assms(2) by (cases v) (auto simp: route_fact_def)
  ultimately show ?thesis
    using assms(1) unfolding server_inv_def assms(3-5) by (blast intro: map_all_mono)
qed

lemma server_inv_pair:
  assumes "server_inv conn_ok route_ok agent_ok s"
  shows "server_inv conn_ok route_ok agent_ok (handlePair env code name addr token now s)"
proof (rule server_inv_fewer_revoked [OF assms])
  show "revoked (handlePair env code name addr token now s) cid \<Longrightarrow> revoked s cid" for cid
    by (auto simp: revoked_def handlePair_def authorizeClient_def Store_Save_def Let_def
        split: option.splits if_splits)
qed (auto simp: handlePair_def authorizeClient_def Store_Save_def Let_def split: option.splits)

lemma server_inv_revoke:
  assumes "server_inv conn_ok route_ok agent_ok s"
  shows "server_inv conn_ok route_ok agent_ok (snd (revokeClientAuthorization cid u d now s))"
proof -
  let ?s = "snd (revokeClientAuthorization cid u d now s)"
  consider "?s = s"
    | a where "rs_authorizations s cid = Some a"
        "?s = invalidateClientAuthorization cid (s\<lparr>rs_authorizations :=
           (rs_authorizations s)(cid \<mapsto> a\<lparr>ca_RevokedAt := Some now\<rparr>)\<rparr>)"
  proof (cases "\<exists>a. cid \<noteq> [] \<and> rs_authorizations s cid = Some a \<and> ca_UserID a = u \<and> ca_DeviceID a = d")
    case True
    then show thesis using that(2) by (auto simp: revokeClientAuthorization_def Store_Get_def Store_Revoke_def)
  next
    case False
    then have "?s = s"
      by (auto simp: revokeClientAuthorization_def Store_Get_def split: option.split)
    then show thesis by (rule that(1))
  qed
  then show ?thesis
  proof cases
    case (2 a)
    have "revoked ?s k \<longleftrightarrow> revoked s k \<or> k = cid" for k
      by (auto simp: 2 revoked_def)
    with assms show ?thesis
      by (auto simp: 2(2) server_inv_def map_all_def conn_fact_def route_fact_def route_view_def
          route_identity_def connection_identity_def invalidateClientAuthorization_def
          split: option.splits if_splits)
  qed (use assms in simp)
qed

lemma validated_token:
  assumes "validateClientToken hash u d t now s = (True, s')"
  shows "u \<noteq> [] \<and> d \<noteq> [] \<and> t \<noteq> [] \<and> \<not> revoked s (hash t)
    \<and> (\<exists>a. rs_authorizations s (hash t) = Some a \<and> ca_UserID a = u \<and> ca_DeviceID a = d \<and> ActiveAt a now)"
  using assms
  by (auto simp: validateClientToken_def Store_Get_def revoked_def ActiveAt_def split: option.splits if_splits)

lemma revoked_keeps: "keeps s s' \<Longrightarrow> revoked s' = revoked s"
  by (rule revoked_auth_view) (simp add: keeps_def)

lemma agents_same [simp]:
  "rs_agents (snd (validateClientToken hash u d t now s)) = rs_agents s"
  "rs_agents (registerClientConnection hash p u d t addr now s) = rs_agents s"
  "rs_agents (snd (registerClient hash r mtype p u d t addr now s)) = rs_agents s"
  "rs_agents (snd (rebindClientRequest hash r u d t p now s)) = rs_agents s"
  by (auto simp: validateClientToken_def Store_Touch_def registerClientConnection_def registerClient_def
      rebindClientRequest_def pruneExpiredClientRoutesLocked_def Let_def split: option.splits)

text \<open>What a message of a client does to the registry, and the one write it may cause.\<close>

lemma handleClientMessage_inv:
  assumes inv: "server_inv conn_ok route_ok agent_ok s"
    and ok: "conn_ok p (identity_of env m)" "route_ok (rm_RequestID m) (rm_Type m) (identity_of env m)"
    and h: "handleClientMessage env net now p addr m s = (err, ws, s')"
  shows "server_inv conn_ok route_ok agent_ok s'"
proof -
  let ?v = "validateClientToken (env_hash env) (rm_UserID m) (rm_DeviceID m) (rm_ClientToken m) now s"
  let ?conn = "\<lambda>s. registerClientConnection (env_hash env) p (rm_UserID m) (rm_DeviceID m) (rm_ClientToken m) addr now s"
  let ?route = "\<lambda>s. snd (registerClient (env_hash env) (rm_RequestID m) (rm_Type m) p (rm_UserID m) (rm_DeviceID m)
      (rm_ClientToken m) addr now s)"
  let ?bind = "\<lambda>s. snd (rebindClientRequest (env_hash env) (rm_RequestID m) (rm_UserID m) (rm_DeviceID m)
      (rm_ClientToken m) p now s)"
  let ?inv = "server_inv conn_ok route_ok agent_ok"
  have k: "keeps s (snd ?v)" by (rule keeps_validate)
  note inv1 = server_inv_keeps [OF inv k]
  have nr: "\<not> revoked (snd ?v) (env_hash env (rm_ClientToken m))" if "fst ?v"
    using validated_token [of "env_hash env" "rm_UserID m" "rm_DeviceID m" "rm_ClientToken m" now s "snd ?v"] that
    by (simp add: revoked_keeps [OF k] prod_eq_iff)
  have rv: "revoked (?route s2) = revoked s2" for s2
    by (auto simp: revoked_def registerClient_def pruneExpiredClientRoutesLocked_def Let_def fun_eq_iff
        split: option.splits)
  have conn: "?inv (?conn s2)" if "?inv s2" "revoked s2 = revoked (snd ?v)" "fst ?v" for s2
    by (rule server_inv_connection) (use ok(1) nr that in \<open>simp_all add: identity_of_def\<close>)
  have route: "?inv (?route (snd ?v))" if "fst ?v"
    by (rule server_inv_route) (use inv1 ok(2) nr that in \<open>simp_all add: identity_of_def\<close>)
  have outcomes:
    "fst ?v \<Longrightarrow> ?inv (?bind (?conn (snd ?v)))" "fst ?v \<Longrightarrow> ?inv (?conn (?route (snd ?v)))"
    "fst ?v \<Longrightarrow> ?inv (touchClientPeer p now (?conn (snd ?v)))" "?inv (touchClient (rm_RequestID m) now s)"
    using conn [OF inv1 refl] conn [OF route rv] server_inv_keeps [OF _ keeps_rebind]
      server_inv_keeps [OF _ keeps_touchClientPeer] server_inv_keeps [OF inv keeps_touchClient]
    by blast+
  show ?thesis
    using h inv inv1 route outcomes
    by (simp add: handleClientMessage_def Let_def split_beta split: if_splits)
qed

lemma handleClientMessage_writes:
  assumes h: "handleClientMessage env net now p addr m s = (err, ws, s')" and w: "(q, m') \<in> set ws"
  shows "m' = m \<and> (\<exists>agent. rs_agents s (agentKey (rm_UserID m) (rm_DeviceID m)) = Some agent \<and> ae_peer agent = q)
    \<and> (\<exists>s1. validateClientToken (env_hash env) (rm_UserID m) (rm_DeviceID m) (rm_ClientToken m) now s = (True, s1))"
proof -
  have f: "m' = m \<and> (\<exists>agent. rs_agents s2 (agentKey (rm_UserID m) (rm_DeviceID m)) = Some agent \<and> ae_peer agent = q)"
    if "(q, m') \<in> set (snd (forwardToAgent net m s2))" for s2
    using that by (auto simp: forwardToAgent_def getAgent_def split: option.splits if_splits)
  show ?thesis
    using h w by (auto simp: handleClientMessage_def Let_def split_beta prod_eq_iff dest!: f split: if_splits)
qed

section \<open>Messages of an agent\<close>

lemma handleAgentMessage_step:
  assumes inv: "server_inv conn_ok route_ok agent_ok s" and ok: "agent_ok p authenticated"
    and reg: "registered = ([], []) \<or> registered = authenticated"
    and h: "handleAgentMessage env net now p addr m authenticated registered s = (err, registered', ws, s')"
  shows "server_inv conn_ok route_ok agent_ok s' \<and> (registered' = ([], []) \<or> registered' = authenticated)"
proof -
  let ?inv = "server_inv conn_ok route_ok agent_ok"
  have online: "?inv s' \<and> (registered' = ([], []) \<or> registered' = authenticated)"
    if "agent_online env now p addr m authenticated registered s = (err, registered', ws, s')"
    using that inv reg ok server_inv_agent [OF inv, of p "rm_UserID m" "rm_DeviceID m"]
    by (auto simp: agent_online_def Let_def split: sum.splits if_splits)
  have keep: "?inv s'" if "keeps s s'" using server_inv_keeps [OF inv that] .
  have ev: "keeps s s''" if "forwardEventToClients env net now m s = (e, w, s'')" for e w s''
    using forwardEventToClients_writes(1) [OF that] .
  have fw: "keeps s s''" if "forwardToClient env net now m s = (e, w, s'')" for e w s''
    using forwardToClient_writes [OF that] by simp
  show ?thesis
    using h reg online keep ev fw inv keeps_touchAgent keeps_unregisterAgent
    by (auto simp: handleAgentMessage_def Let_def split: if_splits prod.splits)
qed

lemma handleAgentMessage_writes:
  assumes h: "handleAgentMessage env net now p addr m authenticated registered s = (err, registered', ws, s')"
    and reg: "registered = ([], []) \<or> registered = authenticated" and w: "(q, m') \<in> set ws"
  shows "m' = m \<and> (rm_UserID m, rm_DeviceID m) = authenticated
    \<and> (\<exists>cid. authorized_at now s q (rm_UserID m, rm_DeviceID m, cid)
         \<and> (rm_Type m \<in> set agent_events \<or>
            (\<exists>e. rs_clients s (rm_RequestID m) = Some e \<and> route_identity e = (rm_UserID m, rm_DeviceID m, cid))))"
proof -
  have id: "fst registered \<noteq> [] \<and> snd registered \<noteq> [] \<and> (rm_UserID m, rm_DeviceID m) = registered
      \<and> ((\<exists>e s1. rm_Type m \<in> set agent_events \<and> forwardEventToClients env net now m s = (e, ws, s1))
         \<or> (\<exists>e s1. forwardToClient env net now m s = (e, ws, s1)))"
    using h w by (auto simp: handleAgentMessage_def agent_online_def Let_def
        split: if_splits prod.splits sum.splits)
  then have "registered = authenticated" using reg by auto
  moreover have "m' = m \<and> (\<exists>cid. authorized_at now s q (rm_UserID m, rm_DeviceID m, cid))"
    if "forwardEventToClients env net now m s = (e, ws, s1)" for e s1
    using forwardEventToClients_writes(2) [OF that w] .
  moreover have "m' = m \<and> (\<exists>cid e. authorized_at now s q (rm_UserID m, rm_DeviceID m, cid)
      \<and> rs_clients s (rm_RequestID m) = Some e \<and> route_identity e = (rm_UserID m, rm_DeviceID m, cid))"
    if "forwardToClient env net now m s = (e, ws, s1)" for e s1
    using forwardToClient_writes [OF that] w id unfolding goes_to_route_def
    by (fastforce simp: route_identity_def)
  ultimately show ?thesis using id by blast
qed

section \<open>The invariant over all histories\<close>

definition socket_ok :: "RelayEnv \<Rightarrow> relay_input list \<Rightarrow> peer \<Rightarrow> socket \<Rightarrow> bool" where
  "socket_ok env hist p k \<longleftrightarrow>
     (case k of
        AgentSocket authenticated registered \<Rightarrow>
          agent_upgraded env hist p authenticated \<and> (registered = ([], []) \<or> registered = authenticated)
      | _ \<Rightarrow> True)"

abbreviation sockets_ok :: "RelayEnv \<Rightarrow> relay_input list \<Rightarrow> (peer \<Rightarrow> socket option) \<Rightarrow> bool" where
  "sockets_ok env hist \<equiv> map_all (socket_ok env hist)"

lemma sockets_okD:
  "sockets_ok env hist sockets \<Longrightarrow> sockets p = Some (AgentSocket authenticated registered) \<Longrightarrow>
     agent_upgraded env hist p authenticated \<and> (registered = ([], []) \<or> registered = authenticated)"
  by (drule (1) map_allD) (simp add: socket_ok_def)

lemma sockets_ok_upd:
  assumes "sockets_ok env hist sockets"
  shows "agent_upgraded env hist p authenticated \<Longrightarrow> registered = ([], []) \<or> registered = authenticated \<Longrightarrow>
      sockets_ok env hist (sockets(p \<mapsto> AgentSocket authenticated registered))"
    and "sockets_ok env hist (sockets(p \<mapsto> ClientSocket))"
    and "sockets_ok env hist (sockets(p \<mapsto> ClosedSocket))"
  using assms by (auto intro!: map_all_upd simp: socket_ok_def)

definition relay_inv :: "RelayEnv \<Rightarrow> relay_input list \<Rightarrow> Relay \<Rightarrow> bool" where
  "relay_inv env hist r \<longleftrightarrow>
     server_inv (presented env hist) (requested env hist) (agent_upgraded env hist) (ry_server r)
     \<and> sockets_ok env hist (ry_sockets r)"

fun history_step :: "RelayEnv \<Rightarrow> relay_input list \<times> Relay \<Rightarrow> relay_input \<Rightarrow> relay_input list \<times> Relay" where
  "history_step env (hist, r) i = (hist @ [i], fst (relay_step env r i))"

lemma relay_inv_server:
  assumes "relay_inv env hist r" "server_inv (presented env hist) (requested env hist) (agent_upgraded env hist) s"
  shows "relay_inv env hist (r\<lparr>ry_server := s\<rparr>)"
  using assms by (simp add: relay_inv_def)

lemma relay_inv_history:
  assumes "relay_inv env hist r"
  shows "relay_inv env (hist @ [i]) r"
proof -
  have "set hist \<subseteq> set (hist @ [i])" by auto
  note grows = history_grows [OF this, of env]
  have "sockets_ok env (hist @ [i]) (ry_sockets r)"
    by (rule map_all_mono [of "socket_ok env hist"])
      (use assms grows(3) in \<open>auto simp: relay_inv_def socket_ok_def split: socket.splits\<close>)
  moreover have "server_inv (presented env (hist @ [i])) (requested env (hist @ [i]))
      (agent_upgraded env (hist @ [i])) (ry_server r)"
    by (rule server_inv_mono [of "presented env hist" "requested env hist" "agent_upgraded env hist"])
      (use assms grows in \<open>auto simp: relay_inv_def\<close>)
  ultimately show ?thesis by (simp add: relay_inv_def)
qed

lemma relay_inv_message:
  assumes inv: "relay_inv env hist r" and i: "SocketMessage p addr now net m \<in> set hist"
  shows "relay_inv env hist (fst (relay_step env r (SocketMessage p addr now net m)))"
proof (cases "ry_sockets r p")
  case (Some k)
  have pr: "presented env hist p (identity_of env m)"
    "requested env hist (rm_RequestID m) (rm_Type m) (identity_of env m)"
    using i unfolding presented_def requested_def by blast+
  show ?thesis
  proof (cases k)
    case (AgentSocket authenticated registered)
    obtain err registered' ws s' where h: "handleAgentMessage env net now p addr m authenticated registered (ry_server r)
        = (err, registered', ws, s')" by (metis prod_cases4)
    show ?thesis
      using inv handleAgentMessage_step [OF _ _ _ h, of "presented env hist" "requested env hist" "agent_upgraded env hist"]
        sockets_okD [of env hist "ry_sockets r" p authenticated registered] Some AgentSocket h
      by (simp add: relay_inv_def sockets_ok_upd)
  next
    case ClientSocket
    obtain err ws s' where h: "handleClientMessage env net now p addr m (ry_server r) = (err, ws, s')"
      by (metis prod_cases3)
    show ?thesis
      using inv handleClientMessage_inv [where conn_ok = "presented env hist" and route_ok = "requested env hist"
          and agent_ok = "agent_upgraded env hist", OF _ pr h] Some ClientSocket h
      by (simp add: relay_inv_def)
  qed (use inv Some in simp)
qed (use inv in simp)

lemma relay_inv_step:
  assumes inv: "relay_inv env hist r"
  shows "relay_inv env (hist @ [i]) (fst (relay_step env r i))"
proof -
  note inv' = relay_inv_history [OF inv, of i]
  let ?inv = "server_inv (presented env (hist @ [i])) (requested env (hist @ [i])) (agent_upgraded env (hist @ [i]))"
  have s: "?inv (ry_server r)" using inv' by (simp add: relay_inv_def)
  show ?thesis
  proof (cases i)
    case (AgentUpgrade p user device authorization)
    then have "agent_upgraded env (hist @ [i]) p identity"
      if "authenticateAgentRequest env user device authorization = Some identity" for identity
      using that by (auto simp: agent_upgraded_def)
    then show ?thesis
      using inv' AgentUpgrade by (auto simp: relay_inv_def sockets_ok_upd split: option.splits)
  next
    case (ClientUpgrade p)
    then show ?thesis using inv' by (auto simp: relay_inv_def sockets_ok_upd split: option.splits)
  next
    case (SocketMessage p addr now net m)
    then show ?thesis using relay_inv_message [OF inv'] by simp
  next
    case (SocketClosed p)
    then show ?thesis
      using inv' server_inv_keeps [OF s keeps_unregisterAgent] server_inv_keeps [OF s keeps_unregisterClientPeer]
      by (auto simp: relay_inv_def sockets_ok_upd split: option.splits socket.splits)
  next
    case (PairRequest code name addr token now)
    then show ?thesis using relay_inv_server [OF inv' server_inv_pair [OF s]] by simp
  next
    case (RevokeRequest authID userID deviceID token now)
    have "?inv (snd (handleRevokeAuthorization env authID userID deviceID token now (ry_server r)))"
      using s server_inv_keeps [OF s keeps_validate] server_inv_revoke
      by (auto simp: handleRevokeAuthorization_def Let_def split_beta)
    then show ?thesis using relay_inv_server [OF inv'] RevokeRequest by simp
  qed
qed

interpretation relay: op_machine "history_step env" "\<lambda>(hist, r). relay_inv env hist r" for env
  by unfold_locales (auto simp: relay_inv_step)

lemma history_run: "run_ops (history_step env) (hist, r) inputs
    = (hist @ inputs, run_ops (\<lambda>r i. fst (relay_step env r i)) r inputs)"
  by (induction inputs arbitrary: hist r) simp_all

lemma relay_inv_after: "relay_inv env inputs (relay_after env inputs)"
proof -
  have "relay_inv env [] initial_relay"
    by (simp add: relay_inv_def initial_relay_def NewServer_def server_inv_def map_all_def)
  then show ?thesis
    using relay.run_inv [of env "([], initial_relay)" inputs] by (simp add: history_run relay_after_def)
qed

section \<open>Revocation and release\<close>

lemma revoked_same [simp]:
  "revoked (registerClientConnection hash p u d t addr now s) = revoked s"
  "revoked (snd (registerClient hash r mtype p u d t addr now s)) = revoked s"
  "revoked (snd (registerAgent p u d code addr now s)) = revoked s"
  "revoked (snd (rebindClientRequest hash r u d t p now s)) = revoked s"
  "revoked (touchClient r now s) = revoked s"
  "revoked (touchClientPeer p now s) = revoked s"
  "revoked (unregisterClientPeer p s) = revoked s"
  "revoked (unregisterAgent p u d s) = revoked s"
  "revoked (touchAgent u d now s) = revoked s"
  "revoked (snd (validateClientToken hash u d t now s)) = revoked s"
proof -
  show "revoked (registerClientConnection hash p u d t addr now s) = revoked s"
    by (simp add: revoked_def registerClientConnection_def fun_eq_iff)
  show "revoked (snd (registerClient hash r mtype p u d t addr now s)) = revoked s"
    by (auto simp: revoked_def registerClient_def pruneExpiredClientRoutesLocked_def Let_def fun_eq_iff
        split: option.splits)
  show "revoked (snd (registerAgent p u d code addr now s)) = revoked s"
    by (auto simp: revoked_def registerAgent_def Let_def fun_eq_iff split: option.splits prod.splits)
qed (rule revoked_keeps, rule relay_keeps)+

lemma handleClientMessage_revoked:
  "handleClientMessage env net now p addr m s = (err, ws, s') \<Longrightarrow> revoked s' = revoked s"
  by (auto simp: handleClientMessage_def Let_def split_beta split: if_splits)

lemma handleAgentMessage_revoked:
  assumes "handleAgentMessage env net now p addr m authenticated registered s = (err, registered', ws, s')"
  shows "revoked s' = revoked s"
proof -
  have "revoked s'' = revoked s" if "agent_online env now p addr m authenticated registered s = (e, r, w, s'')"
    for e r w s'' using that by (auto simp: agent_online_def Let_def split: sum.splits if_splits)
  moreover have "revoked s'' = revoked s" if "forwardEventToClients env net now m s = (e, w, s'')" for e w s''
    using forwardEventToClients_writes(1) [OF that] by (rule revoked_keeps)
  moreover have "revoked s'' = revoked s" if "forwardToClient env net now m s = (e, w, s'')" for e w s''
    using forwardToClient_writes [OF that] by (blast intro: revoked_keeps)
  ultimately show ?thesis
    using assms by (auto simp: handleAgentMessage_def Let_def split: if_splits prod.splits)
qed

text \<open>An input that mints a token with this digest, which a random token does not.\<close>

definition mints :: "RelayEnv \<Rightarrow> string \<Rightarrow> relay_input \<Rightarrow> bool" where
  "mints env cid i \<longleftrightarrow>
     (case i of PairRequest _ _ _ (Some token) _ \<Rightarrow> env_hash env token = cid | _ \<Rightarrow> False)"

lemma revoked_revoke: "revoked s cid \<Longrightarrow> revoked (snd (revokeClientAuthorization k u d now s)) cid"
  by (auto simp: revokeClientAuthorization_def Store_Get_def Store_Revoke_def revoked_def
      split: option.splits if_splits)

lemma revoked_step:
  assumes "revoked (ry_server r) cid" "\<not> mints env cid i"
  shows "revoked (ry_server (fst (relay_step env r i))) cid"
proof (cases i)
  case (SocketMessage p addr now net m)
  with assms(1) show ?thesis
    by (auto split: option.splits socket.splits prod.splits
        dest: handleAgentMessage_revoked handleClientMessage_revoked)
next
  case (PairRequest code name addr token now)
  with assms show ?thesis
    by (auto simp: mints_def handlePair_def authorizeClient_def Store_Save_def Let_def revoked_def
        split: option.splits)
next
  case (RevokeRequest authID u d token now)
  with assms(1) show ?thesis
    by (auto simp: handleRevokeAuthorization_def Let_def split_beta intro: revoked_revoke)
qed (use assms(1) in \<open>auto split: option.splits socket.splits\<close>)

lemma revoked_run:
  assumes "revoked (ry_server r) cid" "list_all (\<lambda>i. \<not> mints env cid i) inputs"
  shows "revoked (ry_server (run_ops (\<lambda>r i. fst (relay_step env r i)) r inputs)) cid"
  using assms by (induction inputs arbitrary: r) (simp_all add: revoked_step)

lemma revocation_recorded:
  assumes "fst (handleRevokeAuthorization env authID u d token now s)"
  shows "revoked (snd (handleRevokeAuthorization env authID u d token now s)) (TrimSpace authID)"
  using assms
  by (auto simp: handleRevokeAuthorization_def revokeClientAuthorization_def Store_Get_def Store_Revoke_def
      revoked_def Let_def split_beta split: option.splits if_splits)

lemma agentKey_inject:
  assumes "agentKey u d = agentKey u' d'" "CHR ''/'' \<notin> set u" "CHR ''/'' \<notin> set u'"
  shows "u = u' \<and> d = d'"
proof -
  have "takeWhile (\<lambda>c. c \<noteq> CHR ''/'') (agentKey v e) = v" if "CHR ''/'' \<notin> set v" for v e
    using that by (induction v) (auto simp: agentKey_def)
  from this [OF assms(2), of d] this [OF assms(3), of d'] assms(1) have "u = u'" by simp
  then show ?thesis using assms(1) by (simp add: agentKey_def)
qed

lemma writeAuthorizedClient_ok:
  "writeAuthorizedClient net now p m s = (None, ws, s') \<Longrightarrow> s' = s \<and> ws = [(p, m)] \<and> net p m = None"
  by (auto simp: writeAuthorizedClient_def split: option.splits if_splits)

text \<open>A response that was delivered releases its route exactly if it ends the request.\<close>

lemma release_route_iff:
  assumes "rs_clients s (rm_RequestID m) = Some e" "rm_RequestID m \<noteq> []"
  shows "rs_clients (release_route client m s) (rm_RequestID m) = None
    \<longleftrightarrow> isTerminalResponseForRequest (cl_RequestType client) (rm_Type m)"
  using assms by (simp add: release_route_def unregisterClient_def)

lemma forwardToClient_releases:
  assumes f: "forwardToClient env net now m s = (None, ws, s')"
  shows "\<exists>e q. rs_clients s (rm_RequestID m) = Some e \<and> (q, m) \<in> set ws \<and> net q m = None
    \<and> (rs_clients s' (rm_RequestID m) = None
         \<longleftrightarrow> isTerminalResponseForRequest (cl_RequestType e) (rm_Type m))"
proof -
  obtain e t s1 where r: "route_peer env now m s = (Some (e, t), s1)"
    using f by (auto simp: forwardToClient_def split: prod.splits option.splits)
  from clientPeerForMessage_route r obtain e0 where e0: "rs_clients s (rm_RequestID m) = Some e0"
    "cl_RequestType e0 = cl_RequestType e" "rm_RequestID m \<noteq> []" "rs_clients s1 (rm_RequestID m) = Some e"
    unfolding route_peer_def by blast
  obtain err ws2 s2 where w: "writeAuthorizedClient net now t m s1 = (err, ws2, s2)" by (metis prod_cases3)
  show ?thesis
  proof (cases err)
    case None
    with w have "s2 = s1" "ws2 = [(t, m)]" "net t m = None" by (auto dest: writeAuthorizedClient_ok)
    then show ?thesis
      using f r w None e0 release_route_iff [OF e0(4,3), of e] by (auto simp: forwardToClient_def)
  next
    case (Some e2)
    obtain e4 t4 s4 where r4: "route_peer env now m (unregisterClientPeer t s2) = (Some (e4, t4), s4)"
      using f r w Some by (auto simp: forwardToClient_def split: prod.splits option.splits)
    then have e4: "rs_clients s4 (rm_RequestID m) = Some e4"
      using clientPeerForMessage_route unfolding route_peer_def by blast
    obtain err5 ws5 s5 where w5: "writeAuthorizedClient net now t4 m s4 = (err5, ws5, s5)" by (metis prod_cases3)
    have n: "err5 = None" "ws = ws2 @ ws5" "s' = release_route e m s5"
      using f r w Some r4 w5 by (auto simp: forwardToClient_def split: if_splits option.splits)
    then have "s5 = s4" "ws5 = [(t4, m)]" "net t4 m = None"
      using w5 by (auto dest: writeAuthorizedClient_ok)
    then show ?thesis
      using n e0 release_route_iff [OF e4 e0(3), of e] by auto
  qed
qed

section \<open>Properties\<close>

text \<open>A relay with one agent, paired with one phone that has sent a message.\<close>

definition sample_env :: RelayEnv where
  "sample_env = \<lparr>env_hash = (\<lambda>t. CHR ''#'' # t),
     env_credentials = [agentKey ''ann'' ''pc'' \<mapsto> ''key'', agentKey ''bob'' ''pc'' \<mapsto> ''lock''],
     env_BindCode = Inr, env_order = (\<lambda>conns. filter (\<lambda>p. conns p \<noteq> None) [0, 2])\<rparr>"

lemma sample_env_sel [simp]:
  "env_hash sample_env t = CHR ''#'' # t" "env_BindCode sample_env = Inr"
  "env_order sample_env conns = filter (\<lambda>p. conns p \<noteq> None) [0, 2]"
  by (simp_all add: sample_env_def)

definition sample_message :: "MessageType \<Rightarrow> string \<Rightarrow> string \<Rightarrow> RelayMessage" where
  "sample_message mtype token payload = \<lparr>rm_Type = mtype, rm_RequestID = ''r1'', rm_UserID = ''ann'',
     rm_DeviceID = ''pc'', rm_SessionID = [], rm_ClientToken = token, rm_Payload = payload\<rparr>"

definition sample_network :: network where
  "sample_network = (\<lambda>p m. None)"

definition sample_paired :: "relay_input list" where
  "sample_paired =
     [AgentUpgrade 0 ''ann'' ''pc'' ''Bearer key'',
      SocketMessage 0 [] 1 sample_network (sample_message TypeAgentOnline [] ''code''),
      PairRequest ''code'' ''phone'' [] (Some ''t1'') 2, ClientUpgrade 2]"

definition sample_asked :: "relay_input list" where
  "sample_asked =
     sample_paired @ [SocketMessage 2 [] 3 sample_network (sample_message TypeUserMessage ''t1'' [])]"

lemma sample_authenticates:
  "authenticateAgentRequest sample_env ''ann'' ''pc'' ''Bearer key'' = Some (''ann'', ''pc'')"
proof -
  have t: "TrimSpace ''Bearer key'' = ''Bearer key''"
    by (simp add: TrimSpace_def runes_ascii byte_def trim_list_def IsSpace_def rune_value_def)
  have "EqualFoldWord ''Bearer '' ''bearer ''"
    by (simp add: EqualFoldWord_def runes_ascii byte_def fold_matches_def lower_byte_def byte_in_def)
  then show ?thesis
    by (simp add: authenticateAgentRequest_def Let_def t visible_eval sample_env_def agentKey_def)
qed

lemmas relay_run_defs = relay_after_def initial_relay_def NewServer_def handleAgentMessage_def agent_online_def
  Let_def sample_message_def sample_network_def visible_eval registerAgent_def handlePair_def getAgentByBindCode_def
  authorizeClient_def Store_Save_def agentKey_def sample_authenticates

lemmas relay_request_defs = handleClientMessage_def Let_def validateClientToken_def Store_Get_def Store_Touch_def
  ActiveAt_def IsZero_def defaultClientTokenTTL_def registerClient_def pruneExpiredClientRoutesLocked_def
  registerClientConnection_def forwardToAgent_def getAgent_def client_requests_def

lemma sample_paired_state:
  "relay_after sample_env sample_paired =
     \<lparr>ry_server = \<lparr>
        rs_agents = [''ann/pc'' \<mapsto> \<lparr>ae_UserID = ''ann'', ae_DeviceID = ''pc'', ae_BindCode = ''code'',
          ae_RemoteAddr = [], ae_ConnectedAt = 1, ae_LastSeenAt = 1, ae_peer = 0\<rparr>],
        rs_bindings = (\<lambda>_. [])(''code'' := ''ann/pc''), rs_clients = Map.empty, rs_connections = Map.empty,
        rs_authorizations = [''#t1'' \<mapsto> \<lparr>ca_ID = ''#t1'', ca_UserID = ''ann'', ca_DeviceID = ''pc'',
          ca_ClientName = ''phone'', ca_RemoteAddr = [], ca_CreatedAt = 2, ca_LastSeenAt = 2,
          ca_ExpiresAt = 2 + defaultClientTokenTTL, ca_RevokedAt = None\<rparr>]\<rparr>,
      ry_sockets = [0 \<mapsto> AgentSocket (''ann'', ''pc'') (''ann'', ''pc''), 2 \<mapsto> ClientSocket]\<rparr>"
  by (simp add: relay_run_defs sample_paired_def normalizeClientName_def)

lemma relay_after_snoc: "relay_after env (hist @ [i]) = fst (relay_step env (relay_after env hist) i)"
  by (simp add: relay_after_def run_ops_append)

lemma sample_asked_state:
  "relay_after sample_env sample_asked =
     \<lparr>ry_server = ry_server (relay_after sample_env sample_paired)\<lparr>
        rs_clients := [''r1'' \<mapsto> \<lparr>cl_RequestID = ''r1'', cl_RequestType = TypeUserMessage, cl_UserID = ''ann'',
          cl_DeviceID = ''pc'', cl_ClientID = ''#t1'', cl_RemoteAddr = [], cl_ConnectedAt = 3,
          cl_LastSeenAt = 3, cl_peer = Some 2\<rparr>],
        rs_connections := [2 \<mapsto> \<lparr>cc_UserID = ''ann'', cc_DeviceID = ''pc'', cc_ClientID = ''#t1'',
          cc_RemoteAddr = [], cc_LastSeenAt = 3\<rparr>],
        rs_authorizations := [''#t1'' \<mapsto> \<lparr>ca_ID = ''#t1'', ca_UserID = ''ann'', ca_DeviceID = ''pc'',
          ca_ClientName = ''phone'', ca_RemoteAddr = [], ca_CreatedAt = 2, ca_LastSeenAt = 3,
          ca_ExpiresAt = 2 + defaultClientTokenTTL, ca_RevokedAt = None\<rparr>]\<rparr>,
      ry_sockets = ry_sockets (relay_after sample_env sample_paired)\<rparr>"
  unfolding sample_asked_def relay_after_snoc
  by (simp add: sample_paired_state relay_request_defs sample_message_def sample_network_def agentKey_def)

lemmas sample_delivery_defs = handleAgentMessage_def Let_def sample_message_def sample_network_def
  isCurrentAgentPeer_def agentKey_def agent_events_def agent_responses_def forwardToClient_def route_peer_def
  clientPeerForMessage_def live_target_def route_expired_def clientRouteTTL_def route_identity_def
  connection_identity_def writeAuthorizedClient_def Store_Get_def ActiveAt_def IsZero_def
  defaultClientTokenTTL_def

text \<open>
  C2: the relay gives what an agent sends to nobody but its paired clients: whatever the history, a
  message of an agent's socket is written only unchanged, only if its user and device are those of
  the credential the socket was upgraded with, and only to sockets that presented a token for this
  user and device whose authorization is active at that moment and theirs; and a response goes only
  to a socket under the very token that made the request.
\<close>

theorem relay_delivers_to_owner:
  assumes socket: "ry_sockets (relay_after env hist) p = Some (AgentSocket authenticated registered)"
    and written: "(q, m') \<in> set (snd (relay_step env (relay_after env hist) (SocketMessage p addr now net m)))"
  shows "m' = m \<and> (rm_UserID m, rm_DeviceID m) = authenticated \<and> agent_upgraded env hist p authenticated
    \<and> (\<exists>cid a. presented env hist q (rm_UserID m, rm_DeviceID m, cid)
         \<and> rs_authorizations (ry_server (relay_after env hist)) cid = Some a \<and> ActiveAt a now
         \<and> ca_UserID a = rm_UserID m \<and> ca_DeviceID a = rm_DeviceID m
         \<and> (rm_Type m \<in> set agent_events
            \<or> (\<exists>mtype. requested env hist (rm_RequestID m) mtype (rm_UserID m, rm_DeviceID m, cid))))"
proof -
  let ?r = "relay_after env hist" and ?s = "ry_server (relay_after env hist)"
  obtain err registered' ws s' where h:
    "handleAgentMessage env net now p addr m authenticated registered ?s = (err, registered', ws, s')"
    by (metis prod_cases4)
  have inv: "server_inv (presented env hist) (requested env hist) (agent_upgraded env hist) ?s"
    and sock: "agent_upgraded env hist p authenticated" "registered = ([], []) \<or> registered = authenticated"
    using relay_inv_after [of env hist, unfolded relay_inv_def] sockets_okD [of env hist "ry_sockets (relay_after env hist)", OF _ socket] by blast+
  have "(q, m') \<in> set ws" using written socket h by simp
  note facts = handleAgentMessage_writes [OF h sock(2) this]
  have c: "presented env hist q i" if "authorized_at now ?s q i" for i
    using that inv by (auto simp: authorized_at_def server_inv_def conn_fact_def dest!: map_allD)
  have r: "requested env hist x (cl_RequestType e) (route_identity e)" if "rs_clients ?s x = Some e" for x e
    using that inv by (auto simp: server_inv_def route_fact_def route_view_def dest!: map_allD)
  from facts c r sock(1) show ?thesis
    unfolding authorized_at_def by (fastforce simp: authorized_at_def)
qed


theorem relay_delivers_to_owner_witness:
  "\<exists>cid a. presented sample_env sample_asked 2 (''ann'', ''pc'', cid)
     \<and> rs_authorizations (ry_server (relay_after sample_env sample_asked)) cid = Some a"
proof -
  have "ry_sockets (relay_after sample_env sample_asked) 0 = Some (AgentSocket (''ann'', ''pc'') (''ann'', ''pc''))"
    by (simp add: sample_asked_state sample_paired_state)
  moreover have "(2, sample_message TypeAssistantDone [] [])
      \<in> set (snd (relay_step sample_env (relay_after sample_env sample_asked)
          (SocketMessage 0 [] 4 sample_network (sample_message TypeAssistantDone [] []))))"
    by (simp add: sample_asked_state sample_paired_state sample_delivery_defs)
  ultimately show ?thesis
    using relay_delivers_to_owner [of sample_env sample_asked 0 "(''ann'', ''pc'')" "(''ann'', ''pc'')" 2
        "sample_message TypeAssistantDone [] []" "[]" 4 sample_network "sample_message TypeAssistantDone [] []"]
    by (simp add: sample_message_def) blast
qed





text \<open>
  C31: every request a client may send can be answered, and its route lives exactly until then: the
  types the relay accepts from a client are those with a response, other than an error, that it
  forwards from an agent and that ends the request; and a response that was delivered reached a
  client and releases the route exactly if it ends a request of the type that was registered.
\<close>

theorem request_answered_and_released:
  "(answerable mtype \<longleftrightarrow> mtype \<in> set client_requests)
   \<and> (forwardToClient env net now m s = (None, ws, s') \<longrightarrow>
       (\<exists>e q. rs_clients s (rm_RequestID m) = Some e \<and> (q, m) \<in> set ws \<and> net q m = None
          \<and> (rs_clients s' (rm_RequestID m) = None
               \<longleftrightarrow> isTerminalResponseForRequest (cl_RequestType e) (rm_Type m))))"
  using answerable_iff forwardToClient_releases by blast

theorem request_answered_and_released_witness:
  "\<exists>e q. rs_clients (ry_server (relay_after sample_env sample_asked)) ''r1'' = Some e
     \<and> sample_network q (sample_message TypeAssistantDelta [] []) = None
     \<and> \<not> isTerminalResponseForRequest (cl_RequestType e) TypeAssistantDelta"
proof -
  let ?s = "ry_server (relay_after sample_env sample_asked)" and ?m = "sample_message TypeAssistantDelta [] []"
  obtain ws s' where f: "forwardToClient sample_env sample_network 4 ?m ?s = (None, ws, s')"
    and kept: "rs_clients s' ''r1'' \<noteq> None"
    by (simp add: sample_asked_state sample_paired_state sample_delivery_defs release_route_def
        isTerminalResponseForRequest_def terminal_responses_def)
  show ?thesis
    using request_answered_and_released [of TypeUserMessage sample_env sample_network 4 ?m ?s ws s'] f kept
    by (auto simp: sample_message_def)
qed

text \<open>
  What the key of an agent does not tell apart: the user and the device are joined with a slash, so
  a user id with a slash shares the credential, and the place in the registry, of another identity.
\<close>

lemma agent_key_shared:
  "agentKey ''ann/home'' ''pc'' = agentKey ''ann'' ''home/pc''"
  by (simp add: agentKey_def)

lemma agent_credential_shared:
  assumes "agentKey (TrimSpace u) (TrimSpace d) = agentKey (TrimSpace u') (TrimSpace d')"
  shows "authenticateAgentRequest env u d h = Some (TrimSpace u, TrimSpace d)
    \<longleftrightarrow> authenticateAgentRequest env u' d' h = Some (TrimSpace u', TrimSpace d')"
  using assms by (auto simp: authenticateAgentRequest_def Let_def split: option.splits)

text \<open>
  Two devices with the same fixed pairing code: when the first goes offline, the code of the second,
  which is still online, is no longer bound.
\<close>

lemma shared_code_unbound:
  assumes "code \<noteq> []" "u \<noteq> []" "d \<noteq> []" "d' \<noteq> []" "d \<noteq> d'"
  shows "let s = snd (registerAgent q u d' code a' now (snd (registerAgent p u d code a now NewServer)));
             s' = unregisterAgent p u d s
         in getAgentByBindCode code s \<noteq> None \<and> getAgent u d' s' \<noteq> None \<and> getAgentByBindCode code s' = None"
  using assms
  by (auto simp: registerAgent_def unregisterAgent_def getAgentByBindCode_def getAgent_def NewServer_def
      agentKey_def Let_def)

end
