(* ===== verification/GoQuote.thy ===== *)
theory GoQuote
  imports GoJson
begin

text \<open>
  \<open>strconv.Quote\<close>, the \<open>%q\<close> of the formatted output. Which runes above ASCII are printable comes
  from the tables of Unicode and is an argument.
\<close>

type_synonym print_table = "nat \<Rightarrow> bool"

definition hex_byte :: "nat \<Rightarrow> string" where
  "hex_byte n = [hex_digit (n div 16), hex_digit n]"

definition quote_byte :: "char \<Rightarrow> string" where
  "quote_byte b =
     (if b = CHR 0x22 \<or> b = CHR 0x5C then [CHR 0x5C, b]
      else if byte_in 32 126 b then [b]
      else if byte b = 7 then [CHR 0x5C, CHR ''a'']
      else if byte b = 8 then [CHR 0x5C, CHR ''b'']
      else if byte b = 12 then [CHR 0x5C, CHR ''f'']
      else if byte b = 10 then [CHR 0x5C, CHR ''n'']
      else if byte b = 13 then [CHR 0x5C, CHR ''r'']
      else if byte b = 9 then [CHR 0x5C, CHR ''t'']
      else if byte b = 11 then [CHR 0x5C, CHR ''v'']
      else [CHR 0x5C, CHR ''x''] @ hex_byte (byte b))"

definition quote_rune :: "print_table \<Rightarrow> string \<Rightarrow> string" where
  "quote_rune printable r =
     (case r of
        [b] \<Rightarrow> quote_byte b
      | _ \<Rightarrow>
          (let v = rune_value r
           in if printable v then r
              else if v < 65536 then [CHR 0x5C, CHR ''u''] @ hex_byte (v div 256) @ hex_byte v
              else [CHR 0x5C, CHR ''U''] @ hex_byte (v div 16777216) @ hex_byte (v div 65536)
                     @ hex_byte (v div 256) @ hex_byte v))"

definition Quote :: "print_table \<Rightarrow> string \<Rightarrow> string" where
  "Quote printable s = [CHR 0x22] @ concat (map (quote_rune printable) (runes s)) @ [CHR 0x22]"

lemma Quote_nonempty [simp]: "Quote printable s \<noteq> []"
  by (simp add: Quote_def)

end
