(* ===== verification/CompactionCheckpoint.thy ===== *)
theory CompactionCheckpoint
  imports ChatMessage GoQuote
begin

text \<open>
  The checkpoint of a compaction (\<open>core/domain/compaction/checkpoint.go\<close>) and the fingerprint that
  ties it to a history (\<open>core/contextmgr/context.go\<close>). SHA-256 in hexadecimal and the printable
  runes are fields of an environment, and so is the decoder of the summary's JSON, of which only
  acceptance is used here.
\<close>

record HashEnv =
  hv_sha256 :: "string \<Rightarrow> string"
  hv_printable :: print_table
  hv_DecodeJSON :: "string \<Rightarrow> bool"

section \<open>Fingerprints\<close>

definition StableTextHash :: "HashEnv \<Rightarrow> string \<Rightarrow> string" where
  "StableTextHash env text0 =
     (let text = TrimSpace text0 in if text = [] then [] else hv_sha256 env text)"

text \<open>A part that is a call or a result without its value writes nothing.\<close>

definition stable_part :: "Part \<Rightarrow> string" where
  "stable_part part =
     (case part_Type part of
        PartText \<Rightarrow> ''text:'' @ part_Text part
      | PartToolCall \<Rightarrow>
          (case part_ToolCall part of
             None \<Rightarrow> []
           | Some call \<Rightarrow> ''tool_call:'' @ join '':'' [tc_ID call, tc_Type call, tc_Name call, tc_Arguments call])
      | PartToolResult \<Rightarrow>
          (case part_ToolResult part of
             None \<Rightarrow> []
           | Some result \<Rightarrow> ''tool_result:'' @ join '':'' [tr_ToolCallID result, tr_Name result, PromptContent result]))"

definition stable_message :: "HashEnv \<Rightarrow> ChatMessage \<Rightarrow> string" where
  "stable_message env m =
     Role_text (cm_Role m) @ newline
     @ (if cm_Reasoning m \<noteq> [] then ''reasoning:'' @ Quote (hv_printable env) (cm_Reasoning m) @ newline else [])
     @ (if IsSynthetic m then ''synthetic:'' @ SyntheticReason_text (cm_SyntheticReason m) @ newline else [])
     @ concat (map (\<lambda>p. stable_part p @ newline) (cm_Parts m))
     @ ''---'' @ newline"

definition StableMessagesHash :: "HashEnv \<Rightarrow> ChatMessage list \<Rightarrow> string" where
  "StableMessagesHash env ms = StableTextHash env (concat (map (stable_message env) ms))"

definition has_source :: "ChatMessage \<Rightarrow> bool" where
  "has_source m \<longleftrightarrow> cm_SourceID m \<noteq> [] \<or> cm_SourceKind m \<noteq> [] \<or> cm_SourceTaskID m \<noteq> []"

definition source_line :: "HashEnv \<Rightarrow> nat \<Rightarrow> ChatMessage \<Rightarrow> string" where
  "source_line env index m =
     Itoa (int index) @ '' source_id='' @ Quote (hv_printable env) (cm_SourceID m)
     @ '' source_kind='' @ Quote (hv_printable env) (cm_SourceKind m)
     @ '' source_task_id='' @ Quote (hv_printable env) (cm_SourceTaskID m) @ newline"

definition CompactionSourceHash :: "HashEnv \<Rightarrow> ChatMessage list \<Rightarrow> int \<Rightarrow> string" where
  "CompactionSourceHash env ms compacted =
     (if ms = [] \<or> compacted \<le> 0 then []
      else
        (let pre = take (nat compacted) ms;
             prefixHash = StableMessagesHash env pre;
             sources = concat (map (\<lambda>(index, m). if has_source m then source_line env index m else [])
                         (enumerate 0 pre))
         in if sources = [] then prefixHash
            else StableTextHash env (prefixHash @ newline @ sources)))"

section \<open>Checkpoints\<close>

record Checkpoint =
  ckp_Version :: int
  ckp_SourceStartMessage :: int
  ckp_SourceEndMessage :: int
  ckp_SourceHistoryHash :: string
  ckp_Summary :: string
  ckp_CreatedAt :: gotime

definition CurrentVersion :: int where
  "CurrentVersion = 1"

datatype checkpoint_error =
    SummaryEmpty
  | UnsupportedVersion
  | InvalidSourceRange
  | SourceHashEmpty
  | InvalidSummaryJSON

definition Checkpoint_Validate :: "HashEnv \<Rightarrow> Checkpoint \<Rightarrow> checkpoint_error option" where
  "Checkpoint_Validate env c =
     (if blank (ckp_Summary c) then Some SummaryEmpty
      else if ckp_Version c < 0 \<or> ckp_Version c > CurrentVersion then Some UnsupportedVersion
      else if ckp_SourceStartMessage c < 0 \<or> ckp_SourceEndMessage c \<le> ckp_SourceStartMessage c
        then Some InvalidSourceRange
      else if ckp_Version c \<ge> CurrentVersion \<and> blank (ckp_SourceHistoryHash c) then Some SourceHashEmpty
      else if ckp_Version c \<ge> CurrentVersion \<and> \<not> hv_DecodeJSON env (ckp_Summary c)
        then Some InvalidSummaryJSON
      else None)"

definition NewCheckpoint ::
  "HashEnv \<Rightarrow> string \<Rightarrow> int \<Rightarrow> int \<Rightarrow> string \<Rightarrow> gotime \<Rightarrow> checkpoint_error + Checkpoint" where
  "NewCheckpoint env summary sourceStart sourceEnd sourceHash createdAt =
     (let c = \<lparr>ckp_Version = CurrentVersion, ckp_SourceStartMessage = sourceStart,
               ckp_SourceEndMessage = sourceEnd, ckp_SourceHistoryHash = TrimSpace sourceHash,
               ckp_Summary = TrimSpace summary, ckp_CreatedAt = createdAt\<rparr>
      in if \<not> hv_DecodeJSON env (ckp_Summary c) then Inl InvalidSummaryJSON
         else case Checkpoint_Validate env c of None \<Rightarrow> Inr c | Some e \<Rightarrow> Inl e)"

definition LegacyCheckpoint :: "string \<Rightarrow> int \<Rightarrow> string \<Rightarrow> Checkpoint" where
  "LegacyCheckpoint summary compacted sourceHash =
     \<lparr>ckp_Version = 0, ckp_SourceStartMessage = 0, ckp_SourceEndMessage = compacted,
      ckp_SourceHistoryHash = TrimSpace sourceHash, ckp_Summary = TrimSpace summary, ckp_CreatedAt = 0\<rparr>"

definition CompactionCheckpointMatches :: "HashEnv \<Rightarrow> ChatMessage list \<Rightarrow> string \<Rightarrow> int \<Rightarrow> string \<Rightarrow> bool" where
  "CompactionCheckpointMatches env ms summary compacted sourceHash \<longleftrightarrow>
     blank summary \<or> blank sourceHash \<or> CompactionSourceHash env ms compacted = TrimSpace sourceHash"

definition CompactionCheckpointMatchesCheckpoint :: "HashEnv \<Rightarrow> ChatMessage list \<Rightarrow> Checkpoint option \<Rightarrow> bool" where
  "CompactionCheckpointMatchesCheckpoint env ms checkpoint \<longleftrightarrow>
     (case checkpoint of
        None \<Rightarrow> True
      | Some c \<Rightarrow>
          (if blank (ckp_Summary c) then True
           else if ckp_Version c = 0 then
             CompactionCheckpointMatches env ms (ckp_Summary c) (ckp_SourceEndMessage c) (ckp_SourceHistoryHash c)
           else if Checkpoint_Validate env c \<noteq> None then False
           else if ckp_SourceStartMessage c \<noteq> 0 \<or> ckp_SourceEndMessage c > int (length ms) then False
           else CompactionSourceHash env ms (ckp_SourceEndMessage c) = TrimSpace (ckp_SourceHistoryHash c)))"

section \<open>What a fingerprint tells apart\<close>

text \<open>
  The text that is hashed separates the messages by lines that a message may itself contain: two
  different histories, the second with a message the first does not have, have one fingerprint.
\<close>

lemma fingerprint_not_injective:
  fixes env :: HashEnv
  defines "forged \<equiv> TextMessage RoleUser (''a'' @ newline @ ''---'' @ newline @ ''assistant'' @ newline @ ''text:b'')"
  shows "CompactionSourceHash env [forged] 1
    = CompactionSourceHash env [TextMessage RoleUser ''a'', TextMessage RoleAssistant ''b''] 2"
  by (simp add: forged_def CompactionSourceHash_def StableMessagesHash_def stable_message_def stable_part_def
      TextMessage_def TextPart_def IsSynthetic_def has_source_def Let_def newline_def)

end
