(* ===== verification/SessionModel.thy ===== *)
theory SessionModel
  imports CompactionCheckpoint ToolPolicy ContextWindow PlanModel Workspace
begin

text \<open>
  The session of \<open>core/session\<close>: its construction from a stored state, the identity of its messages,
  its turns and its settings. The two fixed system prompts and the fingerprint functions are an
  environment; what a session keeps of the generation settings is a type parameter, as the code
  only copies them. The clock and the generated identifiers are arguments.
\<close>

section \<open>Settings\<close>

datatype Kind = KindUser | KindSubagent | KindOther string

definition NormalizeKind :: "Kind \<Rightarrow> Kind" where
  "NormalizeKind kind = (if kind = KindSubagent then KindSubagent else KindUser)"

datatype RetrievalMode =
    RetrievalModeOff
  | RetrievalModeManual
  | RetrievalModeAuto
  | RetrievalModeAlways
  | RetrievalModeEmpty
  | RetrievalModeOther string

record RAGSettings =
  rag_Mode :: RetrievalMode
  rag_KnowledgeBaseIDs :: "string list"
  rag_CategoryIDs :: "string list"
  rag_TopK :: int

fun unique_ids :: "string list \<Rightarrow> string list \<Rightarrow> string list" where
  "unique_ids seen [] = []"
| "unique_ids seen (v # vs) =
     (let value = TrimSpace v
      in if value = [] \<or> value \<in> set seen then unique_ids seen vs
         else value # unique_ids (value # seen) vs)"

definition normalizeUniqueIDs :: "string list \<Rightarrow> string list" where
  "normalizeUniqueIDs values = unique_ids [] values"

definition NormalizeRAGSettings :: "RAGSettings \<Rightarrow> RAGSettings" where
  "NormalizeRAGSettings s =
     \<lparr>rag_Mode = (if rag_Mode s = RetrievalModeEmpty then RetrievalModeAuto else rag_Mode s),
      rag_KnowledgeBaseIDs = normalizeUniqueIDs (rag_KnowledgeBaseIDs s),
      rag_CategoryIDs = normalizeUniqueIDs (rag_CategoryIDs s),
      rag_TopK = (if rag_TopK s = 0 then 8 else rag_TopK s)\<rparr>"

definition CloneRAGSettings :: "RAGSettings \<Rightarrow> RAGSettings" where
  "CloneRAGSettings s = NormalizeRAGSettings s"

definition ValidateRAGSettings :: "RAGSettings \<Rightarrow> string option" where
  "ValidateRAGSettings settings =
     (let s = NormalizeRAGSettings settings
      in case rag_Mode s of
           RetrievalModeOther mode \<Rightarrow> Some (''unsupported retrieval mode: '' @ mode)
         | _ \<Rightarrow> if rag_TopK s < 1 \<or> rag_TopK s > 100 then Some ''RAG top_k must be between 1 and 100'' else None)"

section \<open>The session\<close>

record 'g Session =
  ses_ID :: string
  ses_Kind :: Kind
  ses_ParentSessionID :: string
  ses_ParentTaskID :: string
  ses_AgentDefinitionID :: string
  ses_AgentDefinitionVer :: int
  ses_SystemInstruction :: string
  ses_AllowedTools :: "string list option"
  ses_EnforceToolAllowlist :: bool
  ses_WorkspaceRoot :: string
  ses_WorkspaceSandboxID :: string
  ses_MaxToolRounds :: int
  ses_Model :: string
  ses_AgentMode :: AgentMode
  ses_PermissionMode :: PermissionMode
  ses_ContextWindowK :: int
  ses_Summary :: string
  ses_CompactedMessages :: int
  ses_CompactionSourceHash :: string
  ses_CompactionCheckpoint :: "Checkpoint option"
  ses_Usage :: TokenUsage
  ses_LastUsage :: TokenUsage
  ses_CurrentPlan :: "Plan option"
  ses_RAGSettings :: RAGSettings
  ses_GenerationSettings :: 'g
  ses_StyleInstruction :: string
  ses_Messages :: "ChatMessage list"

record SessionEnv =
  sv_hash :: HashEnv
  sv_systemPrompt :: string
  sv_subagentSystemPrompt :: string

text \<open>Nanoseconds of the Unix epoch; the 64-bit result does not overflow between 1678 and 2262.\<close>

definition unix_epoch :: gotime where
  "unix_epoch = 62135596800 * 1000000000"

definition UnixNano :: "gotime \<Rightarrow> int" where
  "UnixNano t = t - unix_epoch"

definition FromUnixNano :: "int \<Rightarrow> gotime" where
  "FromUnixNano n = unix_epoch + n"

definition defaultMessages :: "SessionEnv \<Rightarrow> string \<Rightarrow> ChatMessage list" where
  "defaultMessages env systemInstruction =
     (let instruction = TrimSpace systemInstruction
      in [TextMessage RoleSystem
            (if instruction \<noteq> [] then sv_subagentSystemPrompt env @ newline @ newline
               @ ''Role-specific instructions:'' @ newline @ instruction
             else sv_systemPrompt env)])"

definition StableID :: "SessionEnv \<Rightarrow> string \<Rightarrow> nat \<Rightarrow> ChatMessage \<Rightarrow> string" where
  "StableID env sessionID index m =
     ''legacy-'' @ take 32 (hv_sha256 (sv_hash env)
       (join [CHR 0x00] [sessionID, Itoa (int index), Role_text (cm_Role m),
          SyntheticReason_text (cm_SyntheticReason m), Message_Text m]))"

text \<open>One message of the loop, at an index and after a sequence number.\<close>

definition normalize_message :: "SessionEnv \<Rightarrow> string \<Rightarrow> nat \<Rightarrow> int \<Rightarrow> ChatMessage \<Rightarrow> ChatMessage" where
  "normalize_message env sessionID index lastSequence m =
     (let messageID = (if cm_ID m = [] then StableID env sessionID index m else cm_ID m);
          seq0 = (if cm_Sequence m \<le> 0
                  then (if \<not> IsZero (cm_CreatedAt m) then UnixNano (cm_CreatedAt m) else int index + 1)
                  else cm_Sequence m);
          seq = (if seq0 \<le> lastSequence then lastSequence + 1 else seq0);
          createdAt = (if IsZero (cm_CreatedAt m) then FromUnixNano seq else cm_CreatedAt m)
      in m\<lparr>cm_ID := messageID, cm_Sequence := seq, cm_CreatedAt := createdAt\<rparr>)"

fun normalize_from :: "SessionEnv \<Rightarrow> string \<Rightarrow> nat \<Rightarrow> int \<Rightarrow> ChatMessage list \<Rightarrow> ChatMessage list" where
  "normalize_from env sessionID index lastSequence [] = []"
| "normalize_from env sessionID index lastSequence (m # ms) =
     (let m' = normalize_message env sessionID index lastSequence m
      in m' # normalize_from env sessionID (Suc index) (cm_Sequence m') ms)"

definition normalizeMessageMetadata :: "SessionEnv \<Rightarrow> string \<Rightarrow> ChatMessage list \<Rightarrow> ChatMessage list" where
  "normalizeMessageMetadata env sessionID ms = normalize_from env sessionID 0 0 ms"

section \<open>Turns\<close>

definition AppendMessage :: "string \<Rightarrow> gotime \<Rightarrow> ChatMessage \<Rightarrow> 'g Session \<Rightarrow> 'g Session" where
  "AppendMessage freshID now m0 s =
     (let messageID = (if cm_ID m0 = [] then freshID else cm_ID m0);
          createdAt = (if IsZero (cm_CreatedAt m0) then now else cm_CreatedAt m0);
          lastSequence = (if ses_Messages s = [] then 0 else cm_Sequence (last (ses_Messages s)));
          seq = (if cm_Sequence m0 \<le> lastSequence
                 then (if UnixNano createdAt \<le> lastSequence then lastSequence + 1 else UnixNano createdAt)
                 else cm_Sequence m0)
      in s\<lparr>ses_Messages := ses_Messages s
             @ [m0\<lparr>cm_ID := messageID, cm_CreatedAt := createdAt, cm_Sequence := seq\<rparr>]\<rparr>)"

fun AppendMessages :: "(nat \<Rightarrow> string) \<Rightarrow> gotime \<Rightarrow> ChatMessage list \<Rightarrow> 'g Session \<Rightarrow> 'g Session" where
  "AppendMessages fresh now [] s = s"
| "AppendMessages fresh now (m # ms) s =
     AppendMessages (\<lambda>n. fresh (Suc n)) now ms (AppendMessage (fresh 0) now m s)"

text \<open>The messages of a user turn: the retrieved context, the runtime instruction, the input.\<close>

definition turn_messages ::
  "string \<Rightarrow> string \<Rightarrow> string \<Rightarrow> SyntheticReason \<Rightarrow> string \<Rightarrow> string \<Rightarrow> string \<Rightarrow> ChatMessage list" where
  "turn_messages ragContext runtimeInstruction content reason sourceID sourceKind sourceTaskID =
     (case RAGContext ragContext of None \<Rightarrow> [] | Some m \<Rightarrow> [m])
     @ (case RuntimeInstruction runtimeInstruction of None \<Rightarrow> [] | Some m \<Rightarrow> [m])
     @ [(if reason \<noteq> SyntheticReasonNone then SyntheticUserText reason content
         else TextMessage RoleUser content)
        \<lparr>cm_SourceID := sourceID, cm_SourceKind := sourceKind, cm_SourceTaskID := sourceTaskID\<rparr>]"

definition AddUserTurnWithMetadata ::
  "(nat \<Rightarrow> string) \<Rightarrow> gotime \<Rightarrow> string \<Rightarrow> string \<Rightarrow> string \<Rightarrow> SyntheticReason \<Rightarrow> string \<Rightarrow> string \<Rightarrow> string
     \<Rightarrow> 'g Session \<Rightarrow> 'g Session" where
  "AddUserTurnWithMetadata fresh now ragContext runtimeInstruction content reason sourceID sourceKind sourceTaskID s =
     AppendMessages fresh now
       (turn_messages ragContext runtimeInstruction content reason sourceID sourceKind sourceTaskID) s"

definition AddUsage :: "TokenUsage \<Rightarrow> 'g Session \<Rightarrow> 'g Session" where
  "AddUsage usage s = s\<lparr>ses_Usage := TokenUsage_Add (ses_Usage s) usage, ses_LastUsage := usage\<rparr>"

definition Session_Clear :: "SessionEnv \<Rightarrow> 'g Session \<Rightarrow> 'g Session" where
  "Session_Clear env s =
     s\<lparr>ses_Messages := normalizeMessageMetadata env (ses_ID s) (defaultMessages env (ses_SystemInstruction s)),
       ses_Summary := [], ses_CompactedMessages := 0, ses_CompactionSourceHash := [],
       ses_CompactionCheckpoint := None, ses_Usage := 0, ses_LastUsage := 0, ses_CurrentPlan := None\<rparr>"

section \<open>Loading\<close>

record 'g InitialState =
  ist_ID :: string
  ist_Kind :: Kind
  ist_ParentSessionID :: string
  ist_ParentTaskID :: string
  ist_AgentDefinitionID :: string
  ist_AgentDefinitionVer :: int
  ist_SystemInstruction :: string
  ist_AllowedTools :: "string list option"
  ist_EnforceToolAllowlist :: bool
  ist_WorkspaceRoot :: string
  ist_WorkspaceSandboxID :: string
  ist_MaxToolRounds :: int
  ist_Model :: string
  ist_AgentMode :: AgentMode
  ist_PermissionMode :: PermissionMode
  ist_ContextWindowK :: int
  ist_Summary :: string
  ist_CompactedMessages :: int
  ist_CompactionSourceHash :: string
  ist_CompactionCheckpoint :: "Checkpoint option"
  ist_Usage :: TokenUsage
  ist_LastUsage :: TokenUsage
  ist_RAGSettings :: RAGSettings
  ist_GenerationSettings :: 'g
  ist_StyleInstruction :: string
  ist_Messages :: "ChatMessage list"

text \<open>Appending to a nil slice gives nil for an empty one.\<close>

definition clone_slice :: "'a list option \<Rightarrow> 'a list option" where
  "clone_slice xs = (case xs of Some (x # ys) \<Rightarrow> Some (x # ys) | _ \<Rightarrow> None)"

definition newSession :: "SessionEnv \<Rightarrow> 'g InitialState \<Rightarrow> 'g Session" where
  "newSession env st =
     (let ms = normalizeMessageMetadata env (ist_ID st)
            (if ist_Messages st = [] then defaultMessages env [] else ist_Messages st)
      in \<lparr>ses_ID = ist_ID st, ses_Kind = NormalizeKind (ist_Kind st),
          ses_ParentSessionID = ist_ParentSessionID st, ses_ParentTaskID = ist_ParentTaskID st,
          ses_AgentDefinitionID = ist_AgentDefinitionID st,
          ses_AgentDefinitionVer = ist_AgentDefinitionVer st,
          ses_SystemInstruction = ist_SystemInstruction st,
          ses_AllowedTools = clone_slice (ist_AllowedTools st),
          ses_EnforceToolAllowlist = ist_EnforceToolAllowlist st,
          ses_WorkspaceRoot = ist_WorkspaceRoot st, ses_WorkspaceSandboxID = ist_WorkspaceSandboxID st,
          ses_MaxToolRounds = ist_MaxToolRounds st, ses_Model = ist_Model st,
          ses_AgentMode = NormalizeAgentMode (ist_AgentMode st),
          ses_PermissionMode = NormalizePermissionMode (ist_PermissionMode st),
          ses_ContextWindowK = NormalizeWindowK (ist_ContextWindowK st),
          ses_Summary = ist_Summary st,
          ses_CompactedMessages = int (NormalizeCompactedMessages ms (ist_CompactedMessages st)),
          ses_CompactionSourceHash = ist_CompactionSourceHash st,
          ses_CompactionCheckpoint = None, ses_Usage = ist_Usage st, ses_LastUsage = ist_LastUsage st,
          ses_CurrentPlan = None, ses_RAGSettings = CloneRAGSettings (ist_RAGSettings st),
          ses_GenerationSettings = ist_GenerationSettings st,
          ses_StyleInstruction = ist_StyleInstruction st, ses_Messages = ms\<rparr>)"

definition rebuildLegacyCompactionHash :: "SessionEnv \<Rightarrow> ChatMessage list \<Rightarrow> int \<Rightarrow> string" where
  "rebuildLegacyCompactionHash env ms compacted =
     (if ms = [] \<or> compacted \<le> 0 \<or> compacted > int (length ms) then []
      else CompactionSourceHash (sv_hash env) ms compacted)"

text \<open>The three stages of \<open>NewFromState\<close> after the fields are set.\<close>

definition with_checkpoint :: "Checkpoint option \<Rightarrow> 'g Session \<Rightarrow> 'g Session" where
  "with_checkpoint checkpoint s =
     (case checkpoint of
        None \<Rightarrow> s
      | Some c \<Rightarrow>
          s\<lparr>ses_CompactionCheckpoint := Some c,
            ses_Summary := (if ses_Summary s = [] then ckp_Summary c else ses_Summary s),
            ses_CompactedMessages :=
              (if ckp_SourceEndMessage c > 0 then ckp_SourceEndMessage c else ses_CompactedMessages s),
            ses_CompactionSourceHash :=
              (if ses_CompactionSourceHash s = [] then ckp_SourceHistoryHash c
               else ses_CompactionSourceHash s)\<rparr>)"

definition rebuild_legacy :: "SessionEnv \<Rightarrow> 'g Session \<Rightarrow> 'g Session" where
  "rebuild_legacy env s =
     (case ses_CompactionCheckpoint s of
        Some c \<Rightarrow>
          (if ckp_Version c = 0 \<and> blank (ckp_SourceHistoryHash c)
           then (let hash = rebuildLegacyCompactionHash env (ses_Messages s) (ckp_SourceEndMessage c)
                 in if hash \<noteq> []
                    then s\<lparr>ses_CompactionCheckpoint := Some (c\<lparr>ckp_SourceHistoryHash := hash\<rparr>),
                           ses_CompactionSourceHash := hash\<rparr>
                    else s\<lparr>ses_CompactionCheckpoint := None\<rparr>)
           else s)
      | None \<Rightarrow> s)"

definition without_summary :: "'g Session \<Rightarrow> 'g Session" where
  "without_summary s = s\<lparr>ses_Summary := [], ses_CompactedMessages := 0, ses_CompactionSourceHash := []\<rparr>"

definition check_summary :: "SessionEnv \<Rightarrow> 'g Session \<Rightarrow> 'g Session" where
  "check_summary env s =
     (if ses_CompactionCheckpoint s \<noteq> None
         \<and> \<not> CompactionCheckpointMatchesCheckpoint (sv_hash env) (ses_Messages s) (ses_CompactionCheckpoint s)
      then (without_summary s)\<lparr>ses_CompactionCheckpoint := None\<rparr>
      else if \<not> blank (ses_Summary s) then
        (let s1 = (if blank (ses_CompactionSourceHash s)
                   then s\<lparr>ses_CompactionSourceHash :=
                          rebuildLegacyCompactionHash env (ses_Messages s) (ses_CompactedMessages s)\<rparr>
                   else s)
         in if blank (ses_CompactionSourceHash s1)
               \<or> CompactionSourceHash (sv_hash env) (ses_Messages s1) (ses_CompactedMessages s1)
                   \<noteq> ses_CompactionSourceHash s1
            then without_summary s1 else s1)
      else s)"

definition NewFromState :: "SessionEnv \<Rightarrow> 'g InitialState \<Rightarrow> 'g Session" where
  "NewFromState env st =
     (let s0 = with_checkpoint (ist_CompactionCheckpoint st) (newSession env st);
          s1 = (if ist_Messages st = []
                then s0\<lparr>ses_Messages := defaultMessages env (ist_SystemInstruction st)\<rparr> else s0)
      in check_summary env (rebuild_legacy env s1))"

end
