(* ===== verification/SessionStore.thy ===== *)
theory SessionStore
  imports SessionModel
begin

text \<open>
  The sessions in memory (\<open>core/adapter/session/memory/store.go\<close>). Every operation runs under the
  lock of the store, so an operation is a step; one that fails leaves the store as it is. The
  operations on the current session read its identifier under the lock and then run the operation
  on that session; here they are one step. The random identifiers, and the clock, are arguments.
\<close>

record 'g Store =
  sto_currentSessionId :: string
  sto_currentModelId :: string
  sto_defaultModelId :: string
  sto_session :: "string \<rightharpoonup> 'g Session"

datatype store_error =
    SessionIDEmpty
  | SessionNotFound
  | ExpectedAssistantMessage
  | NoUserMessage
  | LastUserMessageEmpty
  | SessionSnapshotInvalid
  | ModelIDEmpty
  | RAGSettingsInvalid string

definition NewStore :: "string \<Rightarrow> 'g Store" where
  "NewStore modelID =
     (let m = (if modelID = [] then ''grok-4.7'' else modelID)
      in \<lparr>sto_currentSessionId = [], sto_currentModelId = m, sto_defaultModelId = m,
          sto_session = Map.empty\<rparr>)"

section \<open>Access\<close>

definition sessionByIDLocked :: "string \<Rightarrow> 'g Store \<Rightarrow> store_error + 'g Session" where
  "sessionByIDLocked sessionID st =
     (if sessionID = [] then Inl SessionIDEmpty
      else case sto_session st sessionID of None \<Rightarrow> Inl SessionNotFound | Some s \<Rightarrow> Inr s)"

definition GetSession :: "string \<Rightarrow> 'g Store \<Rightarrow> store_error + 'g Session" where
  "GetSession sessionID st =
     (case sto_session st sessionID of None \<Rightarrow> Inl SessionNotFound | Some s \<Rightarrow> Inr s)"

definition Current :: "'g Store \<Rightarrow> store_error + 'g Session" where
  "Current st = GetSession (sto_currentSessionId st) st"

definition CurrentModelId :: "'g Store \<Rightarrow> string" where
  "CurrentModelId st =
     (if sto_currentSessionId st \<noteq> []
      then (case sto_session st (sto_currentSessionId st) of
              Some s \<Rightarrow> if ses_Model s \<noteq> [] then ses_Model s else sto_currentModelId st
            | None \<Rightarrow> sto_currentModelId st)
      else sto_currentModelId st)"

definition CurrentPermissionMode :: "'g Store \<Rightarrow> PermissionMode" where
  "CurrentPermissionMode st =
     (case Current st of Inl _ \<Rightarrow> PermissionModeAsk | Inr s \<Rightarrow> NormalizePermissionMode (ses_PermissionMode s))"

definition CurrentAgentMode :: "'g Store \<Rightarrow> AgentMode" where
  "CurrentAgentMode st =
     (case Current st of Inl _ \<Rightarrow> AgentModeChat | Inr s \<Rightarrow> NormalizeAgentMode (ses_AgentMode s))"

definition CurrentPlan :: "'g Store \<Rightarrow> Plan option" where
  "CurrentPlan st = (case Current st of Inl _ \<Rightarrow> None | Inr s \<Rightarrow> ses_CurrentPlan s)"

definition CurrentContextWindowK :: "'g Store \<Rightarrow> int" where
  "CurrentContextWindowK st = (case Current st of Inl _ \<Rightarrow> 0 | Inr s \<Rightarrow> ses_ContextWindowK s)"

definition CurrentUsage :: "'g Store \<Rightarrow> TokenUsage" where
  "CurrentUsage st = (case Current st of Inl _ \<Rightarrow> 0 | Inr s \<Rightarrow> ses_Usage s)"

definition CurrentLastUsage :: "'g Store \<Rightarrow> TokenUsage" where
  "CurrentLastUsage st = (case Current st of Inl _ \<Rightarrow> 0 | Inr s \<Rightarrow> ses_LastUsage s)"

definition Messages :: "'g Store \<Rightarrow> store_error + ChatMessage list" where
  "Messages st = (case Current st of Inl e \<Rightarrow> Inl e | Inr s \<Rightarrow> Inr (ses_Messages s))"

text \<open>A session that is looked up and changed in place.\<close>

definition on_session :: "string \<Rightarrow> ('g Session \<Rightarrow> 'g Session) \<Rightarrow> 'g Store \<Rightarrow> store_error + 'g Store" where
  "on_session sessionID f st =
     (case sessionByIDLocked sessionID st of
        Inl e \<Rightarrow> Inl e
      | Inr s \<Rightarrow> Inr (st\<lparr>sto_session := (sto_session st)(sessionID \<mapsto> f s)\<rparr>))"

section \<open>Creation and selection\<close>

definition PutSessionState :: "SessionEnv \<Rightarrow> 'g InitialState \<Rightarrow> bool \<Rightarrow> 'g Store \<Rightarrow> store_error + 'g Store" where
  "PutSessionState env state0 setCurrent st =
     (if ist_ID state0 = [] then Inl SessionIDEmpty
      else
        (let state = (if ist_Model state0 = [] then state0\<lparr>ist_Model := sto_defaultModelId st\<rparr> else state0);
             st1 = (if setCurrent
                    then st\<lparr>sto_currentSessionId := ist_ID state, sto_currentModelId := ist_Model state\<rparr>
                    else st)
         in Inr (st1\<lparr>sto_session := (sto_session st1)(ist_ID state \<mapsto> NewFromState env state)\<rparr>)))"

definition blank_state :: "'g \<Rightarrow> string \<Rightarrow> string \<Rightarrow> 'g InitialState" where
  "blank_state noSettings sessionID model =
     \<lparr>ist_ID = sessionID, ist_Kind = KindOther [], ist_ParentSessionID = [], ist_ParentTaskID = [],
      ist_AgentDefinitionID = [], ist_AgentDefinitionVer = 0, ist_SystemInstruction = [],
      ist_AllowedTools = None, ist_EnforceToolAllowlist = False, ist_WorkspaceRoot = [],
      ist_WorkspaceSandboxID = [], ist_MaxToolRounds = 0, ist_Model = model,
      ist_AgentMode = AgentModeChat, ist_PermissionMode = PermissionModeAsk, ist_ContextWindowK = 0,
      ist_Summary = [], ist_CompactedMessages = 0, ist_CompactionSourceHash = [],
      ist_CompactionCheckpoint = None, ist_Usage = 0, ist_LastUsage = 0,
      ist_RAGSettings = \<lparr>rag_Mode = RetrievalModeEmpty, rag_KnowledgeBaseIDs = [], rag_CategoryIDs = [], rag_TopK = 0\<rparr>,
      ist_GenerationSettings = noSettings, ist_StyleInstruction = [], ist_Messages = []\<rparr>"

definition NewSession :: "SessionEnv \<Rightarrow> 'g \<Rightarrow> string \<Rightarrow> 'g Store \<Rightarrow> 'g Store" where
  "NewSession env noSettings freshID st =
     (let s = NewFromState env (blank_state noSettings freshID (sto_defaultModelId st))
      in st\<lparr>sto_currentSessionId := freshID, sto_session := (sto_session st)(freshID \<mapsto> s),
            sto_currentModelId := ses_Model s\<rparr>)"

definition SetDefaultModel :: "string \<Rightarrow> 'g Store \<Rightarrow> 'g Store" where
  "SetDefaultModel model0 st =
     (let modelID = TrimSpace model0
      in if modelID = [] then st
         else if sto_currentSessionId st = []
           then st\<lparr>sto_defaultModelId := modelID, sto_currentModelId := modelID\<rparr>
         else st\<lparr>sto_defaultModelId := modelID\<rparr>)"

definition UseSession :: "string \<Rightarrow> 'g Store \<Rightarrow> store_error + 'g Store" where
  "UseSession sessionID st =
     (case sto_session st sessionID of
        None \<Rightarrow> Inl SessionNotFound
      | Some s \<Rightarrow>
          Inr (st\<lparr>sto_currentSessionId := sessionID,
                  sto_currentModelId := (if ses_Model s \<noteq> [] then ses_Model s else sto_currentModelId st)\<rparr>))"

definition RemoveSession :: "string \<Rightarrow> 'g Store \<Rightarrow> store_error + 'g Store" where
  "RemoveSession sessionID st =
     (if sessionID = [] then Inl SessionIDEmpty
      else Inr (st\<lparr>sto_session := (sto_session st)(sessionID := None),
                   sto_currentSessionId :=
                     (if sto_currentSessionId st = sessionID then [] else sto_currentSessionId st)\<rparr>))"

text \<open>A snapshot is a copy of its own; it is put back under its identifier.\<close>

definition Session_Clone :: "'g Session \<Rightarrow> 'g Session" where
  "Session_Clone s =
     s\<lparr>ses_AllowedTools := clone_slice (ses_AllowedTools s), ses_RAGSettings := CloneRAGSettings (ses_RAGSettings s)\<rparr>"

definition RestoreSession :: "'g Session option \<Rightarrow> 'g Store \<Rightarrow> store_error + 'g Store" where
  "RestoreSession snapshot st =
     (case map_option Session_Clone snapshot of
        None \<Rightarrow> Inl SessionSnapshotInvalid
      | Some s \<Rightarrow>
          if blank (ses_ID s) then Inl SessionSnapshotInvalid
          else Inr (st\<lparr>sto_session := (sto_session st)(ses_ID s \<mapsto> s)\<rparr>))"

section \<open>Turns\<close>

definition AddUserTurnWithMetadataTo ::
  "(nat \<Rightarrow> string) \<Rightarrow> gotime \<Rightarrow> string \<Rightarrow> string \<Rightarrow> string \<Rightarrow> string \<Rightarrow> SyntheticReason \<Rightarrow> string \<Rightarrow> string \<Rightarrow> string
     \<Rightarrow> 'g Store \<Rightarrow> store_error + 'g Store" where
  "AddUserTurnWithMetadataTo fresh now sessionID ragContext runtimeInstruction input reason sourceID sourceKind
       sourceTaskID =
     on_session sessionID (AddUserTurnWithMetadata fresh now ragContext runtimeInstruction input reason sourceID
       sourceKind sourceTaskID)"

definition AppendMessageTo :: "string \<Rightarrow> gotime \<Rightarrow> string \<Rightarrow> ChatMessage \<Rightarrow> 'g Store \<Rightarrow> store_error + 'g Store" where
  "AppendMessageTo freshID now sessionID m = on_session sessionID (AppendMessage freshID now m)"

definition AppendAssistantMessageTo ::
  "string \<Rightarrow> gotime \<Rightarrow> string \<Rightarrow> ChatMessage \<Rightarrow> 'g Store \<Rightarrow> store_error + 'g Store" where
  "AppendAssistantMessageTo freshID now sessionID m st =
     (if cm_Role m \<noteq> RoleAssistant then Inl ExpectedAssistantMessage
      else AppendMessageTo freshID now sessionID m st)"

text \<open>The loop from the end for the last user message, and the tokens it keeps.\<close>

fun last_user_index :: "ChatMessage list \<Rightarrow> nat \<Rightarrow> nat option" where
  "last_user_index ms 0 = None"
| "last_user_index ms (Suc index) =
     (if user_turn (ms ! index) then Some index else last_user_index ms index)"

definition TrimAfterLastUserMessage :: "string \<Rightarrow> 'g Store \<Rightarrow> store_error + string \<times> 'g Store" where
  "TrimAfterLastUserMessage sessionID st =
     (case sessionByIDLocked sessionID st of
        Inl e \<Rightarrow> Inl e
      | Inr s \<Rightarrow>
          (case last_user_index (ses_Messages s) (length (ses_Messages s)) of
             None \<Rightarrow> Inl NoUserMessage
           | Some lastUserIndex \<Rightarrow>
               (let input = Message_Text (ses_Messages s ! lastUserIndex)
                in if blank input then Inl LastUserMessageEmpty
                   else Inr (input,
                     st\<lparr>sto_session := (sto_session st)(sessionID \<mapsto>
                       s\<lparr>ses_Messages := take (lastUserIndex + 1) (ses_Messages s), ses_LastUsage := 0\<rparr>)\<rparr>))))"

definition AddUsageTo :: "string \<Rightarrow> TokenUsage \<Rightarrow> 'g Store \<Rightarrow> store_error + 'g Store" where
  "AddUsageTo sessionID usage = on_session sessionID (AddUsage usage)"

definition ClearSession :: "SessionEnv \<Rightarrow> string \<Rightarrow> 'g Store \<Rightarrow> store_error + 'g Store" where
  "ClearSession env sessionID = on_session sessionID (Session_Clear env)"

section \<open>Settings\<close>

definition SwitchModel :: "string \<Rightarrow> 'g Store \<Rightarrow> store_error + 'g Store" where
  "SwitchModel modelID st0 =
     (if modelID = [] then Inl ModelIDEmpty
      else
        (let st = st0\<lparr>sto_currentModelId := modelID\<rparr>
         in if sto_currentSessionId st = [] then Inr st
            else case sto_session st (sto_currentSessionId st) of
                   None \<Rightarrow> Inr st
                 | Some s \<Rightarrow>
                     Inr (st\<lparr>sto_session := (sto_session st)(sto_currentSessionId st \<mapsto> s\<lparr>ses_Model := modelID\<rparr>)\<rparr>)))"

definition SwitchModelForSession :: "string \<Rightarrow> string \<Rightarrow> 'g Store \<Rightarrow> store_error + 'g Store" where
  "SwitchModelForSession sessionID modelID st =
     (if modelID = [] then Inl ModelIDEmpty
      else case on_session sessionID (\<lambda>s. s\<lparr>ses_Model := modelID\<rparr>) st of
             Inl e \<Rightarrow> Inl e
           | Inr st1 \<Rightarrow>
               Inr (if sto_currentSessionId st1 = sessionID then st1\<lparr>sto_currentModelId := modelID\<rparr> else st1))"

definition SetPermissionModeForSession :: "string \<Rightarrow> PermissionMode \<Rightarrow> 'g Store \<Rightarrow> store_error + 'g Store" where
  "SetPermissionModeForSession sessionID mode =
     on_session sessionID (\<lambda>s. s\<lparr>ses_PermissionMode := NormalizePermissionMode mode\<rparr>)"

definition SetAgentModeForSession :: "string \<Rightarrow> AgentMode \<Rightarrow> 'g Store \<Rightarrow> store_error + 'g Store" where
  "SetAgentModeForSession sessionID mode =
     on_session sessionID (\<lambda>s. s\<lparr>ses_AgentMode := NormalizeAgentMode mode\<rparr>)"

definition SetCurrentPlanForSession :: "string \<Rightarrow> Plan option \<Rightarrow> 'g Store \<Rightarrow> store_error + 'g Store" where
  "SetCurrentPlanForSession sessionID plan = on_session sessionID (\<lambda>s. s\<lparr>ses_CurrentPlan := plan\<rparr>)"

definition SetContextWindowKForSession :: "string \<Rightarrow> int \<Rightarrow> 'g Store \<Rightarrow> store_error + 'g Store" where
  "SetContextWindowKForSession sessionID windowK = on_session sessionID (\<lambda>s. s\<lparr>ses_ContextWindowK := windowK\<rparr>)"

definition SetGenerationSettingsForSession :: "string \<Rightarrow> 'g \<Rightarrow> 'g Store \<Rightarrow> store_error + 'g Store" where
  "SetGenerationSettingsForSession sessionID settings =
     on_session sessionID (\<lambda>s. s\<lparr>ses_GenerationSettings := settings\<rparr>)"

definition SetStyleInstructionForSession :: "string \<Rightarrow> string \<Rightarrow> 'g Store \<Rightarrow> store_error + 'g Store" where
  "SetStyleInstructionForSession sessionID instruction =
     on_session sessionID (\<lambda>s. s\<lparr>ses_StyleInstruction := instruction\<rparr>)"

definition SetRAGSettingsForSession :: "string \<Rightarrow> RAGSettings \<Rightarrow> 'g Store \<Rightarrow> store_error + 'g Store" where
  "SetRAGSettingsForSession sessionID settings0 st =
     (let settings = NormalizeRAGSettings settings0
      in case ValidateRAGSettings settings of
           Some e \<Rightarrow> Inl (RAGSettingsInvalid e)
         | None \<Rightarrow> on_session sessionID (\<lambda>s. s\<lparr>ses_RAGSettings := CloneRAGSettings settings\<rparr>) st)"

definition setSummaryForSession ::
  "string \<Rightarrow> string \<Rightarrow> int \<Rightarrow> string \<Rightarrow> Checkpoint option \<Rightarrow> 'g Store \<Rightarrow> store_error + 'g Store" where
  "setSummaryForSession sessionID summary compacted sourceHash checkpoint =
     on_session sessionID
       (\<lambda>s. s\<lparr>ses_Summary := summary, ses_CompactedMessages := compacted, ses_CompactionSourceHash := sourceHash,
              ses_CompactionCheckpoint := checkpoint\<rparr>)"

end
