(* ===== verification/MessageRecords.thy ===== *)
theory MessageRecords
  imports SessionModel
begin

text \<open>
  How messages are stored: the records of \<open>core/port/repository/message_record.go\<close>, the mapper from a
  session (\<open>core/adapter/persistence/chatmessage/mapper\<close>) and the mapper back
  (\<open>core/application/session/load/service/mapper.go\<close>). A message with tool calls becomes several
  records that share the identifier of the message. The identifier source is a function from the
  number of the record; roles of records other than the five constants keep their text.
\<close>

datatype RecordRole =
    RecordSystem
  | RecordUser
  | RecordAssistant
  | RecordToolCall
  | RecordTool
  | RecordOther string

record MessageRecord =
  mr_ID :: string
  mr_MessageID :: string
  mr_SessionID :: string
  mr_Role :: RecordRole
  mr_Content :: string
  mr_Reasoning :: string
  mr_ToolCallID :: string
  mr_ToolName :: string
  mr_ToolArguments :: string
  mr_ToolError :: string
  mr_ToolStatus :: ResultStatus
  mr_ToolErrorCode :: string
  mr_ToolTruncated :: bool
  mr_ToolPromptContent :: string
  mr_ToolPromptError :: string
  mr_ToolPromptTruncated :: bool
  mr_SyntheticReason :: SyntheticReason
  mr_SourceID :: string
  mr_SourceKind :: string
  mr_SourceTaskID :: string
  mr_PromptTokens :: int
  mr_CompletionTokens :: int
  mr_TotalTokens :: int
  mr_ReasoningTokens :: int
  mr_PromptCachedTokens :: int
  mr_Sequence :: int
  mr_CreatedAt :: gotime

section \<open>From messages to records\<close>

text \<open>A new record of a role; its identifier is set by \<open>recordsForMessages\<close>.\<close>

definition newRecord :: "string \<Rightarrow> RecordRole \<Rightarrow> MessageRecord" where
  "newRecord sessionID role =
     \<lparr>mr_ID = [], mr_MessageID = [], mr_SessionID = sessionID, mr_Role = role, mr_Content = [],
      mr_Reasoning = [], mr_ToolCallID = [], mr_ToolName = [], mr_ToolArguments = [], mr_ToolError = [],
      mr_ToolStatus = ResultStatusUnset, mr_ToolErrorCode = [], mr_ToolTruncated = False,
      mr_ToolPromptContent = [], mr_ToolPromptError = [], mr_ToolPromptTruncated = False,
      mr_SyntheticReason = SyntheticReasonNone, mr_SourceID = [], mr_SourceKind = [], mr_SourceTaskID = [],
      mr_PromptTokens = 0, mr_CompletionTokens = 0, mr_TotalTokens = 0, mr_ReasoningTokens = 0,
      mr_PromptCachedTokens = 0, mr_Sequence = 0, mr_CreatedAt = 0\<rparr>"

definition part_call :: "Part \<Rightarrow> ToolCall option" where
  "part_call p = (if part_Type p = PartToolCall then part_ToolCall p else None)"

definition part_result :: "Part \<Rightarrow> ToolResult option" where
  "part_result p = (if part_Type p = PartToolResult then part_ToolResult p else None)"

definition call_record :: "string \<Rightarrow> ToolCall \<Rightarrow> MessageRecord" where
  "call_record sessionID call =
     (newRecord sessionID RecordToolCall)
       \<lparr>mr_ToolCallID := tc_ID call, mr_ToolName := tc_Name call, mr_ToolArguments := tc_Arguments call\<rparr>"

definition result_record :: "string \<Rightarrow> ToolResult \<Rightarrow> MessageRecord" where
  "result_record sessionID r =
     (let rec = (newRecord sessionID RecordTool)
           \<lparr>mr_Content := tr_Content r, mr_ToolCallID := tr_ToolCallID r, mr_ToolName := tr_Name r,
            mr_ToolStatus := (if tr_Status r = ResultStatusUnset then ResultStatusSuccess else tr_Status r),
            mr_ToolError := tr_ErrorMessage r, mr_ToolErrorCode := tr_ErrorCode r,
            mr_ToolTruncated := tr_Truncated r\<rparr>
      in if tr_PromptTruncated r
         then rec\<lparr>mr_Content := tr_FullContent r, mr_ToolError := tr_FullErrorMessage r,
                  mr_ToolPromptContent := tr_Content r, mr_ToolPromptError := tr_ErrorMessage r,
                  mr_ToolPromptTruncated := True\<rparr>
         else rec)"

definition messageRecords :: "string \<Rightarrow> ChatMessage \<Rightarrow> MessageRecord list" where
  "messageRecords sessionID m =
     (let text_record = (\<lambda>role. (newRecord sessionID role)
            \<lparr>mr_Content := Message_Text m, mr_SyntheticReason := cm_SyntheticReason m,
             mr_SourceID := cm_SourceID m, mr_SourceKind := cm_SourceKind m, mr_SourceTaskID := cm_SourceTaskID m\<rparr>)
      in case cm_Role m of
           RoleSystem \<Rightarrow> if \<not> IsSynthetic m then [] else [text_record RecordSystem]
         | RoleUser \<Rightarrow> [text_record RecordUser]
         | RoleAssistant \<Rightarrow>
             (let records =
                (if Message_Text m \<noteq> [] \<or> cm_Reasoning m \<noteq> []
                 then [(newRecord sessionID RecordAssistant)
                         \<lparr>mr_Content := Message_Text m, mr_Reasoning := cm_Reasoning m\<rparr>]
                 else [])
                @ map (call_record sessionID) (List.map_filter part_call (cm_Parts m))
              in if records = [] then [newRecord sessionID RecordAssistant] else records)
         | RoleTool \<Rightarrow>
             (let records = map (result_record sessionID) (List.map_filter part_result (cm_Parts m))
              in if records = [] then [(newRecord sessionID RecordTool)\<lparr>mr_Content := Message_Text m\<rparr>]
                 else records))"

text \<open>\<open>%06d\<close>.\<close>

definition pad6 :: "nat \<Rightarrow> string" where
  "pad6 n = (let d = Itoa (int n) in replicate (6 - length d) CHR ''0'' @ d)"

definition messageRecordID :: "ChatMessage \<Rightarrow> nat \<Rightarrow> nat \<Rightarrow> string" where
  "messageRecordID m partIndex partCount =
     (if partIndex < length (cm_RecordIDs m) \<and> cm_RecordIDs m ! partIndex \<noteq> [] then cm_RecordIDs m ! partIndex
      else if cm_ID m = [] then []
      else if partCount \<le> 1 then cm_ID m
      else cm_ID m @ '':'' @ pad6 partIndex)"

definition messageSequence :: "gotime \<Rightarrow> int" where
  "messageSequence createdAt = (if IsZero createdAt then 0 else UnixNano createdAt)"

definition finish_record ::
  "(nat \<Rightarrow> string) \<Rightarrow> gotime \<Rightarrow> ChatMessage \<Rightarrow> nat \<Rightarrow> nat \<Rightarrow> nat \<Rightarrow> MessageRecord \<Rightarrow> MessageRecord" where
  "finish_record newID fallbackCreatedAt m count partCount partIndex rec =
     (let rid = messageRecordID m partIndex partCount;
          createdAt = (if \<not> IsZero (cm_CreatedAt m) then cm_CreatedAt m
                       else fallbackCreatedAt + int (count + partIndex))
      in rec\<lparr>mr_MessageID := cm_ID m,
             mr_ID := (if rid \<noteq> [] then rid else newID (count + partIndex)),
             mr_CreatedAt := createdAt,
             mr_SourceID := cm_SourceID m, mr_SourceKind := cm_SourceKind m, mr_SourceTaskID := cm_SourceTaskID m,
             mr_Sequence := (if cm_Sequence m \<le> 0 then messageSequence createdAt else cm_Sequence m)\<rparr>)"

definition message_to_records ::
  "(nat \<Rightarrow> string) \<Rightarrow> gotime \<Rightarrow> string \<Rightarrow> nat \<Rightarrow> ChatMessage \<Rightarrow> MessageRecord list" where
  "message_to_records newID fallbackCreatedAt sessionID count m =
     (let mapped = messageRecords sessionID m
      in map (\<lambda>(i, rec). finish_record newID fallbackCreatedAt m count (length mapped) i rec) (enumerate 0 mapped))"

text \<open>\<open>count\<close> is the number of records made so far.\<close>

fun records_from ::
  "(nat \<Rightarrow> string) \<Rightarrow> gotime \<Rightarrow> string \<Rightarrow> nat \<Rightarrow> ChatMessage list \<Rightarrow> MessageRecord list" where
  "records_from newID fallbackCreatedAt sessionID count [] = []"
| "records_from newID fallbackCreatedAt sessionID count (m # ms) =
     (let records = message_to_records newID fallbackCreatedAt sessionID count m
      in records @ records_from newID fallbackCreatedAt sessionID (count + length records) ms)"

definition recordsForMessages ::
  "(nat \<Rightarrow> string) \<Rightarrow> string \<Rightarrow> ChatMessage list \<Rightarrow> gotime \<Rightarrow> MessageRecord list" where
  "recordsForMessages newID sessionID ms fallbackCreatedAt =
     records_from newID fallbackCreatedAt sessionID 0 ms"

definition messageRecordCount :: "ChatMessage \<Rightarrow> nat" where
  "messageRecordCount m =
     (case cm_Role m of
        RoleSystem \<Rightarrow> if \<not> IsSynthetic m then 0 else 1
      | RoleUser \<Rightarrow> 1
      | RoleAssistant \<Rightarrow>
          (let count = (if Message_Text m \<noteq> [] \<or> cm_Reasoning m \<noteq> [] then 1 else 0)
                 + length (List.map_filter part_call (cm_Parts m))
           in if count = 0 then 1 else count)
      | RoleTool \<Rightarrow>
          (let count = length (List.map_filter part_result (cm_Parts m)) in if count = 0 then 1 else count))"

definition MemoryMessages :: "(nat \<Rightarrow> string) \<Rightarrow> gotime \<Rightarrow> 'g Session \<Rightarrow> MessageRecord list" where
  "MemoryMessages newID now s =
     (let count = sum_list (map messageRecordCount (ses_Messages s))
      in recordsForMessages newID (ses_ID s) (ses_Messages s) (now - int count))"

section \<open>From records to messages\<close>

definition messageWithRecord :: "ChatMessage \<Rightarrow> MessageRecord \<Rightarrow> ChatMessage" where
  "messageWithRecord m rec =
     m\<lparr>cm_ID := (if mr_MessageID rec \<noteq> [] then mr_MessageID rec else mr_ID rec),
       cm_RecordIDs := [mr_ID rec], cm_SourceID := mr_SourceID rec, cm_SourceKind := mr_SourceKind rec,
       cm_SourceTaskID := mr_SourceTaskID rec, cm_Sequence := mr_Sequence rec, cm_CreatedAt := mr_CreatedAt rec\<rparr>"

text \<open>The records of tool calls that are joined to the first record of a sampling.\<close>

definition same_sampling :: "MessageRecord \<Rightarrow> MessageRecord \<Rightarrow> bool" where
  "same_sampling first rec \<longleftrightarrow>
     mr_Role rec = RecordToolCall
     \<and> (mr_MessageID first \<noteq> [] \<and> mr_MessageID rec = mr_MessageID first
        \<or> mr_MessageID first = [] \<and> mr_Role first = RecordToolCall \<and> mr_MessageID rec = [])"

definition record_call :: "MessageRecord \<Rightarrow> ToolCall" where
  "record_call rec = \<lparr>tc_ID = mr_ToolCallID rec, tc_Type = ''function'', tc_Name = mr_ToolName rec,
     tc_Arguments = mr_ToolArguments rec\<rparr>"

definition sampling_message :: "MessageRecord \<Rightarrow> MessageRecord list \<Rightarrow> ChatMessage" where
  "sampling_message first calls =
     (if mr_Role first = RecordAssistant
      then (messageWithRecord (Assistant (mr_Content first) (mr_Reasoning first) (map record_call calls)) first)
             \<lparr>cm_RecordIDs := mr_ID first # map mr_ID calls\<rparr>
      else (messageWithRecord (Assistant [] [] (map record_call calls)) first)
             \<lparr>cm_RecordIDs := map mr_ID calls\<rparr>)"

definition record_result :: "MessageRecord \<Rightarrow> ToolResult" where
  "record_result rec =
     \<lparr>tr_ToolCallID = mr_ToolCallID rec, tr_Name = mr_ToolName rec,
      tr_Content = (if mr_ToolPromptTruncated rec then mr_ToolPromptContent rec else mr_Content rec),
      tr_Status = mr_ToolStatus rec, tr_ErrorCode = mr_ToolErrorCode rec,
      tr_ErrorMessage = (if mr_ToolPromptTruncated rec then mr_ToolPromptError rec else mr_ToolError rec),
      tr_Truncated = mr_ToolTruncated rec, tr_FullContent = mr_Content rec, tr_FullErrorMessage = mr_ToolError rec,
      tr_PromptTruncated = mr_ToolPromptTruncated rec\<rparr>"

text \<open>
  The loop over the records. The inner loop starts at the record itself for a tool call, which it
  always takes, and after it for an assistant record; it stops at the first record of another
  sampling, from which the outer loop goes on.
\<close>

function messages_from :: "MessageRecord list \<Rightarrow> ChatMessage list" where
  "messages_from [] = []"
| "messages_from (rec # rest) =
     (case mr_Role rec of
        RecordSystem \<Rightarrow>
          (if mr_SyntheticReason rec \<noteq> SyntheticReasonNone
           then [messageWithRecord (SyntheticText (mr_SyntheticReason rec) (mr_Content rec)) rec] else [])
          @ messages_from rest
      | RecordUser \<Rightarrow>
          messageWithRecord
            (if mr_SyntheticReason rec \<noteq> SyntheticReasonNone
             then SyntheticUserText (mr_SyntheticReason rec) (mr_Content rec)
             else TextMessage RoleUser (mr_Content rec)) rec
          # messages_from rest
      | RecordAssistant \<Rightarrow>
          sampling_message rec (takeWhile (same_sampling rec) rest)
          # messages_from (dropWhile (same_sampling rec) rest)
      | RecordToolCall \<Rightarrow>
          sampling_message rec (rec # takeWhile (same_sampling rec) rest)
          # messages_from (dropWhile (same_sampling rec) rest)
      | RecordTool \<Rightarrow>
          messageWithRecord (ToolResultMessage (record_result rec)) rec # messages_from rest
      | RecordOther _ \<Rightarrow> messages_from rest)"
  by pat_completeness auto
termination
  by (relation "measure length") (auto simp: less_Suc_eq_le length_dropWhile_le)

definition MessagesFromRecords :: "SessionEnv \<Rightarrow> MessageRecord list \<Rightarrow> string \<Rightarrow> ChatMessage list" where
  "MessagesFromRecords env records systemInstruction =
     defaultMessages env systemInstruction @ messages_from records"

end
