(* ===== verification/SessionPersistence.thy ===== *)
theory SessionPersistence
  imports SessionStore MessageRecords
begin

text \<open>
  The stored form of a session (\<open>core/port/repository/session_record.go\<close>), how it is built and
  prepared for saving (\<open>core/application/session/persistence\<close>) and how a session is loaded back into
  memory (\<open>core/application/session/load\<close>). The repositories are parameters: the lookup of a record
  and the list of the messages of a session, each with its errors. A mode that the record stores as
  the empty text is the mode with the empty name.
\<close>

record 'g SessionRecord =
  sr_ID :: string
  sr_Kind :: Kind
  sr_ParentSessionID :: string
  sr_ParentTaskID :: string
  sr_AgentDefinitionID :: string
  sr_AgentDefinitionVer :: int
  sr_SystemInstruction :: string
  sr_AllowedTools :: "string list option"
  sr_EnforceToolAllowlist :: bool
  sr_WorkspaceRoot :: string
  sr_WorkspaceSandboxID :: string
  sr_MaxToolRounds :: int
  sr_Model :: string
  sr_AgentMode :: AgentMode
  sr_PermissionMode :: PermissionMode
  sr_ContextWindowK :: int
  sr_Summary :: string
  sr_CompactedMessages :: int
  sr_CompactionSourceHash :: string
  sr_CompactionCheckpoint :: "Checkpoint option"
  sr_CompactedAt :: "gotime option"
  sr_Title :: string
  sr_Usage :: "TokenUsage option"
  sr_LastUsage :: "TokenUsage option"
  sr_CurrentPlan :: "Plan option"
  sr_RAGSettings :: RAGSettings
  sr_GenerationSettings :: 'g
  sr_StyleInstruction :: string
  sr_Deleted :: bool
  sr_DeletedAt :: "gotime option"
  sr_CreatedAt :: gotime
  sr_UpdatedAt :: gotime

definition TokenUsageRecord :: "TokenUsage \<Rightarrow> TokenUsage option" where
  "TokenUsageRecord usage = (if usage = 0 then None else Some usage)"

definition TokenUsageFromRecord :: "TokenUsage option \<Rightarrow> TokenUsage" where
  "TokenUsageFromRecord usage = (case usage of None \<Rightarrow> 0 | Some u \<Rightarrow> u)"

section \<open>Saving\<close>

definition DefaultTitle :: string where
  "DefaultTitle = ''New chat''"

definition no_rag_settings :: RAGSettings where
  "no_rag_settings = \<lparr>rag_Mode = RetrievalModeEmpty, rag_KnowledgeBaseIDs = [], rag_CategoryIDs = [], rag_TopK = 0\<rparr>"

text \<open>The record before the fields of a session in memory or of a stored one are filled in.\<close>

definition fresh_record :: "'g \<Rightarrow> string \<Rightarrow> string \<Rightarrow> string \<Rightarrow> string \<Rightarrow> 'g SessionRecord" where
  "fresh_record noSettings sessionID model title defaultModel =
     \<lparr>sr_ID = sessionID, sr_Kind = KindUser, sr_ParentSessionID = [], sr_ParentTaskID = [],
      sr_AgentDefinitionID = [], sr_AgentDefinitionVer = 0, sr_SystemInstruction = [], sr_AllowedTools = None,
      sr_EnforceToolAllowlist = False, sr_WorkspaceRoot = [], sr_WorkspaceSandboxID = [], sr_MaxToolRounds = 0,
      sr_Model = (if model = [] then defaultModel else model), sr_AgentMode = AgentModeChat,
      sr_PermissionMode = PermissionModeAsk, sr_ContextWindowK = 16, sr_Summary = [],
      sr_CompactedMessages = 0, sr_CompactionSourceHash = [], sr_CompactionCheckpoint = None,
      sr_CompactedAt = None, sr_Title = (if title = [] then DefaultTitle else title), sr_Usage = None,
      sr_LastUsage = None, sr_CurrentPlan = None, sr_RAGSettings = no_rag_settings,
      sr_GenerationSettings = noSettings, sr_StyleInstruction = [], sr_Deleted = False, sr_DeletedAt = None,
      sr_CreatedAt = 0, sr_UpdatedAt = 0\<rparr>"

definition record_of_session :: "gotime \<Rightarrow> 'g Session \<Rightarrow> 'g SessionRecord \<Rightarrow> 'g SessionRecord" where
  "record_of_session now s rec =
     rec\<lparr>sr_Kind := NormalizeKind (ses_Kind s), sr_ParentSessionID := ses_ParentSessionID s,
         sr_ParentTaskID := ses_ParentTaskID s, sr_AgentDefinitionID := ses_AgentDefinitionID s,
         sr_AgentDefinitionVer := ses_AgentDefinitionVer s, sr_SystemInstruction := ses_SystemInstruction s,
         sr_AllowedTools := clone_slice (ses_AllowedTools s),
         sr_EnforceToolAllowlist := ses_EnforceToolAllowlist s, sr_WorkspaceRoot := ses_WorkspaceRoot s,
         sr_WorkspaceSandboxID := ses_WorkspaceSandboxID s, sr_MaxToolRounds := ses_MaxToolRounds s,
         sr_AgentMode := NormalizeAgentMode (ses_AgentMode s),
         sr_PermissionMode := NormalizePermissionMode (ses_PermissionMode s),
         sr_ContextWindowK := NormalizeWindowK (ses_ContextWindowK s), sr_Summary := ses_Summary s,
         sr_CompactedMessages := ses_CompactedMessages s,
         sr_CompactionSourceHash := ses_CompactionSourceHash s,
         sr_CompactionCheckpoint := ses_CompactionCheckpoint s, sr_Usage := TokenUsageRecord (ses_Usage s),
         sr_LastUsage := TokenUsageRecord (ses_LastUsage s), sr_CurrentPlan := ses_CurrentPlan s,
         sr_RAGSettings := CloneRAGSettings (ses_RAGSettings s),
         sr_GenerationSettings := ses_GenerationSettings s, sr_StyleInstruction := ses_StyleInstruction s,
         sr_CompactedAt := (if ses_Summary s \<noteq> [] then Some now else sr_CompactedAt rec)\<rparr>"

definition record_of_existing :: "'g SessionRecord \<Rightarrow> 'g SessionRecord \<Rightarrow> 'g SessionRecord" where
  "record_of_existing existing rec =
     rec\<lparr>sr_Kind := sr_Kind existing, sr_ParentSessionID := sr_ParentSessionID existing,
         sr_ParentTaskID := sr_ParentTaskID existing, sr_AgentDefinitionID := sr_AgentDefinitionID existing,
         sr_AgentDefinitionVer := sr_AgentDefinitionVer existing,
         sr_SystemInstruction := sr_SystemInstruction existing,
         sr_AllowedTools := clone_slice (sr_AllowedTools existing),
         sr_EnforceToolAllowlist := sr_EnforceToolAllowlist existing,
         sr_WorkspaceRoot := sr_WorkspaceRoot existing, sr_WorkspaceSandboxID := sr_WorkspaceSandboxID existing,
         sr_MaxToolRounds := sr_MaxToolRounds existing,
         sr_PermissionMode := (if sr_PermissionMode existing \<noteq> PermissionModeOther [] then sr_PermissionMode existing
                               else sr_PermissionMode rec),
         sr_AgentMode := (if sr_AgentMode existing \<noteq> AgentModeOther [] then sr_AgentMode existing
                          else sr_AgentMode rec),
         sr_ContextWindowK := (if sr_ContextWindowK existing > 0 then sr_ContextWindowK existing
                               else sr_ContextWindowK rec),
         sr_Summary := sr_Summary existing, sr_CompactedMessages := sr_CompactedMessages existing,
         sr_CompactionSourceHash := sr_CompactionSourceHash existing,
         sr_CompactionCheckpoint := sr_CompactionCheckpoint existing,
         sr_CompactedAt := sr_CompactedAt existing, sr_Usage := sr_Usage existing,
         sr_LastUsage := sr_LastUsage existing, sr_CurrentPlan := sr_CurrentPlan existing,
         sr_RAGSettings := CloneRAGSettings (sr_RAGSettings existing),
         sr_GenerationSettings := sr_GenerationSettings existing,
         sr_StyleInstruction := sr_StyleInstruction existing\<rparr>"

definition BuildSessionRecord ::
  "'g \<Rightarrow> string \<Rightarrow> string \<Rightarrow> string \<Rightarrow> string \<Rightarrow> 'g Session option \<Rightarrow> 'g SessionRecord option \<Rightarrow> gotime
     \<Rightarrow> 'g SessionRecord" where
  "BuildSessionRecord noSettings sessionID model title defaultModel current existing now =
     (let rec = fresh_record noSettings sessionID model title defaultModel;
          stored = (case existing of Some e \<Rightarrow> record_of_existing e rec | None \<Rightarrow> rec)
      in case current of
           Some s \<Rightarrow> if ses_ID s = sessionID then record_of_session now s rec else stored
         | None \<Rightarrow> stored)"

definition PrepareSessionRecordForSave ::
  "'g SessionRecord \<Rightarrow> 'g SessionRecord option \<Rightarrow> string \<Rightarrow> gotime \<Rightarrow> store_error + 'g SessionRecord" where
  "PrepareSessionRecordForSave rec existing defaultModel now =
     (if sr_ID rec = [] then Inl SessionIDEmpty
      else
        (let settings = NormalizeRAGSettings (sr_RAGSettings rec);
             title = (if sr_Title rec = [] then DefaultTitle else sr_Title rec);
             created = (if IsZero (sr_CreatedAt rec)
                        then (case existing of Some e \<Rightarrow> sr_CreatedAt e | None \<Rightarrow> sr_CreatedAt rec)
                        else sr_CreatedAt rec)
         in case ValidateRAGSettings settings of
              Some e \<Rightarrow> Inl (RAGSettingsInvalid e)
            | None \<Rightarrow>
                Inr (rec\<lparr>sr_Model := (if sr_Model rec = [] then defaultModel else sr_Model rec),
                         sr_Kind := NormalizeKind (sr_Kind rec),
                         sr_AgentMode := (if sr_AgentMode rec = AgentModeOther [] then AgentModeChat
                                          else sr_AgentMode rec),
                         sr_PermissionMode := (if sr_PermissionMode rec = PermissionModeOther []
                                               then PermissionModeAsk else sr_PermissionMode rec),
                         sr_ContextWindowK := NormalizeWindowK (sr_ContextWindowK rec),
                         sr_RAGSettings := settings,
                         sr_CreatedAt := (if IsZero created then now else created),
                         sr_Title := (case existing of
                             Some e \<Rightarrow> if sr_Title e \<noteq> [] \<and> sr_Title e \<noteq> DefaultTitle then sr_Title e else title
                           | None \<Rightarrow> title),
                         sr_UpdatedAt := now\<rparr>)))"

section \<open>Loading\<close>

definition state_of_record :: "SessionEnv \<Rightarrow> 'g SessionRecord \<Rightarrow> MessageRecord list \<Rightarrow> 'g InitialState" where
  "state_of_record env rec records =
     \<lparr>ist_ID = sr_ID rec, ist_Kind = sr_Kind rec, ist_ParentSessionID = sr_ParentSessionID rec,
      ist_ParentTaskID = sr_ParentTaskID rec, ist_AgentDefinitionID = sr_AgentDefinitionID rec,
      ist_AgentDefinitionVer = sr_AgentDefinitionVer rec, ist_SystemInstruction = sr_SystemInstruction rec,
      ist_AllowedTools = clone_slice (sr_AllowedTools rec),
      ist_EnforceToolAllowlist = sr_EnforceToolAllowlist rec, ist_WorkspaceRoot = sr_WorkspaceRoot rec,
      ist_WorkspaceSandboxID = sr_WorkspaceSandboxID rec, ist_MaxToolRounds = sr_MaxToolRounds rec,
      ist_Model = sr_Model rec, ist_AgentMode = sr_AgentMode rec, ist_PermissionMode = sr_PermissionMode rec,
      ist_ContextWindowK = sr_ContextWindowK rec, ist_Summary = sr_Summary rec,
      ist_CompactedMessages = sr_CompactedMessages rec,
      ist_CompactionSourceHash = sr_CompactionSourceHash rec,
      ist_CompactionCheckpoint = sr_CompactionCheckpoint rec,
      ist_Usage = TokenUsageFromRecord (sr_Usage rec), ist_LastUsage = TokenUsageFromRecord (sr_LastUsage rec),
      ist_RAGSettings = sr_RAGSettings rec, ist_GenerationSettings = sr_GenerationSettings rec,
      ist_StyleInstruction = sr_StyleInstruction rec,
      ist_Messages = MessagesFromRecords env records (sr_SystemInstruction rec)\<rparr>"

datatype load_error = StoreError store_error | RecordError string

definition EnsureInMemory ::
  "SessionEnv \<Rightarrow> (string \<Rightarrow> string + 'g SessionRecord) \<Rightarrow> (string \<Rightarrow> string + MessageRecord list)
     \<Rightarrow> string \<Rightarrow> bool \<Rightarrow> 'g Store \<Rightarrow> load_error + 'g Session \<times> 'g Store" where
  "EnsureInMemory env getRecord listMessages sessionID0 setCurrent st =
     (let sessionID = TrimSpace sessionID0
      in if sessionID = [] then Inl (StoreError SessionIDEmpty)
         else
           (case GetSession sessionID st of
              Inr current \<Rightarrow>
                (if setCurrent
                 then (case UseSession sessionID st of
                         Inl e \<Rightarrow> Inl (StoreError e) | Inr st' \<Rightarrow> Inr (current, st'))
                 else Inr (current, st))
            | Inl _ \<Rightarrow>
                (case getRecord sessionID of
                   Inl e \<Rightarrow> Inl (RecordError e)
                 | Inr rec \<Rightarrow>
                     (case listMessages sessionID of
                        Inl e \<Rightarrow> Inl (RecordError e)
                      | Inr records \<Rightarrow>
                          (case PutSessionState env (state_of_record env rec records) setCurrent st of
                             Inl e \<Rightarrow> Inl (StoreError e)
                           | Inr st1 \<Rightarrow>
                               (case SetCurrentPlanForSession (sr_ID rec) (sr_CurrentPlan rec) st1 of
                                  Inl e \<Rightarrow> Inl (StoreError e)
                                | Inr st2 \<Rightarrow>
                                    (case GetSession (sr_ID rec) st2 of
                                       Inl e \<Rightarrow> Inl (StoreError e) | Inr s \<Rightarrow> Inr (s, st2))))))))"

end
