(* ===== verification/SessionFacts.thy ===== *)
theory SessionFacts
  imports SessionPersistence
begin

text \<open>
  Facts about sessions that the properties share: the identity of messages is ascending and is
  given once, the fingerprint of a history does not look at it, and the records of a history give
  the history back.
\<close>

section \<open>The identity of messages\<close>

definition identified :: "ChatMessage \<Rightarrow> bool" where
  "identified m \<longleftrightarrow> cm_ID m \<noteq> [] \<and> 0 < cm_Sequence m \<and> \<not> IsZero (cm_CreatedAt m)"

fun ascending :: "int \<Rightarrow> ChatMessage list \<Rightarrow> bool" where
  "ascending low [] = True"
| "ascending low (m # ms) = (low < cm_Sequence m \<and> ascending (cm_Sequence m) ms)"

text \<open>What of a message the metadata does not touch.\<close>

definition content :: "ChatMessage \<Rightarrow> ChatMessage" where
  "content m = m\<lparr>cm_ID := [], cm_Sequence := 0, cm_CreatedAt := 0\<rparr>"

lemma content_fields [simp]:
  "content (m\<lparr>cm_ID := i\<rparr>) = content m" "content (m\<lparr>cm_Sequence := n\<rparr>) = content m"
  "content (m\<lparr>cm_CreatedAt := t\<rparr>) = content m" "content (content m) = content m"
  by (simp_all add: content_def)

lemma normalize_message_sequence: "low < cm_Sequence (normalize_message env sid i low m)"
  by (simp add: normalize_message_def Let_def)

lemma normalize_message_content [simp]: "content (normalize_message env sid i low m) = content m"
  by (simp add: normalize_message_def Let_def content_def)

lemma normalize_message_identified: "0 \<le> low \<Longrightarrow> identified (normalize_message env sid i low m)"
  by (auto simp: identified_def normalize_message_def Let_def StableID_def IsZero_def FromUnixNano_def unix_epoch_def)

lemma normalize_message_id: "identified m \<Longrightarrow> low < cm_Sequence m \<Longrightarrow> normalize_message env sid i low m = m"
  by (simp add: identified_def normalize_message_def Let_def)

lemma normalize_from_ascending: "ascending low (normalize_from env sid i low ms)"
proof (induction ms arbitrary: i low)
  case (Cons m ms)
  then show ?case
    using normalize_message_sequence[of low env sid i m] Cons[of "cm_Sequence (normalize_message env sid i low m)" "Suc i"]
    by (simp add: Let_def)
qed simp

lemma normalize_from_identified: "0 \<le> low \<Longrightarrow> \<forall>m \<in> set (normalize_from env sid i low ms). identified m"
proof (induction ms arbitrary: i low)
  case (Cons m ms)
  have "0 \<le> cm_Sequence (normalize_message env sid i low m)"
    using normalize_message_sequence[of low env sid i m] Cons.prems by linarith
  then show ?case using Cons by (simp add: Let_def normalize_message_identified)
qed simp

lemma normalize_from_content [simp]: "map content (normalize_from env sid i low ms) = map content ms"
  by (induction ms arbitrary: i low) (simp_all add: Let_def)

lemma length_normalize_from [simp]: "length (normalize_from env sid i low ms) = length ms"
  using normalize_from_content[of env sid i low ms] by (metis length_map)

lemma normalize_from_id:
  "ascending low ms \<Longrightarrow> \<forall>m \<in> set ms. identified m \<Longrightarrow> normalize_from env sid i low ms = ms"
  by (induction ms arbitrary: i low) (auto simp: Let_def normalize_message_id)

lemma normalizeMessageMetadata_id:
  "ascending 0 ms \<Longrightarrow> \<forall>m \<in> set ms. identified m \<Longrightarrow> normalizeMessageMetadata env sid ms = ms"
  by (simp add: normalizeMessageMetadata_def normalize_from_id)

lemma normalized_ascending: "ascending 0 (normalizeMessageMetadata env sid ms)"
  by (simp only: normalizeMessageMetadata_def normalize_from_ascending)

lemma normalized_identified: "\<forall>m \<in> set (normalizeMessageMetadata env sid ms). identified m"
  unfolding normalizeMessageMetadata_def by (rule normalize_from_identified) simp

lemma ascending_bounds: "ascending low ms \<Longrightarrow> m \<in> set ms \<Longrightarrow> low < cm_Sequence m"
  by (induction ms arbitrary: low) (auto intro: order.strict_trans)

definition last_sequence :: "ChatMessage list \<Rightarrow> int" where
  "last_sequence ms = (if ms = [] then 0 else cm_Sequence (last ms))"

lemma ascending_snoc:
  "ascending low (ms @ [m]) \<longleftrightarrow> ascending low ms \<and> (if ms = [] then low else cm_Sequence (last ms)) < cm_Sequence m"
  by (induction ms arbitrary: low) auto

lemma ascending_append:
  "ascending low (xs @ ys) \<longleftrightarrow> ascending low xs \<and> ascending (if xs = [] then low else cm_Sequence (last xs)) ys"
  by (induction xs arbitrary: low) auto

definition appended :: "string \<Rightarrow> gotime \<Rightarrow> int \<Rightarrow> ChatMessage \<Rightarrow> ChatMessage" where
  "appended freshID now lastSequence m =
     (let createdAt = (if IsZero (cm_CreatedAt m) then now else cm_CreatedAt m)
      in m\<lparr>cm_ID := (if cm_ID m = [] then freshID else cm_ID m), cm_CreatedAt := createdAt,
           cm_Sequence := (if cm_Sequence m \<le> lastSequence
              then (if UnixNano createdAt \<le> lastSequence then lastSequence + 1 else UnixNano createdAt)
              else cm_Sequence m)\<rparr>)"

lemma AppendMessage_messages:
  "AppendMessage freshID now m s
    = s\<lparr>ses_Messages := ses_Messages s @ [appended freshID now (last_sequence (ses_Messages s)) m]\<rparr>"
  by (simp add: AppendMessage_def appended_def last_sequence_def Let_def)

lemma appended_content [simp]: "content (appended freshID now n m) = content m"
  by (simp add: appended_def content_def Let_def)

lemma appended_sequence: "n < cm_Sequence (appended freshID now n m)"
  by (simp add: appended_def Let_def)

lemma appended_identified:
  "freshID \<noteq> [] \<Longrightarrow> \<not> IsZero now \<Longrightarrow> 0 \<le> n \<Longrightarrow> identified (appended freshID now n m)"
  using appended_sequence[of n freshID now m] by (auto simp: identified_def appended_def Let_def)

lemma ascending_appended:
  "ascending 0 ms \<Longrightarrow> ascending 0 (ms @ [appended freshID now (last_sequence ms) m])"
  using appended_sequence[of "last_sequence ms" freshID now m] by (simp add: ascending_snoc last_sequence_def)

lemma last_sequence_nonneg: "ascending 0 ms \<Longrightarrow> 0 \<le> last_sequence ms"
  using ascending_bounds[of 0 ms "last ms"] by (auto simp: last_sequence_def)

lemma AppendMessages_messages:
  "\<exists>new. ses_Messages (AppendMessages fresh now ms s) = ses_Messages s @ new \<and> map content new = map content ms"
proof (induction ms arbitrary: fresh s)
  case (Cons m ms)
  then obtain new where
    "ses_Messages (AppendMessages fresh now (m # ms) s) = ses_Messages (AppendMessage (fresh 0) now m s) @ new"
    "map content new = map content ms"
    by (metis AppendMessages.simps(2))
  then show ?case by (intro exI[of _ "_ # new"]) (auto simp: AppendMessage_messages)
qed simp

lemma AppendMessages_identity:
  assumes "\<forall>n. fresh n \<noteq> []" "\<not> IsZero now" "ascending 0 (ses_Messages s)" "\<forall>m \<in> set (ses_Messages s). identified m"
  shows "ascending 0 (ses_Messages (AppendMessages fresh now ms s))
    \<and> (\<forall>m \<in> set (ses_Messages (AppendMessages fresh now ms s)). identified m)"
  using assms
proof (induction ms arbitrary: fresh s)
  case (Cons m ms)
  let ?n = "last_sequence (ses_Messages s)"
  have "identified (appended (fresh 0) now ?n m)"
    using Cons.prems by (intro appended_identified last_sequence_nonneg) auto
  then have "ascending 0 (ses_Messages (AppendMessage (fresh 0) now m s))"
    "\<forall>x \<in> set (ses_Messages (AppendMessage (fresh 0) now m s)). identified x"
    using Cons.prems(4) ascending_appended[OF Cons.prems(3)] by (simp_all add: AppendMessage_messages)
  then show ?case using Cons.IH[of "\<lambda>n. fresh (Suc n)"] Cons.prems(1,2) by simp
qed simp

section \<open>Fingerprints\<close>

lemma stable_message_content: "stable_message env (content m) = stable_message env m"
  by (simp add: stable_message_def content_def IsSynthetic_def)

lemma source_line_content: "source_line env i (content m) = source_line env i m" "has_source (content m) = has_source m"
  by (simp_all add: source_line_def has_source_def content_def)

text \<open>Two histories whose messages agree in what a fingerprint reads have one fingerprint.\<close>

definition same_print :: "HashEnv \<Rightarrow> ChatMessage \<Rightarrow> ChatMessage \<Rightarrow> bool" where
  "same_print env a b \<longleftrightarrow> stable_message env a = stable_message env b \<and> has_source a = has_source b
     \<and> cm_SourceID a = cm_SourceID b \<and> cm_SourceKind a = cm_SourceKind b \<and> cm_SourceTaskID a = cm_SourceTaskID b"

lemma same_print_hash:
  assumes "list_all2 (same_print env) xs ys"
  shows "CompactionSourceHash env xs k = CompactionSourceHash env ys k"
proof -
  have nil: "xs = [] \<longleftrightarrow> ys = []" using assms by auto
  have pre: "list_all2 (same_print env) (take n xs) (take n ys)" for n using assms by simp
  have stable: "list_all2 (same_print env) as bs \<Longrightarrow> map (stable_message env) as = map (stable_message env) bs" for as bs
    by (induction rule: list_all2_induct) (auto simp: same_print_def)
  have lines: "list_all2 (same_print env) as bs \<Longrightarrow>
      map (\<lambda>(i, m). if has_source m then source_line env i m else []) (enumerate j as)
    = map (\<lambda>(i, m). if has_source m then source_line env i m else []) (enumerate j bs)" for as bs j
    by (induction arbitrary: j rule: list_all2_induct) (auto simp: same_print_def source_line_def)
  show ?thesis
    unfolding CompactionSourceHash_def StableMessagesHash_def Let_def
    by (simp only: nil stable[OF pre] lines[OF pre])
qed

lemma same_print_content: "content a = content b \<Longrightarrow> same_print env a b"
  by (cases a; cases b) (simp add: same_print_def content_def stable_message_def has_source_def IsSynthetic_def)

end
