(* ===== verification/RecordFacts.thy ===== *)
theory RecordFacts
  imports SessionFacts
begin

text \<open>
  A history that is stored and loaded again is the same history. What loading changes on purpose is
  in \<open>stored_form\<close>: the identifiers of the records, the status that was not set, and the full content
  of a tool result that was not shortened.
\<close>

definition stored_result :: "ToolResult \<Rightarrow> ToolResult" where
  "stored_result r =
     r\<lparr>tr_Status := (if tr_Status r = ResultStatusUnset then ResultStatusSuccess else tr_Status r),
       tr_FullContent := (if tr_PromptTruncated r then tr_FullContent r else tr_Content r),
       tr_FullErrorMessage := (if tr_PromptTruncated r then tr_FullErrorMessage r else tr_ErrorMessage r)\<rparr>"

definition stored_form :: "ChatMessage \<Rightarrow> ChatMessage" where
  "stored_form m =
     m\<lparr>cm_RecordIDs := [],
       cm_Parts := map (\<lambda>p. p\<lparr>part_ToolResult := map_option stored_result (part_ToolResult p)\<rparr>) (cm_Parts m)\<rparr>"

definition without_records :: "ChatMessage \<Rightarrow> ChatMessage" where
  "without_records m = m\<lparr>cm_RecordIDs := []\<rparr>"

text \<open>
  The messages that the program appends to a session: a text of the system or the user, the text
  and the calls of an assistant message, one tool result.
\<close>

definition shaped :: "ChatMessage \<Rightarrow> bool" where
  "shaped m \<longleftrightarrow>
     (case cm_Role m of
        RoleSystem \<Rightarrow> IsSynthetic m \<and> cm_Reasoning m = [] \<and> cm_Parts m = [TextPart (Message_Text m)]
      | RoleUser \<Rightarrow> cm_Reasoning m = [] \<and> cm_Parts m = [TextPart (Message_Text m)]
      | RoleAssistant \<Rightarrow>
          \<not> IsSynthetic m
          \<and> cm_Parts m = cm_Parts (Assistant (Message_Text m) [] (List.map_filter part_call (cm_Parts m)))
          \<and> list_all (\<lambda>c. tc_Type c = ''function'') (List.map_filter part_call (cm_Parts m))
      | RoleTool \<Rightarrow>
          \<not> IsSynthetic m \<and> cm_Reasoning m = []
          \<and> (case List.map_filter part_result (cm_Parts m) of
               [r] \<Rightarrow> cm_Parts m = cm_Parts (ToolResultMessage r) | _ \<Rightarrow> False))"

definition storable :: "ChatMessage \<Rightarrow> bool" where
  "storable m \<longleftrightarrow> identified m \<and> shaped m"

section \<open>The records of one message\<close>

lemma messageRecords_not_Nil: "shaped m \<Longrightarrow> messageRecords sid m \<noteq> []"
  by (auto simp: shaped_def messageRecords_def Let_def split: Role.splits)

lemma finish_record_fields [simp]:
  "mr_MessageID (finish_record newID t m c n i rec) = cm_ID m"
  "mr_Role (finish_record newID t m c n i rec) = mr_Role rec"
  "mr_SyntheticReason (finish_record newID t m c n i rec) = mr_SyntheticReason rec"
  "mr_Content (finish_record newID t m c n i rec) = mr_Content rec"
  "mr_Reasoning (finish_record newID t m c n i rec) = mr_Reasoning rec"
  "mr_SourceID (finish_record newID t m c n i rec) = cm_SourceID m"
  "mr_SourceKind (finish_record newID t m c n i rec) = cm_SourceKind m"
  "mr_SourceTaskID (finish_record newID t m c n i rec) = cm_SourceTaskID m"
  "record_call (finish_record newID t m c n i rec) = record_call rec"
  "record_result (finish_record newID t m c n i rec) = record_result rec"
  by (simp_all add: finish_record_def record_call_def record_result_def Let_def)

lemma finish_record_identified [simp]:
  "identified m \<Longrightarrow> mr_Sequence (finish_record newID t m c n i rec) = cm_Sequence m"
  "identified m \<Longrightarrow> mr_CreatedAt (finish_record newID t m c n i rec) = cm_CreatedAt m"
  by (simp_all add: finish_record_def identified_def Let_def)

lemma message_to_records_ids: "rec \<in> set (message_to_records newID t sid c m) \<Longrightarrow> mr_MessageID rec = cm_ID m"
  by (auto simp: message_to_records_def Let_def)

lemma records_from_ids:
  "rec \<in> set (records_from newID t sid c ms) \<Longrightarrow> mr_MessageID rec \<in> cm_ID ` set ms"
  by (induction ms arbitrary: c) (auto simp: Let_def dest: message_to_records_ids)

lemma record_call_call_record [simp]:
  "tc_Type call = ''function'' \<Longrightarrow> record_call (call_record sid call) = call"
  by (simp add: record_call_def call_record_def newRecord_def)

lemma record_result_result_record [simp]: "record_result (result_record sid r) = stored_result r"
  by (cases r) (simp add: record_result_def result_record_def newRecord_def stored_result_def Let_def)

lemma call_record_fields [simp]:
  "mr_Role (call_record sid call) = RecordToolCall"
  "mr_Role (newRecord sid role) = role" "mr_Content (newRecord sid role) = []" "mr_Reasoning (newRecord sid role) = []"
  "mr_Role (result_record sid r) = RecordTool"
  by (simp_all add: call_record_def newRecord_def result_record_def Let_def)

section \<open>The records of a history\<close>

text \<open>The inner loop takes the records of a message's own calls and stops before another message's.\<close>

lemma same_sampling_stops:
  assumes "mr_MessageID first \<noteq> []" "\<forall>rec \<in> set rest. mr_MessageID rec \<noteq> mr_MessageID first"
  shows "takeWhile (same_sampling first) rest = []" "dropWhile (same_sampling first) rest = rest"
  using assms by (cases rest; auto simp: same_sampling_def)+

lemma sampling_run:
  assumes "mr_MessageID first \<noteq> []" "\<forall>rec \<in> set rest. mr_MessageID rec \<noteq> mr_MessageID first"
    "\<forall>rec \<in> set calls. mr_Role rec = RecordToolCall \<and> mr_MessageID rec = mr_MessageID first"
  shows "takeWhile (same_sampling first) (calls @ rest) = calls" "dropWhile (same_sampling first) (calls @ rest) = rest"
  using assms same_sampling_stops[OF assms(1,2)]
  by (simp_all add: same_sampling_def takeWhile_append dropWhile_append)

text \<open>The identity of a message, from one of its records.\<close>

lemma messageWithRecord_finish:
  assumes "identified m"
  shows "messageWithRecord x (finish_record newID t m c n i rec)
    = x\<lparr>cm_ID := cm_ID m, cm_RecordIDs := [mr_ID (finish_record newID t m c n i rec)], cm_SourceID := cm_SourceID m,
        cm_SourceKind := cm_SourceKind m, cm_SourceTaskID := cm_SourceTaskID m, cm_Sequence := cm_Sequence m,
        cm_CreatedAt := cm_CreatedAt m\<rparr>"
  using assms by (simp add: messageWithRecord_def identified_def[of m] finish_record_identified)

abbreviation finished :: "(nat \<Rightarrow> string) \<Rightarrow> gotime \<Rightarrow> ChatMessage \<Rightarrow> nat \<Rightarrow> nat \<Rightarrow> nat \<Rightarrow> MessageRecord list \<Rightarrow> MessageRecord list" where
  "finished newID t m c n k recs \<equiv> map (\<lambda>(i, rec). finish_record newID t m c n i rec) (enumerate k recs)"

lemma finished_calls:
  "list_all (\<lambda>x. tc_Type x = ''function'') calls \<Longrightarrow>
    map record_call (finished newID t m c n k (map (call_record sid) calls)) = calls"
  by (induction calls arbitrary: k) auto

lemma finished_call_fields:
  "\<forall>rec \<in> set (finished newID t m c n k (map (call_record sid) calls)).
     mr_Role rec = RecordToolCall \<and> mr_MessageID rec = cm_ID m"
  by (induction calls arbitrary: k) auto

lemma assistant_parts_stored:
  "map (\<lambda>p. p\<lparr>part_ToolResult := map_option stored_result (part_ToolResult p)\<rparr>) (cm_Parts (Assistant text reasoning calls))
    = cm_Parts (Assistant text reasoning2 calls)"
  by (simp add: Assistant_def ToolCallMessage_def TextMessage_def TextPart_def Let_def)

lemma assistant_load:
  assumes "identified m" "shaped m" "cm_Role m = RoleAssistant"
    and calls: "calls = List.map_filter part_call (cm_Parts m)"
  shows "without_records (messageWithRecord (Assistant (Message_Text m) (cm_Reasoning m) calls)
      (finish_record newID t m c n i rec)) = stored_form m"
proof -
  have parts: "cm_Parts m = cm_Parts (Assistant (Message_Text m) [] calls)" "\<not> IsSynthetic m"
    using assms(2,3) calls by (auto simp: shaped_def)
  have "map (\<lambda>p. p\<lparr>part_ToolResult := map_option stored_result (part_ToolResult p)\<rparr>) (cm_Parts m)
      = cm_Parts (Assistant (Message_Text m) (cm_Reasoning m) calls)"
    by (subst parts(1)) (rule assistant_parts_stored)
  then show ?thesis
    using assms(1,3) parts(2)
    by (cases m) (simp add: messageWithRecord_finish stored_form_def without_records_def IsSynthetic_def
        Assistant_def ToolCallMessage_def TextMessage_def Let_def)
qed

lemma load_assistant:
  assumes m: "identified m" "shaped m" "cm_Role m = RoleAssistant"
    and other: "\<forall>rec \<in> set rest. mr_MessageID rec \<noteq> cm_ID m"
  shows "map without_records (messages_from (message_to_records newID t sid c m @ rest))
    = stored_form m # map without_records (messages_from rest)"
proof -
  define calls where "calls = List.map_filter part_call (cm_Parts m)"
  have types: "list_all (\<lambda>x. tc_Type x = ''function'') calls"
    using m(2,3) by (simp add: shaped_def calls_def)
  have idm: "cm_ID m \<noteq> []" using m(1) by (simp add: identified_def)
  let ?n = "length (messageRecords sid m)"
  note load = assistant_load[OF m calls_def]
  consider (body) "Message_Text m \<noteq> [] \<or> cm_Reasoning m \<noteq> []"
    | (calls) "Message_Text m = []" "cm_Reasoning m = []" "calls \<noteq> []"
    | (none) "Message_Text m = []" "cm_Reasoning m = []" "calls = []" by blast
  then show ?thesis
  proof cases
    case body
    let ?t = "(newRecord sid RecordAssistant)\<lparr>mr_Content := Message_Text m, mr_Reasoning := cm_Reasoning m\<rparr>"
    let ?f = "finish_record newID t m c ?n 0 ?t"
    let ?cs = "finished newID t m c ?n 1 (map (call_record sid) calls)"
    have "messageRecords sid m = ?t # map (call_record sid) calls"
      using body m(3) by (auto simp: messageRecords_def calls_def Let_def)
    then have recs: "message_to_records newID t sid c m = ?f # ?cs"
      unfolding message_to_records_def Let_def by simp
    have run: "takeWhile (same_sampling ?f) (?cs @ rest) = ?cs" "dropWhile (same_sampling ?f) (?cs @ rest) = rest"
      by (rule sampling_run; use other idm finished_call_fields in simp)+
    have "without_records (sampling_message ?f ?cs) = stored_form m"
      using load[of newID t c ?n 0 ?t] finished_calls[OF types, of newID t m c ?n 1 sid]
      by (simp add: sampling_message_def without_records_def)
    then show ?thesis unfolding recs using run by simp
  next
    case calls
    then obtain x xs where xs: "calls = x # xs" by (cases calls) auto
    let ?f = "finish_record newID t m c ?n 0 (call_record sid x)"
    let ?cs = "finished newID t m c ?n 1 (map (call_record sid) xs)"
    have "messageRecords sid m = map (call_record sid) calls"
      using calls m(3) by (auto simp: messageRecords_def calls_def Let_def)
    then have recs: "message_to_records newID t sid c m = ?f # ?cs"
      unfolding message_to_records_def Let_def by (simp add: xs)
    have run: "takeWhile (same_sampling ?f) (?cs @ rest) = ?cs" "dropWhile (same_sampling ?f) (?cs @ rest) = rest"
      by (rule sampling_run; use other idm finished_call_fields in simp)+
    have "map record_call (?f # ?cs) = calls"
      using finished_calls[OF types, of newID t m c ?n 0 sid] by (simp add: xs)
    then have "without_records (sampling_message ?f (?f # ?cs)) = stored_form m"
      using load[of newID t c ?n 0 "call_record sid x"] calls
      by (simp add: sampling_message_def without_records_def)
    then show ?thesis unfolding recs using run by simp
  next
    case none
    let ?f = "finish_record newID t m c ?n 0 (newRecord sid RecordAssistant)"
    have "messageRecords sid m = [newRecord sid RecordAssistant]"
      using none m(3) by (auto simp: messageRecords_def calls_def Let_def)
    then have recs: "message_to_records newID t sid c m = [?f]"
      unfolding message_to_records_def Let_def by simp
    have run: "takeWhile (same_sampling ?f) rest = []" "dropWhile (same_sampling ?f) rest = rest"
      by (rule same_sampling_stops; use other idm in simp)+
    have "without_records (sampling_message ?f []) = stored_form m"
      using load[of newID t c ?n 0 "newRecord sid RecordAssistant"] none
      by (simp add: sampling_message_def without_records_def)
    then show ?thesis unfolding recs using run by simp
  qed
qed

lemma load_message:
  assumes m: "storable m" and other: "\<forall>rec \<in> set rest. mr_MessageID rec \<noteq> cm_ID m"
  shows "map without_records (messages_from (message_to_records newID t sid c m @ rest))
    = stored_form m # map without_records (messages_from rest)"
proof (cases "cm_Role m")
  case RoleAssistant
  then show ?thesis using load_assistant m other by (simp add: storable_def)
next
  case RoleSystem
  with m have "identified m" "IsSynthetic m" "cm_Reasoning m = []" and p: "cm_Parts m = [TextPart (Message_Text m)]"
    by (simp_all add: storable_def shaped_def)
  with RoleSystem show ?thesis
    by (simp add: messageRecords_def message_to_records_def Let_def IsSynthetic_def messageWithRecord_finish
        without_records_def)
      (rule ChatMessage.equality; simp add: stored_form_def p SyntheticText_def TextMessage_def TextPart_def)
next
  case RoleUser
  with m have "identified m" "cm_Reasoning m = []" and p: "cm_Parts m = [TextPart (Message_Text m)]"
    by (simp_all add: storable_def shaped_def)
  with RoleUser show ?thesis
    by (simp add: messageRecords_def message_to_records_def Let_def messageWithRecord_finish without_records_def)
      (auto intro!: ChatMessage.equality simp: stored_form_def p SyntheticUserText_def TextMessage_def TextPart_def)
next
  case RoleTool
  then obtain r where "List.map_filter part_result (cm_Parts m) = [r]" "cm_Parts m = cm_Parts (ToolResultMessage r)"
      "\<not> IsSynthetic m" "cm_Reasoning m = []" "identified m"
    using m by (auto simp: storable_def shaped_def split: list.splits)
  with RoleTool show ?thesis
    by (simp add: messageRecords_def message_to_records_def Let_def IsSynthetic_def messageWithRecord_finish
        without_records_def)
      (rule ChatMessage.equality; simp add: stored_form_def ToolResultMessage_def TextMessage_def)
qed

lemma records_from_messages:
  assumes "\<forall>m \<in> set ms. storable m" "distinct (map cm_ID ms)"
  shows "map without_records (messages_from (records_from newID t sid c ms)) = map stored_form ms"
  using assms
proof (induction ms arbitrary: c)
  case (Cons m ms)
  have "\<forall>rec \<in> set (records_from newID t sid (c + length (message_to_records newID t sid c m)) ms).
      mr_MessageID rec \<noteq> cm_ID m"
    using Cons.prems(2) by (auto dest!: records_from_ids)
  then have "map without_records (messages_from (records_from newID t sid c (m # ms)))
    = stored_form m # map without_records
        (messages_from (records_from newID t sid (c + length (message_to_records newID t sid c m)) ms))"
    using load_message[of m] Cons.prems(1) by (simp add: Let_def)
  then show ?case using Cons by simp
qed simp

end
