(* ===== verification/SessionReload.thy ===== *)
theory SessionReload
  imports RecordFacts
begin

text \<open>
  A session that is saved and loaded into another process is the session that was saved: its
  settings up to their normal form, its messages with their identity, and its summary, because the
  fingerprint of the loaded history is the fingerprint of the saved one.
\<close>

section \<open>Fingerprints of a loaded history\<close>

lemma PromptContent_stored [simp]: "PromptContent (stored_result r) = PromptContent r"
  by (simp add: PromptContent_def stored_result_def Let_def)

lemma stable_part_stored:
  "stable_part (p\<lparr>part_ToolResult := map_option stored_result (part_ToolResult p)\<rparr>) = stable_part p"
proof -
  have "tr_ToolCallID (stored_result r) = tr_ToolCallID r" "tr_Name (stored_result r) = tr_Name r" for r
    by (simp_all add: stored_result_def)
  then show ?thesis by (simp add: stable_part_def split: PartType.split option.split)
qed

lemma same_print_stored:
  assumes "without_records b = stored_form a"
  shows "same_print env a b"
proof -
  have eqs: "cm_Role b = cm_Role a" "cm_Reasoning b = cm_Reasoning a" "cm_SyntheticReason b = cm_SyntheticReason a"
    "cm_SourceID b = cm_SourceID a" "cm_SourceKind b = cm_SourceKind a" "cm_SourceTaskID b = cm_SourceTaskID a"
    "cm_Parts b = map (\<lambda>p. p\<lparr>part_ToolResult := map_option stored_result (part_ToolResult p)\<rparr>) (cm_Parts a)"
    using assms by (cases a; cases b; simp add: without_records_def stored_form_def)+
  show ?thesis
    by (simp add: same_print_def stable_message_def has_source_def IsSynthetic_def eqs comp_def stable_part_stored)
qed

lemma same_print_loaded: "map without_records bs = map stored_form as \<Longrightarrow> list_all2 (same_print env) as bs"
proof (induction as arbitrary: bs)
  case (Cons a as)
  then obtain b bs' where "bs = b # bs'" by (cases bs) auto
  with Cons show ?case by (simp add: same_print_stored)
qed simp

section \<open>Normal forms\<close>

lemma normalize_idem [simp]:
  "NormalizeKind (NormalizeKind k) = NormalizeKind k"
  "NormalizeWindowK (NormalizeWindowK w) = NormalizeWindowK w"
  by (simp_all add: NormalizeKind_def NormalizeWindowK_def)

lemma clone_slice_idem [simp]: "clone_slice (clone_slice xs) = clone_slice xs"
  by (cases xs; cases "the xs") (simp_all add: clone_slice_def)

lemma NormalizeAgentMode_idem [simp]: "NormalizeAgentMode (NormalizeAgentMode a) = NormalizeAgentMode a"
  by (cases a) simp_all

lemma NormalizePermissionMode_idem [simp]:
  "NormalizePermissionMode (NormalizePermissionMode p) = NormalizePermissionMode p"
  by (cases p) simp_all

lemma unique_ids_props:
  "distinct (unique_ids seen vs) \<and> set (unique_ids seen vs) \<inter> set seen = {}
    \<and> (\<forall>v \<in> set (unique_ids seen vs). v \<noteq> [] \<and> TrimSpace v = v)"
proof (induction vs arbitrary: seen)
  case (Cons v vs)
  show ?case
  proof (cases "TrimSpace v = [] \<or> TrimSpace v \<in> set seen")
    case False
    then have "unique_ids seen (v # vs) = TrimSpace v # unique_ids (TrimSpace v # seen) vs"
      by (simp add: Let_def)
    then show ?thesis using Cons[of "TrimSpace v # seen"] False by simp
  next
    case True
    then show ?thesis using Cons[of seen] by (simp add: Let_def)
  qed
qed simp

lemma unique_ids_id:
  "distinct vs \<Longrightarrow> set vs \<inter> set seen = {} \<Longrightarrow> \<forall>v \<in> set vs. v \<noteq> [] \<and> TrimSpace v = v \<Longrightarrow> unique_ids seen vs = vs"
  by (induction vs arbitrary: seen) (simp_all add: Let_def)

lemma normalizeUniqueIDs_idem [simp]: "normalizeUniqueIDs (normalizeUniqueIDs vs) = normalizeUniqueIDs vs"
  unfolding normalizeUniqueIDs_def using unique_ids_props[of "[]" vs] by (simp add: unique_ids_id)

lemma NormalizeRAGSettings_idem [simp]: "NormalizeRAGSettings (NormalizeRAGSettings r) = NormalizeRAGSettings r"
  by (simp add: NormalizeRAGSettings_def)

lemma TokenUsage_record [simp]: "TokenUsageFromRecord (TokenUsageRecord u) = u"
  by (simp add: TokenUsageFromRecord_def TokenUsageRecord_def)

section \<open>A summary that matches\<close>

definition no_summary :: "'g Session \<Rightarrow> bool" where
  "no_summary s \<longleftrightarrow> ses_Summary s = [] \<and> ses_CompactionSourceHash s = [] \<and> ses_CompactionCheckpoint s = None"

text \<open>What \<open>CompactSession\<close> leaves behind: a summary with the fingerprint of the messages it stands for.\<close>

definition summary_current :: "SessionEnv \<Rightarrow> 'g Session \<Rightarrow> bool" where
  "summary_current env s \<longleftrightarrow>
     \<not> blank (ses_Summary s) \<and> \<not> blank (ses_CompactionSourceHash s)
     \<and> 1 \<le> ses_CompactedMessages s \<and> ses_CompactedMessages s \<le> int (length (ses_Messages s))
     \<and> CompactionSourceHash (sv_hash env) (ses_Messages s) (ses_CompactedMessages s) = ses_CompactionSourceHash s
     \<and> (case ses_CompactionCheckpoint s of
          None \<Rightarrow> True
        | Some c \<Rightarrow> ckp_Version c = CurrentVersion \<and> Checkpoint_Validate (sv_hash env) c = None
            \<and> ckp_SourceStartMessage c = 0 \<and> ckp_SourceEndMessage c = ses_CompactedMessages s
            \<and> TrimSpace (ckp_SourceHistoryHash c) = ses_CompactionSourceHash s)"

lemma NormalizeCompacted_id:
  "1 \<le> k \<Longrightarrow> k \<le> int (length ms) \<Longrightarrow> int (NormalizeCompactedMessages ms k) = k"
  by (auto simp: NormalizeCompactedMessages_def)

lemma newSession_fields [simp]:
  "ses_Summary (newSession env st) = ist_Summary st"
  "ses_CompactionSourceHash (newSession env st) = ist_CompactionSourceHash st"
  "ses_CompactionCheckpoint (newSession env st) = None"
  "ist_Messages st \<noteq> [] \<Longrightarrow>
     ses_Messages (newSession env st) = normalizeMessageMetadata env (ist_ID st) (ist_Messages st)"
  "ist_Messages st \<noteq> [] \<Longrightarrow> ses_CompactedMessages (newSession env st)
     = int (NormalizeCompactedMessages (normalizeMessageMetadata env (ist_ID st) (ist_Messages st)) (ist_CompactedMessages st))"
  by (simp_all add: newSession_def Let_def)

lemma with_checkpoint_same:
  assumes "ses_CompactionCheckpoint n = None"
    "\<And>c. checkpoint = Some c \<Longrightarrow> ses_Summary n \<noteq> [] \<and> ses_CompactionSourceHash n \<noteq> []
       \<and> 0 < ckp_SourceEndMessage c \<and> ckp_SourceEndMessage c = ses_CompactedMessages n"
  shows "with_checkpoint checkpoint n = n\<lparr>ses_CompactionCheckpoint := checkpoint\<rparr>"
  using assms by (cases n; cases checkpoint) (simp_all add: with_checkpoint_def)

text \<open>Loading keeps a summary whose fingerprint is the one of the loaded messages.\<close>

lemma NewFromState_keeps:
  assumes ms: "ist_Messages st \<noteq> []"
    and s: "s = (newSession env st)\<lparr>ses_CompactionCheckpoint := ist_CompactionCheckpoint st\<rparr>"
    and sum: "no_summary s \<or> summary_current env s"
  shows "NewFromState env st = s"
  using sum
proof
  assume "no_summary s"
  then have none: "ist_CompactionCheckpoint st = None" "ist_Summary st = []"
    unfolding no_summary_def s by simp_all
  have "s = newSession env st"
    unfolding s none by (rule Session.equality) simp_all
  then show ?thesis using ms none
    by (simp add: NewFromState_def with_checkpoint_def rebuild_legacy_def check_summary_def Let_def)
next
  assume cur: "summary_current env s"
  have wc: "with_checkpoint (ist_CompactionCheckpoint st) (newSession env st) = s"
    unfolding s
  proof (rule with_checkpoint_same)
    fix c assume c: "ist_CompactionCheckpoint st = Some c"
    show "ses_Summary (newSession env st) \<noteq> [] \<and> ses_CompactionSourceHash (newSession env st) \<noteq> []
       \<and> 0 < ckp_SourceEndMessage c \<and> ckp_SourceEndMessage c = ses_CompactedMessages (newSession env st)"
      using cur unfolding s summary_current_def by (auto simp: c)
  qed simp
  have rl: "rebuild_legacy env s = s"
    using cur by (auto simp: rebuild_legacy_def summary_current_def CurrentVersion_def split: option.splits)
  have "ses_CompactionCheckpoint s \<noteq> None \<Longrightarrow>
      CompactionCheckpointMatchesCheckpoint (sv_hash env) (ses_Messages s) (ses_CompactionCheckpoint s)"
    using cur by (auto simp: CompactionCheckpointMatchesCheckpoint_def summary_current_def CurrentVersion_def
        split: option.splits)
  then have "check_summary env s = s"
    using cur unfolding check_summary_def summary_current_def Let_def by auto
  then show ?thesis using ms wc rl by (simp add: NewFromState_def Let_def)
qed

section \<open>Reloading\<close>

definition normal_session :: "'g Session \<Rightarrow> 'g Session" where
  "normal_session s =
     s\<lparr>ses_Kind := NormalizeKind (ses_Kind s), ses_AllowedTools := clone_slice (ses_AllowedTools s),
       ses_AgentMode := NormalizeAgentMode (ses_AgentMode s),
       ses_PermissionMode := NormalizePermissionMode (ses_PermissionMode s),
       ses_ContextWindowK := NormalizeWindowK (ses_ContextWindowK s),
       ses_RAGSettings := NormalizeRAGSettings (ses_RAGSettings s),
       ses_CompactedMessages := int (NormalizeCompactedMessages (ses_Messages s) (ses_CompactedMessages s))\<rparr>"

text \<open>The history of a session after its system message.\<close>

definition history_storable :: "SessionEnv \<Rightarrow> 'g Session \<Rightarrow> bool" where
  "history_storable env s \<longleftrightarrow>
     (case ses_Messages s of
        [] \<Rightarrow> False
      | head # rest \<Rightarrow>
          map content [head] = map content (defaultMessages env (ses_SystemInstruction s))
          \<and> list_all storable rest \<and> distinct (map cm_ID rest) \<and> ascending 1 rest)"

text \<open>The messages that are loaded, before and after their metadata are checked.\<close>

lemma without_records_meta:
  "without_records b = stored_form a \<Longrightarrow> cm_Sequence b = cm_Sequence a"
  "without_records b = stored_form a \<Longrightarrow> identified b = identified a"
  by (cases a; cases b; simp add: without_records_def stored_form_def identified_def)+

lemma loaded_meta:
  "map without_records bs = map stored_form as \<Longrightarrow> ascending low as \<Longrightarrow> ascending low bs"
  "map without_records bs = map stored_form as \<Longrightarrow> \<forall>m \<in> set as. identified m \<Longrightarrow> \<forall>m \<in> set bs. identified m"
proof (induction as arbitrary: bs low)
  case (Cons a as)
  {
    case 1
    then show ?case using Cons.IH(1) by (cases bs) (auto simp: without_records_meta(1))
  next
    case 2
    then show ?case using Cons.IH(2) by (cases bs) (auto simp: without_records_meta(2))
  }
qed simp_all

lemma loaded_messages:
  assumes "history_storable env s"
  obtains first loaded where
    "normalizeMessageMetadata env sid (MessagesFromRecords env (MemoryMessages newID t s) (ses_SystemInstruction s))
      = first # loaded"
    "content first = content (hd (ses_Messages s))"
    "map without_records loaded = map stored_form (tl (ses_Messages s))"
    "list_all2 (same_print (sv_hash env)) (ses_Messages s) (first # loaded)"
proof -
  obtain head rest where ms: "ses_Messages s = head # rest" and st: "\<forall>m \<in> set rest. storable m"
    and di: "distinct (map cm_ID rest)" and asc: "ascending 1 rest"
    and head: "map content [head] = map content (defaultMessages env (ses_SystemInstruction s))"
    using assms by (auto simp: history_storable_def list_all_iff split: list.splits)
  obtain d where d: "defaultMessages env (ses_SystemInstruction s) = [d]" "content d = d"
      "cm_Role d = RoleSystem" "cm_SyntheticReason d = SyntheticReasonNone" "cm_Sequence d = 0" "cm_CreatedAt d = 0"
    by (simp add: defaultMessages_def content_def TextMessage_def Let_def)
  then have hd: "content head = d" using head by simp
  have "cm_Role head = RoleSystem" "\<not> IsSynthetic head"
    using hd d by (cases head; auto simp: content_def IsSynthetic_def)+
  then have "message_to_records newID t0 i c head = []" for t0 i c
    by (simp add: message_to_records_def messageRecords_def)
  then obtain t0 where recs: "MemoryMessages newID t s = records_from newID t0 (ses_ID s) 0 rest"
    by (simp add: MemoryMessages_def recordsForMessages_def ms Let_def)
  define loaded where "loaded = messages_from (MemoryMessages newID t s)"
  have ld: "map without_records loaded = map stored_form rest"
    unfolding loaded_def recs by (rule records_from_messages[OF st di])
  define first where "first = normalize_message env sid 0 0 d"
  have seq: "cm_Sequence first = 1"
    by (simp add: first_def normalize_message_def Let_def d IsZero_def)
  have "ascending 1 loaded" "\<forall>m \<in> set loaded. identified m"
    using loaded_meta[OF ld] asc st by (auto simp: storable_def)
  then have "normalizeMessageMetadata env sid (d # loaded) = first # loaded"
    by (simp add: normalizeMessageMetadata_def Let_def first_def[symmetric] seq normalize_from_id)
  moreover have "MessagesFromRecords env (MemoryMessages newID t s) (ses_SystemInstruction s) = d # loaded"
    by (simp add: MessagesFromRecords_def d(1) loaded_def)
  moreover have fd: "content first = content head" by (simp add: first_def hd d(2))
  ultimately show thesis
    using that ld same_print_loaded[OF ld] by (simp add: ms same_print_content)
qed

lemma EnsureInMemory_loads:
  assumes "TrimSpace sid = sid" "sid \<noteq> []" "sto_session st sid = None"
    "getRecord sid = Inr rec" "sr_ID rec = sid" "sr_Model rec \<noteq> []" "listMessages sid = Inr records"
  obtains st' where
    "EnsureInMemory env getRecord listMessages sid setCurrent st
       = Inr ((NewFromState env (state_of_record env rec records))\<lparr>ses_CurrentPlan := sr_CurrentPlan rec\<rparr>, st')"
    "sto_session st' sid
       = Some ((NewFromState env (state_of_record env rec records))\<lparr>ses_CurrentPlan := sr_CurrentPlan rec\<rparr>)"
proof -
  have "ist_ID (state_of_record env rec records) = sid" "ist_Model (state_of_record env rec records) \<noteq> []"
    using assms by (simp_all add: state_of_record_def)
  then show thesis
    using that assms
    by (simp add: EnsureInMemory_def GetSession_def PutSessionState_def SetCurrentPlanForSession_def on_session_def
        sessionByIDLocked_def Let_def split: if_splits)
qed

text \<open>The record that is saved, in the fields that loading reads.\<close>

lemma PrepareSessionRecordForSave_ok:
  assumes "PrepareSessionRecordForSave r stored defaultModel now = Inr rec"
  obtains created ttl where "rec = r\<lparr>sr_Model := (if sr_Model r = [] then defaultModel else sr_Model r),
      sr_Kind := NormalizeKind (sr_Kind r),
      sr_AgentMode := (if sr_AgentMode r = AgentModeOther [] then AgentModeChat else sr_AgentMode r),
      sr_PermissionMode := (if sr_PermissionMode r = PermissionModeOther [] then PermissionModeAsk
                            else sr_PermissionMode r),
      sr_ContextWindowK := NormalizeWindowK (sr_ContextWindowK r),
      sr_RAGSettings := NormalizeRAGSettings (sr_RAGSettings r),
      sr_CreatedAt := created, sr_Title := ttl, sr_UpdatedAt := now\<rparr>"
proof -
  have sid: "sr_ID r \<noteq> []" using assms by (auto simp: PrepareSessionRecordForSave_def)
  show thesis
  proof (cases "ValidateRAGSettings (NormalizeRAGSettings (sr_RAGSettings r))")
    case None
    show thesis
      by (rule that, rule sym, rule sum.inject(2)[THEN iffD1],
          rule trans[OF _ assms, unfolded PrepareSessionRecordForSave_def Let_def], simp only: sid if_False None option.case)
  next
    case (Some e)
    then show thesis using assms sid by (simp add: PrepareSessionRecordForSave_def Let_def)
  qed
qed

lemma normal_modes [simp]:
  "NormalizeAgentMode a \<noteq> AgentModeOther x" "NormalizePermissionMode p \<noteq> PermissionModeOther x"
  by (cases a; simp) (cases p; simp)

lemma prepared_record:
  assumes prepared: "PrepareSessionRecordForSave
      (BuildSessionRecord noSettings (ses_ID s) (ses_Model s) title defaultModel (Some s) existing now)
      stored defaultModel2 now2 = Inr rec"
    and "ses_Model s \<noteq> []"
  shows "sr_ID rec = ses_ID s" "sr_Model rec = ses_Model s" "sr_CurrentPlan rec = ses_CurrentPlan s"
    "sr_SystemInstruction rec = ses_SystemInstruction s"
    "(newSession env (state_of_record env rec records))\<lparr>ses_CompactionCheckpoint := sr_CompactionCheckpoint rec\<rparr>
      = (normal_session s)\<lparr>ses_CurrentPlan := None,
           ses_Messages := normalizeMessageMetadata env (ses_ID s) (MessagesFromRecords env records (ses_SystemInstruction s)),
           ses_CompactedMessages := int (NormalizeCompactedMessages
             (normalizeMessageMetadata env (ses_ID s) (MessagesFromRecords env records (ses_SystemInstruction s)))
             (ses_CompactedMessages s))\<rparr>"
proof -
  define r where "r = record_of_session now s (fresh_record noSettings (ses_ID s) (ses_Model s) title defaultModel)"
  have "BuildSessionRecord noSettings (ses_ID s) (ses_Model s) title defaultModel (Some s) existing now = r"
    by (simp add: BuildSessionRecord_def r_def Let_def)
  with prepared have "PrepareSessionRecordForSave r stored defaultModel2 now2 = Inr rec" by simp
  then obtain created ttl where rec0: "rec = r\<lparr>sr_Model := (if sr_Model r = [] then defaultModel2 else sr_Model r),
      sr_Kind := NormalizeKind (sr_Kind r),
      sr_AgentMode := (if sr_AgentMode r = AgentModeOther [] then AgentModeChat else sr_AgentMode r),
      sr_PermissionMode := (if sr_PermissionMode r = PermissionModeOther [] then PermissionModeAsk
                            else sr_PermissionMode r),
      sr_ContextWindowK := NormalizeWindowK (sr_ContextWindowK r),
      sr_RAGSettings := NormalizeRAGSettings (sr_RAGSettings r),
      sr_CreatedAt := created, sr_Title := ttl, sr_UpdatedAt := now2\<rparr>"
    by (rule PrepareSessionRecordForSave_ok)
  have fields [simp]: "sr_ID r = ses_ID s" "sr_Kind r = NormalizeKind (ses_Kind s)"
    "sr_Model r = ses_Model s" "sr_AgentMode r = NormalizeAgentMode (ses_AgentMode s)"
    "sr_PermissionMode r = NormalizePermissionMode (ses_PermissionMode s)"
    "sr_ContextWindowK r = NormalizeWindowK (ses_ContextWindowK s)"
    "sr_RAGSettings r = NormalizeRAGSettings (ses_RAGSettings s)"
    using assms(2) by (simp_all add: r_def record_of_session_def fresh_record_def CloneRAGSettings_def)
  note rec = rec0[unfolded fields, simplified assms(2) normal_modes if_False]
  show "sr_ID rec = ses_ID s" "sr_Model rec = ses_Model s" "sr_CurrentPlan rec = ses_CurrentPlan s"
    "sr_SystemInstruction rec = ses_SystemInstruction s"
    using assms(2) by (simp_all add: rec r_def record_of_session_def fresh_record_def)
  show "(newSession env (state_of_record env rec records))\<lparr>ses_CompactionCheckpoint := sr_CompactionCheckpoint rec\<rparr>
      = (normal_session s)\<lparr>ses_CurrentPlan := None,
           ses_Messages := normalizeMessageMetadata env (ses_ID s) (MessagesFromRecords env records (ses_SystemInstruction s)),
           ses_CompactedMessages := int (NormalizeCompactedMessages
             (normalizeMessageMetadata env (ses_ID s) (MessagesFromRecords env records (ses_SystemInstruction s)))
             (ses_CompactedMessages s))\<rparr>"
    by (rule Session.equality; simp add: rec r_def record_of_session_def fresh_record_def state_of_record_def
        newSession_def normal_session_def CloneRAGSettings_def MessagesFromRecords_def defaultMessages_def Let_def)
qed

text \<open>
  C4: A session that is saved (the record prepared from it, and the records of its messages) and
  loaded into a memory that does not hold it comes back as it was: every setting in its normal
  form, the usage, the plan, the summary with its fingerprint and checkpoint, and the messages after
  the system message with their identities, sequence numbers, sources, calls and results.
\<close>

theorem session_survives_storage:
  assumes "history_storable env s" "no_summary s \<or> summary_current env s"
    "TrimSpace (ses_ID s) = ses_ID s" "ses_ID s \<noteq> []" "ses_Model s \<noteq> []"
    "PrepareSessionRecordForSave
      (BuildSessionRecord noSettings (ses_ID s) (ses_Model s) title defaultModel (Some s) existing now)
      stored defaultModel2 now2 = Inr rec"
    "getRecord (ses_ID s) = Inr rec" "listMessages (ses_ID s) = Inr (MemoryMessages newID t s)"
    "sto_session st (ses_ID s) = None"
  shows "\<exists>loaded st'. EnsureInMemory env getRecord listMessages (ses_ID s) setCurrent st = Inr (loaded, st')
    \<and> sto_session st' (ses_ID s) = Some loaded
    \<and> loaded = (normal_session s)\<lparr>ses_Messages := ses_Messages loaded\<rparr>
    \<and> content (hd (ses_Messages loaded)) = content (hd (ses_Messages s))
    \<and> map without_records (tl (ses_Messages loaded)) = map stored_form (tl (ses_Messages s))"
proof -
  note fields = prepared_record[OF assms(6,5)]
  define records where "records = MemoryMessages newID t s"
  define state where "state = state_of_record env rec records"
  obtain first rest where ms:
    "normalizeMessageMetadata env (ses_ID s) (MessagesFromRecords env records (ses_SystemInstruction s)) = first # rest"
    "content first = content (hd (ses_Messages s))"
    "map without_records rest = map stored_form (tl (ses_Messages s))"
    "list_all2 (same_print (sv_hash env)) (ses_Messages s) (first # rest)"
    using loaded_messages[OF assms(1)] unfolding records_def by metis
  have len: "length (ses_Messages s) = length (first # rest)" using ms(4) by (rule list_all2_lengthD)
  have same: "NormalizeCompactedMessages (first # rest) k = NormalizeCompactedMessages (ses_Messages s) k" for k
    using len by (auto simp: NormalizeCompactedMessages_def)
  define s0 where "s0 = (normal_session s)\<lparr>ses_CurrentPlan := None, ses_Messages := first # rest\<rparr>"
  have new: "(newSession env state)\<lparr>ses_CompactionCheckpoint := ist_CompactionCheckpoint state\<rparr> = s0"
    using fields(5)[of env records] unfolding ms(1) same state_def s0_def
    by (simp add: state_of_record_def normal_session_def)
  have "no_summary s \<Longrightarrow> no_summary s0"
    by (simp add: no_summary_def s0_def normal_session_def)
  moreover have "summary_current env s \<Longrightarrow> summary_current env s0"
    using len same_print_hash[OF ms(4)]
    by (simp add: summary_current_def s0_def normal_session_def NormalizeCompacted_id split: option.splits)
  ultimately have "NewFromState env state = s0"
    using assms(2) by (intro NewFromState_keeps[OF _ new[symmetric]])
      (auto simp: state_def state_of_record_def MessagesFromRecords_def defaultMessages_def Let_def)
  moreover have "sr_Model rec \<noteq> []" "listMessages (ses_ID s) = Inr records"
    using assms(5,8) fields(2) by (simp_all add: records_def)
  ultimately obtain st' where
    "EnsureInMemory env getRecord listMessages (ses_ID s) setCurrent st
      = Inr (s0\<lparr>ses_CurrentPlan := ses_CurrentPlan s\<rparr>, st')"
    "sto_session st' (ses_ID s) = Some (s0\<lparr>ses_CurrentPlan := ses_CurrentPlan s\<rparr>)"
    using EnsureInMemory_loads[where getRecord=getRecord and listMessages=listMessages and sid="ses_ID s" and env=env
        and setCurrent=setCurrent and records=records, OF assms(3,4,9,7) fields(1)] fields(3)
    unfolding state_def by metis
  moreover have "s0\<lparr>ses_CurrentPlan := ses_CurrentPlan s\<rparr> = (normal_session s)\<lparr>ses_Messages := first # rest\<rparr>"
    by (rule Session.equality) (simp_all add: s0_def normal_session_def)
  ultimately show ?thesis using ms(2,3) by auto
qed

definition sample_senv :: SessionEnv where
  "sample_senv =
     \<lparr>sv_hash = \<lparr>hv_sha256 = (\<lambda>_. ''h''), hv_printable = (\<lambda>_. True), hv_DecodeJSON = (\<lambda>_. True)\<rparr>,
      sv_systemPrompt = ''p'', sv_subagentSystemPrompt = ''q''\<rparr>"

definition sample_stored_messages :: "ChatMessage list" where
  "sample_stored_messages =
     [(TextMessage RoleSystem ''p'')\<lparr>cm_ID := ''s'', cm_Sequence := 1, cm_CreatedAt := 1\<rparr>,
      (TextMessage RoleUser ''do it'')\<lparr>cm_ID := ''u'', cm_Sequence := 5, cm_CreatedAt := 9\<rparr>,
      (Assistant ''ok'' ''why'' [\<lparr>tc_ID = ''c1'', tc_Type = ''function'', tc_Name = ''ls'', tc_Arguments = ''{}''\<rparr>])
        \<lparr>cm_ID := ''a'', cm_Sequence := 6, cm_CreatedAt := 9\<rparr>,
      (ToolResultMessage \<lparr>tr_ToolCallID = ''c1'', tr_Name = ''ls'', tr_Content = ''f'', tr_Status = ResultStatusUnset,
          tr_ErrorCode = [], tr_ErrorMessage = [], tr_Truncated = False, tr_FullContent = [], tr_FullErrorMessage = [],
          tr_PromptTruncated = False\<rparr>)\<lparr>cm_ID := ''t'', cm_Sequence := 7, cm_CreatedAt := 9, cm_SourceID := ''e1''\<rparr>]"

definition sample_stored_session :: "unit Session" where
  "sample_stored_session =
     \<lparr>ses_ID = ''s1'', ses_Kind = KindUser, ses_ParentSessionID = [], ses_ParentTaskID = [],
      ses_AgentDefinitionID = [], ses_AgentDefinitionVer = 0, ses_SystemInstruction = [], ses_AllowedTools = None,
      ses_EnforceToolAllowlist = False, ses_WorkspaceRoot = [], ses_WorkspaceSandboxID = [], ses_MaxToolRounds = 0,
      ses_Model = ''m'', ses_AgentMode = AgentModePlan, ses_PermissionMode = PermissionModeAsk,
      ses_ContextWindowK = 0, ses_Summary = ''sum'', ses_CompactedMessages = 2, ses_CompactionSourceHash = ''h'',
      ses_CompactionCheckpoint = Some \<lparr>ckp_Version = 1, ckp_SourceStartMessage = 0, ckp_SourceEndMessage = 2,
        ckp_SourceHistoryHash = ''h'', ckp_Summary = ''sum'', ckp_CreatedAt = 3\<rparr>,
      ses_Usage = 0, ses_LastUsage = 0, ses_CurrentPlan = None,
      ses_RAGSettings = \<lparr>rag_Mode = RetrievalModeAuto, rag_KnowledgeBaseIDs = [], rag_CategoryIDs = [], rag_TopK = 8\<rparr>,
      ses_GenerationSettings = (), ses_StyleInstruction = [], ses_Messages = sample_stored_messages\<rparr>"

definition sample_stored_record :: "store_error + unit SessionRecord" where
  "sample_stored_record =
     PrepareSessionRecordForSave
       (BuildSessionRecord () (ses_ID sample_stored_session) (ses_Model sample_stored_session) [] ''m''
         (Some sample_stored_session) None 20) None ''m'' 20"

lemma sample_storable: "history_storable sample_senv sample_stored_session"
  by (simp add: history_storable_def sample_stored_session_def sample_stored_messages_def sample_senv_def
      defaultMessages_def content_def TextMessage_def storable_def identified_def shaped_def IsZero_def Message_Text_def
      TextPart_def Assistant_def ToolCallMessage_def ToolResultMessage_def IsSynthetic_def part_call_def
      part_result_def map_filter_simps Let_def)

lemma sample_hash: "CompactionSourceHash (sv_hash sample_senv) sample_stored_messages 2 = ''h''"
  by (simp add: CompactionSourceHash_def StableMessagesHash_def StableTextHash_def sample_stored_messages_def
      sample_senv_def stable_message_def stable_part_def TextMessage_def TextPart_def IsSynthetic_def has_source_def
      source_line_def newline_def Let_def TrimSpace_def runes_ascii trim_list_def IsSpace_def rune_value_def byte_def)

lemma sample_current: "summary_current sample_senv sample_stored_session"
proof -
  have "TrimSpace ''sum'' = ''sum''" "TrimSpace ''h'' = ''h''" by (simp_all add: visible_eval)
  then show ?thesis
    using sample_hash
    by (simp add: summary_current_def sample_stored_session_def CurrentVersion_def Checkpoint_Validate_def)
      (simp add: sample_senv_def sample_stored_messages_def)
qed

lemma sample_prepared: "\<exists>rec. sample_stored_record = Inr rec"
  by (simp add: sample_stored_record_def PrepareSessionRecordForSave_def BuildSessionRecord_def record_of_session_def
      fresh_record_def sample_stored_session_def ValidateRAGSettings_def NormalizeRAGSettings_def CloneRAGSettings_def
      normalizeUniqueIDs_def Let_def)

theorem session_survives_storage_witness:
  "\<exists>rec loaded st'. sample_stored_record = Inr rec
    \<and> EnsureInMemory sample_senv (\<lambda>_. Inr rec) (\<lambda>_. Inr (MemoryMessages (\<lambda>_. ''n'') 30 sample_stored_session)) ''s1'' True
        (NewStore ''m'') = Inr (loaded, st')
    \<and> ses_Summary loaded = ''sum'' \<and> map cm_ID (tl (ses_Messages loaded)) = [''u'', ''a'', ''t'']"
proof -
  obtain rec where rec: "sample_stored_record = Inr rec" using sample_prepared by blast
  have sid: "ses_ID sample_stored_session = ''s1''" "ses_Model sample_stored_session \<noteq> []"
    "TrimSpace ''s1'' = ''s1''"
    by (simp_all add: sample_stored_session_def visible_eval)
  obtain loaded st' where l:
    "EnsureInMemory sample_senv (\<lambda>_. Inr rec) (\<lambda>_. Inr (MemoryMessages (\<lambda>_. ''n'') 30 sample_stored_session)) ''s1'' True
       (NewStore ''m'') = Inr (loaded, st')"
    "loaded = (normal_session sample_stored_session)\<lparr>ses_Messages := ses_Messages loaded\<rparr>"
    "map without_records (tl (ses_Messages loaded)) = map stored_form (tl (ses_Messages sample_stored_session))"
    using session_survives_storage[OF sample_storable disjI2[OF sample_current], where getRecord = "\<lambda>_. Inr rec"
        and listMessages = "\<lambda>_. Inr (MemoryMessages (\<lambda>_. ''n'') 30 sample_stored_session)" and st = "NewStore ''m''"
        and setCurrent = True and newID = "\<lambda>_. ''n''" and t = 30, OF _ _ _ rec[unfolded sample_stored_record_def]] sid
    by (auto simp: NewStore_def Let_def)
  have "ses_Summary loaded = ''sum''"
    by (subst l(2)) (simp add: normal_session_def sample_stored_session_def)
  moreover have "map cm_ID (map without_records (tl (ses_Messages loaded))) = [''u'', ''a'', ''t'']"
    by (simp only: l(3)) (simp add: stored_form_def sample_stored_session_def sample_stored_messages_def)
  ultimately show ?thesis using rec l(1) by (auto simp: comp_def without_records_def)
qed

end
