(* ===== verification/SessionMachine.thy ===== *)
theory SessionMachine
  imports SessionReload Machine
begin

text \<open>
  The session store as a machine: one step per operation of \<open>SessionStore\<close>, beside the snapshots
  that its clients take to put back later. Every session stays well formed, and the store refines a
  log of transcripts, in which the settings, the identities and the summaries of sessions are gone.
\<close>

datatype 'g store_op =
    NewSessionOp string 'g
  | PutSessionOp "'g InitialState" bool
  | SetDefaultModelOp string
  | UseSessionOp string
  | RemoveSessionOp string
  | TakeSnapshotOp string
  | RestoreSnapshotOp nat
  | UserTurnOp "nat \<Rightarrow> string" gotime string string string string SyntheticReason string string string
  | AppendMessageOp string gotime string ChatMessage
  | AppendAssistantOp string gotime string ChatMessage
  | TrimOp string
  | AddUsageOp string TokenUsage
  | ClearSessionOp string
  | SwitchModelOp string
  | SwitchModelForSessionOp string string
  | SetPermissionModeOp string PermissionMode
  | SetAgentModeOp string AgentMode
  | SetCurrentPlanOp string "Plan option"
  | SetContextWindowOp string int
  | SetGenerationOp string 'g
  | SetStyleOp string string
  | SetRAGOp string RAGSettings
  | SetSummaryOp string string int string "Checkpoint option"

type_synonym 'g store_state = "'g Store \<times> 'g Session list"

text \<open>An operation that fails changes nothing.\<close>

definition settle :: "'g Store \<Rightarrow> store_error + 'g Store \<Rightarrow> 'g Store" where
  "settle st r = (case r of Inl _ \<Rightarrow> st | Inr st' \<Rightarrow> st')"

fun store_result :: "SessionEnv \<Rightarrow> 'g Session list \<Rightarrow> 'g Store \<Rightarrow> 'g store_op \<Rightarrow> store_error + 'g Store" where
  "store_result env taken st (NewSessionOp freshID noSettings) = Inr (NewSession env noSettings freshID st)"
| "store_result env taken st (PutSessionOp state setCurrent) = PutSessionState env state setCurrent st"
| "store_result env taken st (SetDefaultModelOp model) = Inr (SetDefaultModel model st)"
| "store_result env taken st (UseSessionOp sid) = UseSession sid st"
| "store_result env taken st (RemoveSessionOp sid) = RemoveSession sid st"
| "store_result env taken st (TakeSnapshotOp sid) = Inr st"
| "store_result env taken st (RestoreSnapshotOp n) =
     RestoreSession (if n < length taken then Some (taken ! n) else None) st"
| "store_result env taken st (UserTurnOp fresh now sid rag instruction input reason source kind task) =
     AddUserTurnWithMetadataTo fresh now sid rag instruction input reason source kind task st"
| "store_result env taken st (AppendMessageOp freshID now sid m) = AppendMessageTo freshID now sid m st"
| "store_result env taken st (AppendAssistantOp freshID now sid m) = AppendAssistantMessageTo freshID now sid m st"
| "store_result env taken st (TrimOp sid) = map_sum (\<lambda>e. e) snd (TrimAfterLastUserMessage sid st)"
| "store_result env taken st (AddUsageOp sid usage) = AddUsageTo sid usage st"
| "store_result env taken st (ClearSessionOp sid) = ClearSession env sid st"
| "store_result env taken st (SwitchModelOp model) = SwitchModel model st"
| "store_result env taken st (SwitchModelForSessionOp sid model) = SwitchModelForSession sid model st"
| "store_result env taken st (SetPermissionModeOp sid mode) = SetPermissionModeForSession sid mode st"
| "store_result env taken st (SetAgentModeOp sid mode) = SetAgentModeForSession sid mode st"
| "store_result env taken st (SetCurrentPlanOp sid plan) = SetCurrentPlanForSession sid plan st"
| "store_result env taken st (SetContextWindowOp sid k) = SetContextWindowKForSession sid k st"
| "store_result env taken st (SetGenerationOp sid g) = SetGenerationSettingsForSession sid g st"
| "store_result env taken st (SetStyleOp sid style) = SetStyleInstructionForSession sid style st"
| "store_result env taken st (SetRAGOp sid settings) = SetRAGSettingsForSession sid settings st"
| "store_result env taken st (SetSummaryOp sid summary compacted hash checkpoint) =
     setSummaryForSession sid summary compacted hash checkpoint st"

fun take_snapshot :: "'g Store \<Rightarrow> 'g store_op \<Rightarrow> 'g Session list" where
  "take_snapshot st (TakeSnapshotOp sid) =
     (case sto_session st sid of None \<Rightarrow> [] | Some s \<Rightarrow> [Session_Clone s])"
| "take_snapshot st _ = []"

definition store_step :: "SessionEnv \<Rightarrow> 'g store_state \<Rightarrow> 'g store_op \<Rightarrow> 'g store_state" where
  "store_step env state op =
     (case state of (st, taken) \<Rightarrow>
        (settle st (store_result env taken st op), taken @ take_snapshot st op))"

section \<open>Well-formed sessions\<close>

definition session_ok :: "'g Session \<Rightarrow> bool" where
  "session_ok s \<longleftrightarrow> ascending (-1) (ses_Messages s)
     \<and> NormalizeKind (ses_Kind s) = ses_Kind s
     \<and> NormalizeAgentMode (ses_AgentMode s) = ses_AgentMode s
     \<and> NormalizePermissionMode (ses_PermissionMode s) = ses_PermissionMode s
     \<and> NormalizeRAGSettings (ses_RAGSettings s) = ses_RAGSettings s
     \<and> clone_slice (ses_AllowedTools s) = ses_AllowedTools s"

definition sessions_ok :: "'g Store \<Rightarrow> bool" where
  "sessions_ok st \<longleftrightarrow> (\<forall>k s. sto_session st k = Some s \<longrightarrow> ses_ID s = k \<and> session_ok s)"

definition store_inv :: "'g store_state \<Rightarrow> bool" where
  "store_inv state \<longleftrightarrow> sessions_ok (fst state) \<and> (\<forall>s \<in> set (snd state). session_ok s)"

lemma ascending_weaken: "ascending low ms \<Longrightarrow> low' \<le> low \<Longrightarrow> ascending low' ms"
  by (cases ms) auto

lemma session_ok_append:
  "session_ok s \<Longrightarrow> session_ok (AppendMessage freshID now m s) \<and> ses_ID (AppendMessage freshID now m s) = ses_ID s"
  using appended_sequence[of "last_sequence (ses_Messages s)" freshID now m]
  by (cases "ses_Messages s = []") (simp_all add: session_ok_def AppendMessage_messages ascending_snoc last_sequence_def)

lemma session_ok_appends:
  "session_ok s \<Longrightarrow> session_ok (AppendMessages fresh now ms s) \<and> ses_ID (AppendMessages fresh now ms s) = ses_ID s"
  by (induction ms arbitrary: fresh s) (simp_all add: session_ok_append)

text \<open>What a session loads with, before and after its summary is checked.\<close>

lemma summary_stages_ok:
  "session_ok (check_summary env s) = session_ok s" "ses_ID (check_summary env s) = ses_ID s"
  "session_ok (rebuild_legacy env s) = session_ok s" "ses_ID (rebuild_legacy env s) = ses_ID s"
  "session_ok (with_checkpoint c s) = session_ok s" "ses_ID (with_checkpoint c s) = ses_ID s"
  by (simp_all add: session_ok_def check_summary_def rebuild_legacy_def with_checkpoint_def without_summary_def Let_def
      split: option.split)

lemma newSession_ok: "session_ok (newSession env st)"
proof -
  have "ascending (- 1) (ses_Messages (newSession env st))"
    unfolding newSession_def Let_def
    using ascending_weaken[OF normalized_ascending[of env "ist_ID st"
        "if ist_Messages st = [] then defaultMessages env [] else ist_Messages st"], of "-1"]
    by simp
  then show ?thesis by (simp add: session_ok_def newSession_def CloneRAGSettings_def Let_def)
qed

lemma session_ok_messages:
  "session_ok s \<Longrightarrow> ascending (-1) ms \<Longrightarrow> session_ok (s\<lparr>ses_Messages := ms\<rparr>)"
  by (simp add: session_ok_def)

lemma default_ascending: "ascending (-1) (defaultMessages env si)"
  by (simp add: defaultMessages_def TextMessage_def Let_def)

lemma NewFromState_ok [simp]: "session_ok (NewFromState env st)" "ses_ID (NewFromState env st) = ist_ID st"
proof -
  have "ses_ID (newSession env st) = ist_ID st" by (simp add: newSession_def Let_def)
  then show "session_ok (NewFromState env st)" "ses_ID (NewFromState env st) = ist_ID st"
    by (simp_all add: NewFromState_def summary_stages_ok newSession_ok session_ok_messages default_ascending Let_def)
qed

lemma ascending_take: "ascending low ms \<Longrightarrow> ascending low (take n ms)"
  using ascending_append[of low "take n ms" "drop n ms"] by simp

lemma Session_Clone_ok: "session_ok s \<Longrightarrow> Session_Clone s = s"
  by (cases s) (simp add: Session_Clone_def session_ok_def CloneRAGSettings_def)

text \<open>An update of one session, in place.\<close>

lemma on_session_ok:
  assumes "sessions_ok st" "\<And>s. session_ok s \<Longrightarrow> session_ok (f s) \<and> ses_ID (f s) = ses_ID s"
  shows "sessions_ok (settle st (on_session sid f st))"
  using assms by (auto simp: sessions_ok_def on_session_def sessionByIDLocked_def settle_def split: option.split)

lemma store_step_inv: "store_inv state \<Longrightarrow> store_inv (store_step env state op)"
proof -
  assume inv: "store_inv state"
  obtain st taken where state: "state = (st, taken)" by (cases state)
  have ok: "sessions_ok st" "\<forall>s \<in> set taken. session_ok s" using inv by (simp_all add: store_inv_def state)
  have snap: "\<forall>s \<in> set (take_snapshot st op). session_ok s"
    using ok(1) by (cases op) (auto simp: sessions_ok_def Session_Clone_ok split: option.split)
  have "sessions_ok (settle st (store_result env taken st op))"
  proof (cases op)
    case (NewSessionOp freshID noSettings)
    then show ?thesis
      using ok(1) by (simp add: sessions_ok_def NewSession_def settle_def Let_def blank_state_def)
  next
    case (PutSessionOp ist setCurrent)
    then show ?thesis
      using ok(1) by (simp add: sessions_ok_def PutSessionState_def settle_def Let_def)
  next
    case (UseSessionOp sid)
    then show ?thesis using ok(1) by (auto simp: sessions_ok_def UseSession_def settle_def split: option.split)
  next
    case (RestoreSnapshotOp n)
    then show ?thesis using ok
      by (auto simp: sessions_ok_def RestoreSession_def settle_def Session_Clone_ok)
  next
    case (TrimOp sid)
    then show ?thesis using ok(1)
      by (auto simp: sessions_ok_def TrimAfterLastUserMessage_def sessionByIDLocked_def settle_def Let_def session_ok_def
          ascending_take split: option.split)
  next
    case (AppendAssistantOp freshID now sid m)
    then show ?thesis using ok(1) on_session_ok[OF ok(1), of "AppendMessage freshID now m" sid]
      by (simp add: AppendAssistantMessageTo_def AppendMessageTo_def session_ok_append) (simp add: settle_def)
  next
    case (SwitchModelOp model)
    then show ?thesis using ok(1)
      by (auto simp: sessions_ok_def SwitchModel_def settle_def Let_def session_ok_def split: option.split)
  next
    case (SwitchModelForSessionOp sid model)
    then show ?thesis using ok(1)
      by (auto simp: sessions_ok_def SwitchModelForSession_def on_session_def sessionByIDLocked_def settle_def
          session_ok_def split: option.split)
  next
    case (SetRAGOp sid settings)
    then show ?thesis using ok(1)
      on_session_ok[OF ok(1), of "\<lambda>s. s\<lparr>ses_RAGSettings := CloneRAGSettings (NormalizeRAGSettings settings)\<rparr>" sid]
      by (simp add: SetRAGSettingsForSession_def session_ok_def CloneRAGSettings_def Let_def split: option.split)
        (simp add: settle_def)
  next
    case (ClearSessionOp sid)
    then show ?thesis
      unfolding ClearSession_def using ascending_weaken[OF normalized_ascending, of "-1"]
      by (simp add: ClearSession_def) (rule on_session_ok[OF ok(1)], simp add: Session_Clear_def session_ok_def)
  next
    case (UserTurnOp fresh now sid rag instruction input reason source kind task)
    then show ?thesis
      by (simp add: AddUserTurnWithMetadataTo_def)
        (rule on_session_ok[OF ok(1)], simp add: AddUserTurnWithMetadata_def session_ok_appends)
  next
    case (AppendMessageOp freshID now sid m)
    then show ?thesis
      by (simp add: AppendMessageTo_def) (rule on_session_ok[OF ok(1)], simp add: session_ok_append)
  next
    case (SetDefaultModelOp model)
    then show ?thesis using ok(1) by (simp add: sessions_ok_def SetDefaultModel_def settle_def Let_def)
  next
    case (RemoveSessionOp sid)
    then show ?thesis using ok(1) by (simp add: sessions_ok_def RemoveSession_def settle_def)
  next
    case (TakeSnapshotOp sid)
    then show ?thesis using ok(1) by (simp add: settle_def)
  qed (simp add: AddUsageTo_def SetPermissionModeForSession_def SetAgentModeForSession_def SetCurrentPlanForSession_def
      SetContextWindowKForSession_def SetGenerationSettingsForSession_def SetStyleInstructionForSession_def
      setSummaryForSession_def, rule on_session_ok[OF ok(1)], simp add: session_ok_def AddUsage_def)+
  then show ?thesis using ok(2) snap by (auto simp: store_inv_def store_step_def state)
qed

section \<open>Transcripts\<close>

text \<open>
  The specification: a transcript per session, the instruction it was started with and its
  messages without their metadata. The operations on settings are not operations of it.
\<close>

record Transcripts =
  tr_log :: "string \<rightharpoonup> string \<times> ChatMessage list"
  tr_saved :: "(string \<times> string \<times> ChatMessage list) list"

definition start_log :: "SessionEnv \<Rightarrow> string \<Rightarrow> string \<Rightarrow> ChatMessage list \<Rightarrow> Transcripts \<Rightarrow> Transcripts" where
  "start_log env sid instruction ms t =
     t\<lparr>tr_log := (tr_log t)(sid \<mapsto>
        (instruction, if ms = [] then defaultMessages env instruction else map content ms))\<rparr>"

definition change_log ::
  "string \<Rightarrow> (string \<Rightarrow> ChatMessage list \<Rightarrow> ChatMessage list) \<Rightarrow> Transcripts \<Rightarrow> Transcripts" where
  "change_log sid f t =
     (case tr_log t sid of
        Some (instruction, ms) \<Rightarrow>
          if sid = [] then t else t\<lparr>tr_log := (tr_log t)(sid \<mapsto> (instruction, f instruction ms))\<rparr>
      | None \<Rightarrow> t)"

text \<open>What regeneration keeps: everything up to the last message of the user, if that is not blank.\<close>

definition trimmed :: "ChatMessage list \<Rightarrow> ChatMessage list" where
  "trimmed ms =
     (case last_user_index ms (length ms) of
        None \<Rightarrow> ms
      | Some i \<Rightarrow> if blank (Message_Text (ms ! i)) then ms else take (i + 1) ms)"

fun transcript_step :: "SessionEnv \<Rightarrow> Transcripts \<Rightarrow> 'g store_op \<Rightarrow> Transcripts" where
  "transcript_step env t (NewSessionOp sid noSettings) = start_log env sid [] [] t"
| "transcript_step env t (PutSessionOp state setCurrent) =
     (if ist_ID state = [] then t else start_log env (ist_ID state) (ist_SystemInstruction state) (ist_Messages state) t)"
| "transcript_step env t (RemoveSessionOp sid) =
     (if sid = [] then t else t\<lparr>tr_log := (tr_log t)(sid := None)\<rparr>)"
| "transcript_step env t (TakeSnapshotOp sid) =
     (case tr_log t sid of None \<Rightarrow> t | Some log \<Rightarrow> t\<lparr>tr_saved := tr_saved t @ [(sid, log)]\<rparr>)"
| "transcript_step env t (RestoreSnapshotOp n) =
     (if n < length (tr_saved t) \<and> \<not> blank (fst (tr_saved t ! n))
      then t\<lparr>tr_log := (tr_log t)(fst (tr_saved t ! n) \<mapsto> snd (tr_saved t ! n))\<rparr> else t)"
| "transcript_step env t (UserTurnOp fresh now sid rag instruction input reason source kind task) =
     change_log sid (\<lambda>_ ms. ms @ map content (turn_messages rag instruction input reason source kind task)) t"
| "transcript_step env t (AppendMessageOp freshID now sid m) = change_log sid (\<lambda>_ ms. ms @ [content m]) t"
| "transcript_step env t (AppendAssistantOp freshID now sid m) =
     (if cm_Role m \<noteq> RoleAssistant then t else change_log sid (\<lambda>_ ms. ms @ [content m]) t)"
| "transcript_step env t (TrimOp sid) = change_log sid (\<lambda>_ ms. trimmed ms) t"
| "transcript_step env t (ClearSessionOp sid) = change_log sid (\<lambda>instruction _. defaultMessages env instruction) t"
| "transcript_step env t _ = t"

definition transcript :: "'g Session \<Rightarrow> string \<times> ChatMessage list" where
  "transcript s = (ses_SystemInstruction s, map content (ses_Messages s))"

definition transcripts :: "'g store_state \<Rightarrow> Transcripts" where
  "transcripts state =
     \<lparr>tr_log = map_option transcript \<circ> sto_session (fst state),
      tr_saved = map (\<lambda>s. (ses_ID s, transcript s)) (snd state)\<rparr>"

section \<open>The store refines the transcripts\<close>

lemma content_default [simp]: "map content (defaultMessages env si) = defaultMessages env si"
  by (simp add: defaultMessages_def TextMessage_def content_def Let_def)

lemma summary_stages_transcript:
  "transcript (check_summary env s) = transcript s" "transcript (rebuild_legacy env s) = transcript s"
  "transcript (with_checkpoint c s) = transcript s"
  by (simp_all add: transcript_def check_summary_def rebuild_legacy_def with_checkpoint_def without_summary_def Let_def
      split: option.split)

lemma NewFromState_transcript:
  "transcript (NewFromState env st) = (ist_SystemInstruction st,
     if ist_Messages st = [] then defaultMessages env (ist_SystemInstruction st) else map content (ist_Messages st))"
proof -
  have new: "transcript (newSession env st) = (ist_SystemInstruction st,
      map content (if ist_Messages st = [] then defaultMessages env [] else ist_Messages st))"
    by (simp add: transcript_def newSession_def normalizeMessageMetadata_def Let_def)
  then have si: "ses_SystemInstruction (newSession env st) = ist_SystemInstruction st" by (simp add: transcript_def)
  have "transcript (with_checkpoint c s\<lparr>ses_Messages := ms\<rparr>) = (ses_SystemInstruction s, map content ms)"
    for c ms and s :: "'a Session"
    by (simp add: transcript_def with_checkpoint_def split: option.split)
  then show ?thesis
    using new by (simp add: NewFromState_def summary_stages_transcript si Let_def)
qed

lemma AppendMessages_transcript:
  "transcript (AppendMessages fresh now ms s) = (ses_SystemInstruction s, map content (ses_Messages s @ ms))"
  by (induction ms arbitrary: fresh s) (simp_all add: transcript_def AppendMessage_messages)

lemma on_session_transcript:
  assumes "\<And>s. transcript (f s) = (ses_SystemInstruction s, g (ses_SystemInstruction s) (map content (ses_Messages s)))"
  shows "transcripts (settle st (on_session sid f st), taken) = change_log sid g (transcripts (st, taken))"
  using assms
  by (auto simp: transcripts_def change_log_def on_session_def sessionByIDLocked_def settle_def transcript_def fun_eq_iff
      split: option.split)

lemma on_session_setting:
  assumes "\<And>s. transcript (f s) = transcript s"
  shows "transcripts (settle st (on_session sid f st), taken) = transcripts (st, taken)"
  using assms
  by (auto simp: transcripts_def on_session_def sessionByIDLocked_def settle_def fun_eq_iff split: option.split)

lemma content_user_turn [simp]: "user_turn (content m) = user_turn m" "Message_Text (content m) = Message_Text m"
  by (simp_all add: content_def user_turn_def IsTurnContext_def Message_Text_def)

lemma last_user_index_content:
  "n \<le> length ms \<Longrightarrow> last_user_index (map content ms) n = last_user_index ms n"
  by (induction n) auto

lemma last_user_index_bound: "last_user_index ms n = Some i \<Longrightarrow> i < n"
  by (induction n) (auto split: if_splits)

lemma trimmed_content: "map content (trimmed ms) = trimmed (map content ms)"
  by (auto simp: trimmed_def last_user_index_content take_map dest: last_user_index_bound split: option.split)

lemma trim_result:
  "settle st (map_sum (\<lambda>e. e) snd (TrimAfterLastUserMessage sid st)) =
    (case sto_session st sid of
       None \<Rightarrow> st
     | Some s \<Rightarrow> if sid = [] \<or> isl (TrimAfterLastUserMessage sid st) then st
         else st\<lparr>sto_session := (sto_session st)(sid \<mapsto> s\<lparr>ses_Messages := trimmed (ses_Messages s), ses_LastUsage := 0\<rparr>)\<rparr>)"
  by (simp add: TrimAfterLastUserMessage_def sessionByIDLocked_def settle_def trimmed_def Let_def split: option.split)

lemma trim_fails:
  "isl (TrimAfterLastUserMessage sid st) \<Longrightarrow> sto_session st sid = Some s \<Longrightarrow> sid \<noteq> [] \<Longrightarrow>
    trimmed (ses_Messages s) = ses_Messages s"
  by (auto simp: TrimAfterLastUserMessage_def sessionByIDLocked_def trimmed_def Let_def split: option.splits if_splits)

lemma trim_transcript:
  "transcripts (settle st (map_sum (\<lambda>e. e) snd (TrimAfterLastUserMessage sid st)), taken)
    = change_log sid (\<lambda>_ ms. trimmed ms) (transcripts (st, taken))"
  unfolding trim_result
  by (auto simp: transcripts_def change_log_def transcript_def fun_eq_iff trimmed_content[symmetric] trim_fails
      split: option.split)

lemma user_turn_transcript:
  "transcripts (settle st (AddUserTurnWithMetadataTo fresh now sid rag instruction input reason source kind task st), taken)
    = change_log sid (\<lambda>_ ms. ms @ map content (turn_messages rag instruction input reason source kind task))
        (transcripts (st, taken))"
  unfolding AddUserTurnWithMetadataTo_def
  by (rule on_session_transcript) (simp add: AddUserTurnWithMetadata_def AppendMessages_transcript)

lemma append_transcript:
  "transcripts (settle st (AppendMessageTo freshID now sid m st), taken)
    = change_log sid (\<lambda>_ ms. ms @ [content m]) (transcripts (st, taken))"
  unfolding AppendMessageTo_def
  by (rule on_session_transcript) (simp add: AppendMessage_messages transcript_def)

lemma clear_transcript:
  "transcripts (settle st (ClearSession env sid st), taken)
    = change_log sid (\<lambda>instruction _. defaultMessages env instruction) (transcripts (st, taken))"
  unfolding ClearSession_def
  by (rule on_session_transcript) (simp add: Session_Clear_def transcript_def normalizeMessageMetadata_def)

lemmas log_transcripts = user_turn_transcript append_transcript clear_transcript trim_transcript

lemma no_snapshot:
  "take_snapshot st op = [] \<Longrightarrow>
    transcripts (store_step env (st, taken) op) = transcripts (settle st (store_result env taken st op), taken)"
  by (simp add: store_step_def)

lemma store_step_transcripts:
  assumes "store_inv (st, taken)"
  shows "transcripts (store_step env (st, taken) op) = transcript_step env (transcripts (st, taken)) op"
proof -
  have ok: "sessions_ok st" using assms by (simp add: store_inv_def)
  note snap = no_snapshot[of st _ env taken]
  show ?thesis
  proof (cases op)
    case (NewSessionOp sid g)
    then show ?thesis using NewFromState_transcript[of env "blank_state g sid (sto_defaultModelId st)"]
      by (simp add: snap) (auto simp: transcripts_def settle_def NewSession_def start_log_def blank_state_def Let_def fun_eq_iff)
  next
    case (PutSessionOp ist c)
    then show ?thesis
      by (simp add: snap) (auto simp: NewFromState_transcript transcripts_def settle_def PutSessionState_def start_log_def Let_def fun_eq_iff)
  next
    case (UseSessionOp sid)
    then show ?thesis by (simp add: snap) (auto simp: transcripts_def settle_def UseSession_def split: option.split)
  next
    case (RemoveSessionOp sid)
    then show ?thesis by (simp add: snap) (auto simp: transcripts_def settle_def RemoveSession_def fun_eq_iff)
  next
    case (SetDefaultModelOp m)
    then show ?thesis by (simp add: snap) (simp add: transcripts_def settle_def SetDefaultModel_def Let_def)
  next
    case (TakeSnapshotOp sid)
    then show ?thesis using ok
      by (auto simp: store_step_def transcripts_def settle_def sessions_ok_def Session_Clone_ok split: option.split)
  next
    case (RestoreSnapshotOp n)
    have "Session_Clone (taken ! n) = taken ! n" if "n < length taken"
      using assms that by (simp add: store_inv_def Session_Clone_ok)
    with RestoreSnapshotOp show ?thesis
      by (simp add: snap) (auto simp: transcripts_def settle_def RestoreSession_def fun_eq_iff)
  next
    case (UserTurnOp fresh now sid rag instruction input reason source kind task)
    then show ?thesis by (simp add: snap log_transcripts)
  next
    case (AppendMessageOp freshID now sid m)
    then show ?thesis by (simp add: snap log_transcripts)
  next
    case (AppendAssistantOp freshID now sid m)
    then show ?thesis
      by (cases "cm_Role m = RoleAssistant") (simp_all add: snap AppendAssistantMessageTo_def log_transcripts,
          simp add: settle_def)
  next
    case (TrimOp sid)
    then show ?thesis by (simp add: snap log_transcripts)
  next
    case (ClearSessionOp sid)
    then show ?thesis by (simp add: snap log_transcripts)
  next
    case (SwitchModelOp model)
    then show ?thesis
      by (simp add: snap) (auto simp: transcripts_def settle_def SwitchModel_def transcript_def Let_def fun_eq_iff
          split: option.split)
  next
    case (SwitchModelForSessionOp sid model)
    then show ?thesis
      by (simp add: snap) (auto simp: transcripts_def settle_def SwitchModelForSession_def on_session_def
          sessionByIDLocked_def transcript_def fun_eq_iff split: option.split)
  next
    case (SetRAGOp sid settings)
    then show ?thesis
      by (simp add: snap SetRAGSettingsForSession_def Let_def split: option.split)
        (auto simp: settle_def[of _ "Inl _"] transcript_def intro!: on_session_setting)
  qed (simp add: snap AddUsageTo_def SetPermissionModeForSession_def SetAgentModeForSession_def SetCurrentPlanForSession_def
      SetContextWindowKForSession_def SetGenerationSettingsForSession_def SetStyleInstructionForSession_def
      setSummaryForSession_def, rule on_session_setting, simp add: transcript_def AddUsage_def)+
qed

interpretation store: refining_machine "store_step env" store_inv transcripts "transcript_step env"
  for env :: SessionEnv
proof unfold_locales
  fix state :: "'a store_state" and op
  show "store_inv state \<Longrightarrow> store_inv (store_step env state op)" by (rule store_step_inv)
  show "store_inv state \<Longrightarrow> transcripts (store_step env state op) = transcript_step env (transcripts state) op"
    by (cases state) (simp add: store_step_transcripts)
qed

section \<open>Properties\<close>

lemma NewStore_inv: "store_inv (NewStore m, [])"
  by (simp add: store_inv_def sessions_ok_def NewStore_def Let_def)

text \<open>
  C15: In every execution of the store each session is kept under its own identifier, its kind and
  modes are among the ones the program knows, its retrieval settings are in normal form, and the
  sequence numbers of its messages ascend strictly.
\<close>

theorem stored_sessions_well_formed:
  assumes "sto_session (fst (run_ops (store_step env) (NewStore m, []) ops)) sid = Some s"
  shows "ses_ID s = sid \<and> ses_Kind s \<in> {KindUser, KindSubagent} \<and> ses_AgentMode s \<in> {AgentModeChat, AgentModePlan}
    \<and> (\<nexists>x. ses_PermissionMode s = PermissionModeOther x)
    \<and> NormalizeRAGSettings (ses_RAGSettings s) = ses_RAGSettings s
    \<and> sorted_wrt (<) (map cm_Sequence (ses_Messages s))"
proof (intro conjI)
  have "store_inv (run_ops (store_step env) (NewStore m, []) ops)" by (rule store.run_inv[OF NewStore_inv])
  then have ok: "ses_ID s = sid" "session_ok s" using assms by (auto simp: store_inv_def sessions_ok_def)
  show "ses_ID s = sid" by (rule ok)
  show "NormalizeRAGSettings (ses_RAGSettings s) = ses_RAGSettings s" using ok(2) by (simp add: session_ok_def)
  show "ses_Kind s \<in> {KindUser, KindSubagent}"
    using ok(2) by (auto simp: session_ok_def NormalizeKind_def split: if_splits)
  show "ses_AgentMode s \<in> {AgentModeChat, AgentModePlan}"
    using ok(2) by (cases "ses_AgentMode s") (auto simp: session_ok_def)
  show "\<nexists>x. ses_PermissionMode s = PermissionModeOther x"
    using ok(2) by (auto simp: session_ok_def)
  have "ascending low ms \<Longrightarrow> sorted_wrt (<) (map cm_Sequence ms)" for low ms
    by (induction ms arbitrary: low) (auto dest: ascending_bounds)
  then show "sorted_wrt (<) (map cm_Sequence (ses_Messages s))" using ok(2) by (auto simp: session_ok_def)
qed

theorem stored_sessions_well_formed_witness:
  "\<exists>s. sto_session (fst (run_ops (store_step sample_senv) (NewStore ''m'', [])
      [NewSessionOp ''a'' (), AppendMessageOp ''x'' 5 ''a'' (TextMessage RoleUser ''hi''), SetAgentModeOp ''a'' (AgentModeOther ''b''),
       AppendMessageOp ''y'' 5 ''a'' (TextMessage RoleUser ''yo'')])) ''a'' = Some s
    \<and> length (ses_Messages s) = 3 \<and> ses_AgentMode s \<in> {AgentModeChat, AgentModePlan}
    \<and> sorted_wrt (<) (map cm_Sequence (ses_Messages s))"
proof -
  let ?ops = "[NewSessionOp ''a'' (), AppendMessageOp ''x'' 5 ''a'' (TextMessage RoleUser ''hi''),
    SetAgentModeOp ''a'' (AgentModeOther ''b''), AppendMessageOp ''y'' 5 ''a'' (TextMessage RoleUser ''yo'')]"
  have run: "transcripts (run_ops (store_step sample_senv) (NewStore ''m'', []) ?ops)
      = run_ops (transcript_step sample_senv) (transcripts (NewStore ''m'' :: unit Store, [])) ?ops"
    by (rule store.run_abs[OF NewStore_inv])
  have "map_option (length \<circ> snd) (tr_log (transcripts (run_ops (store_step sample_senv) (NewStore ''m'', []) ?ops)) ''a'')
      = Some 3"
    unfolding run by (simp add: start_log_def change_log_def sample_senv_def defaultMessages_def Let_def)
  then obtain s where s: "sto_session (fst (run_ops (store_step sample_senv) (NewStore ''m'', []) ?ops)) ''a'' = Some s"
      "length (ses_Messages s) = 3"
    by (auto simp: transcripts_def transcript_def)
  then show ?thesis using stored_sessions_well_formed[OF s(1)] by blast
qed

text \<open>
  C5: The store refines a log of transcripts: what an execution does to the messages of the
  sessions, their metadata aside, is what the same operations do to the transcripts, in which the
  settings, the current session, the summaries and the clock do not occur. No change of a setting
  reaches a transcript, an operation on one session reaches no other, and a snapshot that is put
  back is the transcript at the time it was taken.
\<close>

theorem store_refines_transcripts:
  "transcripts (run_ops (store_step env) (NewStore m, []) ops)
    = run_ops (transcript_step env) \<lparr>tr_log = Map.empty, tr_saved = []\<rparr> ops"
proof -
  have "transcripts (NewStore m, []) = \<lparr>tr_log = Map.empty, tr_saved = []\<rparr>"
    by (simp add: transcripts_def NewStore_def Let_def)
  then show ?thesis using store.run_abs[OF NewStore_inv] by metis
qed

end
