(* ===== verification/SessionTurns.thy ===== *)
theory SessionTurns
  imports SessionMachine
begin

text \<open>
  The message commands of a session (\<open>core/application/session/message/service\<close>): appending the input
  of a user or of another agent, once per source event, and preparing a regeneration. The loader is
  \<open>EnsureInMemory\<close>, whose repositories are parameters here too; so are the provider of the runtime
  instruction and the persistence of a regenerated session.
\<close>

definition RuntimeInstructionText :: "ChatMessage \<Rightarrow> string option" where
  "RuntimeInstructionText m =
     (if cm_SyntheticReason m \<noteq> SyntheticReasonRuntimeInstruction then None
      else
        (let text = TrimSpace (Message_Text m)
         in Some (TrimSpace (if take (length RuntimeInstructionPrefix) text = RuntimeInstructionPrefix
                             then drop (length RuntimeInstructionPrefix) text else text))))"

record AppendUserMessageCommand =
  aum_SessionID :: string
  aum_Input :: string
  aum_ForceChatMode :: bool
  aum_ForceAutonomousPlanning :: bool
  aum_RAGContext :: string
  aum_SyntheticReason :: SyntheticReason
  aum_SourceID :: string
  aum_SourceKind :: string
  aum_SourceTaskID :: string

record 'g CommandResult =
  cmr_Session :: "'g Session"
  cmr_Input :: string
  cmr_RuntimeInstruction :: string
  cmr_RAGContext :: string
  cmr_AppendedMessages :: "ChatMessage list"
  cmr_Appended :: bool

datatype command_error =
    InputEmpty
  | LoadFailed load_error
  | SourceConflict string
  | MemoryFailed store_error
  | PersistFailed string

record 'g CommandPorts =
  cp_env :: SessionEnv
  cp_getRecord :: "string \<Rightarrow> string + 'g SessionRecord"
  cp_listMessages :: "string \<Rightarrow> string + MessageRecord list"
  cp_instruction :: "'g Session \<Rightarrow> string \<Rightarrow> bool \<Rightarrow> bool \<Rightarrow> string"
  cp_persist :: "'g Session \<Rightarrow> string option"

definition loadSession :: "'g CommandPorts \<Rightarrow> string \<Rightarrow> 'g Store \<Rightarrow> load_error + 'g Session \<times> 'g Store" where
  "loadSession ports sessionID0 st =
     (let sessionID = (if TrimSpace sessionID0 = [] then sto_currentSessionId st else TrimSpace sessionID0)
      in if sessionID = [] then Inl (StoreError SessionIDEmpty)
         else EnsureInMemory (cp_env ports) (cp_getRecord ports) (cp_listMessages ports) sessionID False st)"

text \<open>The first message with the source, if any.\<close>

definition source_message :: "string \<Rightarrow> ChatMessage list \<Rightarrow> ChatMessage option" where
  "source_message sourceID ms = find (\<lambda>m. cm_SourceID m = sourceID) ms"

definition AppendUserMessage ::
  "'g CommandPorts \<Rightarrow> (nat \<Rightarrow> string) \<Rightarrow> gotime \<Rightarrow> AppendUserMessageCommand \<Rightarrow> 'g Store
     \<Rightarrow> (command_error + 'g CommandResult) \<times> 'g Store" where
  "AppendUserMessage ports fresh now command st =
     (if blank (aum_Input command) then (Inl InputEmpty, st)
      else
        (let sourceID = TrimSpace (aum_SourceID command)
         in case loadSession ports (aum_SessionID command) st of
              Inl e \<Rightarrow> (Inl (LoadFailed e), st)
            | Inr (current, st1) \<Rightarrow>
                (case (if sourceID \<noteq> [] then source_message sourceID (ses_Messages current) else None) of
                   Some m \<Rightarrow>
                     (if Message_Text m = aum_Input command
                         \<and> (aum_SourceKind command = [] \<or> cm_SourceKind m = aum_SourceKind command)
                      then (Inr \<lparr>cmr_Session = current, cmr_Input = aum_Input command, cmr_RuntimeInstruction = [],
                                 cmr_RAGContext = [], cmr_AppendedMessages = [], cmr_Appended = False\<rparr>, st1)
                      else (Inl (SourceConflict sourceID), st1))
                 | None \<Rightarrow>
                     (let instruction = TrimSpace (cp_instruction ports current (aum_Input command)
                            (aum_ForceChatMode command) (aum_ForceAutonomousPlanning command));
                          messageCount = length (ses_Messages current)
                      in case AddUserTurnWithMetadataTo fresh now (ses_ID current) (aum_RAGContext command) instruction
                                (aum_Input command) (aum_SyntheticReason command) sourceID
                                (aum_SourceKind command) (aum_SourceTaskID command) st1 of
                           Inl e \<Rightarrow> (Inl (MemoryFailed e), st1)
                         | Inr st2 \<Rightarrow>
                             (case GetSession (ses_ID current) st2 of
                                Inl e \<Rightarrow> (Inl (MemoryFailed e), st2)
                              | Inr s \<Rightarrow>
                                  (Inr \<lparr>cmr_Session = s, cmr_Input = aum_Input command,
                                        cmr_RuntimeInstruction = instruction,
                                        cmr_RAGContext = TrimSpace (aum_RAGContext command),
                                        cmr_AppendedMessages = drop messageCount (ses_Messages s),
                                        cmr_Appended = True\<rparr>, st2))))))"

text \<open>
  The runtime instruction attached to the last user message: from there back over the synthetic
  messages. The list is the history up to that message, reversed.
\<close>

fun attached_instruction :: "ChatMessage list \<Rightarrow> string" where
  "attached_instruction [] = []"
| "attached_instruction (m # ms) =
     (if IsSynthetic m
      then (case RuntimeInstructionText m of Some instruction \<Rightarrow> instruction | None \<Rightarrow> attached_instruction ms)
      else [])"

definition latestRuntimeInstruction :: "ChatMessage list \<Rightarrow> string" where
  "latestRuntimeInstruction ms =
     (case last_user_index ms (length ms) of None \<Rightarrow> [] | Some i \<Rightarrow> attached_instruction (rev (take i ms)))"

definition PrepareRegeneration ::
  "'g CommandPorts \<Rightarrow> string \<Rightarrow> 'g Store \<Rightarrow> (command_error + 'g CommandResult) \<times> 'g Store" where
  "PrepareRegeneration ports sessionID st =
     (case loadSession ports sessionID st of
        Inl e \<Rightarrow> (Inl (LoadFailed e), st)
      | Inr (current0, st1) \<Rightarrow>
          (let before = Session_Clone current0
           in case TrimAfterLastUserMessage (ses_ID current0) st1 of
                Inl e \<Rightarrow> (Inl (MemoryFailed e), st1)
              | Inr (input, st2) \<Rightarrow>
                  (case GetSession (ses_ID current0) st2 of
                     Inl e \<Rightarrow> (Inl (MemoryFailed e), st2)
                   | Inr current \<Rightarrow>
                       (case cp_persist ports current of
                          Some e \<Rightarrow> (Inl (PersistFailed e), settle st2 (RestoreSession (Some before) st2))
                        | None \<Rightarrow>
                            (Inr \<lparr>cmr_Session = current, cmr_Input = input,
                                  cmr_RuntimeInstruction = latestRuntimeInstruction (ses_Messages current),
                                  cmr_RAGContext = [], cmr_AppendedMessages = [], cmr_Appended = False\<rparr>, st2)))))"

section \<open>A source event is applied once\<close>

text \<open>The session of a command that is in memory already.\<close>

lemma loadSession_memory:
  "TrimSpace sid = sid \<Longrightarrow> sid \<noteq> [] \<Longrightarrow> sto_session st sid = Some s \<Longrightarrow> loadSession ports sid st = Inr (s, st)"
  by (simp add: loadSession_def EnsureInMemory_def GetSession_def Let_def)

text \<open>Operations after which the history of the session still begins as before.\<close>

definition keeps_history :: "string \<Rightarrow> 'g store_op \<Rightarrow> bool" where
  "keeps_history sid op \<longleftrightarrow>
     (case op of
        NewSessionOp s _ \<Rightarrow> s \<noteq> sid | PutSessionOp st _ \<Rightarrow> ist_ID st \<noteq> sid | RemoveSessionOp s \<Rightarrow> s \<noteq> sid
      | RestoreSnapshotOp _ \<Rightarrow> False | TrimOp s \<Rightarrow> s \<noteq> sid | ClearSessionOp s \<Rightarrow> s \<noteq> sid | _ \<Rightarrow> True)"

definition begins_with :: "string \<Rightarrow> ChatMessage list \<Rightarrow> 'g store_state \<Rightarrow> bool" where
  "begins_with sid ms state \<longleftrightarrow> (\<exists>s more. sto_session (fst state) sid = Some s \<and> ses_Messages s = ms @ more)"

lemma on_session_begins:
  assumes "begins_with sid ms (st, taken)" "\<And>s. \<exists>more. ses_Messages (f s) = ses_Messages s @ more"
  shows "begins_with sid ms (settle st (on_session x f st), taken)"
proof -
  obtain s more where s: "sto_session st sid = Some s" "ses_Messages s = ms @ more"
    using assms(1) by (auto simp: begins_with_def)
  obtain more' where "ses_Messages (f s) = ses_Messages s @ more'" using assms(2) by blast
  with s show ?thesis
    by (auto simp: begins_with_def on_session_def sessionByIDLocked_def settle_def split: option.split)
qed

lemma on_session_other:
  "x \<noteq> sid \<Longrightarrow> begins_with sid ms (st, taken) \<Longrightarrow> begins_with sid ms (settle st (on_session x f st), taken)"
  by (auto simp: begins_with_def on_session_def sessionByIDLocked_def settle_def split: option.split)

lemma keeps_history_step:
  assumes "begins_with sid ms state" "keeps_history sid op"
  shows "begins_with sid ms (store_step env state op)"
proof -
  obtain st taken where state: "state = (st, taken)" by (cases state)
  have b: "begins_with sid ms (st, taken)" using assms(1) by (simp add: state)
  have "begins_with sid ms (settle st (store_result env taken st op), taken)"
  proof (cases op)
    case (UserTurnOp fresh now x rag instruction input reason source kind task)
    then show ?thesis
      by (simp add: AddUserTurnWithMetadataTo_def)
        (rule on_session_begins[OF b], unfold AddUserTurnWithMetadata_def, use AppendMessages_messages in blast)
  next
    case (AppendMessageOp freshID now x m)
    then show ?thesis
      by (simp add: AppendMessageTo_def) (rule on_session_begins[OF b], simp add: AppendMessage_messages)
  next
    case (AppendAssistantOp freshID now x m)
    then show ?thesis
      using b on_session_begins[OF b, of "AppendMessage freshID now m" x]
      by (simp add: AppendAssistantMessageTo_def AppendMessageTo_def AppendMessage_messages settle_def[of _ "Inl _"])
  next
    case (ClearSessionOp x)
    then show ?thesis using assms(2) by (simp add: ClearSession_def keeps_history_def on_session_other[OF _ b])
  next
    case (TrimOp x)
    then show ?thesis using assms(2) b
      by (auto simp: trim_result keeps_history_def begins_with_def split: option.split)
  next
    case (SetRAGOp x settings)
    then show ?thesis using b
      by (auto simp: SetRAGSettingsForSession_def settle_def[of _ "Inl _"] Let_def intro!: on_session_begins[OF b]
          split: option.split)
  next
    case (SwitchModelForSessionOp x model)
    then show ?thesis using b
      by (auto simp: SwitchModelForSession_def begins_with_def on_session_def sessionByIDLocked_def settle_def
          split: option.split)
  next
    case (SwitchModelOp model)
    then show ?thesis using b
      by (auto simp: SwitchModel_def begins_with_def settle_def Let_def split: option.split)
  next
    case (UseSessionOp x)
    then show ?thesis using b by (auto simp: UseSession_def begins_with_def settle_def split: option.split)
  next
    case (PutSessionOp ist c)
    then show ?thesis using b assms(2)
      by (auto simp: PutSessionState_def begins_with_def settle_def keeps_history_def Let_def)
  next
    case (NewSessionOp x g)
    then show ?thesis using b assms(2)
      by (auto simp: NewSession_def begins_with_def settle_def keeps_history_def Let_def)
  next
    case (RemoveSessionOp x)
    then show ?thesis using b assms(2) by (auto simp: RemoveSession_def begins_with_def settle_def keeps_history_def)
  next
    case (SetDefaultModelOp m)
    then show ?thesis using b by (auto simp: SetDefaultModel_def begins_with_def settle_def Let_def)
  next
    case (TakeSnapshotOp x)
    then show ?thesis using b by (simp add: settle_def)
  next
    case (RestoreSnapshotOp n)
    then show ?thesis using assms(2) by (simp add: keeps_history_def)
  qed (simp add: AddUsageTo_def SetPermissionModeForSession_def SetAgentModeForSession_def SetCurrentPlanForSession_def
      SetContextWindowKForSession_def SetGenerationSettingsForSession_def SetStyleInstructionForSession_def
      setSummaryForSession_def, rule on_session_begins[OF b], simp add: AddUsage_def)+
  then show ?thesis by (simp add: store_step_def state begins_with_def)
qed

lemma keeps_history_run:
  "begins_with sid ms state \<Longrightarrow> \<forall>op \<in> set ops. keeps_history sid op \<Longrightarrow>
    begins_with sid ms (run_ops (store_step env) state ops)"
  by (induction ops arbitrary: state) (simp_all add: keeps_history_step)

lemma find_app: "find P (xs @ ys) = (case find P xs of Some x \<Rightarrow> Some x | None \<Rightarrow> find P ys)"
  by (induction xs) simp_all

lemma source_message_append:
  "source_message sid xs = Some m \<Longrightarrow> source_message sid (xs @ ys) = Some m"
  by (simp add: source_message_def find_app)

lemma source_message_content: "map_option content (source_message sid ms) = source_message sid (map content ms)"
  by (induction ms) (simp_all add: source_message_def content_def)

text \<open>Among the messages of a turn only the input carries the source.\<close>

lemma source_in_turn:
  assumes "sid \<noteq> []"
  obtains m where "source_message sid (turn_messages rag instruction input reason sid kind task) = Some m"
    "Message_Text m = input" "cm_SourceKind m = kind"
proof
  let ?m = "(if reason \<noteq> SyntheticReasonNone then SyntheticUserText reason input else TextMessage RoleUser input)
    \<lparr>cm_SourceID := sid, cm_SourceKind := kind, cm_SourceTaskID := task\<rparr>"
  show "source_message sid (turn_messages rag instruction input reason sid kind task) = Some ?m"
    using assms by (simp add: source_message_def turn_messages_def RAGContext_def RuntimeInstruction_def Let_def
        SyntheticUserText_def SyntheticText_def TextMessage_def)
  show "Message_Text ?m = input" "cm_SourceKind ?m = kind"
    by (simp_all add: Message_Text_def SyntheticUserText_def TextMessage_def TextPart_def)
qed

lemma applied_turn_found:
  assumes "sid \<noteq> []" "source_message sid (ses_Messages s) = None"
  obtains m where
    "source_message sid (ses_Messages (AddUserTurnWithMetadata fresh now rag instruction input reason sid kind task s)) = Some m"
    "Message_Text m = input" "cm_SourceKind m = kind"
proof -
  obtain m where m: "source_message sid (turn_messages rag instruction input reason sid kind task) = Some m"
    "Message_Text m = input" "cm_SourceKind m = kind"
    using source_in_turn[OF assms(1)] by blast
  let ?turn = "turn_messages rag instruction input reason sid kind task"
  have "snd (transcript (AddUserTurnWithMetadata fresh now rag instruction input reason sid kind task s))
      = map content (ses_Messages s) @ map content ?turn"
    by (simp add: AddUserTurnWithMetadata_def AppendMessages_transcript)
  then have "map_option content
      (source_message sid (ses_Messages (AddUserTurnWithMetadata fresh now rag instruction input reason sid kind task s)))
    = source_message sid (map content (ses_Messages s) @ map content ?turn)"
    by (simp add: source_message_content transcript_def)
  also have "\<dots> = Some (content m)"
    using assms(2) m(1) source_message_content[of sid "ses_Messages s"] source_message_content[of sid ?turn]
    by (simp add: source_message_def find_app)
  finally obtain m' where m':
    "source_message sid (ses_Messages (AddUserTurnWithMetadata fresh now rag instruction input reason sid kind task s)) = Some m'"
    "content m' = content m" by auto
  show thesis
  proof (rule that[OF m'(1)])
    show "Message_Text m' = input" using m'(2) m(2) content_user_turn(2)[of m'] content_user_turn(2)[of m] by simp
    show "cm_SourceKind m' = kind" using m'(2) m(3) by (cases m; cases m') (simp add: content_def)
  qed
qed


definition sample_ports :: "(unit Session \<Rightarrow> string option) \<Rightarrow> unit CommandPorts" where
  "sample_ports persist =
     \<lparr>cp_env = sample_senv, cp_getRecord = (\<lambda>_. Inl ''none''), cp_listMessages = (\<lambda>_. Inl ''none''),
      cp_instruction = (\<lambda>_ _ _ _. []), cp_persist = persist\<rparr>"

definition sample_event :: AppendUserMessageCommand where
  "sample_event =
     \<lparr>aum_SessionID = ''s1'', aum_Input = ''go'', aum_ForceChatMode = False, aum_ForceAutonomousPlanning = False,
      aum_RAGContext = [], aum_SyntheticReason = SyntheticReasonSubagentResult, aum_SourceID = ''e9'',
      aum_SourceKind = ''agent'', aum_SourceTaskID = []\<rparr>"

definition sample_store :: "unit Store" where
  "sample_store =
     \<lparr>sto_currentSessionId = ''s1'', sto_currentModelId = ''m'', sto_defaultModelId = ''m'',
      sto_session = [''s1'' \<mapsto> sample_stored_session]\<rparr>"

lemmas sample_turn_defs = sample_ports_def sample_event_def sample_store_def sample_stored_session_def
  sample_stored_messages_def

lemma sample_texts: "TrimSpace ''s1'' = ''s1''" "TrimSpace ''go'' = ''go''" "TrimSpace ''e9'' = ''e9''"
    "TrimSpace ''do it'' = ''do it''"
  by (simp_all add: visible_eval) (simp add: TrimSpace_def runes_ascii trim_list_def IsSpace_def rune_value_def byte_def)

lemma sample_event_applied:
  "\<exists>r st1. AppendUserMessage (sample_ports (\<lambda>_. None)) (\<lambda>_. ''f'') 50 sample_event sample_store = (Inr r, st1)
    \<and> cmr_Appended r"
  by (simp add: AppendUserMessage_def loadSession_def EnsureInMemory_def GetSession_def sample_turn_defs sample_texts
      source_message_def AddUserTurnWithMetadataTo_def on_session_def sessionByIDLocked_def
      TextMessage_def Assistant_def ToolResultMessage_def ToolCallMessage_def AddUserTurnWithMetadata_def
      turn_messages_def AppendMessage_messages RAGContext_def RuntimeInstruction_def Let_def)


section \<open>Regeneration\<close>

text \<open>The message that a regeneration goes back to is the last of the user.\<close>

lemma last_user_index_last:
  "last_user_index ms n = Some i \<Longrightarrow> user_turn (ms ! i) \<and> (\<forall>j. i < j \<and> j < n \<longrightarrow> \<not> user_turn (ms ! j))"
proof (induction n)
  case (Suc n)
  then show ?case by (cases "user_turn (ms ! n)") (auto simp: less_Suc_eq)
qed simp

text \<open>
  C16: Preparing a regeneration is all or nothing. If it fails, and in particular if the shortened
  session cannot be persisted, the store is what it was. If it succeeds the history ends with the
  last message of the user, nothing before it is lost, its text is the input of the regeneration,
  and no other session changes.
\<close>

theorem regeneration_all_or_nothing:
  assumes "sto_session (fst state) sid = Some s" "state = run_ops (store_step env) (NewStore m, []) ops"
    "TrimSpace sid = sid" "sid \<noteq> []" "PrepareRegeneration ports sid (fst state) = (r, st')"
  shows "case r of
      Inl e \<Rightarrow> st' = fst state
    | Inr c \<Rightarrow> \<exists>i < length (ses_Messages s).
        st' = (fst state)\<lparr>sto_session := (sto_session (fst state))(sid \<mapsto>
                s\<lparr>ses_Messages := take (i + 1) (ses_Messages s), ses_LastUsage := 0\<rparr>)\<rparr>
        \<and> user_turn (ses_Messages s ! i) \<and> (\<forall>j. i < j \<and> j < length (ses_Messages s) \<longrightarrow> \<not> user_turn (ses_Messages s ! j))
        \<and> cmr_Input c = Message_Text (ses_Messages s ! i) \<and> \<not> blank (cmr_Input c)"
proof -
  have "store_inv state" unfolding assms(2) by (rule store.run_inv[OF NewStore_inv])
  then have ok: "ses_ID s = sid" "Session_Clone s = s"
    using assms(1) by (auto simp: store_inv_def sessions_ok_def Session_Clone_ok)
  have load: "loadSession ports sid (fst state) = Inr (s, fst state)"
    by (rule loadSession_memory) (use assms in simp_all)
  have restored: "(sto_session (fst state))(sid \<mapsto> s) = sto_session (fst state)"
    using assms(1) by (rule map_upd_triv)
  show ?thesis
    using assms(1,3,4,5) load last_user_index_last[of "ses_Messages s" "length (ses_Messages s)"]
      last_user_index_bound[of "ses_Messages s" "length (ses_Messages s)"]
    by (auto simp: PrepareRegeneration_def ok TrimAfterLastUserMessage_def sessionByIDLocked_def GetSession_def
        RestoreSession_def settle_def restored Let_def split: option.splits if_splits)
qed

lemma text_message_turn [simp]:
  "content (TextMessage role t) = TextMessage role t" "user_turn (TextMessage role t) = (role = RoleUser)"
  "Message_Text (TextMessage role t) = t"
  by (simp_all add: content_def user_turn_def IsTurnContext_def Message_Text_def TextMessage_def TextPart_def)

theorem regeneration_all_or_nothing_witness:
  "\<exists>st. st = fst (run_ops (store_step sample_senv) (NewStore ''m'', [])
      [NewSessionOp ''s1'' (), AppendMessageOp ''x'' 5 ''s1'' (TextMessage RoleUser ''go''),
       AppendMessageOp ''y'' 6 ''s1'' (TextMessage RoleAssistant ''no'')])
    \<and> PrepareRegeneration (sample_ports (\<lambda>_. Some ''db'')) ''s1'' st = (Inl (PersistFailed ''db''), st)"
proof -
  let ?ops = "[NewSessionOp ''s1'' (), AppendMessageOp ''x'' 5 ''s1'' (TextMessage RoleUser ''go''),
       AppendMessageOp ''y'' 6 ''s1'' (TextMessage RoleAssistant ''no'')]"
  define state where "state = run_ops (store_step sample_senv) (NewStore ''m'', []) ?ops"
  have run: "transcripts state = run_ops (transcript_step sample_senv) (transcripts (NewStore ''m'' :: unit Store, [])) ?ops"
    unfolding state_def by (rule store.run_abs[OF NewStore_inv])
  have "map_option (map (\<lambda>x. (user_turn x, Message_Text x)) \<circ> snd) (tr_log (transcripts state) ''s1'')
      = Some [(False, ''p''), (True, ''go''), (False, ''no'')]"
    unfolding run by (simp add: start_log_def change_log_def sample_senv_def defaultMessages_def Let_def)
  then obtain s a b c where s: "sto_session (fst state) ''s1'' = Some s" "ses_Messages s = [a, b, c]"
      "user_turn b" "\<not> user_turn c" "Message_Text b = ''go''"
    by (auto simp: transcripts_def transcript_def map_eq_Cons_conv comp_def)
  have "store_inv state" unfolding state_def by (rule store.run_inv[OF NewStore_inv])
  then have sid: "ses_ID s = ''s1''" using s(1) by (auto simp: store_inv_def sessions_ok_def)
  have load: "loadSession (sample_ports (\<lambda>_. Some ''db'')) ''s1'' (fst state) = Inr (s, fst state)"
    by (rule loadSession_memory[OF sample_texts(1) _ s(1)]) simp
  have persist: "cp_persist (sample_ports p) = p" for p by (simp add: sample_ports_def)
  have fails: "fst (PrepareRegeneration (sample_ports (\<lambda>_. Some ''db'')) ''s1'' (fst state)) = Inl (PersistFailed ''db'')"
    using s sid sample_texts(2)
    by (simp add: PrepareRegeneration_def load TrimAfterLastUserMessage_def sessionByIDLocked_def GetSession_def
        persist Let_def)
  then have "PrepareRegeneration (sample_ports (\<lambda>_. Some ''db'')) ''s1'' (fst state)
      = (Inl (PersistFailed ''db''), snd (PrepareRegeneration (sample_ports (\<lambda>_. Some ''db'')) ''s1'' (fst state)))"
    by (metis prod.collapse)
  moreover from regeneration_all_or_nothing[OF s(1) state_def sample_texts(1) _ this]
  have "snd (PrepareRegeneration (sample_ports (\<lambda>_. Some ''db'')) ''s1'' (fst state)) = fst state" by simp
  ultimately show ?thesis unfolding state_def by auto
qed

end
