(* ===== verification/SummaryHistory.thy ===== *)
theory SummaryHistory
  imports SessionReload TokenBudget
begin

text \<open>
  The history that a compaction puts before the summarising model
  (\<open>core/application/chat/compaction/service/summary_history.go\<close>): the messages as entries, cut into
  batches that fit a budget of tokens. A long entry is cut into numbered segments; the binary
  search for the longest segment is the one of \<open>TokenBudget\<close>.
\<close>

record summaryEntry =
  sen_header :: string
  sen_body :: string
  sen_continuation :: string

definition part_text :: "Part \<Rightarrow> string" where
  "part_text part =
     (case part_Type part of
        PartText \<Rightarrow> part_Text part
      | PartToolCall \<Rightarrow>
          (case part_ToolCall part of
             None \<Rightarrow> ''tool_call''
           | Some c \<Rightarrow> ''tool_call id='' @ tc_ID c @ '' name='' @ tc_Name c @ '' args='' @ tc_Arguments c)
      | PartToolResult \<Rightarrow>
          (case part_ToolResult part of
             None \<Rightarrow> ''tool_result''
           | Some r \<Rightarrow>
               ''tool_result id='' @ tr_ToolCallID r @ '' name='' @ tr_Name r
               @ '' status='' @ ResultStatus_text (tr_Status r) @ '' error_code='' @ tr_ErrorCode r
               @ '' error='' @ (if tr_FullErrorMessage r \<noteq> [] then tr_FullErrorMessage r else tr_ErrorMessage r)
               @ '' content='' @ (if tr_FullContent r \<noteq> [] then tr_FullContent r else tr_Content r)))"

definition messageText :: "ChatMessage \<Rightarrow> string" where
  "messageText m = TrimSpace (join newline (map part_text (cm_Parts m)))"

definition entry_label :: "ChatMessage \<Rightarrow> string" where
  "entry_label m =
     (if IsSynthetic m
      then (case cm_SyntheticReason m of
              SyntheticReasonSubagentResult \<Rightarrow> ''Subagent evidence''
            | SyntheticReasonInterAgentMessage \<Rightarrow> ''Inter-agent evidence''
            | SyntheticReasonAutonomousPlanning \<Rightarrow>
                if cm_SourceKind m = ''plan_recovery'' then ''Plan recovery evidence'' else []
            | _ \<Rightarrow> [])
      else (case cm_Role m of
              RoleUser \<Rightarrow> ''User''
            | RoleAssistant \<Rightarrow> if HasToolCall m then ''Assistant tool call'' else ''Assistant''
            | RoleTool \<Rightarrow> ''Tool result''
            | RoleSystem \<Rightarrow> []))"

definition continuation_line :: "print_table \<Rightarrow> Part \<Rightarrow> string" where
  "continuation_line tab part =
     (case part_Type part of
        PartText \<Rightarrow> []
      | PartToolCall \<Rightarrow>
          (case part_ToolCall part of
             None \<Rightarrow> []
           | Some c \<Rightarrow> ''tool_call_id='' @ Quote tab (tc_ID c) @ '' tool_name='' @ Quote tab (tc_Name c) @ newline)
      | PartToolResult \<Rightarrow>
          (case part_ToolResult part of
             None \<Rightarrow> []
           | Some r \<Rightarrow>
               ''tool_call_id='' @ Quote tab (tr_ToolCallID r) @ '' tool_name='' @ Quote tab (tr_Name r)
               @ '' status='' @ Quote tab (ResultStatus_text (tr_Status r))
               @ '' error_code='' @ Quote tab (tr_ErrorCode r) @ newline))"

definition summaryEntryForMessage :: "print_table \<Rightarrow> ChatMessage \<Rightarrow> summaryEntry option" where
  "summaryEntryForMessage tab m =
     (if cm_Role m = RoleSystem then None
      else
        (let label = entry_label m; body = messageText m
         in if label = [] \<or> body = [] then None
            else Some
              \<lparr>sen_header = label @ '':'' @ newline
                 @ (if IsSynthetic m \<or> cm_SourceID m \<noteq> [] \<or> cm_SourceKind m \<noteq> [] \<or> cm_SourceTaskID m \<noteq> []
                    then ''source_reason='' @ Quote tab (SyntheticReason_text (cm_SyntheticReason m))
                      @ '' source_id='' @ Quote tab (cm_SourceID m) @ '' source_kind='' @ Quote tab (cm_SourceKind m)
                      @ '' source_task_id='' @ Quote tab (cm_SourceTaskID m) @ newline
                    else []),
               sen_body = body,
               sen_continuation = concat (map (continuation_line tab) (cm_Parts m))\<rparr>))"

definition fitsSummaryBatch :: "string \<Rightarrow> nat \<Rightarrow> bool" where
  "fitsSummaryBatch text maxTokens \<longleftrightarrow>
     length text \<le> maxTokens * 4 \<and> EstimateTextTokens text \<le> int maxTokens"

definition entry_text :: "summaryEntry \<Rightarrow> string" where
  "entry_text e = sen_header e @ sen_body e @ newline @ newline"

definition segment_header :: "summaryEntry \<Rightarrow> nat \<Rightarrow> string" where
  "segment_header e segment =
     sen_header e @ sen_continuation e @ ''[segment '' @ Itoa (int segment) @ '' of the same history entry]'' @ newline"

definition segment_text :: "summaryEntry \<Rightarrow> nat \<Rightarrow> string list \<Rightarrow> string" where
  "segment_text e segment rs = segment_header e segment @ from_runes rs @ newline @ newline"

definition segment_length :: "summaryEntry \<Rightarrow> nat \<Rightarrow> nat \<Rightarrow> string list \<Rightarrow> nat" where
  "segment_length e maxTokens segment rs =
     search_longest (\<lambda>n. fitsSummaryBatch (segment_text e segment (take n rs)) maxTokens) 0
       (min (length rs) (maxTokens * 4))"

text \<open>The error of the code, metadata that exceed the budget, is \<open>None\<close>.\<close>

function split_segments :: "summaryEntry \<Rightarrow> nat \<Rightarrow> nat \<Rightarrow> string list \<Rightarrow> string list option" where
  "split_segments e maxTokens segment rs =
     (if rs = [] then Some []
      else
        (let n = segment_length e maxTokens segment rs
         in if n = 0 then None
            else map_option ((#) (segment_text e segment (take n rs)))
                   (split_segments e maxTokens (Suc segment) (drop n rs))))"
  by pat_completeness auto
termination
  by (relation "measure (\<lambda>(_, _, _, rs). length rs)") auto

declare split_segments.simps [simp del]

definition splitSummaryEntry :: "summaryEntry \<Rightarrow> nat \<Rightarrow> string list option" where
  "splitSummaryEntry e maxTokens =
     (if fitsSummaryBatch (entry_text e) maxTokens then Some [entry_text e]
      else split_segments e maxTokens 1 (runes (sen_body e)))"

section \<open>Batches\<close>

text \<open>The batches that are complete, and the one that is being written.\<close>

type_synonym batch_state = "string list \<times> string"

definition flush_batch :: "batch_state \<Rightarrow> batch_state" where
  "flush_batch st = (if snd st = [] then st else (fst st @ [snd st], []))"

definition append_batch :: "nat \<Rightarrow> string \<Rightarrow> batch_state \<Rightarrow> batch_state" where
  "append_batch maxTokens text st =
     (let st1 = (if snd st \<noteq> [] \<and> \<not> fitsSummaryBatch (snd st @ text) maxTokens then flush_batch st else st)
      in (fst st1, snd st1 @ text))"

definition append_all :: "nat \<Rightarrow> string list \<Rightarrow> batch_state \<Rightarrow> batch_state" where
  "append_all maxTokens parts st = fold (append_batch maxTokens) parts st"

fun split_entries :: "nat \<Rightarrow> summaryEntry list \<Rightarrow> batch_state \<Rightarrow> batch_state option" where
  "split_entries maxTokens [] st = Some st"
| "split_entries maxTokens (e # es) st =
     (case splitSummaryEntry e maxTokens of
        None \<Rightarrow> None
      | Some parts \<Rightarrow> split_entries maxTokens es (append_all maxTokens parts st))"

definition add_chunk :: "print_table \<Rightarrow> nat \<Rightarrow> ChatMessage list \<Rightarrow> batch_state \<Rightarrow> batch_state option" where
  "add_chunk tab maxTokens chunk st =
     (let entries = List.map_filter (summaryEntryForMessage tab) chunk;
          text = concat (map entry_text entries)
      in if text = [] then Some st
         else if fitsSummaryBatch text maxTokens then Some (append_batch maxTokens text st)
         else split_entries maxTokens entries (flush_batch st))"

fun add_chunks :: "print_table \<Rightarrow> nat \<Rightarrow> ChatMessage list list \<Rightarrow> batch_state \<Rightarrow> batch_state option" where
  "add_chunks tab maxTokens [] st = Some st"
| "add_chunks tab maxTokens (c # cs) st =
     (case add_chunk tab maxTokens c st of None \<Rightarrow> None | Some st' \<Rightarrow> add_chunks tab maxTokens cs st')"

definition summaryBatches :: "print_table \<Rightarrow> ChatMessage list \<Rightarrow> int \<Rightarrow> string list option" where
  "summaryBatches tab ms maxTokens =
     (if maxTokens \<le> 0 then None
      else map_option (\<lambda>st. fst (flush_batch st)) (add_chunks tab (nat maxTokens) (messageChunks ms) ([], [])))"

section \<open>Batches fit\<close>

definition batches_fit :: "nat \<Rightarrow> batch_state \<Rightarrow> bool" where
  "batches_fit n st \<longleftrightarrow> (\<forall>b \<in> set (fst st). b \<noteq> [] \<and> fitsSummaryBatch b n) \<and> (snd st = [] \<or> fitsSummaryBatch (snd st) n)"

lemma flush_fit: "batches_fit n st \<Longrightarrow> batches_fit n (flush_batch st)"
  by (auto simp: batches_fit_def flush_batch_def)

lemma append_fit: "batches_fit n st \<Longrightarrow> fitsSummaryBatch text n \<Longrightarrow> batches_fit n (append_batch n text st)"
  by (auto simp: batches_fit_def append_batch_def flush_batch_def Let_def)

lemma append_all_fit:
  "batches_fit n st \<Longrightarrow> \<forall>p \<in> set parts. fitsSummaryBatch p n \<Longrightarrow> batches_fit n (append_all n parts st)"
  unfolding append_all_def by (induction parts arbitrary: st) (simp_all add: append_fit)

text \<open>The search returns its lower end or a length that it has tried.\<close>

lemma search_longest_tried: "search_longest fits low high = low \<or> fits (search_longest fits low high)"
proof (induction fits low high rule: search_longest.induct)
  case (1 fits low high)
  show ?case
    using "1.IH" by (subst (1 2) search_longest.simps) (auto simp: Let_def split: if_splits)
qed

lemma split_segments_cases:
  "split_segments e n k [] = Some []"
  "rs \<noteq> [] \<Longrightarrow> segment_length e n k rs = 0 \<Longrightarrow> split_segments e n k rs = None"
  "rs \<noteq> [] \<Longrightarrow> segment_length e n k rs \<noteq> 0 \<Longrightarrow> split_segments e n k rs
    = map_option ((#) (segment_text e k (take (segment_length e n k rs) rs)))
        (split_segments e n (Suc k) (drop (segment_length e n k rs) rs))"
  by (subst split_segments.simps, simp add: Let_def)+

text \<open>Each step of a split, with the segment it takes.\<close>

lemma split_segments_induct [consumes 1, case_names Nil step]:
  assumes "split_segments e n k rs = Some parts"
    and "\<And>k. P k [] []"
    and "\<And>k rs more i. \<lbrakk>i = segment_length e n k rs; i \<noteq> 0; rs \<noteq> []; P (Suc k) (drop i rs) more\<rbrakk>
           \<Longrightarrow> P k rs (segment_text e k (take i rs) # more)"
  shows "P k rs parts"
  using assms(1)
proof (induction "length rs" arbitrary: k rs parts rule: less_induct)
  case less
  show ?case
  proof (cases "rs = []")
    case True
    then show ?thesis using less.prems assms(2) by (simp add: split_segments_cases)
  next
    case False
    then have i: "segment_length e n k rs \<noteq> 0" using less.prems split_segments_cases(2)[of rs e n k] by auto
    then obtain more where "split_segments e n (Suc k) (drop (segment_length e n k rs) rs) = Some more"
      "parts = segment_text e k (take (segment_length e n k rs) rs) # more"
      using False less.prems by (auto simp: split_segments_cases(3))
    then show ?thesis using less.hyps[of "drop (segment_length e n k rs) rs"] assms(3) i False by simp
  qed
qed

lemma split_segments_fit: "split_segments e n k rs = Some parts \<Longrightarrow> \<forall>p \<in> set parts. fitsSummaryBatch p n"
proof (induction rule: split_segments_induct)
  case (step k rs more i)
  have "i = 0 \<or> fitsSummaryBatch (segment_text e k (take i rs)) n"
    unfolding step(1) segment_length_def
    by (rule search_longest_tried[of "\<lambda>i. fitsSummaryBatch (segment_text e k (take i rs)) n" 0])
  then show ?case using step by simp
qed simp

lemma splitSummaryEntry_fit: "splitSummaryEntry e n = Some parts \<Longrightarrow> \<forall>p \<in> set parts. fitsSummaryBatch p n"
  unfolding splitSummaryEntry_def using split_segments_fit by (auto split: if_splits)

lemma split_entries_fit: "split_entries n es st = Some st' \<Longrightarrow> batches_fit n st \<Longrightarrow> batches_fit n st'"
proof (induction es arbitrary: st)
  case (Cons e es)
  then obtain parts where "splitSummaryEntry e n = Some parts" "split_entries n es (append_all n parts st) = Some st'"
    by (auto split: option.splits)
  then show ?case using Cons append_all_fit splitSummaryEntry_fit by blast
qed simp

lemma add_chunk_fit: "add_chunk tab n c st = Some st' \<Longrightarrow> batches_fit n st \<Longrightarrow> batches_fit n st'"
  unfolding add_chunk_def Let_def
  by (auto split: if_split_asm intro: append_fit flush_fit dest!: split_entries_fit[OF _ flush_fit])

lemma add_chunks_fit: "add_chunks tab n cs st = Some st' \<Longrightarrow> batches_fit n st \<Longrightarrow> batches_fit n st'"
proof (induction cs arbitrary: st)
  case (Cons c cs)
  then obtain st1 where "add_chunk tab n c st = Some st1" "add_chunks tab n cs st1 = Some st'"
    by (auto split: option.splits)
  then show ?case using Cons add_chunk_fit by blast
qed simp

section \<open>Batches cover the history\<close>

text \<open>
  What an entry becomes: its whole text, or segments, numbered from one, whose bodies together are
  its body, rune by rune.
\<close>

definition covers :: "summaryEntry \<Rightarrow> string list \<Rightarrow> bool" where
  "covers e parts \<longleftrightarrow>
     parts = [entry_text e]
     \<or> (\<exists>bodies. parts = map (\<lambda>(i, rs). segment_text e i rs) (enumerate 1 bodies)
          \<and> concat bodies = runes (sen_body e) \<and> [] \<notin> set bodies)"

lemma split_segments_cover:
  "split_segments e n k rs = Some parts \<Longrightarrow>
    \<exists>bodies. parts = map (\<lambda>(i, rs). segment_text e i rs) (enumerate k bodies) \<and> concat bodies = rs \<and> [] \<notin> set bodies"
proof (induction rule: split_segments_induct)
  case (step k rs more i)
  then obtain bodies where "more = map (\<lambda>(i, rs). segment_text e i rs) (enumerate (Suc k) bodies)"
    "concat bodies = drop i rs" "[] \<notin> set bodies" by blast
  then show ?case using step by (intro exI[of _ "take i rs # bodies"]) auto
qed (simp add: exI[of _ "[]"])

lemma splitSummaryEntry_covers: "splitSummaryEntry e n = Some parts \<Longrightarrow> covers e parts"
  unfolding splitSummaryEntry_def covers_def using split_segments_cover by (auto split: if_splits)

definition written :: "batch_state \<Rightarrow> string" where
  "written st = concat (fst st) @ snd st"

lemma written_simps [simp]: "written (flush_batch st) = written st" "written (append_batch n text st) = written st @ text"
  by (auto simp: written_def flush_batch_def append_batch_def Let_def)

lemma written_append_all [simp]: "written (append_all n parts st) = written st @ concat parts"
  unfolding append_all_def by (induction parts arbitrary: st) simp_all

lemma split_entries_cover:
  "split_entries n es st = Some st' \<Longrightarrow>
    \<exists>pss. list_all2 covers es pss \<and> written st' = written st @ concat (concat pss)"
proof (induction es arbitrary: st)
  case (Cons e es)
  then obtain parts where p: "splitSummaryEntry e n = Some parts" "split_entries n es (append_all n parts st) = Some st'"
    by (auto split: option.splits)
  obtain pss where "list_all2 covers es pss" "written st' = written (append_all n parts st) @ concat (concat pss)"
    using Cons.IH[OF p(2)] by blast
  then show ?case using splitSummaryEntry_covers[OF p(1)] by (intro exI[of _ "parts # pss"]) simp
qed simp

lemma whole_entries: "list_all2 covers es (map (\<lambda>e. [entry_text e]) es)"
  by (simp add: list_all2_conv_all_nth covers_def)

lemma concat_singletons: "concat (concat (map (\<lambda>e. [f e]) es)) = concat (map f es)"
  by (induction es) simp_all

lemma add_chunk_cover:
  assumes "add_chunk tab n c st = Some st'"
  shows "\<exists>pss. list_all2 covers (List.map_filter (summaryEntryForMessage tab) c) pss
    \<and> written st' = written st @ concat (concat pss)"
proof (cases "fitsSummaryBatch (concat (map entry_text (List.map_filter (summaryEntryForMessage tab) c))) n
    \<or> concat (map entry_text (List.map_filter (summaryEntryForMessage tab) c)) = []")
  case True
  then show ?thesis using assms whole_entries[of "List.map_filter (summaryEntryForMessage tab) c"]
    by (intro exI[of _ "map (\<lambda>e. [entry_text e]) (List.map_filter (summaryEntryForMessage tab) c)"])
      (auto simp: add_chunk_def Let_def concat_singletons split: if_splits)
next
  case False
  then have "split_entries n (List.map_filter (summaryEntryForMessage tab) c) (flush_batch st) = Some st'"
    using assms unfolding add_chunk_def Let_def by (simp only: if_False de_Morgan_disj)
  then show ?thesis using split_entries_cover by fastforce
qed

lemma add_chunks_cover:
  "add_chunks tab n cs st = Some st' \<Longrightarrow>
    \<exists>pss. list_all2 covers (List.map_filter (summaryEntryForMessage tab) (concat cs)) pss
      \<and> written st' = written st @ concat (concat pss)"
proof (induction cs arbitrary: st)
  case (Cons c cs)
  then obtain st1 where st1: "add_chunk tab n c st = Some st1" "add_chunks tab n cs st1 = Some st'"
    by (auto split: option.splits)
  obtain ps where ps: "list_all2 covers (List.map_filter (summaryEntryForMessage tab) c) ps"
    "written st1 = written st @ concat (concat ps)" using add_chunk_cover[OF st1(1)] by blast
  obtain qs where qs: "list_all2 covers (List.map_filter (summaryEntryForMessage tab) (concat cs)) qs"
    "written st' = written st1 @ concat (concat qs)" using Cons.IH[OF st1(2)] by blast
  have "list_all2 covers (List.map_filter (summaryEntryForMessage tab) (concat (c # cs))) (ps @ qs)"
    using ps(1) qs(1) by (simp add: map_filter_def list_all2_appendI)
  then show ?case using ps(2) qs(2) by (intro exI[of _ "ps @ qs"]) simp
qed (simp add: map_filter_simps)

text \<open>
  C23: Every batch given to the summarising model is within the budget, in tokens and in bytes, and
  together the batches are the history: in order, every entry of it whole or as numbered segments
  that leave out no rune of its body.
\<close>

theorem batches_fit_and_cover:
  assumes "summaryBatches tab ms maxTokens = Some batches"
  shows "(\<forall>b \<in> set batches. b \<noteq> [] \<and> fitsSummaryBatch b (nat maxTokens))
    \<and> (\<exists>pss. list_all2 covers (List.map_filter (summaryEntryForMessage tab) ms) pss
         \<and> concat batches = concat (concat pss))"
proof -
  obtain st where st: "add_chunks tab (nat maxTokens) (messageChunks ms) ([], []) = Some st"
    "batches = fst (flush_batch st)"
    using assms by (auto simp: summaryBatches_def split: if_splits)
  have "batches_fit (nat maxTokens) st" by (rule add_chunks_fit[OF st(1)]) (simp add: batches_fit_def)
  moreover obtain pss where "list_all2 covers (List.map_filter (summaryEntryForMessage tab) ms) pss"
    "written st = concat (concat pss)"
    using add_chunks_cover[OF st(1)] by (auto simp: written_def)
  moreover have "concat batches = written st"
    unfolding st(2) by (simp add: flush_batch_def written_def)
  ultimately show ?thesis using flush_fit[of "nat maxTokens" st] by (auto simp: st(2) batches_fit_def)
qed

lemma sample_batches:
  assumes "50 \<le> n"
  shows "summaryBatches tab [TextMessage RoleUser ''hi''] n = Some [''User:'' @ newline @ ''hi'' @ newline @ newline]"
proof -
  have t: "messageText (TextMessage RoleUser ''hi'') = ''hi''"
    by (simp add: messageText_def part_text_def TextMessage_def TextPart_def visible_eval)
  have e: "List.map_filter (summaryEntryForMessage tab) [TextMessage RoleUser ''hi'']
      = [\<lparr>sen_header = ''User:'' @ newline, sen_body = ''hi'', sen_continuation = []\<rparr>]"
    by (simp add: summaryEntryForMessage_def t map_filter_simps Let_def entry_label_def IsSynthetic_def)
      (simp add: TextMessage_def TextPart_def continuation_line_def)
  have c: "messageChunks [TextMessage RoleUser ''hi''] = [[TextMessage RoleUser ''hi'']]"
    by (simp add: chunk_rest_def)
  have "EstimateTextTokens (''User:'' @ newline @ ''hi'' @ newline @ newline) \<le> 50"
    by (simp add: EstimateTextTokens_def newline_def runes_ascii byte_def TrimSpace_def trim_list_def
        IsSpace_def rune_value_def Let_def)
  then have fits: "fitsSummaryBatch (''User:'' @ newline @ ''hi'' @ newline @ newline) (nat n)"
    using assms by (simp add: fitsSummaryBatch_def newline_def)
  have "add_chunk tab (nat n) [TextMessage RoleUser ''hi''] ([], [])
      = Some ([], ''User:'' @ newline @ ''hi'' @ newline @ newline)"
    unfolding add_chunk_def e using fits by (simp add: entry_text_def append_batch_def Let_def)
  then show ?thesis using assms unfolding summaryBatches_def c by (simp add: flush_batch_def)
qed

theorem batches_fit_and_cover_witness:
  "\<exists>batches. summaryBatches (\<lambda>_. True) [TextMessage RoleUser ''hi''] 50 = Some batches
    \<and> (\<forall>b \<in> set batches. fitsSummaryBatch b 50) \<and> concat batches = ''User:'' @ newline @ ''hi'' @ newline @ newline"
  using batches_fit_and_cover[OF sample_batches[of 50 "\<lambda>_. True"]] sample_batches[of 50 "\<lambda>_. True"] by simp

end
