(* ===== verification/Compaction.thy ===== *)
theory Compaction
  imports SummaryHistory SessionMachine
begin

text \<open>
  The compaction of a session: the summarising service
  (\<open>core/application/chat/compaction/service/summary_service.go\<close>), the choice of the messages
  (\<open>compact_service.go\<close>) and the adapter that stores a summary and takes it back when it cannot be
  persisted (\<open>core/adapter/chat/generation/summary_store.go\<close>). The model is a function of the number
  of the call and of its prompt; what it returns is decoded by a parameter, of which the acceptance
  is the one of the checkpoints; the cancellation of the context is a predicate on the number of
  the check. The session that the caller holds is the one of the store, so the adapter's second
  assignment to it is the first one again.
\<close>

record 'p SummaryEnv =
  se_senv :: SessionEnv
  se_Parse :: "string \<Rightarrow> 'p"
  se_EncodeJSON :: "'p \<Rightarrow> string"
  se_Generate :: "nat \<Rightarrow> string \<Rightarrow> string + string \<times> nat"
  se_Canceled :: "nat \<Rightarrow> bool"
  se_Rules :: string

datatype summary_error =
    SummaryCanceled
  | HistoryBudget
  | NoMessages
  | ModelError string
  | HasToolCalls
  | SummaryIsEmpty
  | InvalidJSON
  | SummaryTooLong

definition DecodeJSON :: "'p SummaryEnv \<Rightarrow> string \<Rightarrow> 'p option" where
  "DecodeJSON env s = (if hv_DecodeJSON (sv_hash (se_senv env)) s then Some (se_Parse env s) else None)"

definition maxExistingSummaryTokens :: int where "maxExistingSummaryTokens = 600"
definition maxSummaryBatchTokens :: int where "maxSummaryBatchTokens = 1800"
definition maxGeneratedSummaryTokens :: int where "maxGeneratedSummaryTokens = 768"

definition existingSummaryForPrompt :: "'p SummaryEnv \<Rightarrow> string \<Rightarrow> string" where
  "existingSummaryForPrompt env raw0 =
     (let raw = TrimSpace raw0
      in if raw = [] then []
         else case DecodeJSON env raw of
                Some parsed \<Rightarrow> se_EncodeJSON env parsed
              | None \<Rightarrow> TruncateTextToTokens raw maxExistingSummaryTokens)"

text \<open>The normal form of a summary the model returned, or why it is refused.\<close>

definition check_summary_json :: "'p SummaryEnv \<Rightarrow> string \<Rightarrow> summary_error + string" where
  "check_summary_json env summary =
     (case DecodeJSON env summary of
        None \<Rightarrow> Inl InvalidJSON
      | Some parsed \<Rightarrow>
          (let encoded = se_EncodeJSON env parsed
           in if EstimateTextTokens encoded > maxGeneratedSummaryTokens then Inl SummaryTooLong else Inr encoded))"

definition summarizeBatch :: "'p SummaryEnv \<Rightarrow> nat \<Rightarrow> string \<Rightarrow> string \<Rightarrow> summary_error + string" where
  "summarizeBatch env i existing text =
     (let prompt = se_Rules env
            @ (if \<not> blank existing then newline @ ''Existing checkpoint to update:'' @ newline @ existing else [])
            @ newline @ newline @ ''Complete history batch to incorporate:'' @ newline @ text
      in case se_Generate env i prompt of
           Inl e \<Rightarrow> Inl (ModelError e)
         | Inr (answer, toolCalls) \<Rightarrow>
             if se_Canceled env (2 * i + 2) then Inl SummaryCanceled
             else if toolCalls > 0 then Inl HasToolCalls
             else if blank answer then Inl SummaryIsEmpty
             else check_summary_json env (TrimSpace answer))"

fun summarize_from :: "'p SummaryEnv \<Rightarrow> nat \<Rightarrow> string \<Rightarrow> string list \<Rightarrow> summary_error + string" where
  "summarize_from env i summary [] = Inr summary"
| "summarize_from env i summary (text # texts) =
     (if se_Canceled env (2 * i + 1) then Inl SummaryCanceled
      else case summarizeBatch env i summary text of
             Inl e \<Rightarrow> Inl e
           | Inr next_summary \<Rightarrow> summarize_from env (Suc i) next_summary texts)"

definition Summarize :: "'p SummaryEnv \<Rightarrow> string \<Rightarrow> ChatMessage list \<Rightarrow> summary_error + string" where
  "Summarize env existingSummary ms =
     (if se_Canceled env 0 then Inl SummaryCanceled
      else
        (case summaryBatches (hv_printable (sv_hash (se_senv env))) ms maxSummaryBatchTokens of
           None \<Rightarrow> Inl HistoryBudget
         | Some batches \<Rightarrow>
             if batches = [] then Inl NoMessages
             else
               (case summarize_from env 0 (existingSummaryForPrompt env existingSummary) batches of
                  Inl e \<Rightarrow> Inl e
                | Inr summary \<Rightarrow> if blank summary then Inl SummaryIsEmpty else check_summary_json env summary)))"

section \<open>Storing\<close>

datatype compact_error =
    NotEnoughHistory
  | SummaryFailed summary_error
  | CheckpointFailed checkpoint_error
  | SummaryStoreFailed store_error
  | SaveFailed string

text \<open>\<open>persist\<close> is \<open>Sessions.Save\<close>, which sees the session as it is in memory.\<close>

definition SaveSummaryWithCheckpoint ::
  "SessionEnv \<Rightarrow> ('g Session \<Rightarrow> string option) \<Rightarrow> gotime \<Rightarrow> 'g Session \<Rightarrow> string \<Rightarrow> int \<Rightarrow> string \<Rightarrow> 'g Store
     \<Rightarrow> compact_error option \<times> 'g Store" where
  "SaveSummaryWithCheckpoint env persist now current summary compacted sourceHash st =
     (let checkpoint = (if \<not> blank sourceHash then NewCheckpoint (sv_hash env) summary 0 compacted sourceHash now
                        else Inr (LegacyCheckpoint summary compacted sourceHash))
      in case checkpoint of
           Inl e \<Rightarrow> (Some (CheckpointFailed e), st)
         | Inr c \<Rightarrow>
             (case setSummaryForSession (ses_ID current) summary compacted sourceHash (Some c) st of
                Inl e \<Rightarrow> (Some (SummaryStoreFailed e), st)
              | Inr st1 \<Rightarrow>
                  (case persist (current\<lparr>ses_Summary := summary, ses_CompactedMessages := compacted,
                      ses_CompactionSourceHash := sourceHash, ses_CompactionCheckpoint := Some c\<rparr>) of
                     None \<Rightarrow> (None, st1)
                   | Some e \<Rightarrow>
                       (Some (SaveFailed e),
                        settle st1 (setSummaryForSession (ses_ID current) (ses_Summary current)
                          (ses_CompactedMessages current) (ses_CompactionSourceHash current)
                          (ses_CompactionCheckpoint current) st1)))))"

section \<open>Compacting\<close>

text \<open>The summary to continue from, and the number of messages it stands for.\<close>

definition compaction_base :: "SessionEnv \<Rightarrow> 'g Session \<Rightarrow> string \<times> int" where
  "compaction_base env s =
     (case ses_CompactionCheckpoint s of
        Some c \<Rightarrow>
          if \<not> CompactionCheckpointMatchesCheckpoint (sv_hash env) (ses_Messages s) (Some c) then ([], 0)
          else (ckp_Summary c, ckp_SourceEndMessage c)
      | None \<Rightarrow>
          if \<not> CompactionCheckpointMatches (sv_hash env) (ses_Messages s) (ses_Summary s) (ses_CompactedMessages s)
                (ses_CompactionSourceHash s)
          then ([], 0) else (ses_Summary s, ses_CompactedMessages s))"

definition keepChunks :: "int \<Rightarrow> int" where
  "keepChunks configured = (if configured > 0 then configured else 8)"

definition CompactSession ::
  "'p SummaryEnv \<Rightarrow> ('g Session \<Rightarrow> string option) \<Rightarrow> gotime \<Rightarrow> int \<Rightarrow> 'g Session \<Rightarrow> 'g Store
     \<Rightarrow> compact_error option \<times> 'g Store" where
  "CompactSession env persist now configuredKeep current st =
     (let (summary, compacted) = compaction_base (se_senv env) current;
          (compactable, _, cutoff) = CompactSplit (ses_Messages current) compacted (keepChunks configuredKeep)
      in if compactable = [] then (Some NotEnoughHistory, st)
         else
           (case Summarize env summary compactable of
              Inl e \<Rightarrow> (Some (SummaryFailed e), st)
            | Inr new_summary \<Rightarrow>
                SaveSummaryWithCheckpoint (se_senv env) persist now current new_summary (int cutoff)
                  (CompactionSourceHash (sv_hash (se_senv env)) (ses_Messages current) (int cutoff)) st))"

section \<open>Facts\<close>

lemma not_blank_visible: "visible c \<Longrightarrow> \<not> blank (c # s)"
proof -
  assume v: "visible c"
  then have "byte c < 128" by (simp add: visible_def byte_in_def)
  then have "runes (c # s) = [c] # runes s" by (simp add: runes_step rune_width_ascii)
  then have "\<exists>r \<in> set (runes (c # s)). \<not> IsSpace r \<and> r \<noteq> []" using IsSpace_visible[OF v] by auto
  then have trim: "trim_list IsSpace (runes (c # s)) \<noteq> []" unfolding trim_list_eq_Nil by blast
  have "\<not> concat (trim_list IsSpace (runes (c # s))) = []"
  proof
    assume "concat (trim_list IsSpace (runes (c # s))) = []"
    then have "TrimSpace (c # s) = []" by (simp add: TrimSpace_def)
    then have "runes (TrimSpace (c # s)) = []" by simp
    then show False using trim by (simp add: runes_TrimSpace)
  qed
  then show ?thesis by (simp add: TrimSpace_def)
qed

text \<open>SHA-256 in hexadecimal is a word of visible characters.\<close>

definition hex_digest :: "HashEnv \<Rightarrow> bool" where
  "hex_digest env \<longleftrightarrow> (\<forall>x. hv_sha256 env x \<noteq> [] \<and> list_all visible (hv_sha256 env x))"

lemma digest_not_blank: "hex_digest env \<Longrightarrow> \<not> blank (hv_sha256 env x @ y) \<and> TrimSpace (hv_sha256 env x) = hv_sha256 env x"
proof -
  assume "hex_digest env"
  then have v: "hv_sha256 env x \<noteq> []" "list_all visible (hv_sha256 env x)" by (simp_all add: hex_digest_def)
  then obtain c t where "hv_sha256 env x = c # t" by (cases "hv_sha256 env x") auto
  with v have ct: "hv_sha256 env x = c # t" "visible c" "list_all visible (hv_sha256 env x)" by simp_all
  then show ?thesis using not_blank_visible[of c "t @ y"] TrimSpace_visible by simp
qed

lemma Role_text_visible: "\<exists>c t. Role_text r = c # t \<and> visible c"
  by (cases r) (simp_all add: visible_eval)

lemma source_hash_not_blank:
  assumes "hex_digest env" "ms \<noteq> []" "0 < k"
  shows "CompactionSourceHash env ms k \<noteq> [] \<and> TrimSpace (CompactionSourceHash env ms k) = CompactionSourceHash env ms k"
proof -
  obtain m rest where pre: "take (nat k) ms = m # rest" using assms(2,3) by (cases ms; cases "nat k") auto
  have "\<not> blank (concat (map (stable_message env) (take (nat k) ms)))"
    using Role_text_visible[of "cm_Role m"] not_blank_visible by (auto simp: pre stable_message_def)
  then obtain x where x: "StableMessagesHash env (take (nat k) ms) = hv_sha256 env x"
    by (simp add: StableMessagesHash_def StableTextHash_def Let_def)
  have "\<exists>y. CompactionSourceHash env ms k = hv_sha256 env y"
    using assms(2,3) digest_not_blank[OF assms(1)] x
    by (auto simp: CompactionSourceHash_def StableTextHash_def Let_def)
  then obtain y where y: "CompactionSourceHash env ms k = hv_sha256 env y" ..
  then show ?thesis using digest_not_blank[OF assms(1), of y "[]"] by (metis append_Nil2)
qed

lemma compactable_cutoff:
  assumes "CompactSplit ms k keep = (compactable, recent, cutoff)" "compactable \<noteq> []"
  shows "0 < cutoff \<and> cutoff \<le> length ms"
proof -
  let ?start = "NormalizeCompactedMessages ms k"
  let ?chunks = "messageChunks (drop ?start ms)"
  define n where "n = length ?chunks - nat (if keep \<le> 0 then 8 else keep)"
  have cut: "cutoff = ?start + sum_list (map length (take n ?chunks))"
    and ne: "compactable = take (cutoff - ?start) (drop ?start ms)" and st: "?start < length ms"
    using assms by (auto simp: CompactSplit_def Let_def n_def split: if_splits)
  have "sum_list (map length (take n ?chunks)) \<le> length (concat ?chunks)"
    by (subst append_take_drop_id[of n ?chunks, symmetric], simp only: concat_append length_append)
      (simp add: length_concat)
  then have "cutoff \<le> length ms" using st by (simp add: cut)
  moreover have "0 < cutoff" using ne assms(2) by (cases cutoff) auto
  ultimately show ?thesis by simp
qed

lemma set_summary_present:
  "sto_session st sid = Some s \<Longrightarrow> sid \<noteq> [] \<Longrightarrow> setSummaryForSession sid summary compacted hash c st
    = Inr (st\<lparr>sto_session := (sto_session st)(sid \<mapsto> s\<lparr>ses_Summary := summary, ses_CompactedMessages := compacted,
        ses_CompactionSourceHash := hash, ses_CompactionCheckpoint := c\<rparr>)\<rparr>)"
  by (simp add: setSummaryForSession_def on_session_def sessionByIDLocked_def)

lemma summary_undone:
  "s\<lparr>ses_Summary := a, ses_CompactedMessages := b, ses_CompactionSourceHash := h, ses_CompactionCheckpoint := c\<rparr>
     \<lparr>ses_Summary := ses_Summary s, ses_CompactedMessages := ses_CompactedMessages s,
      ses_CompactionSourceHash := ses_CompactionSourceHash s, ses_CompactionCheckpoint := ses_CompactionCheckpoint s\<rparr> = s"
  by (cases s) simp

text \<open>Saving a summary under the fingerprint of a prefix: all or nothing, and then it matches.\<close>

lemma save_summary:
  assumes st: "sto_session st (ses_ID s) = Some s" "ses_ID s \<noteq> []"
    and cut: "0 < cutoff" "cutoff \<le> length (ses_Messages s)"
    and h: "h = CompactionSourceHash (sv_hash env) (ses_Messages s) (int cutoff)" "h \<noteq> []" "TrimSpace h = h"
    and save: "SaveSummaryWithCheckpoint env persist now s new (int cutoff) h st = (err, st')"
  shows "err \<noteq> None \<and> st' = st
    \<or> err = None \<and> (\<exists>c. st' = st\<lparr>sto_session := (sto_session st)(ses_ID s \<mapsto>
            s\<lparr>ses_Summary := new, ses_CompactedMessages := int cutoff, ses_CompactionSourceHash := h,
              ses_CompactionCheckpoint := Some c\<rparr>)\<rparr>
         \<and> summary_current env (s\<lparr>ses_Summary := new, ses_CompactedMessages := int cutoff,
              ses_CompactionSourceHash := h, ses_CompactionCheckpoint := Some c\<rparr>))"
proof (cases "NewCheckpoint (sv_hash env) new 0 (int cutoff) h now")
  case (Inl e)
  then show ?thesis using save h(2,3) by (auto simp: SaveSummaryWithCheckpoint_def Let_def)
next
  case (Inr c)
  define s' where "s' = s\<lparr>ses_Summary := new, ses_CompactedMessages := int cutoff,
      ses_CompactionSourceHash := h, ses_CompactionCheckpoint := Some c\<rparr>"
  have c: "Checkpoint_Validate (sv_hash env) c = None" "ckp_Version c = CurrentVersion" "ckp_SourceStartMessage c = 0"
    "ckp_SourceEndMessage c = int cutoff" "ckp_SourceHistoryHash c = h" "ckp_Summary c = TrimSpace new"
    using Inr h(3) by (auto simp: NewCheckpoint_def Let_def split: if_splits option.splits)
  have "\<not> blank new" using c(1,6) by (auto simp: Checkpoint_Validate_def split: if_splits)
  then have cur: "summary_current env s'"
    using c h cut by (simp add: summary_current_def s'_def)
  have undo: "st\<lparr>sto_session := (sto_session st)(ses_ID s \<mapsto> s)\<rparr> = st"
    using st(1) by (simp add: map_upd_triv)
  have "persist s' = None \<and> err = None \<and> st' = st\<lparr>sto_session := (sto_session st)(ses_ID s \<mapsto> s')\<rparr>
      \<or> err \<noteq> None \<and> st' = st"
    using save h(2,3) Inr undo st
    by (cases "persist s'") (auto simp: SaveSummaryWithCheckpoint_def set_summary_present s'_def[symmetric] settle_def
        set_summary_present[of _ _ s'] Let_def
        summary_undone[where s=s and a=new and b="int cutoff" and h=h and c="Some c", folded s'_def])
  then show ?thesis using cur unfolding s'_def by blast
qed

text \<open>
  C7: A compaction is all or nothing. If it fails, whether the model, the checkpoint or the
  persistence of the session, the store is what it was. If it succeeds only the summary of the
  session has changed, and it is one that matches the history: it stands for a nonempty prefix of
  the messages, under the fingerprint of that prefix, with a checkpoint that says the same, so that
  it survives storing and loading.
\<close>

theorem compaction_all_or_nothing:
  assumes "hex_digest (sv_hash (se_senv env))" "sto_session st (ses_ID s) = Some s" "ses_ID s \<noteq> []"
    "CompactSession env persist now keep s st = (err, st')"
  shows "(err \<noteq> None \<longrightarrow> st' = st)
    \<and> (err = None \<longrightarrow> (\<exists>s'. st' = st\<lparr>sto_session := (sto_session st)(ses_ID s \<mapsto> s')\<rparr>
         \<and> s' = s\<lparr>ses_Summary := ses_Summary s', ses_CompactedMessages := ses_CompactedMessages s',
                  ses_CompactionSourceHash := ses_CompactionSourceHash s',
                  ses_CompactionCheckpoint := ses_CompactionCheckpoint s'\<rparr>
         \<and> summary_current (se_senv env) s' \<and> ses_CompactionCheckpoint s' \<noteq> None))"
proof -
  let ?H = "sv_hash (se_senv env)"
  obtain summary compacted where base: "compaction_base (se_senv env) s = (summary, compacted)" by fastforce
  obtain compactable recent cutoff where
    split: "CompactSplit (ses_Messages s) compacted (keepChunks keep) = (compactable, recent, cutoff)"
    by (metis prod_cases3)
  note run = assms(4)[unfolded CompactSession_def base split Let_def prod.case]
  show ?thesis
  proof (cases "compactable = [] \<or> isl (Summarize env summary compactable)")
    case True
    then show ?thesis using run by (auto simp: isl_def split: if_splits)
  next
    case False
    then obtain new where new: "Summarize env summary compactable = Inr new" "compactable \<noteq> []"
      by (auto simp: isl_def) (metis obj_sumE)
    have cut: "0 < cutoff" "cutoff \<le> length (ses_Messages s)" "ses_Messages s \<noteq> []"
      using compactable_cutoff[OF split new(2)] by auto
    define h where "h = CompactionSourceHash ?H (ses_Messages s) (int cutoff)"
    have h: "h \<noteq> []" "TrimSpace h = h"
      using source_hash_not_blank[OF assms(1) cut(3), of "int cutoff"] cut(1) by (simp_all add: h_def)
    have "SaveSummaryWithCheckpoint (se_senv env) persist now s new (int cutoff) h st = (err, st')"
      using run new by (simp add: h_def)
    from save_summary[OF assms(2,3) cut(1,2) h_def h this] show ?thesis by auto
  qed
qed

text \<open>A session of two turns, of which the first is compacted.\<close>

definition sample_compact_env :: "unit SummaryEnv" where
  "sample_compact_env =
     \<lparr>se_senv = sample_senv, se_Parse = (\<lambda>_. ()), se_EncodeJSON = (\<lambda>_. ''{}''),
      se_Generate = (\<lambda>_ _. Inr (''{}'', 0)), se_Canceled = (\<lambda>_. False), se_Rules = ''r''\<rparr>"

definition sample_long_session :: "unit Session" where
  "sample_long_session =
     sample_stored_session\<lparr>ses_Summary := [], ses_CompactedMessages := 0, ses_CompactionSourceHash := [],
       ses_CompactionCheckpoint := None,
       ses_Messages := [TextMessage RoleSystem ''p'', TextMessage RoleUser ''hi'', TextMessage RoleUser ''yo'']\<rparr>"

lemma sample_env_fields:
  "se_Generate sample_compact_env i x = Inr (''{}'', 0)" "se_Canceled sample_compact_env i = False"
  "se_EncodeJSON sample_compact_env y = ''{}''" "hv_DecodeJSON (sv_hash sample_senv) x"
  "se_senv sample_compact_env = sample_senv" "DecodeJSON sample_compact_env x = Some ()"
  by (simp_all add: sample_compact_env_def sample_senv_def DecodeJSON_def)

lemma sample_split:
  "CompactSplit (ses_Messages sample_long_session) 0 (keepChunks 1) = ([TextMessage RoleUser ''hi''], [TextMessage RoleUser ''yo''], 2)"
  by (simp add: CompactSplit_def keepChunks_def sample_long_session_def NormalizeCompactedMessages_def chunk_rest_def
      TextMessage_def opens_turn_def continues_turn_def IsSynthetic_def IsTurnContext_def Let_def)

lemma sample_summarize: "Summarize sample_compact_env [] [TextMessage RoleUser ''hi''] = Inr ''{}''"
proof -
  have "TrimSpace ''{}'' = ''{}''" "EstimateTextTokens ''{}'' \<le> 768"
    by (simp_all add: visible_eval EstimateTextTokens_def runes_ascii Let_def)
  then show ?thesis
    by (simp add: Summarize_def sample_batches maxSummaryBatchTokens_def summarizeBatch_def check_summary_json_def
        existingSummaryForPrompt_def maxGeneratedSummaryTokens_def sample_env_fields Let_def)
qed

theorem compaction_all_or_nothing_witness:
  "\<exists>st' s'. CompactSession sample_compact_env (\<lambda>_. None) 5 1 sample_long_session
      ((NewStore ''m'')\<lparr>sto_session := [''s1'' \<mapsto> sample_long_session]\<rparr>) = (None, st')
    \<and> sto_session st' ''s1'' = Some s' \<and> summary_current sample_senv s'
    \<and> ses_Messages s' = ses_Messages sample_long_session"
proof -
  let ?st = "(NewStore ''m'')\<lparr>sto_session := [''s1'' \<mapsto> sample_long_session]\<rparr>"
  have sid: "ses_ID sample_long_session = ''s1''" by (simp add: sample_long_session_def sample_stored_session_def)
  have hash: "CompactionSourceHash (sv_hash sample_senv) (ses_Messages sample_long_session) 2 = ''h''"
    by (simp add: CompactionSourceHash_def StableMessagesHash_def StableTextHash_def sample_long_session_def
        sample_senv_def stable_message_def stable_part_def TextMessage_def TextPart_def IsSynthetic_def has_source_def
        newline_def Let_def TrimSpace_def runes_ascii trim_list_def IsSpace_def rune_value_def byte_def)
  have base: "compaction_base sample_senv sample_long_session = ([], 0)"
    by (simp add: compaction_base_def sample_long_session_def CompactionCheckpointMatches_def)
  have digest: "hex_digest (sv_hash (se_senv sample_compact_env))"
    by (simp add: hex_digest_def sample_compact_env_def sample_senv_def visible_eval)
  have senv: "se_senv sample_compact_env = sample_senv" by (simp add: sample_compact_env_def)
  have trims: "TrimSpace ''{}'' = ''{}''" "TrimSpace ''h'' = ''h''" by (simp_all add: visible_eval)
  obtain err st' where run: "CompactSession sample_compact_env (\<lambda>_. None) 5 1 sample_long_session ?st = (err, st')" by fastforce
  obtain c where "NewCheckpoint (sv_hash sample_senv) ''{}'' 0 2 ''h'' 5 = Inr c"
    by (simp add: NewCheckpoint_def Checkpoint_Validate_def CurrentVersion_def trims sample_env_fields Let_def)
  then have "err = None"
    using run by (simp add: CompactSession_def senv base sample_split sample_summarize hash SaveSummaryWithCheckpoint_def
        trims sid set_summary_present Let_def)
  have "sto_session ?st (ses_ID sample_long_session) = Some sample_long_session" "ses_ID sample_long_session \<noteq> []"
    by (simp_all add: sid)
  from compaction_all_or_nothing[OF digest this run] \<open>err = None\<close> obtain s' where
    "st' = ?st\<lparr>sto_session := (sto_session ?st)(ses_ID sample_long_session \<mapsto> s')\<rparr>" "summary_current sample_senv s'"
    and s': "s' = sample_long_session\<lparr>ses_Summary := ses_Summary s', ses_CompactedMessages := ses_CompactedMessages s',
          ses_CompactionSourceHash := ses_CompactionSourceHash s', ses_CompactionCheckpoint := ses_CompactionCheckpoint s'\<rparr>"
    by (auto simp: senv)
  moreover have "ses_Messages s' = ses_Messages sample_long_session" by (subst s') simp
  ultimately show ?thesis using run \<open>err = None\<close> by (auto simp: sid)
qed

end
