(* ===== verification/SubagentService.thy ===== *)
theory SubagentService
  imports TaskEventBus AgentRuntime SubagentScheduler SubagentHierarchy SubagentCompletion
begin

text \<open>
  The state of the subagent task service (\<open>core/application/subagent/service\<close>) and the helpers its
  methods share: \<open>service.go\<close>, \<open>task_lease.go\<close>, \<open>task_persistence.go\<close>, \<open>task_events.go\<close> and
  \<open>parent_completion.go\<close>. The service composes the repository, the runtime manager, the path
  registry and the scheduler of the theories it imports. What is fixed when the application is
  wired is the record \<open>ServiceConfig\<close>; an optional dependency that may be nil is a boolean or an
  option there. The required ones are present, so the guards against a nil service have no
  counterpart. The repository is the one in memory, which implements every optional interface
  that the code asserts, so those assertions succeed.

  A critical section under \<open>service.mu\<close> is one operation. \<open>now\<close> is the clock of the operation, for
  the service and for the repository. The events handed to the publisher are kept in the order
  of the calls; \<open>TaskEventBus\<close> is what becomes of them. The n-th message handed to the parent's
  notifier gets the error \<open>cfg_ParentNotifier n\<close> of that message, or none; \<open>cfg_ContentHash\<close> is the hexadecimal
  SHA-256 of a text. Errors that the code only reports to a
  callback leave no trace. An entry of \<open>activeRuns\<close> stands for the open channel \<open>done\<close>: the code
  closes it as it deletes the entry. A waiter of \<open>waitingWakeups\<close> is a number, the address of its
  record.
\<close>

record ServiceConfig =
  cfg_NewID :: "nat \<Rightarrow> string"
  cfg_ExecutionLease :: bool
  cfg_ExecutionOwnerID :: string
  cfg_ExecutionLeaseTTL :: duration
  cfg_MessageOwnerID :: string
  cfg_AgentMessages :: bool
  cfg_AgentPaths :: bool
  cfg_Runtime :: bool
  cfg_Models :: "(string \<Rightarrow> bool) option"
  cfg_Workspaces :: bool
  cfg_ContentHash :: "string \<Rightarrow> string"
  cfg_ParentNotifier :: "(nat \<Rightarrow> AgentMessage \<Rightarrow> string option) option"
  cfg_DefaultWorkspaceRoot :: string

record childWait =
  cw_runID :: string
  cw_signaled :: bool

record Service =
  svc_repo :: Repository
  svc_registry :: "Definition gomap"
  svc_paths :: PathRegistry
  svc_runtime :: Manager
  svc_scheduler :: Scheduler
  svc_ids :: nat
  svc_resumeClaims :: "string set"
  svc_parentNotified :: "string set"
  svc_activeRuns :: "string gomap"
  svc_waitingWakeups :: "string \<Rightarrow> (nat \<times> childWait) list"
  svc_waiters :: nat
  svc_events :: "TaskEvent list"
  svc_notified :: "AgentMessage list"
  svc_notifyCalls :: nat

datatype service_error =
    SvcRepo repo_error
  | SvcTask task_error
  | SvcHierarchy "repo_error hierarchy_error"
  | SvcMessageInvalid agent_message_error
  | SvcRuntimeError runtime_error
  | SvcSchedule scheduler_error
  | SvcDefinitionNotFound
  | SvcModelRequired
  | SvcModelUnknown
  | SvcWritableNeedsIsolation
  | SvcPathUnavailable
  | SvcOwnerMissing
  | SvcOperationEmpty
  | SvcInconsistent
  | SvcActiveExecution
  | SvcCurrentRunMissing
  | SvcRunMismatch
  | SvcPollFromCreator
  | SvcSteerUnsupported
  | SvcBadTrigger
  | SvcBadKind
  | SvcMessageEmpty
  | SvcMessageTooLong
  | SvcMessageIDReused
  | SvcFollowupFromCreator
  | SvcFollowupStatus TaskStatus
  | SvcResultConsumed
  | SvcBeingConsumed
  | SvcResumeStatus TaskStatus
  | SvcApplyStatus TaskStatus
  | SvcDiscardRunning
  | SvcDirectWorkspace
  | SvcWorkspaceSource
  | SvcWorkspace string
  | SvcNotifyFailed string
  | SvcCanceledContext
  | SvcClaimedMissing
  | SvcTaskIDRequired
  | SvcEventStream

definition repo_result :: "repo_error + 'a \<Rightarrow> service_error + 'a" where
  "repo_result x = (case x of Inl e \<Rightarrow> Inl (SvcRepo e) | Inr v \<Rightarrow> Inr v)"

lemma repo_result_simps [simp]:
  "repo_result (Inl e) = Inl (SvcRepo e)" "repo_result (Inr v) = Inr v"
  "repo_result x = Inr v \<longleftrightarrow> x = Inr v" "Inr v = repo_result x \<longleftrightarrow> x = Inr v"
  by (auto simp: repo_result_def split: sum.splits)

definition set_repo :: "Service \<Rightarrow> Repository \<Rightarrow> Service" where
  "set_repo s r = s\<lparr>svc_repo := r\<rparr>"

definition NewID :: "ServiceConfig \<Rightarrow> Service \<Rightarrow> string \<times> Service" where
  "NewID cfg s = (cfg_NewID cfg (svc_ids s), s\<lparr>svc_ids := Suc (svc_ids s)\<rparr>)"

section \<open>Registry of definitions\<close>

text \<open>\<open>core/adapter/subagent/memory/registry.go\<close>; each method holds its mutex.\<close>

definition Registry_Get :: "string \<Rightarrow> Definition gomap \<Rightarrow> Definition option" where
  "Registry_Get definitionID items = items (TrimSpace definitionID)"

definition Registry_Register :: "Definition \<Rightarrow> Definition gomap \<Rightarrow> definition_error + Definition gomap" where
  "Registry_Register d items =
     (let definition = Definition_Normalized d
      in case Definition_Validate definition of
           Some e \<Rightarrow> Inl e
         | None \<Rightarrow> Inr (items(def_ID definition \<mapsto> definition)))"

definition Registry_Remove :: "string \<Rightarrow> Definition gomap \<Rightarrow> Definition gomap" where
  "Registry_Remove definitionID items = items(TrimSpace definitionID := None)"

section \<open>Execution leases\<close>

definition defaultExecutionLeaseTTL :: duration where
  "defaultExecutionLeaseTTL = 30 * 1000000000"

definition leaseTTL :: "ServiceConfig \<Rightarrow> duration" where
  "leaseTTL cfg =
     (if 0 < cfg_ExecutionLeaseTTL cfg then cfg_ExecutionLeaseTTL cfg else defaultExecutionLeaseTTL)"

lemma leaseTTL_pos [simp]: "0 < leaseTTL cfg" "\<not> leaseTTL cfg \<le> 0"
  by (simp_all add: leaseTTL_def defaultExecutionLeaseTTL_def)

definition acquireExecutionLease ::
  "ServiceConfig \<Rightarrow> string \<Rightarrow> string \<Rightarrow> gotime \<Rightarrow> Service \<Rightarrow> service_error + Service" where
  "acquireExecutionLease cfg taskID runID now s =
     (if \<not> cfg_ExecutionLease cfg then Inr s
      else if blank (cfg_ExecutionOwnerID cfg) then Inl SvcOwnerMissing
      else map_sum SvcRepo (set_repo s)
        (Acquire taskID runID (cfg_ExecutionOwnerID cfg) (leaseTTL cfg) now (svc_repo s)))"

definition renewExecutionLease ::
  "ServiceConfig \<Rightarrow> string \<Rightarrow> string \<Rightarrow> gotime \<Rightarrow> Service \<Rightarrow> service_error + Service" where
  "renewExecutionLease cfg taskID runID now s =
     (if \<not> cfg_ExecutionLease cfg then Inr s
      else map_sum SvcRepo (set_repo s)
        (Renew taskID runID (cfg_ExecutionOwnerID cfg) (leaseTTL cfg) now (svc_repo s)))"

definition releaseExecutionLease :: "ServiceConfig \<Rightarrow> string \<Rightarrow> string \<Rightarrow> Service \<Rightarrow> Service" where
  "releaseExecutionLease cfg taskID runID s =
     (if \<not> cfg_ExecutionLease cfg then s
      else case Release taskID runID (cfg_ExecutionOwnerID cfg) (svc_repo s) of
        Inl _ \<Rightarrow> s | Inr r \<Rightarrow> set_repo s r)"

text \<open>The release that \<open>taskMutationLease\<close> returns is \<open>releaseMutation\<close>.\<close>

definition taskMutationLease ::
  "ServiceConfig \<Rightarrow> string \<Rightarrow> string \<Rightarrow> gotime \<Rightarrow> Service \<Rightarrow> service_error + Service" where
  "taskMutationLease cfg taskID operationID now s =
     (if \<not> cfg_ExecutionLease cfg then Inr s
      else if blank (cfg_ExecutionOwnerID cfg) then Inl SvcOwnerMissing
      else if blank operationID then Inl SvcOperationEmpty
      else map_sum SvcRepo (set_repo s)
        (Acquire taskID operationID (cfg_ExecutionOwnerID cfg) (leaseTTL cfg) now (svc_repo s)))"

definition releaseMutation :: "ServiceConfig \<Rightarrow> string \<Rightarrow> string \<Rightarrow> Service \<Rightarrow> Service" where
  "releaseMutation cfg taskID operationID s =
     (if \<not> cfg_ExecutionLease cfg then s else releaseExecutionLease cfg taskID operationID s)"

definition taskOperationID :: "ServiceConfig \<Rightarrow> string \<Rightarrow> Service \<Rightarrow> string \<times> Service" where
  "taskOperationID cfg prefix s =
     (case NewID cfg s of (i, s') \<Rightarrow> (TrimSpace prefix @ '':'' @ i, s'))"

section \<open>Saving transitions\<close>

definition saveTaskAndRun ::
  "ServiceConfig \<Rightarrow> Task \<Rightarrow> Run \<Rightarrow> gotime \<Rightarrow> Service \<Rightarrow> service_error + Service" where
  "saveTaskAndRun cfg task run now s =
     (if task_ID task = [] \<or> run_ID run = [] \<or> run_TaskID run \<noteq> task_ID task
        then Inl SvcInconsistent
      else if cfg_ExecutionLease cfg
        then map_sum SvcRepo (set_repo s)
          (SaveOwnedTaskAndRun task run (cfg_ExecutionOwnerID cfg) (leaseTTL cfg) now (svc_repo s))
      else Inr (set_repo s (SaveTaskAndRun task run (svc_repo s))))"

definition saveCanceledTaskAndRun :: "Task \<Rightarrow> Run \<Rightarrow> Service \<Rightarrow> service_error + Service" where
  "saveCanceledTaskAndRun task run s =
     map_sum SvcRepo (set_repo s) (SaveCanceledTaskAndRun task run (svc_repo s))"

definition saveTaskMutation ::
  "ServiceConfig \<Rightarrow> Task \<Rightarrow> string \<Rightarrow> gotime \<Rightarrow> string \<Rightarrow> gotime \<Rightarrow> Service \<Rightarrow> service_error + Service" where
  "saveTaskMutation cfg task expectedRunID expectedUpdatedAt operationID now s =
     map_sum SvcRepo (set_repo s)
       (if cfg_ExecutionLease cfg
        then SaveOwnedTask task operationID expectedRunID (cfg_ExecutionOwnerID cfg)
               expectedUpdatedAt (leaseTTL cfg) now now (svc_repo s)
        else SaveTaskIfVersion task expectedUpdatedAt (svc_repo s))"

definition saveTaskMutationDuringRun ::
  "ServiceConfig \<Rightarrow> Task \<Rightarrow> string \<Rightarrow> gotime \<Rightarrow> gotime \<Rightarrow> Service \<Rightarrow> service_error + Service" where
  "saveTaskMutationDuringRun cfg task expectedRunID expectedUpdatedAt now s =
     map_sum SvcRepo (set_repo s)
       (if cfg_ExecutionLease cfg \<and> \<not> blank expectedRunID
        then SaveOwnedTask task expectedRunID expectedRunID (cfg_ExecutionOwnerID cfg)
               expectedUpdatedAt (leaseTTL cfg) now now (svc_repo s)
        else SaveTaskIfVersion task expectedUpdatedAt (svc_repo s))"

definition currentRun :: "Task \<Rightarrow> Repository \<Rightarrow> service_error + Run" where
  "currentRun task r =
     (case find (\<lambda>run. run_ID run = task_CurrentRunID task) (ListRuns (task_ID task) r) of
        None \<Rightarrow> Inl SvcCurrentRunMissing | Some run \<Rightarrow> Inr run)"

section \<open>Events\<close>

definition publish_task :: "Task \<Rightarrow> Service \<Rightarrow> Service" where
  "publish_task task s =
     s\<lparr>svc_events := svc_events s @ [bare_event (taskEventKind (task_Status task)) task]\<rparr>"

text \<open>An event of a run is dropped unless the run is the task's current one.\<close>

definition publishTaskStreamEvent :: "string \<Rightarrow> string \<Rightarrow> TaskEvent \<Rightarrow> Service \<Rightarrow> Service" where
  "publishTaskStreamEvent taskID runID event s =
     (case GetTask taskID (svc_repo s) of
        Inl _ \<Rightarrow> s
      | Inr task \<Rightarrow>
          (if task_CurrentRunID task \<noteq> runID then s
           else s\<lparr>svc_events := svc_events s @ [event\<lparr>ev_Task := task, ev_RunID := runID\<rparr>]\<rparr>))"

text \<open>The event without its task, as \<open>publishRuntimeEvent\<close> builds it.\<close>

definition runtime_event ::
  "string \<Rightarrow> string \<Rightarrow> string \<Rightarrow> string \<Rightarrow> string \<Rightarrow> string \<Rightarrow> string \<Rightarrow> bool \<Rightarrow> Task \<Rightarrow> TaskEvent" where
  "runtime_event kind output toolName arguments status errorCode errorMessage delta task =
     (bare_event kind task)\<lparr>ev_Content := output, ev_ToolName := toolName,
        ev_Arguments := arguments, ev_Status := status, ev_ErrorCode := errorCode,
        ev_ErrorMessage := errorMessage, ev_Delta := delta\<rparr>"

section \<open>Runtime\<close>

definition runtime_try :: "ServiceConfig \<Rightarrow> (Manager \<Rightarrow> runtime_error + Manager) \<Rightarrow> Service \<Rightarrow> Service" where
  "runtime_try cfg f s =
     (if cfg_Runtime cfg
      then (case f (svc_runtime s) of Inl _ \<Rightarrow> s | Inr m \<Rightarrow> s\<lparr>svc_runtime := m\<rparr>) else s)"

definition runtime_register :: "ServiceConfig \<Rightarrow> Task \<Rightarrow> Service \<Rightarrow> service_error + Service" where
  "runtime_register cfg task s =
     (if cfg_Runtime cfg
      then map_sum SvcRuntimeError (\<lambda>m. s\<lparr>svc_runtime := m\<rparr>) (Manager_Register task (svc_runtime s))
      else Inr s)"

definition path_release :: "ServiceConfig \<Rightarrow> string \<Rightarrow> Service \<Rightarrow> Service" where
  "path_release cfg path s =
     (if cfg_AgentPaths cfg then s\<lparr>svc_paths := ReleasePath path (svc_paths s)\<rparr> else s)"

definition completeActiveRunLocked ::
  "ServiceConfig \<Rightarrow> string \<Rightarrow> string \<Rightarrow> Service \<Rightarrow> bool \<times> Service" where
  "completeActiveRunLocked cfg taskID runID s =
     (let released = (svc_activeRuns s taskID = Some runID);
          s1 = (if released then s\<lparr>svc_activeRuns := (svc_activeRuns s)(taskID := None)\<rparr> else s)
      in (released, runtime_try cfg (ReleaseTurn taskID runID) s1))"

text \<open>\<open>None\<close> stands for \<open>false\<close>, which leaves the state as it is.\<close>

definition registerActiveRunLocked ::
  "ServiceConfig \<Rightarrow> string \<Rightarrow> string \<Rightarrow> Service \<Rightarrow> Service option" where
  "registerActiveRunLocked cfg taskID runID s =
     (if svc_activeRuns s taskID \<noteq> None then None
      else let active = (svc_activeRuns s)(taskID \<mapsto> runID)
      in if cfg_Runtime cfg
         then (case ReserveTurn taskID runID (svc_runtime s) of
             Inl _ \<Rightarrow> None
           | Inr m \<Rightarrow> Some (s\<lparr>svc_runtime := m, svc_activeRuns := active\<rparr>))
         else Some (s\<lparr>svc_activeRuns := active\<rparr>))"

definition registerActiveRun ::
  "ServiceConfig \<Rightarrow> string \<Rightarrow> string \<Rightarrow> Service \<Rightarrow> Service option" where
  "registerActiveRun cfg taskID runID s =
     (if taskID = [] then None else registerActiveRunLocked cfg taskID runID s)"

definition signalWaitingTask :: "string \<Rightarrow> Service \<Rightarrow> Service" where
  "signalWaitingTask taskID s =
     (if taskID = [] then s
      else s\<lparr>svc_waitingWakeups := (svc_waitingWakeups s)(taskID :=
             map (\<lambda>(i, w). (i, w\<lparr>cw_signaled := True\<rparr>)) (svc_waitingWakeups s taskID))\<rparr>)"

section \<open>Completion messages for the parent\<close>

definition completion_message :: "Task \<Rightarrow> gotime \<Rightarrow> AgentMessage" where
  "completion_message task now =
     \<lparr>am_ID = AgentResultMessageID (task_ID task) (task_CurrentRunID task),
      am_SourceTaskID = task_ID task, am_AuthorAgentID = task_ChildSessionID task,
      am_RecipientAgentID = task_ParentSessionID task, am_ParentTurnID = task_ParentRunID task,
      am_RootAgentID = task_ParentSessionID task,
      am_Kind = (if task_Status task = TaskStatusFailed then AgentMessageKindTaskError
                 else AgentMessageKindTaskResult),
      am_Content = CompletionMessageContent task, am_Trigger = AgentMessageTriggerTurn,
      am_Sequence = 0, am_Status = AgentMessagePending, am_DeliveryAttempts = 0,
      am_LastError = [], am_CreatedAt = now, am_DeliveredAt = None, am_ClaimOwnerID = [],
      am_ClaimExpiresAt = None\<rparr>"

definition prepareParentCompletionMessageLocked ::
  "ServiceConfig \<Rightarrow> Task \<Rightarrow> gotime \<Rightarrow> Service \<Rightarrow> service_error + (AgentMessage \<times> Service)" where
  "prepareParentCompletionMessageLocked cfg task now s =
     (let messageID = AgentResultMessageID (task_ID task) (task_CurrentRunID task);
          fresh = (let message = completion_message task now
             in case AgentMessage_Validate message of
                  Some e \<Rightarrow> Inl (SvcMessageInvalid e)
                | None \<Rightarrow>
                    (if \<not> cfg_AgentMessages cfg then Inr (message, s)
                     else map_sum SvcRepo (\<lambda>(m, r). (m, set_repo s r))
                       (EnqueueParentCompletion (task_ID task) message (svc_repo s))))
      in if cfg_AgentMessages cfg
         then (case GetAgentMessage messageID (svc_repo s) of
             Inr existing \<Rightarrow> Inr (existing, s)
           | Inl e \<Rightarrow> (if e \<noteq> ErrNotFound then Inl (SvcRepo e) else fresh))
         else fresh)"

definition notify_call ::
  "(nat \<Rightarrow> AgentMessage \<Rightarrow> string option) \<Rightarrow> AgentMessage \<Rightarrow> Service \<Rightarrow> string option \<times> Service" where
  "notify_call notifier message s =
     (let n = svc_notifyCalls s; s1 = s\<lparr>svc_notifyCalls := Suc n\<rparr>
      in case notifier n message of
           None \<Rightarrow> (None, s1\<lparr>svc_notified := svc_notified s1 @ [message]\<rparr>)
         | Some e \<Rightarrow> (Some e, s1))"

text \<open>
  The two entry points have the same body under the mutex: \<open>ensureParentCompletionQueued\<close> returns
  the error that \<open>notifyParentCompletionLocked\<close> reports.
\<close>

definition ensureParentCompletionQueued ::
  "ServiceConfig \<Rightarrow> Task \<Rightarrow> gotime \<Rightarrow> Service \<Rightarrow> service_error option \<times> Service" where
  "ensureParentCompletionQueued cfg task now s =
     (case cfg_ParentNotifier cfg of
        None \<Rightarrow> (None, s)
      | Some notifier \<Rightarrow>
        (let messageID = AgentResultMessageID (task_ID task) (task_CurrentRunID task)
         in if blank (task_ParentSessionID task) then (None, s)
            else if messageID \<in> svc_parentNotified s then (None, s)
            else case prepareParentCompletionMessageLocked cfg task now s of
              Inl e \<Rightarrow> (Some e, s)
            | Inr (message, s1) \<Rightarrow>
                (if am_Status message = AgentMessageDelivered
                 then (None, s1\<lparr>svc_parentNotified := insert messageID (svc_parentNotified s1)\<rparr>)
                 else (case notify_call notifier message s1 of
                     (Some e, s2) \<Rightarrow> (Some (SvcNotifyFailed e), s2)
                   | (None, s2) \<Rightarrow>
                       (None, s2\<lparr>svc_parentNotified := insert messageID (svc_parentNotified s2)\<rparr>)))))"

definition notifyParentCompletionLocked :: "ServiceConfig \<Rightarrow> Task \<Rightarrow> gotime \<Rightarrow> Service \<Rightarrow> Service" where
  "notifyParentCompletionLocked cfg task now s = snd (ensureParentCompletionQueued cfg task now s)"

end
