(* ===== verification/SubagentCatalog.thy ===== *)
theory SubagentCatalog
  imports SubagentService
begin

text \<open>
  The catalog of subagent definitions: \<open>core/application/subagent/service/definition_service.go\<close> with
  the built-in definitions of \<open>core/domain/subagent/builtin.go\<close> and the listing of
  \<open>core/adapter/subagent/memory/registry.go\<close>. The registry holds what can be started; the repository
  holds the definitions of the user, also the disabled and the deleted ones. The repository is
  configured. \<open>ks\<close> and \<open>kr\<close> are the orders in which the maps of the repository and of the registry
  are visited; \<open>low\<close> is the lower-case table of non-ASCII letters.
\<close>

datatype catalog_error =
    CatInvalid definition_error
  | CatRepo repo_error
  | CatService service_error
  | CatPathTaken
  | CatExists
  | CatBuiltin
  | CatIDRequired

section \<open>Built-in definitions\<close>

definition researcher :: Definition where
  "researcher =
     \<lparr>def_ID = ''researcher'', def_Name = ''Researcher'',
      def_Description = ''Researches the workspace and knowledge sources without changing files.'',
      def_SystemPrompt =
        ''You are a read-only research subagent. Every assigned analysis or investigation ''
        @ ''is a concrete task even when no code change is requested. For workspace ''
        @ ''questions, you must inspect the implementation with the allowed tools before ''
        @ ''answering. Trace the requested flow through exact files and relevant functions, ''
        @ ''types, interfaces, and configuration keys. Return a structured, evidence-based ''
        @ ''result to the parent agent, distinguish verified facts from uncertainty, and ''
        @ ''never respond with a generic greeting or a request for more work. Do not modify ''
        @ ''files or run destructive commands.'',
      def_ModelID = [],
      def_AllowedTools =
        [''list_files'', ''read_file'', ''search_files'', ''read_asset'',
         ''knowledge_search'', ''spawn_agent'', ''send_message'', ''followup_task'',
         ''list_agents'', ''wait_agent'', ''interrupt_agent''],
      def_CapabilityMode = CapabilityModeReadOnly, def_IsolationMode = IsolationModeDirect,
      def_MaxTurns = 10, def_TimeoutSeconds = 300, def_Enabled = True, def_Version = 1,
      def_Source = DefinitionSourceBuiltin, def_Deleted = False, def_DeletedAt = None,
      def_CreatedAt = 0, def_UpdatedAt = 0\<rparr>"

definition code_reviewer :: Definition where
  "code_reviewer =
     \<lparr>def_ID = ''code-reviewer'', def_Name = ''Code reviewer'',
      def_Description = ''Reviews code for defects, architectural risks, and missing verification.'',
      def_SystemPrompt =
        ''You are a read-only senior code reviewer. A review request is a complete task ''
        @ ''and does not require a coding change. Inspect the relevant implementation with ''
        @ ''the allowed tools before concluding. Prioritize concrete defects, concurrency ''
        @ ''risks, security issues, regressions, and missing tests. Ground each finding in ''
        @ ''exact file paths and relevant functions or types, distinguish verified defects ''
        @ ''from residual risk, and never return a generic greeting. Do not modify the ''
        @ ''workspace.'',
      def_ModelID = [],
      def_AllowedTools =
        [''list_files'', ''read_file'', ''search_files'', ''spawn_agent'', ''send_message'',
         ''followup_task'', ''list_agents'', ''wait_agent'', ''interrupt_agent''],
      def_CapabilityMode = CapabilityModeReadOnly, def_IsolationMode = IsolationModeDirect,
      def_MaxTurns = 12, def_TimeoutSeconds = 300, def_Enabled = True, def_Version = 1,
      def_Source = DefinitionSourceBuiltin, def_Deleted = False, def_DeletedAt = None,
      def_CreatedAt = 0, def_UpdatedAt = 0\<rparr>"

definition implementer :: Definition where
  "implementer =
     \<lparr>def_ID = ''implementer'', def_Name = ''Implementer'',
      def_Description = ''Implements one isolated plan step, verifies the result, and reports the exact ''
      @ ''changes.'',
      def_SystemPrompt =
        ''You are an implementation subagent. Treat the assigned plan step as a complete ''
        @ ''task and begin immediately. Inspect the relevant workspace files before ''
        @ ''editing, make the smallest correct change that satisfies the instruction, and ''
        @ ''run focused verification when available. Work only inside the provided isolated ''
        @ ''workspace. Report exact files changed, commands run, and any remaining blocker. ''
        @ ''Do not ask the parent for another message.'',
      def_ModelID = [],
      def_AllowedTools =
        [''list_files'', ''read_file'', ''search_files'', ''read_asset'',
         ''knowledge_search'', ''edit_file'', ''write_file'', ''shell'', ''spawn_agent'',
         ''send_message'', ''followup_task'', ''list_agents'', ''wait_agent'',
         ''interrupt_agent''],
      def_CapabilityMode = CapabilityModeAll, def_IsolationMode = IsolationModeSnapshot,
      def_MaxTurns = 24, def_TimeoutSeconds = 900, def_Enabled = True, def_Version = 1,
      def_Source = DefinitionSourceBuiltin, def_Deleted = False, def_DeletedAt = None,
      def_CreatedAt = 0, def_UpdatedAt = 0\<rparr>"

definition BuiltinDefinitions :: "Definition list" where
  "BuiltinDefinitions = [researcher, code_reviewer, implementer]"

section \<open>Listing\<close>

definition Registry_List :: "(string \<Rightarrow> string) \<Rightarrow> string list \<Rightarrow> Definition gomap \<Rightarrow> Definition list" where
  "Registry_List low kr items = sort_key (\<lambda>d. ToLower low (def_Name d)) (map_items items kr)"

definition Service_ListDefinitions ::
  "(string \<Rightarrow> string) \<Rightarrow> string list \<Rightarrow> string list \<Rightarrow> Service \<Rightarrow> Definition list" where
  "Service_ListDefinitions low kr ks s =
     (let items = Registry_List low kr (svc_registry s);
          stored = ListDefinitions False ks (svc_repo s);
          others = filter (\<lambda>d. \<not> def_Deleted d \<and> def_ID d \<notin> set (map def_ID items)) stored
      in sort_key (\<lambda>d. ToLower low (def_Name d)) (items @ others))"

section \<open>Start-up\<close>

fun register_each :: "Definition list \<Rightarrow> Definition gomap \<Rightarrow> catalog_error option \<times> Definition gomap" where
  "register_each [] items = (None, items)"
| "register_each (d # ds) items =
     (let definition = Definition_Normalized d
      in case Definition_Validate definition of
           Some e \<Rightarrow> (Some (CatInvalid e), items)
         | None \<Rightarrow>
             (case Registry_Register definition items of
                Inl e \<Rightarrow> (Some (CatInvalid e), items)
              | Inr items' \<Rightarrow> register_each ds items'))"

text \<open>The paths and the runtimes of the stored tasks.\<close>

fun index_tasks :: "ServiceConfig \<Rightarrow> Task list \<Rightarrow> Service \<Rightarrow> catalog_error option \<times> Service" where
  "index_tasks cfg [] s = (None, s)"
| "index_tasks cfg (task # tasks) s =
     (case runtime_register cfg task s of
        Inl e \<Rightarrow> (Some (CatService e), s)
      | Inr s1 \<Rightarrow>
          (if \<not> cfg_AgentPaths cfg \<or> blank (task_AgentPath task) then index_tasks cfg tasks s1
           else case Reserve (task_AgentPath task) (svc_paths s1) of
             (Some _, _) \<Rightarrow> (Some CatPathTaken, s1)
           | (None, paths) \<Rightarrow> index_tasks cfg tasks (s1\<lparr>svc_paths := paths\<rparr>)))"

text \<open>The result of a successful start-up is the listing.\<close>

definition Bootstrap ::
  "ServiceConfig \<Rightarrow> string list \<Rightarrow> string list \<Rightarrow> Service \<Rightarrow> catalog_error option \<times> Service" where
  "Bootstrap cfg ks kt s =
     (case register_each BuiltinDefinitions (svc_registry s) of
        (Some e, items) \<Rightarrow> (Some e, s\<lparr>svc_registry := items\<rparr>)
      | (None, items) \<Rightarrow>
          (case register_each (filter (\<lambda>d. \<not> def_Deleted d \<and> def_Enabled d)
                   (ListDefinitions False ks (svc_repo s))) items of
             (Some e, items') \<Rightarrow> (Some e, s\<lparr>svc_registry := items'\<rparr>)
           | (None, items') \<Rightarrow>
               (if cfg_AgentPaths cfg \<or> cfg_Runtime cfg
                then index_tasks cfg (ListTasks [] 500 kt (svc_repo s)) (s\<lparr>svc_registry := items'\<rparr>)
                else (None, s\<lparr>svc_registry := items'\<rparr>))))"

section \<open>Changes\<close>

text \<open>
  What a client sends (\<open>core/remote/agent/subagent_payload_mapper.go\<close>): the fields that it may set. A
  missing \<open>enabled\<close> means enabled for a new definition only.
\<close>

record SubagentDefinitionPayload =
  sdp_ID :: string
  sdp_Name :: string
  sdp_Description :: string
  sdp_SystemPrompt :: string
  sdp_ModelID :: string
  sdp_AllowedTools :: "string list"
  sdp_CapabilityMode :: CapabilityMode
  sdp_IsolationMode :: IsolationMode
  sdp_MaxTurns :: int
  sdp_TimeoutSeconds :: int
  sdp_Enabled :: "bool option"

definition subagentDefinitionFromPayload :: "SubagentDefinitionPayload \<Rightarrow> bool \<Rightarrow> Definition" where
  "subagentDefinitionFromPayload payload create =
     \<lparr>def_ID = sdp_ID payload, def_Name = sdp_Name payload, def_Description = sdp_Description payload,
      def_SystemPrompt = sdp_SystemPrompt payload, def_ModelID = sdp_ModelID payload,
      def_AllowedTools = sdp_AllowedTools payload, def_CapabilityMode = sdp_CapabilityMode payload,
      def_IsolationMode = sdp_IsolationMode payload, def_MaxTurns = sdp_MaxTurns payload,
      def_TimeoutSeconds = sdp_TimeoutSeconds payload,
      def_Enabled = (case sdp_Enabled payload of Some enabled \<Rightarrow> enabled | None \<Rightarrow> create),
      def_Version = 0, def_Source = DefinitionSourceUnset, def_Deleted = False,
      def_DeletedAt = None, def_CreatedAt = 0, def_UpdatedAt = 0\<rparr>"

definition CreateDefinition ::
  "ServiceConfig \<Rightarrow> Definition \<Rightarrow> gotime \<Rightarrow> Service \<Rightarrow> (catalog_error + Definition) \<times> Service" where
  "CreateDefinition cfg command now s =
     (let d0 = Definition_Normalized command;
          (d1, s1) = (if def_ID d0 = [] then (case NewID cfg s of (i, s') \<Rightarrow> (d0\<lparr>def_ID := i\<rparr>, s'))
                      else (d0, s))
      in if (case Registry_Get (def_ID d1) (svc_registry s1) of
               Some existing \<Rightarrow> \<not> def_Deleted existing | None \<Rightarrow> False)
           then (Inl CatExists, s1)
         else
        (let definition = d1\<lparr>def_Source := DefinitionSourceUser, def_Version := 1,
                            def_CreatedAt := now, def_UpdatedAt := now\<rparr>
         in case Definition_Validate definition of
              Some e \<Rightarrow> (Inl (CatInvalid e), s1)
            | None \<Rightarrow>
           (let s2 = set_repo s1 (SaveDefinition definition (svc_repo s1))
            in if \<not> def_Enabled definition then (Inr definition, s2)
               else case Registry_Register definition (svc_registry s2) of
                 Inl e \<Rightarrow> (Inl (CatInvalid e), s2)
               | Inr items \<Rightarrow> (Inr definition, s2\<lparr>svc_registry := items\<rparr>))))"

definition UpdateDefinition ::
  "Definition \<Rightarrow> gotime \<Rightarrow> Service \<Rightarrow> (catalog_error + Definition) \<times> Service" where
  "UpdateDefinition command now s =
     (let d0 = Definition_Normalized command
      in case GetDefinition (def_ID d0) (svc_repo s) of
           Inl e \<Rightarrow> (Inl (CatRepo e), s)
         | Inr existing \<Rightarrow>
        (if def_Source existing = DefinitionSourceBuiltin then (Inl CatBuiltin, s)
         else
        (let definition = d0\<lparr>def_Source := def_Source existing, def_CreatedAt := def_CreatedAt existing,
                            def_UpdatedAt := now, def_Version := def_Version existing + 1,
                            def_Deleted := False, def_DeletedAt := None\<rparr>
         in case Definition_Validate definition of
              Some e \<Rightarrow> (Inl (CatInvalid e), s)
            | None \<Rightarrow>
           (let s1 = set_repo s (SaveDefinition definition (svc_repo s))
            in if \<not> def_Enabled definition
                 then (Inr definition,
                       s1\<lparr>svc_registry := Registry_Remove (def_ID definition) (svc_registry s1)\<rparr>)
               else case Registry_Register definition (svc_registry s1) of
                 Inl e \<Rightarrow> (Inl (CatInvalid e), s1)
               | Inr items \<Rightarrow> (Inr definition, s1\<lparr>svc_registry := items\<rparr>)))))"

definition Service_DeleteDefinition ::
  "string \<Rightarrow> gotime \<Rightarrow> Service \<Rightarrow> catalog_error option \<times> Service" where
  "Service_DeleteDefinition DefinitionID now s =
     (let i = TrimSpace DefinitionID
      in if i = [] then (Some CatIDRequired, s)
         else if (case Registry_Get i (svc_registry s) of
                    Some existing \<Rightarrow> def_Source existing = DefinitionSourceBuiltin | None \<Rightarrow> False)
           then (Some CatBuiltin, s)
         else case DeleteDefinition i now (svc_repo s) of
           Inl e \<Rightarrow> (Some (CatRepo e), s)
         | Inr r \<Rightarrow>
             (None, (set_repo s r)\<lparr>svc_registry := Registry_Remove i (svc_registry s)\<rparr>))"

end
