(* ===== verification/SubagentAdmission.thy ===== *)
theory SubagentAdmission
  imports SubagentService
begin

text \<open>
  Admission of work to the subagent service: \<open>Start\<close> and \<open>Check\<close> of
  \<open>core/application/subagent/service/task_service.go\<close>, \<open>scheduleRun\<close> of \<open>task_scheduling.go\<close> and
  the follow-up runs of \<open>task_followup.go\<close>. A method that returns an error may have changed the
  state before, so the result is the error or value together with the state. \<open>ks\<close> is the order in
  which the repository's map of tasks is visited.
\<close>

record StartTask =
  st_ParentSessionID :: string
  st_ParentTaskID :: string
  st_ParentRunID :: string
  st_ParentToolCallID :: string
  st_PlanID :: string
  st_StepID :: string
  st_CreatedRequestID :: string
  st_DefinitionID :: string
  st_Instruction :: string
  st_Title :: string
  st_TaskName :: string
  st_AgentPath :: string
  st_AgentNickname :: string
  st_ModelID :: string
  st_FallbackModelID :: string
  st_WorkspaceRoot :: string

section \<open>Starting a task\<close>

definition start_definition :: "ServiceConfig \<Rightarrow> StartTask \<Rightarrow> Service \<Rightarrow> service_error + Definition" where
  "start_definition cfg command s =
     (case Registry_Get (TrimSpace (st_DefinitionID command)) (svc_registry s) of
        None \<Rightarrow> Inl SvcDefinitionNotFound
      | Some d0 \<Rightarrow>
          (if def_Deleted d0 \<or> \<not> def_Enabled d0 then Inl SvcDefinitionNotFound
           else
            (let d1 = (if blank (st_ModelID command) then d0
                       else d0\<lparr>def_ModelID := TrimSpace (st_ModelID command)\<rparr>);
                 d = (if blank (def_ModelID d1)
                      then d1\<lparr>def_ModelID := TrimSpace (st_FallbackModelID command)\<rparr> else d1);
                 isolated = (if def_CapabilityMode d \<noteq> CapabilityModeReadOnly
                                \<and> def_IsolationMode d = IsolationModeDirect
                             then Inl SvcWritableNeedsIsolation else Inr d)
             in case cfg_Models cfg of
                  None \<Rightarrow> isolated
                | Some has_model \<Rightarrow>
                    (if blank (def_ModelID d) then Inl SvcModelRequired
                     else if \<not> has_model (def_ModelID d) then Inl SvcModelUnknown
                     else isolated))))"

definition isolatedWorkspaceReference :: "string \<Rightarrow> IsolationMode \<Rightarrow> string \<Rightarrow> Reference" where
  "isolatedWorkspaceReference i mode sourceRoot =
     \<lparr>ref_ID = i, ref_Mode = mode, ref_Root = sourceRoot,
      ref_SourceRoot = (if mode \<noteq> IsolationModeDirect then sourceRoot else []),
      ref_SandboxID = []\<rparr>"

definition start_root :: "ServiceConfig \<Rightarrow> StartTask \<Rightarrow> string" where
  "start_root cfg command =
     (if \<not> blank (st_WorkspaceRoot command) then TrimSpace (st_WorkspaceRoot command)
      else if \<not> blank (cfg_DefaultWorkspaceRoot cfg) then TrimSpace (cfg_DefaultWorkspaceRoot cfg)
      else ''.'')"

definition start_path :: "StartTask \<Rightarrow> Task option \<Rightarrow> string \<Rightarrow> string" where
  "start_path command parentTask taskID =
     (let path = TrimSpace (st_AgentPath command);
          derived = (if path \<noteq> [] then path
            else case parentTask of
                Some parent \<Rightarrow>
                  (if task_ID parent \<noteq> [] then nestedAgentPath parent (st_TaskName command) taskID
                   else TrimSpace (st_TaskName command))
              | None \<Rightarrow> TrimSpace (st_TaskName command))
      in if derived = [] then taskID else derived)"

text \<open>The zero value of a change set, which a new task has.\<close>

definition no_changes :: ChangeSet where
  "no_changes =
     \<lparr>cs_WorkspaceID = [], cs_Status = ChangeSetStatusOther [], cs_Files = [], cs_CheckpointID = [],
      cs_Message = [], cs_CreatedAt = 0, cs_AppliedAt = None, cs_DiscardedAt = None\<rparr>"

definition start_task ::
  "ServiceConfig \<Rightarrow> StartTask \<Rightarrow> Definition \<Rightarrow> Task option \<Rightarrow> gotime \<Rightarrow> nat \<Rightarrow> Task" where
  "start_task cfg command definition parentTask now n =
     (let taskID = cfg_NewID cfg n
      in \<lparr>task_ID = taskID,
          task_ParentSessionID = TrimSpace (st_ParentSessionID command),
          task_ParentTaskID = TrimSpace (st_ParentTaskID command),
          task_ParentRunID = TrimSpace (st_ParentRunID command),
          task_ParentToolCallID = TrimSpace (st_ParentToolCallID command),
          task_PlanID = TrimSpace (st_PlanID command),
          task_StepID = TrimSpace (st_StepID command),
          task_ChildSessionID = cfg_NewID cfg (n + 1),
          task_AgentPath = start_path command parentTask taskID,
          task_AgentNickname = TrimSpace (st_AgentNickname command),
          task_CreatedRequestID = TrimSpace (st_CreatedRequestID command),
          task_DefinitionID = def_ID definition,
          task_DefinitionVersion = def_Version definition,
          task_Definition = Definition_Snapshot definition,
          task_Instruction = TrimSpace (st_Instruction command),
          task_Title = (if blank (st_Title command) then def_Name definition
                        else TrimSpace (st_Title command)),
          task_Status = TaskStatusQueued,
          task_CurrentRunID = [],
          task_Workspace = isolatedWorkspaceReference (cfg_NewID cfg (n + 2))
             (def_IsolationMode definition) (start_root cfg command),
          task_ChangeSet = no_changes,
          task_Result = [], task_Reasoning = [], task_Usage = 0, task_ErrorMessage = [],
          task_Unread = False, task_Mailbox = [],
          task_CreatedAt = now, task_UpdatedAt = now,
          task_StartedAt = None, task_CompletedAt = None\<rparr>)"

definition new_run :: "string \<Rightarrow> string \<Rightarrow> int \<Rightarrow> string \<Rightarrow> gotime \<Rightarrow> Run" where
  "new_run runID taskID seqno instruction now =
     \<lparr>run_ID = runID, run_TaskID = taskID, run_Sequence = seqno, run_RequestID = [],
      run_RequestContentHash = [], run_Instruction = instruction, run_Status = RunStatusQueued,
      run_Result = [], run_Usage = 0, run_ErrorMessage = [], run_CreatedAt = now,
      run_StartedAt = None, run_CompletedAt = None\<rparr>"

definition reserve_path :: "ServiceConfig \<Rightarrow> string \<Rightarrow> Service \<Rightarrow> Service option" where
  "reserve_path cfg path s =
     (if \<not> cfg_AgentPaths cfg then Some s
      else case Reserve path (svc_paths s) of
        (Some _, _) \<Rightarrow> None
      | (None, paths) \<Rightarrow> Some (s\<lparr>svc_paths := paths\<rparr>))"

text \<open>Giving back the runtime and the path after a failure.\<close>

definition start_undo :: "ServiceConfig \<Rightarrow> Task \<Rightarrow> Service \<Rightarrow> Service" where
  "start_undo cfg task s =
     path_release cfg (task_AgentPath task) (runtime_try cfg (Manager_Remove (task_ID task)) s)"

definition list_tasks_of :: "string list \<Rightarrow> Repository \<Rightarrow> string \<Rightarrow> int \<Rightarrow> repo_error + Task list" where
  "list_tasks_of ks r parent limit = Inr (ListTasks parent limit ks r)"

text \<open>\<open>Start\<close> up to the submission to the scheduler.\<close>

definition admitStart ::
  "ServiceConfig \<Rightarrow> StartTask \<Rightarrow> string list \<Rightarrow> gotime \<Rightarrow> Service
     \<Rightarrow> (service_error + (Task \<times> Run)) \<times> Service" where
  "admitStart cfg command ks now s =
     (case start_definition cfg command s of
        Inl e \<Rightarrow> (Inl e, s)
      | Inr definition \<Rightarrow>
     (case validateTaskParent (\<lambda>t. GetTask t (svc_repo s)) (list_tasks_of ks (svc_repo s))
             (st_ParentTaskID command) (st_ParentSessionID command) of
        Inl e \<Rightarrow> (Inl (SvcHierarchy e), s)
      | Inr parentTask \<Rightarrow>
     (let task0 = start_task cfg command definition parentTask now (svc_ids s);
          s1 = s\<lparr>svc_ids := svc_ids s + 3\<rparr>
      in case Task_ValidateNew task0 of
        Some e \<Rightarrow> (Inl (SvcTask e), s1)
      | None \<Rightarrow>
     (case reserve_path cfg (task_AgentPath task0) s1 of
        None \<Rightarrow> (Inl SvcPathUnavailable, s1)
      | Some s2 \<Rightarrow>
     (case runtime_register cfg task0 s2 of
        Inl e \<Rightarrow> (Inl e, path_release cfg (task_AgentPath task0) s2)
      | Inr s3 \<Rightarrow>
     (case NewID cfg s3 of (runID, s4) \<Rightarrow>
     (let run = new_run runID (task_ID task0) 1 (task_Instruction task0) now;
          task = task0\<lparr>task_CurrentRunID := runID\<rparr>
      in case acquireExecutionLease cfg (task_ID task) runID now s4 of
        Inl e \<Rightarrow> (Inl e, start_undo cfg task s4)
      | Inr s5 \<Rightarrow>
     (case saveTaskAndRun cfg task run now s5 of
        Inl e \<Rightarrow> (Inl e, start_undo cfg task (releaseExecutionLease cfg (task_ID task) runID s5))
      | Inr s6 \<Rightarrow>
     (case registerActiveRunLocked cfg (task_ID task) runID s6 of
        None \<Rightarrow> (Inl SvcActiveExecution, releaseExecutionLease cfg (task_ID task) runID s6)
      | Some s7 \<Rightarrow> (Inr (task, run), publish_task task s7))))))))))"

section \<open>Scheduling a run\<close>

definition scheduler_error_text :: "scheduler_error \<Rightarrow> string" where
  "scheduler_error_text e =
     (case e of
        ErrScheduledTaskInvalid \<Rightarrow> ''subagent scheduled task is invalid''
      | ErrSchedulerClosed \<Rightarrow> ''subagent scheduler is closed''
      | ErrAlreadyScheduled \<Rightarrow> ''subagent task is already scheduled''
      | ErrSchedulerQueueFull \<Rightarrow> ''subagent scheduler queue is full''
      | ErrParkInvalid \<Rightarrow> ''subagent scheduler park is invalid''
      | ErrNotScheduled \<Rightarrow> ''subagent task is not scheduled'')"

text \<open>The deferred calls, the last one first.\<close>

definition schedule_cleanup :: "ServiceConfig \<Rightarrow> string \<Rightarrow> string \<Rightarrow> Service \<Rightarrow> Service" where
  "schedule_cleanup cfg taskID runID s =
     releaseExecutionLease cfg taskID runID (snd (completeActiveRunLocked cfg taskID runID s))"

definition scheduleRun ::
  "ServiceConfig \<Rightarrow> Task \<Rightarrow> Run \<Rightarrow> gotime \<Rightarrow> Service \<Rightarrow> (service_error option \<times> Task) \<times> Service" where
  "scheduleRun cfg task run now s =
     (case Submit (run_ID run) True (svc_scheduler s) of
        Inr sch \<Rightarrow> ((None, task), s\<lparr>svc_scheduler := sch\<rparr>)
      | Inl e \<Rightarrow>
     (let done = schedule_cleanup cfg (task_ID task) (run_ID run);
          err = Some (SvcSchedule e)
      in case GetTask (task_ID task) (svc_repo s) of
        Inl _ \<Rightarrow> ((err, task), done s)
      | Inr current \<Rightarrow>
          (if task_CurrentRunID current \<noteq> run_ID run \<or> Terminal current
           then ((err, current), done s)
           else
          (let message = ''schedule subagent task: '' @ scheduler_error_text e
           in case MarkFailed message now current of
             Inl _ \<Rightarrow> ((err, current), done s)
           | Inr current' \<Rightarrow>
          (let run' = run\<lparr>run_Status := RunStatusFailed, run_ErrorMessage := message,
                          run_CompletedAt := Some now\<rparr>
           in case saveTaskAndRun cfg current' run' now s of
             Inl _ \<Rightarrow> ((err, task), done s)
           | Inr s1 \<Rightarrow>
               ((err, current'),
                done (notifyParentCompletionLocked cfg current' now (publish_task current' s1))))))))"

definition Service_Start ::
  "ServiceConfig \<Rightarrow> StartTask \<Rightarrow> string list \<Rightarrow> gotime \<Rightarrow> Service
     \<Rightarrow> (service_error option \<times> Task option) \<times> Service" where
  "Service_Start cfg command ks now s =
     (case admitStart cfg command ks now s of
        (Inl e, s') \<Rightarrow> ((Some e, None), s')
      | (Inr (task, run), s') \<Rightarrow>
          (case scheduleRun cfg task run now s' of
             ((err, t), s'') \<Rightarrow> ((err, Some t), s'')))"

definition Check ::
  "string \<Rightarrow> string \<Rightarrow> string \<Rightarrow> Service \<Rightarrow> service_error + Task" where
  "Check TaskID ParentSessionID RequestID s =
     (case GetTask (TrimSpace TaskID) (svc_repo s) of
        Inl e \<Rightarrow> Inl (SvcRepo e)
      | Inr task \<Rightarrow>
          (if \<not> blank ParentSessionID \<and> task_ParentSessionID task \<noteq> TrimSpace ParentSessionID
             then Inl (SvcRepo ErrNotFound)
           else if \<not> Terminal task \<and> task_CreatedRequestID task \<noteq> []
               \<and> task_CreatedRequestID task = TrimSpace RequestID
             then Inl SvcPollFromCreator
           else Inr task))"

section \<open>Follow-up runs\<close>

record FollowupTask =
  fu_TaskID :: string
  fu_ParentSessionID :: string
  fu_RequestID :: string
  fu_Content :: string
  fu_FallbackModelID :: string

definition workspaceSourceRoot :: "Task \<Rightarrow> string" where
  "workspaceSourceRoot task =
     (if \<not> blank (ref_SourceRoot (task_Workspace task))
      then TrimSpace (ref_SourceRoot (task_Workspace task))
      else TrimSpace (ref_Root (task_Workspace task)))"

text \<open>\<open>collected\<close> is what the workspace manager's \<open>Collect\<close> returns for the task's workspace.\<close>

definition validateFollowupWorkspace ::
  "ServiceConfig \<Rightarrow> string + ChangeSet \<Rightarrow> Task \<Rightarrow> service_error option" where
  "validateFollowupWorkspace cfg collected task =
     (if ref_Mode (task_Workspace task) = IsolationModeDirect then None
      else if \<not> cfg_Workspaces cfg then Some (SvcWorkspace ''not configured'')
      else if (case collected of
                 Inl _ \<Rightarrow> False
               | Inr changes \<Rightarrow> cs_Status changes \<in> {ChangeSetStatusPending, ChangeSetStatusConflict,
                                                    ChangeSetStatusApplied})
        then None
      else if workspaceSourceRoot task = []
        then (case collected of Inl e \<Rightarrow> Some (SvcWorkspace e) | Inr _ \<Rightarrow> Some SvcWorkspaceSource)
      else None)"

text \<open>
  The scan of the earlier runs: the answer to a repeated request, or the next sequence number.
\<close>

fun followup_scan ::
  "(string \<Rightarrow> string) \<Rightarrow> string \<Rightarrow> string \<Rightarrow> int \<Rightarrow> Run list \<Rightarrow> service_error option + int" where
  "followup_scan sha requestID contentHash nextSequence [] = Inr nextSequence"
| "followup_scan sha requestID contentHash nextSequence (previous # runs) =
     (if requestID \<noteq> [] \<and> run_RequestID previous = requestID
      then Inl (if (if run_RequestContentHash previous = [] then sha (run_Instruction previous)
                    else run_RequestContentHash previous) \<noteq> contentHash
                then Some SvcMessageIDReused else None)
      else followup_scan sha requestID contentHash
             (if nextSequence \<le> run_Sequence previous then run_Sequence previous + 1
              else nextSequence) runs)"

datatype followup_outcome =
    FollowupFailed service_error
  | FollowupKnown Task
  | FollowupWaits
  | FollowupAdmitted Task Run

definition followup_model :: "ServiceConfig \<Rightarrow> FollowupTask \<Rightarrow> Task \<Rightarrow> service_error option" where
  "followup_model cfg command task =
     (case cfg_Models cfg of
        None \<Rightarrow> None
      | Some has_model \<Rightarrow>
          (let modelID = (if blank (snap_ModelID (task_Definition task))
                          then TrimSpace (fu_FallbackModelID command)
                          else TrimSpace (snap_ModelID (task_Definition task)))
           in if modelID = [] then Some SvcModelRequired
              else if \<not> has_model modelID then Some SvcModelUnknown else None))"

definition requeued_task :: "string \<Rightarrow> gotime \<Rightarrow> Task \<Rightarrow> Task" where
  "requeued_task runID now task =
     task\<lparr>task_CurrentRunID := runID, task_Status := TaskStatusQueued, task_Result := [],
          task_Reasoning := [], task_ErrorMessage := [], task_Unread := False,
          task_StartedAt := None, task_CompletedAt := None, task_UpdatedAt := now\<rparr>"

text \<open>
  The admission proper, once the checks have passed. Between the checks and the lease another
  instance of the application may change the store: \<open>others\<close> is what it does.
\<close>

definition admit_run ::
  "ServiceConfig \<Rightarrow> (Repository \<Rightarrow> Repository) \<Rightarrow> FollowupTask \<Rightarrow> Task \<Rightarrow> int \<Rightarrow> gotime \<Rightarrow> Service
     \<Rightarrow> followup_outcome \<times> Service" where
  "admit_run cfg others command task seqno now s =
     (case NewID cfg s of (runID, s1) \<Rightarrow>
     (let run = (new_run runID (task_ID task) seqno (fu_Content command) now)
                  \<lparr>run_RequestID := fu_RequestID command,
                   run_RequestContentHash := cfg_ContentHash cfg (fu_Content command)\<rparr>
      in case acquireExecutionLease cfg (task_ID task) runID now (set_repo s1 (others (svc_repo s1))) of
        Inl e \<Rightarrow> (FollowupFailed e, set_repo s1 (others (svc_repo s1)))
      | Inr s2 \<Rightarrow>
     (let undo = releaseExecutionLease cfg (task_ID task) runID
      in case GetTask (task_ID task) (svc_repo s2) of
        Inl e \<Rightarrow> (FollowupFailed (SvcRepo e), undo s2)
      | Inr current \<Rightarrow>
     (if task_CurrentRunID current \<noteq> task_CurrentRunID task \<or> task_Status current \<noteq> task_Status task
      then (FollowupFailed (SvcRepo ErrExecutionLeaseNotAcquired), undo s2)
      else case runtime_register cfg task s2 of
        Inl e \<Rightarrow> (FollowupFailed e, undo s2)
      | Inr s3 \<Rightarrow>
     (case registerActiveRunLocked cfg (task_ID task) runID s3 of
        None \<Rightarrow> (FollowupFailed SvcActiveExecution, undo s3)
      | Some s4 \<Rightarrow>
     (let task' = requeued_task runID now task
      in case saveTaskAndRun cfg task' run now s4 of
        Inl e \<Rightarrow> (FollowupFailed e, undo (snd (completeActiveRunLocked cfg (task_ID task) runID s4)))
      | Inr s5 \<Rightarrow> (FollowupAdmitted task' run, publish_task task' s5)))))))"

definition admitFollowup ::
  "ServiceConfig \<Rightarrow> (Repository \<Rightarrow> Repository) \<Rightarrow> string + ChangeSet \<Rightarrow> FollowupTask \<Rightarrow> gotime \<Rightarrow> Service
     \<Rightarrow> followup_outcome \<times> Service" where
  "admitFollowup cfg others collected command now s =
     (case GetTask (TrimSpace (fu_TaskID command)) (svc_repo s) of
        Inl e \<Rightarrow> (FollowupFailed (SvcRepo e), s)
      | Inr task \<Rightarrow>
     (if \<not> blank (fu_ParentSessionID command)
         \<and> task_ParentSessionID task \<noteq> TrimSpace (fu_ParentSessionID command)
        then (FollowupFailed (SvcRepo ErrNotFound), s)
      else if fu_RequestID command \<noteq> [] \<and> fu_RequestID command = task_CreatedRequestID task
        then (FollowupFailed SvcFollowupFromCreator, s)
      else case followup_scan (cfg_ContentHash cfg) (fu_RequestID command)
             (cfg_ContentHash cfg (fu_Content command)) 1 (ListRuns (task_ID task) (svc_repo s)) of
        Inl (Some e) \<Rightarrow> (FollowupFailed e, s)
      | Inl None \<Rightarrow> (FollowupKnown task, s)
      | Inr nextSequence \<Rightarrow>
     (if \<not> CanFollowup task then (FollowupFailed (SvcFollowupStatus (task_Status task)), s)
      else case followup_model cfg command task of
        Some e \<Rightarrow> (FollowupFailed e, s)
      | None \<Rightarrow>
     (if task_ID task \<in> svc_resumeClaims s then (FollowupFailed SvcBeingConsumed, s)
      else if svc_activeRuns s (task_ID task) \<noteq> None then (FollowupWaits, s)
      else case validateFollowupWorkspace cfg collected task of
        Some e \<Rightarrow> (FollowupFailed e, s)
      | None \<Rightarrow> admit_run cfg others command task nextSequence now s))))"

text \<open>
  One turn of the loop of \<open>Followup\<close>: \<open>None\<close> when it waits for the previous execution to end. The
  command has its content and request identifier trimmed.
\<close>

definition trim_followup :: "FollowupTask \<Rightarrow> FollowupTask" where
  "trim_followup command =
     command\<lparr>fu_Content := TrimSpace (fu_Content command),
             fu_RequestID := TrimSpace (fu_RequestID command)\<rparr>"

definition Followup ::
  "ServiceConfig \<Rightarrow> (Repository \<Rightarrow> Repository) \<Rightarrow> string + ChangeSet \<Rightarrow> FollowupTask \<Rightarrow> gotime \<Rightarrow> Service
     \<Rightarrow> (service_error option \<times> Task option) option \<times> Service" where
  "Followup cfg others collected command0 now s =
     (let command = trim_followup command0
      in if fu_Content command = [] then (Some (Some SvcMessageEmpty, None), s)
         else if RuneCount (fu_Content command) > MaxInstructionRunes
           then (Some (Some SvcMessageTooLong, None), s)
         else case admitFollowup cfg others collected command now s of
           (FollowupFailed e, s') \<Rightarrow> (Some (Some e, None), s')
         | (FollowupWaits, s') \<Rightarrow> (None, s')
         | (FollowupKnown task, s') \<Rightarrow> (Some (None, Some task), s')
         | (FollowupAdmitted task run, s') \<Rightarrow>
             (case scheduleRun cfg task run now s' of
                ((err, t), s'') \<Rightarrow> (Some (err, Some t), s'')))"

end
