(* ===== verification/SubagentControl.thy ===== *)
theory SubagentControl
  imports SubagentAdmission
begin

text \<open>
  Control of running tasks (\<open>task_service.go\<close>, \<open>task_wait.go\<close>): messages to a child, the listing of
  the task tree, cancellation, the mailbox of an execution, and the transitions of a parent that
  waits for its children.
\<close>

section \<open>Messages to a child\<close>

text \<open>
  The walk to the root reads one task per turn and stops at one it has seen, so the number of
  stored tasks bounds it; \<open>fuel\<close> is that number and one.
\<close>

fun root_walk :: "Repository \<Rightarrow> nat \<Rightarrow> string list \<Rightarrow> string \<Rightarrow> string \<Rightarrow> string" where
  "root_walk r 0 seen root parentID = root"
| "root_walk r (Suc fuel) seen root parentID =
     (if parentID = [] \<or> parentID \<in> set seen then root
      else case GetTask parentID r of
        Inl _ \<Rightarrow> root
      | Inr parent \<Rightarrow>
          root_walk r fuel (parentID # seen) (task_ParentSessionID parent)
            (TrimSpace (task_ParentTaskID parent)))"

definition rootAgentID :: "string list \<Rightarrow> Repository \<Rightarrow> Task \<Rightarrow> string" where
  "rootAgentID ks r task =
     root_walk r (Suc (length ks)) [] (task_ParentSessionID task) (TrimSpace (task_ParentTaskID task))"

record SendMessageCommand =
  sm_TaskID :: string
  sm_ParentSessionID :: string
  sm_MessageID :: string
  sm_Kind :: AgentMessageKind
  sm_Trigger :: AgentMessageTrigger
  sm_Content :: string

type_synonym task_result = "service_error option \<times> Task option"

abbreviation (input) task_failed :: "service_error \<Rightarrow> task_result" where
  "task_failed e \<equiv> (Some e, None)"

abbreviation (input) task_done :: "Task \<Rightarrow> task_result" where
  "task_done t \<equiv> (None, Some t)"

definition foreign :: "string \<Rightarrow> Task \<Rightarrow> bool" where
  "foreign parentSessionID task \<longleftrightarrow>
     \<not> blank parentSessionID \<and> task_ParentSessionID task \<noteq> TrimSpace parentSessionID"

definition child_message ::
  "SendMessageCommand \<Rightarrow> AgentMessageTrigger \<Rightarrow> AgentMessageKind \<Rightarrow> string \<Rightarrow> string \<Rightarrow> string list
     \<Rightarrow> Repository \<Rightarrow> Task \<Rightarrow> gotime \<Rightarrow> AgentMessage" where
  "child_message command trigger kind messageID body ks r task now =
     \<lparr>am_ID = messageID, am_SourceTaskID = task_ParentTaskID task,
      am_AuthorAgentID = task_ParentSessionID task, am_RecipientAgentID = task_ChildSessionID task,
      am_ParentTurnID = task_ParentRunID task, am_RootAgentID = rootAgentID ks r task,
      am_Kind = kind, am_Content = body, am_Trigger = trigger, am_Sequence = 0,
      am_Status = AgentMessagePending, am_DeliveryAttempts = 0, am_LastError = [],
      am_CreatedAt = now, am_DeliveredAt = None, am_ClaimOwnerID = [], am_ClaimExpiresAt = None\<rparr>"

text \<open>The part under the mutex, for a task that is not to be followed up.\<close>

definition wake_and_publish :: "Task \<Rightarrow> Service \<Rightarrow> Service" where
  "wake_and_publish task s =
     publish_task task
       (if task_Status task = TaskStatusWaitingSubagents then signalWaitingTask (task_ID task) s else s)"

definition enqueue_child ::
  "ServiceConfig \<Rightarrow> SendMessageCommand \<Rightarrow> AgentMessageTrigger \<Rightarrow> string \<Rightarrow> string \<Rightarrow> string list
     \<Rightarrow> Task \<Rightarrow> gotime \<Rightarrow> Service \<Rightarrow> task_result \<times> Service" where
  "enqueue_child cfg command trigger messageID body ks task now s =
     (if cfg_AgentMessages cfg
      then
       (let kind = (if sm_Kind command = AgentMessageKindUnset then AgentMessageKindInterAgent
                    else sm_Kind command)
        in if kind \<noteq> AgentMessageKindInterAgent \<and> kind \<noteq> AgentMessageKindUserInput
             then (task_failed SvcBadKind, s)
           else (let message = child_message command trigger kind messageID body ks (svc_repo s) task now
            in case AgentMessage_Validate message of
              Some e \<Rightarrow> (task_failed (SvcMessageInvalid e), s)
            | None \<Rightarrow>
              (case EnqueueChildAgentMessage (task_ID task) message now (svc_repo s) of
                 Inl e \<Rightarrow> (task_failed (SvcRepo e), s)
               | Inr (task', r) \<Rightarrow> (task_done task', wake_and_publish task' (set_repo s r)))))
      else
       (case find (\<lambda>queued. msg_ID queued = messageID) (task_Mailbox task) of
          Some queued \<Rightarrow>
            (if TrimSpace (msg_Content queued) \<noteq> body \<or> default_trigger (msg_Trigger queued) \<noteq> trigger
             then (task_failed SvcMessageIDReused, s) else (task_done task, s))
        | None \<Rightarrow>
            (case EnqueueMessage
                \<lparr>msg_ID = messageID, msg_Content = body, msg_Trigger = trigger,
                 msg_Status = MessageStatusUnset, msg_DeliveryAttempts = 0, msg_LastError = [],
                 msg_CreatedAt = now, msg_ClaimedAt = None\<rparr> now task of
               Inl e \<Rightarrow> (task_failed (SvcTask e), s)
             | Inr task' \<Rightarrow>
                 (task_done task', wake_and_publish task' (set_repo s (SaveTask task' (svc_repo s)))))))"

text \<open>
  The receipt of a message that starts a run: an earlier run with its request identifier.
\<close>

definition turn_receipt :: "string \<Rightarrow> string \<Rightarrow> Run list \<Rightarrow> bool option" where
  "turn_receipt messageID body runs =
     map_option (\<lambda>run. TrimSpace (run_Instruction run) = body)
       (find (\<lambda>run. run_RequestID run = messageID) runs)"

definition SendMessage ::
  "ServiceConfig \<Rightarrow> (Repository \<Rightarrow> Repository) \<Rightarrow> string + ChangeSet \<Rightarrow> SendMessageCommand
     \<Rightarrow> string list \<Rightarrow> gotime \<Rightarrow> Service \<Rightarrow> task_result option \<times> Service" where
  "SendMessage cfg others collected command ks now s =
     (let trigger = default_trigger (sm_Trigger command)
      in if trigger = AgentMessageTriggerSteer then (Some (task_failed SvcSteerUnsupported), s)
         else if trigger \<noteq> AgentMessageTriggerQueue \<and> trigger \<noteq> AgentMessageTriggerTurn
           then (Some (task_failed SvcBadTrigger), s)
         else case GetTask (TrimSpace (sm_TaskID command)) (svc_repo s) of
           Inl e \<Rightarrow> (Some (task_failed (SvcRepo e)), s)
         | Inr task \<Rightarrow>
        (if foreign (sm_ParentSessionID command) task then (Some (task_failed (SvcRepo ErrNotFound)), s)
         else
          (let given = TrimSpace (sm_MessageID command);
               (messageID, s1) = (if given \<noteq> [] then (given, s) else NewID cfg s);
               body = TrimSpace (sm_Content command)
           in if body = [] then (Some (task_failed SvcMessageEmpty), s1)
              else case (if trigger = AgentMessageTriggerTurn
                         then turn_receipt messageID body (ListRuns (task_ID task) (svc_repo s1))
                         else None) of
                Some same \<Rightarrow>
                  (Some (if same then task_done task else task_failed SvcMessageIDReused), s1)
              | None \<Rightarrow>
                  (if trigger = AgentMessageTriggerTurn \<and> Terminal task
                   then Followup cfg others collected
                          \<lparr>fu_TaskID = task_ID task, fu_ParentSessionID = sm_ParentSessionID command,
                           fu_RequestID = messageID, fu_Content = body, fu_FallbackModelID = []\<rparr> now s1
                   else (case enqueue_child cfg command trigger messageID body ks task now s1 of
                       (res, s2) \<Rightarrow> (Some res, s2))))))"

section \<open>Listing\<close>

definition defaultTaskListLimit :: int where "defaultTaskListLimit = 50"

text \<open>
  The inner loop over the tasks of one session. The tasks seen are those listed.
\<close>

fun list_batch :: "nat \<Rightarrow> Task list \<Rightarrow> string list \<Rightarrow> Task list \<Rightarrow> string list \<times> Task list" where
  "list_batch limit [] queue items = (queue, items)"
| "list_batch limit (task # batch) queue items =
     (if task_ID task \<in> set (map task_ID items) then list_batch limit batch queue items
      else (let items' = items @ [task];
                queue' = (if task_ChildSessionID task \<noteq> [] then queue @ [task_ChildSessionID task] else queue)
            in if limit \<le> length items' then (queue', items')
               else list_batch limit batch queue' items'))"

lemma list_batch_grows:
  assumes "list_batch limit batch queue items = (queue', items')" "length items < limit"
  shows "length queue' + (limit - length items') \<le> length queue + (limit - length items)"
    and "length items' \<le> limit"
  using assms
  by (induction limit batch queue items rule: list_batch.induct)
    (fastforce simp: Let_def split: if_splits)+

function list_tree :: "(string \<Rightarrow> Task list) \<Rightarrow> nat \<Rightarrow> string list \<Rightarrow> string list \<Rightarrow> Task list \<Rightarrow> Task list" where
  "list_tree tasks_of limit seen [] items = items"
| "list_tree tasks_of limit seen (sessionID # queue) items =
     (if limit \<le> length items then items
      else if sessionID \<in> set seen then list_tree tasks_of limit seen queue items
      else (case list_batch limit (tasks_of sessionID) queue items of
          (queue', items') \<Rightarrow> list_tree tasks_of limit (sessionID # seen) queue' items'))"
  by pat_completeness auto
termination
proof (relation "measure (\<lambda>(tasks_of, limit, seen, queue, items). length queue + (limit - length items))")
  fix tasks_of :: "string \<Rightarrow> Task list" and limit seen sessionID queue items queue' items'
  assume room: "\<not> limit \<le> length items"
    and batch: "(queue', items') = list_batch limit (tasks_of sessionID) queue items"
  show "((tasks_of, limit, sessionID # seen, queue', items'), tasks_of, limit, seen, sessionID # queue, items)
     \<in> measure (\<lambda>(tasks_of, limit, seen, queue, items). length queue + (limit - length items))"
    using list_batch_grows(1) [OF batch [symmetric]] room by simp
qed auto

definition Service_List :: "string list \<Rightarrow> string \<Rightarrow> int \<Rightarrow> Service \<Rightarrow> Task list" where
  "Service_List ks parentSessionID limit0 s =
     (let limit = (if limit0 \<le> 0 then defaultTaskListLimit else limit0)
      in list_tree (\<lambda>sessionID. ListTasks sessionID limit ks (svc_repo s)) (nat limit) []
           [TrimSpace parentSessionID] [])"

section \<open>Cancellation\<close>

definition canceled_run :: "string \<Rightarrow> gotime \<Rightarrow> Run \<Rightarrow> Run" where
  "canceled_run reason now run =
     run\<lparr>run_Status := RunStatusCanceled, run_ErrorMessage := reason, run_CompletedAt := Some now\<rparr>"

text \<open>Up to the wait for the canceled execution, which changes nothing.\<close>

definition Service_Cancel ::
  "ServiceConfig \<Rightarrow> string \<Rightarrow> string \<Rightarrow> string \<Rightarrow> gotime \<Rightarrow> Service \<Rightarrow> task_result \<times> Service" where
  "Service_Cancel cfg TaskID ParentSessionID Reason now s =
     (case GetTask (TrimSpace TaskID) (svc_repo s) of
        Inl e \<Rightarrow> (task_failed (SvcRepo e), s)
      | Inr task \<Rightarrow>
     (if foreign ParentSessionID task then (task_failed (SvcRepo ErrNotFound), s)
      else if Terminal task then (task_done task, s)
      else case currentRun task (svc_repo s) of
        Inl e \<Rightarrow> (task_failed e, s)
      | Inr run \<Rightarrow>
     (let s1 = s\<lparr>svc_scheduler := snd (Cancel (task_CurrentRunID task) (svc_scheduler s))\<rparr>;
          reason = (if blank Reason then ''canceled by user or parent agent'' else TrimSpace Reason)
      in case MarkCanceled reason now task of
        Inl e \<Rightarrow> (task_failed (SvcTask e), s1)
      | Inr task' \<Rightarrow>
     (case saveCanceledTaskAndRun task' (canceled_run reason now run) s1 of
        Inl e \<Rightarrow> (task_failed e, s1)
      | Inr s2 \<Rightarrow>
          (task_done task',
           publish_task task'
             (runtime_try cfg (SetStatus (task_ID task') AgentStatusInterrupted) s2))))))"

section \<open>The mailbox of an execution\<close>

text \<open>\<open>publish_current\<close>: the task is published as it is stored after the repository's operation.\<close>

definition publish_current :: "string \<Rightarrow> Service \<Rightarrow> Service" where
  "publish_current taskID s =
     (case GetTask taskID (svc_repo s) of Inl _ \<Rightarrow> s | Inr current \<Rightarrow> publish_task current s)"

definition Service_claim ::
  "ServiceConfig \<Rightarrow> string \<Rightarrow> gotime \<Rightarrow> Service \<Rightarrow> service_error + (Message option \<times> Service)" where
  "Service_claim cfg taskID now s =
     (if cfg_AgentMessages cfg
      then (case ClaimChildMailboxMessage taskID now (svc_repo s) of
          Inl e \<Rightarrow> Inl (SvcRepo e)
        | Inr (None, r) \<Rightarrow> Inr (None, set_repo s r)
        | Inr (Some message, r) \<Rightarrow> Inr (Some message, publish_current taskID (set_repo s r)))
      else (case GetTask taskID (svc_repo s) of
          Inl e \<Rightarrow> Inl (SvcRepo e)
        | Inr task \<Rightarrow>
            (case ClaimMailboxMessage now task of
               (None, _) \<Rightarrow> Inr (None, s)
             | (Some message, task') \<Rightarrow>
                 Inr (Some message, publish_task task' (set_repo s (SaveTask task' (svc_repo s)))))))"

text \<open>Without a stored message, the code acknowledges in the mailbox alone.\<close>

definition acknowledge_mailbox ::
  "string \<Rightarrow> string \<Rightarrow> gotime \<Rightarrow> Service \<Rightarrow> service_error + Service" where
  "acknowledge_mailbox taskID messageID now s =
     (case GetTask taskID (svc_repo s) of
        Inl e \<Rightarrow> Inl (SvcRepo e)
      | Inr task \<Rightarrow>
          (case AcknowledgeMailboxMessage messageID now task of
             (False, _) \<Rightarrow> Inl SvcClaimedMissing
           | (True, task') \<Rightarrow> Inr (publish_task task' (set_repo s (SaveTask task' (svc_repo s))))))"

definition Service_acknowledge ::
  "ServiceConfig \<Rightarrow> string \<Rightarrow> string \<Rightarrow> gotime \<Rightarrow> Service \<Rightarrow> service_error + Service" where
  "Service_acknowledge cfg taskID messageID now s =
     (if cfg_AgentMessages cfg
      then (case AcknowledgeChildAgentMessage taskID messageID now (svc_repo s) of
          Inr r \<Rightarrow> Inr (publish_current taskID (set_repo s r))
        | Inl e \<Rightarrow> (if e \<noteq> ErrNotFound then Inl (SvcRepo e)
                     else acknowledge_mailbox taskID messageID now s))
      else acknowledge_mailbox taskID messageID now s)"

definition Service_release ::
  "ServiceConfig \<Rightarrow> string \<Rightarrow> string \<Rightarrow> string option \<Rightarrow> gotime \<Rightarrow> Service \<Rightarrow> service_error + Service" where
  "Service_release cfg taskID messageID deliveryErr now s =
     (if cfg_AgentMessages cfg
      then (case ReleaseChildMailboxMessage taskID messageID
                   (case deliveryErr of None \<Rightarrow> [] | Some e \<Rightarrow> e) now (svc_repo s) of
          Inl e \<Rightarrow> Inl (SvcRepo e)
        | Inr r \<Rightarrow> Inr (publish_current taskID (set_repo s r)))
      else (case GetTask taskID (svc_repo s) of
          Inl e \<Rightarrow> Inl (SvcRepo e)
        | Inr task \<Rightarrow>
            (case ReleaseMailboxMessage messageID deliveryErr now task of
               (False, _) \<Rightarrow> Inr s
             | (True, task') \<Rightarrow> Inr (publish_task task' (set_repo s (SaveTask task' (svc_repo s)))))))"

section \<open>Waiting for children\<close>

text \<open>The waiter is the number of its record; \<open>None\<close> when the caller does not wait as a task.\<close>

definition register_waiter :: "Task \<Rightarrow> Service \<Rightarrow> nat \<times> Service" where
  "register_waiter parent s =
     (let w = svc_waiters s;
          signaled = list_ex claimable (task_Mailbox parent)
      in (w, s\<lparr>svc_waiters := Suc w,
               svc_waitingWakeups := (svc_waitingWakeups s)(task_ID parent :=
                 svc_waitingWakeups s (task_ID parent)
                   @ [(w, \<lparr>cw_runID = task_CurrentRunID parent, cw_signaled = signaled\<rparr>)])\<rparr>))"

definition markWaitingForChildren ::
  "ServiceConfig \<Rightarrow> string \<Rightarrow> string \<Rightarrow> gotime \<Rightarrow> Service \<Rightarrow> service_error + (nat option \<times> Service)" where
  "markWaitingForChildren cfg ParentTaskID ParentSessionID now s =
     (let parentTaskID = TrimSpace ParentTaskID
      in if parentTaskID = [] then Inr (None, s)
         else case GetTask parentTaskID (svc_repo s) of
           Inl e \<Rightarrow> Inl (SvcRepo e)
         | Inr parent \<Rightarrow>
        (if task_ChildSessionID parent \<noteq> TrimSpace ParentSessionID then Inl (SvcRepo ErrNotFound)
         else if task_Status parent \<noteq> TaskStatusRunning
             \<and> task_Status parent \<noteq> TaskStatusWaitingSubagents
           then Inr (None, s)
         else if task_Status parent = TaskStatusRunning
           then (let parent' = parent\<lparr>task_Status := TaskStatusWaitingSubagents, task_UpdatedAt := now\<rparr>
             in case saveTaskMutationDuringRun cfg parent' (task_CurrentRunID parent)
                       (task_UpdatedAt parent) now s of
                  Inl e \<Rightarrow> Inl e
                | Inr s1 \<Rightarrow>
                    (case register_waiter parent'
                        (publish_task parent'
                          (runtime_try cfg (SetStatus (task_ID parent') AgentStatusWaiting) s1)) of
                       (w, s2) \<Rightarrow> Inr (Some w, s2)))
         else (case register_waiter parent s of (w, s1) \<Rightarrow> Inr (Some w, s1))))"

definition restoreRunningAfterChildren ::
  "ServiceConfig \<Rightarrow> string \<Rightarrow> nat \<Rightarrow> gotime \<Rightarrow> Service \<Rightarrow> Service" where
  "restoreRunningAfterChildren cfg ParentTaskID waiter now s =
     (let parentTaskID = TrimSpace ParentTaskID
      in if parentTaskID = [] then s
         else case map_of (svc_waitingWakeups s parentTaskID) waiter of
           None \<Rightarrow> s
         | Some w \<Rightarrow>
        (let rest = filter (\<lambda>(i, _). i \<noteq> waiter) (svc_waitingWakeups s parentTaskID);
             s1 = s\<lparr>svc_waitingWakeups := (svc_waitingWakeups s)(parentTaskID := rest)\<rparr>
         in if list_ex (\<lambda>(_, other). cw_runID other = cw_runID w) rest then s1
            else case GetTask parentTaskID (svc_repo s1) of
              Inl _ \<Rightarrow> s1
            | Inr parent \<Rightarrow>
           (if task_CurrentRunID parent \<noteq> cw_runID w
               \<or> task_Status parent \<noteq> TaskStatusWaitingSubagents then s1
            else (let parent' = parent\<lparr>task_Status := TaskStatusRunning, task_UpdatedAt := now\<rparr>
              in case saveTaskMutationDuringRun cfg parent' (task_CurrentRunID parent)
                        (task_UpdatedAt parent) now s1 of
                   Inl _ \<Rightarrow> s1
                 | Inr s2 \<Rightarrow>
                     publish_task parent'
                       (runtime_try cfg (SetStatus (task_ID parent') AgentStatusRunning) s2)))))"

text \<open>The identifiers a wait is for: trimmed, without blanks and duplicates, the single one last.\<close>

fun wait_ids :: "string list \<Rightarrow> string list \<Rightarrow> string list" where
  "wait_ids ids [] = ids"
| "wait_ids ids (value # values) =
     wait_ids (if blank value \<or> TrimSpace value \<in> set ids then ids else ids @ [TrimSpace value]) values"

definition waitTargetIDs :: "string list \<Rightarrow> string \<Rightarrow> service_error + string list" where
  "waitTargetIDs Targets TaskID =
     (let ids = wait_ids [] (Targets @ [TaskID])
      in if ids = [] then Inl SvcTaskIDRequired else Inr ids)"

fun loadWaitTasks :: "string \<Rightarrow> Repository \<Rightarrow> string list \<Rightarrow> service_error + Task list" where
  "loadWaitTasks parentID r [] = Inr []"
| "loadWaitTasks parentID r (taskID # ids) =
     (case GetTask taskID r of
        Inl e \<Rightarrow> Inl (SvcRepo e)
      | Inr task \<Rightarrow>
          (if parentID \<noteq> [] \<and> task_ParentSessionID task \<noteq> parentID then Inl (SvcRepo ErrNotFound)
           else map_sum (\<lambda>e. e) ((#) task) (loadWaitTasks parentID r ids)))"

definition terminalWaitTasks :: "Task list \<Rightarrow> Task list" where
  "terminalWaitTasks tasks = filter Terminal tasks"

end
