(* ===== verification/SubagentExecution.thy ===== *)
theory SubagentExecution
  imports SubagentControl SessionModel
begin

text \<open>
  The execution of a run (\<open>execute\<close> and its helpers in
  \<open>core/application/subagent/service/task_service.go\<close>, \<open>finishPanic\<close> of \<open>task_persistence.go\<close>).
  What surrounds it is the record \<open>Outside\<close>: the runner of the model, the workspace manager, the
  factory of child sessions. While the runner works, other methods of the service run too, so a call
  of it returns a new state of the service, any state; the rounds of the first call are given one by
  one, because the hook between two tool rounds is the service's own. \<open>out_clock\<close> is the clock,
  \<open>out_text\<close> the text of an error, \<open>out_context\<close> how the context of the run has ended, when it has.
  The watcher of the lease is left out but for \<open>out_leaseLost\<close>, what it reports. Panics of the
  runner are not modelled; \<open>finishPanic\<close>, which handles them, is.
\<close>

record AgentRunResult =
  ar_Content :: string
  ar_Reasoning :: string
  ar_Usage :: TokenUsage

datatype context_end = ContextCanceled | ContextDeadline

record 'g Outside =
  out_clock :: "Service \<Rightarrow> gotime"
  out_text :: "service_error \<Rightarrow> string"
  out_collect :: "Reference \<Rightarrow> string + ChangeSet"
  out_prepare :: "Task \<Rightarrow> string \<Rightarrow> string + Reference"
  out_create :: "Task \<Rightarrow> string \<Rightarrow> string option"
  out_unload :: "string \<Rightarrow> bool"
  out_rounds :: "Task \<Rightarrow> string \<Rightarrow> (Service \<times> 'g Session \<Rightarrow> Service \<times> 'g Session) list"
  out_first :: "Task \<Rightarrow> string \<Rightarrow> Service \<Rightarrow> (string option \<times> AgentRunResult) \<times> Service"
  out_run :: "Task \<Rightarrow> string \<Rightarrow> Service \<Rightarrow> (string + AgentRunResult) \<times> Service"
  out_context :: "Service \<Rightarrow> context_end option"
  out_leaseLost :: "Service \<Rightarrow> bool"

definition maxMailboxFollowUps :: nat where
  "maxMailboxFollowUps = MaxMailboxMessages"

section \<open>Beginning and ending\<close>

definition beginExecution ::
  "ServiceConfig \<Rightarrow> string \<Rightarrow> string \<Rightarrow> gotime \<Rightarrow> Service
     \<Rightarrow> (service_error + (Task \<times> Run) option) \<times> Service" where
  "beginExecution cfg taskID runID now s =
     (case GetTask taskID (svc_repo s) of
        Inl e \<Rightarrow> (Inl (SvcRepo e), s)
      | Inr task \<Rightarrow>
     (if Terminal task \<or> task_CurrentRunID task \<noteq> runID then (Inr None, s)
      else case find (\<lambda>item. run_ID item = runID) (ListRuns taskID (svc_repo s)) of
        None \<Rightarrow> (Inl SvcCurrentRunMissing, s)
      | Some run \<Rightarrow>
     (if run_ID run = [] then (Inl SvcCurrentRunMissing, s)
      else case MarkRunning now task of
        Inl e \<Rightarrow> (Inl (SvcTask e), s)
      | Inr task' \<Rightarrow>
     (let run' = run\<lparr>run_Status := RunStatusRunning, run_StartedAt := Some now\<rparr>
      in case saveTaskAndRun cfg task' run' now s of
        Inl e \<Rightarrow> (Inl e, s)
      | Inr s1 \<Rightarrow>
          (Inr (Some (task', run')),
           publishTaskStreamEvent (task_ID task') (run_ID run')
             (runtime_event ''task.started'' [] [] [] ''running'' [] [] False task')
             (publish_task task'
               (runtime_try cfg (SetStatus (task_ID task') AgentStatusRunning)
                 (runtime_try cfg (MarkLoaded (task_ID task')) s1))))))))"

text \<open>A task that is terminal already is left as it is; the code discards its workspace.\<close>

definition finish_settled :: "ServiceConfig \<Rightarrow> Task \<Rightarrow> string \<Rightarrow> string \<Rightarrow> gotime \<Rightarrow> Service \<Rightarrow> Service" where
  "finish_settled cfg current taskID runID now s =
     (if task_Status current = TaskStatusCanceled \<or> task_Status current = TaskStatusFailed
      then (case renewExecutionLease cfg taskID runID now s of Inl _ \<Rightarrow> s | Inr s' \<Rightarrow> s')
      else s)"

definition finishSuccess ::
  "ServiceConfig \<Rightarrow> Task \<Rightarrow> Run \<Rightarrow> AgentRunResult \<Rightarrow> ChangeSet \<Rightarrow> gotime \<Rightarrow> Service
     \<Rightarrow> service_error option \<times> Service" where
  "finishSuccess cfg task run response changes now s =
     (case GetTask (task_ID task) (svc_repo s) of
        Inl e \<Rightarrow> (Some (SvcRepo e), s)
      | Inr current \<Rightarrow>
     (if task_CurrentRunID current \<noteq> run_ID run then (None, s)
      else if Terminal current
        then (None, finish_settled cfg current (task_ID task) (run_ID run) now s)
      else if HasMailboxMessages current then (Some (SvcRepo ErrPendingMailbox), s)
      else case MarkSucceeded (ar_Content response) (ar_Reasoning response) now current of
        Inl e \<Rightarrow> (Some (SvcTask e), s)
      | Inr current1 \<Rightarrow>
     (let current' = current1\<lparr>task_Workspace := task_Workspace task, task_ChangeSet := changes,
                              task_Usage := TokenUsage_Add (task_Usage current1) (ar_Usage response)\<rparr>;
          run' = run\<lparr>run_Status := RunStatusSucceeded, run_Result := ar_Content response,
                     run_Usage := ar_Usage response, run_CompletedAt := Some now\<rparr>
      in case saveTaskAndRun cfg current' run' now s of
        Inl e \<Rightarrow> (Some e, s)
      | Inr s1 \<Rightarrow>
          (None, notifyParentCompletionLocked cfg current' now
             (publish_task current'
               (runtime_try cfg (SetStatus (task_ID current') AgentStatusCompleted) s1))))))"

definition timeout_text :: "Task \<Rightarrow> string" where
  "timeout_text task =
     ''subagent timed out after '' @ Itoa (snap_TimeoutSeconds (task_Definition task)) @ '' seconds''"

text \<open>\<open>runErr\<close> is the text of the error, \<open>ended\<close> the error of the run's context.\<close>

definition finishError ::
  "ServiceConfig \<Rightarrow> Task \<Rightarrow> Run \<Rightarrow> context_end option \<Rightarrow> string option \<Rightarrow> TokenUsage \<Rightarrow> gotime \<Rightarrow> Service
     \<Rightarrow> service_error option \<times> Service" where
  "finishError cfg task run ended runErr usage now s =
     (case GetTask (task_ID task) (svc_repo s) of
        Inl e \<Rightarrow> (Some (SvcRepo e), s)
      | Inr current \<Rightarrow>
     (if task_CurrentRunID current \<noteq> run_ID run then (None, s)
      else if Terminal current
        then (None, finish_settled cfg current (task_ID task) (run_ID run) now s)
      else
     (let message0 = (case runErr of None \<Rightarrow> ''subagent execution failed'' | Some e \<Rightarrow> e);
          message = (if ended = Some ContextDeadline then timeout_text task else message0);
          canceled = (ended = Some ContextCanceled);
          marked = (if canceled then MarkCanceled message now current else MarkFailed message now current)
      in case marked of
        Inl e \<Rightarrow> (Some (SvcTask e), s)
      | Inr current1 \<Rightarrow>
     (let current' = current1\<lparr>task_Usage := TokenUsage_Add (task_Usage current1) usage\<rparr>;
          run' = run\<lparr>run_Status := (if canceled then RunStatusCanceled else RunStatusFailed),
                     run_ErrorMessage := message, run_Usage := usage, run_CompletedAt := Some now\<rparr>;
          status = (if canceled then AgentStatusInterrupted else AgentStatusFailed)
      in case saveTaskAndRun cfg current' run' now s of
        Inl e \<Rightarrow> (Some e, s)
      | Inr s1 \<Rightarrow>
          (let s2 = publish_task current' (runtime_try cfg (SetStatus (task_ID current') status) s1)
           in (None, if canceled then s2 else notifyParentCompletionLocked cfg current' now s2))))))"

definition finishPanic ::
  "ServiceConfig \<Rightarrow> string \<Rightarrow> string \<Rightarrow> string \<Rightarrow> gotime \<Rightarrow> Service \<Rightarrow> service_error option \<times> Service" where
  "finishPanic cfg taskID runID panicErr now s =
     (case GetTask (TrimSpace taskID) (svc_repo s) of
        Inl e \<Rightarrow> (Some (SvcRepo e), s)
      | Inr task \<Rightarrow>
     (if Terminal task then (None, s)
      else case currentRun task (svc_repo s) of
        Inl e \<Rightarrow> (Some e, s)
      | Inr run \<Rightarrow>
          (if runID \<noteq> [] \<and> run_ID run \<noteq> runID then (Some SvcRunMismatch, s)
           else finishError cfg task run None (Some panicErr) 0 now s)))"

text \<open>The session is unloaded only when the run that ends was the active one and the task is over.\<close>

definition unloadChildSessionLocked ::
  "ServiceConfig \<Rightarrow> (string \<Rightarrow> bool) \<Rightarrow> string \<Rightarrow> string \<Rightarrow> Service \<Rightarrow> Service" where
  "unloadChildSessionLocked cfg unload taskID sessionID s =
     (if blank sessionID then s
      else if \<not> unload (TrimSpace sessionID) then s
      else runtime_try cfg (MarkUnloaded (TrimSpace taskID)) s)"

definition completeActiveRun ::
  "ServiceConfig \<Rightarrow> (string \<Rightarrow> bool) \<Rightarrow> string \<Rightarrow> string \<Rightarrow> Service \<Rightarrow> Service" where
  "completeActiveRun cfg unload taskID runID s =
     (if taskID = [] then s
      else
       (let sessionID = (case GetTask taskID (svc_repo s) of
              Inl _ \<Rightarrow> []
            | Inr task \<Rightarrow> (if Terminal task then TrimSpace (task_ChildSessionID task) else []))
        in case completeActiveRunLocked cfg taskID runID s of
             (was_active, s1) \<Rightarrow>
               (if was_active \<and> sessionID \<noteq> [] \<and> svc_activeRuns s1 taskID = None
                then unloadChildSessionLocked cfg unload taskID sessionID s1 else s1)))"

section \<open>Workspaces\<close>

text \<open>\<open>Some\<close> error or reused workspace, as the two results of the code; it never fails.\<close>

definition reuseOpenSandbox :: "(Reference \<Rightarrow> string + ChangeSet) \<Rightarrow> Task \<Rightarrow> bool" where
  "reuseOpenSandbox collect task =
     (if ref_Mode (task_Workspace task) \<noteq> IsolationModeOpenSandbox
         \<or> blank (ref_SandboxID (task_Workspace task)) then False
      else case collect (task_Workspace task) of
        Inl _ \<Rightarrow> False
      | Inr changes \<Rightarrow>
          cs_Status changes \<in> {ChangeSetStatusPending, ChangeSetStatusConflict, ChangeSetStatusNone,
                              ChangeSetStatusOther []})"

text \<open>The critical section that stores the prepared workspace with the task.\<close>

definition store_workspace ::
  "Task \<Rightarrow> Reference \<Rightarrow> Service \<Rightarrow> (service_error + Task option) \<times> Service" where
  "store_workspace task reference s =
     (case GetTask (task_ID task) (svc_repo s) of
        Inl e \<Rightarrow> (Inl (SvcRepo e), s)
      | Inr current \<Rightarrow>
          (if task_CurrentRunID current \<noteq> task_CurrentRunID task \<or> Terminal current
           then (Inr None, s)
           else (let current' = current\<lparr>task_Workspace := reference\<rparr>
                 in (Inr (Some current'), set_repo s (SaveTask current' (svc_repo s))))))"

definition prepareWorkspace ::
  "ServiceConfig \<Rightarrow> 'g Outside \<Rightarrow> Task \<Rightarrow> Service \<Rightarrow> (string option \<times> Task) \<times> Service" where
  "prepareWorkspace cfg out task s =
     (if ref_Mode (task_Workspace task) = IsolationModeDirect then ((None, task), s)
      else if \<not> cfg_Workspaces cfg
        then ((Some ''isolated workspace manager is not configured'', task), s)
      else if reuseOpenSandbox (out_collect out) task then ((None, task), s)
      else case out_prepare out task (workspaceSourceRoot task) of
        Inl e \<Rightarrow> ((Some e, task), s)
      | Inr prepared \<Rightarrow>
     (let reference = (if ref_SourceRoot prepared = []
                       then prepared\<lparr>ref_SourceRoot := workspaceSourceRoot task\<rparr> else prepared)
      in case store_workspace task reference s of
        (Inl e, s') \<Rightarrow> ((Some (out_text out e), task), s')
      | (Inr None, s') \<Rightarrow> ((Some ''context canceled'', task), s')
      | (Inr (Some current), s') \<Rightarrow> ((None, current), s')))"

definition collectWorkspaceChanges :: "(Reference \<Rightarrow> string + ChangeSet) \<Rightarrow> Task \<Rightarrow> string + ChangeSet" where
  "collectWorkspaceChanges collect task =
     (if ref_Mode (task_Workspace task) = IsolationModeDirect
      then Inr (no_changes\<lparr>cs_Status := ChangeSetStatusNone\<rparr>)
      else collect (task_Workspace task))"

section \<open>Messages that arrive during a run\<close>

text \<open>
  The hook between two tool rounds claims the messages that wait, and appends each to the session
  that runs, unless it is there. The claimed messages are returned, with an error when a claim fails.
\<close>

definition inject_message :: "gotime \<Rightarrow> Message \<Rightarrow> 'g Session \<Rightarrow> 'g Session" where
  "inject_message now message current =
     (if list_ex (\<lambda>existing. cm_ID existing = msg_ID message) (ses_Messages current) then current
      else AppendMessage [] now ((TextMessage RoleUser (msg_Content message))\<lparr>cm_ID := msg_ID message\<rparr>) current)"

fun injectMailbox ::
  "ServiceConfig \<Rightarrow> nat \<Rightarrow> string \<Rightarrow> gotime \<Rightarrow> Service \<times> 'g Session
     \<Rightarrow> (Message list \<times> service_error option) \<times> Service \<times> 'g Session" where
  "injectMailbox cfg 0 taskID now (s, current) = (([], None), s, current)"
| "injectMailbox cfg (Suc turns) taskID now (s, current) =
     (case Service_claim cfg taskID now s of
        Inl e \<Rightarrow> (([], Some e), s, current)
      | Inr (None, s1) \<Rightarrow> (([], None), s1, current)
      | Inr (Some message, s1) \<Rightarrow>
          (case injectMailbox cfg turns taskID now (s1, inject_message now message current) of
             ((claimed, err), rest) \<Rightarrow> ((message # claimed, err), rest)))"

definition injectMailboxBetweenToolRounds ::
  "ServiceConfig \<Rightarrow> string \<Rightarrow> gotime \<Rightarrow> Service \<times> 'g Session
     \<Rightarrow> (Message list \<times> service_error option) \<times> Service \<times> 'g Session" where
  "injectMailboxBetweenToolRounds cfg taskID now state =
     (if blank taskID then (([], None), state)
      else injectMailbox cfg maxMailboxFollowUps taskID now state)"

text \<open>A delivery: the run of the message, then its acknowledgement, or its release on any error.\<close>

definition deliver_failed ::
  "ServiceConfig \<Rightarrow> 'g Outside \<Rightarrow> Task \<Rightarrow> Message \<Rightarrow> string \<Rightarrow> Service \<Rightarrow> (string + AgentRunResult) \<times> Service" where
  "deliver_failed cfg out task message err s =
     (case Service_release cfg (task_ID task) (msg_ID message) (Some err) (out_clock out s) s of
        Inl e \<Rightarrow> (Inl (err @ newline @ out_text out e), s)
      | Inr s' \<Rightarrow> (Inl err, s'))"

definition deliverMailboxMessage ::
  "ServiceConfig \<Rightarrow> 'g Outside \<Rightarrow> Task \<Rightarrow> Message \<Rightarrow> Service \<Rightarrow> (string + AgentRunResult) \<times> Service" where
  "deliverMailboxMessage cfg out task message s =
     (case out_run out task (msg_Content message) s of
        (Inl err, s1) \<Rightarrow> deliver_failed cfg out task message err s1
      | (Inr response, s1) \<Rightarrow>
          (if blank (ar_Content response)
           then deliver_failed cfg out task message ''subagent follow-up returned an empty result'' s1
           else case Service_acknowledge cfg (task_ID task) (msg_ID message) (out_clock out s1) s1 of
             Inl e \<Rightarrow> deliver_failed cfg out task message (out_text out e) s1
           | Inr s2 \<Rightarrow> (Inr response, s2)))"

definition followed_by :: "AgentRunResult \<Rightarrow> AgentRunResult \<Rightarrow> AgentRunResult" where
  "followed_by response followUp =
     \<lparr>ar_Content = TrimSpace (ar_Content response @ newline @ newline @ ar_Content followUp),
      ar_Reasoning = TrimSpace (ar_Reasoning response @ newline @ newline @ ar_Reasoning followUp),
      ar_Usage = TokenUsage_Add (ar_Usage response) (ar_Usage followUp)\<rparr>"

fun mailbox_turns ::
  "ServiceConfig \<Rightarrow> 'g Outside \<Rightarrow> nat \<Rightarrow> Task \<Rightarrow> AgentRunResult \<Rightarrow> Service
     \<Rightarrow> (string option \<times> AgentRunResult) \<times> Service" where
  "mailbox_turns cfg out 0 task response s =
     (case GetTask (task_ID task) (svc_repo s) of
        Inl e \<Rightarrow> ((Some (out_text out (SvcRepo e)), response), s)
      | Inr current \<Rightarrow>
          ((if HasMailboxMessages current then Some ''subagent mailbox follow-up limit reached'' else None,
            response), s))"
| "mailbox_turns cfg out (Suc turns) task response s =
     (case Service_claim cfg (task_ID task) (out_clock out s) s of
        Inl e \<Rightarrow> ((Some (out_text out e), response), s)
      | Inr (None, s1) \<Rightarrow> ((None, response), s1)
      | Inr (Some message, s1) \<Rightarrow>
          (case deliverMailboxMessage cfg out task message s1 of
             (Inl err, s2) \<Rightarrow> ((Some err, response), s2)
           | (Inr followUp, s2) \<Rightarrow>
               mailbox_turns cfg out turns task (followed_by response followUp) s2))"

definition runMailboxFollowUps ::
  "ServiceConfig \<Rightarrow> 'g Outside \<Rightarrow> Task \<Rightarrow> AgentRunResult \<Rightarrow> Service
     \<Rightarrow> (string option \<times> AgentRunResult) \<times> Service" where
  "runMailboxFollowUps cfg out task response s =
     mailbox_turns cfg out maxMailboxFollowUps task response s"

section \<open>The execution of a run\<close>

text \<open>
  The first call of the runner: what happens in each tool round, with the hook after it, and then
  the result. An error of the hook ends it. The messages that the hook claimed are kept.
\<close>

fun tool_rounds ::
  "ServiceConfig \<Rightarrow> 'g Outside \<Rightarrow> string \<Rightarrow> (Service \<times> 'g Session \<Rightarrow> Service \<times> 'g Session) list
     \<Rightarrow> Message list \<Rightarrow> Service \<times> 'g Session \<Rightarrow> (Message list \<times> service_error option) \<times> Service" where
  "tool_rounds cfg out taskID [] injected state = ((injected, None), fst state)"
| "tool_rounds cfg out taskID (act # rounds) injected state =
     (let state1 = act state
      in case injectMailboxBetweenToolRounds cfg taskID (out_clock out (fst state1)) state1 of
           ((claimed, Some e), state2) \<Rightarrow> ((injected @ claimed, Some e), fst state2)
         | ((claimed, None), state2) \<Rightarrow> tool_rounds cfg out taskID rounds (injected @ claimed) state2)"

definition no_result :: AgentRunResult where
  "no_result = \<lparr>ar_Content = [], ar_Reasoning = [], ar_Usage = 0\<rparr>"

definition first_run ::
  "ServiceConfig \<Rightarrow> 'g Outside \<Rightarrow> Task \<Rightarrow> Run \<Rightarrow> 'g Session \<Rightarrow> Service
     \<Rightarrow> Message list \<times> (string option \<times> AgentRunResult) \<times> Service" where
  "first_run cfg out task run child s =
     (case tool_rounds cfg out (task_ID task) (out_rounds out task (run_Instruction run)) [] (s, child) of
        ((injected, Some e), s1) \<Rightarrow> (injected, (Some (out_text out e), no_result), s1)
      | ((injected, None), s1) \<Rightarrow> (injected, out_first out task (run_Instruction run) s1))"

fun acknowledge_injected ::
  "ServiceConfig \<Rightarrow> 'g Outside \<Rightarrow> Task \<Rightarrow> Message list \<Rightarrow> Service
     \<Rightarrow> (string option \<times> Message list) \<times> Service" where
  "acknowledge_injected cfg out task [] s = ((None, []), s)"
| "acknowledge_injected cfg out task (m # ms) s =
     (case Service_acknowledge cfg (task_ID task) (msg_ID m) (out_clock out s) s of
        Inl e \<Rightarrow> ((Some (out_text out e), m # ms), s)
      | Inr s' \<Rightarrow> acknowledge_injected cfg out task ms s')"

fun release_injected ::
  "ServiceConfig \<Rightarrow> 'g Outside \<Rightarrow> Task \<Rightarrow> string option \<Rightarrow> Message list \<Rightarrow> Service \<Rightarrow> Service" where
  "release_injected cfg out task err [] s = s"
| "release_injected cfg out task err (m # ms) s =
     release_injected cfg out task err ms
       (case Service_release cfg (task_ID task) (msg_ID m) err (out_clock out s) s of
          Inl _ \<Rightarrow> s | Inr s' \<Rightarrow> s')"

definition fail_run ::
  "ServiceConfig \<Rightarrow> 'g Outside \<Rightarrow> Task \<Rightarrow> Run \<Rightarrow> string \<Rightarrow> TokenUsage \<Rightarrow> Service \<Rightarrow> Service" where
  "fail_run cfg out task run err usage s =
     (if out_leaseLost out s then s
      else snd (finishError cfg task run (out_context out s) (Some err) usage (out_clock out s) s))"

text \<open>
  The loop after a first run that succeeded: messages that wait are delivered, and the run is
  finished unless another message has arrived. As long as messages keep arriving the loop goes on,
  so it has fuel.
\<close>

fun settle_run ::
  "ServiceConfig \<Rightarrow> 'g Outside \<Rightarrow> nat \<Rightarrow> Task \<Rightarrow> Run \<Rightarrow> AgentRunResult \<Rightarrow> Service \<Rightarrow> Service option" where
  "settle_run cfg out 0 task run response s = None"
| "settle_run cfg out (Suc fuel) task run response s =
     (if out_leaseLost out s then Some s
      else case runMailboxFollowUps cfg out task response s of
        ((Some err, response'), s1) \<Rightarrow> Some (fail_run cfg out task run err (ar_Usage response') s1)
      | ((None, response'), s1) \<Rightarrow>
          (if blank (ar_Content response')
           then Some (fail_run cfg out task run ''subagent returned an empty result'' (ar_Usage response') s1)
           else case collectWorkspaceChanges (out_collect out) task of
             Inl err \<Rightarrow> Some (fail_run cfg out task run err (ar_Usage response') s1)
           | Inr changes \<Rightarrow>
               (case finishSuccess cfg task run response' changes (out_clock out s1) s1 of
                  (err, s2) \<Rightarrow>
                    (if err = Some (SvcRepo ErrPendingMailbox)
                     then settle_run cfg out fuel task run response' s2 else Some s2))))"

definition run_child ::
  "ServiceConfig \<Rightarrow> 'g Outside \<Rightarrow> nat \<Rightarrow> Task \<Rightarrow> Run \<Rightarrow> 'g Session \<Rightarrow> Service \<Rightarrow> Service option" where
  "run_child cfg out fuel task run child s =
     (case first_run cfg out task run child s of
        (injected, (Some err, response), s1) \<Rightarrow>
          (let s2 = fail_run cfg out task run err (ar_Usage response) s1
           in Some (release_injected cfg out task (Some err) injected s2))
      | (injected, (None, response), s1) \<Rightarrow>
          (if blank (ar_Content response)
           then (let err = ''subagent returned an empty result'';
                     s2 = fail_run cfg out task run err (ar_Usage response) s1
                 in Some (release_injected cfg out task (Some err) injected s2))
           else case acknowledge_injected cfg out task injected s1 of
             ((Some err, rest), s2) \<Rightarrow>
               (let s3 = fail_run cfg out task run err (ar_Usage response) s2
                in Some (release_injected cfg out task (Some err) rest s3))
           | ((None, _), s2) \<Rightarrow> settle_run cfg out fuel task run response s2))"

definition end_execution :: "ServiceConfig \<Rightarrow> 'g Outside \<Rightarrow> string \<Rightarrow> string \<Rightarrow> Service \<Rightarrow> Service" where
  "end_execution cfg out taskID runID s =
     releaseExecutionLease cfg taskID runID (completeActiveRun cfg (out_unload out) taskID runID s)"

definition execute ::
  "ServiceConfig \<Rightarrow> 'g Outside \<Rightarrow> nat \<Rightarrow> string \<Rightarrow> string \<Rightarrow> string \<Rightarrow> 'g Session \<Rightarrow> Service
     \<Rightarrow> Service option" where
  "execute cfg out fuel taskID runID fallbackModelID child s =
     map_option (end_execution cfg out taskID runID)
       (case renewExecutionLease cfg taskID runID (out_clock out s) s of
          Inl _ \<Rightarrow> Some s
        | Inr s1 \<Rightarrow>
       (case beginExecution cfg taskID runID (out_clock out s1) s1 of
          (Inl _, s2) \<Rightarrow> Some s2
        | (Inr None, s2) \<Rightarrow> Some s2
        | (Inr (Some (task0, run)), s2) \<Rightarrow>
       (case prepareWorkspace cfg out task0 s2 of
          ((Some err, task), s3) \<Rightarrow> Some (fail_run cfg out task run err 0 s3)
        | ((None, task), s3) \<Rightarrow>
       (case out_create out task fallbackModelID of
          Some err \<Rightarrow> Some (fail_run cfg out task run err 0 s3)
        | None \<Rightarrow> run_child cfg out fuel task run child s3))))"

end
