(* ===== verification/SubagentResults.thy ===== *)
theory SubagentResults
  imports SubagentExecution
begin

text \<open>
  What is done with the result of a task, and the recovery after a restart: \<open>Resume\<close>,
  \<open>ApplyChanges\<close> and \<open>DiscardChanges\<close> of \<open>task_service.go\<close>, \<open>RecoverInterruptedTasks\<close> of
  \<open>task_persistence.go\<close>, \<open>RecoverPendingAgentMessages\<close> and \<open>Acknowledge\<close> of
  \<open>parent_completion.go\<close>. An operation that changes a task outside a run takes the task's lease under
  an identifier of its own and reads the task again; \<open>others\<close> is what other instances of the
  application do to the repository before it has the lease. The parent's continuation and the
  workspace manager are parameters.
\<close>

section \<open>Workspace changes\<close>

text \<open>The check that a task is still what the operation read before it had the lease.\<close>

definition unchanged_since :: "Task \<Rightarrow> Task \<Rightarrow> bool" where
  "unchanged_since task current \<longleftrightarrow>
     task_CurrentRunID current = task_CurrentRunID task \<and> task_UpdatedAt current = task_UpdatedAt task"

text \<open>
  The manager's result is the change set and the error, if any. \<open>now\<close> is the time of admission,
  \<open>now'\<close> the time after the manager has returned.
\<close>

definition ApplyChanges ::
  "ServiceConfig \<Rightarrow> (Repository \<Rightarrow> Repository) \<Rightarrow> (Task \<Rightarrow> string option \<times> ChangeSet)
     \<Rightarrow> string \<Rightarrow> string \<Rightarrow> gotime \<Rightarrow> gotime \<Rightarrow> Service \<Rightarrow> task_result \<times> Service" where
  "ApplyChanges cfg others manager TaskID ParentSessionID now now' s =
     (if \<not> cfg_Workspaces cfg then (task_failed (SvcWorkspace ''not configured''), s)
      else case GetTask (TrimSpace TaskID) (svc_repo s) of
        Inl e \<Rightarrow> (task_failed (SvcRepo e), s)
      | Inr task \<Rightarrow>
     (if foreign ParentSessionID task then (task_failed (SvcRepo ErrNotFound), s)
      else if task_Status task \<noteq> TaskStatusSucceeded
        then (task_failed (SvcApplyStatus (task_Status task)), s)
      else if ref_Mode (task_Workspace task) = IsolationModeDirect
        then (task_failed SvcDirectWorkspace, s)
      else case taskOperationID cfg ''apply'' s of (operationID, s1) \<Rightarrow>
     (case taskMutationLease cfg (task_ID task) operationID now (set_repo s1 (others (svc_repo s1))) of
        Inl e \<Rightarrow> (task_failed e, set_repo s1 (others (svc_repo s1)))
      | Inr s2 \<Rightarrow>
     (case GetTask (task_ID task) (svc_repo s2) of
        Inl e \<Rightarrow> (task_failed (SvcRepo e), s2)
      | Inr current \<Rightarrow>
     (if \<not> unchanged_since task current \<or> task_Status current \<noteq> TaskStatusSucceeded
        then (task_failed (SvcRepo ErrTaskStateConflict), s2)
      else case manager current of (applyErr, changes) \<Rightarrow>
     (let done = releaseMutation cfg (task_ID task) operationID;
          task' = current\<lparr>task_ChangeSet := changes,
                    task_Workspace := (if applyErr = None
                      then (task_Workspace current)\<lparr>ref_SandboxID := []\<rparr> else task_Workspace current),
                    task_UpdatedAt := now'\<rparr>
      in if cs_WorkspaceID changes \<noteq> []
         then (case saveTaskMutation cfg task' (task_CurrentRunID task) (task_UpdatedAt task)
                      operationID now' s2 of
             Inl e \<Rightarrow> (task_failed e, done s2)
           | Inr s3 \<Rightarrow>
               ((map_option SvcWorkspace applyErr, Some task'), done (publish_task task' s3)))
         else ((map_option SvcWorkspace applyErr, Some current), done s2)))))))"

definition DiscardChanges ::
  "ServiceConfig \<Rightarrow> (Repository \<Rightarrow> Repository) \<Rightarrow> (Task \<Rightarrow> string + ChangeSet)
     \<Rightarrow> string \<Rightarrow> string \<Rightarrow> gotime \<Rightarrow> gotime \<Rightarrow> Service \<Rightarrow> task_result \<times> Service" where
  "DiscardChanges cfg others manager TaskID ParentSessionID now now' s =
     (if \<not> cfg_Workspaces cfg then (task_failed (SvcWorkspace ''not configured''), s)
      else case GetTask (TrimSpace TaskID) (svc_repo s) of
        Inl e \<Rightarrow> (task_failed (SvcRepo e), s)
      | Inr task \<Rightarrow>
     (if foreign ParentSessionID task then (task_failed (SvcRepo ErrNotFound), s)
      else if \<not> Terminal task then (task_failed SvcDiscardRunning, s)
      else if ref_Mode (task_Workspace task) = IsolationModeDirect
        then (task_failed SvcDirectWorkspace, s)
      else case taskOperationID cfg ''discard'' s of (operationID, s1) \<Rightarrow>
     (case taskMutationLease cfg (task_ID task) operationID now (set_repo s1 (others (svc_repo s1))) of
        Inl e \<Rightarrow> (task_failed e, set_repo s1 (others (svc_repo s1)))
      | Inr s2 \<Rightarrow>
     (case GetTask (task_ID task) (svc_repo s2) of
        Inl e \<Rightarrow> (task_failed (SvcRepo e), s2)
      | Inr current \<Rightarrow>
     (if \<not> unchanged_since task current \<or> \<not> Terminal current
        then (task_failed (SvcRepo ErrTaskStateConflict), s2)
      else
     (let done = releaseMutation cfg (task_ID task) operationID
      in case manager current of
        Inl e \<Rightarrow> (task_failed (SvcWorkspace e), done s2)
      | Inr changes \<Rightarrow>
     (let task' = current\<lparr>task_ChangeSet := changes,
                    task_Workspace := (task_Workspace current)\<lparr>ref_SandboxID := []\<rparr>,
                    task_UpdatedAt := now'\<rparr>
      in case saveTaskMutation cfg task' (task_CurrentRunID task) (task_UpdatedAt task)
                operationID now' s2 of
        Inl e \<Rightarrow> (task_failed e, done s2)
      | Inr s3 \<Rightarrow> (task_done task', done (publish_task task' s3)))))))))"

section \<open>Resuming the parent\<close>

definition set_claim :: "string \<Rightarrow> bool \<Rightarrow> Service \<Rightarrow> Service" where
  "set_claim taskID on s =
     s\<lparr>svc_resumeClaims := (if on then insert taskID (svc_resumeClaims s) else svc_resumeClaims s - {taskID})\<rparr>"

text \<open>The first critical section: the claimed task, with its result marked as read, or an error.\<close>

definition resume_claim ::
  "ServiceConfig \<Rightarrow> (Repository \<Rightarrow> Repository) \<Rightarrow> string \<Rightarrow> string \<Rightarrow> gotime \<Rightarrow> Service
     \<Rightarrow> (service_error + (Task \<times> string)) \<times> Service" where
  "resume_claim cfg others TaskID ParentSessionID now s =
     (case GetTask (TrimSpace TaskID) (svc_repo s) of
        Inl e \<Rightarrow> (Inl (SvcRepo e), s)
      | Inr task \<Rightarrow>
     (if foreign ParentSessionID task then (Inl (SvcRepo ErrNotFound), s)
      else if \<not> CanFollowup task then (Inl (SvcResumeStatus (task_Status task)), s)
      else if \<not> task_Unread task then (Inl SvcResultConsumed, s)
      else if task_ID task \<in> svc_resumeClaims s then (Inl SvcBeingConsumed, s)
      else case taskOperationID cfg ''resume'' s of (operationID, s1) \<Rightarrow>
     (case taskMutationLease cfg (task_ID task) operationID now (set_repo s1 (others (svc_repo s1))) of
        Inl e \<Rightarrow> (Inl e, set_repo s1 (others (svc_repo s1)))
      | Inr s2 \<Rightarrow>
     (let done = releaseMutation cfg (task_ID task) operationID
      in case GetTask (task_ID task) (svc_repo s2) of
        Inl e \<Rightarrow> (Inl (SvcRepo e), done s2)
      | Inr current \<Rightarrow>
          (if \<not> unchanged_since task current \<or> \<not> task_Unread current \<or> \<not> CanFollowup current
             then (Inl (SvcRepo ErrTaskStateConflict), done s2)
           else (Inr (current\<lparr>task_Unread := False\<rparr>, operationID),
                 set_claim (task_ID current) True s2))))))"

definition set_unread ::
  "ServiceConfig \<Rightarrow> bool \<Rightarrow> string \<Rightarrow> string \<Rightarrow> gotime \<Rightarrow> Service \<Rightarrow> service_error option \<times> Service" where
  "set_unread cfg unread taskID operationID now s =
     (case GetTask taskID (svc_repo s) of
        Inl e \<Rightarrow> (Some (SvcRepo e), s)
      | Inr task \<Rightarrow>
          (if task_Unread task = unread then (None, s)
           else (let task' = task\<lparr>task_Unread := unread, task_UpdatedAt := now\<rparr>
             in case saveTaskMutation cfg task' (task_CurrentRunID task) (task_UpdatedAt task)
                       operationID now s of
                  Inl e \<Rightarrow> (Some e, s)
                | Inr s' \<Rightarrow> (None, publish_task task' s'))))"

definition restoreUnreadResult ::
  "ServiceConfig \<Rightarrow> string \<Rightarrow> string \<Rightarrow> gotime \<Rightarrow> Service \<Rightarrow> service_error option \<times> Service" where
  "restoreUnreadResult cfg taskID operationID now s = set_unread cfg True taskID operationID now s"

text \<open>
  \<open>continue_parent\<close> runs the parent's turn, with whatever other operations happen meanwhile; the
  completion message is queued first, as the application's continuation consumes queued input. The
  result is the error of the call, if any.
\<close>

definition Resume ::
  "ServiceConfig \<Rightarrow> (Repository \<Rightarrow> Repository) \<Rightarrow> (Task \<Rightarrow> Service \<Rightarrow> service_error option \<times> Service)
     \<Rightarrow> (Service \<Rightarrow> gotime) \<Rightarrow> string \<Rightarrow> string \<Rightarrow> Service \<Rightarrow> service_error option \<times> Service" where
  "Resume cfg others continue_parent clock TaskID ParentSessionID s =
     (case resume_claim cfg others TaskID ParentSessionID (clock s) s of
        (Inl e, s1) \<Rightarrow> (Some e, s1)
      | (Inr (claimed, operationID), s1) \<Rightarrow>
     (let taskID = task_ID claimed; done = releaseMutation cfg taskID operationID
      in case (case ensureParentCompletionQueued cfg claimed (clock s1) s1 of
                 (Some e, s2) \<Rightarrow> (Some e, s2)
               | (None, s2) \<Rightarrow> continue_parent claimed s2) of
        (Some e, s3) \<Rightarrow>
          (case restoreUnreadResult cfg taskID operationID (clock s3) s3 of
             (_, s4) \<Rightarrow> (Some e, done (set_claim taskID False s4)))
      | (None, s3) \<Rightarrow>
          (case set_unread cfg False taskID operationID (clock s3) (set_claim taskID False s3) of
             (err, s4) \<Rightarrow> (err, done s4))))"

section \<open>Recovery after a restart\<close>

definition canRequeueAfterRestart :: "Task \<Rightarrow> bool" where
  "canRequeueAfterRestart task \<longleftrightarrow>
     task_Status task \<in> {TaskStatusQueued, TaskStatusRunning, TaskStatusWaitingSubagents,
                         TaskStatusWaitingPermission}"

definition interruptedTaskMessage :: string where
  "interruptedTaskMessage = ''subagent execution was interrupted by process restart''"

definition interruptedTaskContinuation :: string where
  "interruptedTaskContinuation =
     ''Continue the interrupted task from the existing child session. Review the current state and finish the assigned work.''"

text \<open>The run to recover: the stored one, or a new one; a task without a run gets an identifier.\<close>

definition recoveryRun :: "ServiceConfig \<Rightarrow> Task \<Rightarrow> Service \<Rightarrow> (Task \<times> Run) \<times> Service" where
  "recoveryRun cfg task s =
     (case find (\<lambda>run. run_ID run = task_CurrentRunID task) (ListRuns (task_ID task) (svc_repo s)) of
        Some run \<Rightarrow> ((task, run), s)
      | None \<Rightarrow>
          (let (runID, s') = (if task_CurrentRunID task = [] then NewID cfg s
                              else (task_CurrentRunID task, s))
           in ((task\<lparr>task_CurrentRunID := runID\<rparr>,
                new_run runID (task_ID task) 1 (task_Instruction task) (task_CreatedAt task)), s')))"

definition interrupted_run :: "Task \<Rightarrow> Run \<Rightarrow> Run" where
  "interrupted_run task run =
     run\<lparr>run_Status := RunStatusQueued,
         run_Instruction := (if task_Status task \<noteq> TaskStatusQueued \<or> run_Status run \<noteq> RunStatusQueued
                             then interruptedTaskContinuation else run_Instruction run),
         run_ErrorMessage := [], run_StartedAt := None, run_CompletedAt := None\<rparr>"

definition recovered_task :: "gotime \<Rightarrow> Task \<Rightarrow> Task" where
  "recovered_task now task =
     (snd (RecoverMailboxDeliveries now task))
       \<lparr>task_Status := TaskStatusQueued, task_ErrorMessage := [], task_StartedAt := None,
        task_CompletedAt := None, task_UpdatedAt := now\<rparr>"

text \<open>
  \<open>Inl\<close> is the error that keeps the task for a later pass. When another execution of the task has
  been registered meanwhile, the lease is given back.
\<close>

definition requeueInterruptedTask ::
  "ServiceConfig \<Rightarrow> (string \<Rightarrow> bool) \<Rightarrow> Task \<Rightarrow> Run \<Rightarrow> gotime \<Rightarrow> Service \<Rightarrow> service_error option \<times> Service" where
  "requeueInterruptedTask cfg unload task run now s =
     (case runtime_register cfg task s of
        Inl e \<Rightarrow> (Some e, s)
      | Inr s1 \<Rightarrow>
     (case registerActiveRun cfg (task_ID task) (run_ID run) s1 of
        None \<Rightarrow> (None, releaseExecutionLease cfg (task_ID task) (run_ID run) s1)
      | Some s2 \<Rightarrow>
     (let task' = recovered_task now task; run' = interrupted_run task run;
          complete = completeActiveRun cfg unload (task_ID task) (run_ID run)
      in case saveTaskAndRun cfg task' run' now s2 of
        Inl e \<Rightarrow> (Some e, complete s2)
      | Inr s3 \<Rightarrow>
     (let s4 = publish_task task' s3
      in case Submit (run_ID run) True (svc_scheduler s4) of
        Inl e \<Rightarrow>
          (Some (SvcSchedule e),
           complete (releaseExecutionLease cfg (task_ID task) (run_ID run) (complete s4)))
      | Inr sch \<Rightarrow> (None, s4\<lparr>svc_scheduler := sch\<rparr>)))))"

text \<open>One task of the loop.\<close>

definition recover_task ::
  "ServiceConfig \<Rightarrow> (string \<Rightarrow> bool) \<Rightarrow> gotime \<Rightarrow> Task \<Rightarrow> Service \<Rightarrow> service_error option \<times> Service" where
  "recover_task cfg unload now task0 s =
     (if task_ID task0 \<noteq> [] \<and> svc_activeRuns s (task_ID task0) \<noteq> None then (None, s)
      else case recoveryRun cfg task0 s of ((task1, run), s1) \<Rightarrow>
     (case acquireExecutionLease cfg (task_ID task1) (run_ID run) now s1 of
        Inl e \<Rightarrow> (if e = SvcRepo ErrExecutionLeaseNotAcquired then None else Some e, s1)
      | Inr s2 \<Rightarrow>
     (let undo = releaseExecutionLease cfg (task_ID task1) (run_ID run)
      in case GetTask (task_ID task1) (svc_repo s2) of
        Inl e \<Rightarrow> (Some (SvcRepo e), undo s2)
      | Inr current \<Rightarrow>
     (if Terminal current \<or> task_CurrentRunID current \<noteq> []
           \<and> task_CurrentRunID current \<noteq> task_CurrentRunID task1
        then (None, undo s2)
      else
     (let task = current\<lparr>task_CurrentRunID := run_ID run\<rparr>
      in if canRequeueAfterRestart task
         then (case requeueInterruptedTask cfg unload task run now s2 of
             (None, s3) \<Rightarrow> (None, s3)
           | (Some e, s3) \<Rightarrow> (Some e, undo s3))
         else (case MarkFailed interruptedTaskMessage now task of
             Inl e \<Rightarrow> (Some (SvcTask e), undo s2)
           | Inr task' \<Rightarrow>
          (let run' = run\<lparr>run_Status := RunStatusFailed, run_ErrorMessage := interruptedTaskMessage,
                          run_CompletedAt := Some now\<rparr>
           in case saveTaskAndRun cfg task' run' now s2 of
             Inl e \<Rightarrow> (Some e, undo s2)
           | Inr s3 \<Rightarrow>
               (None, undo (notifyParentCompletionLocked cfg task' now (publish_task task' s3))))))))))"

fun recover_tasks ::
  "ServiceConfig \<Rightarrow> (string \<Rightarrow> bool) \<Rightarrow> gotime \<Rightarrow> Task list \<Rightarrow> Service \<Rightarrow> service_error list \<times> Service" where
  "recover_tasks cfg unload now [] s = ([], s)"
| "recover_tasks cfg unload now (task # tasks) s =
     (case recover_task cfg unload now task s of
        (err, s1) \<Rightarrow>
          (case recover_tasks cfg unload now tasks s1 of
             (errs, s2) \<Rightarrow> ((case err of None \<Rightarrow> errs | Some e \<Rightarrow> e # errs), s2)))"

definition RecoverInterruptedTasks ::
  "ServiceConfig \<Rightarrow> (string \<Rightarrow> bool) \<Rightarrow> string list \<Rightarrow> gotime \<Rightarrow> Service \<Rightarrow> service_error list \<times> Service" where
  "RecoverInterruptedTasks cfg unload ks now s =
     recover_tasks cfg unload now (ListNonTerminalTasks ks (svc_repo s)) s"

section \<open>Recovery of completion messages\<close>

definition message_owner :: "ServiceConfig \<Rightarrow> string" where
  "message_owner cfg =
     (if cfg_MessageOwnerID cfg = [] then ''subagent-parent-recovery'' else cfg_MessageOwnerID cfg)"

text \<open>One message: \<open>Inl\<close> ends the loop with an error.\<close>

definition recover_message ::
  "ServiceConfig \<Rightarrow> (nat \<Rightarrow> AgentMessage \<Rightarrow> string option) \<Rightarrow> gotime \<Rightarrow> string \<Rightarrow> Service
     \<Rightarrow> service_error option \<times> Service" where
  "recover_message cfg notifier now messageID s =
     (case ClaimParentCompletion messageID (message_owner cfg) now (leaseTTL cfg) (svc_repo s) of
        Inl e \<Rightarrow>
          (if e = ErrExecutionLeaseNotAcquired \<or> e = ErrTaskStateConflict then (None, s)
           else (Some (SvcRepo e), s))
      | Inr (message, r) \<Rightarrow>
     (case notify_call notifier message (set_repo s r) of
        (Some err, s1) \<Rightarrow>
          (None, (case ReleaseParentCompletion (am_ID message) (am_ClaimOwnerID message)
                          err (svc_repo s1) of
                    Inl _ \<Rightarrow> s1 | Inr r' \<Rightarrow> set_repo s1 r'))
      | (None, s1) \<Rightarrow>
          (case ReleaseParentCompletion (am_ID message) (am_ClaimOwnerID message)
                  ''queued for parent session'' (svc_repo s1) of
             Inl e \<Rightarrow> (Some (SvcRepo e), s1)
           | Inr r' \<Rightarrow>
               (None, (set_repo s1 r')\<lparr>svc_parentNotified :=
                         insert (am_ID message) (svc_parentNotified s1)\<rparr>))))"

fun recover_messages ::
  "ServiceConfig \<Rightarrow> (nat \<Rightarrow> AgentMessage \<Rightarrow> string option) \<Rightarrow> gotime \<Rightarrow> AgentMessage list \<Rightarrow> Service
     \<Rightarrow> service_error option \<times> Service" where
  "recover_messages cfg notifier now [] s = (None, s)"
| "recover_messages cfg notifier now (m # ms) s =
     (case recover_message cfg notifier now (am_ID m) s of
        (Some e, s1) \<Rightarrow> (Some e, s1)
      | (None, s1) \<Rightarrow> recover_messages cfg notifier now ms s1)"

definition RecoverPendingAgentMessages ::
  "ServiceConfig \<Rightarrow> string list \<Rightarrow> gotime \<Rightarrow> Service \<Rightarrow> service_error option \<times> Service" where
  "RecoverPendingAgentMessages cfg ks now s =
     (case cfg_ParentNotifier cfg of
        None \<Rightarrow> (None, s)
      | Some notifier \<Rightarrow>
          (if \<not> cfg_AgentMessages cfg then (None, s)
           else recover_messages cfg notifier now (ListPendingParentMessages ks (svc_repo s)) s))"

text \<open>\<open>AgentMessageAcknowledger.Acknowledge\<close>, for a repository that supports claims.\<close>

definition acknowledger_ttl :: duration where "acknowledger_ttl = 120 * 1000000000"

definition Acknowledge_message ::
  "string \<Rightarrow> duration \<Rightarrow> string \<Rightarrow> gotime \<Rightarrow> Repository \<Rightarrow> repo_error + Repository" where
  "Acknowledge_message OwnerID LeaseTTL messageID now r =
     (let ownerID = (if blank OwnerID then ''parent-message-ack'' else TrimSpace OwnerID);
          ttl = (if LeaseTTL \<le> 0 then acknowledger_ttl else LeaseTTL)
      in case ClaimParentCompletion messageID ownerID now ttl r of
           Inl e \<Rightarrow>
             (if e = ErrTaskStateConflict
                 \<and> (case GetAgentMessage messageID r of
                      Inr message \<Rightarrow> am_Status message = AgentMessageDelivered | Inl _ \<Rightarrow> False)
              then Inr r else Inl e)
         | Inr (_, r') \<Rightarrow> CompleteParentCompletion messageID ownerID now r')"

end
