(* ===== verification/ServiceFacts.thy ===== *)
theory ServiceFacts
  imports SubagentResults RepositoryFacts
begin

text \<open>
  What the operations of the subagent service do to the stored tasks and runs: which of them leave
  every transition as it is, and when one of them saves a transition. The lemmas are about the
  repository and the counter of identifiers, the only parts of the service that matter here.
\<close>

named_theorems svc_parts "the repository and the identifiers after a helper of the service"

lemma map_sum_Inr [simp]:
  "map_sum f g x = Inr y \<longleftrightarrow> (\<exists>z. x = Inr z \<and> y = g z)"
  "map_sum f g x = Inl e \<longleftrightarrow> (\<exists>z. x = Inl z \<and> e = f z)"
  by (cases x; auto)+

section \<open>Helpers that leave the repository\<close>

lemma set_repo_parts [svc_parts, simp]:
  "svc_repo (set_repo s r) = r" "svc_ids (set_repo s r) = svc_ids s"
  "svc_activeRuns (set_repo s r) = svc_activeRuns s"
  "svc_paths (set_repo s r) = svc_paths s" "svc_runtime (set_repo s r) = svc_runtime s"
  "svc_scheduler (set_repo s r) = svc_scheduler s"
  by (simp_all add: set_repo_def)

lemma publish_parts [svc_parts, simp]:
  "svc_repo (publish_task t s) = svc_repo s" "svc_ids (publish_task t s) = svc_ids s"
  "svc_repo (publish_current k s) = svc_repo s" "svc_ids (publish_current k s) = svc_ids s"
  "svc_repo (publishTaskStreamEvent k r e s) = svc_repo s"
  "svc_ids (publishTaskStreamEvent k r e s) = svc_ids s"
  by (simp_all add: publish_task_def publish_current_def publishTaskStreamEvent_def split: sum.split)

lemma helper_parts [svc_parts, simp]:
  "svc_repo (runtime_try cfg f s) = svc_repo s" "svc_ids (runtime_try cfg f s) = svc_ids s"
  "svc_repo (path_release cfg p s) = svc_repo s" "svc_ids (path_release cfg p s) = svc_ids s"
  "svc_repo (signalWaitingTask k s) = svc_repo s" "svc_ids (signalWaitingTask k s) = svc_ids s"
  "svc_repo (wake_and_publish t s) = svc_repo s" "svc_ids (wake_and_publish t s) = svc_ids s"
  "svc_repo (set_claim k b s) = svc_repo s" "svc_ids (set_claim k b s) = svc_ids s"
  "svc_repo (start_undo cfg t s) = svc_repo s" "svc_ids (start_undo cfg t s) = svc_ids s"
  by (simp_all add: runtime_try_def path_release_def signalWaitingTask_def wake_and_publish_def
      set_claim_def start_undo_def split: sum.split)

lemma complete_parts [svc_parts, simp]:
  "svc_repo (snd (completeActiveRunLocked cfg k r s)) = svc_repo s"
  "svc_ids (snd (completeActiveRunLocked cfg k r s)) = svc_ids s"
  "svc_repo (completeActiveRun cfg unload k r s) = svc_repo s"
  "svc_ids (completeActiveRun cfg unload k r s) = svc_ids s"
  by (simp_all add: completeActiveRunLocked_def completeActiveRun_def unloadChildSessionLocked_def Let_def)

lemma register_parts [svc_parts]:
  "registerActiveRunLocked cfg k r s = Some s' \<Longrightarrow> svc_repo s' = svc_repo s \<and> svc_ids s' = svc_ids s"
  "registerActiveRun cfg k r s = Some s' \<Longrightarrow> svc_repo s' = svc_repo s \<and> svc_ids s' = svc_ids s"
  "runtime_register cfg t s = Inr s' \<Longrightarrow> svc_repo s' = svc_repo s \<and> svc_ids s' = svc_ids s"
  "reserve_path cfg p s = Some s' \<Longrightarrow> svc_repo s' = svc_repo s \<and> svc_ids s' = svc_ids s"
  "register_waiter t s = (w, s') \<Longrightarrow> svc_repo s' = svc_repo s \<and> svc_ids s' = svc_ids s"
  "NewID cfg s = (i, s') \<Longrightarrow> svc_repo s' = svc_repo s \<and> svc_ids s' = Suc (svc_ids s) \<and> i = cfg_NewID cfg (svc_ids s)"
  "taskOperationID cfg p s = (i, s') \<Longrightarrow> svc_repo s' = svc_repo s \<and> svc_ids s' = Suc (svc_ids s)"
  subgoal by (auto simp: registerActiveRunLocked_def Let_def split: if_splits sum.splits)
  subgoal by (auto simp: registerActiveRun_def registerActiveRunLocked_def Let_def split: if_splits sum.splits)
  subgoal by (auto simp: runtime_register_def split: if_splits)
  subgoal by (auto simp: reserve_path_def split: if_splits option.splits prod.splits)
  subgoal by (auto simp: register_waiter_def Let_def)
  subgoal by (auto simp: NewID_def)
  subgoal by (auto simp: taskOperationID_def NewID_def)
  done

section \<open>Steps that leave every transition\<close>

definition outcome :: "Task \<Rightarrow> TaskStatus \<times> string \<times> string \<times> string" where
  "outcome t = (task_Status t, task_Result t, task_Reasoning t, task_ErrorMessage t)"

definition workview :: "Task \<Rightarrow> string \<times> string \<times> TaskStatus \<times> string \<times> string \<times> string" where
  "workview t = (task_ID t, task_CurrentRunID t, outcome t)"

lemma workview_eq:
  "workview a = workview b \<longleftrightarrow> task_ID a = task_ID b \<and> task_CurrentRunID a = task_CurrentRunID b
     \<and> outcome a = outcome b"
  by (auto simp: workview_def)

definition quiet :: "Repository \<Rightarrow> Repository \<Rightarrow> bool" where
  "quiet r r' \<longleftrightarrow>
     (\<forall>k. map_option workview (repo_tasks r' k) = map_option workview (repo_tasks r k))
     \<and> repo_runs r' = repo_runs r"

lemma quiet_refl [simp]: "quiet r r"
  by (simp add: quiet_def)

lemma quiet_trans: "quiet a b \<Longrightarrow> quiet b c \<Longrightarrow> quiet a c"
  by (simp add: quiet_def)

lemma quiet_same: "repo_tasks r' = repo_tasks r \<Longrightarrow> repo_runs r' = repo_runs r \<Longrightarrow> quiet r r'"
  by (simp add: quiet_def)

lemma quiet_with_task:
  "\<lbrakk>repo_tasks r (task_ID t) = Some t0; workview t = workview t0\<rbrakk> \<Longrightarrow> quiet r (with_task t r)"
  by (simp add: quiet_def with_task_def)

lemma repo_runs_with [simp]:
  "repo_runs (with_task t r) = repo_runs r" "repo_runs (with_message m r) = repo_runs r"
  "repo_runs (with_lease k l r) = repo_runs r"
  by (simp_all add: with_task_def with_message_def with_lease_def)

lemma quiet_with [simp]: "quiet r (with_lease k l r)" "quiet r (with_message m r)"
  by (simp_all add: quiet_def with_lease_def with_message_def)

definition keyed :: "Repository \<Rightarrow> bool" where
  "keyed r \<longleftrightarrow> (\<forall>k t. repo_tasks r k = Some t \<longrightarrow> task_ID t = k)"

lemma keyed_quiet: "keyed r \<Longrightarrow> quiet r r' \<Longrightarrow> keyed r'"
  by (clarsimp simp: keyed_def quiet_def) (metis (no_types, lifting) map_option_eq_Some workview_eq)

lemma GetTask_iff [simp]: "GetTask k r = Inr t \<longleftrightarrow> repo_tasks r (TrimSpace k) = Some t"
  by (simp add: GetTask_def split: option.splits)

text \<open>The lease operations and the completion messages do not touch tasks and runs.\<close>

lemma lease_quiet:
  "Acquire k i own ttl now r = Inr r' \<Longrightarrow> quiet r r'"
  "Renew k i own ttl now r = Inr r' \<Longrightarrow> quiet r r'"
  "Release k i own r = Inr r' \<Longrightarrow> quiet r r'"
  by (auto simp: Acquire_def Renew_def Release_def Let_def quiet_def with_lease_def
      split: if_splits option.splits)

lemma message_quiet:
  "EnqueueParentCompletion k m r = Inr (m', r') \<Longrightarrow> quiet r r'"
  "ClaimParentCompletion i own now ttl r = Inr (m', r') \<Longrightarrow> quiet r r'"
  "ReleaseParentCompletion i own e r = Inr r' \<Longrightarrow> quiet r r'"
  "CompleteParentCompletion i own now r = Inr r' \<Longrightarrow> quiet r r'"
  by (auto simp: EnqueueParentCompletion_def ClaimParentCompletion_def ReleaseParentCompletion_def
      CompleteParentCompletion_def Let_def split: if_splits option.splits)

lemma mailbox_workview:
  "EnqueueMessage m now t = Inr t' \<Longrightarrow> workview t' = workview t"
  "ClaimMailboxMessage now t = (x, t') \<Longrightarrow> workview t' = workview t"
  "AcknowledgeMailboxMessage i now t = (b, t') \<Longrightarrow> workview t' = workview t"
  "ReleaseMailboxMessage i e now t = (b, t') \<Longrightarrow> workview t' = workview t"
  by (auto simp: EnqueueMessage_def ClaimMailboxMessage_def AcknowledgeMailboxMessage_def
      ReleaseMailboxMessage_def Let_def workview_def outcome_def
      split: if_splits option.splits prod.splits)

lemma child_mailbox_quiet:
  assumes "keyed r"
  shows "EnqueueChildAgentMessage k m now r = Inr (t, r') \<Longrightarrow> quiet r r'"
    and "ClaimChildMailboxMessage k now r = Inr (x, r') \<Longrightarrow> quiet r r'"
    and "AcknowledgeChildAgentMessage k i now r = Inr r' \<Longrightarrow> quiet r r'"
    and "ReleaseChildMailboxMessage k i e now r = Inr r' \<Longrightarrow> quiet r r'"
proof -
  have w: "quiet r (with_task t' r)"
    if "repo_tasks r k' = Some t" "workview t' = workview t" for k' t t'
    using that assms by (intro quiet_with_task [of r t' t]) (auto simp: keyed_def workview_eq)
  have w': "quiet r r''" if "repo_tasks r k' = Some t" "workview t' = workview t"
      "repo_tasks r'' = repo_tasks (with_task t' r)" "repo_runs r'' = repo_runs r" for k' t t' r''
    using w [OF that(1,2)] that(3,4) by (simp add: quiet_def)
  show "EnqueueChildAgentMessage k m now r = Inr (t, r') \<Longrightarrow> quiet r r'"
    by (auto simp: EnqueueChildAgentMessage_def dest!: mailbox_workview(1) intro!: w'
        split: if_splits option.splits sum.splits)
  show "ClaimChildMailboxMessage k now r = Inr (x, r') \<Longrightarrow> quiet r r'"
    by (auto simp: ClaimChildMailboxMessage_def Let_def dest!: mailbox_workview(2) intro!: w'
        split: if_splits option.splits prod.splits)
  show "AcknowledgeChildAgentMessage k i now r = Inr r' \<Longrightarrow> quiet r r'"
    by (auto simp: AcknowledgeChildAgentMessage_def dest!: mailbox_workview(3) intro!: w'
        split: if_splits option.splits prod.splits bool.splits)
  show "ReleaseChildMailboxMessage k i e now r = Inr r' \<Longrightarrow> quiet r r'"
    by (auto simp: ReleaseChildMailboxMessage_def Let_def dest!: mailbox_workview(4) intro!: w'
        split: if_splits option.splits prod.splits bool.splits)
qed

section \<open>Leases and completions of the service\<close>

lemma service_lease_quiet:
  "acquireExecutionLease cfg k i now s = Inr s' \<Longrightarrow> quiet (svc_repo s) (svc_repo s') \<and> svc_ids s' = svc_ids s"
  "renewExecutionLease cfg k i now s = Inr s' \<Longrightarrow> quiet (svc_repo s) (svc_repo s') \<and> svc_ids s' = svc_ids s"
  "taskMutationLease cfg k i now s = Inr s' \<Longrightarrow> quiet (svc_repo s) (svc_repo s') \<and> svc_ids s' = svc_ids s"
  by (auto simp: acquireExecutionLease_def renewExecutionLease_def taskMutationLease_def
      dest: lease_quiet split: if_splits)

lemma release_quiet [simp]:
  "quiet (svc_repo s) (svc_repo (releaseExecutionLease cfg k i s))"
  "svc_ids (releaseExecutionLease cfg k i s) = svc_ids s"
  "quiet (svc_repo s) (svc_repo (releaseMutation cfg k i s))"
  "svc_ids (releaseMutation cfg k i s) = svc_ids s"
  by (auto simp: releaseExecutionLease_def releaseMutation_def dest: lease_quiet split: sum.split)

lemma quiet_release [simp]:
  "quiet r (svc_repo (releaseExecutionLease cfg k i s)) \<longleftrightarrow> quiet r (svc_repo s)"
  "quiet r (svc_repo (releaseMutation cfg k i s)) \<longleftrightarrow> quiet r (svc_repo s)"
  by (auto simp: releaseExecutionLease_def releaseMutation_def Release_def quiet_def
      split: sum.split option.splits if_splits)

lemma notify_call_parts [svc_parts]:
  "notify_call f m s = (x, s') \<Longrightarrow> svc_repo s' = svc_repo s \<and> svc_ids s' = svc_ids s"
  by (auto simp: notify_call_def Let_def split: option.splits)

lemma prepare_quiet:
  "prepareParentCompletionMessageLocked cfg t now s = Inr (m, s')
    \<Longrightarrow> quiet (svc_repo s) (svc_repo s') \<and> svc_ids s' = svc_ids s"
  by (auto simp: prepareParentCompletionMessageLocked_def Let_def dest: message_quiet
      split: if_splits option.splits sum.splits)

lemma completion_quiet:
  "ensureParentCompletionQueued cfg t now s = (e, s')
    \<Longrightarrow> quiet (svc_repo s) (svc_repo s') \<and> svc_ids s' = svc_ids s"
  by (auto simp: ensureParentCompletionQueued_def Let_def dest!: prepare_quiet notify_call_parts
      split: if_splits option.splits sum.splits prod.splits)

lemma notify_quiet [simp]:
  "quiet (svc_repo s) (svc_repo (notifyParentCompletionLocked cfg t now s))"
  "svc_ids (notifyParentCompletionLocked cfg t now s) = svc_ids s"
  using completion_quiet [of cfg t now s "fst (ensureParentCompletionQueued cfg t now s)"
      "snd (ensureParentCompletionQueued cfg t now s)"]
  by (simp_all add: notifyParentCompletionLocked_def)

lemma quiet_sym: "quiet r r' \<Longrightarrow> quiet r' r"
  by (simp add: quiet_def)

lemma quiet_notify [simp]:
  "quiet r (svc_repo (notifyParentCompletionLocked cfg t now s)) \<longleftrightarrow> quiet r (svc_repo s)"
  using notify_quiet(1) [of s cfg t now] quiet_trans quiet_sym by blast

section \<open>Task-only saves\<close>

lemma SaveOwnedTask_writes:
  "SaveOwnedTask t i e own u ttl now now' r = Inr r' \<Longrightarrow>
     repo_tasks r' = (repo_tasks r)(task_ID t \<mapsto> t) \<and> repo_runs r' = repo_runs r
     \<and> (\<exists>c. repo_tasks r (task_ID t) = Some c \<and> task_CurrentRunID c = e \<and> task_UpdatedAt c = u)"
  "SaveTaskIfVersion t u r = Inr r' \<Longrightarrow>
     repo_tasks r' = (repo_tasks r)(task_ID t \<mapsto> t) \<and> repo_runs r' = repo_runs r"
  by (auto simp: SaveOwnedTask_def SaveTaskIfVersion_def split: if_splits option.splits)

lemma task_mutation_writes:
  "saveTaskMutation cfg t e u i now s = Inr s' \<Longrightarrow>
     repo_tasks (svc_repo s') = (repo_tasks (svc_repo s))(task_ID t \<mapsto> t)
     \<and> repo_runs (svc_repo s') = repo_runs (svc_repo s) \<and> svc_ids s' = svc_ids s"
  "saveTaskMutationDuringRun cfg t e u now s = Inr s' \<Longrightarrow>
     repo_tasks (svc_repo s') = (repo_tasks (svc_repo s))(task_ID t \<mapsto> t)
     \<and> repo_runs (svc_repo s') = repo_runs (svc_repo s) \<and> svc_ids s' = svc_ids s"
  by (auto simp: saveTaskMutation_def saveTaskMutationDuringRun_def dest: SaveOwnedTask_writes
      split: if_splits)

lemma quiet_task_write:
  assumes "repo_tasks r k = Some c" "keyed r" "workview t = workview c"
    and "repo_tasks r' = (repo_tasks r)(task_ID t \<mapsto> t)" "repo_runs r' = repo_runs r"
  shows "quiet r r'"
  using assms by (auto simp: quiet_def keyed_def workview_eq)

end
