(* ===== verification/ServiceMachine.thy ===== *)
theory ServiceMachine
  imports ServiceFacts
begin

text \<open>
  The subagent service as a machine: the critical sections of its methods and of the goroutines that
  execute runs, in any order and with any arguments, are the operations. An operation that takes a
  task or a run takes a copy that its goroutine has kept, however old. The invariant is about the
  outcome of a run that is over.
\<close>

definition used :: "ServiceConfig \<Rightarrow> nat \<Rightarrow> string \<Rightarrow> bool" where
  "used cfg n x \<longleftrightarrow> x \<in> cfg_NewID cfg ` {..<n}"

lemma used_mono: "used cfg n x \<Longrightarrow> n \<le> n' \<Longrightarrow> used cfg n' x"
  by (auto simp: used_def)

lemma used_new [simp]: "used cfg (Suc n) (cfg_NewID cfg n)"
  by (auto simp: used_def)

lemma unused_new: "inj (cfg_NewID cfg) \<Longrightarrow> n \<le> m \<Longrightarrow> \<not> used cfg n (cfg_NewID cfg m)"
  by (auto simp: used_def dest!: injD)

text \<open>
  Stored tasks are stored under their identifier and have a current run, and both identifiers come
  from the generator; stored runs are stored with their task.
\<close>

definition work_ok :: "ServiceConfig \<Rightarrow> Repository \<Rightarrow> nat \<Rightarrow> bool" where
  "work_ok cfg R n \<longleftrightarrow>
     (\<forall>k t. repo_tasks R k = Some t \<longrightarrow> task_ID t = k \<and> task_CurrentRunID t \<noteq> []
        \<and> used cfg n k \<and> used cfg n (task_CurrentRunID t))
     \<and> (\<forall>k. \<forall>run \<in> set (runs_of k R). run_TaskID run = k)"

definition stored_run :: "string \<Rightarrow> string \<Rightarrow> Repository \<Rightarrow> Run option" where
  "stored_run k r R = find (\<lambda>x. run_ID x = r) (runs_of k R)"

definition run_settled ::
  "ServiceConfig \<Rightarrow> string \<Rightarrow> string \<Rightarrow> TaskStatus \<times> string \<times> string \<times> string \<Rightarrow> Run option
     \<Rightarrow> Repository \<Rightarrow> nat \<Rightarrow> bool" where
  "run_settled cfg k r oc saved R n \<longleftrightarrow>
     work_ok cfg R n \<and> used cfg n r \<and> stored_run k r R = saved
     \<and> (\<exists>t. repo_tasks R k = Some t \<and> (task_CurrentRunID t = r \<longrightarrow> Terminal t \<and> outcome t = oc))"

lemma settledD:
  assumes "run_settled cfg k r oc saved R n"
  shows "work_ok cfg R n" "keyed R" "used cfg n r"
    and "repo_tasks R k = Some t \<Longrightarrow> \<not> Terminal t \<Longrightarrow> task_CurrentRunID t \<noteq> r"
    and "repo_tasks R x = Some t' \<Longrightarrow> task_ID t' = x \<and> task_CurrentRunID t' \<noteq> []
           \<and> used cfg n x \<and> used cfg n (task_CurrentRunID t')"
    and "run \<in> set (runs_of x R) \<Longrightarrow> run_TaskID run = x"
  using assms by (auto simp: run_settled_def keyed_def work_ok_def)

lemma Terminal_outcome: "outcome a = outcome b \<Longrightarrow> Terminal a = Terminal b"
  by (simp add: outcome_def Terminal_def)

lemma quiet_tasks:
  assumes "quiet R R'"
  shows "repo_tasks R' k = Some t' \<Longrightarrow> \<exists>t. repo_tasks R k = Some t \<and> workview t' = workview t"
    and "repo_tasks R k = Some t \<Longrightarrow> \<exists>t'. repo_tasks R' k = Some t' \<and> workview t' = workview t"
  using assms unfolding quiet_def by (metis map_option_eq_Some)+

lemma settled_quiet:
  assumes s: "run_settled cfg k r oc saved R n" and q: "quiet R R'" and n: "n \<le> n'"
  shows "run_settled cfg k r oc saved R' n'"
proof -
  have runs: "runs_of x R' = runs_of x R" for x
    using q by (simp add: runs_of_def quiet_def)
  have settled_runs: "\<forall>k. \<forall>run \<in> set (runs_of k R'). run_TaskID run = k"
    using settledD(6) [OF s] by (simp add: runs)
  have "work_ok cfg R' n'"
    unfolding work_ok_def
  proof (intro conjI [OF _ settled_runs] allI impI)
    fix x t' assume "repo_tasks R' x = Some t'"
    then obtain t where "repo_tasks R x = Some t" "workview t' = workview t"
      using quiet_tasks(1) [OF q] by blast
    then show "task_ID t' = x \<and> task_CurrentRunID t' \<noteq> [] \<and> used cfg n' x \<and> used cfg n' (task_CurrentRunID t')"
      using settledD(5) [OF s] used_mono [OF _ n] by (auto simp: workview_eq)
  qed
  moreover obtain t where "repo_tasks R k = Some t" "task_CurrentRunID t = r \<longrightarrow> Terminal t \<and> outcome t = oc"
    using s by (auto simp: run_settled_def)
  moreover from this(1) obtain t' where "repo_tasks R' k = Some t'" "workview t' = workview t"
    using quiet_tasks(2) [OF q] by blast
  moreover have "stored_run k r R' = stored_run k r R"
    using q by (simp add: stored_run_def runs_of_def quiet_def)
  ultimately show ?thesis
    using s n by (auto simp: run_settled_def workview_eq dest: Terminal_outcome intro: used_mono)
qed

section \<open>Saving a transition\<close>

lemma find_put_run:
  "run_ID run \<noteq> r \<Longrightarrow> find (\<lambda>x. run_ID x = r) (put_run run items) = find (\<lambda>x. run_ID x = r) items"
proof -
  assume ne: "run_ID run \<noteq> r"
  have "find (\<lambda>x. run_ID x = r) items' = find (\<lambda>x. run_ID x = r) items"
    if "update_first (\<lambda>x. run_ID x = run_ID run) (\<lambda>_. run) items = Some (y, items')" for y items'
    using that ne by (induction items arbitrary: items') (auto split: if_splits)
  moreover have "find (\<lambda>x. run_ID x = r) (items @ [run]) = find (\<lambda>x. run_ID x = r) items"
    using ne by (induction items) auto
  ultimately show ?thesis
    by (auto simp: put_run_def split: option.split)
qed

text \<open>What a saved transition of the task \<open>task_ID t\<close> does to the stores.\<close>

definition writes :: "Task \<Rightarrow> Run \<Rightarrow> Repository \<Rightarrow> Repository \<Rightarrow> bool" where
  "writes t run R R' \<longleftrightarrow>
     (\<exists>mailbox. repo_tasks R' = (repo_tasks R)(task_ID t \<mapsto> t\<lparr>task_Mailbox := mailbox\<rparr>))
     \<and> repo_runs R' = (repo_runs R)(task_ID t \<mapsto> put_run run (runs_of (task_ID t) R))
     \<and> run_TaskID run = task_ID t"

lemma set_put_run: "set (put_run run items) \<subseteq> insert run (set items)"
proof -
  have "set items' \<subseteq> insert run (set items)"
    if "update_first P (\<lambda>_. run) items = Some (y, items')" for P y items'
    using that by (induction items arbitrary: items') (fastforce split: if_splits)+
  then show ?thesis by (auto simp: put_run_def split: option.split)
qed

lemma Reconcile_task:
  "ReconcileOwnedTaskTransition c d run = Inr t \<Longrightarrow> \<exists>mailbox. t = d\<lparr>task_Mailbox := mailbox\<rparr>"
  by (cases d) (auto simp: ReconcileOwnedTaskTransition_def Let_def split: if_splits)

lemma saveTaskAndRun_writes:
  assumes "saveTaskAndRun cfg t run now s = Inr s'"
  shows "writes t run (svc_repo s) (svc_repo s')" "svc_ids s' = svc_ids s"
    "run_TaskID run = task_ID t" "run_ID run \<noteq> []" "task_ID t \<noteq> []"
proof -
  have plain: "writes t run R (saveTaskAndRunLocked (t\<lparr>task_Mailbox := mb\<rparr>) run R')"
    if "run_TaskID run = task_ID t" "repo_tasks R' = repo_tasks R" "repo_runs R' = repo_runs R" for R R' mb
    using that by (auto simp: writes_def saveTaskAndRunLocked_def SaveRun_def with_task_def runs_of_def)
  have owned: "writes t run R R'"
    if save: "SaveOwnedTaskAndRun t run own ttl now R = Inr R'" and id: "run_TaskID run = task_ID t"
    for own ttl R R'
  proof -
    obtain mb l where "R' = saveTaskAndRunLocked (t\<lparr>task_Mailbox := mb\<rparr>) run (with_lease (task_ID t) l R)"
      using save that [of "task_Mailbox t"]
      by (auto simp: SaveOwnedTaskAndRun_def dest!: Reconcile_task split: if_splits option.splits sum.splits)
    then show ?thesis by (simp add: plain id)
  qed
  show "writes t run (svc_repo s) (svc_repo s')" "svc_ids s' = svc_ids s"
    "run_TaskID run = task_ID t" "run_ID run \<noteq> []" "task_ID t \<noteq> []"
    using assms owned plain [of "svc_repo s" "svc_repo s" "task_Mailbox t"]
    by (auto simp: saveTaskAndRun_def SaveTaskAndRun_def split: if_splits)
qed

lemma saveCanceled_writes:
  assumes "saveCanceledTaskAndRun t run s = Inr s'" "run_TaskID run = task_ID t"
  shows "writes t run (svc_repo s) (svc_repo s')" "svc_ids s' = svc_ids s"
  using assms
  by (auto simp: saveCanceledTaskAndRun_def SaveCanceledTaskAndRun_def writes_def saveTaskAndRunLocked_def
      SaveRun_def with_task_def runs_of_def split: if_splits option.splits intro!: exI [of _ "task_Mailbox t"])

lemma settled_writes:
  assumes s: "run_settled cfg k r oc saved R n" and w: "writes t run R R'" and n: "n \<le> n'"
    and other: "task_ID t = k \<Longrightarrow> run_ID run \<noteq> r"
    and run: "task_CurrentRunID t = run_ID run" "run_ID run \<noteq> []"
    and ids: "used cfg n' (task_ID t)" "used cfg n' (run_ID run)"
  shows "run_settled cfg k r oc saved R' n'"
proof -
  obtain mb where tasks: "repo_tasks R' = (repo_tasks R)(task_ID t \<mapsto> t\<lparr>task_Mailbox := mb\<rparr>)"
    and runs: "repo_runs R' = (repo_runs R)(task_ID t \<mapsto> put_run run (runs_of (task_ID t) R))"
    and key: "run_TaskID run = task_ID t"
    using w by (auto simp: writes_def)
  have "runs_of x R' = (if x = task_ID t then put_run run (runs_of x R) else runs_of x R)" for x
    by (simp add: runs_of_def runs)
  then have "\<forall>run' \<in> set (runs_of x R'). run_TaskID run' = x" for x
    using settledD(6) [OF s] key set_put_run [of run "runs_of x R"] by auto
  then have "work_ok cfg R' n'"
    using settledD(5) [OF s] run ids used_mono [OF _ n] by (auto simp: work_ok_def tasks)
  moreover have "stored_run k r R' = stored_run k r R"
    using other by (auto simp: stored_run_def runs_of_def runs find_put_run)
  moreover have "\<exists>t. repo_tasks R' k = Some t \<and> (task_CurrentRunID t = r \<longrightarrow> Terminal t \<and> outcome t = oc)"
    using s other run by (auto simp: run_settled_def tasks)
  ultimately show ?thesis using s n by (auto simp: run_settled_def intro: used_mono)
qed

text \<open>A task saved alone, while its run is not over.\<close>

lemma settled_task_write:
  assumes s: "run_settled cfg k r oc saved R n" and c: "repo_tasks R x = Some c" "\<not> Terminal c"
    and t: "task_ID t = task_ID c" "task_CurrentRunID t = task_CurrentRunID c"
    and R': "repo_tasks R' = (repo_tasks R)(task_ID t \<mapsto> t)" "repo_runs R' = repo_runs R"
  shows "run_settled cfg k r oc saved R' n"
  using s c t settledD(4) [OF s] settledD(5) [OF s c(1)]
  by (auto simp: run_settled_def work_ok_def R' stored_run_def runs_of_def)

section \<open>Steps that respect settled runs\<close>

definition keeps :: "ServiceConfig \<Rightarrow> Service \<Rightarrow> Service \<Rightarrow> bool" where
  "keeps cfg s s' \<longleftrightarrow>
     (\<forall>k r oc saved. run_settled cfg k r oc saved (svc_repo s) (svc_ids s)
        \<longrightarrow> run_settled cfg k r oc saved (svc_repo s') (svc_ids s'))"

named_theorems keeping "operations of the service that leave settled runs"

lemma run_keeps_refl [simp]: "keeps cfg s s"
  by (simp add: keeps_def)

lemma run_keeps_trans [trans]: "keeps cfg s s' \<Longrightarrow> keeps cfg s' s'' \<Longrightarrow> keeps cfg s s''"
  by (simp add: keeps_def)

lemma keeps_quiet:
  "\<lbrakk>keyed (svc_repo s) \<Longrightarrow> quiet (svc_repo s) (svc_repo s'); svc_ids s \<le> svc_ids s'\<rbrakk> \<Longrightarrow> keeps cfg s s'"
  unfolding keeps_def by (blast intro: settled_quiet dest: settledD(2))

lemma keeps_same:
  "\<lbrakk>svc_repo s' = svc_repo s; svc_ids s \<le> svc_ids s'\<rbrakk> \<Longrightarrow> keeps cfg s s'"
  by (rule keeps_quiet) simp_all

lemma keeps_cong:
  "\<lbrakk>keeps cfg s s'; svc_repo s'' = svc_repo s'; svc_ids s'' = svc_ids s'\<rbrakk> \<Longrightarrow> keeps cfg s s''"
  by (simp add: keeps_def)

text \<open>A transition of a stored task whose run is not over, by its current run.\<close>

lemma keeps_writes:
  assumes c: "repo_tasks (svc_repo s) x = Some c" "\<not> Terminal c"
    and t: "task_ID t = task_ID c" "task_CurrentRunID t = task_CurrentRunID c"
      "task_CurrentRunID c = run_ID run"
    and w: "writes t run (svc_repo s) (svc_repo s')" "svc_ids s \<le> svc_ids s'"
  shows "keeps cfg s s'"
  unfolding keeps_def
proof (intro allI impI)
  fix k r oc saved
  assume s: "run_settled cfg k r oc saved (svc_repo s) (svc_ids s)"
  from settledD(4) [OF s] settledD(5) [OF s c(1)] c t show "run_settled cfg k r oc saved (svc_repo s') (svc_ids s')"
    by (intro settled_writes [OF s w]) (auto intro: used_mono [OF _ w(2)])
qed

lemma keeps_task_write:
  assumes "repo_tasks (svc_repo s) x = Some c" "\<not> Terminal c"
    and "task_ID t = task_ID c" "task_CurrentRunID t = task_CurrentRunID c"
    and "repo_tasks (svc_repo s') = (repo_tasks (svc_repo s))(task_ID t \<mapsto> t)"
    and "repo_runs (svc_repo s') = repo_runs (svc_repo s)" "svc_ids s' = svc_ids s"
  shows "keeps cfg s s'"
  unfolding keeps_def using settled_task_write [OF _ assms(1-6)] assms(7) by simp

text \<open>A transition to a new run.\<close>

lemma keeps_new_run:
  assumes inj: "inj (cfg_NewID cfg)" and n: "svc_ids s \<le> m" "m < svc_ids s'"
    and run: "run_ID run = cfg_NewID cfg m" "task_CurrentRunID t = run_ID run" "run_ID run \<noteq> []"
    and w: "writes t run (svc_repo s) (svc_repo s')"
    and t: "task_ID t = cfg_NewID cfg m' \<and> m' < svc_ids s'
      \<or> (keyed (svc_repo s) \<longrightarrow> repo_tasks (svc_repo s) (task_ID t) \<noteq> None)"
  shows "keeps cfg s s'"
  unfolding keeps_def
proof (intro allI impI)
  fix k r oc saved
  assume s: "run_settled cfg k r oc saved (svc_repo s) (svc_ids s)"
  have "used cfg (svc_ids s') (task_ID t)"
    using t settledD(2,5) [OF s] n used_mono [of cfg "svc_ids s" "task_ID t" "svc_ids s'"]
    by (auto simp: used_def)
  moreover have "used cfg (svc_ids s') (run_ID run)"
    using n run by (auto simp: used_def)
  moreover have "run_ID run \<noteq> r"
    using unused_new [OF inj n(1)] settledD(3) [OF s] run by metis
  ultimately show "run_settled cfg k r oc saved (svc_repo s') (svc_ids s')"
    using n run by (intro settled_writes [OF s w]) auto
qed

section \<open>The operations\<close>

lemma keepsI_quiet:
  "quiet (svc_repo s) (svc_repo s') \<and> svc_ids s' = svc_ids s \<Longrightarrow> keeps cfg s s'"
  by (rule keeps_quiet) simp_all

lemma run_keeps_release [simp]:
  "keeps cfg s (releaseExecutionLease cfg k i s)" "keeps cfg s (releaseMutation cfg k i s)"
  "keeps cfg s (notifyParentCompletionLocked cfg t now s)"
  by (rule keepsI_quiet, simp)+

text \<open>A new run saved between steps that leave the repository's tasks and runs.\<close>

lemma keeps_admission:
  assumes inj: "inj (cfg_NewID cfg)"
    and before: "quiet (svc_repo s) (svc_repo s1)" and ids: "svc_ids s \<le> m" "m < svc_ids s1"
    and save: "saveTaskAndRun cfg t run now s1 = Inr s2"
    and run: "run_ID run = cfg_NewID cfg m" "task_CurrentRunID t = run_ID run"
    and t: "task_ID t = cfg_NewID cfg m' \<and> m' < svc_ids s1
      \<or> (keyed (svc_repo s) \<longrightarrow> repo_tasks (svc_repo s) (task_ID t) \<noteq> None)"
    and after: "quiet (svc_repo s2) (svc_repo s')" "svc_ids s' = svc_ids s2"
  shows "keeps cfg s s'"
proof -
  let ?s = "s1\<lparr>svc_ids := svc_ids s\<rparr>"
  note w = saveTaskAndRun_writes [OF save]
  have "keeps cfg s ?s" using before by (intro keeps_quiet) simp_all
  also have "keeps cfg ?s s2"
    using ids run t w before keyed_quiet [OF _ quiet_sym [OF before]] quiet_tasks(2) [OF before]
    by (intro keeps_new_run [OF inj, of ?s m s2 run t m']) auto
  also have "keeps cfg s2 s'"
    using after by (intro keepsI_quiet) simp
  finally show ?thesis .
qed

lemma start_task_ID [simp]:
  "task_ID (start_task cfg command d parent now n) = cfg_NewID cfg n"
  "run_ID (new_run r k q i now) = r" "run_TaskID (new_run r k q i now) = k"
  by (simp_all add: start_task_def new_run_def Let_def)

lemma admitStart_keeps:
  assumes inj: "inj (cfg_NewID cfg)"
  shows "keeps cfg s (snd (admitStart cfg command ks now s))"
proof -
  obtain res s' where h: "admitStart cfg command ks now s = (res, s')" by (cases "admitStart cfg command ks now s")
  then consider
      (quiet) "quiet (svc_repo s) (svc_repo s')" "svc_ids s \<le> svc_ids s'"
    | (saved) t run s1 s2 where "quiet (svc_repo s) (svc_repo s1)" "svc_ids s1 = svc_ids s + 4"
        "saveTaskAndRun cfg t run now s1 = Inr s2" "task_ID t = cfg_NewID cfg (svc_ids s)"
        "run_ID run = cfg_NewID cfg (svc_ids s + 3)" "task_CurrentRunID t = run_ID run"
        "quiet (svc_repo s2) (svc_repo s')" "svc_ids s' = svc_ids s2"
    unfolding admitStart_def Let_def
    by (auto dest!: register_parts service_lease_quiet split: if_splits sum.splits option.splits prod.splits)
  then show ?thesis
  proof cases
    case quiet
    then show ?thesis by (simp add: h keeps_quiet)
  next
    case (saved t run s1 s2)
    from keeps_admission [OF inj saved(1) _ _ saved(3,5,6) _ saved(7,8)] saved show ?thesis
      by (simp add: h) (metis add_lessD1 le_add1 less_add_same_cancel1 zero_less_numeral nat_add_left_cancel_less numeral_less_iff)
  qed
qed

text \<open>A transition of the current run of a task that is not over.\<close>

lemma keeps_transition:
  assumes c: "repo_tasks (svc_repo s) x = Some c" "\<not> Terminal c"
    and before: "quiet (svc_repo s) (svc_repo s1)" "svc_ids s \<le> svc_ids s1"
    and t: "task_ID t = task_ID c" "task_CurrentRunID t = task_CurrentRunID c" "task_CurrentRunID c = run_ID run"
    and save: "saveTaskAndRun cfg t run now s1 = Inr s2"
    and after: "quiet (svc_repo s2) (svc_repo s')" "svc_ids s' = svc_ids s2"
  shows "keeps cfg s s'"
proof -
  note w = saveTaskAndRun_writes [OF save]
  obtain c' where c': "repo_tasks (svc_repo s1) x = Some c'" "workview c' = workview c"
    using quiet_tasks(2) [OF before(1) c(1)] by blast
  have "keeps cfg s s1" using before by (intro keeps_quiet) simp_all
  also have "keeps cfg s1 s2"
    using c c' t w by (intro keeps_writes [OF c'(1) _ _ _ _ w(1)]) (auto simp: workview_eq dest: Terminal_outcome)
  also have "keeps cfg s2 s'"
    using after by (intro keepsI_quiet) simp
  finally show ?thesis .
qed

lemma mark_ids:
  "MarkRunning now t = Inr t' \<Longrightarrow> task_ID t' = task_ID t \<and> task_CurrentRunID t' = task_CurrentRunID t \<and> \<not> Terminal t"
  "MarkSucceeded a b now t = Inr t' \<Longrightarrow> task_ID t' = task_ID t \<and> task_CurrentRunID t' = task_CurrentRunID t \<and> \<not> Terminal t"
  "MarkFailed a now t = Inr t' \<Longrightarrow> task_ID t' = task_ID t \<and> task_CurrentRunID t' = task_CurrentRunID t \<and> \<not> Terminal t"
  "MarkCanceled a now t = Inr t' \<Longrightarrow> task_ID t' = task_ID t \<and> task_CurrentRunID t' = task_CurrentRunID t \<and> \<not> Terminal t"
  by (auto simp: MarkRunning_def MarkSucceeded_def MarkFailed_def MarkCanceled_def Terminal_def split: if_splits)

text \<open>
  Every method that ends or advances a run does one of two things: nothing to the tasks and runs, or
  one such transition.
\<close>

definition advances :: "ServiceConfig \<Rightarrow> Service \<Rightarrow> Service \<Rightarrow> bool" where
  "advances cfg s s' \<longleftrightarrow>
     svc_ids s \<le> svc_ids s'
     \<and> (quiet (svc_repo s) (svc_repo s')
        \<or> (\<exists>x c t run now s1 s2. repo_tasks (svc_repo s) x = Some c \<and> \<not> Terminal c
             \<and> quiet (svc_repo s) (svc_repo s1) \<and> svc_ids s \<le> svc_ids s1
             \<and> task_ID t = task_ID c \<and> task_CurrentRunID t = task_CurrentRunID c
             \<and> task_CurrentRunID c = run_ID run \<and> saveTaskAndRun cfg t run now s1 = Inr s2
             \<and> quiet (svc_repo s2) (svc_repo s') \<and> svc_ids s' = svc_ids s2))"

lemma advances_quiet:
  "quiet (svc_repo s) (svc_repo s') \<Longrightarrow> svc_ids s \<le> svc_ids s' \<Longrightarrow> advances cfg s s'"
  by (simp add: advances_def)

lemma advances_transition:
  "\<lbrakk>saveTaskAndRun cfg t run now s1 = Inr s2; repo_tasks (svc_repo s) x = Some c; \<not> Terminal c;
    quiet (svc_repo s) (svc_repo s1); svc_ids s \<le> svc_ids s1; task_ID t = task_ID c;
    task_CurrentRunID t = task_CurrentRunID c; task_CurrentRunID c = run_ID run;
    quiet (svc_repo s2) (svc_repo s'); svc_ids s' = svc_ids s2\<rbrakk> \<Longrightarrow> advances cfg s s'"
  unfolding advances_def by (metis saveTaskAndRun_writes(2))

lemma advances_keeps: "advances cfg s s' \<Longrightarrow> keeps cfg s s'"
  unfolding advances_def by (elim conjE disjE exE) (auto intro: keeps_quiet keeps_transition)

lemma scheduleRun_advances: "advances cfg s (snd (scheduleRun cfg t run now s))"
  unfolding scheduleRun_def Let_def schedule_cleanup_def
  by (auto split: sum.split dest!: mark_ids intro: advances_quiet advances_transition)

lemma beginExecution_advances: "advances cfg s (snd (beginExecution cfg k r now s))"
  unfolding beginExecution_def Let_def
  by (auto split: sum.split option.split dest!: mark_ids simp: find_Some_iff
      intro: advances_quiet advances_transition)

lemma finishSuccess_advances: "advances cfg s (snd (finishSuccess cfg t run a c now s))"
  unfolding finishSuccess_def Let_def finish_settled_def
  by (auto split: sum.split dest!: mark_ids service_lease_quiet
      intro: advances_quiet advances_transition)

lemma finishError_advances: "advances cfg s (snd (finishError cfg t run e x u now s))"
proof -
  define message where "message = (if e = Some ContextDeadline then timeout_text t
    else case x of None \<Rightarrow> ''subagent execution failed'' | Some m \<Rightarrow> m)"
  define marked where "marked c = (if e = Some ContextCanceled then MarkCanceled message now c
    else MarkFailed message now c)" for c
  have m: "task_ID c' = task_ID c \<and> task_CurrentRunID c' = task_CurrentRunID c \<and> \<not> Terminal c"
    if "marked c = Inr c'" for c c'
    using that by (auto simp: marked_def dest: mark_ids split: if_splits)
  show ?thesis
    unfolding finishError_def Let_def finish_settled_def message_def [symmetric] marked_def [symmetric]
    by (cases "GetTask (task_ID t) (svc_repo s)")
      (auto split: sum.split dest!: m service_lease_quiet simp del: GetTask_iff
        intro: advances_quiet advances_transition [of _ _ _ _ _ _ _ "TrimSpace (task_ID t)"] simp: GetTask_iff)
qed

lemma finishPanic_advances: "advances cfg s (snd (finishPanic cfg k r e now s))"
  unfolding finishPanic_def
  by (auto split: sum.split intro: advances_quiet finishError_advances)

text \<open>Cancellation saves by its own method of the repository.\<close>

lemma currentRun_found:
  "currentRun t R = Inr run \<Longrightarrow> run_ID run = task_CurrentRunID t \<and> run \<in> set (ListRuns (task_ID t) R)"
  by (auto simp: currentRun_def find_Some_iff split: option.splits)

lemma Cancel_keeps:
  assumes c: "repo_tasks (svc_repo s) x = Some c" "\<not> Terminal c"
    and run: "run \<in> set (ListRuns (task_ID c) (svc_repo s))" "run_ID run = task_CurrentRunID c"
    and c': "task_ID c' = task_ID c" "task_CurrentRunID c' = task_CurrentRunID c"
    and run': "run_ID run' = run_ID run" "run_TaskID run' = run_TaskID run" and x: "TrimSpace x = x"
    and s': "svc_repo s' = saveTaskAndRunLocked c' run' (svc_repo s)" "svc_ids s' = svc_ids s"
  shows "keeps cfg s s'"
proof -
  have "keeps cfg s s'" if "run_TaskID run' = task_ID c'"
    using that c' run' run s' by (intro keeps_writes [OF c, of c' run'])
      (auto simp: writes_def saveTaskAndRunLocked_def SaveRun_def with_task_def runs_of_def
        intro!: exI [of _ "task_Mailbox c'"])
  moreover have "run_TaskID run' = task_ID c'"
    if "run_settled cfg k r oc saved (svc_repo s) (svc_ids s)" for k r oc saved
    using settledD(5) [OF that c(1)] settledD(6) [OF that, of run x] run run' c' x
    by (simp add: ListRuns_def)
  ultimately show ?thesis unfolding keeps_def by blast
qed

lemma Service_Cancel_keeps: "keeps cfg s (snd (Service_Cancel cfg k p why now s))"
proof -
  have save: "saveCanceledTaskAndRun c run s1 = Inr s2 \<Longrightarrow>
      svc_repo s2 = saveTaskAndRunLocked c run (svc_repo s1) \<and> svc_ids s2 = svc_ids s1" for c run s1 s2
    by (auto simp: saveCanceledTaskAndRun_def SaveCanceledTaskAndRun_def split: option.splits if_splits)
  define reason where "reason = (if blank why then ''canceled by user or parent agent'' else TrimSpace why)"
  show ?thesis
    unfolding Service_Cancel_def Let_def reason_def [symmetric]
  proof (cases "GetTask (TrimSpace k) (svc_repo s)", goal_cases)
    case (2 c)
    let ?s1 = "s\<lparr>svc_scheduler := snd (Cancel (task_CurrentRunID c) (svc_scheduler s))\<rparr>"
    note [simp del] = GetTask_iff
    from 2 show ?case
    proof (cases "foreign p c \<or> Terminal c", goal_cases)
      case live: 2
      then show ?case
      proof (cases "currentRun c (svc_repo s)", goal_cases)
        case run: (2 run)
        then show ?case
        proof (cases "MarkCanceled reason now c", goal_cases)
          case c': (2 c')
          then show ?case
          proof (cases "saveCanceledTaskAndRun c' (canceled_run reason now run) ?s1", goal_cases)
            case s2: (2 s2)
            then show ?case
              using iffD1 [OF GetTask_iff 2] currentRun_found [OF run(3)] mark_ids(4) [OF c'(4)] save [OF s2(5)]
              by (intro Cancel_keeps [of s "TrimSpace k" c run c' "canceled_run reason now run"])
                (simp_all add: canceled_run_def)
          qed (simp add: keeps_same)
        qed (simp add: keeps_same)
      qed simp
    qed auto
  qed simp
qed

lemma requeued_task_ids [simp]:
  "task_ID (requeued_task r now t) = task_ID t" "task_CurrentRunID (requeued_task r now t) = r"
  by (simp_all add: requeued_task_def)

lemma admit_run_keeps:
  assumes inj: "inj (cfg_NewID cfg)" and t: "repo_tasks (svc_repo s) x = Some t"
  shows "keeps cfg s (snd (admit_run cfg (\<lambda>r. r) command t q now s))"
proof -
  have same: "set_repo s (svc_repo s) = s" for s
    by (simp add: set_repo_def)
  have admitted: "keeps cfg s s'"
    if "saveTaskAndRun cfg t' run now s1 = Inr s2" "quiet (svc_repo s) (svc_repo s1)" "svc_ids s1 = Suc (svc_ids s)"
      "run_ID run = cfg_NewID cfg (svc_ids s)" "task_CurrentRunID t' = run_ID run" "task_ID t' = task_ID t"
      "quiet (svc_repo s2) (svc_repo s')" "svc_ids s' = svc_ids s2" for t' run s1 s2 s'
    using that t by (intro keeps_admission [OF inj that(2) _ _ that(1,4,5) _ that(7,8)]) (auto simp: keyed_def)
  show ?thesis
    unfolding admit_run_def Let_def same
    by (auto split: sum.split option.split prod.split dest!: register_parts service_lease_quiet
        intro: keeps_quiet admitted)
qed

lemma admitFollowup_keeps:
  assumes "inj (cfg_NewID cfg)"
  shows "keeps cfg s (snd (admitFollowup cfg (\<lambda>r. r) collected command now s))"
  unfolding admitFollowup_def
  by (auto split: sum.split option.split intro: admit_run_keeps [OF assms])

lemma Followup_keeps:
  assumes "inj (cfg_NewID cfg)"
  shows "keeps cfg s (snd (Followup cfg (\<lambda>r. r) collected command now s))"
proof -
  have "keeps cfg s s'" if "admitFollowup cfg (\<lambda>r. r) collected command now s = (x, s')" for command x s'
    using admitFollowup_keeps [OF assms, of s collected command now] that by simp
  moreover have "keeps cfg s' s''" if "scheduleRun cfg t run now s' = (x, s'')" for t run s' x s''
    using advances_keeps [OF scheduleRun_advances, of cfg s' t run now] that by simp
  ultimately show ?thesis
    unfolding Followup_def Let_def
    by (auto split: prod.split followup_outcome.split) (meson run_keeps_trans)
qed

lemma enqueue_child_keeps:
  assumes t: "repo_tasks (svc_repo s) x = Some t"
    and e: "enqueue_child cfg command trigger i body ks t now s = (res, s')"
  shows "keeps cfg s s'"
proof (rule keeps_quiet)
  show "svc_ids s \<le> svc_ids s'"
    using e by (auto simp: enqueue_child_def Let_def split: if_splits sum.splits option.splits prod.splits)
  assume k: "keyed (svc_repo s)"
  have w: "quiet (svc_repo s) (with_task t' (svc_repo s))" if "workview t' = workview t" for t'
    using that t k by (intro quiet_with_task [of _ t' t]) (auto simp: keyed_def workview_eq)
  show "quiet (svc_repo s) (svc_repo s')"
    using e
    by (auto simp: enqueue_child_def Let_def SaveTask_def dest: child_mailbox_quiet [OF k]
        dest!: mailbox_workview(1) intro: w split: if_splits sum.splits option.splits prod.splits)
qed

lemma SendMessage_keeps:
  assumes "inj (cfg_NewID cfg)"
  shows "keeps cfg s (snd (SendMessage cfg (\<lambda>r. r) collected command ks now s))"
proof -
  let ?given = "TrimSpace (sm_MessageID command)"
  obtain i s1 where id: "(if ?given \<noteq> [] then (?given, s) else NewID cfg s) = (i, s1)"
    by (cases "if ?given \<noteq> [] then (?given, s) else NewID cfg s")
  then have s1: "keeps cfg s s1" "svc_repo s1 = svc_repo s"
    by (auto simp: NewID_def intro: keeps_same split: if_splits)
  have enq: "keeps cfg s s'"
    if "repo_tasks (svc_repo s) x = Some t" "enqueue_child cfg command trigger i body ks t now s1 = (res, s')"
    for x t trigger body res s'
    using enqueue_child_keeps [OF _ that(2)] that(1) s1 run_keeps_trans by metis
  have fol: "keeps cfg s (snd (Followup cfg (\<lambda>r. r) collected c now s1))" for c
    using s1(1) Followup_keeps [OF assms] run_keeps_trans by blast
  show ?thesis
    unfolding SendMessage_def Let_def id prod.case
    by (auto split: sum.split option.split prod.split intro: fol enq s1(1))
qed

end
