(* ===== verification/ServiceRuns.thy ===== *)
theory ServiceRuns
  imports ServiceMachine
begin

text \<open>
  The rest of the operations of the service, the machine they form, and what it guarantees: the
  outcome of a run that is over is final.
\<close>

section \<open>Mailbox, waiting, workspaces\<close>

lemma keeps_task_quiet:
  assumes "repo_tasks (svc_repo s) x = Some c" "workview t = workview c"
    and "repo_tasks (svc_repo s') = (repo_tasks (svc_repo s))(task_ID t \<mapsto> t)"
    and "repo_runs (svc_repo s') = repo_runs (svc_repo s)" "svc_ids s \<le> svc_ids s'"
  shows "keeps cfg s s'"
  using assms(5) by (rule keeps_quiet [rotated]) (rule quiet_task_write [OF assms(1) _ assms(2-4)])

lemma keeps_saved_task:
  assumes "repo_tasks (svc_repo s) x = Some c" "workview t = workview c"
    and "svc_repo s' = with_task t (svc_repo s)" "svc_ids s' = svc_ids s"
  shows "keeps cfg s s'"
  using assms by (intro keeps_task_quiet [OF assms(1,2)]) (simp_all add: with_task_def)

lemma keeps_repo:
  assumes "keyed (svc_repo s) \<Longrightarrow> quiet (svc_repo s) r"
  shows "keeps cfg s (set_repo s r)"
  using assms by (intro keeps_quiet) simp_all

lemma keeps_repo_published:
  assumes "keyed (svc_repo s) \<Longrightarrow> quiet (svc_repo s) r"
  shows "keeps cfg s (publish_current k (set_repo s r))"
  using assms by (intro keeps_quiet) simp_all

lemma Service_claim_keeps: "Service_claim cfg k now s = Inr (m, s') \<Longrightarrow> keeps cfg s s'"
  unfolding Service_claim_def SaveTask_def
  by (auto split: if_splits sum.splits option.splits prod.splits dest: child_mailbox_quiet
      dest!: mailbox_workview intro: keeps_repo keeps_repo_published keeps_saved_task)

lemma acknowledge_mailbox_keeps: "acknowledge_mailbox k i now s = Inr s' \<Longrightarrow> keeps cfg s s'"
  unfolding acknowledge_mailbox_def SaveTask_def
  by (auto split: sum.splits prod.splits bool.splits dest!: mailbox_workview intro: keeps_saved_task)

lemma Service_acknowledge_keeps: "Service_acknowledge cfg k i now s = Inr s' \<Longrightarrow> keeps cfg s s'"
  unfolding Service_acknowledge_def
  by (auto split: if_splits sum.splits dest: child_mailbox_quiet
      intro: keeps_repo_published acknowledge_mailbox_keeps)

lemma Service_release_keeps: "Service_release cfg k i e now s = Inr s' \<Longrightarrow> keeps cfg s s'"
  unfolding Service_release_def SaveTask_def
  by (auto split: if_splits sum.splits prod.splits bool.splits dest: child_mailbox_quiet
      dest!: mailbox_workview intro: keeps_repo_published keeps_saved_task)

lemma keeps_mutation:
  assumes "saveTaskMutationDuringRun cfg t e u now s = Inr s1"
    and "repo_tasks (svc_repo s) x = Some c" "\<not> Terminal c"
    and "task_ID t = task_ID c" "task_CurrentRunID t = task_CurrentRunID c"
    and "svc_repo s' = svc_repo s1" "svc_ids s' = svc_ids s1"
  shows "keeps cfg s s'"
  using task_mutation_writes(2) [OF assms(1)] assms(6,7)
  by (intro keeps_task_write [OF assms(2-5)]) simp_all

lemma markWaiting_keeps: "markWaitingForChildren cfg k p now s = Inr (w, s') \<Longrightarrow> keeps cfg s s'"
  unfolding markWaitingForChildren_def Let_def
  by (auto split: if_splits sum.splits prod.splits dest!: register_parts
      intro: keeps_same keeps_mutation simp: Terminal_def)

lemma restoreRunning_keeps: "keeps cfg s (restoreRunningAfterChildren cfg k w now s)"
proof -
  have m: "keeps cfg s s'"
    if "saveTaskMutationDuringRun cfg t e u now s0 = Inr s1" "svc_repo s0 = svc_repo s" "svc_ids s0 = svc_ids s"
      "repo_tasks (svc_repo s) x = Some c" "\<not> Terminal c" "task_ID t = task_ID c"
      "task_CurrentRunID t = task_CurrentRunID c" "svc_repo s' = svc_repo s1" "svc_ids s' = svc_ids s1"
    for t e u s0 s1 x c s'
    using keeps_mutation [OF that(1) _ that(5,6,7,8,9)] that(2-4) by (simp add: keeps_def)
  show ?thesis
    unfolding restoreRunningAfterChildren_def Let_def
    by (auto split: sum.split option.split intro: keeps_same m simp: Terminal_def)
qed

lemma store_workspace_keeps: "keeps cfg s (snd (store_workspace t ref s))"
  unfolding store_workspace_def Let_def SaveTask_def
  by (auto split: sum.split simp: workview_def outcome_def
      intro!: keeps_saved_task [where t = "task_Workspace_update (\<lambda>_. ref) c" for c])

text \<open>A task changed under a mutation lease keeps its run and outcome.\<close>

lemma keeps_owned_mutation:
  assumes save: "saveTaskMutation cfg t e u i now s1 = Inr s2"
    and before: "quiet (svc_repo s) (svc_repo s1)" "svc_ids s \<le> svc_ids s1"
    and c: "repo_tasks (svc_repo s1) x = Some c" "workview t = workview c"
    and after: "quiet (svc_repo s2) (svc_repo s')" "svc_ids s' = svc_ids s2"
  shows "keeps cfg s s'"
proof -
  have "keeps cfg s s1" using before by (intro keeps_quiet) simp_all
  also have "keeps cfg s1 s2"
    using task_mutation_writes(1) [OF save] by (intro keeps_task_quiet [OF c]) simp_all
  also have "keeps cfg s2 s'" using after by (intro keepsI_quiet) simp
  finally show ?thesis .
qed

lemma ApplyChanges_keeps: "keeps cfg s (snd (ApplyChanges cfg (\<lambda>r. r) m k p now now' s))"
proof -
  have same: "set_repo s (svc_repo s) = s" for s
    by (simp add: set_repo_def)
  show ?thesis
    unfolding ApplyChanges_def Let_def same
    by (auto split: sum.split prod.split dest!: register_parts service_lease_quiet
        intro: keeps_quiet keeps_owned_mutation simp: workview_def outcome_def)
qed

lemma DiscardChanges_keeps: "keeps cfg s (snd (DiscardChanges cfg (\<lambda>r. r) m k p now now' s))"
proof -
  have same: "set_repo s (svc_repo s) = s" for s
    by (simp add: set_repo_def)
  show ?thesis
    unfolding DiscardChanges_def Let_def same
    by (auto split: sum.split prod.split dest!: register_parts service_lease_quiet
        intro: keeps_quiet keeps_owned_mutation simp: workview_def outcome_def)
qed

lemma resume_claim_keeps: "keeps cfg s (snd (resume_claim cfg (\<lambda>r. r) k p now s))"
proof -
  have same: "set_repo s (svc_repo s) = s" for s
    by (simp add: set_repo_def)
  show ?thesis
    unfolding resume_claim_def Let_def same
    by (auto split: sum.split prod.split dest!: register_parts service_lease_quiet intro: keeps_quiet)
qed

lemma set_unread_keeps: "keeps cfg s (snd (set_unread cfg b k i now s))"
  unfolding set_unread_def Let_def
  by (auto split: sum.split intro: keeps_owned_mutation simp: workview_def outcome_def)

section \<open>Recovery\<close>

lemma recovered_task_ids [simp]:
  "task_ID (recovered_task now t) = task_ID t" "task_CurrentRunID (recovered_task now t) = task_CurrentRunID t"
  by (simp_all add: recovered_task_def RecoverMailboxDeliveries_def Let_def)

lemma interrupted_run_ids [simp]:
  "run_ID (interrupted_run t run) = run_ID run" "run_TaskID (interrupted_run t run) = run_TaskID run"
  by (simp_all add: interrupted_run_def)

lemma requeue_advances:
  assumes "repo_tasks (svc_repo s) x = Some c" "\<not> Terminal c" "task_ID t = task_ID c"
    "task_CurrentRunID t = task_CurrentRunID c" "task_CurrentRunID c = run_ID run"
  shows "advances cfg s (snd (requeueInterruptedTask cfg unload t run now s))"
  using assms unfolding requeueInterruptedTask_def Let_def
  by (auto split: sum.split option.split dest!: register_parts intro: advances_quiet advances_transition)

lemma advances_release:
  "advances cfg s s' \<Longrightarrow> advances cfg s (releaseExecutionLease cfg k i s')"
  by (auto simp: advances_def)

lemma recoveryRun_parts:
  "recoveryRun cfg t s = ((t', run), s') \<Longrightarrow> svc_repo s' = svc_repo s \<and> svc_ids s \<le> svc_ids s'
     \<and> task_ID t' = task_ID t \<and> run_ID run = task_CurrentRunID t'"
  by (auto simp: recoveryRun_def NewID_def find_Some_iff split: option.splits if_splits)

lemma keeps_assuming:
  assumes "work_ok cfg (svc_repo s) (svc_ids s) \<Longrightarrow> keeps cfg s s'"
  shows "keeps cfg s s'"
  using assms unfolding keeps_def by (blast dest: settledD(1))

lemma recover_task_keeps: "keeps cfg s (snd (recover_task cfg unload now t0 s))"
proof (rule keeps_assuming)
  assume ok: "work_ok cfg (svc_repo s) (svc_ids s)"
  show ?thesis
  proof (cases "task_ID t0 \<noteq> [] \<and> svc_activeRuns s (task_ID t0) \<noteq> None")
    case fresh: False
    obtain t1 run s1 where r: "recoveryRun cfg t0 s = ((t1, run), s1)" by (metis prod_cases3 prod.exhaust)
    note parts = recoveryRun_parts [OF r]
    let ?undo = "releaseExecutionLease cfg (task_ID t1) (run_ID run)"
    show ?thesis
    proof (cases "acquireExecutionLease cfg (task_ID t1) (run_ID run) now s1")
      case (Inl e)
      with fresh r parts show ?thesis by (simp add: recover_task_def keeps_same)
    next
      case s2: (Inr s2)
      have q: "quiet (svc_repo s) (svc_repo s2)" "svc_ids s \<le> svc_ids s2"
        using service_lease_quiet(1) [OF s2] parts by auto
      then have step: "keeps cfg s s2" by (intro keeps_quiet) simp_all
      have run: "task_CurrentRunID c = run_ID run" "c\<lparr>task_CurrentRunID := run_ID run\<rparr> = c"
        if c: "repo_tasks (svc_repo s2) x = Some c"
          and current: "task_CurrentRunID c \<noteq> [] \<longrightarrow> task_CurrentRunID c = task_CurrentRunID t1" for c x
      proof -
        obtain c0 where "repo_tasks (svc_repo s) x = Some c0" "workview c = workview c0"
          using quiet_tasks(1) [OF q(1) c] by blast
        then have "task_CurrentRunID c \<noteq> []" using ok by (auto simp: work_ok_def workview_eq)
        with current parts show "task_CurrentRunID c = run_ID run" by simp
        then show "c\<lparr>task_CurrentRunID := run_ID run\<rparr> = c" by simp
      qed
      have idle: "(task_ID t0 \<noteq> [] \<and> svc_activeRuns s (task_ID t0) \<noteq> None) = False"
        using fresh by simp
      have "advances cfg s2 (snd (recover_task cfg unload now t0 s))"
      proof (cases "GetTask (task_ID t1) (svc_repo s2)")
        case (Inl e)
        with fresh r s2 show ?thesis by (auto simp: recover_task_def Let_def intro: advances_quiet)
      next
        case c: (Inr c)
        show ?thesis
        proof (cases "Terminal c \<or> task_CurrentRunID c \<noteq> [] \<and> task_CurrentRunID c \<noteq> task_CurrentRunID t1")
          case True
          then have "recover_task cfg unload now t0 s = (None, ?undo s2)"
            by (simp only: recover_task_def Let_def idle r s2 c True prod.case sum.case if_True if_False)
          then show ?thesis by (simp add: advances_quiet)
        next
          case live: False
          have stored: "repo_tasks (svc_repo s2) (TrimSpace (task_ID t1)) = Some c"
            using c by simp
          have same: "task_CurrentRunID c = run_ID run" "c\<lparr>task_CurrentRunID := run_ID run\<rparr> = c"
            using run [OF stored] live by blast+
          have form: "recover_task cfg unload now t0 s =
            (if canRequeueAfterRestart c
             then (case requeueInterruptedTask cfg unload c run now s2 of
                 (None, s3) \<Rightarrow> (None, s3) | (Some e, s3) \<Rightarrow> (Some e, ?undo s3))
             else (case MarkFailed interruptedTaskMessage now c of
                 Inl e \<Rightarrow> (Some (SvcTask e), ?undo s2)
               | Inr t' \<Rightarrow>
                (case saveTaskAndRun cfg t' (run\<lparr>run_Status := RunStatusFailed,
                        run_ErrorMessage := interruptedTaskMessage, run_CompletedAt := Some now\<rparr>) now s2 of
                   Inl e \<Rightarrow> (Some e, ?undo s2)
                 | Inr s3 \<Rightarrow> (None, ?undo (notifyParentCompletionLocked cfg t' now (publish_task t' s3))))))"
            by (simp only: recover_task_def Let_def idle r s2 c live same(2) prod.case sum.case if_False)
          show ?thesis
          proof (cases "canRequeueAfterRestart c")
            case True
            obtain err s3 where requeue: "requeueInterruptedTask cfg unload c run now s2 = (err, s3)" by fastforce
            have "advances cfg s2 s3"
              using requeue_advances [OF stored _ refl refl same(1), of cfg unload now] live requeue by simp
            with True requeue show ?thesis
              by (auto simp: form split: option.split intro: advances_release)
          next
            case False
            then show ?thesis
              unfolding form
              by (auto split: sum.split dest!: mark_ids
                  intro: advances_quiet advances_transition [OF _ stored] simp: same(1))
          qed
        qed
      qed
      with step show ?thesis by (blast intro: run_keeps_trans advances_keeps)
    qed
  qed (auto simp: recover_task_def)
qed

section \<open>The machine\<close>

datatype service_op =
    OpStart StartTask "string list" gotime
  | OpSchedule Task Run gotime
  | OpFollowup FollowupTask "string + ChangeSet" gotime
  | OpSend SendMessageCommand "string + ChangeSet" "string list" gotime
  | OpCancel string string string gotime
  | OpRenew string string gotime
  | OpBegin string string gotime
  | OpWorkspace Task Reference
  | OpFinish Task Run AgentRunResult ChangeSet gotime
  | OpFail Task Run "context_end option" "string option" TokenUsage gotime
  | OpPanic string string string gotime
  | OpEnd "string \<Rightarrow> bool" string string
  | OpClaim string gotime
  | OpAcknowledge string string gotime
  | OpRelease string string "string option" gotime
  | OpWait string string gotime
  | OpWoken string nat gotime
  | OpApply "Task \<Rightarrow> string option \<times> ChangeSet" string string gotime gotime
  | OpDiscard "Task \<Rightarrow> string + ChangeSet" string string gotime gotime
  | OpResume string string gotime
  | OpResumed string string
  | OpUnread bool string string gotime
  | OpNotify Task gotime
  | OpRecover "string \<Rightarrow> bool" Task gotime
  | OpRecoverMessage "nat \<Rightarrow> AgentMessage \<Rightarrow> string option" string gotime

fun service_step :: "ServiceConfig \<Rightarrow> Service \<Rightarrow> service_op \<Rightarrow> Service" where
  "service_step cfg s (OpStart c ks now) = snd (admitStart cfg c ks now s)"
| "service_step cfg s (OpSchedule t run now) = snd (scheduleRun cfg t run now s)"
| "service_step cfg s (OpFollowup c x now) = snd (Followup cfg (\<lambda>r. r) x c now s)"
| "service_step cfg s (OpSend c x ks now) = snd (SendMessage cfg (\<lambda>r. r) x c ks now s)"
| "service_step cfg s (OpCancel k p why now) = snd (Service_Cancel cfg k p why now s)"
| "service_step cfg s (OpRenew k r now) = or_same s (renewExecutionLease cfg k r now s)"
| "service_step cfg s (OpBegin k r now) = snd (beginExecution cfg k r now s)"
| "service_step cfg s (OpWorkspace t ref) = snd (store_workspace t ref s)"
| "service_step cfg s (OpFinish t run a c now) = snd (finishSuccess cfg t run a c now s)"
| "service_step cfg s (OpFail t run e x u now) = snd (finishError cfg t run e x u now s)"
| "service_step cfg s (OpPanic k r e now) = snd (finishPanic cfg k r e now s)"
| "service_step cfg s (OpEnd unload k r) =
     releaseExecutionLease cfg k r (completeActiveRun cfg unload k r s)"
| "service_step cfg s (OpClaim k now) = or_same s (map_sum (\<lambda>e. e) snd (Service_claim cfg k now s))"
| "service_step cfg s (OpAcknowledge k i now) = or_same s (Service_acknowledge cfg k i now s)"
| "service_step cfg s (OpRelease k i e now) = or_same s (Service_release cfg k i e now s)"
| "service_step cfg s (OpWait k p now) =
     or_same s (map_sum (\<lambda>e. e) snd (markWaitingForChildren cfg k p now s))"
| "service_step cfg s (OpWoken k w now) = restoreRunningAfterChildren cfg k w now s"
| "service_step cfg s (OpApply m k p now now') = snd (ApplyChanges cfg (\<lambda>r. r) m k p now now' s)"
| "service_step cfg s (OpDiscard m k p now now') = snd (DiscardChanges cfg (\<lambda>r. r) m k p now now' s)"
| "service_step cfg s (OpResume k p now) = snd (resume_claim cfg (\<lambda>r. r) k p now s)"
| "service_step cfg s (OpResumed k i) = releaseMutation cfg k i (set_claim k False s)"
| "service_step cfg s (OpUnread b k i now) = snd (set_unread cfg b k i now s)"
| "service_step cfg s (OpNotify t now) = snd (ensureParentCompletionQueued cfg t now s)"
| "service_step cfg s (OpRecover unload t now) = snd (recover_task cfg unload now t s)"
| "service_step cfg s (OpRecoverMessage f i now) = snd (recover_message cfg f now i s)"

lemma or_same_keeps: "(\<And>s'. x = Inr s' \<Longrightarrow> keeps cfg s s') \<Longrightarrow> keeps cfg s (or_same s x)"
  by (cases x) simp_all

lemma recover_message_keeps: "keeps cfg s (snd (recover_message cfg f now i s))"
  by (auto simp: recover_message_def split: sum.split prod.split option.split dest!: notify_call_parts message_quiet intro!: keeps_quiet intro: quiet_trans)

lemma service_step_keeps:
  assumes "inj (cfg_NewID cfg)"
  shows "keeps cfg s (service_step cfg s op)"
proof (cases op)
  case (OpRenew k r now)
  then show ?thesis
    by (cases "renewExecutionLease cfg k r now s") (auto dest: service_lease_quiet intro: keepsI_quiet)
next
  case (OpNotify t now)
  then show ?thesis
    using completion_quiet [of cfg t now s] by (intro keepsI_quiet) (simp, metis prod.collapse)
qed (auto intro: admitStart_keeps [OF assms] Followup_keeps [OF assms] SendMessage_keeps [OF assms]
    advances_keeps scheduleRun_advances beginExecution_advances finishSuccess_advances finishError_advances
    finishPanic_advances Service_Cancel_keeps store_workspace_keeps restoreRunning_keeps ApplyChanges_keeps
    DiscardChanges_keeps resume_claim_keeps set_unread_keeps recover_task_keeps recover_message_keeps
    keeps_quiet keeps_same
    intro!: or_same_keeps dest: Service_claim_keeps Service_acknowledge_keeps Service_release_keeps markWaiting_keeps)

interpretation settled_runs: op_machine "service_step cfg"
  "\<lambda>s. inj (cfg_NewID cfg) \<and> run_settled cfg k r oc saved (svc_repo s) (svc_ids s)"
  using service_step_keeps unfolding keeps_def by unfold_locales blast


text \<open>
  A service whose task has failed, at a canceled agent's late success: the task stays failed. The n-th
  identifier is the letter \<open>x\<close>, n times, after a \<open>t\<close>.
\<close>

definition sample_service_config :: ServiceConfig where
  "sample_service_config =
     \<lparr>cfg_NewID = (\<lambda>n. CHR ''t'' # replicate n (CHR ''x'')), cfg_ExecutionLease = True,
      cfg_ExecutionOwnerID = ''node'', cfg_ExecutionLeaseTTL = 0, cfg_MessageOwnerID = [],
      cfg_AgentMessages = True, cfg_AgentPaths = True, cfg_Runtime = True, cfg_Models = None,
      cfg_Workspaces = False, cfg_ContentHash = (\<lambda>x. x), cfg_ParentNotifier = None,
      cfg_DefaultWorkspaceRoot = []\<rparr>"

definition sample_command :: StartTask where
  "sample_command =
     \<lparr>st_ParentSessionID = ''p'', st_ParentTaskID = [], st_ParentRunID = [], st_ParentToolCallID = [],
      st_PlanID = [], st_StepID = [], st_CreatedRequestID = [], st_DefinitionID = ''d'',
      st_Instruction = ''do'', st_Title = ''T'', st_TaskName = ''n'', st_AgentPath = ''a'',
      st_AgentNickname = [], st_ModelID = [], st_FallbackModelID = [], st_WorkspaceRoot = ''w''\<rparr>"

definition sample_service_definition :: Definition where
  "sample_service_definition =
     \<lparr>def_ID = ''d'', def_Name = ''D'', def_Description = [], def_SystemPrompt = [], def_ModelID = [],
      def_AllowedTools = [], def_CapabilityMode = CapabilityModeReadOnly,
      def_IsolationMode = IsolationModeDirect, def_MaxTurns = 1, def_TimeoutSeconds = 1,
      def_Enabled = True, def_Version = 1, def_Source = DefinitionSourceUser, def_Deleted = False,
      def_DeletedAt = None, def_CreatedAt = 1, def_UpdatedAt = 1\<rparr>"

definition sample_failed_task :: Task where
  "sample_failed_task =
     (start_task sample_service_config sample_command sample_service_definition None 1 0)
       \<lparr>task_CurrentRunID := cfg_NewID sample_service_config 3, task_Status := TaskStatusFailed\<rparr>"

definition sample_failed_service :: Service where
  "sample_failed_service =
     \<lparr>svc_repo = NewRepository\<lparr>repo_tasks := [cfg_NewID sample_service_config 0 \<mapsto> sample_failed_task],
        repo_runs := [cfg_NewID sample_service_config 0 \<mapsto>
          [new_run (cfg_NewID sample_service_config 3) (cfg_NewID sample_service_config 0) 1 ''do'' 1]]\<rparr>,
      svc_registry = Map.empty, svc_paths = {}, svc_runtime = NewManager,
      svc_scheduler = NewScheduler 1 1, svc_ids = 4, svc_resumeClaims = {}, svc_parentNotified = {},
      svc_activeRuns = Map.empty, svc_waitingWakeups = (\<lambda>_. []), svc_waiters = 0, svc_events = [],
      svc_notified = [], svc_notifyCalls = 0\<rparr>"

lemma sample_config_inj: "inj (cfg_NewID sample_service_config)"
  by (auto simp: inj_on_def sample_service_config_def)

lemma sample_failed_ok:
  "work_ok sample_service_config (svc_repo sample_failed_service) (svc_ids sample_failed_service)"
  by (auto simp: work_ok_def used_def sample_failed_service_def sample_failed_task_def NewRepository_def
      runs_of_def sample_service_config_def split: if_splits)


end
