(* ===== verification/CatalogFacts.thy ===== *)
theory CatalogFacts
  imports SubagentCatalog ServiceRuns
begin

text \<open>
  The catalog of subagent definitions as a machine: what can be started is, after every sequence of
  changes, the built-in definitions and the enabled definitions of the user, as they are stored.
\<close>

abbreviation normal :: "Definition \<Rightarrow> bool" where
  "normal d \<equiv> Definition_Normalized d = d"

section \<open>Normal definitions\<close>

lemma Normalized_ID [simp]: "def_ID (Definition_Normalized d) = TrimSpace (def_ID d)"
  by (simp add: Definition_Normalized_def)

lemma Normalized_flags [simp]:
  "def_Deleted (Definition_Normalized d) = def_Deleted d"
  "def_Enabled (Definition_Normalized d) = def_Enabled d"
  by (simp_all add: Definition_Normalized_def)

lemma normal_ID: "normal d \<Longrightarrow> TrimSpace (def_ID d) = def_ID d"
  by (metis Normalized_ID)

text \<open>The fields that the service sets itself have normal values.\<close>

lemma normal_iff:
  "normal d \<longleftrightarrow> TrimSpace (def_ID d) = def_ID d \<and> TrimSpace (def_Name d) = def_Name d
     \<and> TrimSpace (def_Description d) = def_Description d
     \<and> TrimSpace (def_SystemPrompt d) = def_SystemPrompt d \<and> TrimSpace (def_ModelID d) = def_ModelID d
     \<and> normalizeToolNames (def_AllowedTools d) = def_AllowedTools d
     \<and> def_CapabilityMode d \<noteq> CapabilityModeUnset
     \<and> NormalizeIsolationMode (def_IsolationMode d) = def_IsolationMode d
     \<and> def_MaxTurns d \<noteq> 0 \<and> def_TimeoutSeconds d \<noteq> 0 \<and> 1 \<le> def_Version d
     \<and> def_Source d \<noteq> DefinitionSourceUnset"
  by (cases d)
    (auto simp: Definition_Normalized_def DefaultMaxTurns_def DefaultTimeoutSeconds_def not_less
      split: CapabilityMode.splits DefinitionSource.splits if_splits)

lemma normal_Normalized [simp]: "normal (Definition_Normalized d)"
  by simp

section \<open>The catalog\<close>

definition builtin :: "string \<Rightarrow> Definition option" where
  "builtin k = find (\<lambda>d. def_ID d = k) (map Definition_Normalized BuiltinDefinitions)"

definition startable :: "Definition \<Rightarrow> bool" where
  "startable d \<longleftrightarrow> def_Enabled d \<and> \<not> def_Deleted d"

definition catalog :: "Repository \<Rightarrow> string \<Rightarrow> Definition option" where
  "catalog r k =
     (case builtin k of Some d \<Rightarrow> Some d
      | None \<Rightarrow> (case repo_definitions r k of Some d \<Rightarrow> (if startable d then Some d else None) | None \<Rightarrow> None))"

text \<open>What the service stores: valid definitions of the user, under their own identifiers.\<close>

definition stored_ok :: "Repository \<Rightarrow> bool" where
  "stored_ok r \<longleftrightarrow> (\<forall>k d. repo_definitions r k = Some d \<longrightarrow>
     def_ID d = k \<and> normal d \<and> Definition_Validate d = None
     \<and> def_Source d \<noteq> DefinitionSourceBuiltin \<and> builtin k = None)"

definition catalog_ok :: "Service \<Rightarrow> bool" where
  "catalog_ok s \<longleftrightarrow> stored_ok (svc_repo s) \<and> svc_registry s = catalog (svc_repo s)"

lemma catalog_ok_register:
  assumes ok: "stored_ok r" and d: "normal d" "Definition_Validate d = None"
      "def_Source d \<noteq> DefinitionSourceBuiltin" "builtin (def_ID d) = None"
  shows "stored_ok (SaveDefinition d r)"
    and "startable d \<Longrightarrow> catalog (SaveDefinition d r) = (catalog r)(def_ID d \<mapsto> d)"
    and "\<not> startable d \<Longrightarrow> catalog (SaveDefinition d r) = (catalog r)(def_ID d := None)"
  using assms by (auto simp: stored_ok_def SaveDefinition_def catalog_def fun_eq_iff split: option.split)

lemma Register_normal:
  "normal d \<Longrightarrow> Definition_Validate d = None \<Longrightarrow> Registry_Register d items = Inr (items(def_ID d \<mapsto> d))"
  by (simp add: Registry_Register_def)

lemma builtin_definitions:
  "\<forall>d \<in> set BuiltinDefinitions. def_Source d = DefinitionSourceBuiltin \<and> \<not> def_Deleted d"
  by (simp add: BuiltinDefinitions_def researcher_def code_reviewer_def implementer_def)

lemma builtin_Some: "builtin k = Some d \<Longrightarrow> def_ID d = k \<and> def_Source d = DefinitionSourceBuiltin \<and> \<not> def_Deleted d"
  using builtin_definitions by (auto simp: builtin_def find_Some_iff Definition_Normalized_def)

lemma catalog_SomeD:
  "stored_ok r \<Longrightarrow> catalog r k = Some d \<Longrightarrow> \<not> def_Deleted d
     \<and> (def_Source d = DefinitionSourceBuiltin \<longleftrightarrow> builtin k = Some d)"
  by (auto simp: catalog_def stored_ok_def startable_def dest: builtin_Some split: option.splits if_splits)

lemma catalog_NoneD: "catalog r k = None \<Longrightarrow> builtin k = None"
  by (auto simp: catalog_def split: option.splits)

lemma normal_created:
  "normal d \<Longrightarrow> normal (d\<lparr>def_Source := DefinitionSourceUser, def_Version := 1, def_CreatedAt := a, def_UpdatedAt := b\<rparr>)"
  by (simp add: normal_iff)

lemma normal_updated:
  "normal d \<Longrightarrow> normal e \<Longrightarrow> normal (d\<lparr>def_Source := def_Source e, def_CreatedAt := def_CreatedAt e,
     def_UpdatedAt := now, def_Version := def_Version e + 1, def_Deleted := False, def_DeletedAt := None\<rparr>)"
  by (simp add: normal_iff)

lemma create_keeps_catalog:
  assumes ok: "catalog_ok s" and c: "\<not> def_Deleted c"
    and ids: "\<And>n. TrimSpace (cfg_NewID cfg n) = cfg_NewID cfg n"
  shows "catalog_ok (snd (CreateDefinition cfg c now s))"
proof -
  let ?d = "Definition_Normalized c"
  define d1 where "d1 = (if def_ID ?d = [] then ?d\<lparr>def_ID := cfg_NewID cfg (svc_ids s)\<rparr> else ?d)"
  define s1 where "s1 = (if def_ID ?d = [] then s\<lparr>svc_ids := Suc (svc_ids s)\<rparr> else s)"
  define d where "d = d1\<lparr>def_Source := DefinitionSourceUser, def_Version := 1, def_CreatedAt := now, def_UpdatedAt := now\<rparr>"
  have live: "\<not> def_Deleted d" using c by (simp add: d_def d1_def)
  have n1: "normal d1"
    using normal_Normalized [of c, unfolded normal_iff] ids by (auto simp: d1_def normal_iff simp del: Normalized_ID)
  then have n: "normal d" unfolding d_def by (rule normal_created)
  have ok1: "catalog_ok s1" using ok by (simp add: s1_def catalog_ok_def)
  have split: "(if def_ID ?d = [] then (case NewID cfg s of (i, s') \<Rightarrow> (?d\<lparr>def_ID := i\<rparr>, s')) else (?d, s)) = (d1, s1)"
    by (simp add: d1_def s1_def NewID_def)
  show ?thesis
  proof (cases "catalog (svc_repo s1) (def_ID d)")
    case (Some e)
    then have "Registry_Get (def_ID d1) (svc_registry s1) = Some e" "\<not> def_Deleted e"
      using ok1 n n1 catalog_SomeD by (auto simp: catalog_ok_def Registry_Get_def normal_ID d_def)
    then show ?thesis using ok1 by (simp only: CreateDefinition_def Let_def split) simp
  next
    case None
    then have get: "Registry_Get (def_ID d1) (svc_registry s1) = None" and b: "builtin (def_ID d) = None"
      using ok1 n1 by (auto simp: catalog_ok_def Registry_Get_def normal_ID d_def dest: catalog_NoneD)
    show ?thesis
    proof (cases "Definition_Validate d")
      case (Some e)
      then show ?thesis using ok1 get
        by (simp only: CreateDefinition_def Let_def split prod.case d_def [symmetric]) simp
    next
      case valid: None
      have src: "def_Source d \<noteq> DefinitionSourceBuiltin" by (simp add: d_def)
      note reg = catalog_ok_register [OF _ n valid src b, of "svc_repo s1"]
      have same: "(catalog (svc_repo s1))(def_ID d := None) = catalog (svc_repo s1)"
        using None by (simp add: fun_upd_idem)
      show ?thesis
        using ok1 get valid reg same n live
        by (simp only: CreateDefinition_def Let_def split prod.case d_def [symmetric])
          (auto simp: catalog_ok_def Register_normal startable_def set_repo_def)
    qed
  qed
qed

lemma update_keeps_catalog:
  assumes ok: "catalog_ok s"
  shows "catalog_ok (snd (UpdateDefinition c now s))"
proof (cases "GetDefinition (def_ID (Definition_Normalized c)) (svc_repo s)")
  case (Inl e)
  then show ?thesis using ok by (simp add: UpdateDefinition_def Let_def)
next
  case (Inr e)
  define d where "d = (Definition_Normalized c)\<lparr>def_Source := def_Source e, def_CreatedAt := def_CreatedAt e,
     def_UpdatedAt := now, def_Version := def_Version e + 1, def_Deleted := False, def_DeletedAt := None\<rparr>"
  have e: "repo_definitions (svc_repo s) (def_ID d) = Some e"
    using Inr by (simp add: GetDefinition_def d_def split: option.splits)
  with ok have ne: "normal e" and src: "def_Source d \<noteq> DefinitionSourceBuiltin" and b: "builtin (def_ID d) = None"
    by (auto simp: catalog_ok_def stored_ok_def d_def)
  have n: "normal d" unfolding d_def using ne by (intro normal_updated) simp_all
  have src': "def_Source e \<noteq> DefinitionSourceBuiltin" using src by (simp add: d_def)
  show ?thesis
  proof (cases "Definition_Validate d")
    case (Some x)
    then show ?thesis using ok src' Inr
      by (simp only: UpdateDefinition_def Let_def Inr sum.case d_def [symmetric]) simp
  next
    case valid: None
    have live: "startable d \<longleftrightarrow> def_Enabled d" by (simp add: startable_def d_def)
    note reg = catalog_ok_register [OF _ n valid src b, of "svc_repo s"]
    show ?thesis
      using ok valid reg n src' live
      by (simp only: UpdateDefinition_def Let_def Inr sum.case d_def [symmetric])
        (auto simp: catalog_ok_def Register_normal set_repo_def Registry_Remove_def normal_ID)
  qed
qed

lemma deleted_valid:
  "Definition_Validate (d\<lparr>def_Deleted := True, def_DeletedAt := a, def_UpdatedAt := b\<rparr>) = Definition_Validate d"
  by (simp add: Definition_Validate_def Let_def cong: option.case_cong)

lemma delete_keeps_catalog:
  assumes ok: "catalog_ok s"
  shows "catalog_ok (snd (Service_DeleteDefinition i now s))"
proof -
  let ?i = "TrimSpace i"
  show ?thesis
  proof (cases "repo_definitions (svc_repo s) ?i")
    case None
    then show ?thesis using ok by (simp add: Service_DeleteDefinition_def DeleteDefinition_def Let_def)
  next
    case (Some e)
    define d where "d = e\<lparr>def_Deleted := True, def_DeletedAt := Some now, def_UpdatedAt := now\<rparr>"
    have e: "def_ID d = ?i" "normal e" "Definition_Validate e = None" "builtin ?i = None"
      "def_Source d \<noteq> DefinitionSourceBuiltin"
      using ok Some by (auto simp: catalog_ok_def stored_ok_def d_def)
    have n: "normal d" using e(2) by (simp add: d_def normal_iff)
    have v: "Definition_Validate d = None" using e(3) by (simp add: d_def deleted_valid)
    note reg = catalog_ok_register [OF _ n v e(5), unfolded e(1), OF _ e(4), of "svc_repo s"]
    show ?thesis
      using ok reg Some
      by (auto simp: Service_DeleteDefinition_def DeleteDefinition_def Let_def catalog_ok_def startable_def
          set_repo_def Registry_Remove_def d_def)
  qed
qed

datatype catalog_op =
    CatCreate SubagentDefinitionPayload gotime
  | CatUpdate SubagentDefinitionPayload gotime
  | CatDelete string gotime

fun catalog_step :: "ServiceConfig \<Rightarrow> Service \<Rightarrow> catalog_op \<Rightarrow> Service" where
  "catalog_step cfg s (CatCreate p now) =
     snd (CreateDefinition cfg (subagentDefinitionFromPayload p True) now s)"
| "catalog_step cfg s (CatUpdate p now) =
     snd (UpdateDefinition (subagentDefinitionFromPayload p False) now s)"
| "catalog_step cfg s (CatDelete i now) = snd (Service_DeleteDefinition i now s)"

lemma catalog_step_ok:
  assumes "catalog_ok s" "\<And>n. TrimSpace (cfg_NewID cfg n) = cfg_NewID cfg n"
  shows "catalog_ok (catalog_step cfg s op)"
  using assms
  by (cases op) (auto intro: create_keeps_catalog update_keeps_catalog delete_keeps_catalog
      simp: subagentDefinitionFromPayload_def)

interpretation definition_catalog: op_machine "catalog_step cfg"
  "\<lambda>s. catalog_ok s \<and> (\<forall>n. TrimSpace (cfg_NewID cfg n) = cfg_NewID cfg n)"
  by unfold_locales (simp add: catalog_step_ok)

section \<open>Start-up\<close>

lemma register_each_ok:
  "register_each ds items = (None, items') \<Longrightarrow>
     items' = fold (\<lambda>d m. m(def_ID d \<mapsto> d)) (map Definition_Normalized ds) items"
  by (induction ds items rule: register_each.induct)
    (auto simp: Let_def Registry_Register_def split: option.splits)

lemma fold_register:
  assumes "distinct (map def_ID ds)"
  shows "fold (\<lambda>d m. m(def_ID d \<mapsto> d)) ds m k
    = (case find (\<lambda>d. def_ID d = k) ds of Some d \<Rightarrow> Some d | None \<Rightarrow> m k)"
  using assms
proof (induction ds arbitrary: m)
  case (Cons a ds)
  have "find (\<lambda>d. def_ID d = def_ID a) ds = None"
    using Cons.prems by (auto simp: find_None_iff image_iff)
  with Cons show ?case by (cases "def_ID a = k") (auto split: option.split)
qed simp

lemma builtin_IDs:
  "map def_ID (map Definition_Normalized BuiltinDefinitions) = [''researcher'', ''code-reviewer'', ''implementer'']"
  by (simp add: BuiltinDefinitions_def researcher_def code_reviewer_def implementer_def visible_eval)

lemma builtins_registered:
  assumes "register_each BuiltinDefinitions Map.empty = (None, items)"
  shows "items = builtin"
proof -
  have "distinct (map def_ID (map Definition_Normalized BuiltinDefinitions))"
    unfolding builtin_IDs by simp
  note fold_register [OF this, of Map.empty]
  then show ?thesis
    using register_each_ok [OF assms] by (auto simp: builtin_def fun_eq_iff split: option.split)
qed

lemma map_items_keys:
  "(\<And>k d. m k = Some d \<Longrightarrow> def_ID d = k) \<Longrightarrow> map def_ID (map_items m ks) = filter (\<lambda>k. m k \<noteq> None) ks"
  by (induction ks) (auto split: option.split)

lemma users_registered:
  assumes store: "stored_ok r" and order: "map_order (repo_definitions r) ks"
    and reg: "register_each (filter (\<lambda>d. \<not> def_Deleted d \<and> def_Enabled d) (ListDefinitions False ks r)) builtin
      = (None, items)"
  shows "items = catalog r"
proof -
  let ?ds = "filter (\<lambda>d. \<not> def_Deleted d \<and> def_Enabled d) (ListDefinitions False ks r)"
  have mem: "d \<in> set ?ds \<longleftrightarrow> repo_definitions r (def_ID d) = Some d \<and> startable d" for d
    using store order
    by (auto simp: ListDefinitions_def set_map_items map_order_def stored_ok_def startable_def)
  have "map def_ID (map_items (repo_definitions r) ks) = filter (\<lambda>k. repo_definitions r k \<noteq> None) ks"
    using store by (intro map_items_keys) (simp add: stored_ok_def)
  then have "distinct (map def_ID (map_items (repo_definitions r) ks))"
    using order by (simp add: map_order_def)
  then have dist: "distinct (map def_ID ?ds)"
    by (simp add: ListDefinitions_def distinct_map_filter)
  have same: "map Definition_Normalized ?ds = ?ds"
    using mem store by (intro map_idI) (auto simp: stored_ok_def)
  have "items k = catalog r k" for k
  proof (cases "find (\<lambda>d. def_ID d = k) ?ds")
    case None
    then have no: "\<not> (repo_definitions r k = Some d \<and> startable d)" for d
      using mem [of d] store by (auto simp: find_None_iff stored_ok_def simp del: set_filter)
    have "items k = builtin k"
      using register_each_ok [OF reg] fold_register [OF dist, of builtin k] None same by simp
    with no show ?thesis by (auto simp: catalog_def split: option.split)
  next
    case (Some d)
    then have d: "def_ID d = k" "d \<in> set ?ds" by (auto simp: find_Some_iff simp del: set_filter)
    have "items k = Some d"
      using register_each_ok [OF reg] fold_register [OF dist, of builtin k] Some same by simp
    with d mem [of d] store show ?thesis
      by (auto simp: catalog_def stored_ok_def split: option.split simp del: set_filter)
  qed
  then show ?thesis by blast
qed

lemma index_tasks_catalog:
  "index_tasks cfg ts s = (e, s') \<Longrightarrow> svc_repo s' = svc_repo s \<and> svc_registry s' = svc_registry s"
proof (induction ts arbitrary: s)
  case (Cons t ts)
  have "svc_repo s1 = svc_repo s \<and> svc_registry s1 = svc_registry s" if "runtime_register cfg t s = Inr s1" for s1
    using that by (cases "Manager_Register t (svc_runtime s)") (auto simp: runtime_register_def split: if_splits)
  with Cons show ?case
    by (fastforce split: sum.splits if_splits prod.splits option.splits)
qed simp

lemma bootstrap_catalog:
  assumes store: "stored_ok (svc_repo s)" and order: "map_order (repo_definitions (svc_repo s)) ks"
    and fresh: "svc_registry s = Map.empty" and boot: "Bootstrap cfg ks kt s = (None, s')"
  shows "catalog_ok s'"
proof -
  from boot fresh obtain items items' where
    items: "register_each BuiltinDefinitions Map.empty = (None, items)"
    and users: "register_each (filter (\<lambda>d. \<not> def_Deleted d \<and> def_Enabled d)
        (ListDefinitions False ks (svc_repo s))) items = (None, items')"
    and rest: "svc_repo s' = svc_repo s" "svc_registry s' = items'"
    unfolding Bootstrap_def
    by (auto split: prod.splits option.splits if_splits dest!: index_tasks_catalog)
  from builtins_registered [OF items] users_registered [OF store order] users rest store
  show ?thesis by (simp add: catalog_ok_def)
qed

lemma builtins_valid: "\<forall>d \<in> set BuiltinDefinitions. Definition_Validate d = None"
  by (simp add: BuiltinDefinitions_def)
    (simp add: researcher_def code_reviewer_def implementer_def Definition_Validate_def Let_def
      not_blank_Cons RuneCount_short visible_def byte_in_def byte_def definition_limits
      validateCapabilityMode_def ValidateIsolationMode_def validateToolNames_def visible_eval)

lemma register_each_valid:
  "\<forall>d \<in> set ds. Definition_Validate d = None \<Longrightarrow> \<exists>items'. register_each ds items = (None, items')"
  by (induction ds arbitrary: items) (simp_all add: Let_def Validate_NormalizedI Register_normal)

text \<open>
  C22: the catalog follows the store. After a successful start-up, and after every sequence of creations,
  updates and deletions that clients send, what can be looked up by its identifier is the built-in
  definition of that identifier, or else the enabled and undeleted definition that is stored under it.
\<close>

theorem catalog_follows_store:
  assumes "stored_ok (svc_repo s)" "map_order (repo_definitions (svc_repo s)) ks"
    and "svc_registry s = Map.empty" "Bootstrap cfg ks kt s = (None, s0)"
    and "\<forall>n. TrimSpace (cfg_NewID cfg n) = cfg_NewID cfg n"
  shows "Registry_Get k (svc_registry (run_ops (catalog_step cfg) s0 ops))
    = catalog (svc_repo (run_ops (catalog_step cfg) s0 ops)) (TrimSpace k)"
  using definition_catalog.run_inv [of s0 cfg ops] bootstrap_catalog [OF assms(1-4)] assms(5)
  by (simp add: catalog_ok_def Registry_Get_def)

definition sample_catalog_service :: Service where
  "sample_catalog_service = sample_failed_service\<lparr>svc_repo := NewRepository\<rparr>"

lemma sample_bootstrap: "\<exists>s0. Bootstrap sample_service_config [] [] sample_catalog_service = (None, s0)"
proof -
  obtain items where "register_each BuiltinDefinitions Map.empty = (None, items)"
    using register_each_valid [OF builtins_valid] by blast
  then show ?thesis
    by (simp add: Bootstrap_def sample_catalog_service_def sample_failed_service_def ListDefinitions_def
        ListTasks_def limit_list_def)
qed

theorem catalog_follows_store_witness:
  "\<exists>s0. Bootstrap sample_service_config [] [] sample_catalog_service = (None, s0)
     \<and> Registry_Get ''researcher'' (svc_registry (run_ops (catalog_step sample_service_config) s0
          [CatDelete ''researcher'' 1]))
       = catalog (svc_repo (run_ops (catalog_step sample_service_config) s0 [CatDelete ''researcher'' 1]))
          (TrimSpace ''researcher'')"
proof -
  obtain s0 where boot: "Bootstrap sample_service_config [] [] sample_catalog_service = (None, s0)"
    using sample_bootstrap by blast
  have "stored_ok (svc_repo sample_catalog_service)"
    and "map_order (repo_definitions (svc_repo sample_catalog_service)) []"
    and "svc_registry sample_catalog_service = Map.empty"
    and "\<forall>n. TrimSpace (cfg_NewID sample_service_config n) = cfg_NewID sample_service_config n"
    by (simp_all add: sample_catalog_service_def sample_failed_service_def NewRepository_def stored_ok_def
        map_order_def sample_service_config_def visible_eval list_all_iff)
  from catalog_follows_store [OF this(1-3) boot this(4)] boot show ?thesis by blast
qed

end
