(* ===== verification/SubagentInspection.thy ===== *)
theory SubagentInspection
  imports TaskEventLog SessionPersistence
begin

text \<open>
  What a client reads of a subagent task: \<open>core/application/subagent/service/inspection_service.go\<close> over
  the event log of the repository (\<open>core/adapter/subagent/memory/inspection.go\<close>). The reader of session
  records is a parameter: \<open>None\<close> is its \<open>ErrNotFound\<close>, \<open>Inl\<close> any other error. The page size is a
  machine integer of the client, an \<^typ>\<open>int\<close> here; sequences are 64-bit words.
\<close>

section \<open>The log\<close>

record TaskEventFilter =
  tef_ParentSessionID :: string
  tef_TaskID :: string
  tef_RunID :: string
  tef_AfterSequence :: "64 word"
  tef_ThroughSequence :: "64 word"
  tef_Limit :: int

definition wanted :: "TaskEventFilter \<Rightarrow> TaskEvent \<Rightarrow> bool" where
  "wanted f event \<longleftrightarrow>
     task_ParentSessionID (ev_Task event) = tef_ParentSessionID f
     \<and> (tef_TaskID f = [] \<or> task_ID (ev_Task event) = tef_TaskID f)
     \<and> (tef_RunID f = [] \<or> ev_RunID event = tef_RunID f)"

definition QueryTaskEvents :: "TaskEventFilter \<Rightarrow> Repository \<Rightarrow> TaskEvent list" where
  "QueryTaskEvents f r =
     (let limit = (if tef_Limit f \<le> 0 \<or> tef_Limit f > 201 then 201 else tef_Limit f)
      in take (nat limit)
           (filter (\<lambda>e. tef_AfterSequence f < ev_Sequence e \<and> ev_Sequence e \<le> tef_ThroughSequence f
              \<and> wanted f e) (repo_events r)))"

section \<open>The service\<close>

datatype inspection_error =
    InsIDsRequired
  | InsRepo repo_error
  | InsSession string
  | InsParentRequired
  | InsTaskRequired
  | InsCursorAhead

definition inspectionTask :: "string \<Rightarrow> string \<Rightarrow> Repository \<Rightarrow> inspection_error + Task" where
  "inspectionTask parentID taskID r =
     (let parentID = TrimSpace parentID; taskID = TrimSpace taskID
      in if parentID = [] \<or> taskID = [] then Inl InsIDsRequired
         else case GetTask taskID r of
           Inl e \<Rightarrow> Inl (InsRepo e)
         | Inr task \<Rightarrow>
             (if task_ParentSessionID task \<noteq> parentID then Inl (InsRepo ErrNotFound) else Inr task))"

record Inspection =
  ins_Task :: Task
  ins_Runs :: "Run list"
  ins_SessionReady :: bool
  ins_EventSequence :: "64 word"

definition InspectTask ::
  "(string \<Rightarrow> (string + 'g SessionRecord) option) \<Rightarrow> string \<Rightarrow> string \<Rightarrow> Repository
     \<Rightarrow> inspection_error + Inspection" where
  "InspectTask sessions ParentSessionID TaskID r =
     (case inspectionTask ParentSessionID TaskID r of
        Inl e \<Rightarrow> Inl e
      | Inr task \<Rightarrow>
     (let result = \<lparr>ins_Task = task, ins_Runs = ListRuns (task_ID task) r, ins_SessionReady = False,
                    ins_EventSequence = LatestTaskEventSequence r\<rparr>
      in if blank (task_ChildSessionID task) then Inr result
         else case sessions (task_ChildSessionID task) of
           None \<Rightarrow> Inr result
         | Some (Inl e) \<Rightarrow> Inl (InsSession e)
         | Some (Inr rec) \<Rightarrow>
             (if sr_ID rec \<noteq> task_ChildSessionID task \<or> sr_Kind rec \<noteq> KindSubagent
                 \<or> sr_ParentSessionID rec \<noteq> task_ParentSessionID task
                 \<or> sr_ParentTaskID rec \<noteq> task_ID task
              then Inl (InsRepo ErrNotFound) else Inr (result\<lparr>ins_SessionReady := True\<rparr>))))"

record EventPage =
  page_Events :: "TaskEvent list"
  page_NextSequence :: "64 word"
  page_ThroughSequence :: "64 word"
  page_HasMore :: bool

text \<open>The bound of the replay, and the page up to it; one event more tells whether there is another page.\<close>

definition replay_bound :: "TaskEventFilter \<Rightarrow> Repository \<Rightarrow> 64 word" where
  "replay_bound query r =
     (let latest = LatestTaskEventSequence r
      in if tef_ThroughSequence query \<noteq> 0 \<and> tef_ThroughSequence query < latest
         then tef_ThroughSequence query else latest)"

definition page_limit :: "TaskEventFilter \<Rightarrow> int" where
  "page_limit query =
     (if tef_Limit query \<le> 0 then 100 else if tef_Limit query > 200 then 200 else tef_Limit query)"

definition event_page :: "TaskEventFilter \<Rightarrow> int \<Rightarrow> 64 word \<Rightarrow> Repository \<Rightarrow> EventPage" where
  "event_page query limit through r =
     (let page = \<lparr>page_Events = [], page_NextSequence = through, page_ThroughSequence = through,
                  page_HasMore = False\<rparr>
      in if through = 0 \<or> tef_AfterSequence query = through then page
         else (let events = QueryTaskEvents
                     (query\<lparr>tef_ThroughSequence := through, tef_Limit := limit + 1\<rparr>) r
           in if limit < int (length events)
              then (let shown = take (nat limit) events
                in page\<lparr>page_Events := shown, page_HasMore := True,
                        page_NextSequence := ev_Sequence (last shown)\<rparr>)
              else page\<lparr>page_Events := events\<rparr>))"

definition trimmed :: "TaskEventFilter \<Rightarrow> TaskEventFilter" where
  "trimmed q = q\<lparr>tef_ParentSessionID := TrimSpace (tef_ParentSessionID q),
     tef_TaskID := TrimSpace (tef_TaskID q), tef_RunID := TrimSpace (tef_RunID q)\<rparr>"

definition Service_ListTaskEvents :: "TaskEventFilter \<Rightarrow> Repository \<Rightarrow> inspection_error + EventPage" where
  "Service_ListTaskEvents query0 r =
     (let query = trimmed query0
      in if tef_ParentSessionID query = [] then Inl InsParentRequired
         else if tef_RunID query \<noteq> [] \<and> tef_TaskID query = [] then Inl InsTaskRequired
         else case (if tef_TaskID query \<noteq> []
                    then (case inspectionTask (tef_ParentSessionID query) (tef_TaskID query) r of
                            Inl e \<Rightarrow> Some e | Inr _ \<Rightarrow> None)
                    else None) of
           Some e \<Rightarrow> Inl e
         | None \<Rightarrow>
             (let through = replay_bound query r
              in if through < tef_AfterSequence query then Inl InsCursorAhead
                 else Inr (event_page query (page_limit query) through r)))"

section \<open>A replay\<close>

text \<open>
  A client that pages through the log: it sends the cursor and the bound of the last page with its
  next query. The log may grow between two pages: \<open>rs\<close> is the repository at each of them.
\<close>

fun replay :: "(nat \<Rightarrow> Repository) \<Rightarrow> nat \<Rightarrow> nat \<Rightarrow> TaskEventFilter \<Rightarrow> TaskEvent list" where
  "replay rs i 0 q = []"
| "replay rs i (Suc pages) q =
     (case Service_ListTaskEvents q (rs i) of
        Inl _ \<Rightarrow> []
      | Inr page \<Rightarrow>
          page_Events page
            @ (if page_HasMore page
               then replay rs (Suc i) pages (q\<lparr>tef_AfterSequence := page_NextSequence page,
                      tef_ThroughSequence := page_ThroughSequence page\<rparr>)
               else []))"

text \<open>The log grows at its end, and a task that was found is found again.\<close>

definition grows :: "(nat \<Rightarrow> Repository) \<Rightarrow> bool" where
  "grows rs \<longleftrightarrow> (\<forall>i. log_ok (rs i)
     \<and> (\<exists>more. repo_events (rs (Suc i)) = repo_events (rs i) @ more))"

definition readable :: "TaskEventFilter \<Rightarrow> Repository \<Rightarrow> bool" where
  "readable q r \<longleftrightarrow> \<not> blank (tef_ParentSessionID q)
     \<and> (blank (tef_TaskID q) \<longrightarrow> blank (tef_RunID q))
     \<and> (\<not> blank (tef_TaskID q) \<longrightarrow> (\<exists>t. repo_tasks r (TrimSpace (tef_TaskID q)) = Some t
           \<and> task_ParentSessionID t = TrimSpace (tef_ParentSessionID q)))"

text \<open>The events of a query between two sequence numbers.\<close>

definition span :: "TaskEventFilter \<Rightarrow> 64 word \<Rightarrow> 64 word \<Rightarrow> Repository \<Rightarrow> TaskEvent list" where
  "span q a t r = filter (\<lambda>e. a < ev_Sequence e \<and> ev_Sequence e \<le> t \<and> wanted (trimmed q) e) (repo_events r)"

lemma log_ok_sorted: "log_ok r \<Longrightarrow> sorted_wrt (\<lambda>a b. ev_Sequence a < ev_Sequence b) (repo_events r)"
  by (simp add: log_ok_def sequences_def sorted_wrt_map)

lemma log_ok_latest: "log_ok r \<Longrightarrow> e \<in> set (repo_events r) \<Longrightarrow> ev_Sequence e \<le> LatestTaskEventSequence r"
proof -
  assume ok: "log_ok r" and e: "e \<in> set (repo_events r)"
  then obtain xs l where l: "repo_events r = xs @ [l]" by (metis append_butlast_last_id length_pos_if_in_set length_0_conv less_irrefl)
  with log_ok_sorted [OF ok] e show ?thesis
    by (auto simp: LatestTaskEventSequence_def sorted_wrt_append)
qed

text \<open>One page, in terms of \<open>span\<close>.\<close>

lemma page_limit_bounds: "0 < page_limit q" "page_limit q \<le> 200"
  by (auto simp: page_limit_def)

lemma trimmed_sel [simp]:
  "tef_AfterSequence (trimmed q) = tef_AfterSequence q" "tef_ThroughSequence (trimmed q) = tef_ThroughSequence q"
  "tef_Limit (trimmed q) = tef_Limit q" "replay_bound (trimmed q) r = replay_bound q r"
  "page_limit (trimmed q) = page_limit q"
  "tef_ParentSessionID (trimmed q) = TrimSpace (tef_ParentSessionID q)"
  "tef_TaskID (trimmed q) = TrimSpace (tef_TaskID q)" "tef_RunID (trimmed q) = TrimSpace (tef_RunID q)"
  by (simp_all add: trimmed_def replay_bound_def page_limit_def Let_def)

lemma span_empty: "t = 0 \<or> a = t \<Longrightarrow> span q a t r = []"
  by (auto simp: span_def filter_empty_conv not_less)

lemma query_span:
  assumes "0 < l" "l \<le> 200"
  shows "QueryTaskEvents ((trimmed q)\<lparr>tef_ThroughSequence := t, tef_Limit := l + 1\<rparr>) r
    = take (Suc (nat l)) (span q (tef_AfterSequence q) t r)"
proof -
  have "nat (l + 1) = Suc (nat l)" using assms by simp
  moreover have "wanted ((trimmed q)\<lparr>tef_ThroughSequence := x, tef_Limit := y\<rparr>) = wanted (trimmed q)" for x y
    by (simp add: fun_eq_iff wanted_def)
  ultimately show ?thesis using assms
    by (simp add: QueryTaskEvents_def span_def Let_def)
qed

lemma event_page_span:
  fixes q r t
  defines "n \<equiv> nat (page_limit q)" and "xs \<equiv> span q (tef_AfterSequence q) t r"
  shows "event_page (trimmed q) (page_limit q) t r =
    (if n < length xs
     then \<lparr>page_Events = take n xs, page_NextSequence = ev_Sequence (last (take n xs)),
           page_ThroughSequence = t, page_HasMore = True\<rparr>
     else \<lparr>page_Events = xs, page_NextSequence = t, page_ThroughSequence = t, page_HasMore = False\<rparr>)"
proof (cases "t = 0 \<or> tef_AfterSequence q = t")
  case True
  then show ?thesis by (auto simp: event_page_def Let_def xs_def span_empty)
next
  case False
  have "page_limit q < int (length (take (Suc n) xs)) \<longleftrightarrow> n < length xs"
    using page_limit_bounds [of q] by (auto simp: n_def)
  then show ?thesis
    using False query_span [OF page_limit_bounds [of q], where q = q and t = t and r = r]
    by (simp add: event_page_def Let_def n_def [symmetric] xs_def [symmetric] min_def)
qed

lemma readable_page:
  assumes "readable q r" "tef_AfterSequence q \<le> replay_bound q r"
  shows "Service_ListTaskEvents q r = Inr (event_page (trimmed q) (page_limit q) (replay_bound q r) r)"
proof -
  have "\<not> blank (tef_TaskID q) \<Longrightarrow>
      \<exists>task. inspectionTask (TrimSpace (tef_ParentSessionID q)) (TrimSpace (tef_TaskID q)) r = Inr task"
    using assms by (auto simp: readable_def inspectionTask_def Let_def GetTask_def)
  then show ?thesis
    using assms by (auto simp: Service_ListTaskEvents_def Let_def readable_def)
qed

lemma filter_after_prefix:
  fixes f :: "'a \<Rightarrow> 'b::linorder"
  assumes sorted: "sorted_wrt (\<lambda>a b. f a < f b) xs" and n: "0 < n" "n \<le> length xs"
  shows "filter (\<lambda>e. f (last (take n xs)) < f e) xs = drop n xs"
proof -
  let ?ys = "take n xs"
  have ne: "?ys \<noteq> []" using n by auto
  have s: "sorted_wrt (\<lambda>a b. f a < f b) (?ys @ drop n xs)" using sorted by simp
  then have s1: "sorted_wrt (\<lambda>a b. f a < f b) (butlast ?ys @ [last ?ys])"
    using ne by (simp add: sorted_wrt_append)
  then have "\<forall>e \<in> set (butlast ?ys @ [last ?ys]). f e \<le> f (last ?ys)"
    by (auto simp: sorted_wrt_append)
  then have "\<forall>e \<in> set ?ys. f e \<le> f (last ?ys)"
    by (simp only: append_butlast_last_id [OF ne])
  then have before: "filter (\<lambda>e. f (last ?ys) < f e) ?ys = []"
    by (simp add: filter_empty_conv not_less)
  have after: "filter (\<lambda>e. f (last ?ys) < f e) (drop n xs) = drop n xs"
    using s [unfolded sorted_wrt_append] last_in_set [OF ne] by (simp add: filter_id_conv)
  have "filter (\<lambda>e. f (last ?ys) < f e) (?ys @ drop n xs) = drop n xs"
    by (simp only: filter_append before after) simp
  then show ?thesis by simp
qed

lemma latest_grows:
  assumes "log_ok r'" "repo_events r' = repo_events r @ later"
  shows "LatestTaskEventSequence r \<le> LatestTaskEventSequence r'"
  using assms log_ok_latest [OF assms(1), of "last (repo_events r)"]
  by (auto simp: LatestTaskEventSequence_def)

lemma span_stable:
  assumes ok: "log_ok r'" and grown: "repo_events r' = repo_events r @ later"
    and t: "t \<le> LatestTaskEventSequence r" "t \<noteq> 0"
  shows "span q a t r' = span q a t r"
proof -
  have ne: "repo_events r \<noteq> []" using t by (auto simp: LatestTaskEventSequence_def)
  have "\<forall>e \<in> set later. ev_Sequence (last (repo_events r)) < ev_Sequence e"
    using log_ok_sorted [OF ok] last_in_set [OF ne] by (auto simp: grown sorted_wrt_append)
  then have "\<forall>e \<in> set later. t < ev_Sequence e"
    using t(1) ne by (auto simp: LatestTaskEventSequence_def)
  then show ?thesis by (auto simp: span_def grown filter_empty_conv not_le)
qed

lemma span_rest:
  assumes ok: "log_ok r" and n: "0 < n" "n < length (span q a t r)"
  shows "span q (ev_Sequence (last (take n (span q a t r)))) t r = drop n (span q a t r)"
proof -
  let ?b = "ev_Sequence (last (take n (span q a t r)))"
  have "last (take n (span q a t r)) \<in> set (span q a t r)"
    using n by (metis in_set_takeD last_in_set length_greater_0_conv length_take min_less_iff_conj order_less_trans)
  then have "a < ?b" by (auto simp: span_def)
  then have "span q ?b t r = filter (\<lambda>e. ?b < ev_Sequence e) (span q a t r)"
    by (auto simp: span_def intro!: filter_cong)
  also have "\<dots> = drop n (span q a t r)"
    using n log_ok_sorted [OF ok] by (intro filter_after_prefix) (auto simp: span_def sorted_wrt_filter)
  finally show ?thesis .
qed

lemma cursor_update [simp]:
  "readable (q\<lparr>tef_AfterSequence := a, tef_ThroughSequence := t\<rparr>) r = readable q r"
  "span (q\<lparr>tef_AfterSequence := a, tef_ThroughSequence := t\<rparr>) = span q"
  by (simp_all add: readable_def span_def trimmed_def wanted_def fun_eq_iff)

lemma replay_span:
  assumes "grows rs" "\<forall>i. readable q (rs i)"
    and "tef_AfterSequence q \<le> t" "t = replay_bound q (rs i)"
    and "length (span q (tef_AfterSequence q) t (rs i)) < pages"
  shows "replay rs i pages q = span q (tef_AfterSequence q) t (rs i)"
  using assms
proof (induction pages arbitrary: i q)
  case (Suc pages)
  let ?n = "nat (page_limit q)" and ?xs = "span q (tef_AfterSequence q) t (rs i)"
  have page: "Service_ListTaskEvents q (rs i) = Inr (event_page (trimmed q) (page_limit q) t (rs i))"
    using readable_page [of q "rs i"] Suc.prems by auto
  show ?case
  proof (cases "?n < length ?xs")
    case False
    then show ?thesis by (simp add: page event_page_span)
  next
    case True
    let ?b = "ev_Sequence (last (take ?n ?xs))"
    let ?q = "q\<lparr>tef_AfterSequence := ?b, tef_ThroughSequence := t\<rparr>"
    have n: "0 < ?n" using page_limit_bounds [of q] by simp
    obtain later where ok: "log_ok (rs i)" "log_ok (rs (Suc i))"
        and grown: "repo_events (rs (Suc i)) = repo_events (rs i) @ later"
      using Suc.prems(1) by (auto simp: grows_def)
    have "last (take ?n ?xs) \<in> set ?xs"
      using True n by (metis in_set_takeD last_in_set length_greater_0_conv length_take min_less_iff_conj order_less_trans)
    then have b: "tef_AfterSequence q < ?b" "?b \<le> t" by (auto simp: span_def)
    then have t0: "t \<noteq> 0" by (metis order_less_le_trans word_not_simps(1) word_zero_le)
    have t: "t \<le> LatestTaskEventSequence (rs i)"
      using Suc.prems(4) by (auto simp: replay_bound_def Let_def not_less)
    then have bound: "replay_bound ?q (rs (Suc i)) = t"
      using t0 latest_grows [OF ok(2) grown] by (auto simp: replay_bound_def Let_def)
    have rest: "span q ?b t (rs (Suc i)) = drop ?n ?xs"
      using span_stable [OF ok(2) grown t t0] span_rest [OF ok(1) n True] by simp
    have "replay rs (Suc i) pages ?q = span q ?b t (rs (Suc i))"
      using Suc.IH [of ?q "Suc i"] Suc.prems bound b rest True n by simp
    then show ?thesis using True by (simp add: page event_page_span rest)
  qed
qed simp

text \<open>
  C21: a replay of the event log is complete and ends. A client that pages through the events of a session, a
  task or a run, with any page size, gets every event after its cursor up to the bound that the first
  page has fixed, each once and in order, although the log grows while it reads.
\<close>

theorem replay_complete:
  assumes "grows rs" "\<forall>i. readable q (rs i)" "tef_AfterSequence q \<le> replay_bound q (rs 0)"
    and "length (repo_events (rs 0)) < pages"
  shows "replay rs 0 pages q = filter (\<lambda>e. tef_AfterSequence q < ev_Sequence e
      \<and> ev_Sequence e \<le> replay_bound q (rs 0) \<and> wanted (trimmed q) e) (repo_events (rs 0))"
proof -
  have "length (span q (tef_AfterSequence q) (replay_bound q (rs 0)) (rs 0)) \<le> length (repo_events (rs 0))"
    by (simp add: span_def)
  also note assms(4)
  finally show ?thesis
    using replay_span [OF assms(1-3) refl, of pages] by (simp add: span_def)
qed

text \<open>Two events of a session, read one at a time.\<close>

definition sample_log :: Repository where
  "sample_log = SaveTaskEvent (sample_event 7) (SaveTaskEvent (sample_event 3) NewRepository)"

definition sample_replay_query :: TaskEventFilter where
  "sample_replay_query =
     \<lparr>tef_ParentSessionID = task_ParentSessionID (ev_Task (sample_event 3)), tef_TaskID = [], tef_RunID = [],
      tef_AfterSequence = 0, tef_ThroughSequence = 0, tef_Limit = 1\<rparr>"

theorem replay_complete_witness:
  "map ev_Sequence (replay (\<lambda>_. sample_log) 0 3 sample_replay_query) = [3, 7]"
proof -
  have events: "repo_events sample_log = [sample_event 3, sample_event 7]"
    by (simp add: sample_log_def SaveTaskEvent_def NewRepository_def sample_event_def Let_def)
  have parent: "TrimSpace (task_ParentSessionID sample_task) = task_ParentSessionID sample_task"
      "task_ParentSessionID sample_task \<noteq> []"
    by (simp_all add: sample_task_def visible_eval)
  have "grows (\<lambda>_. sample_log)"
    using log_ok_save log_ok_New by (simp add: grows_def sample_log_def)
  moreover have "\<forall>i. readable sample_replay_query sample_log"
    using parent by (simp add: readable_def sample_replay_query_def sample_event_def)
  moreover have bound: "replay_bound sample_replay_query sample_log = 7"
    by (simp add: replay_bound_def LatestTaskEventSequence_def events sample_event_def sample_replay_query_def)
  ultimately have "replay (\<lambda>_. sample_log) 0 3 sample_replay_query =
      filter (\<lambda>e. tef_AfterSequence sample_replay_query < ev_Sequence e
        \<and> ev_Sequence e \<le> 7 \<and> wanted (trimmed sample_replay_query) e) (repo_events sample_log)"
    using replay_complete [of "\<lambda>_. sample_log" sample_replay_query 3]
    by (simp add: events bound) (simp add: sample_replay_query_def)
  then show ?thesis
    using parent
    by (simp add: events wanted_def sample_replay_query_def sample_event_def trimmed_def)
qed

end
