(* ===== verification/ServiceGuarantees.thy ===== *)
theory ServiceGuarantees
  imports ServiceRuns SubagentMailbox
begin

text \<open>
  What the subagent task service guarantees at its edges: a start that fails leaves nothing behind; a
  workspace operation that loses a race keeps its lease; a run whose task still has a message in
  delivery does not end by itself.
\<close>

section \<open>A start that fails\<close>

text \<open>No lease is added: every lease is the one it was, or gone.\<close>

definition no_new_leases :: "Repository \<Rightarrow> Repository \<Rightarrow> bool" where
  "no_new_leases r r' \<longleftrightarrow> (\<forall>k. repo_leases r' k = repo_leases r k \<or> repo_leases r' k = None)"

text \<open>
  Tasks, runs, agent paths and active executions are the same, and there is no new lease.
\<close>

definition untouched :: "Service \<Rightarrow> Service \<Rightarrow> bool" where
  "untouched s s' \<longleftrightarrow> repo_tasks (svc_repo s') = repo_tasks (svc_repo s)
     \<and> repo_runs (svc_repo s') = repo_runs (svc_repo s) \<and> svc_paths s' = svc_paths s
     \<and> svc_activeRuns s' = svc_activeRuns s \<and> svc_scheduler s' = svc_scheduler s
     \<and> svc_notified s' = svc_notified s \<and> no_new_leases (svc_repo s) (svc_repo s')"

lemma no_new_leases_refl [simp]: "no_new_leases r r"
  by (simp add: no_new_leases_def)

lemma untouched_refl [simp]: "untouched s s"
  by (simp add: untouched_def)

lemma reserve_then_release:
  "reserve_path cfg path s = Some s' \<Longrightarrow>
     svc_paths (path_release cfg path s') = svc_paths s
     \<and> svc_repo s' = svc_repo s \<and> svc_activeRuns s' = svc_activeRuns s
     \<and> svc_scheduler s' = svc_scheduler s \<and> svc_notified s' = svc_notified s \<and> svc_ids s' = svc_ids s"
  by (auto simp: reserve_path_def path_release_def Reserve_def ReleasePath_def Let_def split: if_splits)

lemma release_path_only [simp]:
  "svc_repo (path_release cfg path s) = svc_repo s"
  "svc_activeRuns (path_release cfg path s) = svc_activeRuns s"
  "svc_scheduler (path_release cfg path s) = svc_scheduler s"
  "svc_notified (path_release cfg path s) = svc_notified s"
  by (simp_all add: path_release_def)

lemma release_path_cong:
  "svc_paths s = svc_paths s' \<Longrightarrow> svc_paths (path_release cfg path s) = svc_paths (path_release cfg path s')"
  by (simp add: path_release_def)

text \<open>The helpers that undo a start change only what they name.\<close>

lemma undo_parts [simp]:
  "svc_activeRuns (runtime_try cfg f s) = svc_activeRuns s"
  "svc_scheduler (runtime_try cfg f s) = svc_scheduler s"
  "svc_notified (runtime_try cfg f s) = svc_notified s" "svc_paths (runtime_try cfg f s) = svc_paths s"
  by (simp_all add: runtime_try_def split: sum.split)

lemma register_runtime_only:
  "runtime_register cfg t s = Inr s' \<Longrightarrow> svc_paths s' = svc_paths s \<and> svc_repo s' = svc_repo s
     \<and> svc_activeRuns s' = svc_activeRuns s \<and> svc_scheduler s' = svc_scheduler s
     \<and> svc_notified s' = svc_notified s"
  by (auto simp: runtime_register_def split: if_splits)

lemma set_repo_notified [simp]: "svc_notified (set_repo s r) = svc_notified s"
  by (simp add: set_repo_def)

lemma releaseExecution_service [simp]:
  "svc_paths (releaseExecutionLease cfg k i s) = svc_paths s"
  "svc_activeRuns (releaseExecutionLease cfg k i s) = svc_activeRuns s"
  "svc_scheduler (releaseExecutionLease cfg k i s) = svc_scheduler s"
  "svc_notified (releaseExecutionLease cfg k i s) = svc_notified s"
  by (simp_all add: releaseExecutionLease_def split: sum.split)

lemma acquire_then_release:
  assumes "acquireExecutionLease cfg k i now s = Inr s'"
  shows "svc_paths s' = svc_paths s \<and> svc_activeRuns s' = svc_activeRuns s
    \<and> svc_scheduler s' = svc_scheduler s \<and> svc_notified s' = svc_notified s
    \<and> repo_tasks (svc_repo (releaseExecutionLease cfg k i s')) = repo_tasks (svc_repo s)
    \<and> repo_runs (svc_repo (releaseExecutionLease cfg k i s')) = repo_runs (svc_repo s)
    \<and> no_new_leases (svc_repo s) (svc_repo (releaseExecutionLease cfg k i s'))"
  using assms
  by (auto simp: acquireExecutionLease_def releaseExecutionLease_def Acquire_def Release_def Let_def
      with_lease_def no_new_leases_def split: if_splits option.splits)

lemma undo_start_untouched:
  assumes r: "reserve_path cfg p s = Some s1" and t: "runtime_register cfg t s1 = Inr s2"
    and p: "task_AgentPath t = p" "task_AgentPath t' = p"
  shows "untouched s (start_undo cfg t' (s2\<lparr>svc_ids := n\<rparr>))"
    and "acquireExecutionLease cfg k i now (s2\<lparr>svc_ids := n\<rparr>) = Inr s3
      \<Longrightarrow> untouched s (start_undo cfg t' (releaseExecutionLease cfg k i s3))"
proof -
  note a = reserve_then_release [OF r] and b = register_runtime_only [OF t]
  have c: "svc_paths (path_release cfg p x) = svc_paths s" if "svc_paths x = svc_paths s1" for x
    using that a release_path_cong by metis
  show "untouched s (start_undo cfg t' (s2\<lparr>svc_ids := n\<rparr>))"
    using a b p by (simp add: untouched_def start_undo_def c)
  assume "acquireExecutionLease cfg k i now (s2\<lparr>svc_ids := n\<rparr>) = Inr s3"
  from acquire_then_release [OF this] show "untouched s (start_undo cfg t' (releaseExecutionLease cfg k i s3))"
    using a b p by (simp add: untouched_def start_undo_def c)
qed

lemma untouched_ids [simp]: "untouched (s\<lparr>svc_ids := n\<rparr>) s' = untouched s s'"
  "untouched s (s'\<lparr>svc_ids := n\<rparr>) = untouched s s'"
  by (simp_all add: untouched_def)

lemma refused_registration:
  assumes r: "reserve_path cfg p s = Some s1"
  shows "untouched s (path_release cfg p s1)"
  using reserve_then_release [OF r] by (simp add: untouched_def)


definition sample_open_service :: Service where
  "sample_open_service =
     sample_failed_service\<lparr>svc_registry := [''d'' \<mapsto> sample_service_definition], svc_repo := NewRepository\<rparr>"

lemma sample_start_refused:
  "fst (admitStart (sample_service_config\<lparr>cfg_ExecutionOwnerID := []\<rparr>) sample_command [] 1
     sample_open_service) = Inl SvcOwnerMissing"
  by (simp add: admitStart_def start_definition_def Registry_Get_def sample_failed_service_def
      sample_service_config_def sample_command_def sample_service_definition_def visible_eval Let_def
      validateTaskParent_def sample_open_service_def,
    simp add: start_task_def Let_def start_path_def Task_ValidateNew_def visible_eval
      MaxInstructionRunes_def NewID_def eval_nat_numeral reserve_path_def Reserve_def normalizePath_def
      runtime_register_def Manager_Register_def NewManager_def acquireExecutionLease_def)


section \<open>A run with a message in delivery\<close>

text \<open>
  C18: a run whose task has only messages in delivery never finishes by itself. Nothing can be
  claimed, so the follow-ups end without an error; the success is refused because the mailbox is not
  empty; and the loop tries again at once, without looking at the deadline of the run. A process that
  dies after a run has failed and before its claimed messages are released leaves such a task: the
  recovery looks at unfinished tasks only, and a follow-up keeps the mailbox.
\<close>

theorem stranded_delivery_never_settles:
  assumes t: "repo_tasks (svc_repo s) (TrimSpace (task_ID task)) = Some current"
    and run: "task_CurrentRunID current = run_ID run" "\<not> Terminal current"
    and stranded: "task_Mailbox current \<noteq> []"
      "\<forall>m \<in> set (task_Mailbox current). msg_Status m = MessageStatusDelivering"
    and direct: "ref_Mode (task_Workspace task) = IsolationModeDirect"
    and answered: "\<not> blank (ar_Content response)" and lease: "\<not> out_leaseLost out s"
  shows "settle_run cfg out fuel task run response s = None"
proof (induction fuel)
  case (Suc fuel)
  have "ClaimMailboxMessage now current = (None, current)" for now
    using stranded by (simp add: ClaimMailboxMessage_def iffD2 [OF update_first_None] claimable_def)
  then have claim: "Service_claim cfg (task_ID task) now s = Inr (None, s)" for now
    using t by (simp add: Service_claim_def ClaimChildMailboxMessage_def GetTask_def set_repo_def)
  have follow: "runMailboxFollowUps cfg out task response s = ((None, response), s)"
    by (simp add: runMailboxFollowUps_def maxMailboxFollowUps_def MaxMailboxMessages_def claim eval_nat_numeral)
  have "GetTask (task_ID task) (svc_repo s) = Inr current"
    using t by simp
  then have "finishSuccess cfg task run response changes now s = (Some (SvcRepo ErrPendingMailbox), s)" for changes now
    using run stranded by (simp add: finishSuccess_def HasMailboxMessages_def del: GetTask_iff)
  with Suc answered lease direct show ?case
    by (simp add: follow collectWorkspaceChanges_def)
qed simp

text \<open>A task that runs, with one message that a canceled run had claimed.\<close>

definition sample_stranded_message :: Message where
  "sample_stranded_message =
     \<lparr>msg_ID = ''m'', msg_Content = ''x'', msg_Trigger = AgentMessageTriggerTurn,
      msg_Status = MessageStatusDelivering, msg_DeliveryAttempts = 1, msg_LastError = [],
      msg_CreatedAt = 1, msg_ClaimedAt = Some 1\<rparr>"

definition sample_stranded_task :: Task where
  "sample_stranded_task =
     sample_failed_task\<lparr>task_Status := TaskStatusRunning, task_Mailbox := [sample_stranded_message]\<rparr>"

definition sample_stranded_service :: Service where
  "sample_stranded_service =
     sample_failed_service\<lparr>svc_repo := NewRepository\<lparr>repo_tasks := [''t'' \<mapsto> sample_stranded_task]\<rparr>\<rparr>"

definition sample_outside :: "unit Outside" where
  "sample_outside =
     \<lparr>out_clock = (\<lambda>_. 2), out_text = (\<lambda>_. []), out_collect = (\<lambda>_. Inl []), out_prepare = (\<lambda>_ _. Inl []),
      out_create = (\<lambda>_ _. None), out_unload = (\<lambda>_. True), out_rounds = (\<lambda>_ _. []),
      out_first = (\<lambda>_ _ s. ((None, no_result), s)), out_run = (\<lambda>_ _ s. (Inl [], s)),
      out_context = (\<lambda>_. Some ContextDeadline), out_leaseLost = (\<lambda>_. False)\<rparr>"

theorem stranded_delivery_never_settles_witness:
  "settle_run sample_service_config sample_outside 1000 sample_stranded_task
     (new_run (cfg_NewID sample_service_config 3) ''t'' 1 ''do'' 1) (no_result\<lparr>ar_Content := ''done''\<rparr>)
     sample_stranded_service = None"
proof (rule stranded_delivery_never_settles [where current = sample_stranded_task])
  show "repo_tasks (svc_repo sample_stranded_service) (TrimSpace (task_ID sample_stranded_task))
      = Some sample_stranded_task"
    by (simp add: sample_stranded_service_def sample_stranded_task_def sample_failed_task_def
        sample_service_config_def visible_eval)
qed (simp_all add: sample_stranded_task_def sample_failed_task_def Terminal_def sample_stranded_message_def
    sample_outside_def start_task_def isolatedWorkspaceReference_def sample_service_definition_def visible_eval
    no_result_def Let_def)

section \<open>A workspace operation that loses a race\<close>

lemma apply_operation:
  "taskOperationID cfg ''apply'' s = (''apply:'' @ cfg_NewID cfg (svc_ids s), s\<lparr>svc_ids := Suc (svc_ids s)\<rparr>)"
  by (simp add: taskOperationID_def NewID_def visible_eval)

text \<open>
  C19: applying a task's changes keeps the lease it took when it loses a race. If another instance
  changes the task between the first read and the lease, the operation fails with a conflict before it
  has arranged for the lease to be released; until the lease expires, a retry is refused because the
  task is held - by the operation that has failed.
\<close>

theorem apply_conflict_keeps_lease:
  assumes cfg: "cfg_Workspaces cfg" "cfg_ExecutionLease cfg" "\<not> blank (cfg_ExecutionOwnerID cfg)"
      "inj (cfg_NewID cfg)"
    and t: "repo_tasks (svc_repo s) (TrimSpace k) = Some task" "task_ID task = TrimSpace k" "\<not> blank k"
      "\<not> foreign p task" "task_Status task = TaskStatusSucceeded"
      "ref_Mode (task_Workspace task) \<noteq> IsolationModeDirect"
    and raced: "repo_tasks (others (svc_repo s)) (TrimSpace k) = Some current"
      "task_UpdatedAt current \<noteq> task_UpdatedAt task" "repo_leases (others (svc_repo s)) (TrimSpace k) = None"
    and retry: "task_ID current = TrimSpace k" "\<not> foreign p current"
      "task_Status current = TaskStatusSucceeded" "ref_Mode (task_Workspace current) \<noteq> IsolationModeDirect"
      "later < now + leaseTTL cfg"
  shows "\<exists>s'. ApplyChanges cfg others manager k p now now' s
        = (task_failed (SvcRepo ErrTaskStateConflict), s')
      \<and> fst (ApplyChanges cfg (\<lambda>r. r) manager k p later now' s')
        = task_failed (SvcRepo ErrExecutionLeaseNotAcquired)"
proof -
  define r where "r = others (svc_repo s)"
  define i where "i = ''apply:'' @ cfg_NewID cfg (svc_ids s)"
  define j where "j = ''apply:'' @ cfg_NewID cfg (Suc (svc_ids s))"
  define r' where "r' = with_lease (TrimSpace k)
    \<lparr>lease_runID = i, lease_ownerID = cfg_ExecutionOwnerID cfg, lease_expiresAt = now + leaseTTL cfg\<rparr> r"
  define s' where "s' = set_repo (s\<lparr>svc_ids := Suc (svc_ids s)\<rparr>) r'"
  note raced = raced [folded r_def]
  have visible: "\<not> blank (''apply:'' @ x)" for x
    by (simp add: not_blank_Cons visible_def byte_in_def byte_def)
  have get: "GetTask k (svc_repo s) = Inr task" "GetTask (TrimSpace k) (svc_repo s) = Inr task"
    "GetTask (TrimSpace k) r' = Inr current"
    using t raced by (simp_all add: r'_def)
  have op: "taskOperationID cfg ''apply'' s = (i, s\<lparr>svc_ids := Suc (svc_ids s)\<rparr>)"
    "taskOperationID cfg ''apply'' s' =
       (j, s'\<lparr>svc_ids := Suc (Suc (svc_ids s))\<rparr>)"
    by (simp_all add: apply_operation i_def j_def s'_def)
  have lease: "taskMutationLease cfg (TrimSpace k) i now (set_repo (s\<lparr>svc_ids := Suc (svc_ids s)\<rparr>) r) = Inr s'"
    using cfg t raced visible
    by (simp add: taskMutationLease_def Acquire_def Let_def lease_args_ok_def i_def r'_def s'_def set_repo_def
        del: append_Cons append_Nil)
  have held: "taskMutationLease cfg (TrimSpace k) j later
      (set_repo (s'\<lparr>svc_ids := n\<rparr>) r') = Inl (SvcRepo ErrExecutionLeaseNotAcquired)" for n
    using cfg retry visible
    by (auto simp: taskMutationLease_def Acquire_def Let_def with_lease_def inj_eq i_def j_def r'_def
        simp del: append_Cons append_Nil)
  have repo: "svc_repo s' = r'" by (simp add: s'_def)
  have "ApplyChanges cfg others manager k p now now' s = (task_failed (SvcRepo ErrTaskStateConflict), s')"
    using cfg t raced
    by (simp add: ApplyChanges_def get op lease repo unchanged_since_def flip: r_def del: GetTask_iff)
  moreover have "fst (ApplyChanges cfg (\<lambda>r. r) manager k p later now' s')
      = task_failed (SvcRepo ErrExecutionLeaseNotAcquired)"
    using cfg retry by (simp add: ApplyChanges_def get op held repo del: GetTask_iff)
  ultimately show ?thesis by blast
qed

definition sample_done_task :: Task where
  "sample_done_task =
     sample_failed_task\<lparr>task_Status := TaskStatusSucceeded,
       task_Workspace := isolatedWorkspaceReference ''t'' IsolationModeOpenSandbox ''w''\<rparr>"

definition sample_done_service :: Service where
  "sample_done_service =
     sample_failed_service\<lparr>svc_repo := NewRepository\<lparr>repo_tasks := [''t'' \<mapsto> sample_done_task]\<rparr>\<rparr>"

theorem apply_conflict_keeps_lease_witness:
  "\<exists>s'. ApplyChanges (sample_service_config\<lparr>cfg_Workspaces := True\<rparr>)
        (with_task (sample_done_task\<lparr>task_UpdatedAt := 5\<rparr>)) (\<lambda>_. (None, no_changes)) ''t'' [] 7 8
        sample_done_service = (task_failed (SvcRepo ErrTaskStateConflict), s')
      \<and> fst (ApplyChanges (sample_service_config\<lparr>cfg_Workspaces := True\<rparr>) (\<lambda>r. r)
        (\<lambda>_. (None, no_changes)) ''t'' [] 9 8 s') = task_failed (SvcRepo ErrExecutionLeaseNotAcquired)"
proof (rule apply_conflict_keeps_lease [where task = sample_done_task
    and current = "sample_done_task\<lparr>task_UpdatedAt := 5\<rparr>"])
  have i: "task_ID sample_done_task = ''t''"
    by (simp add: sample_done_task_def sample_failed_task_def sample_service_config_def)
  show "task_ID sample_done_task = TrimSpace ''t''"
    "task_ID (sample_done_task\<lparr>task_UpdatedAt := 5\<rparr>) = TrimSpace ''t''"
    "repo_tasks (with_task (sample_done_task\<lparr>task_UpdatedAt := 5\<rparr>) (svc_repo sample_done_service)) (TrimSpace ''t'')
      = Some (sample_done_task\<lparr>task_UpdatedAt := 5\<rparr>)"
    "repo_tasks (svc_repo sample_done_service) (TrimSpace ''t'') = Some sample_done_task"
    "repo_leases (with_task (sample_done_task\<lparr>task_UpdatedAt := 5\<rparr>) (svc_repo sample_done_service)) (TrimSpace ''t'')
      = None"
    by (simp_all add: visible_eval with_task_def i sample_done_service_def NewRepository_def)
  show "inj (cfg_NewID (sample_service_config\<lparr>cfg_Workspaces := True\<rparr>))"
    using sample_config_inj by simp
  show "9 < 7 + leaseTTL (sample_service_config\<lparr>cfg_Workspaces := True\<rparr>)"
    by (simp add: leaseTTL_def sample_service_config_def defaultExecutionLeaseTTL_def)
qed (simp_all add: sample_service_config_def visible_eval foreign_def sample_done_task_def
    isolatedWorkspaceReference_def sample_failed_task_def start_task_def Let_def)

end
