(* ===== verification/SubagentWait.thy ===== *)
theory SubagentWait
  imports ServiceGuarantees
begin

text \<open>
  \<open>Wait\<close> of \<open>core/application/subagent/service/task_wait.go\<close>: a parent waits until one of its children is
  over, a message wakes it, or its time is up. The \<open>select\<close> is a sequence of signals, each with what
  the rest of the application does to the service before it; a sequence that ends leaves the call
  blocked. The publisher of events is the event bus, which is an event source. The clock reads the
  time of a state.
\<close>

record WaitTask =
  wc_TaskID :: string
  wc_Targets :: "string list"
  wc_ParentSessionID :: string
  wc_ParentTaskID :: string

record Wait =
  wt_Task :: "Task option"
  wt_Tasks :: "Task list"
  wt_TimedOut :: bool
  wt_WokenByMailbox :: bool
  wt_ResultsInMailbox :: bool
  wt_Sequence :: "64 word"

text \<open>The single task is the first one with an identifier; before there is one, the last one replaces it.\<close>

definition wait_task :: "Task list \<Rightarrow> Task option" where
  "wait_task tasks =
     (case find (\<lambda>t. task_ID t \<noteq> []) tasks of
        Some t \<Rightarrow> Some t
      | None \<Rightarrow> (if tasks = [] then None else Some (last tasks)))"

definition newWaitResult :: "Task list \<Rightarrow> bool \<Rightarrow> bool \<Rightarrow> 64 word \<Rightarrow> Wait" where
  "newWaitResult tasks timedOut wokenByMailbox seqno =
     \<lparr>wt_Task = wait_task tasks, wt_Tasks = tasks, wt_TimedOut = timedOut,
      wt_WokenByMailbox = wokenByMailbox, wt_ResultsInMailbox = False, wt_Sequence = seqno\<rparr>"

fun queue_completions :: "ServiceConfig \<Rightarrow> gotime \<Rightarrow> Task list \<Rightarrow> Service \<Rightarrow> service_error option \<times> Service" where
  "queue_completions cfg now [] s = (None, s)"
| "queue_completions cfg now (task # tasks) s =
     (if task_Status task = TaskStatusSucceeded \<or> task_Status task = TaskStatusFailed
      then (case ensureParentCompletionQueued cfg task now s of
              (Some e, s') \<Rightarrow> (Some e, s')
            | (None, s') \<Rightarrow> queue_completions cfg now tasks s')
      else queue_completions cfg now tasks s)"

definition completedWaitResult ::
  "ServiceConfig \<Rightarrow> gotime \<Rightarrow> Task list \<Rightarrow> 64 word \<Rightarrow> Service \<Rightarrow> (service_error + Wait) \<times> Service" where
  "completedWaitResult cfg now tasks seqno s =
     (case queue_completions cfg now tasks s of
        (Some e, s') \<Rightarrow> (Inl e, s')
      | (None, s') \<Rightarrow>
          (Inr ((newWaitResult tasks False False seqno)\<lparr>wt_ResultsInMailbox := cfg_ParentNotifier cfg \<noteq> None\<rparr>),
           s'))"

definition containsWaitTarget :: "string list \<Rightarrow> string \<Rightarrow> bool" where
  "containsWaitTarget targetIDs taskID \<longleftrightarrow> list_ex (\<lambda>i. i = taskID) targetIDs"

datatype wait_signal = ContextDone | TimerFired | WokenUp | Published TaskEvent | StreamClosed

fun wait_loop ::
  "ServiceConfig \<Rightarrow> (Service \<Rightarrow> gotime) \<Rightarrow> string list \<Rightarrow> string \<Rightarrow> (wait_signal \<times> (Service \<Rightarrow> Service)) list
     \<Rightarrow> Service \<Rightarrow> (service_error + Wait) option \<times> Service" where
  "wait_loop cfg clock targetIDs parentID [] s = (None, s)"
| "wait_loop cfg clock targetIDs parentID ((signal, others) # signals) s0 =
     (let s = others s0; loaded = loadWaitTasks parentID (svc_repo s) targetIDs
      in case signal of
           ContextDone \<Rightarrow> (Some (Inl SvcCanceledContext), s)
         | StreamClosed \<Rightarrow> (Some (Inl SvcEventStream), s)
         | WokenUp \<Rightarrow> (Some (map_sum (\<lambda>e. e) (\<lambda>current. newWaitResult current False True 0) loaded), s)
         | TimerFired \<Rightarrow>
             (case loaded of
                Inl e \<Rightarrow> (Some (Inl e), s)
              | Inr current \<Rightarrow>
                  (if terminalWaitTasks current \<noteq> []
                   then (case completedWaitResult cfg (clock s) (terminalWaitTasks current) 0 s of
                           (r, s') \<Rightarrow> (Some r, s'))
                   else (Some (Inr (newWaitResult current True False 0)), s)))
         | Published event \<Rightarrow>
             (if \<not> containsWaitTarget targetIDs (task_ID (ev_Task event))
              then wait_loop cfg clock targetIDs parentID signals s
              else case loaded of
                Inl e \<Rightarrow> (Some (Inl e), s)
              | Inr current \<Rightarrow>
                  (if terminalWaitTasks current \<noteq> []
                   then (case completedWaitResult cfg (clock s) (terminalWaitTasks current)
                                (ev_Sequence event) s of
                           (r, s') \<Rightarrow> (Some r, s'))
                   else wait_loop cfg clock targetIDs parentID signals s)))"

definition parkScheduler :: "string \<Rightarrow> Service \<Rightarrow> bool \<times> Service" where
  "parkScheduler runID s =
     (if blank runID then (False, s)
      else case Park runID (svc_scheduler s) of
        Inl _ \<Rightarrow> (False, s)
      | Inr sch \<Rightarrow> (True, s\<lparr>svc_scheduler := sch\<rparr>))"

definition unparkScheduler :: "string \<Rightarrow> Service \<Rightarrow> Service" where
  "unparkScheduler runID s =
     (if blank runID then s else s\<lparr>svc_scheduler := Unpark runID (svc_scheduler s)\<rparr>)"

text \<open>The run that a waiter belongs to, and the deferred calls of a registered waiter, the last one first.\<close>

definition waiter_run :: "string \<Rightarrow> Service \<Rightarrow> string" where
  "waiter_run parentTaskID s =
     (case GetTask (TrimSpace parentTaskID) (svc_repo s) of Inl _ \<Rightarrow> [] | Inr parent \<Rightarrow> task_CurrentRunID parent)"

definition leave_wait ::
  "ServiceConfig \<Rightarrow> (Service \<Rightarrow> gotime) \<Rightarrow> string \<Rightarrow> nat \<Rightarrow> string \<Rightarrow> bool \<Rightarrow> Service \<Rightarrow> Service" where
  "leave_wait cfg clock parentTaskID w runID parked s =
     (let s1 = (if parked then unparkScheduler runID s else s)
      in restoreRunningAfterChildren cfg parentTaskID w (clock s1) s1)"

definition Service_Wait ::
  "ServiceConfig \<Rightarrow> (Service \<Rightarrow> gotime) \<Rightarrow> WaitTask \<Rightarrow> (wait_signal \<times> (Service \<Rightarrow> Service)) list
     \<Rightarrow> Service \<Rightarrow> (service_error + Wait) option \<times> Service" where
  "Service_Wait cfg clock command signals s =
     (case waitTargetIDs (wc_Targets command) (wc_TaskID command) of
        Inl e \<Rightarrow> (Some (Inl e), s)
      | Inr targetIDs \<Rightarrow>
     (let parentID = TrimSpace (wc_ParentSessionID command)
      in case loadWaitTasks parentID (svc_repo s) targetIDs of
        Inl e \<Rightarrow> (Some (Inl e), s)
      | Inr tasks \<Rightarrow>
     (if terminalWaitTasks tasks \<noteq> []
      then (case completedWaitResult cfg (clock s) (terminalWaitTasks tasks) 0 s of
              (r, s') \<Rightarrow> (Some r, s'))
      else case markWaitingForChildren cfg (wc_ParentTaskID command) (wc_ParentSessionID command)
                  (clock s) s of
        Inl e \<Rightarrow> (Some (Inl e), s)
      | Inr (None, s1) \<Rightarrow> wait_loop cfg clock targetIDs parentID signals s1
      | Inr (Some w, s1) \<Rightarrow>
     (let runID = waiter_run (wc_ParentTaskID command) s1
      in case parkScheduler runID s1 of (parked, s2) \<Rightarrow>
        (case wait_loop cfg clock targetIDs parentID signals s2 of
           (None, s3) \<Rightarrow> (None, s3)
         | (Some r, s3) \<Rightarrow>
             (Some r, leave_wait cfg clock (wc_ParentTaskID command) w runID parked s3))))))"

section \<open>What a wait promises\<close>

definition completion_ID :: "Task \<Rightarrow> string" where
  "completion_ID task = AgentResultMessageID (task_ID task) (task_CurrentRunID task)"

definition told :: "ServiceConfig \<Rightarrow> Task \<Rightarrow> Service \<Rightarrow> bool" where
  "told cfg task s \<longleftrightarrow> cfg_ParentNotifier cfg = None \<or> blank (task_ParentSessionID task)
     \<or> task_Status task = TaskStatusCanceled \<or> completion_ID task \<in> svc_parentNotified s"

lemma prepare_notified:
  "prepareParentCompletionMessageLocked cfg task now s = Inr (m, s') \<Longrightarrow>
     svc_parentNotified s' = svc_parentNotified s"
  by (auto simp: prepareParentCompletionMessageLocked_def Let_def set_repo_def
      split: if_splits sum.splits option.splits)

lemma notify_call_notified: "notify_call notifier m s = (r, s') \<Longrightarrow> svc_parentNotified s' = svc_parentNotified s"
  by (auto simp: notify_call_def Let_def split: option.splits)

lemma queued_notified:
  assumes "ensureParentCompletionQueued cfg task now s = (r, s')"
  shows "svc_parentNotified s \<subseteq> svc_parentNotified s'"
    and "r = None \<Longrightarrow> cfg_ParentNotifier cfg = None \<or> blank (task_ParentSessionID task)
      \<or> completion_ID task \<in> svc_parentNotified s'"
proof -
  note def = assms [unfolded ensureParentCompletionQueued_def completion_ID_def [symmetric] Let_def]
  show "svc_parentNotified s \<subseteq> svc_parentNotified s'"
    using def by (fastforce dest: prepare_notified notify_call_notified
        split: option.splits if_splits sum.splits prod.splits)
  show "r = None \<Longrightarrow> cfg_ParentNotifier cfg = None \<or> blank (task_ParentSessionID task)
      \<or> completion_ID task \<in> svc_parentNotified s'"
    using def by (fastforce split: option.splits if_splits sum.splits prod.splits)
qed

lemma queue_completions_told:
  "queue_completions cfg now tasks s = (None, s') \<Longrightarrow>
     svc_parentNotified s \<subseteq> svc_parentNotified s'
     \<and> (\<forall>t \<in> set tasks. Terminal t \<longrightarrow> told cfg t s')"
proof (induction tasks arbitrary: s)
  case (Cons t tasks)
  show ?case
  proof (cases "task_Status t = TaskStatusSucceeded \<or> task_Status t = TaskStatusFailed")
    case True
    with Cons.prems obtain s1 where q: "ensureParentCompletionQueued cfg t now s = (None, s1)"
        and rest: "queue_completions cfg now tasks s1 = (None, s')"
      by (auto split: prod.splits option.splits)
    from queued_notified [OF q] Cons.IH [OF rest] show ?thesis by (auto simp: told_def)
  next
    case False
    with Cons.prems have "queue_completions cfg now tasks s = (None, s')" by simp
    from Cons.IH [OF this] False show ?thesis by (auto simp: told_def Terminal_def split: TaskStatus.splits)
  qed
qed simp

definition finished_report :: "ServiceConfig \<Rightarrow> Wait \<Rightarrow> Service \<Rightarrow> bool" where
  "finished_report cfg w s \<longleftrightarrow> wt_Tasks w \<noteq> []
     \<and> (\<forall>t \<in> set (wt_Tasks w). Terminal t \<and> told cfg t s)"

lemma completed_report:
  assumes "completedWaitResult cfg now (terminalWaitTasks ts) n s = (Inr w, s')" "terminalWaitTasks ts \<noteq> []"
  shows "finished_report cfg w s'"
  using assms queue_completions_told
  by (auto simp: completedWaitResult_def newWaitResult_def finished_report_def terminalWaitTasks_def
      split: prod.splits option.splits)

lemma wait_loop_report:
  "wait_loop cfg clock targetIDs parentID signals s = (Some (Inr w), s') \<Longrightarrow>
     \<not> wt_TimedOut w \<Longrightarrow> \<not> wt_WokenByMailbox w \<Longrightarrow> finished_report cfg w s'"
  by (induction cfg clock targetIDs parentID signals s rule: wait_loop.induct)
    (auto simp: Let_def newWaitResult_def dest: completed_report
      split: wait_signal.splits sum.splits if_splits prod.splits)

lemma told_same: "svc_parentNotified s' = svc_parentNotified s \<Longrightarrow> told cfg t s' = told cfg t s"
  by (simp add: told_def)

lemma during_run_notified:
  "saveTaskMutationDuringRun cfg t r u now s = Inr s' \<Longrightarrow> svc_parentNotified s' = svc_parentNotified s"
  by (auto simp: saveTaskMutationDuringRun_def set_repo_def)

lemma publish_notified [simp]:
  "svc_parentNotified (publish_task t s) = svc_parentNotified s"
  "svc_parentNotified (runtime_try cfg f s) = svc_parentNotified s"
  by (simp_all add: publish_task_def runtime_try_def split: sum.split)

lemma restore_notified [simp]:
  "svc_parentNotified (restoreRunningAfterChildren cfg k w now s) = svc_parentNotified s"
  unfolding restoreRunningAfterChildren_def Let_def
  by (simp split: option.split sum.split) (auto dest: during_run_notified)

lemma leave_wait_notified [simp]:
  "svc_parentNotified (leave_wait cfg clock k w r p s) = svc_parentNotified s"
  by (simp add: leave_wait_def unparkScheduler_def Let_def)


text \<open>A wait for a task that runs, until an event tells that it has failed.\<close>

definition sample_wait :: WaitTask where
  "sample_wait =
     \<lparr>wc_TaskID = ''t'', wc_Targets = [], wc_ParentSessionID = ''p'', wc_ParentTaskID = []\<rparr>"

definition sample_finished :: "(wait_signal \<times> (Service \<Rightarrow> Service)) list" where
  "sample_finished = [(Published (bare_event ''task.updated'' sample_failed_task), \<lambda>_. sample_failed_service)]"

lemma sample_failed_fields:
  "task_ID sample_failed_task = ''t''" "task_ParentSessionID sample_failed_task = ''p''"
  "task_Status sample_failed_task = TaskStatusFailed"
  "repo_tasks (svc_repo sample_failed_service) ''t'' = Some sample_failed_task"
  by (simp_all add: sample_failed_task_def start_task_def Let_def sample_service_config_def
      sample_command_def visible_eval sample_failed_service_def)

lemma sample_wait_ends:
  "Service_Wait sample_service_config (\<lambda>_. 2) sample_wait sample_finished sample_stranded_service
   = (Some (Inr (newWaitResult [sample_failed_task] False False (ev_Sequence (bare_event ''task.updated'' sample_failed_task)))),
      sample_failed_service)"
proof -
  have ids: "waitTargetIDs (wc_Targets sample_wait) (wc_TaskID sample_wait) = Inr [''t'']"
    by (simp add: waitTargetIDs_def sample_wait_def visible_eval)
  have before: "loadWaitTasks ''p'' (svc_repo sample_stranded_service) [''t''] = Inr [sample_stranded_task]"
    by (simp add: GetTask_def sample_stranded_service_def sample_stranded_task_def sample_failed_fields visible_eval)
  have after: "loadWaitTasks ''p'' (svc_repo sample_failed_service) [''t''] = Inr [sample_failed_task]"
    by (simp add: GetTask_def sample_failed_fields visible_eval)
  have running: "terminalWaitTasks [sample_stranded_task] = []"
    and over: "terminalWaitTasks [sample_failed_task] = [sample_failed_task]"
    by (simp_all add: terminalWaitTasks_def Terminal_def sample_stranded_task_def sample_failed_fields)
  have quiet: "ensureParentCompletionQueued sample_service_config t now s = (None, s)" for t now s
    by (simp add: ensureParentCompletionQueued_def sample_service_config_def)
  have parent: "TrimSpace (wc_ParentSessionID sample_wait) = ''p''" "TrimSpace (wc_ParentTaskID sample_wait) = []"
    by (simp_all add: sample_wait_def visible_eval)
  have event: "task_ID (ev_Task (bare_event ''task.updated'' sample_failed_task)) = ''t''"
    by (simp add: bare_event_def sample_failed_fields)
  show ?thesis
    by (simp add: Service_Wait_def ids parent before running markWaitingForChildren_def sample_finished_def
        Let_def containsWaitTarget_def event after over completedWaitResult_def quiet sample_failed_fields
        newWaitResult_def del: loadWaitTasks.simps) (simp add: sample_service_config_def)
qed


end
