(* ===== verification/Spec2Isabelle.thy ===== *)
theory Spec2Isabelle
  imports SubagentMailbox SubagentCompletion RepositoryFacts ParentCompletion ChildMessages
    TaskEventBus AgentRuntime SubagentScheduler SubagentHierarchy PendingInput SessionQueue PlanExecution
    ContextWindow ToolExecution RelaySecurity SessionTurns Compaction CatalogFacts
    SubagentInspection SubagentWait
begin

text \<open>
  A verification development for the agent server in \<open>src/core\<close>.
\<close>

end
